(* ===== verification/Konoha_Prelude.thy ===== *)
theory Konoha_Prelude
  imports Main "HOL-Library.AList" "HOL-Library.Sublist" "HOL-Library.Word"
begin

text \<open>
  What every component of the development shares: Python exceptions as values, the operations
  of Python's \<open>str\<close> and \<open>dict\<close> the sources use, and generic lemmas on lists and
  association lists.

  A Python string is a \<open>string\<close> (a list of \<open>char\<close>), one \<open>char\<close> per code
  point; the model covers the code points U+0000 to U+00FF, which hold every literal of the
  sources that a decision depends on. A Python dictionary is an association list in insertion
  order with distinct keys; \<open>AList.update\<close> is \<open>d[k] = v\<close> (it overwrites in place
  or appends) and \<open>map_of d k\<close> is \<open>d.get(k)\<close>.
\<close>

named_theorems py_simps \<open>unfolding rules for the Python operations\<close>
named_theorems konoha_intros \<open>introduction rules shared by the component proofs\<close>

type_synonym pystr = string
type_synonym 'v pydict = "(string \<times> 'v) list"

section \<open>Exceptions\<close>

text \<open>\<open>JSONDecodeError\<close> is a subclass of \<open>ValueError\<close>: a handler of the latter catches both; \<open>ValueError\<close>
  stands for the others of that class.\<close>

datatype py_exn = TypeError | KeyError | ValueError | JSONDecodeError | IndexError | RecursionError | OtherError

type_synonym 'a py = "py_exn + 'a"

text \<open>\<open>bind\<close> for code that may raise: the first exception ends the computation.\<close>

definition py_bind :: "'e + 'a \<Rightarrow> ('a \<Rightarrow> 'e + 'b) \<Rightarrow> 'e + 'b" where
  "py_bind m f = (case m of Inl e \<Rightarrow> Inl e | Inr x \<Rightarrow> f x)"

lemma py_bind_simps [simp]:
  "py_bind (Inl e) f = Inl e" "py_bind (Inr x) f = f x"
  by (simp_all add: py_bind_def)

lemma py_bind_eq_Inr [simp]: "py_bind m f = Inr y \<longleftrightarrow> (\<exists>x. m = Inr x \<and> f x = Inr y)"
  by (cases m) simp_all

section \<open>Strings\<close>

definition code_point :: "char \<Rightarrow> nat" where
  "code_point c = of_char c"

text \<open>\<open>str.isspace\<close> on one character of the range U+0000 to U+00FF.\<close>

definition py_isspace :: "char \<Rightarrow> bool" where
  "py_isspace c \<longleftrightarrow> (let n = code_point c in
     (9 \<le> n \<and> n \<le> 13) \<or> (28 \<le> n \<and> n \<le> 32) \<or> n = 133 \<or> n = 160)"

definition py_strip :: "pystr \<Rightarrow> pystr" where
  "py_strip s = rev (dropWhile py_isspace (rev (dropWhile py_isspace s)))"

text \<open>\<open>value.strip() != ""\<close>, the emptiness test the sources use throughout.\<close>

definition py_nonblank :: "pystr \<Rightarrow> bool" where
  "py_nonblank s \<longleftrightarrow> py_strip s \<noteq> []"

definition lower_char :: "char \<Rightarrow> char" where
  "lower_char c = (let n = code_point c in
     if (65 \<le> n \<and> n \<le> 90) \<or> (192 \<le> n \<and> n \<le> 222 \<and> n \<noteq> 215) then char_of (n + 32) else c)"

definition py_lower :: "pystr \<Rightarrow> pystr" where
  "py_lower s = map lower_char s"

text \<open>
  \<open>str.upper\<close>; the sharp s becomes two characters, and the two Latin-1 letters whose upper
  case lies beyond U+00FF (181 and 255) are kept.
\<close>

definition upper_char :: "char \<Rightarrow> pystr" where
  "upper_char c = (let n = code_point c in
     if n = 223 then ''SS''
     else if (97 \<le> n \<and> n \<le> 122) \<or> (224 \<le> n \<and> n \<le> 254 \<and> n \<noteq> 247) then [char_of (n - 32)]
     else [c])"

definition py_upper :: "pystr \<Rightarrow> pystr" where
  "py_upper s = concat (map upper_char s)"

text \<open>\<open>needle in text\<close> on strings.\<close>

definition py_contains :: "pystr \<Rightarrow> pystr \<Rightarrow> bool" where
  "py_contains needle text \<longleftrightarrow> sublist needle text"

definition py_startswith :: "pystr \<Rightarrow> pystr \<Rightarrow> bool" where
  "py_startswith s p \<longleftrightarrow> prefix p s"

definition py_endswith :: "pystr \<Rightarrow> pystr \<Rightarrow> bool" where
  "py_endswith s p \<longleftrightarrow> suffix p s"

text \<open>\<open>s.split(c)\<close> for a one-character separator: always at least one part.\<close>

fun py_split :: "char \<Rightarrow> pystr \<Rightarrow> pystr list" where
  "py_split c [] = [[]]"
| "py_split c (x # xs) =
     (if x = c then [] # py_split c xs
      else case py_split c xs of [] \<Rightarrow> [[x]] | p # ps \<Rightarrow> (x # p) # ps)"

text \<open>\<open>s.partition(c)\<close>, without the middle component: what precedes and what follows
  the first separator.\<close>

definition py_partition :: "char \<Rightarrow> pystr \<Rightarrow> pystr \<times> pystr" where
  "py_partition c s = (takeWhile (\<lambda>x. x \<noteq> c) s, drop 1 (dropWhile (\<lambda>x. x \<noteq> c) s))"

text \<open>\<open>s.split(c, 1)[-1]\<close>: what follows the first separator, the whole string without one.\<close>

definition py_after_first :: "char \<Rightarrow> pystr \<Rightarrow> pystr" where
  "py_after_first c s = (if c \<in> set s then drop 1 (dropWhile (\<lambda>x. x \<noteq> c) s) else s)"

text \<open>\<open>sep.join(parts)\<close>.\<close>

fun py_join :: "pystr \<Rightarrow> pystr list \<Rightarrow> pystr" where
  "py_join sep [] = []"
| "py_join sep [x] = x"
| "py_join sep (x # y # ys) = x @ sep @ py_join sep (y # ys)"

text \<open>\<open>s.encode("utf-8")\<close> on the code points of the model.\<close>

definition utf8_char :: "char \<Rightarrow> nat list" where
  "utf8_char c = (let n = code_point c in
     if n < 128 then [n] else [192 + n div 64, 128 + n mod 64])"

definition utf8_encode :: "pystr \<Rightarrow> nat list" where
  "utf8_encode s = concat (map utf8_char s)"

subsection \<open>The regular expressions of the sources\<close>

definition hex_digits :: pystr where
  "hex_digits = ''0123456789abcdef''"

definition is_hex :: "char \<Rightarrow> bool" where
  "is_hex c \<longleftrightarrow> c \<in> set hex_digits"

text \<open>\<open>^[0-9a-f]{n}$\<close> under \<open>fullmatch\<close>.\<close>

definition hex_fullmatch :: "nat \<Rightarrow> pystr \<Rightarrow> bool" where
  "hex_fullmatch n s \<longleftrightarrow> length s = n \<and> list_all is_hex s"

section \<open>Dictionaries\<close>

definition dict_get :: "'v pydict \<Rightarrow> pystr \<Rightarrow> 'v option" where
  "dict_get d k = map_of d k"

definition dict_set :: "'v pydict \<Rightarrow> pystr \<Rightarrow> 'v \<Rightarrow> 'v pydict" where
  "dict_set d k v = AList.update k v d"

definition dict_del :: "'v pydict \<Rightarrow> pystr \<Rightarrow> 'v pydict" where
  "dict_del d k = filter (\<lambda>(k', _). k' \<noteq> k) d"

text \<open>\<open>set(d) == {keys}\<close>, \<open>set(d) <= {keys}\<close>.\<close>

definition dict_keys_eq :: "'v pydict \<Rightarrow> pystr list \<Rightarrow> bool" where
  "dict_keys_eq d ks \<longleftrightarrow> list_all (\<lambda>(k, _). k \<in> set ks) d \<and> list_all (\<lambda>k. dict_get d k \<noteq> None) ks"

definition dict_wf :: "'v pydict \<Rightarrow> bool" where
  "dict_wf d \<longleftrightarrow> distinct (map fst d)"

lemma dict_get_set [simp]:
  "dict_get (dict_set d k v) k' = (if k' = k then Some v else dict_get d k')"
  by (simp add: dict_get_def dict_set_def update_conv')

lemma dict_get_Nil [simp]: "dict_get [] k = None"
  by (simp add: dict_get_def)

lemma dict_get_Cons [simp]:
  "dict_get ((k, v) # d) k' = (if k' = k then Some v else dict_get d k')"
  by (simp add: dict_get_def)

lemma dict_wf_set [simp]: "dict_wf d \<Longrightarrow> dict_wf (dict_set d k v)"
  by (simp add: dict_wf_def dict_set_def distinct_update)

lemma dict_get_del [simp]:
  "dict_get (dict_del d k) k' = (if k' = k then None else dict_get d k')"
  by (induction d) (auto simp: dict_del_def dict_get_def)

lemma dict_get_Some_in_keys: "dict_get d k = Some v \<Longrightarrow> k \<in> fst ` set d"
  by (force simp: dict_get_def dest: map_of_SomeD)

section \<open>Shared lemmas\<close>

lemma hex_fullmatch_length: "hex_fullmatch n s \<Longrightarrow> length s = n"
  by (simp add: hex_fullmatch_def)

lemma is_hex_not_space: "is_hex c \<Longrightarrow> \<not> py_isspace c"
  by (auto simp: is_hex_def hex_digits_def py_isspace_def code_point_def)

lemma py_strip_no_space:
  assumes "list_all (\<lambda>c. \<not> py_isspace c) s"
  shows "py_strip s = s"
proof -
  have "dropWhile py_isspace xs = xs" if "list_all (\<lambda>c. \<not> py_isspace c) xs" for xs
    using that by (cases xs) auto
  with assms show ?thesis
    by (simp add: py_strip_def)
qed

lemma hex_fullmatch_nonblank:
  assumes "hex_fullmatch n s" and "0 < n"
  shows "py_nonblank s"
proof -
  from assms have "list_all (\<lambda>c. \<not> py_isspace c) s" and "s \<noteq> []"
    by (auto simp: hex_fullmatch_def list_all_iff is_hex_not_space)
  then show ?thesis
    by (simp add: py_nonblank_def py_strip_no_space)
qed

text \<open>A string with a leading character that is no white space is not blank.\<close>

lemma py_nonblank_Cons:
  assumes "\<not> py_isspace c"
  shows "py_nonblank (c # s)"
proof -
  have "dropWhile py_isspace (rev (c # s)) \<noteq> []"
    using assms by (auto simp: dropWhile_eq_Nil_conv)
  with assms show ?thesis
    by (simp add: py_nonblank_def py_strip_def)
qed

lemma py_strip_idem [simp]: "py_strip (py_strip s) = py_strip s"
proof -
  let ?dw = "dropWhile py_isspace"
  have idem: "?dw (?dw xs) = ?dw xs" for xs
    by (induction xs) auto
  have hd_ok: "?dw (rev (?dw (rev xs))) = rev (?dw (rev xs))" if "xs = ?dw xs" for xs
  proof (cases "rev (?dw (rev xs))")
    case (Cons c cs)
    have "suffix (?dw (rev xs)) (rev xs)" by (rule suffix_dropWhile)
    then have "prefix (rev (?dw (rev xs))) xs"
      by (simp add: suffix_to_prefix)
    with Cons obtain ys where "xs = c # ys" by (auto simp: prefix_def)
    with that have "\<not> py_isspace c"
      by (metis dropWhile_eq_self_iff list.sel(1) list.distinct(1))
    with Cons show ?thesis by simp
  next
    case Nil
    then show ?thesis by (simp only: dropWhile.simps)
  qed
  have "?dw (rev (?dw (rev (?dw s)))) = rev (?dw (rev (?dw s)))"
    by (rule hd_ok) (simp add: idem)
  then show ?thesis
    by (simp add: py_strip_def idem)
qed

lemma py_join_singleton [simp]: "py_join sep [x] = x"
  by simp

lemma list_all_take: "list_all P xs \<Longrightarrow> list_all P (take n xs)"
  by (auto simp: list_all_iff dest: in_set_takeD)

lemma distinct_take_Suc:
  assumes "distinct xs" and "n < length xs"
  shows "xs ! n \<notin> set (take n xs)"
proof
  assume "xs ! n \<in> set (take n xs)"
  then obtain i where "i < n" "xs ! i = xs ! n"
    by (auto simp: in_set_conv_nth)
  with assms show False
    by (simp add: nth_eq_iff_index_eq)
qed

section \<open>Invariants of step relations\<close>

text \<open>
  The interface between a step relation and a claim about its histories: one step keeps the
  invariant, so every history does.
\<close>

locale kept =
  fixes step :: "'s \<Rightarrow> 's \<Rightarrow> bool" and inv :: "'s \<Rightarrow> bool"
  assumes keeps: "inv s \<Longrightarrow> step s s' \<Longrightarrow> inv s'"
begin

lemma history: "step\<^sup>*\<^sup>* s s' \<Longrightarrow> inv s \<Longrightarrow> inv s'"
  by (induction rule: rtranclp_induct) (auto intro: keeps)

end

end
