(* ===== verification/Json.thy ===== *)
theory Json
  imports Konoha_Prelude "HOL-Library.Char_ord" "HOL-Library.List_Lexorder"
begin

text \<open>
  The values \<open>json.loads\<close> produces and \<open>json.dumps\<close> prints, with the printer (with and
  without sorted keys, with the separators of the sources) and a recursive-descent parser.

  A float is kept as the decimal that \<open>repr\<close> shows for it (sign, significand, decimal
  exponent): distinct finite floats have distinct such decimals, in the same order. The parser
  keeps the exact decimal of a literal, and an escape beyond U+00FF becomes a question mark;
  no decision of the modelled code looks at either. The parser recurses on fuel; a nesting
  deeper than the interpreter's limit is the exception \<open>RecursionError\<close>, which is not a
  \<open>ValueError\<close>.
\<close>

datatype pyfloat = FFin bool nat int | FInf | FNegInf | FNaN

datatype json =
    JNull
  | JBool bool
  | JInt int
  | JFloat pyfloat
  | JStr pystr
  | JList "json list"
  | JObj "(string \<times> json) list"

type_synonym jdict = "json pydict"

section \<open>Type tests and truth\<close>

fun is_str :: "json \<Rightarrow> bool" where
  "is_str (JStr _) = True"
| "is_str _ = False"

fun is_bool :: "json \<Rightarrow> bool" where
  "is_bool (JBool _) = True"
| "is_bool _ = False"

text \<open>\<open>isinstance(v, int)\<close>: \<open>bool\<close> is a subclass of \<open>int\<close>.\<close>

fun is_int :: "json \<Rightarrow> bool" where
  "is_int (JInt _) = True"
| "is_int (JBool _) = True"
| "is_int _ = False"

fun is_list :: "json \<Rightarrow> bool" where
  "is_list (JList _) = True"
| "is_list _ = False"

fun is_dict :: "json \<Rightarrow> bool" where
  "is_dict (JObj _) = True"
| "is_dict _ = False"

text \<open>A value that can be tested for membership in a set: lists and dictionaries are not hashable.\<close>

fun hashable :: "json \<Rightarrow> bool" where
  "hashable (JList _) = False"
| "hashable (JObj _) = False"
| "hashable _ = True"

text \<open>\<open>v in {strings}\<close>, where an unhashable \<open>v\<close> raises.\<close>

definition in_str_set :: "json \<Rightarrow> pystr list \<Rightarrow> bool py" where
  "in_str_set v ks = (if \<not> hashable v then Inl TypeError
     else Inr (case v of JStr s \<Rightarrow> s \<in> set ks | _ \<Rightarrow> False))"

text \<open>\<open>isinstance(v, str) and v.strip() != ""\<close>.\<close>

fun nonblank_str :: "json \<Rightarrow> bool" where
  "nonblank_str (JStr s) = py_nonblank s"
| "nonblank_str _ = False"

text \<open>\<open>isinstance(v, str) and v\<close>.\<close>

fun nonempty_str :: "json \<Rightarrow> bool" where
  "nonempty_str (JStr s) = (s \<noteq> [])"
| "nonempty_str _ = False"

text \<open>\<open>d.get(k)\<close>; on a key that is present it is also \<open>d[k]\<close>.\<close>

definition dget :: "jdict \<Rightarrow> pystr \<Rightarrow> json" where
  "dget d k = (case dict_get d k of None \<Rightarrow> JNull | Some v \<Rightarrow> v)"

lemma dget_Cons [simp]: "dget ((k, v) # d) k' = (if k' = k then v else dget d k')"
  by (simp add: dget_def)

lemma dget_Nil [simp]: "dget [] k = JNull"
  by (simp add: dget_def)

lemma dget_set [simp]: "dget (dict_set d k v) k' = (if k' = k then v else dget d k')"
  by (simp add: dget_def)

section \<open>Reading typed values out of JSON\<close>

fun the_str :: "json \<Rightarrow> pystr" where
  "the_str (JStr s) = s"
| "the_str _ = []"

fun the_bool :: "json \<Rightarrow> bool" where
  "the_bool (JBool b) = b"
| "the_bool _ = False"

fun the_int :: "json \<Rightarrow> int" where
  "the_int (JInt i) = i"
| "the_int _ = 0"

fun the_list :: "json \<Rightarrow> json list" where
  "the_list (JList xs) = xs"
| "the_list _ = []"

fun the_obj :: "json \<Rightarrow> jdict" where
  "the_obj (JObj d) = d"
| "the_obj _ = []"

definition opt_str :: "json \<Rightarrow> pystr option" where
  "opt_str v = (if v = JNull then None else Some (the_str v))"

definition the_strs :: "json \<Rightarrow> pystr list" where
  "the_strs v = map the_str (the_list v)"

fun is_jint :: "json \<Rightarrow> bool" where
  "is_jint (JInt _) = True"
| "is_jint _ = False"

definition is_strs :: "json \<Rightarrow> bool" where
  "is_strs v = (is_list v \<and> list_all is_str (the_list v))"

definition is_opt_str :: "json \<Rightarrow> bool" where
  "is_opt_str v = (v = JNull \<or> is_str v)"

section \<open>Printing\<close>

fun nat_digits :: "nat \<Rightarrow> pystr" where
  "nat_digits n = (if n < 10 then [char_of (48 + n)] else nat_digits (n div 10) @ [char_of (48 + n mod 10)])"

declare nat_digits.simps [simp del]

definition int_repr :: "int \<Rightarrow> pystr" where
  "int_repr i = (if i < 0 then CHR ''-'' # nat_digits (nat (- i)) else nat_digits (nat i))"

text \<open>\<open>float.__repr__\<close>: fixed notation while the decimal point falls within (-4, 16].\<close>

definition float_repr :: "pyfloat \<Rightarrow> pystr" where
  "float_repr f = (case f of
     FInf \<Rightarrow> ''Infinity'' | FNegInf \<Rightarrow> ''-Infinity'' | FNaN \<Rightarrow> ''NaN''
   | FFin neg m e \<Rightarrow>
      (let ds = nat_digits m; n = int (length ds); pt = (if m = 0 then 1 else n + e);
           body =
            (if m = 0 then ''0.0''
             else if 0 < pt \<and> pt \<le> 16 then
               (if pt \<ge> n then ds @ replicate (nat (pt - n)) (CHR ''0'') @ ''.0''
                else take (nat pt) ds @ ''.'' @ drop (nat pt) ds)
             else if - 4 < pt \<and> pt \<le> 0 then ''0.'' @ replicate (nat (- pt)) (CHR ''0'') @ ds
             else take 1 ds @ (if n > 1 then ''.'' @ drop 1 ds else []) @ ''e'' @
               (if pt - 1 < 0 then ''-'' else ''+'') @
               (let x = nat_digits (nat \<bar>pt - 1\<bar>) in if length x < 2 then CHR ''0'' # x else x))
       in (if neg then CHR ''-'' # body else body)))"

definition dquote :: char where "dquote = CHR 0x22"
definition backslash :: char where "backslash = CHR 0x5C"

definition escape_char :: "char \<Rightarrow> pystr" where
  "escape_char c =
     (if c = dquote then [backslash, dquote]
      else if c = backslash then [backslash, backslash]
      else if c = CHR 0x0A then backslash # ''n''
      else if c = CHR 0x0D then backslash # ''r''
      else if c = CHR 0x09 then backslash # ''t''
      else if c = CHR 0x0C then backslash # ''f''
      else if c = CHR 0x08 then backslash # ''b''
      else if code_point c < 32 then
        backslash # ''u00'' @ [hex_digits ! (code_point c div 16), hex_digits ! (code_point c mod 16)]
      else [c])"

definition json_quote :: "pystr \<Rightarrow> pystr" where
  "json_quote s = [dquote] @ concat (map escape_char s) @ [dquote]"

text \<open>
  \<open>json.dumps(v, sort_keys=srt, ensure_ascii=False, separators=(isep, ksep))\<close>; members are
  rendered and then put in key order.
\<close>

fun json_dumps :: "pystr \<Rightarrow> pystr \<Rightarrow> bool \<Rightarrow> json \<Rightarrow> pystr" where
  "json_dumps isep ksep srt JNull = ''null''"
| "json_dumps isep ksep srt (JBool b) = (if b then ''true'' else ''false'')"
| "json_dumps isep ksep srt (JInt i) = int_repr i"
| "json_dumps isep ksep srt (JFloat f) = float_repr f"
| "json_dumps isep ksep srt (JStr s) = json_quote s"
| "json_dumps isep ksep srt (JList xs) = ''['' @ py_join isep (map (json_dumps isep ksep srt) xs) @ '']''"
| "json_dumps isep ksep srt (JObj d) =
     (let members = map (\<lambda>(k, v). (k, json_quote k @ ksep @ json_dumps isep ksep srt v)) d
      in ''{'' @ py_join isep (map snd (if srt then sort_key fst members else members)) @ ''}'')"

text \<open>The canonical form of identities and digests: sorted keys, compact separators.\<close>

definition canonical_dumps :: "json \<Rightarrow> pystr" where
  "canonical_dumps v = json_dumps '','' '':'' True v"

section \<open>Parsing\<close>

datatype 'a parse = Parsed 'a pystr | NotJson | Oversized | TooDeep

definition json_ws :: "char \<Rightarrow> bool" where
  "json_ws c \<longleftrightarrow> c = CHR '' '' \<or> c = CHR 0x09 \<or> c = CHR 0x0A \<or> c = CHR 0x0D"

definition skip_ws :: "pystr \<Rightarrow> pystr" where
  "skip_ws s = dropWhile json_ws s"

definition is_digit :: "char \<Rightarrow> bool" where
  "is_digit c \<longleftrightarrow> 48 \<le> code_point c \<and> code_point c \<le> 57"

definition hex_value :: "char \<Rightarrow> nat option" where
  "hex_value c = (let n = code_point c in
     if 48 \<le> n \<and> n \<le> 57 then Some (n - 48)
     else if 97 \<le> n \<and> n \<le> 102 then Some (n - 87)
     else if 65 \<le> n \<and> n \<le> 70 then Some (n - 55) else None)"

definition simple_escape :: "char \<Rightarrow> char option" where
  "simple_escape c =
     (if c = dquote \<or> c = backslash \<or> c = CHR ''/'' then Some c
      else if c = CHR ''n'' then Some (CHR 0x0A) else if c = CHR ''r'' then Some (CHR 0x0D)
      else if c = CHR ''t'' then Some (CHR 0x09) else if c = CHR ''f'' then Some (CHR 0x0C)
      else if c = CHR ''b'' then Some (CHR 0x08) else None)"

definition unicode_escape :: "char \<Rightarrow> char \<Rightarrow> char \<Rightarrow> char \<Rightarrow> char option" where
  "unicode_escape a b c d =
     (case (hex_value a, hex_value b, hex_value c, hex_value d) of
        (Some w, Some x, Some y, Some z) \<Rightarrow>
          Some (if w = 0 \<and> x = 0 then char_of (16 * y + z) else CHR ''?'')
      | _ \<Rightarrow> None)"

text \<open>The characters of a string literal after its opening quote, and what follows the closing one.\<close>

fun parse_string :: "pystr \<Rightarrow> (pystr \<times> pystr) option" where
  "parse_string [] = None"
| "parse_string (c # cs) =
     (if c = dquote then Some ([], cs)
      else if c = backslash then
        (case cs of
           [] \<Rightarrow> None
         | e # r \<Rightarrow>
            (if e = CHR ''u'' then
               (case r of
                  h1 # h2 # h3 # h4 # r' \<Rightarrow>
                   (case unicode_escape h1 h2 h3 h4 of
                      None \<Rightarrow> None
                    | Some x \<Rightarrow> map_option (\<lambda>(s, t). (x # s, t)) (parse_string r'))
                | _ \<Rightarrow> None)
             else (case simple_escape e of
                     None \<Rightarrow> None
                   | Some x \<Rightarrow> map_option (\<lambda>(s, t). (x # s, t)) (parse_string r))))
      else if code_point c < 32 then None
      else map_option (\<lambda>(s, t). (c # s, t)) (parse_string cs))"

definition digits_value :: "pystr \<Rightarrow> nat" where
  "digits_value ds = foldl (\<lambda>n c. 10 * n + (code_point c - 48)) 0 ds"

text \<open>The trailing zeros of a significand move into the exponent, as \<open>repr\<close> has it.\<close>

fun norm_decimal :: "nat \<Rightarrow> nat \<Rightarrow> int \<Rightarrow> nat \<times> int" where
  "norm_decimal 0 m e = (m, e)"
| "norm_decimal (Suc n) m e =
     (if m = 0 then (0, 0) else if m mod 10 = 0 then norm_decimal n (m div 10) (e + 1) else (m, e))"

definition make_float :: "bool \<Rightarrow> pystr \<Rightarrow> int \<Rightarrow> json" where
  "make_float neg ds e = (case norm_decimal (Suc (length ds)) (digits_value ds) e of
     (m, e') \<Rightarrow> JFloat (FFin neg m e'))"

text \<open>
  \<open>-?(0|[1-9][0-9]*)([.][0-9]+)?([eE][-+]?[0-9]+)?\<close>; an integer of more than 4300 digits
  meets the interpreter's conversion limit, a \<open>ValueError\<close> that is no \<open>JSONDecodeError\<close>.
\<close>

definition parse_number :: "pystr \<Rightarrow> json parse" where
  "parse_number s0 =
     (let (neg, s) = (case s0 of c # r \<Rightarrow> if c = CHR ''-'' then (True, r) else (False, s0) | [] \<Rightarrow> (False, s0));
          ip = (case s of c # r \<Rightarrow> if c = CHR ''0'' then [c] else takeWhile is_digit s | [] \<Rightarrow> []);
          r1 = drop (length ip) s;
          fp = (case r1 of c # r \<Rightarrow> if c = CHR ''.'' then takeWhile is_digit r else [] | [] \<Rightarrow> []);
          r2 = (if fp = [] then r1 else drop (Suc (length fp)) r1);
          (eneg, eds, r3) =
            (case r2 of
               c # r \<Rightarrow>
                (if c = CHR ''e'' \<or> c = CHR ''E'' then
                   (let (en, r') = (case r of d # q \<Rightarrow> if d = CHR ''-'' then (True, q)
                                       else if d = CHR ''+'' then (False, q) else (False, r) | [] \<Rightarrow> (False, r));
                        ds = takeWhile is_digit r'
                    in if ds = [] then (False, [], r2) else (en, ds, drop (length ds) r'))
                 else (False, [], r2))
             | [] \<Rightarrow> (False, [], r2))
      in if ip = [] then NotJson
         else if fp = [] \<and> eds = [] then
           (if length ip > 4300 then Oversized
            else Parsed (JInt (if neg then - int (digits_value ip) else int (digits_value ip))) r1)
         else Parsed (make_float neg (ip @ fp)
                ((if eneg then - int (digits_value eds) else int (digits_value eds)) - int (length fp))) r3)"

definition strip_word :: "pystr \<Rightarrow> pystr \<Rightarrow> pystr option" where
  "strip_word w s = (if take (length w) s = w then Some (drop (length w) s) else None)"

definition parse_atom :: "pystr \<Rightarrow> json parse" where
  "parse_atom s =
     (case strip_word ''null'' s of Some r \<Rightarrow> Parsed JNull r | None \<Rightarrow>
      case strip_word ''true'' s of Some r \<Rightarrow> Parsed (JBool True) r | None \<Rightarrow>
      case strip_word ''false'' s of Some r \<Rightarrow> Parsed (JBool False) r | None \<Rightarrow>
      case strip_word ''NaN'' s of Some r \<Rightarrow> Parsed (JFloat FNaN) r | None \<Rightarrow>
      case strip_word ''Infinity'' s of Some r \<Rightarrow> Parsed (JFloat FInf) r | None \<Rightarrow>
      case strip_word ''-Infinity'' s of Some r \<Rightarrow> Parsed (JFloat FNegInf) r | None \<Rightarrow>
      parse_number s)"

text \<open>
  What the parser reads next: a value, or the next member of an object or array whose members
  so far are the accumulator. A repeated key keeps its first position and its last value, as a
  dictionary built from the pairs does. Each step takes the parser for the rest as its argument.
\<close>

datatype parse_mode = Value | Members jdict | Elems "json list"

type_synonym parser = "parse_mode \<Rightarrow> nat \<Rightarrow> pystr \<Rightarrow> json parse"

definition open_container :: "parser \<Rightarrow> parse_mode \<Rightarrow> char \<Rightarrow> json \<Rightarrow> nat \<Rightarrow> pystr \<Rightarrow> json parse" where
  "open_container rec m closing emp depth r =
     (case depth of
        0 \<Rightarrow> TooDeep
      | Suc d \<Rightarrow> (case skip_ws r of
                    [] \<Rightarrow> NotJson
                  | q # t \<Rightarrow> if q = closing then Parsed emp t else rec m d (q # t)))"

definition value_step :: "parser \<Rightarrow> nat \<Rightarrow> pystr \<Rightarrow> json parse" where
  "value_step rec depth s =
     (case s of
        [] \<Rightarrow> NotJson
      | c # r \<Rightarrow>
         (if c = dquote then
            (case parse_string r of None \<Rightarrow> NotJson | Some (x, t) \<Rightarrow> Parsed (JStr x) t)
          else if c = CHR ''{'' then open_container rec (Members []) (CHR ''}'') (JObj []) depth r
          else if c = CHR ''['' then open_container rec (Elems []) (CHR '']'') (JList []) depth r
          else parse_atom s))"

text \<open>After a member: the container closes, or a comma announces another member.\<close>

definition after_member :: "parser \<Rightarrow> parse_mode \<Rightarrow> char \<Rightarrow> json \<Rightarrow> nat \<Rightarrow> pystr \<Rightarrow> json parse" where
  "after_member rec m closing whole depth w =
     (case skip_ws w of
        [] \<Rightarrow> NotJson
      | z # w' \<Rightarrow>
         (if z = closing then Parsed whole w'
          else if z = CHR '','' then rec m depth (skip_ws w')
          else NotJson))"

definition elems_step :: "parser \<Rightarrow> json list \<Rightarrow> nat \<Rightarrow> pystr \<Rightarrow> json parse" where
  "elems_step rec acc depth s =
     (case rec Value depth s of
        NotJson \<Rightarrow> NotJson
      | Oversized \<Rightarrow> Oversized
      | TooDeep \<Rightarrow> TooDeep
      | Parsed v w \<Rightarrow>
          after_member rec (Elems (acc @ [v])) (CHR '']'') (JList (acc @ [v])) depth w)"

definition member_key :: "pystr \<Rightarrow> (pystr \<times> pystr) option" where
  "member_key s =
     (case s of
        [] \<Rightarrow> None
      | q # r \<Rightarrow>
         (if q \<noteq> dquote then None
          else case parse_string r of
                 None \<Rightarrow> None
               | Some (k, t) \<Rightarrow>
                  (case skip_ws t of
                     [] \<Rightarrow> None
                   | col # u \<Rightarrow> if col = CHR '':'' then Some (k, skip_ws u) else None)))"

definition members_step :: "parser \<Rightarrow> jdict \<Rightarrow> nat \<Rightarrow> pystr \<Rightarrow> json parse" where
  "members_step rec acc depth s =
     (case member_key s of
        None \<Rightarrow> NotJson
      | Some (k, u) \<Rightarrow>
         (case rec Value depth u of
            NotJson \<Rightarrow> NotJson
          | Oversized \<Rightarrow> Oversized
          | TooDeep \<Rightarrow> TooDeep
          | Parsed v w \<Rightarrow>
              after_member rec (Members (dict_set acc k v)) (CHR ''}'') (JObj (dict_set acc k v)) depth w))"

primrec json_parse :: "nat \<Rightarrow> parser" where
  "json_parse 0 m depth s = NotJson"
| "json_parse (Suc f) m depth s =
     (case m of
        Value \<Rightarrow> value_step (json_parse f) depth s
      | Members acc \<Rightarrow> members_step (json_parse f) acc depth s
      | Elems acc \<Rightarrow> elems_step (json_parse f) acc depth s)"

text \<open>Every two nested calls consume a character, so twice the length is fuel enough.\<close>

definition json_fuel :: "pystr \<Rightarrow> nat" where
  "json_fuel s = 2 * length s + 2"

definition json_loads :: "nat \<Rightarrow> pystr \<Rightarrow> json py" where
  "json_loads limit s =
     (case json_parse (json_fuel s) Value limit (skip_ws s) of
        NotJson \<Rightarrow> Inl JSONDecodeError
      | Oversized \<Rightarrow> Inl ValueError
      | TooDeep \<Rightarrow> Inl RecursionError
      | Parsed v r \<Rightarrow> if skip_ws r = [] then Inr v else Inl JSONDecodeError)"

end
