(* ===== verification/Sha256.thy ===== *)
theory Sha256
  imports Konoha_Prelude
begin

text \<open>
  \<open>hashlib.sha256(text.encode("utf-8")).hexdigest()\<close>, the digest every identity of the
  program rests on (plan identities, approval identifiers, argument hashes, receipts).
  The standard-library function is written out at its width (\<open>32 word\<close>, so that
  additions wrap as FIPS 180-4 asks), and its format (64 lowercase hexadecimal digits),
  which the validators of the program check with a regular expression, is proved for every
  input.
\<close>

unbundle bit_operations_syntax

type_synonym u32 = "32 word"
type_synonym sha_state = "u32 \<times> u32 \<times> u32 \<times> u32 \<times> u32 \<times> u32 \<times> u32 \<times> u32"

text \<open>
  The round constants, as FIPS 180-4 defines them: the first 32 bits of the fractional parts of
  the cube roots of the first 64 primes (lemma \<open>sha_k_cube_roots\<close> below).
\<close>

definition sha_primes :: "int list" where
  "sha_primes = [
     2, 3, 5, 7, 11, 13, 17, 19, 23, 29, 31, 37, 41, 43, 47, 53,
     59, 61, 67, 71, 73, 79, 83, 89, 97, 101, 103, 107, 109, 113, 127, 131,
     137, 139, 149, 151, 157, 163, 167, 173, 179, 181, 191, 193, 197, 199, 211, 223,
     227, 229, 233, 239, 241, 251, 257, 263, 269, 271, 277, 281, 283, 293, 307, 311]"

definition sha_k :: "u32 list" where
  "sha_k = [
     1116352408, 1899447441, 3049323471, 3921009573, 961987163, 1508970993,
     2453635748, 2870763221, 3624381080, 310598401, 607225278, 1426881987,
     1925078388, 2162078206, 2614888103, 3248222580, 3835390401, 4022224774,
     264347078, 604807628, 770255983, 1249150122, 1555081692, 1996064986,
     2554220882, 2821834349, 2952996808, 3210313671, 3336571891, 3584528711,
     113926993, 338241895, 666307205, 773529912, 1294757372, 1396182291,
     1695183700, 1986661051, 2177026350, 2456956037, 2730485921, 2820302411,
     3259730800, 3345764771, 3516065817, 3600352804, 4094571909, 275423344,
     430227734, 506948616, 659060556, 883997877, 958139571, 1322822218,
     1537002063, 1747873779, 1955562222, 2024104815, 2227730452, 2361852424,
     2428436474, 2756734187, 3204031479, 3329325298]"

definition sha_h0 :: sha_state where
  "sha_h0 = (0x6a09e667, 0xbb67ae85, 0x3c6ef372, 0xa54ff53a,
             0x510e527f, 0x9b05688c, 0x1f83d9ab, 0x5be0cd19)"

definition sha_len_bytes :: "nat \<Rightarrow> nat list" where
  "sha_len_bytes n = map (\<lambda>i. nat ((int n * 8) div 256 ^ (7 - i) mod 256)) [0..<8]"

definition sha_pad :: "nat list \<Rightarrow> nat list" where
  "sha_pad bs = bs @ [128] @ replicate ((119 - length bs mod 64) mod 64) 0 @ sha_len_bytes (length bs)"

definition be_word :: "nat list \<Rightarrow> u32" where
  "be_word bs = foldl (\<lambda>acc b. acc * 256 + word_of_nat b) 0 bs"

fun chunks :: "nat \<Rightarrow> 'a list \<Rightarrow> 'a list list" where
  "chunks n xs = (if n = 0 \<or> xs = [] then [] else take n xs # chunks n (drop n xs))"

declare chunks.simps [simp del]

definition small_sigma0 :: "u32 \<Rightarrow> u32" where
  "small_sigma0 x = word_rotr 7 x XOR word_rotr 18 x XOR drop_bit 3 x"

definition small_sigma1 :: "u32 \<Rightarrow> u32" where
  "small_sigma1 x = word_rotr 17 x XOR word_rotr 19 x XOR drop_bit 10 x"

definition big_sigma0 :: "u32 \<Rightarrow> u32" where
  "big_sigma0 x = word_rotr 2 x XOR word_rotr 13 x XOR word_rotr 22 x"

definition big_sigma1 :: "u32 \<Rightarrow> u32" where
  "big_sigma1 x = word_rotr 6 x XOR word_rotr 11 x XOR word_rotr 25 x"

definition sha_ch :: "u32 \<Rightarrow> u32 \<Rightarrow> u32 \<Rightarrow> u32" where
  "sha_ch x y z = (x AND y) XOR (NOT x AND z)"

definition sha_maj :: "u32 \<Rightarrow> u32 \<Rightarrow> u32 \<Rightarrow> u32" where
  "sha_maj x y z = (x AND y) XOR (x AND z) XOR (y AND z)"

text \<open>The message schedule, newest word first: word 15 back is \<open>ws ! 14\<close>.\<close>

fun sha_extend :: "nat \<Rightarrow> u32 list \<Rightarrow> u32 list" where
  "sha_extend 0 ws = ws"
| "sha_extend (Suc n) ws =
     sha_extend n ((ws ! 15 + small_sigma0 (ws ! 14) + ws ! 6 + small_sigma1 (ws ! 1)) # ws)"

definition sha_schedule :: "nat list \<Rightarrow> u32 list" where
  "sha_schedule block = rev (sha_extend 48 (rev (map be_word (chunks 4 block))))"

definition sha_round :: "sha_state \<Rightarrow> u32 \<times> u32 \<Rightarrow> sha_state" where
  "sha_round st kw = (case st of (a, b, c, d, e, f, g, h) \<Rightarrow>
     let t1 = h + big_sigma1 e + sha_ch e f g + fst kw + snd kw;
         t2 = big_sigma0 a + sha_maj a b c
     in (t1 + t2, a, b, c, d + t1, e, f, g))"

definition sha_block :: "sha_state \<Rightarrow> nat list \<Rightarrow> sha_state" where
  "sha_block st block =
     (case st of (a, b, c, d, e, f, g, h) \<Rightarrow>
      case foldl sha_round st (zip sha_k (sha_schedule block)) of (a', b', c', d', e', f', g', h') \<Rightarrow>
        (a + a', b + b', c + c', d + d', e + e', f + f', g + g', h + h'))"

definition sha_digest :: "nat list \<Rightarrow> u32 list" where
  "sha_digest bs =
     (case foldl sha_block sha_h0 (chunks 64 (sha_pad bs)) of (a, b, c, d, e, f, g, h) \<Rightarrow>
        [a, b, c, d, e, f, g, h])"

definition word_hex :: "u32 \<Rightarrow> pystr" where
  "word_hex w = map (\<lambda>i. hex_digits ! (unat (drop_bit (28 - 4 * i) w AND 15))) [0..<8]"

definition sha256_hex :: "pystr \<Rightarrow> pystr" where
  "sha256_hex s = concat (map word_hex (sha_digest (utf8_encode s)))"

section \<open>The constants\<close>

text \<open>\<open>k\<close> is the fraction's first 32 bits when, for some integral part \<open>w\<close>,
  \<open>w * 2 ^ 32 + k\<close> is the integral cube root of \<open>p * 2 ^ 96\<close>; below 400 the
  integral part is at most 7.\<close>

definition cube_root_fraction :: "int \<Rightarrow> u32 \<Rightarrow> bool" where
  "cube_root_fraction p k \<longleftrightarrow>
     list_ex (\<lambda>w. (w * 4294967296 + uint k) ^ 3 \<le> p * 79228162514264337593543950336 \<and>
                 p * 79228162514264337593543950336 < (w * 4294967296 + uint k + 1) ^ 3) [1, 2, 3, 4, 5, 6, 7]"

lemma sha_k_cube_roots: "list_all2 cube_root_fraction sha_primes sha_k"
  by code_simp

section \<open>Format of the digest\<close>

lemma nibble_lt_16: "unat (x AND 15 :: u32) < 16"
proof -
  have "unat (x AND 15) \<le> unat (15 :: u32)"
    by (rule word_and_le1 [THEN word_le_nat_alt [THEN iffD1]])
  then show ?thesis by simp
qed

lemma hex_digits_nth: "i < 16 \<Longrightarrow> is_hex (hex_digits ! i)"
proof -
  assume "i < 16"
  then have "i < length hex_digits" by (simp add: hex_digits_def)
  then show ?thesis by (simp add: is_hex_def)
qed

lemma word_hex_format: "hex_fullmatch 8 (word_hex w)"
  by (simp add: hex_fullmatch_def word_hex_def list_all_iff hex_digits_nth nibble_lt_16)

lemma sha256_hex_format [simp]: "hex_fullmatch 64 (sha256_hex s)"
proof -
  obtain a b c d e f g h where
    "foldl sha_block sha_h0 (chunks 64 (sha_pad (utf8_encode s))) = (a, b, c, d, e, f, g, h)"
    by (metis surj_pair)
  then have "sha256_hex s = concat (map word_hex [a, b, c, d, e, f, g, h])"
    by (simp add: sha256_hex_def sha_digest_def)
  moreover have "length (word_hex w) = 8" and "list_all is_hex (word_hex w)" for w
    using word_hex_format [of w] by (simp_all add: hex_fullmatch_def)
  ultimately show ?thesis
    by (simp add: hex_fullmatch_def)
qed

lemma sha256_hex_nonblank [simp]: "py_nonblank (sha256_hex s)"
  using sha256_hex_format by (rule hex_fullmatch_nonblank) simp

lemma length_sha256_hex [simp]: "length (sha256_hex s) = 64"
  using sha256_hex_format by (rule hex_fullmatch_length)

text \<open>A phrase that ends in a digest's capitals has no white space at its ends.\<close>

lemma py_strip_ends:
  assumes "s \<noteq> []" and "\<not> py_isspace (hd s)" and "\<not> py_isspace (last s)"
  shows "py_strip s = s"
proof -
  have "dropWhile py_isspace s = s" using assms(1,2) by (cases s) auto
  moreover have "dropWhile py_isspace (rev s) = rev s"
    using assms(1,3) by (cases "rev s") (auto simp: hd_rev [symmetric])
  ultimately show ?thesis by (simp add: py_strip_def)
qed

lemma upper_hex: "is_hex c \<Longrightarrow> upper_char c \<noteq> [] \<and> list_all (\<lambda>d. \<not> py_isspace d) (upper_char c)"
  by (auto simp: is_hex_def hex_digits_def upper_char_def py_isspace_def code_point_def)

lemma digest_phrase_strips:
  assumes "\<not> py_isspace c"
  shows "py_strip (c # s @ py_upper (take 10 (sha256_hex m))) = c # s @ py_upper (take 10 (sha256_hex m))"
proof (rule py_strip_ends)
  let ?x = "take 10 (sha256_hex m)"
  have "list_all is_hex (sha256_hex m)" using sha256_hex_format [of m] by (simp add: hex_fullmatch_def del: sha256_hex_format)
  then have "list_all is_hex ?x" by (rule list_all_take)
  moreover have "?x \<noteq> []" using length_sha256_hex [of m] by (auto simp del: length_sha256_hex)
  ultimately have "py_upper ?x \<noteq> []" and "list_all (\<lambda>d. \<not> py_isspace d) (py_upper ?x)"
    using upper_hex by (cases ?x; force simp: py_upper_def list_all_iff)+
  then show "\<not> py_isspace (last (c # s @ py_upper ?x))" by (simp add: list_all_iff)
qed (simp_all add: assms)

end
