(* ===== verification/Models.thy ===== *)
theory Models
  imports Json Sha256
begin

text \<open>
  \<^verbatim>\<open>tools/konoha_v4/models.py\<close> and \<^verbatim>\<open>tools/konoha_v4/registry.py\<close>: the data of a mission
  (assignments, plans, evidence records, execution states, approvals), the capability registry,
  the dictionary form of a plan (\<open>dataclasses.asdict\<close>), its seal and its identity.
  Field names carry a prefix per record, since record fields share one name space.
  Fields of type \<open>dict[str, Any]\<close> hold JSON members; every other field has the type of
  its annotation.
\<close>

definition TEACHBACK_POLICIES :: "pystr list" where
  "TEACHBACK_POLICIES = [''disabled'', ''optional'', ''required'']"

definition EXECUTION_GATES :: "pystr list" where
  "EXECUTION_GATES = [''plan_approval'', ''separate_human_approval'']"

definition ASSIGNMENT_RESULT_OUTCOMES :: "pystr list" where
  "ASSIGNMENT_RESULT_OUTCOMES = [''completed'', ''blocked'', ''failed'', ''changes_requested'']"

definition ASSIGNMENT_REVIEW_OUTCOMES :: "pystr list" where
  "ASSIGNMENT_REVIEW_OUTCOMES = [''approved'', ''approved_with_notes'', ''changes_requested'', ''blocked'']"

definition EXECUTION_STATE_SCHEMA_VERSION :: pystr where
  "EXECUTION_STATE_SCHEMA_VERSION = ''1.0''"

definition EXECUTION_STATUSES :: "pystr list" where
  "EXECUTION_STATUSES = [''in_progress'', ''waiting_for_approval'', ''executing'', ''completed'',
     ''failed'', ''blocked'', ''recovery_required'']"

record AgentAssignment =
  a_task_id :: pystr
  a_family :: pystr
  a_provider :: pystr
  a_model :: pystr
  a_objective :: pystr
  a_inputs :: "pystr list"
  a_expected_output :: pystr
  a_dependencies :: "pystr list"
  a_private_context :: bool
  a_network :: bool
  a_mutation :: bool
  a_estimated_input_tokens :: int
  a_estimated_output_tokens :: int
  a_estimated_total_tokens :: int
  a_cost_class :: pystr
  a_fallback :: pystr
  a_stop_condition :: pystr
  a_execution_gate :: pystr

record MissionPlan =
  p_mission_id :: pystr
  p_understanding :: pystr
  p_explicit_facts :: "pystr list"
  p_missing_context :: "pystr list"
  p_assumptions_prohibited :: "pystr list"
  p_complexity :: pystr
  p_assignments :: "AgentAssignment list"
  p_acceptance_criteria :: "pystr list"
  p_approval_boundaries :: "pystr list"
  p_estimated_tokens :: int
  p_estimated_cost_class :: pystr
  p_rationale :: pystr
  p_approval :: jdict
  p_teachback_policy :: pystr
  p_workspace_policy :: jdict
  p_budget :: jdict
  p_governance :: jdict
  p_plan_hash :: pystr
  p_mission_constraints :: "json option"
  p_repository_evidence :: "jdict option"

record EvidenceRecord =
  ev_evidence_id :: pystr
  ev_mission_id :: pystr
  ev_task_id :: pystr
  ev_provider :: pystr
  ev_model :: pystr
  ev_status :: pystr
  ev_output :: pystr
  ev_token_usage :: "int pydict"
  ev_command :: "pystr list"
  ev_started_at :: json
  ev_finished_at :: json
  ev_output_hash :: pystr

record ExecutionState =
  st_schema_version :: pystr
  st_mission_id :: pystr
  st_plan_identity :: pystr
  st_status :: pystr
  st_next_assignment_index :: int
  st_completed_task_ids :: "pystr list"
  st_pending_task_id :: "pystr option"
  st_pending_execution_gate :: "pystr option"
  st_approval_nonce :: "pystr option"
  st_active_approval_id :: "pystr option"
  st_consumed_approval_ids :: "pystr list"
  st_evidence_ids_by_task :: "pystr pydict"
  st_executing_task_id :: "pystr option"
  st_pause_reason :: "pystr option"
  st_diagnostic :: "pystr option"
  st_updated_at :: pystr

record AssignmentApproval =
  ap_mission_id :: pystr
  ap_task_id :: pystr
  ap_execution_gate :: pystr
  ap_plan_identity :: pystr
  ap_approval_nonce :: pystr
  ap_approval_text :: pystr
  ap_approval_source :: pystr
  ap_approved_at :: pystr

section \<open>Dictionary forms\<close>

definition jstrs :: "pystr list \<Rightarrow> json" where
  "jstrs xs = JList (map JStr xs)"

lemma the_strs_jstrs: "the_strs (jstrs xs) = xs"
  by (induction xs) (auto simp: the_strs_def jstrs_def)

lemma is_list_jstrs: "is_list (jstrs xs)" "the_list (jstrs xs) = map JStr xs"
  by (simp_all add: jstrs_def)

definition jopt :: "pystr option \<Rightarrow> json" where
  "jopt x = (case x of None \<Rightarrow> JNull | Some s \<Rightarrow> JStr s)"

definition asdict_assignment :: "AgentAssignment \<Rightarrow> json" where
  "asdict_assignment a = JObj [
     (''task_id'', JStr (a_task_id a)), (''family'', JStr (a_family a)),
     (''provider'', JStr (a_provider a)), (''model'', JStr (a_model a)),
     (''objective'', JStr (a_objective a)), (''inputs'', jstrs (a_inputs a)),
     (''expected_output'', JStr (a_expected_output a)), (''dependencies'', jstrs (a_dependencies a)),
     (''private_context'', JBool (a_private_context a)), (''network'', JBool (a_network a)),
     (''mutation'', JBool (a_mutation a)),
     (''estimated_input_tokens'', JInt (a_estimated_input_tokens a)),
     (''estimated_output_tokens'', JInt (a_estimated_output_tokens a)),
     (''estimated_total_tokens'', JInt (a_estimated_total_tokens a)),
     (''cost_class'', JStr (a_cost_class a)), (''fallback'', JStr (a_fallback a)),
     (''stop_condition'', JStr (a_stop_condition a)), (''execution_gate'', JStr (a_execution_gate a))]"

definition asdict_plan :: "MissionPlan \<Rightarrow> jdict" where
  "asdict_plan p = [
     (''mission_id'', JStr (p_mission_id p)), (''understanding'', JStr (p_understanding p)),
     (''explicit_facts'', jstrs (p_explicit_facts p)), (''missing_context'', jstrs (p_missing_context p)),
     (''assumptions_prohibited'', jstrs (p_assumptions_prohibited p)),
     (''complexity'', JStr (p_complexity p)),
     (''assignments'', JList (map asdict_assignment (p_assignments p))),
     (''acceptance_criteria'', jstrs (p_acceptance_criteria p)),
     (''approval_boundaries'', jstrs (p_approval_boundaries p)),
     (''estimated_tokens'', JInt (p_estimated_tokens p)),
     (''estimated_cost_class'', JStr (p_estimated_cost_class p)), (''rationale'', JStr (p_rationale p)),
     (''approval'', JObj (p_approval p)), (''teachback_policy'', JStr (p_teachback_policy p)),
     (''workspace_policy'', JObj (p_workspace_policy p)), (''budget'', JObj (p_budget p)),
     (''governance'', JObj (p_governance p)), (''plan_hash'', JStr (p_plan_hash p)),
     (''mission_constraints'', case p_mission_constraints p of None \<Rightarrow> JNull | Some c \<Rightarrow> c),
     (''repository_evidence'', case p_repository_evidence p of None \<Rightarrow> JNull | Some d \<Rightarrow> JObj d)]"

text \<open>\<open>if self.x is None: raw.pop("x", None)\<close> for the two fields older plans do not have.\<close>

definition drop_legacy_fields :: "MissionPlan \<Rightarrow> jdict \<Rightarrow> jdict" where
  "drop_legacy_fields p raw =
     (let raw1 = (if p_repository_evidence p = None then dict_del raw ''repository_evidence'' else raw)
      in if p_mission_constraints p = None then dict_del raw1 ''mission_constraints'' else raw1)"

definition seal :: "MissionPlan \<Rightarrow> MissionPlan" where
  "seal p =
     (let raw = drop_legacy_fields p (dict_set (asdict_plan p) ''plan_hash'' (JStr []))
      in p\<lparr>p_plan_hash := take 16 (sha256_hex (json_dumps '', '' '': '' True (JObj raw)))\<rparr>)"

definition plan_identity_payload :: "MissionPlan \<Rightarrow> jdict" where
  "plan_identity_payload p =
     drop_legacy_fields p (dict_del (dict_del (asdict_plan p) ''approval'') ''plan_hash'')"

definition plan_identity :: "MissionPlan \<Rightarrow> pystr" where
  "plan_identity p = sha256_hex (canonical_dumps (JObj (plan_identity_payload p)))"

definition evidence_build ::
  "pystr \<Rightarrow> pystr \<Rightarrow> pystr \<Rightarrow> pystr \<Rightarrow> pystr \<Rightarrow> pystr \<Rightarrow> pystr \<Rightarrow> int pydict \<Rightarrow> pystr list \<Rightarrow>
   json \<Rightarrow> json \<Rightarrow> EvidenceRecord" where
  "evidence_build uuid_hex mid tid prov mdl stat out usage cmd started finished =
     \<lparr>ev_evidence_id = ''evidence-'' @ take 12 uuid_hex, ev_mission_id = mid, ev_task_id = tid,
      ev_provider = prov, ev_model = mdl, ev_status = stat, ev_output = out, ev_token_usage = usage,
      ev_command = cmd, ev_started_at = started, ev_finished_at = finished,
      ev_output_hash = sha256_hex out\<rparr>"

section \<open>The capability registry\<close>

record Capability =
  c_provider :: pystr
  c_model :: pystr
  c_eligible_families :: "pystr list"

text \<open>
  \<open>reg_models\<close> is \<open>data["models"]\<close>; \<open>reg_family\<close> is the contract read from
  \<^verbatim>\<open>agents/families/<name>.json\<close>, \<open>None\<close> when there is no such file; \<open>reg_stems\<close> the
  stems the directory lists.
\<close>

record CapabilityRegistry =
  reg_data :: jdict
  reg_models :: "Capability list"
  reg_family :: "pystr \<Rightarrow> jdict option"
  reg_stems :: "pystr list"

definition agent_family :: "CapabilityRegistry \<Rightarrow> pystr \<Rightarrow> jdict option" where
  "agent_family r name = reg_family r name"

fun model_allowed_in :: "Capability list \<Rightarrow> pystr \<Rightarrow> pystr \<Rightarrow> pystr \<Rightarrow> bool" where
  "model_allowed_in [] provider model family = False"
| "model_allowed_in (c # cs) provider model family =
     (if c_provider c \<noteq> provider then model_allowed_in cs provider model family
      else if model \<notin> {c_model c, ''provider_default''} then model_allowed_in cs provider model family
      else family \<in> set (c_eligible_families c) \<or> ''*'' \<in> set (c_eligible_families c))"

definition model_allowed :: "CapabilityRegistry \<Rightarrow> pystr \<Rightarrow> pystr \<Rightarrow> pystr \<Rightarrow> bool" where
  "model_allowed r provider model family = model_allowed_in (reg_models r) provider model family"

definition available_families :: "CapabilityRegistry \<Rightarrow> pystr list" where
  "available_families r = sort (reg_stems r)"

section \<open>Lemmas\<close>

lemma drop_legacy_fields_get:
  "dict_get (drop_legacy_fields p d) k =
     (if k = ''repository_evidence'' \<and> p_repository_evidence p = None then None
      else if k = ''mission_constraints'' \<and> p_mission_constraints p = None then None
      else dict_get d k)"
  by (simp add: drop_legacy_fields_def Let_def)

lemma plan_identity_payload_approval [simp]:
  "plan_identity_payload (p\<lparr>p_approval := x\<rparr>) = plan_identity_payload p"
  "plan_identity_payload (p\<lparr>p_plan_hash := h\<rparr>) = plan_identity_payload p"
  by (simp_all add: plan_identity_payload_def drop_legacy_fields_def asdict_plan_def dict_del_def)

lemma plan_identity_approval [simp]: "plan_identity (p\<lparr>p_approval := x\<rparr>) = plan_identity p"
  by (simp add: plan_identity_def)

lemma plan_identity_plan_hash [simp]: "plan_identity (p\<lparr>p_plan_hash := h\<rparr>) = plan_identity p"
  by (simp add: plan_identity_def)

lemma plan_identity_format [simp]: "hex_fullmatch 64 (plan_identity p)"
  by (simp add: plan_identity_def)

lemma plan_identity_seal [simp]: "plan_identity (seal p) = plan_identity p"
  by (simp add: seal_def Let_def)

lemma model_allowed_in_sound:
  "model_allowed_in cs provider model family \<Longrightarrow>
   \<exists>c \<in> set cs. c_provider c = provider \<and> (model = c_model c \<or> model = ''provider_default'') \<and>
     (family \<in> set (c_eligible_families c) \<or> ''*'' \<in> set (c_eligible_families c))"
  by (induction cs) (auto split: if_splits)

end
