(* ===== verification/Demo.thy ===== *)
theory Demo
  imports Models
begin

text \<open>
  Concrete inputs for the witnesses of the other theories: a mission with two assignments (the
  first gated by the plan's approval, the second by a separate human approval), a registry that
  knows their families, and a constraint manifest quoting the mission text.
\<close>

definition demo_a1 :: AgentAssignment where
  "demo_a1 = \<lparr>a_task_id = ''t1'', a_family = ''source-extraction'', a_provider = ''codex'',
     a_model = ''provider_default'', a_objective = ''extract'', a_inputs = [''README.md''],
     a_expected_output = ''cards'', a_dependencies = [], a_private_context = False, a_network = True,
     a_mutation = False, a_estimated_input_tokens = 60, a_estimated_output_tokens = 40,
     a_estimated_total_tokens = 100, a_cost_class = ''low'', a_fallback = ''stop'',
     a_stop_condition = ''boundary'', a_execution_gate = ''plan_approval''\<rparr>"

definition demo_a2 :: AgentAssignment where
  "demo_a2 = \<lparr>a_task_id = ''t2'', a_family = ''jounin-review'', a_provider = ''ollama'',
     a_model = ''qwen'', a_objective = ''review'', a_inputs = [], a_expected_output = ''verdict'',
     a_dependencies = [''t1''], a_private_context = False, a_network = False, a_mutation = False,
     a_estimated_input_tokens = 30, a_estimated_output_tokens = 20, a_estimated_total_tokens = 50,
     a_cost_class = ''low'', a_fallback = ''stop'', a_stop_condition = ''boundary'',
     a_execution_gate = ''separate_human_approval''\<rparr>"

definition demo_constraint :: json where
  "demo_constraint = JObj [
     (''constraint_id'', JStr ''c1''), (''source_text'', JStr ''two steps''), (''scope'', JStr ''plan''),
     (''assignment_index'', JNull), (''field'', JStr ''assignment_count''), (''operator'', JStr ''at_most''),
     (''value'', JInt 2)]"

definition demo_budget :: jdict where
  "demo_budget = [
     (''provider_totals'', JList [
        JObj [(''provider'', JStr ''codex''), (''total_tokens'', JInt 100)],
        JObj [(''provider'', JStr ''ollama''), (''total_tokens'', JInt 50)]]),
     (''family_totals'', JList [
        JObj [(''family'', JStr ''source-extraction''), (''total_tokens'', JInt 100)],
        JObj [(''family'', JStr ''jounin-review''), (''total_tokens'', JInt 50)]]),
     (''replanning_reserve_tokens'', JInt 10), (''maximum_total_tokens'', JInt 160)]"

definition demo_plan :: MissionPlan where
  "demo_plan = \<lparr>p_mission_id = ''mission-demo'', p_understanding = ''review the readme'',
     p_explicit_facts = [''two steps''], p_missing_context = [], p_assumptions_prohibited = [],
     p_complexity = ''low'', p_assignments = [demo_a1, demo_a2], p_acceptance_criteria = [''verdict''],
     p_approval_boundaries = [''network''], p_estimated_tokens = 160, p_estimated_cost_class = ''low'',
     p_rationale = ''small'', p_approval = [(''status'', JStr ''pending'')],
     p_teachback_policy = ''disabled'',
     p_workspace_policy = [(''workspace_mutation_allowed'', JBool False),
       (''private_runtime_state_allowed'', JBool True)],
     p_budget = demo_budget,
     p_governance = [(''conductor'', JStr ''codex''), (''constitutional_authority'', JStr ''hokage'')],
     p_plan_hash = [], p_mission_constraints = Some (JList [demo_constraint]),
     p_repository_evidence = None\<rparr>"

text \<open>The same plan once its human approved it.\<close>

definition demo_approved :: MissionPlan where
  "demo_approved = demo_plan\<lparr>p_approval := [(''status'', JStr ''approved'')]\<rparr>"

definition demo_contract :: jdict where
  "demo_contract = [(''allowed_task_patterns'', JList [JStr ''*'']), (''required_sources'', JList [])]"

definition demo_registry :: CapabilityRegistry where
  "demo_registry = \<lparr>reg_data = [],
     reg_models = [
       \<lparr>c_provider = ''codex'', c_model = ''gpt'', c_eligible_families = [''*'']\<rparr>,
       \<lparr>c_provider = ''ollama'', c_model = ''qwen'', c_eligible_families = [''jounin-review'']\<rparr>],
     reg_family = (\<lambda>n. if n \<in> {''source-extraction'', ''jounin-review''} then Some demo_contract else None),
     reg_stems = [''source-extraction'', ''jounin-review'']\<rparr>"

definition demo_readiness :: jdict where
  "demo_readiness = [(''codex'', JObj [(''available'', JBool True)]),
     (''ollama'', JObj [(''available'', JBool True)])]"

lemmas demo_defs = demo_a1_def demo_a2_def demo_constraint_def demo_budget_def demo_plan_def
  demo_approved_def demo_contract_def demo_registry_def demo_readiness_def

end
