(* ===== verification/Py_Values.thy ===== *)
theory Py_Values
  imports Json
begin

text \<open>
  What Python's built-in functions do with a decoded JSON value: its truth, its comparison with an
  integer, \<open>int\<close>, and the texts \<open>str\<close> and \<open>repr\<close>.
\<close>

section \<open>Truth\<close>

text \<open>\<open>bool(v)\<close>.\<close>

fun truthy :: "json \<Rightarrow> bool" where
  "truthy JNull = False"
| "truthy (JBool b) = b"
| "truthy (JInt i) = (i \<noteq> 0)"
| "truthy (JFloat (FFin _ m _)) = (m \<noteq> 0)"
| "truthy (JFloat _) = True"
| "truthy (JStr s) = (s \<noteq> [])"
| "truthy (JList xs) = (xs \<noteq> [])"
| "truthy (JObj d) = (d \<noteq> [])"

section \<open>Numbers\<close>

text \<open>\<open>_is_strict_int\<close>.\<close>

fun is_strict_int :: "json \<Rightarrow> bool" where
  "is_strict_int (JInt _) = True"
| "is_strict_int _ = False"

fun bool_int :: "bool \<Rightarrow> int" where
  "bool_int True = 1"
| "bool_int False = 0"

text \<open>The sign of \<open>\<plusminus>m * 10^e - i\<close>, in integers.\<close>

definition decimal_diff :: "bool \<Rightarrow> nat \<Rightarrow> int \<Rightarrow> int \<Rightarrow> int" where
  "decimal_diff neg m e i =
     (let s = (if neg then - int m else int m)
      in if e \<ge> 0 then s * 10 ^ nat e - i else s - i * 10 ^ nat (- e))"

text \<open>\<open>v <= i\<close> for an integer \<open>i\<close>: a value that is no number raises.\<close>

fun py_le_int :: "json \<Rightarrow> int \<Rightarrow> bool py" where
  "py_le_int (JInt j) i = Inr (j \<le> i)"
| "py_le_int (JBool b) i = Inr (bool_int b \<le> i)"
| "py_le_int (JFloat (FFin neg m e)) i = Inr (decimal_diff neg m e i \<le> 0)"
| "py_le_int (JFloat FInf) i = Inr False"
| "py_le_int (JFloat FNegInf) i = Inr True"
| "py_le_int (JFloat FNaN) i = Inr False"
| "py_le_int _ i = Inl TypeError"

text \<open>\<open>v == i\<close> for an integer \<open>i\<close>.\<close>

fun py_eq_int :: "json \<Rightarrow> int \<Rightarrow> bool" where
  "py_eq_int (JInt j) i = (j = i)"
| "py_eq_int (JBool b) i = (bool_int b = i)"
| "py_eq_int (JFloat (FFin neg m e)) i = (decimal_diff neg m e i = 0)"
| "py_eq_int _ i = False"

text \<open>The digits of an integer literal: underscores may stand between two digits.\<close>

fun int_digits :: "bool \<Rightarrow> pystr \<Rightarrow> pystr option" where
  "int_digits prev [] = (if prev then Some [] else None)"
| "int_digits prev (c # cs) =
     (if is_digit c then map_option ((#) c) (int_digits True cs)
      else if c = CHR ''_'' \<and> prev then int_digits False cs else None)"

definition int_of_str :: "pystr \<Rightarrow> int py" where
  "int_of_str s0 =
     (let s = py_strip s0;
          (neg, r) = (case s of c # r \<Rightarrow> if c = CHR ''-'' then (True, r)
                         else if c = CHR ''+'' then (False, r) else (False, s) | [] \<Rightarrow> (False, s))
      in case int_digits False r of
           None \<Rightarrow> Inl ValueError
         | Some ds \<Rightarrow> if length ds > 4300 then Inl ValueError
             else Inr (if neg then - int (digits_value ds) else int (digits_value ds)))"

text \<open>\<open>int(v)\<close>: a float is truncated towards zero.\<close>

fun py_int :: "json \<Rightarrow> int py" where
  "py_int (JInt j) = Inr j"
| "py_int (JBool b) = Inr (bool_int b)"
| "py_int (JFloat (FFin neg m e)) =
     (let a = (if e \<ge> 0 then int m * 10 ^ nat e else int m div 10 ^ nat (- e))
      in Inr (if neg then - a else a))"
| "py_int (JFloat FNaN) = Inl ValueError"
| "py_int (JFloat _) = Inl OtherError"
| "py_int (JStr s) = int_of_str s"
| "py_int _ = Inl TypeError"

section \<open>Texts\<close>

text \<open>\<open>repr\<close> of a string: single quotes unless the text holds one and no double quote; what is not
  printable is escaped.\<close>

definition hex_byte :: "nat \<Rightarrow> pystr" where
  "hex_byte n = [hex_digits ! (n div 16), hex_digits ! (n mod 16)]"

definition repr_char :: "char \<Rightarrow> char \<Rightarrow> pystr" where
  "repr_char q c =
     (let n = code_point c in
      if c = q \<or> c = backslash then [backslash, c]
      else if n = 9 then backslash # ''t'' else if n = 10 then backslash # ''n'' else if n = 13 then backslash # ''r''
      else if n < 32 \<or> (127 \<le> n \<and> n \<le> 160) \<or> n = 173 then backslash # CHR ''x'' # hex_byte n
      else [c])"

definition repr_str :: "pystr \<Rightarrow> pystr" where
  "repr_str s =
     (let q = (if CHR 0x27 \<in> set s \<and> dquote \<notin> set s then dquote else CHR 0x27)
      in [q] @ concat (map (repr_char q) s) @ [q])"

fun py_repr :: "json \<Rightarrow> pystr" where
  "py_repr JNull = ''None''"
| "py_repr (JBool b) = (if b then ''True'' else ''False'')"
| "py_repr (JInt i) = int_repr i"
| "py_repr (JFloat f) =
     (case f of FInf \<Rightarrow> ''inf'' | FNegInf \<Rightarrow> ''-inf'' | FNaN \<Rightarrow> ''nan'' | FFin _ _ _ \<Rightarrow> float_repr f)"
| "py_repr (JStr s) = repr_str s"
| "py_repr (JList xs) = ''['' @ py_join '', '' (map py_repr xs) @ '']''"
| "py_repr (JObj d) = ''{'' @ py_join '', '' (map (\<lambda>(k, v). repr_str k @ '': '' @ py_repr v) d) @ ''}''"

definition py_str :: "json \<Rightarrow> pystr" where
  "py_str v = (case v of JStr s \<Rightarrow> s | _ \<Rightarrow> py_repr v)"

section \<open>Character classes of the regular expressions\<close>

definition ascii_alnum :: "char \<Rightarrow> bool" where
  "ascii_alnum c = (let n = code_point c in (48 \<le> n \<and> n \<le> 57) \<or> (65 \<le> n \<and> n \<le> 90) \<or> (97 \<le> n \<and> n \<le> 122))"

text \<open>\<open>\w\<close> on the code points of the model, and \<open>[A-Za-z0-9_.-]\<close>.\<close>

definition word_char :: "char \<Rightarrow> bool" where
  "word_char c = (let n = code_point c in ascii_alnum c \<or> n = 95 \<or>
     n \<in> {170, 178, 179, 181, 185, 186, 188, 189, 190} \<or> (192 \<le> n \<and> n \<noteq> 215 \<and> n \<noteq> 247))"

definition path_char :: "char \<Rightarrow> bool" where
  "path_char c \<longleftrightarrow> ascii_alnum c \<or> c \<in> set ''_.-''"

end
