(* ===== verification/Hokage.thy ===== *)
theory Hokage
  imports Demo Py_Values
begin

text \<open>
  \<^verbatim>\<open>tools/konoha_v4/hokage.py\<close>: the deterministic constitutional validation of a mission
  plan. A problem is a value of \<open>problem\<close> with the data its message interpolates; the
  validator returns the list of problems or the Python exception that escapes it.
\<close>

section \<open>Constraint metadata\<close>

definition CONSTRAINT_PLAN_FIELDS :: "pystr list" where
  "CONSTRAINT_PLAN_FIELDS = [''assignment_count'', ''maximum_total_tokens'', ''replanning_reserve_tokens'']"

definition CONSTRAINT_ASSIGNMENT_FIELDS :: "pystr list" where
  "CONSTRAINT_ASSIGNMENT_FIELDS = [''task_id'', ''family'', ''provider'', ''model'', ''network'', ''mutation'',
     ''private_context'', ''execution_gate'', ''fallback'', ''dependencies'',
     ''estimated_input_tokens'', ''estimated_output_tokens'', ''estimated_total_tokens'']"

definition CONSTRAINT_FIELDS :: "pystr list" where
  "CONSTRAINT_FIELDS = CONSTRAINT_PLAN_FIELDS @ CONSTRAINT_ASSIGNMENT_FIELDS"

definition CONSTRAINT_OPERATORS :: "pystr list" where
  "CONSTRAINT_OPERATORS = [''equals'', ''at_most'']"

definition CONSTRAINT_AT_MOST_FIELDS :: "pystr list" where
  "CONSTRAINT_AT_MOST_FIELDS = [''assignment_count'', ''maximum_total_tokens'', ''replanning_reserve_tokens'',
     ''estimated_input_tokens'', ''estimated_output_tokens'', ''estimated_total_tokens'']"

definition CONSTRAINT_BOOL_FIELDS :: "pystr list" where
  "CONSTRAINT_BOOL_FIELDS = [''network'', ''mutation'', ''private_context'']"

definition CONSTRAINT_STR_FIELDS :: "pystr list" where
  "CONSTRAINT_STR_FIELDS = [''task_id'', ''family'', ''provider'', ''model'', ''execution_gate'', ''fallback'']"

definition CONSTRAINT_EXPECTED_KEYS :: "pystr list" where
  "CONSTRAINT_EXPECTED_KEYS = [''constraint_id'', ''source_text'', ''scope'', ''assignment_index'', ''field'',
     ''operator'', ''value'']"

section \<open>Problems\<close>

datatype constraint_label = AtIndex nat | WithId pystr

datatype constraint_defect =
    NotAnObject | WrongKeys | BadConstraintId | DuplicateConstraintId | BadSourceText | BadScope
  | BadField | FieldOutsideScope | IndexMustBeNull | IndexUnresolved | BadOperator | AtMostUnsupported
  | ValueNotInteger | ValueNotBoolean | ValueNotString | ValueNotIntArray | PositionOutOfRange

datatype problem =
    ConstraintsNotAList
  | NoAuthorityTexts
  | ConstraintInvalid constraint_label constraint_defect
  | ConstraintSourceNotAuthorized pystr
  | ConstraintMismatch pystr
  | MissingContext "pystr list"
  | BadGovernance
  | BadTeachbackPolicy
  | TeachbackUnjustified
  | WorkspaceNotReadOnly
  | PrivateStateNotDistinguished
  | ApprovalNotPending
  | DuplicateTaskId pystr
  | HokageMixedIn pystr
  | UnknownFamily pystr
  | ModelNotAllowed pystr pystr pystr
  | ProviderNotReady pystr pystr
  | MutationNotSupported pystr
  | NetworkWithoutBoundary pystr
  | PrivateContextWithoutBoundary pystr
  | BadExecutionGate pystr
  | FamilyWithoutPatterns pystr
  | InconsistentBudget pystr
  | NegativeBudget pystr
  | ProviderTotalsMismatch
  | FamilyTotalsMismatch
  | MaximumMismatch
  | EstimatedTokensMismatch

section \<open>Truth of an optional value\<close>

definition opt_truthy :: "json option \<Rightarrow> bool" where
  "opt_truthy v = (case v of None \<Rightarrow> False | Some x \<Rightarrow> truthy x)"

section \<open>Mission constraints\<close>

text \<open>\<open>getattr(assignment, field_name)\<close> for the fields a constraint may name.\<close>

definition assignment_field :: "AgentAssignment \<Rightarrow> pystr \<Rightarrow> json" where
  "assignment_field a f =
     (if f = ''task_id'' then JStr (a_task_id a)
      else if f = ''family'' then JStr (a_family a)
      else if f = ''provider'' then JStr (a_provider a)
      else if f = ''model'' then JStr (a_model a)
      else if f = ''network'' then JBool (a_network a)
      else if f = ''mutation'' then JBool (a_mutation a)
      else if f = ''private_context'' then JBool (a_private_context a)
      else if f = ''execution_gate'' then JStr (a_execution_gate a)
      else if f = ''fallback'' then JStr (a_fallback a)
      else if f = ''dependencies'' then jstrs (a_dependencies a)
      else if f = ''estimated_input_tokens'' then JInt (a_estimated_input_tokens a)
      else if f = ''estimated_output_tokens'' then JInt (a_estimated_output_tokens a)
      else JInt (a_estimated_total_tokens a))"

text \<open>The plan-level value a constraint of scope \<open>plan\<close> speaks of.\<close>

definition plan_field :: "MissionPlan \<Rightarrow> pystr \<Rightarrow> json" where
  "plan_field plan f =
     (if f = ''assignment_count'' then JInt (int (length (p_assignments plan)))
      else if f = ''maximum_total_tokens'' then dget (p_budget plan) ''maximum_total_tokens''
      else dget (p_budget plan) ''replanning_reserve_tokens'')"

definition valid_position :: "MissionPlan \<Rightarrow> json \<Rightarrow> bool" where
  "valid_position plan v = (case v of JInt i \<Rightarrow> 0 \<le> i \<and> i < int (length (p_assignments plan)) | _ \<Rightarrow> False)"

definition task_id_at :: "MissionPlan \<Rightarrow> json \<Rightarrow> json" where
  "task_id_at plan v = (case v of JInt i \<Rightarrow> JStr (a_task_id (p_assignments plan ! nat i)) | _ \<Rightarrow> JNull)"

text \<open>The type a constraint's value must have for its field (section B of the validator).\<close>

definition value_defect :: "MissionPlan \<Rightarrow> pystr \<Rightarrow> json \<Rightarrow> constraint_defect option" where
  "value_defect plan f v =
     (if f \<in> set CONSTRAINT_AT_MOST_FIELDS then (if is_strict_int v then None else Some ValueNotInteger)
      else if f \<in> set CONSTRAINT_BOOL_FIELDS then (if is_bool v then None else Some ValueNotBoolean)
      else if f \<in> set CONSTRAINT_STR_FIELDS then (if is_str v then None else Some ValueNotString)
      else case v of
             JList vs \<Rightarrow>
               (if \<not> list_all is_strict_int vs then Some ValueNotIntArray
                else if \<not> list_all (valid_position plan) vs then Some PositionOutOfRange else None)
           | _ \<Rightarrow> Some ValueNotIntArray)"

text \<open>Section C: does the plan have the value the constraint claims?\<close>

definition constraint_matches ::
  "MissionPlan \<Rightarrow> AgentAssignment option \<Rightarrow> pystr \<Rightarrow> pystr \<Rightarrow> json \<Rightarrow> bool py" where
  "constraint_matches plan asg f operator v =
     (let actual = (case asg of None \<Rightarrow> plan_field plan f | Some a \<Rightarrow> assignment_field a f);
          expected = (if f = ''dependencies'' then
                        (case v of JList vs \<Rightarrow> JList (map (task_id_at plan) vs) | _ \<Rightarrow> v) else v)
      in if operator = ''at_most'' then
           (case expected of JInt i \<Rightarrow> py_le_int actual i | _ \<Rightarrow> Inl TypeError)
         else Inr (case expected of JInt i \<Rightarrow> py_eq_int actual i | _ \<Rightarrow> actual = expected))"

text \<open>
  One pass of the loop body after the identifier and the source text have been accepted:
  problems of the constraint \<open>cid\<close>. An unhashable \<open>scope\<close>, \<open>field\<close> or \<open>operator\<close> makes the
  membership test raise.
\<close>

definition constraint_body ::
  "MissionPlan \<Rightarrow> pystr list option \<Rightarrow> pystr \<Rightarrow> pystr \<Rightarrow> jdict \<Rightarrow> problem list py" where
  "constraint_body plan texts cid source_text c =
    (let bad = (\<lambda>d. Inr [ConstraintInvalid (WithId cid) d]) in
     py_bind (in_str_set (dget c ''scope'') [''plan'', ''assignment'']) (\<lambda>scope_ok.
     if \<not> scope_ok then bad BadScope else
     py_bind (in_str_set (dget c ''field'') CONSTRAINT_FIELDS) (\<lambda>field_ok.
     if \<not> field_ok then bad BadField else
     let scope = (case dget c ''scope'' of JStr s \<Rightarrow> s | _ \<Rightarrow> []);
         f = (case dget c ''field'' of JStr s \<Rightarrow> s | _ \<Rightarrow> []);
         field_scope = (if f \<in> set CONSTRAINT_PLAN_FIELDS then ''plan'' else ''assignment'');
         idx = dget c ''assignment_index'';
         v = dget c ''value''
     in if field_scope \<noteq> scope then bad FieldOutsideScope
        else if scope = ''plan'' \<and> idx \<noteq> JNull then bad IndexMustBeNull
        else if scope \<noteq> ''plan'' \<and> \<not> valid_position plan idx then bad IndexUnresolved
        else
          let asg = (if scope = ''plan'' then None
                     else case idx of JInt i \<Rightarrow> Some (p_assignments plan ! nat i) | _ \<Rightarrow> None)
          in py_bind (in_str_set (dget c ''operator'') CONSTRAINT_OPERATORS) (\<lambda>op_ok.
             if \<not> op_ok then bad BadOperator else
             let operator = (case dget c ''operator'' of JStr s \<Rightarrow> s | _ \<Rightarrow> [])
             in if operator = ''at_most'' \<and> f \<notin> set CONSTRAINT_AT_MOST_FIELDS then bad AtMostUnsupported
                else case value_defect plan f v of
                  Some d \<Rightarrow> bad d
                | None \<Rightarrow>
                   (let unauthorized = (case texts of None \<Rightarrow> False
                          | Some ts \<Rightarrow> \<not> list_ex (py_contains source_text) ts)
                    in py_bind (constraint_matches plan asg f operator v) (\<lambda>ok.
                       Inr ((if unauthorized then [ConstraintSourceNotAuthorized cid] else []) @
                            (if ok then [] else [ConstraintMismatch cid])))))) ))"

text \<open>One element of the manifest: its problems and the identifiers seen so far.\<close>

definition check_constraint ::
  "MissionPlan \<Rightarrow> pystr list option \<Rightarrow> nat \<Rightarrow> pystr list \<Rightarrow> json \<Rightarrow> (problem list \<times> pystr list) py" where
  "check_constraint plan texts index seen raw =
     (let bad = (\<lambda>l d. Inr ([ConstraintInvalid l d], seen)) in
      case raw of
        JObj c \<Rightarrow>
          (if \<not> dict_keys_eq c CONSTRAINT_EXPECTED_KEYS then bad (AtIndex index) WrongKeys
           else case dget c ''constraint_id'' of
             JStr cid \<Rightarrow>
               (if \<not> py_nonblank cid then bad (AtIndex index) BadConstraintId
                else if cid \<in> set seen then bad (WithId cid) DuplicateConstraintId
                else case dget c ''source_text'' of
                  JStr source_text \<Rightarrow>
                    (if source_text = [] then Inr ([ConstraintInvalid (WithId cid) BadSourceText], cid # seen)
                     else py_bind (constraint_body plan texts cid source_text c) (\<lambda>ps. Inr (ps, cid # seen)))
                | _ \<Rightarrow> Inr ([ConstraintInvalid (WithId cid) BadSourceText], cid # seen))
           | _ \<Rightarrow> bad (AtIndex index) BadConstraintId)
      | _ \<Rightarrow> bad (AtIndex index) NotAnObject)"

fun check_constraints ::
  "MissionPlan \<Rightarrow> pystr list option \<Rightarrow> nat \<Rightarrow> pystr list \<Rightarrow> json list \<Rightarrow> problem list py" where
  "check_constraints plan texts index seen [] = Inr []"
| "check_constraints plan texts index seen (c # cs) =
     py_bind (check_constraint plan texts index seen c) (\<lambda>(ps, seen').
     py_bind (check_constraints plan texts (Suc index) seen' cs) (\<lambda>qs. Inr (ps @ qs)))"

definition validate_mission_constraints :: "MissionPlan \<Rightarrow> pystr list option \<Rightarrow> problem list py" where
  "validate_mission_constraints plan texts =
     (case p_mission_constraints plan of
        None \<Rightarrow> Inr []
      | Some (JList cs) \<Rightarrow>
          py_bind (check_constraints plan texts 0 [] cs) (\<lambda>ps.
            Inr ((if texts = None then [NoAuthorityTexts] else []) @ ps))
      | Some _ \<Rightarrow> Inr [ConstraintsNotAList])"

section \<open>Plan validation\<close>

definition report_if :: "bool \<Rightarrow> 'a \<Rightarrow> 'a list" where
  "report_if b x = (if b then [x] else [])"

definition teachback_tokens :: "pystr list" where
  "teachback_tokens = [''formaci'' @ [CHR 0xF3] @ ''n'', ''training'', ''constitucional'',
     ''safety contract'', ''solicitud expl'' @ [CHR 0xED] @ ''cita'']"

definition governance_ok :: "jdict \<Rightarrow> bool" where
  "governance_ok g \<longleftrightarrow> dict_keys_eq g [''conductor'', ''constitutional_authority''] \<and>
     dict_get g ''conductor'' = Some (JStr ''codex'') \<and>
     dict_get g ''constitutional_authority'' = Some (JStr ''hokage'')"

definition plan_level_problems :: "MissionPlan \<Rightarrow> problem list" where
  "plan_level_problems plan =
     report_if (p_missing_context plan \<noteq> []) (MissingContext (p_missing_context plan)) @
     report_if (\<not> governance_ok (p_governance plan)) BadGovernance @
     report_if (p_teachback_policy plan \<notin> set TEACHBACK_POLICIES) BadTeachbackPolicy @
     report_if (p_teachback_policy plan = ''required'' \<and>
           \<not> list_ex (\<lambda>t. py_contains t (py_lower (p_rationale plan))) teachback_tokens) TeachbackUnjustified @
     report_if (dict_get (p_workspace_policy plan) ''workspace_mutation_allowed'' \<noteq> Some (JBool False))
       WorkspaceNotReadOnly @
     report_if (\<not> opt_truthy (dict_get (p_workspace_policy plan) ''private_runtime_state_allowed''))
       PrivateStateNotDistinguished @
     report_if (dict_get (p_approval plan) ''status'' \<noteq> Some (JStr ''pending'')) ApprovalNotPending"

text \<open>\<open>isinstance(entry, dict) and entry.get("available") is True\<close>.\<close>

definition provider_ready :: "jdict \<Rightarrow> pystr \<Rightarrow> bool" where
  "provider_ready readiness prov =
     (case dict_get readiness prov of
        Some (JObj entry) \<Rightarrow> dict_get entry ''available'' = Some (JBool True)
      | _ \<Rightarrow> False)"

text \<open>The checks of one assignment whose family contract exists.\<close>

definition assignment_problems ::
  "MissionPlan \<Rightarrow> CapabilityRegistry \<Rightarrow> jdict option \<Rightarrow> jdict \<Rightarrow> AgentAssignment \<Rightarrow> problem list" where
  "assignment_problems plan reg readiness family a =
     report_if (\<not> model_allowed reg (a_provider a) (a_model a) (a_family a))
       (ModelNotAllowed (a_provider a) (a_model a) (a_family a)) @
     (case readiness of None \<Rightarrow> []
      | Some r \<Rightarrow> report_if (\<not> provider_ready r (a_provider a)) (ProviderNotReady (a_task_id a) (a_provider a))) @
     report_if (a_mutation a) (MutationNotSupported (a_task_id a)) @
     report_if (a_network a \<and> ''network'' \<notin> set (p_approval_boundaries plan)) (NetworkWithoutBoundary (a_task_id a)) @
     report_if (a_private_context a \<and> ''private_context'' \<notin> set (p_approval_boundaries plan))
       (PrivateContextWithoutBoundary (a_task_id a)) @
     report_if (a_execution_gate a \<notin> set EXECUTION_GATES) (BadExecutionGate (a_task_id a)) @
     report_if (\<not> opt_truthy (dict_get family ''allowed_task_patterns'')) (FamilyWithoutPatterns (a_family a)) @
     report_if (a_estimated_total_tokens a \<noteq> a_estimated_input_tokens a + a_estimated_output_tokens a)
       (InconsistentBudget (a_task_id a)) @
     report_if (a_estimated_total_tokens a < 0) (NegativeBudget (a_task_id a))"

record plan_totals =
  seen_ids :: "pystr list"
  provider_sum :: "int pydict"
  family_sum :: "int pydict"
  task_total :: int

definition add_to :: "int pydict \<Rightarrow> pystr \<Rightarrow> int \<Rightarrow> int pydict" where
  "add_to d k n = dict_set d k ((case dict_get d k of None \<Rightarrow> 0 | Some m \<Rightarrow> m) + n)"

text \<open>
  One turn of the loop over the assignments. An unknown family ends the turn early, before the
  totals are updated.
\<close>

definition assignment_step ::
  "MissionPlan \<Rightarrow> CapabilityRegistry \<Rightarrow> jdict option \<Rightarrow> plan_totals \<Rightarrow> AgentAssignment \<Rightarrow>
   problem list \<times> plan_totals" where
  "assignment_step plan reg readiness t a =
     (let dup = report_if (a_task_id a \<in> set (seen_ids t)) (DuplicateTaskId (a_task_id a));
          t' = t\<lparr>seen_ids := a_task_id a # seen_ids t\<rparr>;
          mixed = report_if (a_family a = ''mission-conductor'' \<and>
                    py_contains ''hokage'' (py_lower (a_task_id a @ '' '' @ a_objective a)))
                    (HokageMixedIn (a_task_id a))
      in case agent_family reg (a_family a) of
           None \<Rightarrow> (dup @ mixed @ [UnknownFamily (a_family a)], t')
         | Some family \<Rightarrow>
            (dup @ mixed @ assignment_problems plan reg readiness family a,
             t'\<lparr>task_total := task_total t + a_estimated_total_tokens a,
                provider_sum := add_to (provider_sum t) (a_provider a) (a_estimated_total_tokens a),
                family_sum := add_to (family_sum t) (a_family a) (a_estimated_total_tokens a)\<rparr>))"

fun assignment_loop ::
  "MissionPlan \<Rightarrow> CapabilityRegistry \<Rightarrow> jdict option \<Rightarrow> plan_totals \<Rightarrow> AgentAssignment list \<Rightarrow>
   problem list \<times> plan_totals" where
  "assignment_loop plan reg readiness t [] = ([], t)"
| "assignment_loop plan reg readiness t (a # as) =
     (let (ps, t') = assignment_step plan reg readiness t a;
          (qs, t'') = assignment_loop plan reg readiness t' as
      in (ps @ qs, t''))"

definition empty_totals :: plan_totals where
  "empty_totals = \<lparr>seen_ids = [], provider_sum = [], family_sum = [], task_total = 0\<rparr>"

text \<open>
  \<open>{item[key]: item["total_tokens"] for item in rows}\<close>: iterating anything but a list, or an
  element that is not a dictionary, raises, and so does an unhashable key.
\<close>

fun declared_rows :: "pystr \<Rightarrow> json list \<Rightarrow> (json \<times> json) list \<Rightarrow> (json \<times> json) list py" where
  "declared_rows key [] acc = Inr acc"
| "declared_rows key (JObj d # rows) acc =
     (case dict_get d key of
        None \<Rightarrow> Inl KeyError
      | Some k \<Rightarrow>
         (case dict_get d ''total_tokens'' of
            None \<Rightarrow> Inl KeyError
          | Some v \<Rightarrow> if hashable k then declared_rows key rows (AList.update k v acc) else Inl TypeError))"
| "declared_rows key (_ # rows) acc = Inl TypeError"

definition declared_totals :: "pystr \<Rightarrow> json option \<Rightarrow> (json \<times> json) list py" where
  "declared_totals key v =
     (case v of
        None \<Rightarrow> Inr []
      | Some (JList rows) \<Rightarrow> declared_rows key rows []
      | Some (JStr s) \<Rightarrow> if s = [] then Inr [] else Inl TypeError
      | Some (JObj d) \<Rightarrow> if d = [] then Inr [] else Inl TypeError
      | Some _ \<Rightarrow> Inl TypeError)"

text \<open>Equality of the declared dictionary with the computed totals.\<close>

definition totals_equal :: "(json \<times> json) list \<Rightarrow> int pydict \<Rightarrow> bool" where
  "totals_equal declared totals \<longleftrightarrow>
     list_all (\<lambda>(k, v). case k of
        JStr s \<Rightarrow> (case dict_get totals s of None \<Rightarrow> False | Some n \<Rightarrow> py_eq_int v n) | _ \<Rightarrow> False) declared \<and>
     list_all (\<lambda>(s, _). map_of declared (JStr s) \<noteq> None) totals"

definition budget_int :: "jdict \<Rightarrow> pystr \<Rightarrow> int py" where
  "budget_int b k = (case dict_get b k of None \<Rightarrow> Inr 0 | Some v \<Rightarrow> py_int v)"

definition budget_problems :: "MissionPlan \<Rightarrow> plan_totals \<Rightarrow> problem list py" where
  "budget_problems plan t =
     py_bind (budget_int (p_budget plan) ''replanning_reserve_tokens'') (\<lambda>reserve.
     py_bind (budget_int (p_budget plan) ''maximum_total_tokens'') (\<lambda>maximum.
     py_bind (declared_totals ''provider'' (dict_get (p_budget plan) ''provider_totals'')) (\<lambda>dp.
     py_bind (declared_totals ''family'' (dict_get (p_budget plan) ''family_totals'')) (\<lambda>df.
     Inr (report_if (\<not> totals_equal dp (provider_sum t)) ProviderTotalsMismatch @
          report_if (\<not> totals_equal df (family_sum t)) FamilyTotalsMismatch @
          report_if (maximum \<noteq> task_total t + reserve) MaximumMismatch @
          report_if (p_estimated_tokens plan \<noteq> maximum) EstimatedTokensMismatch)))))"

definition validate_plan ::
  "MissionPlan \<Rightarrow> CapabilityRegistry \<Rightarrow> jdict option \<Rightarrow> pystr list option \<Rightarrow> problem list py" where
  "validate_plan plan reg readiness texts =
     py_bind (validate_mission_constraints plan texts) (\<lambda>cps.
     let (aps, t) = assignment_loop plan reg readiness empty_totals (p_assignments plan)
     in py_bind (budget_problems plan t) (\<lambda>bps.
        Inr (cps @ plan_level_problems plan @ aps @ bps)))"

section \<open>Lemmas\<close>

lemma report_if_Nil [simp]: "report_if b x = [] \<longleftrightarrow> \<not> b"
  by (simp add: report_if_def)

text \<open>What the loop's computed dictionaries hold: the sum of the totals per key.\<close>

definition tokens_by :: "(AgentAssignment \<Rightarrow> pystr) \<Rightarrow> AgentAssignment list \<Rightarrow> pystr \<Rightarrow> int" where
  "tokens_by key as k = sum_list (map a_estimated_total_tokens (filter (\<lambda>a. key a = k) as))"

definition totals_of :: "(AgentAssignment \<Rightarrow> pystr) \<Rightarrow> AgentAssignment list \<Rightarrow> int pydict \<Rightarrow> int pydict" where
  "totals_of key as d = fold (\<lambda>a d. add_to d (key a) (a_estimated_total_tokens a)) as d"

lemma totals_of_simps [simp]:
  "totals_of key [] d = d"
  "totals_of key (a # as) d = totals_of key as (add_to d (key a) (a_estimated_total_tokens a))"
  by (simp_all add: totals_of_def)

lemma tokens_by_simps [simp]:
  "tokens_by key [] k = 0"
  "tokens_by key (a # as) k = (if key a = k then a_estimated_total_tokens a else 0) + tokens_by key as k"
  by (simp_all add: tokens_by_def)

lemma tokens_by_notin: "k \<notin> key ` set as \<Longrightarrow> tokens_by key as k = 0"
  by (induction as) auto

lemma totals_of_get:
  "dict_get (totals_of key as d) k =
     (if k \<in> key ` set as then Some ((case dict_get d k of None \<Rightarrow> 0 | Some n \<Rightarrow> n) + tokens_by key as k)
      else dict_get d k)"
  by (induction as arbitrary: d) (auto simp: add_to_def tokens_by_notin split: option.splits)

text \<open>The rules one assignment must satisfy on its own.\<close>

definition assignment_lawful ::
  "MissionPlan \<Rightarrow> CapabilityRegistry \<Rightarrow> jdict option \<Rightarrow> AgentAssignment \<Rightarrow> bool" where
  "assignment_lawful plan reg readiness a \<longleftrightarrow>
     \<not> (a_family a = ''mission-conductor'' \<and>
        py_contains ''hokage'' (py_lower (a_task_id a @ '' '' @ a_objective a))) \<and>
     (\<exists>family. agent_family reg (a_family a) = Some family \<and>
        opt_truthy (dict_get family ''allowed_task_patterns'')) \<and>
     model_allowed reg (a_provider a) (a_model a) (a_family a) \<and>
     (\<forall>r. readiness = Some r \<longrightarrow> provider_ready r (a_provider a)) \<and>
     \<not> a_mutation a \<and>
     (a_network a \<longrightarrow> ''network'' \<in> set (p_approval_boundaries plan)) \<and>
     (a_private_context a \<longrightarrow> ''private_context'' \<in> set (p_approval_boundaries plan)) \<and>
     a_execution_gate a \<in> set EXECUTION_GATES \<and>
     a_estimated_total_tokens a = a_estimated_input_tokens a + a_estimated_output_tokens a \<and>
     0 \<le> a_estimated_total_tokens a"

lemma assignment_step_Nil:
  "fst (assignment_step plan reg readiness t a) = [] \<longleftrightarrow>
     a_task_id a \<notin> set (seen_ids t) \<and> assignment_lawful plan reg readiness a"
  by (cases "agent_family reg (a_family a)"; cases readiness)
     (auto simp: assignment_step_def assignment_lawful_def assignment_problems_def Let_def not_less)

lemma assignment_step_totals:
  assumes "agent_family reg (a_family a) = Some family"
  shows "snd (assignment_step plan reg readiness t a) =
     \<lparr>seen_ids = a_task_id a # seen_ids t,
      provider_sum = add_to (provider_sum t) (a_provider a) (a_estimated_total_tokens a),
      family_sum = add_to (family_sum t) (a_family a) (a_estimated_total_tokens a),
      task_total = task_total t + a_estimated_total_tokens a\<rparr>"
  using assms by (simp add: assignment_step_def Let_def)

lemma seen_ids_step [simp]:
  "seen_ids (snd (assignment_step plan reg readiness t a)) = a_task_id a # seen_ids t"
  by (simp add: assignment_step_def Let_def split: option.split)

lemma assignment_loop_Nil:
  "fst (assignment_loop plan reg readiness t as) = [] \<longleftrightarrow>
     distinct (map a_task_id as) \<and> a_task_id ` set as \<inter> set (seen_ids t) = {} \<and>
     (\<forall>a \<in> set as. assignment_lawful plan reg readiness a)"
proof (induction as arbitrary: t)
  case (Cons a as)
  have "fst (assignment_loop plan reg readiness t (a # as)) = [] \<longleftrightarrow>
      fst (assignment_step plan reg readiness t a) = [] \<and>
      fst (assignment_loop plan reg readiness (snd (assignment_step plan reg readiness t a)) as) = []"
    by (simp add: Let_def split: prod.split)
  then show ?case
    by (auto simp: Cons.IH assignment_step_Nil)
qed simp

lemma assignment_lawful_family:
  "assignment_lawful plan reg readiness a \<Longrightarrow> \<exists>family. agent_family reg (a_family a) = Some family"
  by (auto simp: assignment_lawful_def)

lemma assignment_loop_totals:
  assumes "\<forall>a \<in> set as. assignment_lawful plan reg readiness a"
  shows "task_total (snd (assignment_loop plan reg readiness t as)) =
           task_total t + sum_list (map a_estimated_total_tokens as) \<and>
         provider_sum (snd (assignment_loop plan reg readiness t as)) = totals_of a_provider as (provider_sum t) \<and>
         family_sum (snd (assignment_loop plan reg readiness t as)) = totals_of a_family as (family_sum t)"
  using assms
proof (induction as arbitrary: t)
  case (Cons a as)
  from Cons.prems obtain family where fam: "agent_family reg (a_family a) = Some family"
    using assignment_lawful_family by fastforce
  have snd_eq: "snd (assignment_loop plan reg readiness t (a # as)) =
      snd (assignment_loop plan reg readiness (snd (assignment_step plan reg readiness t a)) as)"
    by (simp add: Let_def split: prod.split)
  show ?case
    unfolding snd_eq using Cons by (simp add: assignment_step_totals [OF fam])
qed simp

text \<open>The declared totals agree with the assignments, key by key.\<close>

definition totals_agree ::
  "(AgentAssignment \<Rightarrow> pystr) \<Rightarrow> AgentAssignment list \<Rightarrow> (json \<times> json) list \<Rightarrow> bool" where
  "totals_agree key as declared \<longleftrightarrow>
     (\<forall>(k, v) \<in> set declared. \<exists>a \<in> set as. k = JStr (key a) \<and> py_eq_int v (tokens_by key as (key a))) \<and>
     (\<forall>a \<in> set as. \<exists>v. map_of declared (JStr (key a)) = Some v)"

lemma fst_totals_of: "fst ` set (totals_of key as d) = key ` set as \<union> fst ` set d"
  by (induction as arbitrary: d) (auto simp: add_to_def dict_set_def dom_update)

lemma declared_row_agrees:
  "(case k of JStr s \<Rightarrow> (case dict_get (totals_of key as []) s of None \<Rightarrow> False | Some n \<Rightarrow> py_eq_int v n)
    | _ \<Rightarrow> False) \<longleftrightarrow> (\<exists>a \<in> set as. k = JStr (key a) \<and> py_eq_int v (tokens_by key as (key a)))"
  by (cases k) (auto simp: totals_of_get)

lemma totals_equal_agree:
  "totals_equal declared (totals_of key as []) \<longleftrightarrow> totals_agree key as declared"
proof -
  have "list_all (\<lambda>(s, _). map_of declared (JStr s) \<noteq> None) (totals_of key as []) \<longleftrightarrow>
      (\<forall>s \<in> fst ` set (totals_of key as []). map_of declared (JStr s) \<noteq> None)"
    by (auto simp: list_all_iff)
  also have "\<dots> \<longleftrightarrow> (\<forall>a \<in> set as. \<exists>v. map_of declared (JStr (key a)) = Some v)"
    by (simp add: fst_totals_of)
  finally show ?thesis
    unfolding totals_equal_def totals_agree_def
    by (simp only: declared_row_agrees list_all_iff)
qed

text \<open>The constitution a plan is held to, as one declarative predicate.\<close>

definition budget_lawful :: "MissionPlan \<Rightarrow> bool" where
  "budget_lawful plan \<longleftrightarrow>
     (\<exists>reserve dp df.
        budget_int (p_budget plan) ''replanning_reserve_tokens'' = Inr reserve \<and>
        budget_int (p_budget plan) ''maximum_total_tokens'' = Inr (p_estimated_tokens plan) \<and>
        p_estimated_tokens plan = sum_list (map a_estimated_total_tokens (p_assignments plan)) + reserve \<and>
        declared_totals ''provider'' (dict_get (p_budget plan) ''provider_totals'') = Inr dp \<and>
        declared_totals ''family'' (dict_get (p_budget plan) ''family_totals'') = Inr df \<and>
        totals_agree a_provider (p_assignments plan) dp \<and>
        totals_agree a_family (p_assignments plan) df)"

definition plan_lawful :: "MissionPlan \<Rightarrow> bool" where
  "plan_lawful plan \<longleftrightarrow>
     p_missing_context plan = [] \<and> governance_ok (p_governance plan) \<and>
     p_teachback_policy plan \<in> set TEACHBACK_POLICIES \<and>
     (p_teachback_policy plan = ''required'' \<longrightarrow>
        (\<exists>t \<in> set teachback_tokens. py_contains t (py_lower (p_rationale plan)))) \<and>
     dict_get (p_workspace_policy plan) ''workspace_mutation_allowed'' = Some (JBool False) \<and>
     opt_truthy (dict_get (p_workspace_policy plan) ''private_runtime_state_allowed'') \<and>
     dict_get (p_approval plan) ''status'' = Some (JStr ''pending'')"

lemma plan_level_problems_Nil: "plan_level_problems plan = [] \<longleftrightarrow> plan_lawful plan"
  by (auto simp: plan_level_problems_def plan_lawful_def list_ex_iff)

lemma budget_problems_Nil:
  assumes "task_total t = sum_list (map a_estimated_total_tokens (p_assignments plan))"
    and "provider_sum t = totals_of a_provider (p_assignments plan) []"
    and "family_sum t = totals_of a_family (p_assignments plan) []"
  shows "budget_problems plan t = Inr [] \<longleftrightarrow> budget_lawful plan"
  using assms by (auto simp: budget_problems_def budget_lawful_def totals_equal_agree)

text \<open>What a constraint of an accepted manifest says about the plan.\<close>

definition constraint_subject :: "MissionPlan \<Rightarrow> jdict \<Rightarrow> AgentAssignment option" where
  "constraint_subject plan c =
     (case dget c ''assignment_index'' of JInt i \<Rightarrow> Some (p_assignments plan ! nat i) | _ \<Rightarrow> None)"

definition constraint_honoured :: "MissionPlan \<Rightarrow> pystr list option \<Rightarrow> json \<Rightarrow> bool" where
  "constraint_honoured plan texts raw \<longleftrightarrow>
     (\<exists>c f operator source_text. raw = JObj c \<and>
        dget c ''field'' = JStr f \<and> f \<in> set CONSTRAINT_FIELDS \<and>
        dget c ''operator'' = JStr operator \<and> operator \<in> set CONSTRAINT_OPERATORS \<and>
        dget c ''source_text'' = JStr source_text \<and> source_text \<noteq> [] \<and>
        (\<forall>ts. texts = Some ts \<longrightarrow> (\<exists>t \<in> set ts. py_contains source_text t)) \<and>
        (dget c ''assignment_index'' \<noteq> JNull \<longrightarrow> valid_position plan (dget c ''assignment_index'')) \<and>
        constraint_matches plan (constraint_subject plan c) f operator (dget c ''value'') = Inr True)"

lemma in_str_set_True [simp]: "in_str_set v ks = Inr True \<longleftrightarrow> (\<exists>s \<in> set ks. v = JStr s)"
  by (auto simp: in_str_set_def split: json.splits)

lemma in_str_set_False [simp]:
  "in_str_set v ks = Inr False \<longleftrightarrow> hashable v \<and> (\<forall>s \<in> set ks. v \<noteq> JStr s)"
  by (auto simp: in_str_set_def split: json.splits)

lemma constraint_body_Nil:
  assumes "constraint_body plan texts cid source_text c = Inr []"
  shows "\<exists>f operator. dget c ''field'' = JStr f \<and> f \<in> set CONSTRAINT_FIELDS \<and>
     dget c ''operator'' = JStr operator \<and> operator \<in> set CONSTRAINT_OPERATORS \<and>
     (\<forall>ts. texts = Some ts \<longrightarrow> (\<exists>t \<in> set ts. py_contains source_text t)) \<and>
     (dget c ''assignment_index'' \<noteq> JNull \<longrightarrow> valid_position plan (dget c ''assignment_index'')) \<and>
     constraint_matches plan (constraint_subject plan c) f operator (dget c ''value'') = Inr True"
  using assms
  by (auto simp: constraint_body_def Let_def constraint_subject_def valid_position_def list_ex_iff
      split: if_splits option.splits json.splits)

lemma check_constraint_Nil:
  assumes "check_constraint plan texts index seen raw = Inr ([], seen')"
  shows "constraint_honoured plan texts raw"
    and "\<exists>c cid. raw = JObj c \<and> dget c ''constraint_id'' = JStr cid \<and> cid \<notin> set seen \<and> seen' = cid # seen"
proof -
  from assms obtain c cid source_text where c: "raw = JObj c" "dget c ''constraint_id'' = JStr cid"
      "dget c ''source_text'' = JStr source_text" "source_text \<noteq> []" "cid \<notin> set seen" "seen' = cid # seen"
      "constraint_body plan texts cid source_text c = Inr []"
    by (auto simp: check_constraint_def Let_def split: if_splits json.splits)
  from constraint_body_Nil [OF c(7)] c(1,3,4) show "constraint_honoured plan texts raw"
    unfolding constraint_honoured_def by blast
  from c show "\<exists>c cid. raw = JObj c \<and> dget c ''constraint_id'' = JStr cid \<and> cid \<notin> set seen \<and> seen' = cid # seen"
    by blast
qed

lemma check_constraints_Nil:
  "check_constraints plan texts index seen cs = Inr [] \<Longrightarrow> \<forall>raw \<in> set cs. constraint_honoured plan texts raw"
proof (induction cs arbitrary: index seen)
  case (Cons raw cs)
  then obtain seen' where "check_constraint plan texts index seen raw = Inr ([], seen')"
      "check_constraints plan texts (Suc index) seen' cs = Inr []"
    by auto
  with Cons.IH show ?case
    by (auto dest: check_constraint_Nil(1))
qed simp

lemma validate_mission_constraints_Nil:
  assumes "validate_mission_constraints plan texts = Inr []"
  shows "p_mission_constraints plan = None \<or>
     (\<exists>cs ts. p_mission_constraints plan = Some (JList cs) \<and> texts = Some ts \<and>
        (\<forall>raw \<in> set cs. constraint_honoured plan texts raw))"
  using assms
  by (auto simp: validate_mission_constraints_def dest!: check_constraints_Nil
      split: option.splits json.splits if_splits)

section \<open>Properties\<close>

text \<open>
  C18: the validator reports nothing exactly when the plan is lawful: its constraint manifest is
  accepted, the plan-level rules hold, task identifiers are distinct, every assignment obeys the
  rules for one assignment (known family, eligible model, ready provider, no mutation, declared
  boundaries, a known gate, a consistent non-negative budget), and the declared budget equals the
  sums over the assignments per provider, per family and in total.
\<close>

theorem validate_plan_accepts_iff:
  "validate_plan plan reg readiness texts = Inr [] \<longleftrightarrow>
     validate_mission_constraints plan texts = Inr [] \<and> plan_lawful plan \<and>
     distinct (map a_task_id (p_assignments plan)) \<and>
     (\<forall>a \<in> set (p_assignments plan). assignment_lawful plan reg readiness a) \<and> budget_lawful plan"
proof -
  let ?loop = "assignment_loop plan reg readiness empty_totals (p_assignments plan)"
  have loop: "fst ?loop = [] \<longleftrightarrow> distinct (map a_task_id (p_assignments plan)) \<and>
      (\<forall>a \<in> set (p_assignments plan). assignment_lawful plan reg readiness a)"
    by (simp add: assignment_loop_Nil empty_totals_def)
  have budget: "budget_problems plan (snd ?loop) = Inr [] \<longleftrightarrow> budget_lawful plan" if "fst ?loop = []"
  proof (rule budget_problems_Nil)
    from that have "\<forall>a \<in> set (p_assignments plan). assignment_lawful plan reg readiness a"
      by (simp add: loop)
    from assignment_loop_totals [OF this, of empty_totals]
    show "task_total (snd ?loop) = sum_list (map a_estimated_total_tokens (p_assignments plan))"
      and "provider_sum (snd ?loop) = totals_of a_provider (p_assignments plan) []"
      and "family_sum (snd ?loop) = totals_of a_family (p_assignments plan) []"
      by (simp_all add: empty_totals_def)
  qed
  have "validate_plan plan reg readiness texts = Inr [] \<longleftrightarrow>
      validate_mission_constraints plan texts = Inr [] \<and> plan_level_problems plan = [] \<and>
      fst ?loop = [] \<and> budget_problems plan (snd ?loop) = Inr []"
    by (cases ?loop) (auto simp: validate_plan_def Let_def)
  then show ?thesis
    using budget by (auto simp: plan_level_problems_Nil loop)
qed

lemma demo_plan_valid:
  "validate_plan demo_plan demo_registry (Some demo_readiness) (Some [''in two steps, please'']) = Inr []"
  by code_simp

theorem validate_plan_accepts_iff_witness:
  "validate_plan demo_plan demo_registry (Some demo_readiness) (Some [''in two steps, please'']) = Inr [] \<and>
   list_all (assignment_lawful demo_plan demo_registry (Some demo_readiness)) [demo_a1, demo_a2] \<and>
   budget_lawful demo_plan"
  using demo_plan_valid
    validate_plan_accepts_iff [of demo_plan demo_registry "Some demo_readiness" "Some [''in two steps, please'']"]
  by (simp add: demo_plan_def)

text \<open>
  In a plan the validator accepts, every entry of the constraint manifest names a known field
  and operator, quotes a text that occurs verbatim in something the human wrote, refers to an
  existing assignment if it refers to one, and the plan has the value the entry demands.
\<close>

theorem accepted_constraints_are_honoured:
  assumes "validate_plan plan reg readiness texts = Inr []" and "p_mission_constraints plan = Some manifest"
  shows "\<exists>cs ts. manifest = JList cs \<and> texts = Some ts \<and> (\<forall>raw \<in> set cs. constraint_honoured plan texts raw)"
proof -
  from assms(1) have "validate_mission_constraints plan texts = Inr []"
    by (cases "assignment_loop plan reg readiness empty_totals (p_assignments plan)")
       (auto simp: validate_plan_def Let_def)
  from validate_mission_constraints_Nil [OF this] assms(2) show ?thesis by auto
qed

theorem accepted_constraints_are_honoured_witness:
  "validate_plan demo_plan demo_registry (Some demo_readiness) (Some [''in two steps, please'']) = Inr [] \<and>
   constraint_honoured demo_plan (Some [''in two steps, please'']) demo_constraint"
proof -
  have c: "p_mission_constraints demo_plan = Some (JList [demo_constraint])" by (simp add: demo_plan_def)
  from accepted_constraints_are_honoured [OF demo_plan_valid c] demo_plan_valid show ?thesis by simp
qed

text \<open>
  The validator is meant to fail closed on any malformed manifest, but a constraint whose
  \<open>scope\<close> is a JSON array or object is not reported as a problem: the membership test hashes it,
  and the \<open>TypeError\<close> leaves \<open>validate_plan\<close>.
\<close>

theorem unhashable_scope_raises:
  assumes "p_mission_constraints plan = Some (JList [JObj c])" and "dict_keys_eq c CONSTRAINT_EXPECTED_KEYS"
    and "dget c ''constraint_id'' = JStr cid" and "py_nonblank cid"
    and "dget c ''source_text'' = JStr src" and "src \<noteq> []" and "\<not> hashable (dget c ''scope'')"
  shows "validate_plan plan reg readiness (Some ts) = Inl TypeError"
proof -
  have "in_str_set (dget c ''scope'') [''plan'', ''assignment''] = Inl TypeError"
    using assms(7) by (simp add: in_str_set_def)
  then have "check_constraint plan (Some ts) 0 [] (JObj c) = Inl TypeError"
    using assms by (simp add: check_constraint_def constraint_body_def Let_def)
  then have "validate_mission_constraints plan (Some ts) = Inl TypeError"
    using assms(1) by (simp add: validate_mission_constraints_def)
  then show ?thesis by (simp add: validate_plan_def)
qed

theorem unhashable_scope_raises_witness:
  "validate_plan (demo_plan\<lparr>p_mission_constraints := Some (JList [JObj [
      (''constraint_id'', JStr ''c1''), (''source_text'', JStr ''two steps''), (''scope'', JList []),
      (''assignment_index'', JNull), (''field'', JStr ''assignment_count''), (''operator'', JStr ''at_most''),
      (''value'', JInt 2)]])\<rparr>) demo_registry None (Some [''in two steps, please'']) = Inl TypeError" (is "validate_plan (demo_plan\<lparr>p_mission_constraints := Some (JList [JObj ?c])\<rparr>) _ _ _ = _")
proof (rule unhashable_scope_raises)
  show "p_mission_constraints (demo_plan\<lparr>p_mission_constraints := Some (JList [JObj ?c])\<rparr>) = Some (JList [JObj ?c])"
    by simp
  show "dict_keys_eq ?c CONSTRAINT_EXPECTED_KEYS" by code_simp
  show "dget ?c ''constraint_id'' = JStr ''c1''" "dget ?c ''source_text'' = JStr ''two steps''"
    "\<not> hashable (dget ?c ''scope'')" by (code_simp; fail)+
  show "py_nonblank ''c1''" by code_simp
qed simp

end
