(* ===== verification/Assignment_Result.thy ===== *)
theory Assignment_Result
  imports Demo
begin

text \<open>
  \<^verbatim>\<open>tools/konoha_v4/executor.py\<close>, the part that turns what a provider answered into an
  evidence record: the code fence, the JSON text, the structural check, the business rules, the
  outcome table and \<open>_run_assignment\<close> with its Git integrity check.
\<close>

record AssignmentResult =
  ar_outcome :: pystr
  ar_objective_satisfied :: bool
  ar_summary :: pystr
  ar_diagnostic :: json
  ar_evidence :: "json list"
  ar_review_outcome :: json

section \<open>Structural check\<close>

definition ASSIGNMENT_RESULT_REQUIRED_KEYS :: "pystr list" where
  "ASSIGNMENT_RESULT_REQUIRED_KEYS =
     [''outcome'', ''objective_satisfied'', ''summary'', ''diagnostic'', ''evidence'', ''review_outcome'']"

definition evidence_item_ok :: "json \<Rightarrow> bool" where
  "evidence_item_ok item =
     (case item of
        JObj d \<Rightarrow> dict_keys_eq d [''source'', ''observation''] \<and>
          nonblank_str (dget d ''source'') \<and> nonblank_str (dget d ''observation'')
      | _ \<Rightarrow> False)"

definition str_in :: "json \<Rightarrow> pystr list \<Rightarrow> bool" where
  "str_in v ks = (case v of JStr s \<Rightarrow> s \<in> set ks | _ \<Rightarrow> False)"

definition invalid_result_schema :: pystr where
  "invalid_result_schema = ''invalid_result_schema''"

definition validate_assignment_result_payload :: "json \<Rightarrow> pystr option" where
  "validate_assignment_result_payload payload =
     (case payload of
        JObj p \<Rightarrow>
          (if \<not> dict_keys_eq p ASSIGNMENT_RESULT_REQUIRED_KEYS then Some invalid_result_schema
           else if \<not> str_in (dget p ''outcome'') ASSIGNMENT_RESULT_OUTCOMES then Some invalid_result_schema
           else if \<not> is_bool (dget p ''objective_satisfied'') then Some invalid_result_schema
           else if \<not> nonblank_str (dget p ''summary'') then Some invalid_result_schema
           else if dget p ''diagnostic'' \<noteq> JNull \<and> \<not> is_str (dget p ''diagnostic'') then Some invalid_result_schema
           else case dget p ''evidence'' of
             JList items \<Rightarrow>
               (if \<not> list_all evidence_item_ok items then Some invalid_result_schema
                else if dget p ''review_outcome'' \<noteq> JNull \<and>
                        \<not> str_in (dget p ''review_outcome'') ASSIGNMENT_REVIEW_OUTCOMES
                     then Some invalid_result_schema
                else None)
           | _ \<Rightarrow> Some invalid_result_schema)
      | _ \<Rightarrow> Some invalid_result_schema)"

section \<open>Business rules\<close>

definition contradictory_result_fields :: pystr where
  "contradictory_result_fields = ''contradictory_result_fields''"

definition validate_assignment_result_rules :: "jdict \<Rightarrow> pystr \<Rightarrow> pystr option" where
  "validate_assignment_result_rules p family =
     (let outcome = dget p ''outcome''; satisfied = dget p ''objective_satisfied'';
          review = dget p ''review_outcome'';
          bad = Some contradictory_result_fields
      in if outcome = JStr ''completed'' \<and> satisfied \<noteq> JBool True then bad
         else if outcome \<noteq> JStr ''completed'' \<and> satisfied \<noteq> JBool False then bad
         else if family = ''jounin-review'' then
           (if review = JNull then bad
            else if str_in review [''approved'', ''approved_with_notes''] then
              (if outcome \<noteq> JStr ''completed'' \<or> satisfied \<noteq> JBool True then bad else None)
            else if review = JStr ''blocked'' then
              (if outcome \<noteq> JStr ''blocked'' \<or> satisfied \<noteq> JBool False then bad else None)
            else if review = JStr ''changes_requested'' then
              (if outcome \<noteq> JStr ''changes_requested'' \<or> satisfied \<noteq> JBool False then bad else None)
            else None)
         else if review \<noteq> JNull then bad
         else None)"

definition assignment_outcome_mapping :: "pystr \<Rightarrow> pystr \<times> pystr" where
  "assignment_outcome_mapping outcome =
     (if outcome = ''completed'' then (''completed'', ''completed'')
      else if outcome = ''blocked'' then (''blocked'', ''blocked'')
      else if outcome = ''changes_requested'' then (''blocked'', ''changes_requested'')
      else (''failed'', ''assignment_failed''))"

section \<open>The text of a result\<close>

definition fence :: pystr where "fence = ''```''"
definition CR :: char where "CR = CHR 0x0D"
definition LF :: char where "LF = CHR 0x0A"

text \<open>\<open>re.compile(r"^```(json)?\r?\n").match\<close>: what follows the header.\<close>

definition fence_header :: "pystr \<Rightarrow> pystr option" where
  "fence_header s =
     (case strip_word fence s of
        None \<Rightarrow> None
      | Some r \<Rightarrow>
         (let r1 = (case strip_word ''json'' r of Some q \<Rightarrow> q | None \<Rightarrow> r);
              r2 = (case strip_word [CR] r1 of Some q \<Rightarrow> q | None \<Rightarrow> r1)
          in strip_word [LF] r2))"

definition drop_last :: "nat \<Rightarrow> 'a list \<Rightarrow> 'a list" where
  "drop_last n xs = take (length xs - n) xs"

definition extract_single_fenced_block :: "pystr \<Rightarrow> pystr py" where
  "extract_single_fenced_block stripped =
     (case fence_header stripped of
        None \<Rightarrow> Inl ValueError
      | Some rest \<Rightarrow>
         (if \<not> py_endswith rest fence then Inl ValueError
          else let b = drop_last 3 rest
               in if py_endswith b [CR, LF] then Inr (drop_last 2 b)
                  else if py_endswith b [LF] then Inr (drop_last 1 b)
                  else Inl ValueError))"

definition parse_assignment_result_text :: "nat \<Rightarrow> pystr \<Rightarrow> json py" where
  "parse_assignment_result_text limit text =
     (let stripped = py_strip text
      in py_bind (if py_startswith stripped fence then extract_single_fenced_block stripped else Inr stripped)
           (json_loads limit))"

section \<open>Running one assignment\<close>

text \<open>
  What the world answers to one run: the provider call returns, raises an \<open>Exception\<close> (its
  text becomes the output) or is interrupted; \<open>git status\<close> prints the state or fails.
\<close>

datatype invoke_outcome =
    InvokeReturns pystr "int pydict" "pystr list"
  | InvokeRaises pystr
  | InvokeInterrupted

datatype git_outcome = GitClean pystr | GitTimeout | GitFailed

definition git_diagnostic :: "git_outcome \<Rightarrow> pystr option" where
  "git_diagnostic g = (case g of GitClean _ \<Rightarrow> None | GitTimeout \<Rightarrow> Some ''git_status_timeout''
     | GitFailed \<Rightarrow> Some ''git_status_failed'')"

record run_env =
  r_invoke :: invoke_outcome
  r_git_after :: git_outcome
  r_limit :: nat
  r_uuid :: pystr
  r_started :: json
  r_finished :: json

text \<open>Judging the provider's text: status and stable diagnostic.\<close>

definition judge_result_text :: "nat \<Rightarrow> pystr \<Rightarrow> pystr \<Rightarrow> (pystr \<times> pystr) py" where
  "judge_result_text limit family text =
     (case parse_assignment_result_text limit text of
        Inl e \<Rightarrow> (if e \<in> {ValueError, JSONDecodeError} then Inr (''failed'', ''invalid_result_json'') else Inl e)
      | Inr payload \<Rightarrow>
         (case validate_assignment_result_payload payload of
            Some err \<Rightarrow> Inr (''failed'', err)
          | None \<Rightarrow>
             (case payload of
                JObj p \<Rightarrow>
                  (case validate_assignment_result_rules p family of
                     Some err \<Rightarrow> Inr (''failed'', err)
                   | None \<Rightarrow> (case dget p ''outcome'' of
                        JStr outcome \<Rightarrow> Inr (assignment_outcome_mapping outcome)
                      | _ \<Rightarrow> Inl KeyError))
              | _ \<Rightarrow> Inl TypeError)))"

definition git_failure_text :: "pystr \<Rightarrow> pystr" where
  "git_failure_text diagnostic = diagnostic @ '': la verificaci'' @ [CHR 0xF3] @ ''n Git posterior a la ejecuci'' @
     [CHR 0xF3] @ ''n fall'' @ [CHR 0xF3] @ ''.''"

definition mutation_text :: "pystr \<Rightarrow> pystr \<Rightarrow> pystr" where
  "mutation_text baseline after =
     ''El estado Git cambi'' @ [CHR 0xF3] @ '' durante una tarea read-only. '' @
     ''La ejecuci'' @ [CHR 0xF3] @ ''n fue detenida.'' @ [LF, LF] @ ''ANTES:'' @ [LF] @ baseline @
     [LF] @ ''DESPU'' @ [CHR 0xC9] @ ''S:'' @ [LF] @ after"

datatype run_exn = ResultRaised py_exn | Interrupted

text \<open>The provider call and the judgement of its text: status, diagnostic, output, usage, command.\<close>

definition provider_verdict ::
  "run_env \<Rightarrow> pystr \<Rightarrow> run_exn + pystr \<times> pystr \<times> pystr \<times> int pydict \<times> pystr list" where
  "provider_verdict r family =
     (case r_invoke r of
        InvokeInterrupted \<Rightarrow> Inl Interrupted
      | InvokeRaises msg \<Rightarrow> Inr (''failed'', ''process_error'', msg, [], [])
      | InvokeReturns reply usage command \<Rightarrow>
          (case judge_result_text (r_limit r) family reply of
             Inl e \<Rightarrow> Inl (ResultRaised e)
           | Inr (status, diagnostic) \<Rightarrow> Inr (status, diagnostic, reply, usage, command)))"

text \<open>The Git check after the call overrides the verdict.\<close>

definition git_verdict :: "git_outcome \<Rightarrow> pystr \<Rightarrow> pystr \<times> pystr \<times> pystr \<Rightarrow> pystr \<times> pystr \<times> pystr" where
  "git_verdict g baseline verdict =
     (case g of
        GitClean after \<Rightarrow>
          (if after \<noteq> baseline
           then (''failed'', ''workspace_mutation_detected'', mutation_text baseline after)
           else verdict)
      | GitTimeout \<Rightarrow> (''failed'', ''git_status_timeout'', git_failure_text ''git_status_timeout'')
      | GitFailed \<Rightarrow> (''failed'', ''git_status_failed'', git_failure_text ''git_status_failed''))"

definition run_assignment ::
  "run_env \<Rightarrow> MissionPlan \<Rightarrow> AgentAssignment \<Rightarrow> pystr \<Rightarrow> run_exn + EvidenceRecord \<times> pystr" where
  "run_assignment r plan task baseline =
     py_bind (provider_verdict r (a_family task)) (\<lambda>(status0, diagnostic0, output0, usage, command).
       case git_verdict (r_git_after r) baseline (status0, diagnostic0, output0) of
         (status, diagnostic, output_text) \<Rightarrow>
           Inr (evidence_build (r_uuid r) (p_mission_id plan) (a_task_id task) (a_provider task)
                  (a_model task) status output_text usage command (r_started r) (r_finished r),
                diagnostic))"

section \<open>Lemmas\<close>

text \<open>What an accepted payload promises, per family.\<close>

definition result_accepts :: "pystr \<Rightarrow> json \<Rightarrow> pystr \<Rightarrow> bool" where
  "result_accepts family payload outcome \<longleftrightarrow>
     (\<exists>p. payload = JObj p \<and> dict_keys_eq p ASSIGNMENT_RESULT_REQUIRED_KEYS \<and>
        dget p ''outcome'' = JStr outcome \<and> outcome \<in> set ASSIGNMENT_RESULT_OUTCOMES \<and>
        dget p ''objective_satisfied'' = JBool (outcome = ''completed'') \<and>
        nonblank_str (dget p ''summary'') \<and>
        (dget p ''diagnostic'' = JNull \<or> is_str (dget p ''diagnostic'')) \<and>
        (\<exists>items. dget p ''evidence'' = JList items \<and> (\<forall>i \<in> set items. evidence_item_ok i)) \<and>
        (if family = ''jounin-review''
         then (outcome, dget p ''review_outcome'') \<in>
                {(''completed'', JStr ''approved''), (''completed'', JStr ''approved_with_notes''),
                 (''blocked'', JStr ''blocked''), (''changes_requested'', JStr ''changes_requested'')}
         else dget p ''review_outcome'' = JNull))"

lemma str_in_iff [simp]: "str_in v ks \<longleftrightarrow> (\<exists>s \<in> set ks. v = JStr s)"
  by (auto simp: str_in_def split: json.splits)

lemma is_bool_iff: "is_bool v \<longleftrightarrow> (\<exists>b. v = JBool b)"
  by (cases v) auto

lemma validate_payload_None:
  "validate_assignment_result_payload payload = None \<longleftrightarrow>
     (\<exists>p items. payload = JObj p \<and> dict_keys_eq p ASSIGNMENT_RESULT_REQUIRED_KEYS \<and>
        (\<exists>s \<in> set ASSIGNMENT_RESULT_OUTCOMES. dget p ''outcome'' = JStr s) \<and>
        is_bool (dget p ''objective_satisfied'') \<and> nonblank_str (dget p ''summary'') \<and>
        (dget p ''diagnostic'' = JNull \<or> is_str (dget p ''diagnostic'')) \<and>
        dget p ''evidence'' = JList items \<and> list_all evidence_item_ok items \<and>
        (dget p ''review_outcome'' = JNull \<or>
          (\<exists>s \<in> set ASSIGNMENT_REVIEW_OUTCOMES. dget p ''review_outcome'' = JStr s)))"
  by (cases payload)
     (auto simp: validate_assignment_result_payload_def split: json.splits)

lemma rules_None:
  assumes "dget p ''outcome'' = JStr outcome" and "is_bool (dget p ''objective_satisfied'')"
    and "dget p ''review_outcome'' = JNull \<or>
      (\<exists>s \<in> set ASSIGNMENT_REVIEW_OUTCOMES. dget p ''review_outcome'' = JStr s)"
  shows "validate_assignment_result_rules p family = None \<longleftrightarrow>
     dget p ''objective_satisfied'' = JBool (outcome = ''completed'') \<and>
     (if family = ''jounin-review''
      then (outcome, dget p ''review_outcome'') \<in>
             {(''completed'', JStr ''approved''), (''completed'', JStr ''approved_with_notes''),
              (''blocked'', JStr ''blocked''), (''changes_requested'', JStr ''changes_requested'')}
      else dget p ''review_outcome'' = JNull)"
proof -
  from assms(2) obtain b where b: "dget p ''objective_satisfied'' = JBool b"
    by (auto simp: is_bool_iff)
  from assms(3) consider "dget p ''review_outcome'' = JNull"
    | "dget p ''review_outcome'' = JStr ''approved''"
    | "dget p ''review_outcome'' = JStr ''approved_with_notes''"
    | "dget p ''review_outcome'' = JStr ''changes_requested''"
    | "dget p ''review_outcome'' = JStr ''blocked''"
    unfolding ASSIGNMENT_REVIEW_OUTCOMES_def list.set by blast
  then show ?thesis
    by cases (simp_all add: validate_assignment_result_rules_def Let_def assms(1) b)
qed

lemma accepted_payload_iff:
  "validate_assignment_result_payload (JObj p) = None \<and> validate_assignment_result_rules p family = None \<and>
     dget p ''outcome'' = JStr outcome \<longleftrightarrow> result_accepts family (JObj p) outcome" (is "?l \<longleftrightarrow> ?r")
proof
  assume ?l
  then show ?r
    using rules_None [of p outcome family]
    by (auto simp: validate_payload_None result_accepts_def list_all_iff)
next
  assume r: ?r
  then have "validate_assignment_result_payload (JObj p) = None"
    by (auto simp: validate_payload_None result_accepts_def list_all_iff ASSIGNMENT_REVIEW_OUTCOMES_def
        split: if_splits)
  moreover from this r have "validate_assignment_result_rules p family = None"
    by (subst rules_None) (auto simp: validate_payload_None result_accepts_def)
  ultimately show ?l
    using r by (simp add: result_accepts_def)
qed

lemma outcome_mapping_completed [simp]:
  "fst (assignment_outcome_mapping outcome) = ''completed'' \<longleftrightarrow> outcome = ''completed''"
  by (simp add: assignment_outcome_mapping_def)

lemma outcome_mapping_pair:
  "assignment_outcome_mapping outcome = (''completed'', d) \<longleftrightarrow> outcome = ''completed'' \<and> d = ''completed''"
  by (auto simp: assignment_outcome_mapping_def)

lemma judge_completed:
  "judge_result_text limit family text = Inr (''completed'', d) \<longleftrightarrow>
     d = ''completed'' \<and>
     (\<exists>payload. parse_assignment_result_text limit text = Inr payload \<and> result_accepts family payload ''completed'')"
proof (cases "parse_assignment_result_text limit text")
  case (Inl e)
  then show ?thesis by (cases e) (simp_all add: judge_result_text_def)
next
  case (Inr payload)
  show ?thesis
  proof (cases "validate_assignment_result_payload payload")
    case None
    then obtain p outcome where p: "payload = JObj p" "dget p ''outcome'' = JStr outcome"
      by (auto simp: validate_payload_None)
    show ?thesis
      using accepted_payload_iff [of p family "''completed''"] None p Inr
      by (cases "validate_assignment_result_rules p family")
         (auto simp: judge_result_text_def outcome_mapping_pair)
  next
    case (Some err)
    have "\<not> result_accepts family payload ''completed''"
    proof
      assume r: "result_accepts family payload ''completed''"
      then obtain p where "payload = JObj p" unfolding result_accepts_def by blast
      with r Some accepted_payload_iff [of p family "''completed''"] show False by simp
    qed
    with Some Inr show ?thesis by (simp add: judge_result_text_def)
  qed
qed

subsection \<open>Fences\<close>

lemma strip_word_append [simp]: "strip_word w (w @ s) = Some s"
  by (simp add: strip_word_def)

lemma strip_word_Cons: "strip_word (c # w) (d # s) = (if c = d then strip_word w s else None)"
  by (simp add: strip_word_def)

lemma strip_word_Nil [simp]: "strip_word [] s = Some s" "strip_word (c # w) [] = None"
  by (simp_all add: strip_word_def)

lemma dropWhile_hd_not: "s \<noteq> [] \<Longrightarrow> \<not> P (hd s) \<Longrightarrow> dropWhile P s = s"
  by (cases s) simp_all

text \<open>White space around a text whose first and last characters are none is stripped exactly.\<close>

lemma py_strip_pad:
  assumes "list_all py_isspace pre" and "list_all py_isspace post"
    and "s \<noteq> []" and "\<not> py_isspace (hd s)" and "\<not> py_isspace (last s)"
  shows "py_strip (pre @ s @ post) = s"
proof -
  have "dropWhile py_isspace (pre @ s @ post) = s @ post"
    using assms by (simp add: dropWhile_append2 list_all_iff dropWhile_hd_not)
  moreover have "dropWhile py_isspace (rev post @ rev s) = rev s"
    using assms by (subst dropWhile_append2) (simp_all add: list_all_iff dropWhile_hd_not hd_rev)
  ultimately show ?thesis
    by (simp add: py_strip_def)
qed

lemma fence_chars: "fence \<noteq> []" "hd fence = CHR ''`''" "last fence = CHR ''`''"
  "\<not> py_isspace (CHR ''`'')"
  by (simp_all add: fence_def py_isspace_def code_point_def)

definition fence_marker :: "pystr \<Rightarrow> bool" where
  "fence_marker lang \<longleftrightarrow> lang = [] \<or> lang = ''json''"

lemma fence_header_lines:
  assumes "fence_marker lang" and "eol = [LF] \<or> eol = [CR, LF]"
  shows "fence_header (fence @ lang @ eol @ rest) = Some rest"
proof -
  have [simp]: "LF \<noteq> CHR ''j''" "CHR ''j'' \<noteq> LF" "CHR ''j'' \<noteq> CR" "CR \<noteq> LF" "LF \<noteq> CR"
    by (simp_all add: LF_def CR_def)
  from assms show ?thesis
    by (auto simp: fence_header_def fence_marker_def strip_word_Cons Let_def)
qed

lemma drop_last_append [simp]: "length ys = n \<Longrightarrow> drop_last n (xs @ ys) = xs"
  by (simp add: drop_last_def)

lemma extract_fenced:
  assumes "fence_marker lang" and "eol = [LF] \<or> eol = [CR, LF]" and "\<not> py_endswith body [CR]"
  shows "extract_single_fenced_block (fence @ lang @ eol @ body @ eol @ fence) = Inr body"
proof -
  have rest: "py_endswith ((body @ eol) @ fence) fence"
    unfolding py_endswith_def by (rule suffixI) simp
  have len: "length fence = 3"
    by (simp add: fence_def)
  have body: "drop_last 3 ((body @ eol) @ fence) = body @ eol"
    using len by (simp only: drop_last_append)
  have lf: "py_endswith (body @ [LF]) [CR, LF] = py_endswith body [CR]"
    by (simp add: py_endswith_def suffix_def)
  have ends: "py_endswith (body @ [CR, LF]) [CR, LF]" "py_endswith (body @ [LF]) [LF]"
    unfolding py_endswith_def by (rule suffixI, simp)+
  have cut: "drop_last 2 (body @ [CR, LF]) = body" "drop_last 1 (body @ [LF]) = body"
    by (simp_all only: drop_last_append list.size One_nat_def numeral_2_eq_2)
  have "fence_header (fence @ lang @ eol @ body @ eol @ fence) = Some ((body @ eol) @ fence)"
    using fence_header_lines [OF assms(1,2)] by simp
  then have "extract_single_fenced_block (fence @ lang @ eol @ body @ eol @ fence) =
      (if py_endswith (body @ eol) [CR, LF] then Inr (drop_last 2 (body @ eol))
       else if py_endswith (body @ eol) [LF] then Inr (drop_last 1 (body @ eol)) else Inl ValueError)"
    by (simp only: extract_single_fenced_block_def option.case rest body Let_def if_True not_True_eq_False if_False)
  also have "\<dots> = Inr body"
    using assms(2,3) lf ends cut by (elim disjE) simp_all
  finally show ?thesis .
qed

subsection \<open>Nesting\<close>

lemma json_parse_nested:
  "n > depth \<Longrightarrow> 2 * n \<le> f \<Longrightarrow> json_parse f Value depth (replicate n (CHR ''['')) = TooDeep"
proof (induction n arbitrary: depth f)
  case (Suc n)
  from Suc.prems obtain g where f: "f = Suc (Suc g)" "2 * n \<le> g"
    by (cases f; cases "f - 1") auto
  have open_br: "CHR ''['' \<noteq> dquote" "\<not> json_ws (CHR ''['')"
    by (simp_all add: dquote_def json_ws_def)
  show ?case
  proof (cases depth)
    case 0
    then show ?thesis
      using open_br by (simp add: f(1) value_step_def open_container_def)
  next
    case (Suc d)
    with Suc.prems obtain m where m: "n = Suc m" by (cases n) auto
    have "json_parse g Value d (replicate n (CHR ''['')) = TooDeep"
      using Suc.IH [of d g] Suc.prems Suc f by simp
    then show ?thesis
      using open_br Suc
      by (simp add: f(1) m value_step_def open_container_def skip_ws_def elems_step_def)
  qed
qed simp

subsection \<open>Diagnostics of a run\<close>

definition RUN_DIAGNOSTICS :: "pystr list" where
  "RUN_DIAGNOSTICS = [''process_error'', ''invalid_result_json'', ''invalid_result_schema'',
     ''contradictory_result_fields'', ''completed'', ''blocked'', ''changes_requested'', ''assignment_failed'',
     ''workspace_mutation_detected'', ''git_status_timeout'', ''git_status_failed'']"

lemma payload_error: "validate_assignment_result_payload payload = Some d \<Longrightarrow> d = ''invalid_result_schema''"
  by (auto simp: validate_assignment_result_payload_def invalid_result_schema_def split: json.splits if_splits)

lemma rules_error: "validate_assignment_result_rules p family = Some d \<Longrightarrow> d = ''contradictory_result_fields''"
  by (auto simp: validate_assignment_result_rules_def contradictory_result_fields_def Let_def split: if_splits)

lemma outcome_mapping_cases:
  "assignment_outcome_mapping outcome \<in> {(''completed'', ''completed''), (''blocked'', ''blocked''),
     (''blocked'', ''changes_requested''), (''failed'', ''assignment_failed'')}"
  by (simp add: assignment_outcome_mapping_def)

lemma judge_pairs:
  assumes "judge_result_text limit family reply = Inr (status, d)"
  shows "(status, d) \<in> {(''completed'', ''completed''), (''blocked'', ''blocked''),
     (''blocked'', ''changes_requested''), (''failed'', ''assignment_failed''), (''failed'', ''invalid_result_json''),
     (''failed'', ''invalid_result_schema''), (''failed'', ''contradictory_result_fields'')}"
proof (cases "parse_assignment_result_text limit reply")
  case (Inl e)
  with assms show ?thesis by (cases e) (simp_all add: judge_result_text_def)
next
  case (Inr payload)
  show ?thesis
  proof (cases "validate_assignment_result_payload payload")
    case None
    then obtain p outcome where p: "payload = JObj p" "dget p ''outcome'' = JStr outcome"
      by (auto simp: validate_payload_None)
    show ?thesis
      using assms Inr None p rules_error [of p family] outcome_mapping_cases [of outcome]
      by (cases "validate_assignment_result_rules p family") (auto simp: judge_result_text_def)
  next
    case (Some err)
    with assms Inr payload_error [OF Some] show ?thesis by (simp add: judge_result_text_def)
  qed
qed

lemma run_assignment_result:
  assumes "run_assignment r plan t baseline = Inr (ev, d)"
  shows "d \<in> set RUN_DIAGNOSTICS" and "ev_mission_id ev = p_mission_id plan" and "ev_task_id ev = a_task_id t"
    and "ev_provider ev = a_provider t" and "ev_evidence_id ev = ''evidence-'' @ take 12 (r_uuid r)"
    and "ev_output_hash ev = sha256_hex (ev_output ev)"
    and "ev_started_at ev = r_started r" and "ev_finished_at ev = r_finished r"
    and "ev_status ev = ''completed'' \<Longrightarrow> d = ''completed''"
proof -
  from assms obtain status0 d0 out0 usage command where
    v: "provider_verdict r (a_family t) = Inr (status0, d0, out0, usage, command)"
    by (auto simp: run_assignment_def)
  obtain status d' out where g': "git_verdict (r_git_after r) baseline (status0, d0, out0) = (status, d', out)"
    by (cases "git_verdict (r_git_after r) baseline (status0, d0, out0)")
  with assms v have g: "git_verdict (r_git_after r) baseline (status0, d0, out0) = (status, d, out)"
    and ev: "ev = evidence_build (r_uuid r) (p_mission_id plan) (a_task_id t) (a_provider t) (a_model t)
        status out usage command (r_started r) (r_finished r)"
    by (simp_all add: run_assignment_def)
  have "(status0, d0) = (''failed'', ''process_error'') \<or> (\<exists>limit reply. judge_result_text limit (a_family t) reply = Inr (status0, d0))"
    using v unfolding provider_verdict_def by (auto split: invoke_outcome.splits sum.splits)
  then have first: "d0 \<in> set RUN_DIAGNOSTICS \<and> (status0 = ''completed'' \<longrightarrow> d0 = ''completed'')"
    by (auto simp: RUN_DIAGNOSTICS_def dest!: judge_pairs)
  moreover have "(status, d) = (status0, d0) \<or> status = ''failed'' \<and>
      d \<in> {''workspace_mutation_detected'', ''git_status_timeout'', ''git_status_failed''}"
    using g unfolding git_verdict_def by (auto split: git_outcome.splits if_splits)
  ultimately show "d \<in> set RUN_DIAGNOSTICS" and "ev_status ev = ''completed'' \<Longrightarrow> d = ''completed''"
    by (auto simp: RUN_DIAGNOSTICS_def ev evidence_build_def)
  show "ev_mission_id ev = p_mission_id plan" and "ev_task_id ev = a_task_id t"
    and "ev_provider ev = a_provider t" and "ev_evidence_id ev = ''evidence-'' @ take 12 (r_uuid r)"
    and "ev_output_hash ev = sha256_hex (ev_output ev)"
    and "ev_started_at ev = r_started r" and "ev_finished_at ev = r_finished r"
    by (simp_all add: ev evidence_build_def)
qed

section \<open>Properties\<close>

text \<open>
  C21: a run of an assignment produces evidence with status \<open>completed\<close> exactly when the
  provider returned a text that parses to an object of the required shape whose outcome is
  \<open>completed\<close> with its objective satisfied (and, for \<open>jounin-review\<close>, an approving review,
  for every other family none), and Git reports the same workspace as before. Free text is never
  consulted.
\<close>

theorem run_assignment_completed_iff:
  "(\<exists>rec d. run_assignment r plan task baseline = Inr (rec, d) \<and> ev_status rec = ''completed'') \<longleftrightarrow>
     r_git_after r = GitClean baseline \<and>
     (\<exists>text usage command payload. r_invoke r = InvokeReturns text usage command \<and>
        parse_assignment_result_text (r_limit r) text = Inr payload \<and>
        result_accepts (a_family task) payload ''completed'')"
proof (cases "r_invoke r")
  case (InvokeReturns reply usage command)
  show ?thesis
  proof (cases "judge_result_text (r_limit r) (a_family task) reply")
    case (Inr sd)
    obtain status d where sd: "sd = (status, d)" by force
    have "status = ''completed'' \<longleftrightarrow>
        (\<exists>payload. parse_assignment_result_text (r_limit r) reply = Inr payload \<and>
           result_accepts (a_family task) payload ''completed'')"
      using Inr sd judge_completed [of "r_limit r" "a_family task" reply] by auto
    with Inr sd InvokeReturns show ?thesis
      by (auto simp: run_assignment_def provider_verdict_def git_verdict_def evidence_build_def split: git_outcome.splits if_splits)
  next
    case (Inl e)
    then have "\<not> (\<exists>payload. parse_assignment_result_text (r_limit r) reply = Inr payload \<and>
           result_accepts (a_family task) payload ''completed'')"
      using judge_completed [of "r_limit r" "a_family task" reply "''completed''"] by simp
    with Inl InvokeReturns show ?thesis by (simp add: run_assignment_def provider_verdict_def)
  qed
qed (auto simp: run_assignment_def provider_verdict_def git_verdict_def evidence_build_def split: git_outcome.splits if_splits)

text \<open>
  A result wrapped in exactly one code fence (empty or \<open>json\<close> marker, either line ending,
  white space around it) is read as the bare JSON text it encloses.
\<close>

theorem fenced_result_same_as_bare:
  assumes "list_all py_isspace pre" and "list_all py_isspace post" and "fence_marker lang"
    and "eol = [LF] \<or> eol = [CR, LF]" and "\<not> py_endswith body [CR]"
  shows "parse_assignment_result_text limit (pre @ (fence @ lang @ eol @ body @ eol @ fence) @ post) =
           json_loads limit body"
proof -
  have "py_strip (pre @ (fence @ lang @ eol @ body @ eol @ fence) @ post) =
      fence @ lang @ eol @ body @ eol @ fence"
    using assms(1,2) by (rule py_strip_pad) (simp_all add: fence_chars)
  moreover have "py_startswith (fence @ lang @ eol @ body @ eol @ fence) fence"
    by (simp add: py_startswith_def)
  ultimately show ?thesis
    using extract_fenced [OF assms(3-5)]
    by (simp add: parse_assignment_result_text_def Let_def)
qed

theorem fenced_result_same_as_bare_witness:
  "parse_assignment_result_text 5 ([LF] @ (fence @ ''json'' @ [CR, LF] @ ''[1]'' @ [CR, LF] @ fence) @ '' '') =
     Inr (JList [JInt 1])"
proof -
  have "parse_assignment_result_text 5 ([LF] @ (fence @ ''json'' @ [CR, LF] @ ''[1]'' @ [CR, LF] @ fence) @ '' '') =
      json_loads 5 ''[1]''"
    by (rule fenced_result_same_as_bare)
       (simp_all add: py_isspace_def code_point_def LF_def CR_def fence_marker_def py_endswith_def suffix_def)
  also have "\<dots> = Inr (JList [JInt 1])" by code_simp
  finally show ?thesis .
qed

text \<open>
  The handler around \<open>json.loads\<close> names only \<open>ValueError\<close>, so a provider text nested
  deeper than the interpreter's recursion limit is not turned into the diagnostic
  \<open>invalid_result_json\<close>: the exception leaves \<open>_run_assignment\<close> and no evidence record is built.
\<close>

theorem deep_result_escapes:
  "\<exists>text. run_assignment (r\<lparr>r_invoke := InvokeReturns text usage command\<rparr>) plan task baseline =
     Inl (ResultRaised RecursionError)"
proof -
  let ?text = "replicate (Suc (r_limit r)) (CHR ''['')"
  have br: "\<not> py_isspace (CHR ''['')" "\<not> json_ws (CHR ''['')"
    by (simp_all add: py_isspace_def code_point_def json_ws_def)
  have "py_strip ?text = ?text"
    using br by (intro py_strip_no_space) (simp add: list_all_iff)
  moreover have "skip_ws ?text = ?text"
    using br by (simp add: skip_ws_def)
  moreover have "\<not> py_startswith ?text fence"
    by (simp add: py_startswith_def fence_def)
  moreover have "json_parse (json_fuel ?text) Value (r_limit r) ?text = TooDeep"
    by (rule json_parse_nested) (simp_all add: json_fuel_def)
  ultimately have "judge_result_text (r_limit r) (a_family task) ?text = Inl RecursionError"
    by (simp add: judge_result_text_def parse_assignment_result_text_def Let_def json_loads_def
        del: replicate.simps)
  then show ?thesis
    by (intro exI [of _ ?text]) (simp add: run_assignment_def provider_verdict_def del: replicate.simps)
qed

end
