(* ===== verification/Json_Text.thy ===== *)
theory Json_Text
  imports Json
begin

text \<open>
  The parser of \<open>json.loads\<close> reads back what the printers of \<open>json.dumps\<close> write. The relation
  \<open>renders d v s\<close> says that \<open>s\<close> is a text of \<open>v\<close> with white space where the printers may put it
  and at most \<open>d\<close> levels of nesting; one lemma shows that such a text parses to \<open>v\<close>, and each
  printer only has to be shown to render. Values with floats are left out.
\<close>

section \<open>Values that print and parse\<close>

fun fits :: "nat \<Rightarrow> json \<Rightarrow> bool" where
  "fits d (JList xs) = (case d of 0 \<Rightarrow> False | Suc e \<Rightarrow> list_all (fits e) xs)"
| "fits d (JObj m) = (case d of 0 \<Rightarrow> False | Suc e \<Rightarrow> distinct (map fst m) \<and> list_all (\<lambda>(k, v). fits e v) m)"
| "fits d (JInt i) = (length (nat_digits (nat \<bar>i\<bar>)) \<le> 4300)"
| "fits d (JFloat f) = False"
| "fits d _ = True"

definition blank :: "pystr \<Rightarrow> bool" where
  "blank w \<longleftrightarrow> list_all json_ws w"

inductive renders :: "nat \<Rightarrow> json \<Rightarrow> pystr \<Rightarrow> bool"
  and render_elems :: "nat \<Rightarrow> json list \<Rightarrow> pystr \<Rightarrow> bool"
  and render_members :: "nat \<Rightarrow> jdict \<Rightarrow> pystr \<Rightarrow> bool" where
  r_null: "renders d JNull ''null''"
| r_bool: "renders d (JBool b) (if b then ''true'' else ''false'')"
| r_int: "length (nat_digits (nat \<bar>i\<bar>)) \<le> 4300 \<Longrightarrow> renders d (JInt i) (int_repr i)"
| r_str: "renders d (JStr s) (json_quote s)"
| r_nil: "renders (Suc d) (JList []) ''[]''"
| r_list: "blank w \<Longrightarrow> render_elems d xs t \<Longrightarrow> renders (Suc d) (JList xs) (CHR ''['' # w @ t @ '']'')"
| r_empty: "renders (Suc d) (JObj []) ''{}''"
| r_obj: "blank w \<Longrightarrow> distinct (map fst m) \<Longrightarrow> render_members d m t \<Longrightarrow> renders (Suc d) (JObj m) (CHR ''{'' # w @ t @ ''}'')"
| e_last: "renders d v s \<Longrightarrow> blank w \<Longrightarrow> render_elems d [v] (s @ w)"
| e_more: "renders d v s \<Longrightarrow> blank w \<Longrightarrow> render_elems d vs t \<Longrightarrow> render_elems d (v # vs) (s @ CHR '','' # w @ t)"
| m_last: "blank u \<Longrightarrow> renders d v s \<Longrightarrow> blank w \<Longrightarrow> render_members d [(k, v)] (json_quote k @ CHR '':'' # u @ s @ w)"
| m_more: "blank u \<Longrightarrow> renders d v s \<Longrightarrow> blank w \<Longrightarrow> render_members d ms t \<Longrightarrow>
    render_members d ((k, v) # ms) (json_quote k @ CHR '':'' # u @ s @ CHR '','' # w @ t)"

section \<open>The indented printer\<close>

text \<open>\<open>json.dumps(v, ensure_ascii=False, indent=2)\<close>, nested \<open>n\<close> levels deep.\<close>

definition new_line :: "nat \<Rightarrow> pystr" where
  "new_line n = CHR 0x0A # replicate (2 * n) (CHR '' '')"

fun json_dumps_indent :: "nat \<Rightarrow> json \<Rightarrow> pystr" where
  "json_dumps_indent n (JList xs) =
     (if xs = [] then ''[]''
      else ''['' @ new_line (Suc n) @ py_join ('','' @ new_line (Suc n)) (map (json_dumps_indent (Suc n)) xs) @
        new_line n @ '']'')"
| "json_dumps_indent n (JObj d) =
     (if d = [] then ''{}''
      else ''{'' @ new_line (Suc n) @
        py_join ('','' @ new_line (Suc n)) (map (\<lambda>(k, v). json_quote k @ '': '' @ json_dumps_indent (Suc n) v) d) @
        new_line n @ ''}'')"
| "json_dumps_indent n v = json_dumps '', '' '': '' False v"

section \<open>Tokens\<close>

lemma escapes_differ [simp]: "dquote \<noteq> backslash" "backslash \<noteq> dquote"
  by (simp_all add: dquote_def backslash_def)

lemma hex_value_digit: "n < 16 \<Longrightarrow> hex_value (hex_digits ! n) = Some n"
proof -
  have "\<forall>n \<in> set [0..<16]. hex_value (hex_digits ! n) = Some n" by code_simp
  then show "n < 16 \<Longrightarrow> hex_value (hex_digits ! n) = Some n" by simp
qed

lemma control_escape:
  assumes "code_point c < 32"
  shows "unicode_escape (CHR ''0'') (CHR ''0'') (hex_digits ! (code_point c div 16)) (hex_digits ! (code_point c mod 16)) = Some c"
proof -
  have "hex_value (CHR ''0'') = Some 0" by code_simp
  moreover have "hex_value (hex_digits ! (code_point c div 16)) = Some (code_point c div 16)"
    using assms by (intro hex_value_digit) simp
  moreover have "hex_value (hex_digits ! (code_point c mod 16)) = Some (code_point c mod 16)"
    by (intro hex_value_digit) simp
  ultimately show ?thesis by (simp add: unicode_escape_def) (simp add: code_point_def)
qed

lemma parse_string_escape: "parse_string (escape_char c @ t) = map_option (\<lambda>(s, r). (c # s, r)) (parse_string t)"
  using control_escape [of c]
  by (auto simp: escape_char_def simple_escape_def dquote_def backslash_def)

lemma parse_string_quote: "parse_string (concat (map escape_char s) @ dquote # r) = Some (s, r)"
  by (induction s) (simp_all add: parse_string_escape)

lemma digit_char: "n < 10 \<Longrightarrow> is_digit (char_of (48 + n)) \<and> code_point (char_of (48 + n)) = 48 + n"
  by (simp add: is_digit_def code_point_def)

lemma nat_digits_all: "list_all is_digit (nat_digits n) \<and> nat_digits n \<noteq> []"
proof (induction n rule: nat_digits.induct)
  case (1 n)
  then show ?case
    using digit_char [of "n mod 10"] digit_char [of n]
    by (cases "n < 10") (simp_all add: nat_digits.simps [of n])
qed

lemma digits_value_append: "digits_value (ds @ [c]) = 10 * digits_value ds + (code_point c - 48)"
  by (simp add: digits_value_def)

lemma digits_value_nat: "digits_value (nat_digits n) = n"
proof (induction n rule: nat_digits.induct)
  case (1 n)
  then show ?case
    using digit_char [of "n mod 10"] digit_char [of n]
    by (subst nat_digits.simps) (auto simp: digits_value_append, simp add: digits_value_def)
qed

lemma nat_digits_leading: "hd (nat_digits n) = CHR ''0'' \<Longrightarrow> nat_digits n = ''0''"
proof (induction n rule: nat_digits.induct)
  case (1 n)
  show ?case
  proof (cases "n < 10")
    case True
    then show ?thesis using 1(2) by (simp add: nat_digits.simps)
  next
    case False
    then have "hd (nat_digits (n div 10)) = CHR ''0''"
      using 1(2) nat_digits_all [of "n div 10"] by (subst (asm) nat_digits.simps) simp
    with 1(1) [OF False] have "nat_digits (n div 10) = ''0''" by blast
    then have "n div 10 = 0"
      using digits_value_nat [of "n div 10"] by (simp add: digits_value_def code_point_def)
    with False show ?thesis by simp
  qed
qed

text \<open>What may follow a number without becoming part of it.\<close>

definition ends_number :: "pystr \<Rightarrow> bool" where
  "ends_number r \<longleftrightarrow> r = [] \<or> \<not> is_digit (hd r) \<and> hd r \<notin> set ''.eE''"

lemma takeWhile_digits:
  "list_all is_digit ds \<Longrightarrow> ends_number r \<Longrightarrow> takeWhile is_digit (ds @ r) = ds"
  by (cases r) (auto simp: ends_number_def list_all_iff takeWhile_append)

lemma number_parts:
  assumes "ends_number r"
  shows "(case r of c # q \<Rightarrow> if c = CHR ''.'' then takeWhile is_digit q else [] | [] \<Rightarrow> []) = []"
    and "(case r of c # q \<Rightarrow> (if c = CHR ''e'' \<or> c = CHR ''E'' then X c q else (False, [], r)) | [] \<Rightarrow> (False, [], r)) =
      (False, [], r)"
  using assms by (cases r; simp add: ends_number_def)+

lemma parse_number_digits:
  assumes "ends_number r" and "length (nat_digits n) \<le> 4300"
  shows "parse_number (nat_digits n @ r) = Parsed (JInt (int n)) r"
    and "parse_number (CHR ''-'' # nat_digits n @ r) = Parsed (JInt (- int n)) r"
proof -
  obtain c ds where ds: "nat_digits n = c # ds" using nat_digits_all [of n] by (cases "nat_digits n") auto
  have c: "is_digit c" "c \<noteq> CHR ''-''" and all: "list_all is_digit (c # ds)"
    using nat_digits_all [of n] by (auto simp: ds is_digit_def code_point_def)
  have "takeWhile is_digit (c # ds @ r) = c # ds" using takeWhile_digits [OF all assms(1)] by simp
  then have ip: "(if c = CHR ''0'' then [c] else takeWhile is_digit (c # ds @ r)) = c # ds"
    using nat_digits_leading [of n] by (simp add: ds)
  have cut: "drop (length (c # ds)) (c # ds @ r) = r" by simp
  have len: "\<not> length (c # ds) > 4300" using assms(2) by (simp only: ds not_less)
  have val: "digits_value (c # ds) = n" using digits_value_nat [of n] by (simp only: ds)
  note parts = number_parts [OF assms(1)]
  show "parse_number (nat_digits n @ r) = Parsed (JInt (int n)) r"
    and "parse_number (CHR ''-'' # nat_digits n @ r) = Parsed (JInt (- int n)) r"
    using c(2) len
    by (simp_all only: parse_number_def Let_def ds append_Cons list.case if_False if_True simp_thms prod.case ip cut parts val
        list.distinct)
qed

lemma parse_atom_number:
  assumes "s = c # t" and "is_digit c \<or> c = CHR ''-'' \<and> t \<noteq> [] \<and> is_digit (hd t)"
  shows "parse_atom s = parse_number s"
proof -
  have "c \<noteq> CHR ''n''" "c \<noteq> CHR ''t''" "c \<noteq> CHR ''f''" "c \<noteq> CHR ''N''" "c \<noteq> CHR ''I''"
    using assms(2) by (auto simp: is_digit_def code_point_def)
  moreover have "\<not> (c = CHR ''-'' \<and> take 1 t = ''I'')"
    using assms(2) by (cases t) (auto simp: is_digit_def code_point_def)
  ultimately show ?thesis
    by (cases t) (auto simp: parse_atom_def strip_word_def assms(1))
qed

lemma parse_atom_int:
  assumes "ends_number r" and "length (nat_digits (nat \<bar>i\<bar>)) \<le> 4300"
  shows "parse_atom (int_repr i @ r) = Parsed (JInt i) r"
proof -
  obtain c ds where ds: "nat_digits (nat \<bar>i\<bar>) = c # ds" "is_digit c"
    using nat_digits_all [of "nat \<bar>i\<bar>"] by (cases "nat_digits (nat \<bar>i\<bar>)") auto
  show ?thesis
  proof (cases "i < 0")
    case True
    have "parse_atom (CHR ''-'' # nat_digits (nat (- i)) @ r) = parse_number (CHR ''-'' # nat_digits (nat (- i)) @ r)"
      using ds True by (intro parse_atom_number) auto
    with True parse_number_digits(2) [OF assms] show ?thesis by (simp add: int_repr_def)
  next
    case False
    have "parse_atom (nat_digits (nat i) @ r) = parse_number (nat_digits (nat i) @ r)"
      using ds False by (intro parse_atom_number [where c = c and t = "ds @ r"]) auto
    with False parse_number_digits(1) [OF assms] show ?thesis by (simp add: int_repr_def)
  qed
qed

lemma digit_no_bracket:
  "is_digit c \<Longrightarrow> c \<noteq> dquote \<and> c \<noteq> CHR ''{'' \<and> c \<noteq> CHR ''['' \<and> c \<noteq> CHR '']'' \<and> c \<noteq> CHR ''}'' \<and> \<not> json_ws c"
  by (auto simp: is_digit_def code_point_def dquote_def json_ws_def)

lemma int_repr_head:
  "\<exists>c t. int_repr i = c # t \<and> c \<noteq> dquote \<and> c \<noteq> CHR ''{'' \<and> c \<noteq> CHR ''['' \<and> c \<noteq> CHR '']'' \<and> c \<noteq> CHR ''}'' \<and> \<not> json_ws c"
  using nat_digits_all [of "nat i"] digit_no_bracket
  by (cases "nat_digits (nat i)") (auto simp: int_repr_def dquote_def json_ws_def)

lemma renders_head:
  "renders d v s \<Longrightarrow> \<exists>c t. s = c # t \<and> \<not> json_ws c \<and> c \<noteq> CHR '']''"
  "render_elems d vs s \<Longrightarrow> \<exists>c t. s = c # t \<and> \<not> json_ws c \<and> c \<noteq> CHR '']''"
  "render_members d ms s \<Longrightarrow> \<exists>t. s = dquote # t"
proof (induction rule: renders_render_elems_render_members.inducts)
  case (r_int i d)
  show ?case using int_repr_head [of i] by blast
qed (auto simp: json_ws_def json_quote_def dquote_def)

lemma skip_blank [simp]: "blank w \<Longrightarrow> \<not> json_ws c \<Longrightarrow> skip_ws (w @ c # t) = c # t"
  by (auto simp: blank_def skip_ws_def list_all_iff dropWhile_append2)

lemma ends_number_simps [simp]:
  "ends_number []" "ends_number (CHR '','' # t)" "ends_number (CHR '']'' # t)" "ends_number (CHR ''}'' # t)"
  by (simp_all add: ends_number_def is_digit_def code_point_def)

lemma ends_number_blank: "blank w \<Longrightarrow> ends_number t \<Longrightarrow> ends_number (w @ t)"
  by (cases w) (auto simp: blank_def ends_number_def json_ws_def is_digit_def code_point_def)

section \<open>A rendered text parses to its value\<close>

lemma json_ws_closers [simp]: "\<not> json_ws (CHR '']'')" "\<not> json_ws (CHR ''}'')" "\<not> json_ws (CHR '','')" "\<not> json_ws (CHR '':'')"
  by (simp_all add: json_ws_def)

lemma parse_value: "0 < f \<Longrightarrow> json_parse f Value d s = value_step (json_parse (f - 1)) d s"
  by (cases f) auto

lemma member_key_quote:
  assumes "blank u" and "\<not> json_ws c"
  shows "member_key (json_quote k @ CHR '':'' # u @ c # t) = Some (k, c # t)"
  using assms by (simp add: member_key_def json_quote_def parse_string_quote skip_ws_def [of "CHR '':'' # _"])

lemma dict_set_fresh: "k \<notin> set (map fst acc) \<Longrightarrow> dict_set acc k v = acc @ [(k, v)]"
  by (induction acc) (auto simp: dict_set_def)

lemma rendered_text_parses:
  "renders d v s \<Longrightarrow> 2 * length s \<le> f \<Longrightarrow> ends_number r \<Longrightarrow> json_parse f Value d (s @ r) = Parsed v r"
  "render_elems d vs s \<Longrightarrow> 2 * length s + 1 \<le> f \<Longrightarrow>
     json_parse f (Elems acc) d (s @ CHR '']'' # r) = Parsed (JList (acc @ vs)) r"
  "render_members d ms s \<Longrightarrow> 2 * length s + 1 \<le> f \<Longrightarrow> distinct (map fst (acc' @ ms)) \<Longrightarrow>
     json_parse f (Members acc') d (s @ CHR ''}'' # r) = Parsed (JObj (acc' @ ms)) r"
proof (induction arbitrary: f r and f r acc and f r acc' rule: renders_render_elems_render_members.inducts)
  case (r_int i d)
  obtain g where f: "f = Suc g" using r_int(2) int_repr_head [of i] by (cases f) auto
  obtain c t where c: "int_repr i = c # t" "c \<noteq> dquote" "c \<noteq> CHR ''{''" "c \<noteq> CHR ''[''" using int_repr_head by blast
  have "value_step (json_parse g) d (int_repr i @ r) = parse_atom (int_repr i @ r)" using c by (simp add: value_step_def)
  with parse_atom_int [OF r_int(3,1)] show ?case by (simp add: f)
next
  case (r_bool d b)
  then have "0 < f" by (cases b) auto
  then show ?case
    by (cases b) (simp_all add: parse_value value_step_def parse_atom_def strip_word_def dquote_def)
next
  case (r_list w d xs t)
  obtain g where f: "f = Suc g" "2 * length t + 1 \<le> g" using r_list(4) by (cases f) auto
  obtain c u where t: "t = c # u" "\<not> json_ws c" "c \<noteq> CHR '']''" using renders_head(2) [OF r_list(2)] by blast
  from r_list(3) [OF f(2), of "[]" r] t r_list(1) show ?case
    by (simp add: f(1) value_step_def open_container_def dquote_def)
next
  case (r_obj w m d t)
  obtain g where f: "f = Suc g" "2 * length t + 1 \<le> g" using r_obj(5) by (cases f) auto
  obtain u where t: "t = dquote # u" using renders_head(3) [OF r_obj(3)] by blast
  from r_obj(4) [OF f(2), of "[]" r] t r_obj(1,2) show ?case
    by (simp add: f(1) value_step_def open_container_def dquote_def json_ws_def)
next
  case (e_last d v s w)
  obtain g where f: "f = Suc g" "2 * length s \<le> g" using e_last(4) by (cases f) auto
  from e_last(3) [OF f(2) ends_number_blank [OF e_last(2), of "CHR '']'' # r"]] e_last(2) show ?case
    by (simp add: f(1) elems_step_def after_member_def)
next
  case (e_more d v s w vs t)
  obtain g where f: "f = Suc g" "2 * length s \<le> g" "2 * length t + 1 \<le> g" using e_more(6) by (cases f) auto
  obtain c u where t: "t = c # u" "\<not> json_ws c" using renders_head(2) [OF e_more(3)] by blast
  from e_more(4) [OF f(2), of "CHR '','' # w @ t @ CHR '']'' # r"] e_more(5) [OF f(3), of "acc @ [v]" r] e_more(2) t show ?case
    by (simp add: f(1) elems_step_def after_member_def skip_ws_def [of "CHR '','' # _"])
next
  case (m_last u d v s w k)
  obtain g where f: "f = Suc g" "2 * length s \<le> g" using m_last(5) by (cases f) auto
  obtain c t where s: "s = c # t" "\<not> json_ws c" using renders_head(1) [OF m_last(2)] by blast
  have "member_key (json_quote k @ CHR '':'' # u @ s @ w @ CHR ''}'' # r) = Some (k, s @ w @ CHR ''}'' # r)"
    using member_key_quote [OF m_last(1) s(2)] by (simp add: s(1))
  with m_last(4) [OF f(2) ends_number_blank [OF m_last(3), of "CHR ''}'' # r"]] m_last(3,6) show ?case
    by (simp add: f(1) members_step_def after_member_def dict_set_fresh)
next
  case (m_more u d v s w ms t k)
  obtain g where f: "f = Suc g" "2 * length s \<le> g" "2 * length t + 1 \<le> g" using m_more(7) by (cases f) auto
  obtain c q where s: "s = c # q" "\<not> json_ws c" using renders_head(1) [OF m_more(2)] by blast
  obtain y where t: "t = dquote # y" using renders_head(3) [OF m_more(4)] by blast
  have "member_key (json_quote k @ CHR '':'' # u @ s @ CHR '','' # w @ t @ CHR ''}'' # r) =
      Some (k, s @ CHR '','' # w @ t @ CHR ''}'' # r)"
    using member_key_quote [OF m_more(1) s(2)] by (simp add: s(1))
  moreover have "skip_ws (w @ t @ CHR ''}'' # r) = t @ CHR ''}'' # r"
    using m_more(3) by (simp add: t json_ws_def dquote_def)
  ultimately show ?case
    using m_more(5) [OF f(2), of "CHR '','' # w @ t @ CHR ''}'' # r"] m_more(6) [OF f(3), of "acc' @ [(k, v)]" r] m_more(8)
    by (simp add: f(1) members_step_def after_member_def dict_set_fresh skip_ws_def [of "CHR '','' # _"])
qed (simp_all add: parse_value value_step_def parse_atom_def strip_word_def dquote_def json_quote_def
     parse_string_quote [unfolded dquote_def] open_container_def skip_ws_def json_ws_def)

section \<open>The printers render\<close>

lemma render_join:
  assumes "vs \<noteq> []" and "\<And>v. v \<in> set vs \<Longrightarrow> renders d v (p v)" and "blank w" and "blank z"
  shows "render_elems d vs (py_join (CHR '','' # w) (map p vs) @ z)"
  using assms(1,2)
proof (induction vs)
  case (Cons v vs)
  then show ?case
    using e_last [of d v "p v" z] e_more [of d v "p v" w vs] assms(3,4) by (cases vs) auto
qed simp

lemma render_join_members:
  assumes "ms \<noteq> []" and "\<And>k v. (k, v) \<in> set ms \<Longrightarrow> renders d v (p v)" and "blank u" and "blank w" and "blank z"
  shows "render_members d ms (py_join (CHR '','' # w) (map (\<lambda>(k, v). json_quote k @ CHR '':'' # u @ p v) ms) @ z)"
  using assms(1,2)
proof (induction ms)
  case (Cons m ms)
  obtain k v where m: "m = (k, v)" by force
  with Cons show ?case
    using m_last [of u d v "p v" z k] m_more [of u d v "p v" w ms _ k] assms(3-5) by (cases ms) auto
qed simp

lemma json_dumps_renders:
  assumes "blank w" and "blank u"
  shows "fits d v \<Longrightarrow> renders d v (json_dumps (CHR '','' # w) (CHR '':'' # u) False v)"
proof (induction v arbitrary: d)
  case (JList xs)
  from JList.prems obtain e where e: "d = Suc e" "list_all (fits e) xs" by (cases d) auto
  show ?case
  proof (cases "xs = []")
    case False
    then have "render_elems e xs (py_join (CHR '','' # w) (map (json_dumps (CHR '','' # w) (CHR '':'' # u) False) xs) @ [])"
      using JList.IH e assms by (intro render_join) (auto simp: list_all_iff blank_def)
    from r_list [of "[]", OF _ this] e(1) show ?thesis by (simp add: blank_def)
  qed (simp add: e(1) r_nil)
next
  case (JObj m)
  from JObj.prems obtain e where e: "d = Suc e" "distinct (map fst m)" "list_all (\<lambda>(k, v). fits e v) m" by (cases d) auto
  show ?case
  proof (cases "m = []")
    case False
    then have "render_members e m (py_join (CHR '','' # w)
        (map (\<lambda>(k, v). json_quote k @ CHR '':'' # u @ json_dumps (CHR '','' # w) (CHR '':'' # u) False v) m) @ [])"
      using JObj.IH e assms by (intro render_join_members) (force simp: list_all_iff blank_def)+
    from r_obj [of "[]", OF _ e(2) this] e(1) show ?thesis
      by (simp add: blank_def comp_def case_prod_unfold)
  qed (simp add: e(1) r_empty)
next
  case (JBool b)
  then show ?case using r_bool [of d b] by simp
qed (auto intro: renders_render_elems_render_members.intros)

lemma rendered_text_loads:
  assumes "renders limit v s"
  shows "json_loads limit s = Inr v"
proof -
  obtain c t where s: "s = c # t" "\<not> json_ws c" using renders_head(1) [OF assms] by blast
  then have "skip_ws s = s" by (simp add: skip_ws_def)
  with rendered_text_parses(1) [OF assms, of "json_fuel s" "[]"] show ?thesis
    by (simp add: json_loads_def json_fuel_def) (simp add: skip_ws_def)
qed

lemma json_dumps_loads: "fits limit v \<Longrightarrow> json_loads limit (json_dumps '', '' '': '' False v) = Inr v"
  using json_dumps_renders [of "'' ''" "'' ''" limit v] by (simp add: blank_def json_ws_def rendered_text_loads)

lemma blank_new_line: "blank (new_line n)"
  by (simp add: blank_def new_line_def json_ws_def list_all_iff)

lemma json_dumps_indent_renders: "fits d v \<Longrightarrow> renders d v (json_dumps_indent n v)"
proof (induction v arbitrary: d n)
  case (JList xs)
  from JList.prems obtain e where e: "d = Suc e" "list_all (fits e) xs" by (cases d) auto
  show ?case
  proof (cases "xs = []")
    case False
    then have "render_elems e xs (py_join (CHR '','' # new_line (Suc n)) (map (json_dumps_indent (Suc n)) xs) @ new_line n)"
      using JList.IH e by (intro render_join) (auto simp: list_all_iff blank_new_line)
    from r_list [OF blank_new_line this, of "Suc n"] e(1) False show ?thesis by simp
  qed (simp add: e(1) r_nil)
next
  case (JObj m)
  from JObj.prems obtain e where e: "d = Suc e" "distinct (map fst m)" "list_all (\<lambda>(k, v). fits e v) m" by (cases d) auto
  show ?case
  proof (cases "m = []")
    case False
    have "renders e v (json_dumps_indent (Suc n) v)" if "(k, v) \<in> set m" for k v
      using JObj.IH [OF that, of v e "Suc n"] that e(3) by (auto simp: list_all_iff)
    then have "render_members e m (py_join (CHR '','' # new_line (Suc n))
        (map (\<lambda>(k, v). json_quote k @ CHR '':'' # '' '' @ json_dumps_indent (Suc n) v) m) @ new_line n)"
      by (intro render_join_members [OF False]) (simp_all add: blank_new_line, simp add: blank_def json_ws_def)
    from r_obj [OF blank_new_line e(2) this, of "Suc n"] False show ?thesis
      by (simp add: e(1))
  qed (simp add: e(1) r_empty)
next
  case (JBool b)
  then show ?case using r_bool [of d b] by simp
qed (auto intro: renders_render_elems_render_members.intros)

lemma json_dumps_indent_loads: "fits limit v \<Longrightarrow> json_loads limit (json_dumps_indent n v) = Inr v"
  by (rule rendered_text_loads) (rule json_dumps_indent_renders)

end
