(* ===== verification/Execution_State.thy ===== *)
theory Execution_State
  imports Assignment_Result Json_Text
begin

text \<open>
  \<^verbatim>\<open>tools/konoha_v4/executor.py\<close>, the persisted side of the resumable runtime: reading
  \<^verbatim>\<open>plan.json\<close>, writing and strictly re-reading \<^verbatim>\<open>execution_state.json\<close>, verifying the
  evidence of completed tasks, validating a single-use approval, the invariants of a state
  against its plan and the pure transitions.

  A file is modelled at the level of the JSON value it holds: \<open>FUnreadable\<close> stands for every
  content that makes reading raise \<open>OSError\<close>, \<open>UnicodeError\<close> or \<open>JSONDecodeError\<close>,
  \<open>FRaises\<close> for one that makes \<open>json.loads\<close> raise another exception, which none of the handlers
  here names: \<open>RecursionError\<close> for its nesting, \<open>ValueError\<close> for an integer beyond the conversion limit.
\<close>

datatype disk_file = FAbsent | FUnreadable | FRaises py_exn | FJson json

section \<open>Mission identifiers and the persisted plan\<close>

definition id_char :: "char \<Rightarrow> bool" where
  "id_char c = (let n = code_point c in (97 \<le> n \<and> n \<le> 122) \<or> (48 \<le> n \<and> n \<le> 57) \<or> n = 45)"

text \<open>\<open>MISSION_ID_PATTERN.fullmatch\<close>; \<open>_validate_mission_id\<close> raises when it fails.\<close>

definition validate_mission_id :: "pystr \<Rightarrow> bool" where
  "validate_mission_id s =
     (case strip_word ''mission-'' s of None \<Rightarrow> False | Some r \<Rightarrow> r \<noteq> [] \<and> list_all id_char r)"

definition ASSIGNMENT_FIELDS :: "pystr list" where
  "ASSIGNMENT_FIELDS = [''task_id'', ''family'', ''provider'', ''model'', ''objective'', ''inputs'',
     ''expected_output'', ''dependencies'', ''private_context'', ''network'', ''mutation'',
     ''estimated_input_tokens'', ''estimated_output_tokens'', ''estimated_total_tokens'', ''cost_class'',
     ''fallback'', ''stop_condition'', ''execution_gate'']"

definition PLAN_REQUIRED_FIELDS :: "pystr list" where
  "PLAN_REQUIRED_FIELDS = [''mission_id'', ''understanding'', ''explicit_facts'', ''missing_context'',
     ''assumptions_prohibited'', ''complexity'', ''assignments'', ''acceptance_criteria'',
     ''approval_boundaries'', ''estimated_tokens'', ''estimated_cost_class'', ''rationale'', ''approval'',
     ''teachback_policy'', ''workspace_policy'', ''budget'', ''governance'', ''plan_hash'']"

definition PLAN_OPTIONAL_FIELDS :: "pystr list" where
  "PLAN_OPTIONAL_FIELDS = [''mission_constraints'', ''repository_evidence'']"

definition assignment_typed :: "jdict \<Rightarrow> bool" where
  "assignment_typed d \<longleftrightarrow>
     list_all (\<lambda>k. is_str (dget d k)) [''task_id'', ''family'', ''provider'', ''model'', ''objective'',
       ''expected_output'', ''cost_class'', ''fallback'', ''stop_condition'', ''execution_gate''] \<and>
     list_all (\<lambda>k. is_strs (dget d k)) [''inputs'', ''dependencies''] \<and>
     list_all (\<lambda>k. is_bool (dget d k)) [''private_context'', ''network'', ''mutation''] \<and>
     list_all (\<lambda>k. is_jint (dget d k)) [''estimated_input_tokens'', ''estimated_output_tokens'',
       ''estimated_total_tokens'']"

definition assignment_of :: "jdict \<Rightarrow> AgentAssignment" where
  "assignment_of d = \<lparr>
     a_task_id = the_str (dget d ''task_id''), a_family = the_str (dget d ''family''),
     a_provider = the_str (dget d ''provider''), a_model = the_str (dget d ''model''),
     a_objective = the_str (dget d ''objective''), a_inputs = the_strs (dget d ''inputs''),
     a_expected_output = the_str (dget d ''expected_output''),
     a_dependencies = the_strs (dget d ''dependencies''),
     a_private_context = the_bool (dget d ''private_context''), a_network = the_bool (dget d ''network''),
     a_mutation = the_bool (dget d ''mutation''),
     a_estimated_input_tokens = the_int (dget d ''estimated_input_tokens''),
     a_estimated_output_tokens = the_int (dget d ''estimated_output_tokens''),
     a_estimated_total_tokens = the_int (dget d ''estimated_total_tokens''),
     a_cost_class = the_str (dget d ''cost_class''), a_fallback = the_str (dget d ''fallback''),
     a_stop_condition = the_str (dget d ''stop_condition''),
     a_execution_gate = the_str (dget d ''execution_gate'')\<rparr>"

definition plan_typed :: "jdict \<Rightarrow> bool" where
  "plan_typed d \<longleftrightarrow>
     list_all (\<lambda>k. is_str (dget d k)) [''mission_id'', ''understanding'', ''complexity'',
       ''estimated_cost_class'', ''rationale'', ''teachback_policy'', ''plan_hash''] \<and>
     list_all (\<lambda>k. is_strs (dget d k)) [''explicit_facts'', ''missing_context'', ''assumptions_prohibited'',
       ''acceptance_criteria'', ''approval_boundaries''] \<and>
     is_jint (dget d ''estimated_tokens'') \<and>
     list_all (\<lambda>k. is_dict (dget d k)) [''approval'', ''workspace_policy'', ''budget'', ''governance''] \<and>
     (dget d ''repository_evidence'' = JNull \<or> is_dict (dget d ''repository_evidence'')) \<and>
     list_all (\<lambda>x. assignment_typed (the_obj x)) (the_list (dget d ''assignments''))"

definition plan_of :: "jdict \<Rightarrow> MissionPlan" where
  "plan_of d = \<lparr>
     p_mission_id = the_str (dget d ''mission_id''), p_understanding = the_str (dget d ''understanding''),
     p_explicit_facts = the_strs (dget d ''explicit_facts''),
     p_missing_context = the_strs (dget d ''missing_context''),
     p_assumptions_prohibited = the_strs (dget d ''assumptions_prohibited''),
     p_complexity = the_str (dget d ''complexity''),
     p_assignments = map (\<lambda>x. assignment_of (the_obj x)) (the_list (dget d ''assignments'')),
     p_acceptance_criteria = the_strs (dget d ''acceptance_criteria''),
     p_approval_boundaries = the_strs (dget d ''approval_boundaries''),
     p_estimated_tokens = the_int (dget d ''estimated_tokens''),
     p_estimated_cost_class = the_str (dget d ''estimated_cost_class''),
     p_rationale = the_str (dget d ''rationale''), p_approval = the_obj (dget d ''approval''),
     p_teachback_policy = the_str (dget d ''teachback_policy''),
     p_workspace_policy = the_obj (dget d ''workspace_policy''), p_budget = the_obj (dget d ''budget''),
     p_governance = the_obj (dget d ''governance''), p_plan_hash = the_str (dget d ''plan_hash''),
     p_mission_constraints =
       (if dget d ''mission_constraints'' = JNull then None else Some (dget d ''mission_constraints'')),
     p_repository_evidence =
       (if dget d ''repository_evidence'' = JNull then None else Some (the_obj (dget d ''repository_evidence'')))\<rparr>"

text \<open>
  \<open>PlanIllTyped\<close> marks a \<^verbatim>\<open>plan.json\<close> with the right fields but a value of another type than
  its annotation. A Python dataclass accepts such a value; the records of this model cannot
  hold it, so the model makes no statement about what a run over such a file does.
\<close>

datatype plan_error = MissionLookupError | PlanRaised py_exn | PlanIllTyped

definition load_persisted_plan :: "disk_file \<Rightarrow> pystr \<Rightarrow> plan_error + MissionPlan" where
  "load_persisted_plan f mission_id =
     (case f of
        FAbsent \<Rightarrow> Inl MissionLookupError
      | FUnreadable \<Rightarrow> Inl MissionLookupError
      | FRaises e \<Rightarrow> Inl (PlanRaised e)
      | FJson (JObj raw) \<Rightarrow>
          (if \<not> list_all (\<lambda>(k, _). k \<in> set (PLAN_REQUIRED_FIELDS @ PLAN_OPTIONAL_FIELDS)) raw \<or>
              \<not> list_all (\<lambda>k. dict_get raw k \<noteq> None) PLAN_REQUIRED_FIELDS then Inl MissionLookupError
           else case dget raw ''assignments'' of
             JList items \<Rightarrow>
               (if \<not> list_all (\<lambda>x. is_dict x \<and> dict_keys_eq (the_obj x) ASSIGNMENT_FIELDS) items
                then Inl MissionLookupError
                else if dget raw ''mission_id'' \<noteq> JStr mission_id then Inl MissionLookupError
                else if \<not> plan_typed raw then Inl PlanIllTyped
                else Inr (plan_of raw))
           | _ \<Rightarrow> Inl MissionLookupError)
      | FJson _ \<Rightarrow> Inl MissionLookupError)"

section \<open>The persisted execution state\<close>

definition asdict_state :: "ExecutionState \<Rightarrow> jdict" where
  "asdict_state s = [
     (''schema_version'', JStr (st_schema_version s)), (''mission_id'', JStr (st_mission_id s)),
     (''plan_identity'', JStr (st_plan_identity s)), (''status'', JStr (st_status s)),
     (''next_assignment_index'', JInt (st_next_assignment_index s)),
     (''completed_task_ids'', jstrs (st_completed_task_ids s)),
     (''pending_task_id'', jopt (st_pending_task_id s)),
     (''pending_execution_gate'', jopt (st_pending_execution_gate s)),
     (''approval_nonce'', jopt (st_approval_nonce s)),
     (''active_approval_id'', jopt (st_active_approval_id s)),
     (''consumed_approval_ids'', jstrs (st_consumed_approval_ids s)),
     (''evidence_ids_by_task'', JObj (map (\<lambda>(k, v). (k, JStr v)) (st_evidence_ids_by_task s))),
     (''executing_task_id'', jopt (st_executing_task_id s)), (''pause_reason'', jopt (st_pause_reason s)),
     (''diagnostic'', jopt (st_diagnostic s)), (''updated_at'', JStr (st_updated_at s))]"

definition STATE_FIELDS :: "pystr list" where
  "STATE_FIELDS = [''schema_version'', ''mission_id'', ''plan_identity'', ''status'', ''next_assignment_index'',
     ''completed_task_ids'', ''pending_task_id'', ''pending_execution_gate'', ''approval_nonce'',
     ''active_approval_id'', ''consumed_approval_ids'', ''evidence_ids_by_task'', ''executing_task_id'',
     ''pause_reason'', ''diagnostic'', ''updated_at'']"

definition OPTIONAL_STATE_FIELDS :: "pystr list" where
  "OPTIONAL_STATE_FIELDS = [''pending_task_id'', ''pending_execution_gate'', ''approval_nonce'',
     ''active_approval_id'', ''executing_task_id'', ''pause_reason'', ''diagnostic'']"

text \<open>\<open>_EXECUTION_STATE_FIELD_TYPES\<close>: a \<open>bool\<close> is never accepted where an \<open>int\<close> is declared.\<close>

definition state_types_ok :: "jdict \<Rightarrow> bool" where
  "state_types_ok raw \<longleftrightarrow>
     list_all (\<lambda>k. is_str (dget raw k))
       [''schema_version'', ''mission_id'', ''plan_identity'', ''status'', ''updated_at''] \<and>
     is_jint (dget raw ''next_assignment_index'') \<and>
     list_all (\<lambda>k. is_list (dget raw k)) [''completed_task_ids'', ''consumed_approval_ids''] \<and>
     is_dict (dget raw ''evidence_ids_by_task'') \<and>
     list_all (\<lambda>k. is_opt_str (dget raw k)) OPTIONAL_STATE_FIELDS"

definition evidence_id_ok :: "pystr \<Rightarrow> bool" where
  "evidence_id_ok s = (case strip_word ''evidence-'' s of None \<Rightarrow> False | Some r \<Rightarrow> hex_fullmatch 12 r)"

definition sha256_str :: "json \<Rightarrow> bool" where
  "sha256_str v = (case v of JStr s \<Rightarrow> hex_fullmatch 64 s | _ \<Rightarrow> False)"

definition state_of :: "jdict \<Rightarrow> ExecutionState" where
  "state_of raw = \<lparr>
     st_schema_version = the_str (dget raw ''schema_version''),
     st_mission_id = the_str (dget raw ''mission_id''),
     st_plan_identity = the_str (dget raw ''plan_identity''),
     st_status = the_str (dget raw ''status''),
     st_next_assignment_index = the_int (dget raw ''next_assignment_index''),
     st_completed_task_ids = the_strs (dget raw ''completed_task_ids''),
     st_pending_task_id = opt_str (dget raw ''pending_task_id''),
     st_pending_execution_gate = opt_str (dget raw ''pending_execution_gate''),
     st_approval_nonce = opt_str (dget raw ''approval_nonce''),
     st_active_approval_id = opt_str (dget raw ''active_approval_id''),
     st_consumed_approval_ids = the_strs (dget raw ''consumed_approval_ids''),
     st_evidence_ids_by_task =
       map (\<lambda>(k, v). (k, the_str v)) (the_obj (dget raw ''evidence_ids_by_task'')),
     st_executing_task_id = opt_str (dget raw ''executing_task_id''),
     st_pause_reason = opt_str (dget raw ''pause_reason''),
     st_diagnostic = opt_str (dget raw ''diagnostic''),
     st_updated_at = the_str (dget raw ''updated_at'')\<rparr>"

text \<open>Every check of the loader; each failing one raises the same \<open>ExecutionStateError\<close>.\<close>

definition state_json_ok :: "jdict \<Rightarrow> pystr \<Rightarrow> bool" where
  "state_json_ok raw mission_id \<longleftrightarrow>
     dget raw ''schema_version'' = JStr EXECUTION_STATE_SCHEMA_VERSION \<and>
     dict_keys_eq raw STATE_FIELDS \<and>
     state_types_ok raw \<and>
     the_str (dget raw ''status'') \<in> set EXECUTION_STATUSES \<and>
     0 \<le> the_int (dget raw ''next_assignment_index'') \<and>
     hex_fullmatch 64 (the_str (dget raw ''plan_identity'')) \<and>
     list_all nonblank_str (the_list (dget raw ''completed_task_ids'')) \<and>
     list_all sha256_str (the_list (dget raw ''consumed_approval_ids'')) \<and>
     distinct (the_strs (dget raw ''consumed_approval_ids'')) \<and>
     list_all (\<lambda>(k, v). py_nonblank k \<and> is_str v \<and> evidence_id_ok (the_str v))
       (the_obj (dget raw ''evidence_ids_by_task'')) \<and>
     list_all (\<lambda>k. dget raw k = JNull \<or> nonblank_str (dget raw k)) OPTIONAL_STATE_FIELDS \<and>
     nonblank_str (dget raw ''updated_at'') \<and>
     (dget raw ''active_approval_id'' = JNull \<or> sha256_str (dget raw ''active_approval_id'')) \<and>
     dget raw ''mission_id'' = JStr mission_id"

datatype state_error = ExecutionStateError | StateRaised py_exn

definition load_execution_state :: "disk_file \<Rightarrow> pystr \<Rightarrow> state_error + ExecutionState option" where
  "load_execution_state f mission_id =
     (case f of
        FAbsent \<Rightarrow> Inr None
      | FUnreadable \<Rightarrow> Inl ExecutionStateError
      | FRaises e \<Rightarrow> Inl (StateRaised e)
      | FJson (JObj raw) \<Rightarrow>
          (if state_json_ok raw mission_id then Inr (Some (state_of raw)) else Inl ExecutionStateError)
      | FJson _ \<Rightarrow> Inl ExecutionStateError)"

section \<open>Prefix and evidence\<close>

definition verify_prefix :: "MissionPlan \<Rightarrow> ExecutionState \<Rightarrow> pystr option" where
  "verify_prefix plan s =
     (let n = length (st_completed_task_ids s) in
      if \<not> distinct (st_completed_task_ids s) then Some ''completed_task_ids_duplicated''
      else if take n (map a_task_id (p_assignments plan)) \<noteq> st_completed_task_ids s
        then Some ''completed_task_ids_not_a_prefix''
      else if st_next_assignment_index s \<noteq> int n then Some ''cursor_index_mismatch''
      else None)"

definition EVIDENCE_REQUIRED_KEYS :: "pystr list" where
  "EVIDENCE_REQUIRED_KEYS = [''evidence_id'', ''mission_id'', ''task_id'', ''provider'', ''model'', ''status'',
     ''output'', ''token_usage'', ''command'', ''started_at'', ''finished_at'', ''output_hash'']"

definition asdict_evidence :: "EvidenceRecord \<Rightarrow> jdict" where
  "asdict_evidence e = [
     (''evidence_id'', JStr (ev_evidence_id e)), (''mission_id'', JStr (ev_mission_id e)),
     (''task_id'', JStr (ev_task_id e)), (''provider'', JStr (ev_provider e)), (''model'', JStr (ev_model e)),
     (''status'', JStr (ev_status e)), (''output'', JStr (ev_output e)),
     (''token_usage'', JObj (map (\<lambda>(k, v). (k, JInt v)) (ev_token_usage e))),
     (''command'', jstrs (ev_command e)), (''started_at'', ev_started_at e),
     (''finished_at'', ev_finished_at e), (''output_hash'', JStr (ev_output_hash e))]"

text \<open>
  \<open>math.isfinite\<close> on an \<open>int\<close> or \<open>float\<close> that is no \<open>bool\<close>; an integer beyond the
  range of a double makes it raise \<open>OverflowError\<close>, which the caller treats like a non-finite value.
\<close>

fun finite_number :: "json \<Rightarrow> bool" where
  "finite_number (JInt i) = (\<bar>i\<bar> < 2 ^ 1024 - 2 ^ 970)"
| "finite_number (JFloat (FFin _ _ _)) = True"
| "finite_number _ = False"

text \<open>The decimal \<open>s * 10^e\<close> of a finite number, and the comparison of two.\<close>

fun decimal_of :: "json \<Rightarrow> int \<times> int" where
  "decimal_of (JInt i) = (i, 0)"
| "decimal_of (JFloat (FFin neg m e)) = (if neg then - int m else int m, e)"
| "decimal_of _ = (0, 0)"

definition decimal_le :: "int \<times> int \<Rightarrow> int \<times> int \<Rightarrow> bool" where
  "decimal_le x y = (case x of (m, e) \<Rightarrow> case y of (n, f) \<Rightarrow>
     (let g = min e f in m * 10 ^ nat (e - g) \<le> n * 10 ^ nat (f - g)))"

definition evidence_of :: "jdict \<Rightarrow> EvidenceRecord" where
  "evidence_of p = \<lparr>
     ev_evidence_id = the_str (dget p ''evidence_id''), ev_mission_id = the_str (dget p ''mission_id''),
     ev_task_id = the_str (dget p ''task_id''), ev_provider = the_str (dget p ''provider''),
     ev_model = the_str (dget p ''model''), ev_status = the_str (dget p ''status''),
     ev_output = the_str (dget p ''output''),
     ev_token_usage = map (\<lambda>(k, v). (k, the_int v)) (the_obj (dget p ''token_usage'')),
     ev_command = the_strs (dget p ''command''), ev_started_at = dget p ''started_at'',
     ev_finished_at = dget p ''finished_at'', ev_output_hash = the_str (dget p ''output_hash'')\<rparr>"

definition evidence_payload_ok :: "pystr \<Rightarrow> pystr \<Rightarrow> pystr \<Rightarrow> jdict \<Rightarrow> bool" where
  "evidence_payload_ok mission_id task_id evidence_id p \<longleftrightarrow>
     dict_keys_eq p EVIDENCE_REQUIRED_KEYS \<and>
     nonblank_str (dget p ''evidence_id'') \<and> dget p ''evidence_id'' = JStr evidence_id \<and>
     evidence_id_ok evidence_id \<and>
     nonblank_str (dget p ''mission_id'') \<and> dget p ''mission_id'' = JStr mission_id \<and>
     nonblank_str (dget p ''task_id'') \<and> dget p ''task_id'' = JStr task_id \<and>
     nonblank_str (dget p ''provider'') \<and> is_str (dget p ''model'') \<and>
     dget p ''status'' = JStr ''completed'' \<and> is_str (dget p ''output'') \<and>
     nonblank_str (dget p ''output_hash'') \<and>
     is_dict (dget p ''token_usage'') \<and>
     list_all (\<lambda>(k, v). is_jint v \<and> 0 \<le> the_int v) (the_obj (dget p ''token_usage'')) \<and>
     is_strs (dget p ''command'') \<and>
     finite_number (dget p ''started_at'') \<and> finite_number (dget p ''finished_at'') \<and>
     decimal_le (decimal_of (dget p ''started_at'')) (decimal_of (dget p ''finished_at'')) \<and>
     dget p ''output_hash'' = JStr (sha256_hex (the_str (dget p ''output'')))"

text \<open>
  The evidence directory of a mission: whether it resolves to a child of the mission directory,
  the file per evidence id, and the ids whose file resolves to a place outside it.
\<close>

record evidence_dir =
  ed_confined :: bool
  ed_file :: "pystr \<Rightarrow> disk_file"
  ed_outside :: "pystr list"

fun verify_evidence_of ::
  "evidence_dir \<Rightarrow> pystr \<Rightarrow> pystr pydict \<Rightarrow> pystr list \<Rightarrow> (EvidenceRecord list option) py" where
  "verify_evidence_of ed mission_id ids [] = Inr (Some [])"
| "verify_evidence_of ed mission_id ids (task_id # rest) =
     (case dict_get ids task_id of
        None \<Rightarrow> Inr None
      | Some evidence_id \<Rightarrow>
         (if \<not> evidence_id_ok evidence_id then Inr None
          else if evidence_id \<in> set (ed_outside ed) then Inr None
          else case ed_file ed evidence_id of
            FAbsent \<Rightarrow> Inr None
          | FUnreadable \<Rightarrow> Inr None
          | FRaises e \<Rightarrow> Inl e
          | FJson payload \<Rightarrow>
             (if \<not> is_dict payload \<or> \<not> evidence_payload_ok mission_id task_id evidence_id (the_obj payload)
              then Inr None
              else py_bind (verify_evidence_of ed mission_id ids rest) (\<lambda>r.
                     Inr (map_option ((#) (evidence_of (the_obj payload))) r)))))"

text \<open>\<open>Inr None\<close> is the diagnostic \<open>missing_or_corrupt_completed_evidence\<close>.\<close>

definition verify_completed_evidence ::
  "evidence_dir \<Rightarrow> MissionPlan \<Rightarrow> ExecutionState \<Rightarrow> (EvidenceRecord list option) py" where
  "verify_completed_evidence ed plan s =
     (if \<not> ed_confined ed then Inr None
      else verify_evidence_of ed (p_mission_id plan) (st_evidence_ids_by_task s) (st_completed_task_ids s))"

section \<open>Approvals\<close>

definition approval_id :: "AssignmentApproval \<Rightarrow> pystr" where
  "approval_id a = sha256_hex (canonical_dumps (JObj [
     (''mission_id'', JStr (ap_mission_id a)), (''task_id'', JStr (ap_task_id a)),
     (''execution_gate'', JStr (ap_execution_gate a)), (''plan_identity'', JStr (ap_plan_identity a)),
     (''approval_nonce'', JStr (ap_approval_nonce a)), (''approval_text'', JStr (ap_approval_text a)),
     (''approval_source'', JStr (ap_approval_source a))]))"

definition expected_approval_command :: "pystr \<Rightarrow> pystr \<Rightarrow> pystr \<Rightarrow> pystr \<Rightarrow> pystr" where
  "expected_approval_command mission_id task_id identity nonce =
     '':aprobar-assignment '' @ mission_id @ '' '' @ task_id @ '' separate_human_approval '' @ identity @ '' '' @ nonce"

text \<open>\<open>Inr\<close> the approval's identity when valid, otherwise the reason.\<close>

definition validate_assignment_approval ::
  "AssignmentApproval option \<Rightarrow> MissionPlan \<Rightarrow> ExecutionState \<Rightarrow> AgentAssignment \<Rightarrow> pystr + pystr" where
  "validate_assignment_approval approval plan s task =
     (case approval of
        None \<Rightarrow> Inl ''no_approval_provided''
      | Some a \<Rightarrow>
         (if \<not> list_all py_nonblank [ap_mission_id a, ap_task_id a, ap_execution_gate a, ap_plan_identity a,
                ap_approval_nonce a, ap_approval_text a, ap_approval_source a, ap_approved_at a]
            then Inl ''approval_missing_fields''
          else if ap_approval_source a \<noteq> ''interactive_terminal'' then Inl ''approval_source_mismatch''
          else if ap_mission_id a \<noteq> p_mission_id plan \<or> ap_mission_id a \<noteq> st_mission_id s
            then Inl ''mission_id_mismatch''
          else if ap_task_id a \<noteq> a_task_id task \<or> Some (ap_task_id a) \<noteq> st_pending_task_id s
            then Inl ''task_id_mismatch''
          else if st_status s \<noteq> ''waiting_for_approval'' then Inl ''no_pending_approval''
          else if ap_execution_gate a \<noteq> ''separate_human_approval'' \<or>
                  a_execution_gate task \<noteq> ''separate_human_approval'' \<or>
                  st_pending_execution_gate s \<noteq> Some ''separate_human_approval'' then Inl ''gate_mismatch''
          else if ap_plan_identity a \<noteq> plan_identity plan \<or> st_plan_identity s \<noteq> plan_identity plan
            then Inl ''plan_identity_mismatch''
          else if Some (ap_approval_nonce a) \<noteq> st_approval_nonce s then Inl ''nonce_mismatch''
          else if ap_approval_text a \<noteq> expected_approval_command (ap_mission_id a) (ap_task_id a)
                    (ap_plan_identity a) (ap_approval_nonce a) then Inl ''unexpected_command_text''
          else if approval_id a \<in> set (st_consumed_approval_ids s) then Inl ''approval_already_consumed''
          else Inr (approval_id a)))"

section \<open>Invariants\<close>

definition NON_RESUMABLE_EXECUTION_STATUSES :: "pystr list" where
  "NON_RESUMABLE_EXECUTION_STATUSES = [''completed'', ''failed'', ''blocked'', ''recovery_required'']"

definition nonblank_opt :: "pystr option \<Rightarrow> bool" where
  "nonblank_opt v = (case v of None \<Rightarrow> False | Some s \<Rightarrow> py_nonblank s)"

definition current_assignment :: "MissionPlan \<Rightarrow> ExecutionState \<Rightarrow> AgentAssignment option" where
  "current_assignment plan s =
     (if st_next_assignment_index s < int (length (p_assignments plan))
      then Some (p_assignments plan ! nat (st_next_assignment_index s)) else None)"

text \<open>No approval, no task under way: the fields every resting state shares.\<close>

definition no_pending :: "ExecutionState \<Rightarrow> bool" where
  "no_pending s \<longleftrightarrow> st_pending_task_id s = None \<and> st_pending_execution_gate s = None \<and>
     st_approval_nonce s = None \<and> st_active_approval_id s = None \<and> st_executing_task_id s = None"

definition stopped_at :: "ExecutionState \<Rightarrow> AgentAssignment \<Rightarrow> bool" where
  "stopped_at s t \<longleftrightarrow> st_pending_task_id s = Some (a_task_id t) \<and>
     st_pending_execution_gate s = Some (a_execution_gate t) \<and> st_executing_task_id s = None \<and>
     st_active_approval_id s = None \<and> st_approval_nonce s = None"

definition status_invariant :: "MissionPlan \<Rightarrow> ExecutionState \<Rightarrow> pystr option" where
  "status_invariant plan s =
     (let current = current_assignment plan s; report = (\<lambda>ok d. if ok then None else Some d) in
      if st_status s = ''in_progress'' then report (no_pending s) ''invalid_state_for_in_progress''
      else if st_status s = ''waiting_for_approval'' then
        report (case current of None \<Rightarrow> False | Some t \<Rightarrow>
            a_execution_gate t = ''separate_human_approval'' \<and>
            st_pending_task_id s = Some (a_task_id t) \<and>
            st_pending_execution_gate s = Some ''separate_human_approval'' \<and>
            st_approval_nonce s \<noteq> None \<and> st_active_approval_id s = None \<and>
            st_executing_task_id s = None \<and> nonblank_opt (st_pause_reason s))
          ''invalid_state_for_waiting_for_approval''
      else if st_status s = ''executing'' then
        report (case current of None \<Rightarrow> False | Some t \<Rightarrow>
            st_executing_task_id s = Some (a_task_id t) \<and> st_pending_task_id s = Some (a_task_id t) \<and>
            st_pending_execution_gate s = Some (a_execution_gate t) \<and>
            (if a_execution_gate t = ''separate_human_approval'' then
               st_approval_nonce s \<noteq> None \<and>
               (case st_active_approval_id s of None \<Rightarrow> False | Some i \<Rightarrow> i \<notin> set (st_consumed_approval_ids s))
             else if a_execution_gate t = ''plan_approval'' then
               st_approval_nonce s = None \<and> st_active_approval_id s = None
             else False))
          ''invalid_state_for_executing''
      else if st_status s = ''completed'' then
        report (st_next_assignment_index s = int (length (p_assignments plan)) \<and>
            st_completed_task_ids s = map a_task_id (p_assignments plan) \<and> no_pending s)
          ''invalid_state_for_completed''
      else if st_status s = ''failed'' then
        report (case current of None \<Rightarrow> False | Some t \<Rightarrow> stopped_at s t \<and> nonblank_opt (st_diagnostic s))
          ''invalid_state_for_failed''
      else if st_status s = ''blocked'' then
        report (case current of None \<Rightarrow> False | Some t \<Rightarrow> stopped_at s t \<and> nonblank_opt (st_pause_reason s))
          ''invalid_state_for_blocked''
      else if st_status s = ''recovery_required'' then
        report (nonblank_opt (st_diagnostic s)) ''invalid_state_for_recovery_required''
      else Some ''unknown_execution_status'')"

definition validate_execution_state_invariants :: "MissionPlan \<Rightarrow> ExecutionState \<Rightarrow> pystr option" where
  "validate_execution_state_invariants plan s =
     (let ids = map a_task_id (p_assignments plan) in
      if st_mission_id s \<noteq> p_mission_id plan then Some ''mission_id_mismatch''
      else if st_plan_identity s \<noteq> plan_identity plan then Some ''plan_drift''
      else if p_assignments plan = [] then Some ''empty_plan_assignments''
      else if \<not> (0 \<le> st_next_assignment_index s \<and> st_next_assignment_index s \<le> int (length (p_assignments plan)))
        then Some ''cursor_out_of_range''
      else case verify_prefix plan s of
        Some err \<Rightarrow> Some err
      | None \<Rightarrow>
         (if \<not> list_all (\<lambda>v. case v of None \<Rightarrow> True | Some t \<Rightarrow> t \<in> set ids)
               ([st_pending_task_id s, st_executing_task_id s] @ map (Some \<circ> fst) (st_evidence_ids_by_task s))
            then Some ''unknown_referenced_task''
          else if (case st_approval_nonce s of None \<Rightarrow> False | Some n \<Rightarrow> \<not> hex_fullmatch 32 n)
            then Some ''invalid_approval_nonce''
          else if (case st_active_approval_id s of None \<Rightarrow> False | Some i \<Rightarrow> \<not> hex_fullmatch 64 i)
            then Some ''invalid_active_approval_id_format''
          else if (case st_active_approval_id s of None \<Rightarrow> False | Some i \<Rightarrow> i \<in> set (st_consumed_approval_ids s))
            then Some ''active_approval_id_already_consumed''
          else status_invariant plan s))"

section \<open>Transitions\<close>

definition new_execution_state :: "MissionPlan \<Rightarrow> pystr \<Rightarrow> ExecutionState" where
  "new_execution_state plan updated_at = \<lparr>
     st_schema_version = EXECUTION_STATE_SCHEMA_VERSION, st_mission_id = p_mission_id plan,
     st_plan_identity = plan_identity plan, st_status = ''in_progress'', st_next_assignment_index = 0,
     st_completed_task_ids = [], st_pending_task_id = None, st_pending_execution_gate = None,
     st_approval_nonce = None, st_active_approval_id = None, st_consumed_approval_ids = [],
     st_evidence_ids_by_task = [], st_executing_task_id = None, st_pause_reason = None,
     st_diagnostic = None, st_updated_at = updated_at\<rparr>"

definition transition_to_blocked ::
  "ExecutionState \<Rightarrow> AgentAssignment \<Rightarrow> pystr \<Rightarrow> pystr \<Rightarrow> ExecutionState" where
  "transition_to_blocked s t reason updated_at = s\<lparr>
     st_status := ''blocked'', st_pending_task_id := Some (a_task_id t),
     st_pending_execution_gate := Some (a_execution_gate t), st_approval_nonce := None,
     st_active_approval_id := None, st_executing_task_id := None, st_pause_reason := Some reason,
     st_diagnostic := Some reason, st_updated_at := updated_at\<rparr>"

definition transition_to_waiting ::
  "ExecutionState \<Rightarrow> AgentAssignment \<Rightarrow> pystr \<Rightarrow> pystr \<Rightarrow> pystr \<Rightarrow> ExecutionState" where
  "transition_to_waiting s t nonce pause_reason updated_at = s\<lparr>
     st_status := ''waiting_for_approval'', st_pending_task_id := Some (a_task_id t),
     st_pending_execution_gate := Some (a_execution_gate t), st_approval_nonce := Some nonce,
     st_active_approval_id := None, st_executing_task_id := None, st_pause_reason := Some pause_reason,
     st_diagnostic := None, st_updated_at := updated_at\<rparr>"

definition transition_to_executing ::
  "ExecutionState \<Rightarrow> AgentAssignment \<Rightarrow> pystr option \<Rightarrow> pystr \<Rightarrow> ExecutionState" where
  "transition_to_executing s t active updated_at =
     (let separate = (a_execution_gate t = ''separate_human_approval'') in s\<lparr>
     st_status := ''executing'', st_pending_task_id := Some (a_task_id t),
     st_pending_execution_gate := Some (a_execution_gate t), st_executing_task_id := Some (a_task_id t),
     st_approval_nonce := (if separate then st_approval_nonce s else None),
     st_active_approval_id := (if separate then active else None), st_pause_reason := None,
     st_diagnostic := None, st_updated_at := updated_at\<rparr>)"

text \<open>\<open>list(consumed)\<close> with the approval appended unless it is already there.\<close>

definition consume :: "pystr option \<Rightarrow> pystr list \<Rightarrow> pystr list" where
  "consume approval consumed =
     (case approval of None \<Rightarrow> consumed | Some i \<Rightarrow> if i \<in> set consumed then consumed else consumed @ [i])"

definition transition_after_completed_assignment ::
  "ExecutionState \<Rightarrow> MissionPlan \<Rightarrow> AgentAssignment \<Rightarrow> EvidenceRecord \<Rightarrow> pystr option \<Rightarrow> pystr \<Rightarrow> ExecutionState" where
  "transition_after_completed_assignment s plan t evidence approval updated_at =
     (let next_index = st_next_assignment_index s + 1 in s\<lparr>
     st_status := (if next_index \<ge> int (length (p_assignments plan)) then ''completed'' else ''in_progress''),
     st_next_assignment_index := next_index,
     st_completed_task_ids := st_completed_task_ids s @ [a_task_id t],
     st_pending_task_id := None, st_pending_execution_gate := None, st_approval_nonce := None,
     st_active_approval_id := None, st_executing_task_id := None, st_pause_reason := None,
     st_diagnostic := None,
     st_evidence_ids_by_task := dict_set (st_evidence_ids_by_task s) (a_task_id t) (ev_evidence_id evidence),
     st_consumed_approval_ids := consume approval (st_consumed_approval_ids s),
     st_updated_at := updated_at\<rparr>)"

definition transition_after_failed_assignment ::
  "ExecutionState \<Rightarrow> AgentAssignment \<Rightarrow> pystr option \<Rightarrow> pystr \<Rightarrow> pystr \<Rightarrow> ExecutionState" where
  "transition_after_failed_assignment s t approval diagnostic updated_at = s\<lparr>
     st_status := ''failed'', st_pending_task_id := Some (a_task_id t),
     st_pending_execution_gate := Some (a_execution_gate t), st_executing_task_id := None,
     st_active_approval_id := None, st_approval_nonce := None, st_pause_reason := None,
     st_diagnostic := Some diagnostic,
     st_consumed_approval_ids := consume approval (st_consumed_approval_ids s),
     st_updated_at := updated_at\<rparr>"

definition transition_after_blocked_assignment ::
  "ExecutionState \<Rightarrow> AgentAssignment \<Rightarrow> pystr option \<Rightarrow> pystr \<Rightarrow> pystr \<Rightarrow> ExecutionState" where
  "transition_after_blocked_assignment s t approval diagnostic updated_at = s\<lparr>
     st_status := ''blocked'', st_pending_task_id := Some (a_task_id t),
     st_pending_execution_gate := Some (a_execution_gate t), st_executing_task_id := None,
     st_active_approval_id := None, st_approval_nonce := None, st_pause_reason := Some diagnostic,
     st_diagnostic := Some diagnostic,
     st_consumed_approval_ids := consume approval (st_consumed_approval_ids s),
     st_updated_at := updated_at\<rparr>"

definition transition_to_failed_before_execution ::
  "ExecutionState \<Rightarrow> AgentAssignment \<Rightarrow> pystr \<Rightarrow> pystr option \<Rightarrow> pystr \<Rightarrow> ExecutionState" where
  "transition_to_failed_before_execution s t diagnostic approval updated_at = s\<lparr>
     st_status := ''failed'', st_pending_task_id := Some (a_task_id t),
     st_pending_execution_gate := Some (a_execution_gate t), st_executing_task_id := None,
     st_active_approval_id := None, st_approval_nonce := None, st_pause_reason := None,
     st_diagnostic := Some diagnostic,
     st_consumed_approval_ids := consume approval (st_consumed_approval_ids s),
     st_updated_at := updated_at\<rparr>"

definition recovery_result :: "ExecutionState \<Rightarrow> pystr \<Rightarrow> pystr \<Rightarrow> ExecutionState" where
  "recovery_result s diagnostic updated_at = s\<lparr>
     st_status := ''recovery_required'', st_diagnostic := Some diagnostic, st_updated_at := updated_at\<rparr>"

section \<open>Lemmas\<close>

lemma jopt_simps [simp]:
  "opt_str (jopt v) = v" "is_opt_str (jopt v)" "(jopt v = JNull) = (v = None)"
  "nonblank_str (jopt v) = nonblank_opt v" "sha256_str (jopt v) = (\<exists>s. v = Some s \<and> hex_fullmatch 64 s)"
  by (auto simp: jopt_def opt_str_def is_opt_str_def nonblank_opt_def sha256_str_def split: option.splits)

lemma jstrs_simps [simp]:
  "the_strs (jstrs xs) = xs" "is_strs (jstrs xs)" "is_list (jstrs xs)"
  "list_all nonblank_str (the_list (jstrs xs)) = list_all py_nonblank xs"
  "list_all sha256_str (the_list (jstrs xs)) = list_all (hex_fullmatch 64) xs"
  by (simp_all add: the_strs_def jstrs_def is_strs_def comp_def sha256_str_def list_all_iff)

text \<open>What a file holds after \<open>_save_execution_state\<close> and \<open>_persist\<close>.\<close>

definition state_file :: "ExecutionState \<Rightarrow> disk_file" where
  "state_file s = FJson (JObj (asdict_state s))"

definition plan_file :: "MissionPlan \<Rightarrow> disk_file" where
  "plan_file p = FJson (JObj (asdict_plan p))"

definition evidence_file :: "EvidenceRecord \<Rightarrow> disk_file" where
  "evidence_file e = FJson (JObj (asdict_evidence e))"

text \<open>The text \<open>_save_execution_state\<close> writes, and what reading a text amounts to.\<close>

definition state_text :: "ExecutionState \<Rightarrow> pystr" where
  "state_text s = json_dumps_indent 0 (JObj (asdict_state s))"

definition file_of_text :: "nat \<Rightarrow> pystr \<Rightarrow> disk_file" where
  "file_of_text limit contents =
     (case json_loads limit contents of
        Inr v \<Rightarrow> FJson v
      | Inl e \<Rightarrow> (if e = JSONDecodeError then FUnreadable else FRaises e))"

lemma dget_asdict_state [simp]:
  "dget (asdict_state s) ''schema_version'' = JStr (st_schema_version s)"
  "dget (asdict_state s) ''mission_id'' = JStr (st_mission_id s)"
  "dget (asdict_state s) ''plan_identity'' = JStr (st_plan_identity s)"
  "dget (asdict_state s) ''status'' = JStr (st_status s)"
  "dget (asdict_state s) ''next_assignment_index'' = JInt (st_next_assignment_index s)"
  "dget (asdict_state s) ''completed_task_ids'' = jstrs (st_completed_task_ids s)"
  "dget (asdict_state s) ''pending_task_id'' = jopt (st_pending_task_id s)"
  "dget (asdict_state s) ''pending_execution_gate'' = jopt (st_pending_execution_gate s)"
  "dget (asdict_state s) ''approval_nonce'' = jopt (st_approval_nonce s)"
  "dget (asdict_state s) ''active_approval_id'' = jopt (st_active_approval_id s)"
  "dget (asdict_state s) ''consumed_approval_ids'' = jstrs (st_consumed_approval_ids s)"
  "dget (asdict_state s) ''evidence_ids_by_task'' = JObj (map (\<lambda>(k, v). (k, JStr v)) (st_evidence_ids_by_task s))"
  "dget (asdict_state s) ''executing_task_id'' = jopt (st_executing_task_id s)"
  "dget (asdict_state s) ''pause_reason'' = jopt (st_pause_reason s)"
  "dget (asdict_state s) ''diagnostic'' = jopt (st_diagnostic s)"
  "dget (asdict_state s) ''updated_at'' = JStr (st_updated_at s)"
  by (simp_all add: asdict_state_def)

lemma dict_keys_eq_map:
  "map fst d = ks \<Longrightarrow> dict_keys_eq d ks"
  by (auto simp: dict_keys_eq_def list_all_iff dict_get_def map_of_eq_None_iff rev_image_eqI)

lemma keys_asdict_state [simp]: "dict_keys_eq (asdict_state s) STATE_FIELDS"
  by (rule dict_keys_eq_map) (simp add: asdict_state_def STATE_FIELDS_def)

text \<open>The states that \<open>_load_execution_state\<close> accepts, as a predicate on the record.\<close>

definition opt_ok :: "pystr option \<Rightarrow> bool" where
  "opt_ok v = (v = None \<or> nonblank_opt v)"

definition state_wf :: "ExecutionState \<Rightarrow> pystr \<Rightarrow> bool" where
  "state_wf s mission_id \<longleftrightarrow>
     st_schema_version s = EXECUTION_STATE_SCHEMA_VERSION \<and> st_mission_id s = mission_id \<and>
     st_status s \<in> set EXECUTION_STATUSES \<and> 0 \<le> st_next_assignment_index s \<and>
     hex_fullmatch 64 (st_plan_identity s) \<and> list_all py_nonblank (st_completed_task_ids s) \<and>
     list_all (hex_fullmatch 64) (st_consumed_approval_ids s) \<and> distinct (st_consumed_approval_ids s) \<and>
     list_all (\<lambda>(k, v). py_nonblank k \<and> evidence_id_ok v) (st_evidence_ids_by_task s) \<and>
     list_all opt_ok [st_pending_task_id s, st_pending_execution_gate s, st_approval_nonce s,
       st_active_approval_id s, st_executing_task_id s, st_pause_reason s, st_diagnostic s] \<and>
     py_nonblank (st_updated_at s) \<and>
     (case st_active_approval_id s of None \<Rightarrow> True | Some i \<Rightarrow> hex_fullmatch 64 i)"

lemma state_json_ok_asdict [simp]: "state_json_ok (asdict_state s) mission_id = state_wf s mission_id"
proof -
  have "state_types_ok (asdict_state s)"
    by (simp add: state_types_ok_def OPTIONAL_STATE_FIELDS_def)
  moreover have "list_all (\<lambda>k. dget (asdict_state s) k = JNull \<or> nonblank_str (dget (asdict_state s) k))
        OPTIONAL_STATE_FIELDS \<longleftrightarrow>
      list_all opt_ok [st_pending_task_id s, st_pending_execution_gate s, st_approval_nonce s,
        st_active_approval_id s, st_executing_task_id s, st_pause_reason s, st_diagnostic s]"
    by (simp add: OPTIONAL_STATE_FIELDS_def opt_ok_def)
  moreover have "list_all (\<lambda>(k, v). py_nonblank k \<and> is_str v \<and> evidence_id_ok (the_str v))
        (map (\<lambda>(k, v). (k, JStr v)) d) = list_all (\<lambda>(k, v). py_nonblank k \<and> evidence_id_ok v) d" for d
    by (induction d) auto
  ultimately show ?thesis
    unfolding state_json_ok_def state_wf_def by (auto split: option.splits)
qed

lemma state_of_asdict [simp]: "state_of (asdict_state s) = s"
proof -
  have "map (\<lambda>(k, v). (k, the_str v)) (map (\<lambda>(k, v). (k, JStr v)) d) = d" for d :: "pystr pydict"
    by (induction d) auto
  then show ?thesis by (simp add: state_of_def)
qed

lemma load_state_file:
  "load_execution_state (state_file s) mission_id =
     (if state_wf s mission_id then Inr (Some s) else Inl ExecutionStateError)"
  by (simp add: load_execution_state_def state_file_def)

lemma loaded_state_wf:
  assumes "load_execution_state f mission_id = Inr (Some s)"
  shows "state_wf s mission_id"
proof -
  from assms obtain raw where ok: "state_json_ok raw mission_id" and s: "s = state_of raw"
    by (auto simp: load_execution_state_def split: disk_file.splits json.splits if_splits)
  have strs: "list_all py_nonblank (the_strs v) \<longleftrightarrow> True" if "list_all nonblank_str (the_list v)" for v
    using that by (auto simp: the_strs_def list_all_iff elim!: nonblank_str.elims)
  have hexes: "list_all (hex_fullmatch 64) (the_strs v)" if "list_all sha256_str (the_list v)" for v
  proof -
    have "hex_fullmatch 64 (the_str x)" if "sha256_str x" for x
      using that by (cases x) (auto simp: sha256_str_def)
    with that show ?thesis by (auto simp: the_strs_def list_all_iff)
  qed
  have opts: "opt_ok (opt_str v)" if "v = JNull \<or> nonblank_str v" for v
    using that by (cases v) (auto simp: opt_ok_def opt_str_def nonblank_opt_def)
  have ids: "list_all (\<lambda>(k, v). py_nonblank k \<and> evidence_id_ok v) (map (\<lambda>(k, v). (k, the_str v)) d)"
    if "list_all (\<lambda>(k, v). py_nonblank k \<and> is_str v \<and> evidence_id_ok (the_str v)) d" for d
    using that by (induction d) auto
  have active: "case opt_str v of None \<Rightarrow> True | Some i \<Rightarrow> hex_fullmatch 64 i"
    if "v = JNull \<or> sha256_str v" for v
    using that by (cases v) (auto simp: opt_str_def sha256_str_def)
  have upd: "py_nonblank (the_str v)" if "nonblank_str v" for v
    using that by (cases v) auto
  show ?thesis
    using ok unfolding s state_json_ok_def state_wf_def
    by (simp add: state_of_def strs hexes opts ids active upd OPTIONAL_STATE_FIELDS_def)
qed

subsection \<open>Plans and evidence on disk\<close>

lemma dget_asdict_plan [simp]:
  "dget (asdict_plan p) ''mission_id'' = JStr (p_mission_id p)"
  "dget (asdict_plan p) ''understanding'' = JStr (p_understanding p)"
  "dget (asdict_plan p) ''explicit_facts'' = jstrs (p_explicit_facts p)"
  "dget (asdict_plan p) ''missing_context'' = jstrs (p_missing_context p)"
  "dget (asdict_plan p) ''assumptions_prohibited'' = jstrs (p_assumptions_prohibited p)"
  "dget (asdict_plan p) ''complexity'' = JStr (p_complexity p)"
  "dget (asdict_plan p) ''assignments'' = JList (map asdict_assignment (p_assignments p))"
  "dget (asdict_plan p) ''acceptance_criteria'' = jstrs (p_acceptance_criteria p)"
  "dget (asdict_plan p) ''approval_boundaries'' = jstrs (p_approval_boundaries p)"
  "dget (asdict_plan p) ''estimated_tokens'' = JInt (p_estimated_tokens p)"
  "dget (asdict_plan p) ''estimated_cost_class'' = JStr (p_estimated_cost_class p)"
  "dget (asdict_plan p) ''rationale'' = JStr (p_rationale p)"
  "dget (asdict_plan p) ''approval'' = JObj (p_approval p)"
  "dget (asdict_plan p) ''teachback_policy'' = JStr (p_teachback_policy p)"
  "dget (asdict_plan p) ''workspace_policy'' = JObj (p_workspace_policy p)"
  "dget (asdict_plan p) ''budget'' = JObj (p_budget p)"
  "dget (asdict_plan p) ''governance'' = JObj (p_governance p)"
  "dget (asdict_plan p) ''plan_hash'' = JStr (p_plan_hash p)"
  "dget (asdict_plan p) ''mission_constraints'' = (case p_mission_constraints p of None \<Rightarrow> JNull | Some c \<Rightarrow> c)"
  "dget (asdict_plan p) ''repository_evidence'' = (case p_repository_evidence p of None \<Rightarrow> JNull | Some d \<Rightarrow> JObj d)"
  by (simp_all add: asdict_plan_def)

lemma asdict_assignment_roundtrip:
  "is_dict (asdict_assignment a)" "dict_keys_eq (the_obj (asdict_assignment a)) ASSIGNMENT_FIELDS"
  "assignment_typed (the_obj (asdict_assignment a))" "assignment_of (the_obj (asdict_assignment a)) = a"
proof -
  show "dict_keys_eq (the_obj (asdict_assignment a)) ASSIGNMENT_FIELDS"
    by (rule dict_keys_eq_map) (simp add: asdict_assignment_def ASSIGNMENT_FIELDS_def)
qed (simp_all add: asdict_assignment_def assignment_typed_def assignment_of_def)

lemma keys_asdict_plan:
  "list_all (\<lambda>(k, _). k \<in> set (PLAN_REQUIRED_FIELDS @ PLAN_OPTIONAL_FIELDS)) (asdict_plan p)"
  "list_all (\<lambda>k. dict_get (asdict_plan p) k \<noteq> None) PLAN_REQUIRED_FIELDS"
proof -
  let ?ks = "PLAN_REQUIRED_FIELDS @ PLAN_OPTIONAL_FIELDS"
  have ks: "map fst (asdict_plan p) = ?ks"
    by (simp add: asdict_plan_def PLAN_REQUIRED_FIELDS_def PLAN_OPTIONAL_FIELDS_def)
  then have "dict_keys_eq (asdict_plan p) ?ks"
    by (rule dict_keys_eq_map)
  then show "list_all (\<lambda>(k, _). k \<in> set ?ks) (asdict_plan p)"
    and "list_all (\<lambda>k. dict_get (asdict_plan p) k \<noteq> None) PLAN_REQUIRED_FIELDS"
    by (auto simp: dict_keys_eq_def)
qed

text \<open>Reading back \<^verbatim>\<open>plan.json\<close>: a manifest that is the value \<open>null\<close> reads as no manifest.\<close>

lemma load_plan_file:
  assumes "p_mission_constraints p \<noteq> Some JNull"
  shows "load_persisted_plan (plan_file p) mission_id =
           (if p_mission_id p = mission_id then Inr p else Inl MissionLookupError)"
proof -
  have "plan_typed (asdict_plan p)"
    by (simp add: plan_typed_def list_all_iff asdict_assignment_roundtrip split: option.split)
  moreover have "plan_of (asdict_plan p) = p"
  proof -
    have "map (\<lambda>x. assignment_of (the_obj x)) (map asdict_assignment as) = as" for as
      by (induction as) (simp_all add: asdict_assignment_roundtrip)
    moreover have "(let v = (case c of None \<Rightarrow> JNull | Some c \<Rightarrow> c) in if v = JNull then None else Some v) = c"
      if "c \<noteq> Some JNull" for c
      using that by (cases c) auto
    moreover have "(let v = (case c of None \<Rightarrow> JNull | Some d \<Rightarrow> JObj d) in
        if v = JNull then None else Some (the_obj v)) = c" for c
      by (cases c) auto
    ultimately show ?thesis
      using assms by (cases p) (simp only: plan_of_def dget_asdict_plan jstrs_simps the_str.simps
          the_int.simps the_obj.simps the_list.simps Let_def MissionPlan.select_convs simp_thms not_False_eq_True)
  qed
  moreover have "list_all (\<lambda>x. is_dict x \<and> dict_keys_eq (the_obj x) ASSIGNMENT_FIELDS)
      (map asdict_assignment (p_assignments p))"
    by (simp add: list_all_iff asdict_assignment_roundtrip)
  ultimately show ?thesis
    by (simp only: load_persisted_plan_def plan_file_def disk_file.case json.case keys_asdict_plan
        dget_asdict_plan json.inject not_True_eq_False simp_thms if_True if_False) simp
qed

lemma dget_asdict_evidence [simp]:
  "dget (asdict_evidence e) ''evidence_id'' = JStr (ev_evidence_id e)"
  "dget (asdict_evidence e) ''mission_id'' = JStr (ev_mission_id e)"
  "dget (asdict_evidence e) ''task_id'' = JStr (ev_task_id e)"
  "dget (asdict_evidence e) ''provider'' = JStr (ev_provider e)"
  "dget (asdict_evidence e) ''model'' = JStr (ev_model e)"
  "dget (asdict_evidence e) ''status'' = JStr (ev_status e)"
  "dget (asdict_evidence e) ''output'' = JStr (ev_output e)"
  "dget (asdict_evidence e) ''token_usage'' = JObj (map (\<lambda>(k, v). (k, JInt v)) (ev_token_usage e))"
  "dget (asdict_evidence e) ''command'' = jstrs (ev_command e)"
  "dget (asdict_evidence e) ''started_at'' = ev_started_at e"
  "dget (asdict_evidence e) ''finished_at'' = ev_finished_at e"
  "dget (asdict_evidence e) ''output_hash'' = JStr (ev_output_hash e)"
  by (simp_all add: asdict_evidence_def)

lemma evidence_of_asdict [simp]: "evidence_of (asdict_evidence e) = e"
proof -
  have "map (\<lambda>(k, v). (k, the_int v)) (map (\<lambda>(k, v). (k, JInt v)) d) = d" for d :: "int pydict"
    by (induction d) auto
  then show ?thesis by (simp add: evidence_of_def)
qed

text \<open>The record a run builds verifies when it is complete and its parts are sane.\<close>

definition evidence_sane :: "pystr \<Rightarrow> pystr \<Rightarrow> EvidenceRecord \<Rightarrow> bool" where
  "evidence_sane mission_id task_id e \<longleftrightarrow>
     evidence_id_ok (ev_evidence_id e) \<and> ev_mission_id e = mission_id \<and> py_nonblank mission_id \<and>
     ev_task_id e = task_id \<and> py_nonblank task_id \<and> py_nonblank (ev_provider e) \<and>
     ev_status e = ''completed'' \<and> list_all (\<lambda>(_, v). 0 \<le> v) (ev_token_usage e) \<and>
     finite_number (ev_started_at e) \<and> finite_number (ev_finished_at e) \<and>
     decimal_le (decimal_of (ev_started_at e)) (decimal_of (ev_finished_at e)) \<and>
     ev_output_hash e = sha256_hex (ev_output e)"

lemma evidence_id_nonblank: "evidence_id_ok s \<Longrightarrow> py_nonblank s"
proof -
  assume "evidence_id_ok s"
  then obtain r where "s = CHR ''e'' # r"
    by (auto simp: evidence_id_ok_def strip_word_def split: if_splits) (metis append_Cons append_take_drop_id)
  moreover have "\<not> py_isspace (CHR ''e'')" by (simp add: py_isspace_def code_point_def)
  ultimately show "py_nonblank s" by (simp add: py_nonblank_Cons)
qed

lemma evidence_payload_ok_asdict:
  "evidence_payload_ok mission_id task_id (ev_evidence_id e) (asdict_evidence e) \<longleftrightarrow>
     evidence_sane mission_id task_id e"
proof -
  have "dict_keys_eq (asdict_evidence e) EVIDENCE_REQUIRED_KEYS"
    by (rule dict_keys_eq_map) (simp add: asdict_evidence_def EVIDENCE_REQUIRED_KEYS_def)
  moreover have "list_all (\<lambda>(k, v). is_jint v \<and> 0 \<le> the_int v) (map (\<lambda>(k, v). (k, JInt v)) d) =
      list_all (\<lambda>(_, v). 0 \<le> v) d" for d
    by (induction d) auto
  ultimately show ?thesis
    using sha256_hex_nonblank evidence_id_nonblank
    unfolding evidence_payload_ok_def evidence_sane_def by auto
qed

subsection \<open>Consistency of a state with its plan\<close>

abbreviation consistent :: "MissionPlan \<Rightarrow> ExecutionState \<Rightarrow> bool" where
  "consistent plan s \<equiv> validate_execution_state_invariants plan s = None"

text \<open>The part of the invariants that does not depend on the status.\<close>

definition cursor_ok :: "MissionPlan \<Rightarrow> ExecutionState \<Rightarrow> bool" where
  "cursor_ok plan s \<longleftrightarrow>
     st_mission_id s = p_mission_id plan \<and> st_plan_identity s = plan_identity plan \<and>
     length (st_completed_task_ids s) \<le> length (p_assignments plan) \<and> p_assignments plan \<noteq> [] \<and>
     st_completed_task_ids s = take (length (st_completed_task_ids s)) (map a_task_id (p_assignments plan)) \<and>
     distinct (st_completed_task_ids s) \<and>
     st_next_assignment_index s = int (length (st_completed_task_ids s)) \<and>
     fst ` set (st_evidence_ids_by_task s) \<subseteq> a_task_id ` set (p_assignments plan)"

definition refs_ok :: "MissionPlan \<Rightarrow> ExecutionState \<Rightarrow> bool" where
  "refs_ok plan s \<longleftrightarrow>
     set_option (st_pending_task_id s) \<subseteq> a_task_id ` set (p_assignments plan) \<and>
     set_option (st_executing_task_id s) \<subseteq> a_task_id ` set (p_assignments plan) \<and>
     (\<forall>n. st_approval_nonce s = Some n \<longrightarrow> hex_fullmatch 32 n) \<and>
     (\<forall>i. st_active_approval_id s = Some i \<longrightarrow> hex_fullmatch 64 i \<and> i \<notin> set (st_consumed_approval_ids s))"

lemma consistent_iff:
  "consistent plan s \<longleftrightarrow> cursor_ok plan s \<and> refs_ok plan s \<and> status_invariant plan s = None"
proof -
  have refs: "list_all (\<lambda>v. case v of None \<Rightarrow> True | Some t \<Rightarrow> t \<in> set ids)
        ([st_pending_task_id s, st_executing_task_id s] @ map (Some \<circ> fst) (st_evidence_ids_by_task s)) \<longleftrightarrow>
      set_option (st_pending_task_id s) \<subseteq> set ids \<and> set_option (st_executing_task_id s) \<subseteq> set ids \<and>
      fst ` set (st_evidence_ids_by_task s) \<subseteq> set ids" for ids
    by (auto simp: list_all_iff split: option.splits)
  have prefix: "verify_prefix plan s = None \<longleftrightarrow> distinct (st_completed_task_ids s) \<and>
      take (length (st_completed_task_ids s)) (map a_task_id (p_assignments plan)) = st_completed_task_ids s \<and>
      st_next_assignment_index s = int (length (st_completed_task_ids s))"
    by (auto simp: verify_prefix_def Let_def)
  show ?thesis
    unfolding validate_execution_state_invariants_def Let_def refs
    by (auto simp: cursor_ok_def refs_ok_def prefix option.case_eq_if not_None_eq split: if_splits option.splits)
qed

lemma cursor_ok_current:
  assumes "cursor_ok plan s"
  shows "current_assignment plan s =
     (if length (st_completed_task_ids s) < length (p_assignments plan)
      then Some (p_assignments plan ! length (st_completed_task_ids s)) else None)"
  using assms by (simp add: cursor_ok_def current_assignment_def)

lemma current_in_plan:
  "cursor_ok plan s \<Longrightarrow> current_assignment plan s = Some t \<Longrightarrow> t \<in> set (p_assignments plan)"
  by (auto simp: cursor_ok_current split: if_splits)

text \<open>Transitions leave the cursor alone, apart from the one that completes a task.\<close>

lemmas transition_defs = transition_to_blocked_def transition_to_waiting_def transition_to_executing_def
  transition_after_failed_assignment_def transition_after_blocked_assignment_def
  transition_to_failed_before_execution_def recovery_result_def

lemma cursor_ok_transitions [simp]:
  "cursor_ok plan (transition_to_blocked s t r u) = cursor_ok plan s"
  "cursor_ok plan (transition_to_waiting s t n r u) = cursor_ok plan s"
  "cursor_ok plan (transition_to_executing s t i u) = cursor_ok plan s"
  "cursor_ok plan (transition_after_failed_assignment s t ap d u) = cursor_ok plan s"
  "cursor_ok plan (transition_after_blocked_assignment s t ap d u) = cursor_ok plan s"
  "cursor_ok plan (transition_to_failed_before_execution s t d ap u) = cursor_ok plan s"
  "cursor_ok plan (recovery_result s d u) = cursor_ok plan s"
  by (simp_all add: transition_defs cursor_ok_def Let_def)

lemma current_transitions [simp]:
  "current_assignment plan (transition_to_blocked s t r u) = current_assignment plan s"
  "current_assignment plan (transition_to_waiting s t n r u) = current_assignment plan s"
  "current_assignment plan (transition_to_executing s t i u) = current_assignment plan s"
  "current_assignment plan (transition_after_failed_assignment s t ap d u) = current_assignment plan s"
  "current_assignment plan (transition_after_blocked_assignment s t ap d u) = current_assignment plan s"
  "current_assignment plan (transition_to_failed_before_execution s t d ap u) = current_assignment plan s"
  "current_assignment plan (recovery_result s d u) = current_assignment plan s"
  by (simp_all add: transition_defs current_assignment_def Let_def)

text \<open>What the codebase asks of a plan it runs: the rules of the plan schema and of the validator.\<close>

definition runnable :: "MissionPlan \<Rightarrow> bool" where
  "runnable plan \<longleftrightarrow> p_assignments plan \<noteq> [] \<and> distinct (map a_task_id (p_assignments plan)) \<and>
     list_all (\<lambda>a. py_nonblank (a_task_id a) \<and> a_execution_gate a \<in> set EXECUTION_GATES) (p_assignments plan) \<and>
     p_mission_constraints plan \<noteq> Some JNull"

lemma consistent_new: "p_assignments plan \<noteq> [] \<Longrightarrow> consistent plan (new_execution_state plan now)"
  by (simp add: consistent_iff cursor_ok_def refs_ok_def status_invariant_def new_execution_state_def no_pending_def)

lemma consistent_cursor: "consistent plan s \<Longrightarrow> cursor_ok plan s"
  by (simp add: consistent_iff)

lemma consistent_current_id:
  "cursor_ok plan s \<Longrightarrow> current_assignment plan s = Some t \<Longrightarrow> a_task_id t \<in> a_task_id ` set (p_assignments plan)"
  by (blast dest: current_in_plan)

lemma consistent_waiting:
  assumes "cursor_ok plan s" and "current_assignment plan s = Some t"
    and "a_execution_gate t = ''separate_human_approval''" and "hex_fullmatch 32 nonce" and "py_nonblank reason"
  shows "consistent plan (transition_to_waiting s t nonce reason now)" (is "consistent plan ?s")
  unfolding consistent_iff
proof (intro conjI)
  show "refs_ok plan ?s"
    using assms(4) consistent_current_id [OF assms(1,2)] by (simp add: refs_ok_def transition_to_waiting_def)
  show "status_invariant plan ?s = None"
    unfolding status_invariant_def current_transitions assms(2)
    using assms(3,5) by (simp add: transition_to_waiting_def nonblank_opt_def)
qed (simp add: assms(1))

lemma consistent_stoppedI:
  assumes "cursor_ok plan s" and "current_assignment plan s = Some t" and "stopped_at s t"
    and "st_status s = ''failed'' \<and> nonblank_opt (st_diagnostic s) \<or>
         st_status s = ''blocked'' \<and> nonblank_opt (st_pause_reason s)"
  shows "consistent plan s"
  unfolding consistent_iff
proof (intro conjI)
  show "refs_ok plan s"
    using assms(3) consistent_current_id [OF assms(1,2)] by (simp add: refs_ok_def stopped_at_def)
  show "status_invariant plan s = None"
    using assms(3,4) unfolding status_invariant_def assms(2) by auto
qed (rule assms(1))

lemma consistent_stopped:
  assumes "cursor_ok plan s" and "current_assignment plan s = Some t" and "py_nonblank d"
  shows "consistent plan (transition_to_blocked s t d now)"
    and "consistent plan (transition_to_failed_before_execution s t d ap now)"
    and "consistent plan (transition_after_failed_assignment s t ap d now)"
    and "consistent plan (transition_after_blocked_assignment s t ap d now)"
proof -
  have *: "consistent plan s'" if "cursor_ok plan s'" and "current_assignment plan s' = Some t"
    and "stopped_at s' t" and "st_status s' = ''failed'' \<or> st_status s' = ''blocked'' \<and> st_pause_reason s' = Some d"
    and "st_diagnostic s' = Some d" for s'
    using that assms(3) by (intro consistent_stoppedI) (auto simp: nonblank_opt_def)
  show "consistent plan (transition_to_blocked s t d now)"
    and "consistent plan (transition_to_failed_before_execution s t d ap now)"
    and "consistent plan (transition_after_failed_assignment s t ap d now)"
    and "consistent plan (transition_after_blocked_assignment s t ap d now)"
    by (rule *; (simp only: cursor_ok_transitions current_transitions assms(1,2))?;
        simp add: transition_defs stopped_at_def)+
qed

lemma consistent_recovery:
  assumes "consistent plan s" and "py_nonblank d"
  shows "consistent plan (recovery_result s d now)" (is "consistent plan ?s")
  unfolding consistent_iff
proof (intro conjI)
  show "refs_ok plan ?s"
    using assms(1) by (simp add: consistent_iff refs_ok_def recovery_result_def)
  show "status_invariant plan ?s = None"
    using assms(2) by (simp add: status_invariant_def recovery_result_def nonblank_opt_def)
qed (use assms(1) in \<open>simp add: consistent_cursor\<close>)

lemma consistent_executing_plan_gate:
  assumes "cursor_ok plan s" and "current_assignment plan s = Some t"
    and "a_execution_gate t = ''plan_approval''"
  shows "consistent plan (transition_to_executing s t ap now)" (is "consistent plan ?s")
  unfolding consistent_iff
proof (intro conjI)
  show "refs_ok plan ?s"
    using assms(3) consistent_current_id [OF assms(1,2)]
    by (simp add: refs_ok_def transition_to_executing_def Let_def)
  show "status_invariant plan ?s = None"
    unfolding status_invariant_def current_transitions assms(2)
    using assms(3) by (simp add: transition_to_executing_def)
qed (simp add: assms(1))

lemma consistent_executing_separate:
  assumes "cursor_ok plan s" and "current_assignment plan s = Some t"
    and "a_execution_gate t = ''separate_human_approval''" and "st_approval_nonce s = Some nonce"
    and "hex_fullmatch 32 nonce" and "hex_fullmatch 64 i" and "i \<notin> set (st_consumed_approval_ids s)"
  shows "consistent plan (transition_to_executing s t (Some i) now)" (is "consistent plan ?s")
  unfolding consistent_iff
proof (intro conjI)
  show "refs_ok plan ?s"
    using assms(3-7) consistent_current_id [OF assms(1,2)]
    by (simp add: refs_ok_def transition_to_executing_def Let_def)
  show "status_invariant plan ?s = None"
    unfolding status_invariant_def current_transitions assms(2)
    using assms(3-7) by (simp add: transition_to_executing_def)
qed (simp add: assms(1))

lemma consistent_completed:
  assumes c: "cursor_ok plan s" and cur: "current_assignment plan s = Some t"
    and dist: "distinct (map a_task_id (p_assignments plan))"
  shows "consistent plan (transition_after_completed_assignment s plan t ev ap now)"
proof -
  let ?ids = "map a_task_id (p_assignments plan)" and ?n = "length (st_completed_task_ids s)"
  from c cur have n: "?n < length (p_assignments plan)" and t: "t = p_assignments plan ! ?n"
    by (auto simp: cursor_ok_current split: if_splits)
  have ids: "st_completed_task_ids s @ [a_task_id t] = take (Suc ?n) ?ids"
    using c n by (simp add: cursor_ok_def t take_Suc_conv_app_nth)
  have "t \<in> set (p_assignments plan)" using n t by simp
  moreover have "distinct (st_completed_task_ids s @ [a_task_id t])"
    unfolding ids using dist by (rule distinct_take)
  moreover have "fst ` set (dict_set d k v) = insert k (fst ` set d)" for d :: "pystr pydict" and k v
    by (simp add: dict_set_def dom_update)
  ultimately have "cursor_ok plan (transition_after_completed_assignment s plan t ev ap now)"
    using c n ids by (simp add: cursor_ok_def transition_after_completed_assignment_def Let_def)
  moreover have "status_invariant plan (transition_after_completed_assignment s plan t ev ap now) = None"
  proof (cases "Suc ?n = length ?ids")
    case True
    with ids have "st_completed_task_ids s @ [a_task_id t] = ?ids" by simp
    with True c show ?thesis
      by (simp add: status_invariant_def transition_after_completed_assignment_def no_pending_def Let_def cursor_ok_def)
  next
    case False
    with c n show ?thesis
      by (simp add: status_invariant_def transition_after_completed_assignment_def no_pending_def Let_def cursor_ok_def)
  qed
  moreover have "refs_ok plan (transition_after_completed_assignment s plan t ev ap now)"
    by (simp add: refs_ok_def transition_after_completed_assignment_def Let_def)
  ultimately show ?thesis
    by (simp only: consistent_iff simp_thms)
qed

section \<open>Properties\<close>

text \<open>
  Strict round trip of the state file. What \<open>_save_execution_state\<close> writes is read back
  as the same state exactly when the state is well formed for the mission; anything else is refused
  with \<open>ExecutionStateError\<close>, never repaired. And whatever file the loader accepts yields a
  well-formed state.
\<close>

theorem execution_state_roundtrip:
  "(load_execution_state (state_file s) mission_id = Inr (Some s) \<longleftrightarrow> state_wf s mission_id) \<and>
   (load_execution_state (state_file s) mission_id \<noteq> Inr (Some s) \<longleftrightarrow>
      load_execution_state (state_file s) mission_id = Inl ExecutionStateError) \<and>
   (\<forall>f t. load_execution_state f mission_id = Inr (Some t) \<longrightarrow> state_wf t mission_id)"
  using loaded_state_wf by (auto simp: load_state_file)

theorem execution_state_roundtrip_witness:
  "(let s = new_execution_state demo_approved ''2026-01-01T00:00:00Z'' in
     load_execution_state (state_file s) ''mission-demo'' = Inr (Some s) \<and>
     load_execution_state (state_file s) ''mission-other'' = Inl ExecutionStateError \<and>
     state_wf s ''mission-demo'')"
proof -
  let ?s = "new_execution_state demo_approved ''2026-01-01T00:00:00Z''"
  have "py_nonblank ''2026-01-01T00:00:00Z''" by code_simp
  then have ok: "state_wf ?s ''mission-demo''"
    by (simp add: state_wf_def new_execution_state_def opt_ok_def demo_approved_def demo_plan_def EXECUTION_STATUSES_def)
  have bad: "\<not> state_wf ?s ''mission-other''"
    by (simp add: state_wf_def new_execution_state_def demo_approved_def demo_plan_def)
  show ?thesis
    using ok bad execution_state_roundtrip [of ?s "''mission-demo''"] execution_state_roundtrip [of ?s "''mission-other''"]
    by (auto simp: Let_def)
qed

lemma fits_jopt [simp]: "fits d (jopt x)"
  by (simp add: jopt_def split: option.split)

lemma fits_jstrs [simp]: "fits (Suc d) (jstrs xs)"
  by (simp add: jstrs_def list_all_iff)

lemma state_text_file:
  assumes "dict_wf (st_evidence_ids_by_task s)" and "length (nat_digits (nat \<bar>st_next_assignment_index s\<bar>)) \<le> 4300"
  shows "file_of_text (Suc (Suc limit)) (state_text s) = state_file s"
proof -
  have "fits (Suc (Suc limit)) (JObj (asdict_state s))"
    using assms by (simp add: asdict_state_def dict_wf_def list_all_iff case_prod_unfold comp_def)
  from json_dumps_indent_loads [OF this, of 0] show ?thesis
    by (simp only: file_of_text_def state_text_def state_file_def sum.case)
qed

text \<open>
  C24: the same round trip at the level of the characters on disk. The indented text that
  \<open>_save_execution_state\<close> writes for a well-formed state parses (for any recursion limit the
  interpreter may have from two on) to the value the loader accepts, and loads as the same state.
\<close>

theorem state_text_roundtrip:
  assumes "state_wf s mission_id" and "dict_wf (st_evidence_ids_by_task s)"
    and "length (nat_digits (nat \<bar>st_next_assignment_index s\<bar>)) \<le> 4300" and "2 \<le> limit"
  shows "load_execution_state (file_of_text limit (state_text s)) mission_id = Inr (Some s)"
proof -
  from assms(4) obtain l where "limit = Suc (Suc l)" by (metis add_2_eq_Suc le_Suc_ex)
  with state_text_file [OF assms(2,3)] assms(1) show ?thesis by (simp add: load_state_file)
qed

theorem state_text_roundtrip_witness:
  "(let s = new_execution_state demo_approved ''2026-01-01T00:00:00Z'' in
     load_execution_state (file_of_text 900 (state_text s)) ''mission-demo'' = Inr (Some s))"
proof -
  let ?s = "new_execution_state demo_approved ''2026-01-01T00:00:00Z''"
  have "py_nonblank ''2026-01-01T00:00:00Z''" by code_simp
  then have "state_wf ?s ''mission-demo''"
    by (simp add: state_wf_def new_execution_state_def opt_ok_def demo_approved_def demo_plan_def EXECUTION_STATUSES_def)
  moreover have "dict_wf (st_evidence_ids_by_task ?s)" "length (nat_digits (nat \<bar>st_next_assignment_index ?s\<bar>)) \<le> 4300"
    by (simp_all add: new_execution_state_def dict_wf_def nat_digits.simps)
  ultimately show ?thesis
    using state_text_roundtrip [of ?s "''mission-demo''" 900] by (simp add: Let_def)
qed

text \<open>
  Round trip of \<^verbatim>\<open>plan.json\<close>, and the identity a paused execution is bound to. Writing a
  plan and loading it under its own identifier returns it, under any other identifier fails; and
  the identity of what is loaded does not depend on the approval or the plan hash, so approving a
  plan never looks like drift.
\<close>

theorem plan_file_roundtrip:
  assumes "p_mission_constraints p \<noteq> Some JNull"
  shows "load_persisted_plan (plan_file p) mission_id =
           (if mission_id = p_mission_id p then Inr p else Inl MissionLookupError) \<and>
         plan_identity (p\<lparr>p_approval := a, p_plan_hash := h\<rparr>) = plan_identity p"
proof -
  have "plan_identity ((p\<lparr>p_approval := a\<rparr>)\<lparr>p_plan_hash := h\<rparr>) = plan_identity p"
    by (simp only: plan_identity_plan_hash plan_identity_approval)
  with load_plan_file [OF assms] show ?thesis by auto
qed

theorem plan_file_roundtrip_witness:
  "load_persisted_plan (plan_file demo_plan) ''mission-demo'' = Inr demo_plan \<and>
   load_persisted_plan (plan_file demo_plan) ''mission-x'' = Inl MissionLookupError \<and>
   plan_identity demo_approved = plan_identity demo_plan"
proof -
  have c: "p_mission_constraints demo_plan \<noteq> Some JNull" and m: "p_mission_id demo_plan = ''mission-demo''"
    and a: "demo_approved = demo_plan\<lparr>p_approval := [(''status'', JStr ''approved'')], p_plan_hash := p_plan_hash demo_plan\<rparr>"
    by (simp_all add: demo_plan_def demo_approved_def)
  show ?thesis
    using plan_file_roundtrip [OF c, where mission_id = "''mission-demo''" and a = "[(''status'', JStr ''approved'')]"
        and h = "p_plan_hash demo_plan"]
      plan_file_roundtrip [OF c, where mission_id = "''mission-x''"]
    by (simp add: m a)
qed

end
