(* ===== verification/Executor.thy ===== *)
theory Executor
  imports Execution_State
begin

text \<open>
  \<^verbatim>\<open>tools/konoha_v4/executor.py\<close>, the resumable runtime: one call of
  \<open>execute_or_resume_plan\<close>, its lock, and histories of calls with crashes.

  A call reads the mission's files and an environment (\<open>call_env\<close>: clock, nonce, provider
  answer, Git, probe, and which writes succeed) and yields the list of its effects in order,
  with its result. The disk after the call is the fold of the effects, and the disk after a
  crash the fold of a prefix of them: \<open>_save_execution_state\<close> writes a temporary file and
  renames it, so a save either happens whole or not at all; \<open>_persist\<close> writes in place, so a
  failed one leaves any content. The required-sources gate is an argument, instantiated by the
  theory that models it.
\<close>

section \<open>Environment, disk and effects\<close>

datatype source_gate = GateRefuses pystr | GatePasses jdict | GateRaises py_exn

type_synonym gate_fun = "MissionPlan \<Rightarrow> AgentAssignment \<Rightarrow> jdict \<Rightarrow> EvidenceRecord list \<Rightarrow> source_gate"

record call_env =
  e_now :: pystr
  e_finished :: pystr
  e_nonce :: pystr
  e_git_before :: git_outcome
  e_probe_available :: bool
  e_probe_models :: "pystr list"
  e_run :: run_env
  e_save1 :: bool
  e_save2 :: bool
  e_persist :: bool
  e_torn :: disk_file
  e_lock_mkdir :: bool
  e_lock_open :: bool
  e_lock_close :: bool
  e_lock_undo :: bool
  e_unlink :: bool

record mission_disk =
  d_confined :: bool
  d_plan :: disk_file
  d_state :: disk_file
  d_evidence :: evidence_dir
  d_lock :: bool

datatype effect =
    SaveState ExecutionState
  | Invoke AgentAssignment
  | PersistEvidence EvidenceRecord
  | TornEvidence pystr disk_file

definition set_evidence :: "mission_disk \<Rightarrow> pystr \<Rightarrow> disk_file \<Rightarrow> mission_disk" where
  "set_evidence d i f = d\<lparr>d_evidence := (d_evidence d)\<lparr>ed_file := (ed_file (d_evidence d))(i := f)\<rparr>\<rparr>"

fun apply_effect :: "effect \<Rightarrow> mission_disk \<Rightarrow> mission_disk" where
  "apply_effect (SaveState s) d = d\<lparr>d_state := state_file s\<rparr>"
| "apply_effect (Invoke t) d = d"
| "apply_effect (PersistEvidence e) d = set_evidence d (ev_evidence_id e) (evidence_file e)"
| "apply_effect (TornEvidence i f) d = set_evidence d i f"

definition apply_effects :: "effect list \<Rightarrow> mission_disk \<Rightarrow> mission_disk" where
  "apply_effects evs d = fold apply_effect evs d"

record ExecutionAttempt =
  at_state :: "ExecutionState option"
  at_evidence :: "EvidenceRecord list"
  at_diagnostic :: pystr

datatype body_exn = RaisedMissionLookup | RaisedReading py_exn | RaisedInRun run_exn | RaisedInGate py_exn | OutsideModel

type_synonym outcome = "effect list \<times> (body_exn + ExecutionAttempt)"

section \<open>One call under the lock\<close>

definition attempt :: "ExecutionState option \<Rightarrow> EvidenceRecord list \<Rightarrow> pystr \<Rightarrow> body_exn + ExecutionAttempt" where
  "attempt s evidence diagnostic = Inr \<lparr>at_state = s, at_evidence = evidence, at_diagnostic = diagnostic\<rparr>"

definition return_unchanged :: "ExecutionState \<Rightarrow> pystr \<Rightarrow> outcome" where
  "return_unchanged s diagnostic = ([], attempt (Some s) [] diagnostic)"

text \<open>\<open>_try_save_execution_state\<close> and the two returns that follow it.\<close>

definition save_or :: "bool \<Rightarrow> ExecutionState \<Rightarrow> ExecutionState \<Rightarrow> pystr \<Rightarrow> pystr \<Rightarrow> outcome" where
  "save_or ok s new_state failure diagnostic =
     (if ok then ([SaveState new_state], attempt (Some new_state) [] diagnostic)
      else return_unchanged s failure)"

definition recover :: "call_env \<Rightarrow> ExecutionState \<Rightarrow> pystr \<Rightarrow> outcome" where
  "recover env s diagnostic =
     save_or (e_save1 env) s (recovery_result s diagnostic (e_now env)) ''recovery_persist_failed'' diagnostic"

definition fail_before_execution ::
  "call_env \<Rightarrow> ExecutionState \<Rightarrow> AgentAssignment \<Rightarrow> pystr \<Rightarrow> pystr option \<Rightarrow> outcome" where
  "fail_before_execution env s t diagnostic consumed =
     save_or (e_save1 env) s (transition_to_failed_before_execution s t diagnostic consumed (e_now env))
       ''failed_before_execution_persist_failed'' diagnostic"

definition block_before_execution ::
  "call_env \<Rightarrow> ExecutionState \<Rightarrow> AgentAssignment \<Rightarrow> pystr \<Rightarrow> outcome" where
  "block_before_execution env s t diagnostic =
     save_or (e_save1 env) s (transition_to_blocked s t diagnostic (e_now env))
       ''blocked_before_execution_persist_failed'' diagnostic"

definition readiness_diagnostic :: "call_env \<Rightarrow> AgentAssignment \<Rightarrow> pystr option" where
  "readiness_diagnostic env t =
     (if \<not> e_probe_available env then Some (''provider_not_ready:'' @ a_provider t)
      else if a_provider t = ''ollama'' \<and> a_model t \<notin> set (e_probe_models env)
        then Some (''model_not_ready:ollama/'' @ a_model t)
      else None)"

text \<open>From the persisted \<open>executing\<close> state \<open>s\<close> to the end of the call.\<close>

definition final_state ::
  "call_env \<Rightarrow> MissionPlan \<Rightarrow> ExecutionState \<Rightarrow> AgentAssignment \<Rightarrow> pystr option \<Rightarrow> EvidenceRecord \<Rightarrow> pystr \<Rightarrow>
   ExecutionState" where
  "final_state env plan s t approval evidence diagnostic =
     (if ev_status evidence = ''completed''
        then transition_after_completed_assignment s plan t evidence approval (e_finished env)
      else if ev_status evidence = ''blocked''
        then transition_after_blocked_assignment s t approval diagnostic (e_finished env)
      else transition_after_failed_assignment s t approval diagnostic (e_finished env))"

definition run_and_record ::
  "call_env \<Rightarrow> MissionPlan \<Rightarrow> ExecutionState \<Rightarrow> AgentAssignment \<Rightarrow> pystr option \<Rightarrow> pystr \<Rightarrow> outcome" where
  "run_and_record env plan s t approval baseline =
     (case run_assignment (e_run env) plan t baseline of
        Inl e \<Rightarrow> ([Invoke t], Inl (RaisedInRun e))
      | Inr (evidence, diagnostic) \<Rightarrow>
         (if \<not> e_persist env then
            ([Invoke t, TornEvidence (ev_evidence_id evidence) (e_torn env)],
             attempt (Some s) [] ''evidence_persist_failed'')
          else
            let new_state = final_state env plan s t approval evidence diagnostic
            in if \<not> e_save2 env then
                 ([Invoke t, PersistEvidence evidence],
                  attempt (Some s) [evidence] ''final_transition_persist_failed'')
               else
                 ([Invoke t, PersistEvidence evidence, SaveState new_state],
                  attempt (Some new_state) [evidence] diagnostic)))"

text \<open>Everything after the gate: family, sources, readiness, Git baseline, \<open>executing\<close>, run.\<close>

definition authorized_step ::
  "gate_fun \<Rightarrow> CapabilityRegistry \<Rightarrow> call_env \<Rightarrow> MissionPlan \<Rightarrow> ExecutionState \<Rightarrow> AgentAssignment \<Rightarrow>
   EvidenceRecord list \<Rightarrow> pystr option \<Rightarrow> outcome" where
  "authorized_step gate registry env plan s t records approval =
     (case agent_family registry (a_family t) of
        None \<Rightarrow> fail_before_execution env s t ''unknown_agent_family'' approval
      | Some family \<Rightarrow>
         (case gate plan t family records of
            GateRaises e \<Rightarrow> ([], Inl (RaisedInGate e))
          | GateRefuses diagnostic \<Rightarrow> return_unchanged s diagnostic
          | GatePasses material \<Rightarrow>
             (case readiness_diagnostic env t of
                Some diagnostic \<Rightarrow> return_unchanged s diagnostic
              | None \<Rightarrow>
                 (case e_git_before env of
                    GitTimeout \<Rightarrow> fail_before_execution env s t ''git_status_timeout'' None
                  | GitFailed \<Rightarrow> fail_before_execution env s t ''git_status_failed'' None
                  | GitClean baseline \<Rightarrow>
                     (let executing = transition_to_executing s t approval (e_now env)
                      in if \<not> e_save1 env then return_unchanged s ''executing_persist_failed''
                         else case run_and_record env plan executing t approval baseline of
                                (evs, r) \<Rightarrow> (SaveState executing # evs, r))))))"

definition waiting_reason :: pystr where
  "waiting_reason = ''esperando aprobaci'' @ [CHR 0xF3] @ ''n humana''"

definition task_step ::
  "gate_fun \<Rightarrow> CapabilityRegistry \<Rightarrow> call_env \<Rightarrow> AssignmentApproval option \<Rightarrow> MissionPlan \<Rightarrow> ExecutionState \<Rightarrow>
   AgentAssignment \<Rightarrow> EvidenceRecord list \<Rightarrow> outcome" where
  "task_step gate registry env approval plan s t records =
     (if a_mutation t then block_before_execution env s t ''mutation_runtime_not_supported''
      else if a_execution_gate t = ''plan_approval'' then
        (if dict_get (p_approval plan) ''status'' \<noteq> Some (JStr ''approved'')
         then return_unchanged s ''plan_approval_not_satisfied''
         else authorized_step gate registry env plan s t records None)
      else if a_execution_gate t = ''separate_human_approval'' then
        (if st_status s \<noteq> ''waiting_for_approval'' then
           save_or (e_save1 env) s (transition_to_waiting s t (e_nonce env) waiting_reason (e_now env))
             ''waiting_persist_failed'' ''waiting_for_approval''
         else case approval of
           None \<Rightarrow> return_unchanged s ''waiting_for_approval''
         | Some a \<Rightarrow>
            (case validate_assignment_approval (Some a) plan s t of
               Inl reason \<Rightarrow> return_unchanged s reason
             | Inr i \<Rightarrow> authorized_step gate registry env plan s t records (Some i)))
      else fail_before_execution env s t ''unknown_execution_gate'' None)"

definition resume_step ::
  "gate_fun \<Rightarrow> CapabilityRegistry \<Rightarrow> call_env \<Rightarrow> AssignmentApproval option \<Rightarrow> MissionPlan \<Rightarrow> ExecutionState \<Rightarrow>
   evidence_dir \<Rightarrow> outcome" where
  "resume_step gate registry env approval plan s ed =
     (case validate_execution_state_invariants plan s of
        Some err \<Rightarrow> recover env s err
      | None \<Rightarrow>
         (if st_status s \<in> set NON_RESUMABLE_EXECUTION_STATUSES
            then return_unchanged s (''non_resumable_status:'' @ st_status s)
          else if st_status s = ''executing'' then recover env s ''interrupted_while_executing''
          else case verify_completed_evidence ed plan s of
            Inl e \<Rightarrow> ([], Inl (RaisedReading e))
          | Inr None \<Rightarrow> recover env s ''missing_or_corrupt_completed_evidence''
          | Inr (Some records) \<Rightarrow>
             (case current_assignment plan s of
                None \<Rightarrow> recover env s ''cursor_exhausted_without_completed_status''
              | Some t \<Rightarrow> task_step gate registry env approval plan s t records)))"

definition execute_or_resume_plan_locked ::
  "gate_fun \<Rightarrow> CapabilityRegistry \<Rightarrow> call_env \<Rightarrow> AssignmentApproval option \<Rightarrow> pystr \<Rightarrow> mission_disk \<Rightarrow> outcome" where
  "execute_or_resume_plan_locked gate registry env approval mission_id d =
     (if \<not> d_confined d then ([], attempt None [] ''plan_load_error'')
      else case load_persisted_plan (d_plan d) mission_id of
        Inl MissionLookupError \<Rightarrow> ([], attempt None [] ''plan_load_error'')
      | Inl (PlanRaised e) \<Rightarrow> ([], Inl (RaisedReading e))
      | Inl PlanIllTyped \<Rightarrow> ([], Inl OutsideModel)
      | Inr plan \<Rightarrow>
         (if p_assignments plan = [] then ([], attempt None [] ''empty_plan_assignments'')
          else case load_execution_state (d_state d) mission_id of
            Inl ExecutionStateError \<Rightarrow> ([], attempt None [] ''state_load_error'')
          | Inl (StateRaised e) \<Rightarrow> ([], Inl (RaisedReading e))
          | Inr existing \<Rightarrow>
              resume_step gate registry env approval plan
                (case existing of Some s \<Rightarrow> s | None \<Rightarrow> new_execution_state plan (e_now env))
                (d_evidence d)))"

section \<open>The lock and the public entry point\<close>

datatype lock_outcome = Acquired | Busy | LockError

definition lock_acquire :: "call_env \<Rightarrow> mission_disk \<Rightarrow> lock_outcome \<times> mission_disk" where
  "lock_acquire env d =
     (if \<not> e_lock_mkdir env then (LockError, d)
      else if d_lock d then (Busy, d)
      else if \<not> e_lock_open env then (LockError, d)
      else if \<not> e_lock_close env then (LockError, d\<lparr>d_lock := \<not> e_lock_undo env\<rparr>)
      else (Acquired, d\<lparr>d_lock := True\<rparr>))"

text \<open>\<open>False\<close>: \<open>release\<close> raised \<open>ExecutionStateError\<close> and the file is still there.\<close>

definition lock_release :: "call_env \<Rightarrow> mission_disk \<Rightarrow> bool \<times> mission_disk" where
  "lock_release env d = (if e_unlink env then (True, d\<lparr>d_lock := False\<rparr>) else (False, d))"

definition execute_or_resume_plan ::
  "gate_fun \<Rightarrow> CapabilityRegistry \<Rightarrow> call_env \<Rightarrow> AssignmentApproval option \<Rightarrow> pystr \<Rightarrow> mission_disk \<Rightarrow>
   mission_disk \<times> outcome" where
  "execute_or_resume_plan gate registry env approval mission_id d =
     (if \<not> validate_mission_id mission_id then (d, [], attempt None [] ''unsafe_mission_id'')
      else if \<not> d_confined d then (d, [], Inl RaisedMissionLookup)
      else case lock_acquire env d of
        (LockError, d1) \<Rightarrow> (d1, [], attempt None [] ''lock_acquire_error'')
      | (Busy, d1) \<Rightarrow> (d1, [], attempt None [] ''lock_busy'')
      | (Acquired, d1) \<Rightarrow>
         (case execute_or_resume_plan_locked gate registry env approval mission_id d1 of
            (evs, r) \<Rightarrow>
             (case lock_release env (apply_effects evs d1) of
                (released, d2) \<Rightarrow>
                  (d2, evs,
                   case r of
                     Inl e \<Rightarrow> Inl e
                   | Inr a \<Rightarrow> Inr (if released then a else a\<lparr>at_diagnostic := ''lock_release_error''\<rparr>)))))"

section \<open>The effects of one call\<close>

definition permitted ::
  "AssignmentApproval option \<Rightarrow> MissionPlan \<Rightarrow> ExecutionState \<Rightarrow> AgentAssignment \<Rightarrow> pystr option \<Rightarrow> bool" where
  "permitted approval plan s t i \<longleftrightarrow> \<not> a_mutation t \<and>
     (a_execution_gate t = ''plan_approval'' \<and> dict_get (p_approval plan) ''status'' = Some (JStr ''approved'') \<and>
        i = None \<or>
      a_execution_gate t = ''separate_human_approval'' \<and> st_status s = ''waiting_for_approval'' \<and>
        (\<exists>a j. approval = Some a \<and> validate_assignment_approval (Some a) plan s t = Inr j \<and> i = Some j))"

text \<open>States a call saves when it ends without running the task.\<close>

inductive resting ::
  "call_env \<Rightarrow> AssignmentApproval option \<Rightarrow> MissionPlan \<Rightarrow> ExecutionState \<Rightarrow> ExecutionState \<Rightarrow> bool"
  for env approval plan s where
  recovering: "py_nonblank d \<Longrightarrow> st_status s \<notin> set NON_RESUMABLE_EXECUTION_STATUSES \<or> \<not> consistent plan s \<Longrightarrow>
    resting env approval plan s (recovery_result s d (e_now env))"
| failing: "consistent plan s \<Longrightarrow> st_status s \<in> {''in_progress'', ''waiting_for_approval''} \<Longrightarrow>
    current_assignment plan s = Some t \<Longrightarrow> py_nonblank d \<Longrightarrow> c = None \<or> permitted approval plan s t c \<Longrightarrow>
    resting env approval plan s (transition_to_failed_before_execution s t d c (e_now env))"
| blocking: "consistent plan s \<Longrightarrow> st_status s \<in> {''in_progress'', ''waiting_for_approval''} \<Longrightarrow>
    current_assignment plan s = Some t \<Longrightarrow> py_nonblank d \<Longrightarrow>
    resting env approval plan s (transition_to_blocked s t d (e_now env))"
| waiting: "consistent plan s \<Longrightarrow> st_status s = ''in_progress'' \<Longrightarrow>
    current_assignment plan s = Some t \<Longrightarrow> a_execution_gate t = ''separate_human_approval'' \<Longrightarrow>
    resting env approval plan s (transition_to_waiting s t (e_nonce env) waiting_reason (e_now env))"

text \<open>What follows the provider call.\<close>

inductive run_tail ::
  "call_env \<Rightarrow> MissionPlan \<Rightarrow> ExecutionState \<Rightarrow> AgentAssignment \<Rightarrow> pystr option \<Rightarrow> pystr \<Rightarrow> effect list \<Rightarrow> bool"
  for env plan s t c baseline where
  raised: "run_assignment (e_run env) plan t baseline = Inl e \<Longrightarrow> run_tail env plan s t c baseline []"
| torn: "run_assignment (e_run env) plan t baseline = Inr (ev, d) \<Longrightarrow>
    run_tail env plan s t c baseline [TornEvidence (ev_evidence_id ev) (e_torn env)]"
| unsaved: "run_assignment (e_run env) plan t baseline = Inr (ev, d) \<Longrightarrow>
    run_tail env plan s t c baseline [PersistEvidence ev]"
| saved: "run_assignment (e_run env) plan t baseline = Inr (ev, d) \<Longrightarrow>
    run_tail env plan s t c baseline [PersistEvidence ev, SaveState (final_state env plan s t c ev d)]"

inductive call_effects ::
  "gate_fun \<Rightarrow> CapabilityRegistry \<Rightarrow> call_env \<Rightarrow> AssignmentApproval option \<Rightarrow> MissionPlan \<Rightarrow> ExecutionState \<Rightarrow>
   evidence_dir \<Rightarrow> effect list \<Rightarrow> bool"
  for gate registry env approval plan s ed where
  quiet: "call_effects gate registry env approval plan s ed []"
| rest: "resting env approval plan s s' \<Longrightarrow> call_effects gate registry env approval plan s ed [SaveState s']"
| run: "consistent plan s \<Longrightarrow> st_status s \<in> {''in_progress'', ''waiting_for_approval''} \<Longrightarrow>
    current_assignment plan s = Some t \<Longrightarrow> permitted approval plan s t c \<Longrightarrow>
    verify_completed_evidence ed plan s = Inr (Some records) \<Longrightarrow>
    agent_family registry (a_family t) = Some family \<Longrightarrow> gate plan t family records = GatePasses material \<Longrightarrow>
    readiness_diagnostic env t = None \<Longrightarrow> e_git_before env = GitClean baseline \<Longrightarrow>
    run_tail env plan (transition_to_executing s t c (e_now env)) t c baseline tail \<Longrightarrow>
    call_effects gate registry env approval plan s ed
      (SaveState (transition_to_executing s t c (e_now env)) # Invoke t # tail)"

inductive_cases resting_cases: "resting env approval plan s s'"
inductive_cases run_tail_cases: "run_tail env plan s t c baseline tail"
inductive_cases call_effects_cases: "call_effects gate registry env approval plan s ed evs"

definition STABLE_DIAGNOSTICS :: "pystr list" where
  "STABLE_DIAGNOSTICS = [''mission_id_mismatch'', ''plan_drift'', ''empty_plan_assignments'', ''cursor_out_of_range'',
     ''completed_task_ids_duplicated'', ''completed_task_ids_not_a_prefix'', ''cursor_index_mismatch'',
     ''unknown_referenced_task'', ''invalid_approval_nonce'', ''invalid_active_approval_id_format'',
     ''active_approval_id_already_consumed'', ''invalid_state_for_in_progress'',
     ''invalid_state_for_waiting_for_approval'', ''invalid_state_for_executing'', ''invalid_state_for_completed'',
     ''invalid_state_for_failed'', ''invalid_state_for_blocked'', ''invalid_state_for_recovery_required'',
     ''unknown_execution_status'', ''interrupted_while_executing'', ''missing_or_corrupt_completed_evidence'',
     ''cursor_exhausted_without_completed_status'', ''mutation_runtime_not_supported'', ''unknown_execution_gate'',
     ''unknown_agent_family'', ''git_status_timeout'', ''git_status_failed'']"

lemma stable_nonblank: "d \<in> set STABLE_DIAGNOSTICS \<Longrightarrow> py_nonblank d"
proof -
  have "list_all py_nonblank STABLE_DIAGNOSTICS" by code_simp
  then show "d \<in> set STABLE_DIAGNOSTICS \<Longrightarrow> py_nonblank d" by (simp add: list_all_iff)
qed

lemma invariant_diagnostic_stable:
  assumes "validate_execution_state_invariants plan s = Some d"
  shows "d \<in> set STABLE_DIAGNOSTICS"
proof -
  have st: "d' \<in> set STABLE_DIAGNOSTICS" if "status_invariant plan s = Some d'" for d'
    using that unfolding status_invariant_def STABLE_DIAGNOSTICS_def Let_def list.set by (auto split: if_splits)
  have pre: "d' \<in> set STABLE_DIAGNOSTICS" if "verify_prefix plan s = Some d'" for d'
    using that unfolding verify_prefix_def STABLE_DIAGNOSTICS_def Let_def list.set by (auto split: if_splits)
  have lit: "list_all (\<lambda>d. d \<in> set STABLE_DIAGNOSTICS) [''mission_id_mismatch'', ''plan_drift'',
      ''empty_plan_assignments'', ''cursor_out_of_range'', ''unknown_referenced_task'',
      ''invalid_approval_nonce'', ''invalid_active_approval_id_format'', ''active_approval_id_already_consumed'']"
    by code_simp
  show ?thesis
    using assms lit unfolding validate_execution_state_invariants_def Let_def
    by (auto split: if_splits option.splits dest: st pre)
qed

lemma consistent_status: "consistent plan s \<Longrightarrow> st_status s \<in> set EXECUTION_STATUSES"
  unfolding consistent_iff status_invariant_def EXECUTION_STATUSES_def Let_def list.set
  by (auto split: if_splits)

lemma consistent_resumable:
  assumes "consistent plan s" and "st_status s \<notin> set NON_RESUMABLE_EXECUTION_STATUSES" and "st_status s \<noteq> ''executing''"
  shows "st_status s \<in> {''in_progress'', ''waiting_for_approval''}"
  using consistent_status [OF assms(1)] assms(2,3)
  unfolding EXECUTION_STATUSES_def NON_RESUMABLE_EXECUTION_STATUSES_def list.set by blast

lemma effects_simps [simp]:
  "fst (return_unchanged s d) = []"
  "fst (save_or ok s s' f d) = (if ok then [SaveState s'] else [])"
  by (simp_all add: return_unchanged_def save_or_def)

lemma run_and_record_tail:
  "\<exists>tail. fst (run_and_record env plan s t c baseline) = Invoke t # tail \<and> run_tail env plan s t c baseline tail"
proof (cases "run_assignment (e_run env) plan t baseline")
  case (Inl e)
  then show ?thesis by (auto simp: run_and_record_def intro: run_tail.raised)
next
  case (Inr x)
  moreover obtain ev d where "x = (ev, d)" by force
  ultimately show ?thesis
    by (auto simp: run_and_record_def Let_def intro: run_tail.torn run_tail.unsaved run_tail.saved)
qed

lemma fst_prefix: "fst (case x of (evs, r) \<Rightarrow> (e # evs, r)) = e # fst x"
  by (cases x) simp

lemma authorized_step_effects:
  assumes s: "consistent plan s" "st_status s \<in> {''in_progress'', ''waiting_for_approval''}"
      "current_assignment plan s = Some t" "verify_completed_evidence ed plan s = Inr (Some records)"
    and c: "permitted approval plan s t c"
  shows "call_effects gate registry env approval plan s ed
           (fst (authorized_step gate registry env plan s t records c))"
proof -
  have fail: "call_effects gate registry env approval plan s ed (fst (fail_before_execution env s t d c'))"
    if "d \<in> set STABLE_DIAGNOSTICS" and "c' = None \<or> c' = c" for d c'
    using that c by (auto simp: fail_before_execution_def intro!: call_effects.intros resting.failing s stable_nonblank)
  have stable: "''unknown_agent_family'' \<in> set STABLE_DIAGNOSTICS" "''git_status_timeout'' \<in> set STABLE_DIAGNOSTICS"
      "''git_status_failed'' \<in> set STABLE_DIAGNOSTICS"
    by code_simp+
  have run: "call_effects gate registry env approval plan s ed
      (SaveState (transition_to_executing s t c (e_now env)) #
       fst (run_and_record env plan (transition_to_executing s t c (e_now env)) t c baseline))"
    if "agent_family registry (a_family t) = Some family" "gate plan t family records = GatePasses material"
      "readiness_diagnostic env t = None" "e_git_before env = GitClean baseline" for family material baseline
    using run_and_record_tail [of env plan "transition_to_executing s t c (e_now env)" t c baseline]
      call_effects.run [where gate = gate, OF s(1-3) c s(4) that] by auto
  have quiet: "call_effects gate registry env approval plan s ed (fst (return_unchanged s d))" for d
    by (simp add: call_effects.quiet)
  show ?thesis
    unfolding authorized_step_def Let_def
    using fail [OF stable(1)] fail [OF stable(2)] fail [OF stable(3)] run quiet
    by (auto simp: fst_prefix call_effects.quiet split: option.split source_gate.split git_outcome.split)
qed

lemma task_step_effects:
  assumes s: "consistent plan s" "st_status s \<in> {''in_progress'', ''waiting_for_approval''}"
      "current_assignment plan s = Some t" "verify_completed_evidence ed plan s = Inr (Some records)"
  shows "call_effects gate registry env approval plan s ed
           (fst (task_step gate registry env approval plan s t records))"
proof -
  have stable: "''mutation_runtime_not_supported'' \<in> set STABLE_DIAGNOSTICS"
      "''unknown_execution_gate'' \<in> set STABLE_DIAGNOSTICS"
    by code_simp+
  have blocked: "call_effects gate registry env approval plan s ed
      (fst (block_before_execution env s t ''mutation_runtime_not_supported''))"
    by (auto simp: block_before_execution_def intro!: call_effects.intros resting.blocking s stable_nonblank stable)
  have unknown: "call_effects gate registry env approval plan s ed
      (fst (fail_before_execution env s t ''unknown_execution_gate'' None))"
    by (auto simp: fail_before_execution_def intro!: call_effects.intros resting.failing s stable_nonblank stable)
  have quiet: "call_effects gate registry env approval plan s ed (fst (return_unchanged s d))" for d
    by (simp add: call_effects.quiet)
  have wait: "call_effects gate registry env approval plan s ed
      (fst (save_or (e_save1 env) s (transition_to_waiting s t (e_nonce env) waiting_reason (e_now env)) f d))"
    if "a_execution_gate t = ''separate_human_approval''" and "st_status s \<noteq> ''waiting_for_approval''" for f d
    using that s(2) by (auto intro!: call_effects.intros resting.waiting s)
  have run: "call_effects gate registry env approval plan s ed
      (fst (authorized_step gate registry env plan s t records c))" if "permitted approval plan s t c" for c
    by (rule authorized_step_effects [OF s that])
  show ?thesis
    unfolding task_step_def
    using blocked unknown quiet wait run [of None] run [of "Some _"]
    by (auto simp: permitted_def split: option.split sum.split)
qed

lemma resume_step_effects:
  "call_effects gate registry env approval plan s ed (fst (resume_step gate registry env approval plan s ed))"
proof -
  have stable: "''interrupted_while_executing'' \<in> set STABLE_DIAGNOSTICS"
      "''missing_or_corrupt_completed_evidence'' \<in> set STABLE_DIAGNOSTICS"
      "''cursor_exhausted_without_completed_status'' \<in> set STABLE_DIAGNOSTICS"
    by code_simp+
  have rec: "call_effects gate registry env approval plan s ed (fst (recover env s d))"
    if "d \<in> set STABLE_DIAGNOSTICS" "st_status s \<notin> set NON_RESUMABLE_EXECUTION_STATUSES \<or> \<not> consistent plan s" for d
    using that by (auto simp: recover_def intro!: call_effects.intros resting.recovering stable_nonblank)
  show ?thesis
  proof (cases "validate_execution_state_invariants plan s")
    case (Some d)
    then show ?thesis
      using rec [of d] by (simp add: resume_step_def invariant_diagnostic_stable)
  next
    case None
    show ?thesis
    proof (cases "st_status s \<in> set NON_RESUMABLE_EXECUTION_STATUSES \<or> st_status s = ''executing''")
      case True
      with None rec [OF stable(1)] show ?thesis
        by (auto simp: resume_step_def call_effects.quiet)
    next
      case False
      then have "st_status s \<in> {''in_progress'', ''waiting_for_approval''}"
        using consistent_resumable [OF None] by blast
      from task_step_effects [OF None this] False None rec [OF stable(2)] rec [OF stable(3)] show ?thesis
        by (auto simp: resume_step_def call_effects.quiet split: sum.split option.split)
    qed
  qed
qed

text \<open>The plan and the state a call works on.\<close>

definition call_subject :: "call_env \<Rightarrow> pystr \<Rightarrow> mission_disk \<Rightarrow> (MissionPlan \<times> ExecutionState) option" where
  "call_subject env mission_id d =
     (case load_persisted_plan (d_plan d) mission_id of
        Inr plan \<Rightarrow>
          (case load_execution_state (d_state d) mission_id of
             Inr (Some s) \<Rightarrow> Some (plan, s)
           | Inr None \<Rightarrow> Some (plan, new_execution_state plan (e_now env))
           | Inl _ \<Rightarrow> None)
      | Inl _ \<Rightarrow> None)"

lemma locked_effects:
  assumes "execute_or_resume_plan_locked gate registry env approval mission_id d = (evs, r)"
  shows "evs = [] \<or> (\<exists>plan s. call_subject env mission_id d = Some (plan, s) \<and> p_assignments plan \<noteq> [] \<and>
           call_effects gate registry env approval plan s (d_evidence d) evs)"
  using assms resume_step_effects [of gate registry env approval _ _ "d_evidence d"]
  by (auto simp: execute_or_resume_plan_locked_def call_subject_def
      split: if_splits sum.splits plan_error.splits state_error.splits option.splits)
     (metis fst_conv)+

end
