(* ===== verification/Mission_History.thy ===== *)
theory Mission_History
  imports Executor
begin

text \<open>
  Histories of a mission: any sequence of calls of \<open>execute_or_resume_plan\<close>, each with its own
  environment and approval, interleaved with crashes between any two effects of a call, with an
  operator who removes a stale lock or approves the plan, and with arbitrary changes of the
  evidence directory. The trace of a history is the list of tasks whose provider was invoked.
\<close>

fun invocations :: "effect list \<Rightarrow> pystr list" where
  "invocations [] = []"
| "invocations (Invoke t # evs) = a_task_id t # invocations evs"
| "invocations (_ # evs) = invocations evs"

text \<open>What \<open>utc_now\<close>, \<open>secrets.token_hex(16)\<close> and \<open>uuid4().hex\<close> return.\<close>

definition env_ok :: "call_env \<Rightarrow> bool" where
  "env_ok env \<longleftrightarrow> py_nonblank (e_now env) \<and> py_nonblank (e_finished env) \<and>
     hex_fullmatch 32 (e_nonce env) \<and> hex_fullmatch 32 (r_uuid (e_run env))"

definition reapproved :: "MissionPlan \<Rightarrow> jdict \<Rightarrow> pystr \<Rightarrow> MissionPlan" where
  "reapproved plan a h = plan\<lparr>p_approval := a, p_plan_hash := h\<rparr>"

inductive mission_step ::
  "gate_fun \<Rightarrow> CapabilityRegistry \<Rightarrow> pystr \<Rightarrow> mission_disk \<times> pystr list \<Rightarrow> mission_disk \<times> pystr list \<Rightarrow> bool"
  for gate registry mission_id where
  call: "env_ok env \<Longrightarrow>
    execute_or_resume_plan gate registry env approval mission_id d = (d', evs, r) \<Longrightarrow>
    mission_step gate registry mission_id (d, tr) (d', tr @ invocations evs)"
| crash: "env_ok env \<Longrightarrow> lock_acquire env d = (Acquired, d1) \<Longrightarrow>
    execute_or_resume_plan_locked gate registry env approval mission_id d1 = (pre @ post, r) \<Longrightarrow>
    mission_step gate registry mission_id (d, tr) (apply_effects pre d1, tr @ invocations pre)"
| unlock: "mission_step gate registry mission_id (d, tr) (d\<lparr>d_lock := False\<rparr>, tr)"
| approve: "load_persisted_plan (d_plan d) mission_id = Inr plan \<Longrightarrow>
    mission_step gate registry mission_id (d, tr) (d\<lparr>d_plan := plan_file (reapproved plan a h)\<rparr>, tr)"
| evidence_change: "mission_step gate registry mission_id (d, tr) (d\<lparr>d_evidence := ed\<rparr>, tr)"

inductive_cases mission_step_cases: "mission_step gate registry mission_id (d, tr) (d', tr')"

section \<open>Well-formed states stay well formed\<close>

lemma reapproved_simps [simp]:
  "p_assignments (reapproved plan a h) = p_assignments plan"
  "p_mission_id (reapproved plan a h) = p_mission_id plan"
  "p_mission_constraints (reapproved plan a h) = p_mission_constraints plan"
  "plan_identity (reapproved plan a h) = plan_identity plan"
  "reapproved (reapproved plan a h) b k = reapproved plan b k"
proof -
  have "reapproved plan a h = (plan\<lparr>p_approval := a\<rparr>)\<lparr>p_plan_hash := h\<rparr>"
    by (simp add: reapproved_def)
  then show "plan_identity (reapproved plan a h) = plan_identity plan"
    by (simp only: plan_identity_plan_hash plan_identity_approval)
qed (simp_all add: reapproved_def)

lemma runnable_reapproved [simp]: "runnable (reapproved plan a h) = runnable plan"
  by (simp add: runnable_def)

lemma consistent_reapproved [simp]: "consistent (reapproved plan a h) s = consistent plan s"
  by (simp add: consistent_iff cursor_ok_def refs_ok_def status_invariant_def current_assignment_def)

definition settled :: "MissionPlan \<Rightarrow> ExecutionState \<Rightarrow> bool" where
  "settled plan s \<longleftrightarrow> consistent plan s \<and> state_wf s (p_mission_id plan)"

lemma settled_reapproved [simp]: "settled (reapproved plan a h) s = settled plan s"
  by (simp add: settled_def)

lemma opt_ok_simps [simp]: "opt_ok None" "opt_ok (Some x) = py_nonblank x"
  by (simp_all add: opt_ok_def nonblank_opt_def)

lemma statuses [simp]:
  "''in_progress'' \<in> set EXECUTION_STATUSES" "''waiting_for_approval'' \<in> set EXECUTION_STATUSES"
  "''executing'' \<in> set EXECUTION_STATUSES" "''completed'' \<in> set EXECUTION_STATUSES"
  "''failed'' \<in> set EXECUTION_STATUSES" "''blocked'' \<in> set EXECUTION_STATUSES"
  "''recovery_required'' \<in> set EXECUTION_STATUSES"
  by (simp_all add: EXECUTION_STATUSES_def)

lemma gates_nonblank: "g \<in> set EXECUTION_GATES \<Longrightarrow> py_nonblank g"
proof -
  have "list_all py_nonblank EXECUTION_GATES" by code_simp
  then show "g \<in> set EXECUTION_GATES \<Longrightarrow> py_nonblank g" by (simp add: list_all_iff)
qed

lemma runnable_task:
  assumes "runnable plan" and "cursor_ok plan s" and "current_assignment plan s = Some t"
  shows "py_nonblank (a_task_id t)" and "py_nonblank (a_execution_gate t)"
    and "a_execution_gate t \<in> set EXECUTION_GATES"
  using assms current_in_plan [OF assms(2,3)] by (auto simp: runnable_def list_all_iff intro: gates_nonblank)

text \<open>An approval that may be consumed: none, or a fresh well-formed identity.\<close>

definition consumable :: "ExecutionState \<Rightarrow> pystr option \<Rightarrow> bool" where
  "consumable s c \<longleftrightarrow> (\<forall>i. c = Some i \<longrightarrow> hex_fullmatch 64 i \<and> i \<notin> set (st_consumed_approval_ids s))"

lemma validated_approval:
  assumes "validate_assignment_approval approval plan s t = Inr i"
  shows "\<exists>a. approval = Some a \<and> i = approval_id a \<and> i \<notin> set (st_consumed_approval_ids s) \<and>
     ap_approval_source a = ''interactive_terminal'' \<and> ap_mission_id a = p_mission_id plan \<and>
     ap_task_id a = a_task_id t \<and> ap_plan_identity a = plan_identity plan \<and>
     st_approval_nonce s = Some (ap_approval_nonce a) \<and> st_status s = ''waiting_for_approval'' \<and>
     ap_approval_text a = expected_approval_command (p_mission_id plan) (a_task_id t) (plan_identity plan) (ap_approval_nonce a)"
  using assms by (cases approval) (auto simp: validate_assignment_approval_def split: if_splits)

lemma permitted_consumable: "permitted approval plan s t c \<Longrightarrow> consumable s c"
  by (auto simp: permitted_def consumable_def approval_id_def dest!: validated_approval)

lemma state_wf_consume:
  "consumable s c \<Longrightarrow> list_all (hex_fullmatch 64) (st_consumed_approval_ids s) \<Longrightarrow>
   distinct (st_consumed_approval_ids s) \<Longrightarrow>
   list_all (hex_fullmatch 64) (consume c (st_consumed_approval_ids s)) \<and>
   distinct (consume c (st_consumed_approval_ids s))"
  by (auto simp: consume_def consumable_def split: option.split)

lemma state_wf_new:
  assumes "env_ok env"
  shows "state_wf (new_execution_state plan (e_now env)) (p_mission_id plan)"
  using assms by (simp add: state_wf_def new_execution_state_def env_ok_def)

lemma state_wf_stopped:
  assumes "state_wf s m" and "py_nonblank (a_task_id t)" "py_nonblank (a_execution_gate t)"
    and "py_nonblank d" "py_nonblank u" "consumable s c"
  shows "state_wf (transition_to_blocked s t d u) m"
    and "state_wf (transition_to_failed_before_execution s t d c u) m"
    and "state_wf (transition_after_failed_assignment s t c d u) m"
    and "state_wf (transition_after_blocked_assignment s t c d u) m"
    and "state_wf (recovery_result s d u) m"
  using assms state_wf_consume [OF assms(6)] by (simp_all add: state_wf_def transition_defs)

lemma waiting_reason_nonblank: "py_nonblank waiting_reason"
  by code_simp

lemma state_wf_waiting:
  assumes "state_wf s m" and "py_nonblank (a_task_id t)" "py_nonblank (a_execution_gate t)" and "env_ok env"
  shows "state_wf (transition_to_waiting s t (e_nonce env) waiting_reason (e_now env)) m"
  using assms waiting_reason_nonblank hex_fullmatch_nonblank [of 32 "e_nonce env"]
  by (simp add: state_wf_def transition_to_waiting_def env_ok_def)

lemma state_wf_executing:
  assumes "state_wf s m" and "py_nonblank (a_task_id t)" "py_nonblank (a_execution_gate t)"
    and "consumable s c" and "py_nonblank u"
  shows "state_wf (transition_to_executing s t c u) m"
  using assms hex_fullmatch_nonblank [of 64]
  by (auto simp: state_wf_def transition_to_executing_def Let_def consumable_def split: option.splits)

lemma list_all_update:
  "list_all (\<lambda>(k, v). P k v) d \<Longrightarrow> P k v \<Longrightarrow> list_all (\<lambda>(k, v). P k v) (AList.update k v d)"
  by (induction d) auto

lemma state_wf_completed:
  assumes "state_wf s m" and "py_nonblank (a_task_id t)" and "consumable s c" and "py_nonblank u"
    and "evidence_id_ok (ev_evidence_id ev)"
  shows "state_wf (transition_after_completed_assignment s plan t ev c u) m"
  using assms state_wf_consume [OF assms(3)] list_all_update [of "\<lambda>k v. py_nonblank k \<and> evidence_id_ok v"]
  by (auto simp: state_wf_def transition_after_completed_assignment_def Let_def dict_set_def)

section \<open>One call keeps the mission settled\<close>

definition trace_ok :: "MissionPlan \<Rightarrow> ExecutionState \<Rightarrow> pystr list \<Rightarrow> bool" where
  "trace_ok plan s tr \<longleftrightarrow> tr = st_completed_task_ids s \<or>
     (\<exists>t. current_assignment plan s = Some t \<and> tr = st_completed_task_ids s @ [a_task_id t] \<and>
        st_status s \<in> {''executing'', ''failed'', ''blocked'', ''recovery_required''})"

lemma settled_cursor: "settled plan s \<Longrightarrow> cursor_ok plan s"
  by (simp add: settled_def consistent_cursor)

lemma resting_settled:
  assumes "settled plan s" and "runnable plan" and "env_ok env" and "resting env approval plan s s'"
  shows "settled plan s' \<and> st_completed_task_ids s' = st_completed_task_ids s \<and>
     current_assignment plan s' = current_assignment plan s \<and>
     (st_status s = ''executing'' \<longrightarrow> st_status s' = ''recovery_required'')"
  using assms(4)
proof cases
  case (recovering d)
  have "state_wf (recovery_result s d (e_now env)) (p_mission_id plan)"
    using assms recovering by (simp add: settled_def state_wf_def recovery_result_def env_ok_def)
  with assms recovering show ?thesis
    by (simp add: settled_def consistent_recovery) (simp add: recovery_result_def)
next
  case (failing t d c)
  note t = runnable_task [OF assms(2) settled_cursor [OF assms(1)] failing(4)]
  have c: "consumable s c" using failing(6) permitted_consumable by (auto simp: consumable_def)
  have "state_wf s' (p_mission_id plan)"
    using assms t failing c unfolding failing(1) by (intro state_wf_stopped) (auto simp: settled_def env_ok_def)
  with assms failing show ?thesis
    by (auto simp: settled_def consistent_stopped settled_cursor)
       (auto simp: transition_to_failed_before_execution_def)
next
  case (blocking t d)
  note t = runnable_task [OF assms(2) settled_cursor [OF assms(1)] blocking(4)]
  have "state_wf s' (p_mission_id plan)"
    using assms t blocking unfolding blocking(1)
    by (intro state_wf_stopped [where c = None]) (auto simp: settled_def env_ok_def consumable_def)
  with assms blocking show ?thesis
    by (auto simp: settled_def consistent_stopped settled_cursor) (auto simp: transition_to_blocked_def)
next
  case (waiting t)
  note t = runnable_task [OF assms(2) settled_cursor [OF assms(1)] waiting(4)]
  have "consistent plan s'"
    using assms waiting waiting_reason_nonblank unfolding waiting(1)
    by (intro consistent_waiting) (auto simp: settled_cursor env_ok_def)
  moreover have "state_wf s' (p_mission_id plan)"
    using assms t waiting unfolding waiting(1) by (intro state_wf_waiting) (auto simp: settled_def)
  ultimately show ?thesis
    using waiting by (auto simp: settled_def) (auto simp: transition_to_waiting_def)
qed

lemma executing_settled:
  assumes "settled plan s" and "runnable plan" and "env_ok env" and "current_assignment plan s = Some t"
    and "permitted approval plan s t c"
  shows "settled plan (transition_to_executing s t c (e_now env))"
proof -
  note cur = settled_cursor [OF assms(1)]
  note t = runnable_task [OF assms(2) cur assms(4)]
  have c: "consumable s c" using assms(5) by (rule permitted_consumable)
  have "consistent plan (transition_to_executing s t c (e_now env))"
  proof (cases "a_execution_gate t = ''plan_approval''")
    case True
    then show ?thesis using cur assms(4) by (intro consistent_executing_plan_gate)
  next
    case False
    with assms(5) obtain a i where i: "validate_assignment_approval (Some a) plan s t = Inr i" "c = Some i"
      and g: "a_execution_gate t = ''separate_human_approval''"
      by (auto simp: permitted_def)
    from validated_approval [OF i(1)] have "st_approval_nonce s = Some (ap_approval_nonce a)" by simp
    moreover from this assms(1) have "hex_fullmatch 32 (ap_approval_nonce a)"
      by (simp add: settled_def consistent_iff refs_ok_def)
    ultimately show ?thesis
      using cur assms(4) g c i(2) by (auto simp: consumable_def intro!: consistent_executing_separate)
  qed
  moreover have "state_wf (transition_to_executing s t c (e_now env)) (p_mission_id plan)"
    using assms t c by (intro state_wf_executing) (auto simp: settled_def env_ok_def)
  ultimately show ?thesis by (simp add: settled_def)
qed

lemma run_diagnostic_nonblank: "d \<in> set RUN_DIAGNOSTICS \<Longrightarrow> py_nonblank d"
proof -
  have "list_all py_nonblank RUN_DIAGNOSTICS" by code_simp
  then show "d \<in> set RUN_DIAGNOSTICS \<Longrightarrow> py_nonblank d" by (simp add: list_all_iff)
qed

lemma run_evidence_id:
  assumes "run_assignment (e_run env) plan t baseline = Inr (ev, d)" and "env_ok env"
  shows "evidence_id_ok (ev_evidence_id ev)"
  using run_assignment_result(5) [OF assms(1)] assms(2)
  by (auto simp: evidence_id_ok_def env_ok_def hex_fullmatch_def strip_word_Cons intro: list_all_take)

lemma final_settled:
  assumes "settled plan s" and "runnable plan" and "env_ok env" and "current_assignment plan s = Some t"
    and "consumable s c" and "run_assignment (e_run env) plan t baseline = Inr (ev, d)"
  shows "settled plan (final_state env plan s t c ev d)"
proof -
  note cur = settled_cursor [OF assms(1)]
  note t = runnable_task [OF assms(2) cur assms(4)]
  have d: "py_nonblank d" using run_assignment_result(1) [OF assms(6)] by (rule run_diagnostic_nonblank)
  have u: "py_nonblank (e_finished env)" using assms(3) by (simp add: env_ok_def)
  have wf: "state_wf s (p_mission_id plan)" using assms(1) by (simp add: settled_def)
  show ?thesis
    using state_wf_stopped [OF wf t(1,2) d u assms(5)] consistent_stopped [OF cur assms(4) d]
      state_wf_completed [OF wf t(1) assms(5) u run_evidence_id [OF assms(6,3)]]
      consistent_completed [OF cur assms(4)] assms(2)
    by (auto simp: settled_def final_state_def runnable_def)
qed

lemma final_trace:
  assumes "settled plan s" and "current_assignment plan s = Some t"
  shows "trace_ok plan (final_state env plan s t c ev d) (st_completed_task_ids s @ [a_task_id t])"
proof (cases "ev_status ev = ''completed''")
  case True
  then show ?thesis
    by (simp add: final_state_def trace_ok_def transition_after_completed_assignment_def Let_def)
next
  case False
  then have "current_assignment plan (final_state env plan s t c ev d) = Some t"
    and "st_completed_task_ids (final_state env plan s t c ev d) = st_completed_task_ids s"
    and "st_status (final_state env plan s t c ev d) \<in> {''failed'', ''blocked''}"
    using assms(2) by (simp_all add: final_state_def) (simp_all add: transition_defs)
  then show ?thesis by (auto simp: trace_ok_def)
qed

section \<open>Prefixes of a call\<close>

lemma apply_effects_simps [simp]:
  "apply_effects [] d = d" "apply_effects (e # evs) d = apply_effects evs (apply_effect e d)"
  by (simp_all add: apply_effects_def)

lemma set_evidence_simps [simp]:
  "d_state (set_evidence d i f) = d_state d" "d_plan (set_evidence d i f) = d_plan d"
  "d_lock (set_evidence d i f) = d_lock d" "d_confined (set_evidence d i f) = d_confined d"
  by (simp_all add: set_evidence_def)

lemma apply_effects_plan [simp]: "d_plan (apply_effects evs d) = d_plan d"
proof (induction evs arbitrary: d)
  case (Cons e evs)
  then show ?case by (cases e) simp_all
qed simp

text \<open>What a list of effects makes of the state file: nothing, or one settled state.\<close>

definition settles :: "MissionPlan \<Rightarrow> pystr list \<Rightarrow> effect list \<Rightarrow> bool" where
  "settles plan tr evs \<longleftrightarrow>
     (\<forall>d. d_state (apply_effects evs d) = d_state d) \<and> invocations evs = [] \<or>
     (\<exists>s. (\<forall>d. d_state (apply_effects evs d) = state_file s) \<and> settled plan s \<and>
        trace_ok plan s (tr @ invocations evs))"

lemma run_tail_settles:
  assumes s: "settled plan s" "runnable plan" "env_ok env" "current_assignment plan s = Some t" "consumable s c"
    and st: "st_status s = ''executing''" and tail: "run_tail env plan s t c baseline tail"
    and "prefix pre (SaveState s # Invoke t # tail)" and tr: "tr = st_completed_task_ids s"
  shows "settles plan tr pre"
proof -
  have ok: "settles plan tr (SaveState s # q)"
    if "\<forall>d. d_state (apply_effects q d) = d_state d" and "invocations q \<in> {[], [a_task_id t]}" for q
    unfolding settles_def
    using that s(1,4) st tr by (intro disjI2 exI [of _ s]) (auto simp: trace_ok_def)
  have fin: "settles plan tr [SaveState s, Invoke t, PersistEvidence ev, SaveState (final_state env plan s t c ev d)]"
    if "run_assignment (e_run env) plan t baseline = Inr (ev, d)" for ev d
    unfolding settles_def
    using final_settled [OF s that] final_trace [OF s(1,4)] tr
    by (intro disjI2 exI [of _ "final_state env plan s t c ev d"]) simp
  have nil: "settles plan tr []" by (simp add: settles_def)
  from tail show ?thesis
    by cases (use assms(8) ok fin nil in \<open>auto simp: prefix_Cons\<close>)
qed

lemma call_effects_settles:
  assumes "call_effects gate registry env approval plan s ed evs" and "prefix pre evs"
    and s: "settled plan s" "runnable plan" "env_ok env" and tr: "trace_ok plan s tr"
  shows "settles plan tr pre"
  using assms(1)
proof cases
  case quiet
  with assms(2) show ?thesis by (simp add: settles_def)
next
  case (rest s')
  note r = resting_settled [OF s rest(2)]
  have "trace_ok plan s' tr"
  proof (cases "tr = st_completed_task_ids s")
    case True
    with r show ?thesis by (simp add: trace_ok_def)
  next
    case False
    with tr have "st_status s \<in> {''executing'', ''failed'', ''blocked'', ''recovery_required''}"
      by (auto simp: trace_ok_def)
    with rest(2) have "st_status s' = ''recovery_required''"
      using s(1) r by cases (auto simp: settled_def NON_RESUMABLE_EXECUTION_STATUSES_def)
    with tr False r show ?thesis by (auto simp: trace_ok_def)
  qed
  with r assms(2) rest(1) show ?thesis
    by (auto simp: settles_def prefix_Cons)
next
  case (run t c records family material baseline tail)
  let ?x = "transition_to_executing s t c (e_now env)"
  from run(3) tr have "tr = st_completed_task_ids s" by (auto simp: trace_ok_def)
  then have "tr = st_completed_task_ids ?x" by (simp add: transition_to_executing_def Let_def)
  moreover have "consumable ?x c"
    using permitted_consumable [OF run(5)] by (simp add: consumable_def transition_to_executing_def Let_def)
  moreover have "st_status ?x = ''executing''" by (simp add: transition_to_executing_def Let_def)
  ultimately show ?thesis
    using run_tail_settles [OF executing_settled [OF s run(4,5)] s(2,3) _ _ _ run(11)] run(1,4) assms(2)
    by simp
qed

section \<open>Histories\<close>

text \<open>The invariant of a history: the plan's operative content, a settled state, a matching trace.\<close>

definition on_track :: "MissionPlan \<Rightarrow> mission_disk \<times> pystr list \<Rightarrow> bool" where
  "on_track plan = (\<lambda>(d, tr).
     (\<exists>a h. d_plan d = plan_file (reapproved plan a h)) \<and>
     (d_state d = FAbsent \<and> tr = [] \<or>
      (\<exists>s. d_state d = state_file s \<and> settled plan s \<and> trace_ok plan s tr)))"

lemma trace_ok_reapproved [simp]: "trace_ok (reapproved plan a h) s tr = trace_ok plan s tr"
  by (simp add: trace_ok_def current_assignment_def)

lemma settles_reapproved [simp]: "settles (reapproved plan a h) tr evs = settles plan tr evs"
  by (simp add: settles_def)

lemma load_on_track:
  assumes "runnable plan" and "d_plan d = plan_file (reapproved plan a h)"
  shows "load_persisted_plan (d_plan d) (p_mission_id plan) = Inr (reapproved plan a h)"
  using assms load_plan_file [of "reapproved plan a h" "p_mission_id plan"] by (simp add: runnable_def)

lemma call_subject_on_track:
  assumes "runnable plan" and "env_ok env" and "on_track plan (d, tr)"
  shows "\<exists>a h s. call_subject env (p_mission_id plan) d = Some (reapproved plan a h, s) \<and> settled plan s \<and>
     trace_ok plan s tr \<and> d_plan d = plan_file (reapproved plan a h)"
proof -
  from assms(3) obtain a h where p: "d_plan d = plan_file (reapproved plan a h)"
    by (auto simp: on_track_def)
  note lp = load_on_track [OF assms(1) p]
  from assms(3) consider "d_state d = FAbsent" "tr = []"
    | s where "d_state d = state_file s" "settled plan s" "trace_ok plan s tr"
    by (auto simp: on_track_def)
  then show ?thesis
  proof cases
    case 1
    let ?s = "new_execution_state (reapproved plan a h) (e_now env)"
    have "settled plan ?s"
      using assms(1) consistent_new [of "reapproved plan a h" "e_now env"] state_wf_new [OF assms(2), of "reapproved plan a h"]
      by (simp add: settled_def runnable_def)
    moreover have "trace_ok plan ?s tr"
      using 1 by (simp add: trace_ok_def new_execution_state_def)
    moreover have "call_subject env (p_mission_id plan) d = Some (reapproved plan a h, ?s)"
      using lp 1 by (simp add: call_subject_def load_execution_state_def)
    ultimately show ?thesis using p by blast
  next
    case (2 s)
    then have "call_subject env (p_mission_id plan) d = Some (reapproved plan a h, s)"
      using lp by (simp add: call_subject_def load_state_file settled_def)
    with 2 p show ?thesis by blast
  qed
qed

lemma locked_settles:
  assumes "runnable plan" and "env_ok env" and "on_track plan (d, tr)"
    and "execute_or_resume_plan_locked gate registry env approval (p_mission_id plan) d = (evs, r)" and "prefix pre evs"
  shows "on_track plan (apply_effects pre d, tr @ invocations pre)"
proof -
  from call_subject_on_track [OF assms(1-3)] obtain a h s where
    sub: "call_subject env (p_mission_id plan) d = Some (reapproved plan a h, s)"
    and s: "settled plan s" "trace_ok plan s tr" and p: "d_plan d = plan_file (reapproved plan a h)" by blast
  have "settles plan tr pre"
  proof (cases "evs = []")
    case True
    with assms(5) show ?thesis by (simp add: settles_def)
  next
    case False
    with locked_effects [OF assms(4)] sub
    have "call_effects gate registry env approval (reapproved plan a h) s (d_evidence d) evs" by auto
    from call_effects_settles [OF this assms(5), of tr] s assms(1,2) show ?thesis by simp
  qed
  then show ?thesis
    using assms(3) p by (auto simp: on_track_def settles_def)
qed

lemma on_track_lock [simp]: "on_track plan (d\<lparr>d_lock := b\<rparr>, tr) = on_track plan (d, tr)"
  by (simp add: on_track_def)

lemma lock_acquire_on_track:
  "lock_acquire env d = (o', d') \<Longrightarrow> on_track plan (d', tr) = on_track plan (d, tr)"
  by (auto simp: lock_acquire_def split: if_splits)

lemma lock_release_on_track:
  "lock_release env d = (b, d') \<Longrightarrow> on_track plan (d', tr) = on_track plan (d, tr)"
  by (auto simp: lock_release_def split: if_splits)

text \<open>Unfolding the public entry point: it did nothing, or ran the body between two lock operations.\<close>

lemma execute_cases:
  assumes "execute_or_resume_plan gate registry env approval mission_id d = (d', evs, r)"
  obtains (refused) "evs = []" and "d' = d \<or> (\<exists>o'. o' \<noteq> Acquired \<and> lock_acquire env d = (o', d'))"
    | (ran) d1 released r' where "lock_acquire env d = (Acquired, d1)"
      and "execute_or_resume_plan_locked gate registry env approval mission_id d1 = (evs, r')"
      and "lock_release env (apply_effects evs d1) = (released, d')"
      and "r = (case r' of Inl e \<Rightarrow> Inl e
             | Inr a \<Rightarrow> Inr (if released then a else a\<lparr>at_diagnostic := ''lock_release_error''\<rparr>))"
  using assms unfolding execute_or_resume_plan_def
  by (auto split: if_splits prod.splits lock_outcome.splits)

lemma mission_step_on_track:
  assumes "runnable plan" and "on_track plan x" and "mission_step gate registry (p_mission_id plan) x x'"
  shows "on_track plan x'"
  using assms(3,2)
proof cases
  case (call env approval d d' evs r tr)
  from call(4) show ?thesis
  proof (cases rule: execute_cases)
    case refused
    with call assms(2) show ?thesis by (auto dest: lock_acquire_on_track)
  next
    case (ran d1 released r')
    from assms(2) call(1) ran(1) have "on_track plan (d1, tr)" by (simp add: lock_acquire_on_track)
    from locked_settles [OF assms(1) call(3) this ran(2) prefix_order.refl] ran(3)
    show ?thesis unfolding call(2) by (simp add: lock_release_on_track)
  qed
next
  case (crash env d d1 approval pre post r tr)
  from assms(2) crash(1,4) have "on_track plan (d1, tr)" by (simp add: lock_acquire_on_track)
  from locked_settles [OF assms(1) crash(3) this crash(5)] show ?thesis
    unfolding crash(2) by simp
next
  case (approve d plan' tr a h)
  from assms(2) approve(1) obtain b k where "d_plan d = plan_file (reapproved plan b k)"
    by (auto simp: on_track_def)
  from load_on_track [OF assms(1) this] approve(3) have "plan' = reapproved plan b k" by simp
  with assms(2) approve(1,2) show ?thesis by (auto simp: on_track_def)
qed (use assms(2) in \<open>auto simp: on_track_def\<close>)

text \<open>The runtime's step relation meets the interface of \<open>kept\<close> for every runnable plan.\<close>

definition track_step ::
  "gate_fun \<Rightarrow> CapabilityRegistry \<Rightarrow> MissionPlan \<times> mission_disk \<times> pystr list \<Rightarrow>
   MissionPlan \<times> mission_disk \<times> pystr list \<Rightarrow> bool" where
  "track_step gate registry x y \<longleftrightarrow>
     fst y = fst x \<and> mission_step gate registry (p_mission_id (fst x)) (snd x) (snd y)"

interpretation runtime: kept "track_step gate registry" "\<lambda>x. runnable (fst x) \<and> on_track (fst x) (snd x)"
  by unfold_locales (auto simp: track_step_def intro: mission_step_on_track)

lemma history_on_track:
  assumes "(mission_step gate registry (p_mission_id plan))\<^sup>*\<^sup>* x x'" and "runnable plan" and "on_track plan x"
  shows "on_track plan x'"
proof -
  from assms(1) have "(track_step gate registry)\<^sup>*\<^sup>* (plan, x) (plan, x')"
    by (induction rule: rtranclp_induct) (auto simp: track_step_def intro: rtranclp.rtrancl_into_rtrancl)
  from runtime.history [OF this] assms(2,3) show ?thesis by simp
qed

definition fresh_mission :: "MissionPlan \<Rightarrow> mission_disk \<Rightarrow> bool" where
  "fresh_mission plan d \<longleftrightarrow> d_plan d = plan_file plan \<and> d_state d = FAbsent"

lemma fresh_on_track: "fresh_mission plan d \<Longrightarrow> on_track plan (d, [])"
proof -
  have "plan = reapproved plan (p_approval plan) (p_plan_hash plan)" by (simp add: reapproved_def)
  then have "\<exists>a h. plan_file plan = plan_file (reapproved plan a h)" by metis
  then show "fresh_mission plan d \<Longrightarrow> on_track plan (d, [])"
    by (simp add: fresh_mission_def on_track_def)
qed

lemma trace_ok_prefix:
  assumes "settled plan s" and "trace_ok plan s tr"
  shows "prefix tr (map a_task_id (p_assignments plan))"
proof -
  let ?ids = "map a_task_id (p_assignments plan)" and ?n = "length (st_completed_task_ids s)"
  from assms(1) have c: "cursor_ok plan s" by (rule settled_cursor)
  then have ids: "st_completed_task_ids s = take ?n ?ids" by (simp add: cursor_ok_def)
  from assms(2) show ?thesis unfolding trace_ok_def
  proof (elim disjE exE conjE)
    assume "tr = st_completed_task_ids s"
    then show ?thesis by (metis ids take_is_prefix)
  next
    fix t assume t: "current_assignment plan s = Some t" and tr: "tr = st_completed_task_ids s @ [a_task_id t]"
    from c t have "?n < length ?ids" and "a_task_id t = ?ids ! ?n"
      by (auto simp: cursor_ok_current split: if_splits)
    with tr have "tr = take (Suc ?n) ?ids"
      using ids by (simp only: take_Suc_conv_app_nth)
    then show ?thesis by (simp only: take_is_prefix)
  qed
qed

section \<open>A concrete call\<close>

text \<open>The demonstration mission, its first task approved with the plan, and a cooperative world.\<close>

definition demo_reply :: pystr where
  "demo_reply = canonical_dumps (JObj [(''outcome'', JStr ''completed''), (''objective_satisfied'', JBool True),
     (''summary'', JStr ''done''), (''diagnostic'', JNull), (''evidence'', JList []), (''review_outcome'', JNull)])"

definition demo_run_env :: run_env where
  "demo_run_env = \<lparr>r_invoke = InvokeReturns demo_reply [(''total'', 7)] [''codex''], r_git_after = GitClean [],
     r_limit = 900, r_uuid = replicate 32 (CHR ''a''), r_started = JInt 1, r_finished = JInt 2\<rparr>"

definition demo_env :: call_env where
  "demo_env = \<lparr>e_now = ''2026-01-01T00:00:00Z'', e_finished = ''2026-01-01T00:00:09Z'',
     e_nonce = replicate 32 (CHR ''b''), e_git_before = GitClean [], e_probe_available = True,
     e_probe_models = [''qwen''], e_run = demo_run_env, e_save1 = True, e_save2 = True, e_persist = True,
     e_torn = FUnreadable, e_lock_mkdir = True, e_lock_open = True, e_lock_close = True,
     e_lock_undo = True, e_unlink = True\<rparr>"

definition demo_disk :: mission_disk where
  "demo_disk = \<lparr>d_confined = True, d_plan = plan_file demo_approved, d_state = FAbsent,
     d_evidence = \<lparr>ed_confined = True, ed_file = (\<lambda>_. FAbsent), ed_outside = []\<rparr>, d_lock = False\<rparr>"

definition demo_gate :: gate_fun where
  "demo_gate plan t family records = GatePasses []"

lemma demo_run:
  "run_assignment demo_run_env demo_approved demo_a1 [] =
     Inr (evidence_build (replicate 32 (CHR ''a'')) ''mission-demo'' ''t1'' ''codex'' ''provider_default'' ''completed''
       demo_reply [(''total'', 7)] [''codex''] (JInt 1) (JInt 2), ''completed'')"
proof -
  have "judge_result_text 900 ''source-extraction'' demo_reply = Inr (''completed'', ''completed'')"
    by code_simp
  then show ?thesis
    by (simp add: run_assignment_def provider_verdict_def git_verdict_def demo_run_env_def demo_approved_def
        demo_plan_def demo_a1_def)
qed

lemma demo_plan_facts:
  "runnable demo_approved" "fresh_mission demo_approved demo_disk" "env_ok demo_env"
  "p_assignments demo_approved = [demo_a1, demo_a2]" "p_mission_id demo_approved = ''mission-demo''"
proof -
  show "runnable demo_approved" "env_ok demo_env" by code_simp+
qed (simp_all add: fresh_mission_def demo_disk_def demo_approved_def demo_plan_def)

lemma demo_subject:
  "load_persisted_plan (plan_file demo_approved) ''mission-demo'' = Inr demo_approved"
  using load_plan_file [of demo_approved "''mission-demo''"] demo_plan_facts(1,5) by (simp add: runnable_def)

lemma demo_resume:
  "fst (resume_step demo_gate demo_registry demo_env None demo_approved
     (new_execution_state demo_approved (e_now demo_env)) (d_evidence demo_disk)) =
   (let s = new_execution_state demo_approved (e_now demo_env); x = transition_to_executing s demo_a1 None (e_now demo_env);
        ev = evidence_build (replicate 32 (CHR ''a'')) ''mission-demo'' ''t1'' ''codex'' ''provider_default'' ''completed''
               demo_reply [(''total'', 7)] [''codex''] (JInt 1) (JInt 2)
    in [SaveState x, Invoke demo_a1, PersistEvidence ev,
        SaveState (final_state demo_env demo_approved x demo_a1 None ev ''completed'')])"
proof -
  let ?s = "new_execution_state demo_approved (e_now demo_env)"
  have "consistent demo_approved ?s"
    by (rule consistent_new) (simp add: demo_plan_facts)
  moreover have "st_status ?s = ''in_progress''" "st_completed_task_ids ?s = []" "st_evidence_ids_by_task ?s = []"
    "st_next_assignment_index ?s = 0"
    by (simp_all add: new_execution_state_def)
  moreover have "current_assignment demo_approved ?s = Some demo_a1"
    by (simp add: current_assignment_def demo_plan_facts new_execution_state_def)
  moreover have "dict_get (p_approval demo_approved) ''status'' = Some (JStr ''approved'')"
    by (simp add: demo_approved_def)
  moreover have "agent_family demo_registry (a_family demo_a1) = Some demo_contract"
    by (simp add: agent_family_def demo_registry_def demo_a1_def)
  moreover have "a_mutation demo_a1 = False" "a_execution_gate demo_a1 = ''plan_approval''"
    "readiness_diagnostic demo_env demo_a1 = None"
    by (simp_all add: demo_a1_def readiness_diagnostic_def demo_env_def)
  moreover have "e_git_before demo_env = GitClean []" "e_save1 demo_env" "e_save2 demo_env" "e_persist demo_env"
    "e_run demo_env = demo_run_env" "ed_confined (d_evidence demo_disk)"
    by (simp_all add: demo_env_def demo_disk_def)
  ultimately show ?thesis
    by (simp add: resume_step_def NON_RESUMABLE_EXECUTION_STATUSES_def verify_completed_evidence_def task_step_def
        authorized_step_def demo_gate_def run_and_record_def demo_run Let_def)
qed

definition demo_effects :: "effect list" where
  "demo_effects = fst (resume_step demo_gate demo_registry demo_env None demo_approved
     (new_execution_state demo_approved (e_now demo_env)) (d_evidence demo_disk))"

lemma demo_call:
  "\<exists>d' r. execute_or_resume_plan demo_gate demo_registry demo_env None ''mission-demo'' demo_disk = (d', demo_effects, r)"
proof -
  let ?d = "demo_disk\<lparr>d_lock := True\<rparr>"
  have "validate_mission_id ''mission-demo''" by code_simp
  moreover have "lock_acquire demo_env demo_disk = (Acquired, ?d)" "d_confined demo_disk" "d_confined ?d"
    "d_plan ?d = plan_file demo_approved" "d_state ?d = FAbsent" "d_evidence ?d = d_evidence demo_disk"
    by (simp_all add: lock_acquire_def demo_env_def demo_disk_def)
  moreover have "fst (execute_or_resume_plan_locked demo_gate demo_registry demo_env None ''mission-demo'' ?d) = demo_effects"
    using calculation
    by (simp add: execute_or_resume_plan_locked_def demo_subject demo_plan_facts load_execution_state_def demo_effects_def)
  moreover from this obtain r where
    "execute_or_resume_plan_locked demo_gate demo_registry demo_env None ''mission-demo'' ?d = (demo_effects, r)"
    by (metis prod.collapse)
  ultimately show ?thesis
    by (simp add: execute_or_resume_plan_def split: prod.split)
qed

lemma demo_history:
  "\<exists>d'. (mission_step demo_gate demo_registry ''mission-demo'')\<^sup>*\<^sup>* (demo_disk, []) (d', [''t1''])"
proof -
  from demo_call obtain d' r where
    "execute_or_resume_plan demo_gate demo_registry demo_env None ''mission-demo'' demo_disk = (d', demo_effects, r)"
    by blast
  from mission_step.call [OF demo_plan_facts(3) this, of "[]"]
  have "mission_step demo_gate demo_registry ''mission-demo'' (demo_disk, []) (d', [''t1''])"
    by (simp add: demo_effects_def demo_resume Let_def demo_a1_def)
  then show ?thesis by blast
qed

section \<open>What one call can do\<close>

lemma public_effects:
  assumes "execute_or_resume_plan gate registry env approval mission_id d = (d', evs, r)"
  shows "evs = [] \<or> (\<exists>plan s. call_subject env mission_id d = Some (plan, s) \<and>
           call_effects gate registry env approval plan s (d_evidence d) evs)"
  using assms
proof (cases rule: execute_cases)
  case (ran d1 released r')
  have "d_plan d1 = d_plan d" "d_state d1 = d_state d" "d_evidence d1 = d_evidence d"
    using ran(1) by (auto simp: lock_acquire_def split: if_splits)
  then have "call_subject env mission_id d1 = call_subject env mission_id d" "d_evidence d1 = d_evidence d"
    by (simp_all add: call_subject_def cong: sum.case_cong)
  with locked_effects [OF ran(2)] show ?thesis by auto
qed simp

lemma run_tail_no_invoke: "run_tail env plan s t c baseline tail \<Longrightarrow> Invoke u \<notin> set tail"
  by (auto elim: run_tail.cases)

text \<open>A mission whose only task waits for a separate approval, and the approval it asks for.\<close>

definition demo_sep :: MissionPlan where
  "demo_sep = demo_approved\<lparr>p_assignments := [demo_a1\<lparr>a_execution_gate := ''separate_human_approval''\<rparr>]\<rparr>"

definition demo_waiting :: ExecutionState where
  "demo_waiting = transition_to_waiting (new_execution_state demo_sep (e_now demo_env))
     (demo_a1\<lparr>a_execution_gate := ''separate_human_approval''\<rparr>) (e_nonce demo_env) waiting_reason (e_now demo_env)"

definition demo_approval :: AssignmentApproval where
  "demo_approval = \<lparr>ap_mission_id = ''mission-demo'', ap_task_id = ''t1'',
     ap_execution_gate = ''separate_human_approval'', ap_plan_identity = plan_identity demo_sep,
     ap_approval_nonce = e_nonce demo_env,
     ap_approval_text = expected_approval_command ''mission-demo'' ''t1'' (plan_identity demo_sep) (e_nonce demo_env),
     ap_approval_source = ''interactive_terminal'', ap_approved_at = ''2026-01-01T00:00:05Z''\<rparr>"

definition demo_sep_disk :: mission_disk where
  "demo_sep_disk = demo_disk\<lparr>d_plan := plan_file demo_sep, d_state := state_file demo_waiting\<rparr>"

lemma demo_sep_facts:
  "runnable demo_sep" "p_mission_id demo_sep = ''mission-demo''"
  "p_assignments demo_sep = [demo_a1\<lparr>a_execution_gate := ''separate_human_approval''\<rparr>]"
proof -
  show "runnable demo_sep" by code_simp
qed (simp_all add: demo_sep_def demo_approved_def demo_plan_def)

lemma demo_waiting_settled: "settled demo_sep demo_waiting"
proof -
  let ?s = "new_execution_state demo_sep (e_now demo_env)" and ?t = "demo_a1\<lparr>a_execution_gate := ''separate_human_approval''\<rparr>"
  have s: "settled demo_sep ?s"
    using consistent_new [of demo_sep] state_wf_new [OF demo_plan_facts(3), of demo_sep]
    by (simp add: settled_def demo_sep_facts)
  have "resting demo_env None demo_sep ?s demo_waiting"
    unfolding demo_waiting_def
    using s by (intro resting.waiting) (simp_all add: settled_def new_execution_state_def current_assignment_def demo_sep_facts)
  from resting_settled [OF s demo_sep_facts(1) demo_plan_facts(3) this] show ?thesis by simp
qed

lemma demo_approval_valid:
  "validate_assignment_approval (Some demo_approval) demo_sep demo_waiting
     (demo_a1\<lparr>a_execution_gate := ''separate_human_approval''\<rparr>) = Inr (approval_id demo_approval)"
proof -
  have "py_nonblank (plan_identity demo_sep)" by (rule hex_fullmatch_nonblank [of 64]) simp_all
  moreover have "py_nonblank (e_nonce demo_env)"
    using demo_plan_facts(3) hex_fullmatch_nonblank [of 32] by (simp add: env_ok_def)
  moreover have "py_nonblank (expected_approval_command m t i n)" for m t i n
    by (simp add: expected_approval_command_def py_nonblank_Cons py_isspace_def code_point_def)
  moreover have "py_nonblank ''mission-demo''" "py_nonblank ''t1''" "py_nonblank ''separate_human_approval''"
    "py_nonblank ''interactive_terminal''" "py_nonblank ''2026-01-01T00:00:05Z''"
    by code_simp+
  ultimately show ?thesis
    by (simp add: validate_assignment_approval_def demo_approval_def demo_waiting_def transition_to_waiting_def
        new_execution_state_def demo_sep_facts demo_a1_def)
qed

lemma demo_sep_call:
  "\<exists>d' evs r. execute_or_resume_plan demo_gate demo_registry demo_env (Some demo_approval) ''mission-demo'' demo_sep_disk =
     (d', evs, r) \<and> Invoke (demo_a1\<lparr>a_execution_gate := ''separate_human_approval''\<rparr>) \<in> set evs"
proof -
  let ?d = "demo_sep_disk\<lparr>d_lock := True\<rparr>" and ?t = "demo_a1\<lparr>a_execution_gate := ''separate_human_approval''\<rparr>"
  have "validate_mission_id ''mission-demo''" by code_simp
  moreover have d: "lock_acquire demo_env demo_sep_disk = (Acquired, ?d)" "d_confined demo_sep_disk" "d_confined ?d"
    "d_plan ?d = plan_file demo_sep" "d_state ?d = state_file demo_waiting" "ed_confined (d_evidence ?d)"
    by (simp_all add: lock_acquire_def demo_env_def demo_disk_def demo_sep_disk_def)
  moreover have "load_persisted_plan (plan_file demo_sep) ''mission-demo'' = Inr demo_sep"
    using load_plan_file [of demo_sep "''mission-demo''"] demo_sep_facts by (simp add: runnable_def)
  moreover have "load_execution_state (state_file demo_waiting) ''mission-demo'' = Inr (Some demo_waiting)"
    using demo_waiting_settled by (simp add: load_state_file settled_def demo_sep_facts)
  moreover have "Invoke ?t \<in> set (fst (resume_step demo_gate demo_registry demo_env (Some demo_approval) demo_sep
      demo_waiting (d_evidence ?d)))"
  proof -
    have "consistent demo_sep demo_waiting" using demo_waiting_settled by (simp add: settled_def)
    moreover have "st_status demo_waiting = ''waiting_for_approval''" "st_completed_task_ids demo_waiting = []"
        "current_assignment demo_sep demo_waiting = Some ?t"
      by (simp_all add: demo_waiting_def transition_to_waiting_def new_execution_state_def current_assignment_def demo_sep_facts)
    moreover have "agent_family demo_registry (a_family demo_a1) = Some demo_contract" "a_mutation demo_a1 = False"
        "readiness_diagnostic demo_env ?t = None"
      by (simp_all add: agent_family_def demo_registry_def demo_a1_def readiness_diagnostic_def demo_env_def)
    moreover have "e_git_before demo_env = GitClean []" "e_save1 demo_env"
      by (simp_all add: demo_env_def)
    moreover have "\<exists>tail. fst (run_and_record demo_env demo_sep x ?t c []) = Invoke ?t # tail" for x c
      using run_and_record_tail by blast
    ultimately show ?thesis
      using d(6) demo_approval_valid
      by (auto simp: resume_step_def NON_RESUMABLE_EXECUTION_STATUSES_def verify_completed_evidence_def task_step_def
          authorized_step_def demo_gate_def Let_def fst_prefix)
         (metis list.set_intros(1))
  qed
  ultimately have "Invoke ?t \<in> set (fst (execute_or_resume_plan_locked demo_gate demo_registry demo_env
      (Some demo_approval) ''mission-demo'' ?d))"
    by (simp add: execute_or_resume_plan_locked_def demo_sep_facts)
  with d show ?thesis
    using \<open>validate_mission_id ''mission-demo''\<close>
    by (auto simp: execute_or_resume_plan_def split: prod.splits)
qed

section \<open>Properties\<close>

text \<open>
  C1: in every history of a mission (calls with any environment and any approvals, crashes
  between any two effects, removed locks, plan approvals, changed evidence files) the providers
  are invoked in the order of the plan, and no task is ever invoked twice.
\<close>

theorem invocations_follow_plan:
  assumes "runnable plan" and "fresh_mission plan d"
    and "(mission_step gate registry (p_mission_id plan))\<^sup>*\<^sup>* (d, []) (d', tr)"
  shows "prefix tr (map a_task_id (p_assignments plan)) \<and> distinct tr"
proof -
  from history_on_track [OF assms(3,1)] fresh_on_track [OF assms(2)] have "on_track plan (d', tr)" by blast
  then have "prefix tr (map a_task_id (p_assignments plan))"
    by (auto simp: on_track_def intro: trace_ok_prefix)
  moreover from this assms(1) have "distinct tr"
    by (auto simp: runnable_def prefix_def)
  ultimately show ?thesis by blast
qed

theorem invocations_follow_plan_witness:
  "\<exists>d'. (mission_step demo_gate demo_registry ''mission-demo'')\<^sup>*\<^sup>* (demo_disk, []) (d', [''t1'']) \<and>
     prefix [''t1''] (map a_task_id (p_assignments demo_approved)) \<and> distinct [''t1'']"
  using demo_history invocations_follow_plan [OF demo_plan_facts(1,2)] demo_plan_facts(5) by metis

text \<open>
  C2: in every such history the state file is absent or strictly reloads as a state that
  satisfies all execution-state invariants of the plan, so no crash or failed write ever leaves
  a mission that its own loader or its own invariants reject.
\<close>

theorem history_state_always_valid:
  assumes "runnable plan" and "fresh_mission plan d"
    and "(mission_step gate registry (p_mission_id plan))\<^sup>*\<^sup>* (d, []) (d', tr)"
  shows "load_execution_state (d_state d') (p_mission_id plan) = Inr None \<or>
     (\<exists>s. load_execution_state (d_state d') (p_mission_id plan) = Inr (Some s) \<and>
        validate_execution_state_invariants plan s = None)"
proof -
  from history_on_track [OF assms(3,1)] fresh_on_track [OF assms(2)] have "on_track plan (d', tr)" by blast
  then show ?thesis
    by (auto simp: on_track_def settled_def load_state_file) (simp add: load_execution_state_def)
qed

theorem history_state_always_valid_witness:
  "\<exists>d'. (mission_step demo_gate demo_registry ''mission-demo'')\<^sup>*\<^sup>* (demo_disk, []) (d', [''t1'']) \<and>
     (load_execution_state (d_state d') ''mission-demo'' = Inr None \<or>
      (\<exists>s. load_execution_state (d_state d') ''mission-demo'' = Inr (Some s) \<and>
         validate_execution_state_invariants demo_approved s = None))"
  using demo_history history_state_always_valid [OF demo_plan_facts(1,2)] demo_plan_facts(5) by metis

text \<open>
  C4: a call invokes a provider only for the task at the cursor of a plan and a state that were
  both loaded from disk and found consistent, after every completed task's evidence was verified,
  with the task's gate satisfied, its sources and its provider ready and a Git baseline taken; the
  state \<open>executing\<close> is saved immediately before, and the call invokes nothing else. A task that
  may mutate the workspace is never invoked.
\<close>

theorem invoke_only_when_permitted:
  assumes "execute_or_resume_plan gate registry env approval mission_id d = (d', evs, r)" and "Invoke t \<in> set evs"
  shows "\<exists>plan s c records family material baseline tail.
     call_subject env mission_id d = Some (plan, s) \<and> validate_execution_state_invariants plan s = None \<and>
     st_status s \<in> {''in_progress'', ''waiting_for_approval''} \<and> current_assignment plan s = Some t \<and>
     \<not> a_mutation t \<and> permitted approval plan s t c \<and>
     verify_completed_evidence (d_evidence d) plan s = Inr (Some records) \<and>
     agent_family registry (a_family t) = Some family \<and> gate plan t family records = GatePasses material \<and>
     readiness_diagnostic env t = None \<and> e_git_before env = GitClean baseline \<and>
     evs = SaveState (transition_to_executing s t c (e_now env)) # Invoke t # tail \<and> (\<forall>u. Invoke u \<notin> set tail)"
proof -
  from public_effects [OF assms(1)] assms(2) obtain plan s where
    sub: "call_subject env mission_id d = Some (plan, s)"
    and eff: "call_effects gate registry env approval plan s (d_evidence d) evs" by auto
  from eff show ?thesis
  proof cases
    case (run t' c records family material baseline tail)
    have tail: "\<forall>u. Invoke u \<notin> set tail" using run_tail_no_invoke [OF run(11)] by blast
    with assms(2) run(1) have t: "t' = t" by auto
    from run(5) t have "\<not> a_mutation t" by (simp add: permitted_def)
    with sub run tail t show ?thesis by blast
  qed (use assms(2) in auto)
qed

theorem invoke_only_when_permitted_witness:
  "\<exists>d' r plan s c. execute_or_resume_plan demo_gate demo_registry demo_env None ''mission-demo'' demo_disk =
       (d', demo_effects, r) \<and> Invoke demo_a1 \<in> set demo_effects \<and>
     call_subject demo_env ''mission-demo'' demo_disk = Some (plan, s) \<and> permitted None plan s demo_a1 c"
proof -
  from demo_call obtain d' r where
    c: "execute_or_resume_plan demo_gate demo_registry demo_env None ''mission-demo'' demo_disk = (d', demo_effects, r)"
    by blast
  have i: "Invoke demo_a1 \<in> set demo_effects" by (simp add: demo_effects_def demo_resume Let_def)
  from invoke_only_when_permitted [OF c i] c i show ?thesis by blast
qed

text \<open>
  C3: a task gated by \<open>separate_human_approval\<close> is invoked only with an approval typed at the
  terminal whose command text names this mission, this task, the identity of the plan now on disk
  and the nonce persisted when the mission paused, and whose identity was not consumed before; any
  state that call saves afterwards (other than \<open>executing\<close>) has consumed it, and an approval
  that a state has consumed is never accepted from that state again.
\<close>

theorem separate_gate_needs_fresh_approval:
  assumes "execute_or_resume_plan gate registry env approval mission_id d = (d', evs, r)" and "Invoke t \<in> set evs"
    and "a_execution_gate t = ''separate_human_approval''"
  shows "\<exists>a plan s. approval = Some a \<and> call_subject env mission_id d = Some (plan, s) \<and>
     st_status s = ''waiting_for_approval'' \<and> st_approval_nonce s = Some (ap_approval_nonce a) \<and>
     ap_approval_source a = ''interactive_terminal'' \<and>
     ap_approval_text a = expected_approval_command (p_mission_id plan) (a_task_id t) (plan_identity plan) (ap_approval_nonce a) \<and>
     approval_id a \<notin> set (st_consumed_approval_ids s) \<and>
     (\<forall>s'. SaveState s' \<in> set evs \<and> st_status s' \<noteq> ''executing'' \<longrightarrow>
        approval_id a \<in> set (st_consumed_approval_ids s') \<and>
        (\<forall>plan' u i. validate_assignment_approval (Some a) plan' s' u \<noteq> Inr i))"
proof -
  from public_effects [OF assms(1)] assms(2) obtain plan s where
    sub: "call_subject env mission_id d = Some (plan, s)"
    and eff: "call_effects gate registry env approval plan s (d_evidence d) evs" by auto
  from eff show ?thesis
  proof cases
    case (run t' c records family material baseline tail)
    with assms(2) run_tail_no_invoke [OF run(11)] have t: "t' = t" by auto
    from run(5) assms(3) t obtain a i where a: "approval = Some a" "c = Some i"
      and v: "validate_assignment_approval (Some a) plan s t = Inr i"
      by (auto simp: permitted_def)
    from validated_approval [OF v] have i: "i = approval_id a" by simp
    have used: "approval_id a \<in> set (st_consumed_approval_ids s')"
      if "SaveState s' \<in> set evs" "st_status s' \<noteq> ''executing''" for s'
    proof -
      let ?x = "transition_to_executing s t' c (e_now env)"
      have "st_status ?x = ''executing''" by (simp add: transition_to_executing_def Let_def)
      with that run(1) have "SaveState s' \<in> set tail" by auto
      with run(11) obtain ev d where "s' = final_state env plan ?x t' c ev d"
        by (auto elim: run_tail.cases)
      moreover have "i \<in> set (consume c xs)" for xs by (simp add: a(2) consume_def)
      ultimately show ?thesis
        by (simp add: i final_state_def transition_defs transition_after_completed_assignment_def Let_def)
    qed
    have "validate_assignment_approval (Some a) plan' s' u \<noteq> Inr j"
      if "approval_id a \<in> set (st_consumed_approval_ids s')" for plan' s' u j
      using that by (auto dest: validated_approval)
    with sub a(1) validated_approval [OF v] used show ?thesis by fastforce
  qed (use assms(2) in auto)
qed

theorem separate_gate_needs_fresh_approval_witness:
  "\<exists>d' evs r. execute_or_resume_plan demo_gate demo_registry demo_env (Some demo_approval) ''mission-demo''
       demo_sep_disk = (d', evs, r) \<and>
     Invoke (demo_a1\<lparr>a_execution_gate := ''separate_human_approval''\<rparr>) \<in> set evs \<and>
     (\<forall>s'. SaveState s' \<in> set evs \<and> st_status s' \<noteq> ''executing'' \<longrightarrow>
        approval_id demo_approval \<in> set (st_consumed_approval_ids s'))"
proof -
  from demo_sep_call obtain d' evs r where
    c: "execute_or_resume_plan demo_gate demo_registry demo_env (Some demo_approval) ''mission-demo'' demo_sep_disk = (d', evs, r)"
    and i: "Invoke (demo_a1\<lparr>a_execution_gate := ''separate_human_approval''\<rparr>) \<in> set evs" by blast
  from separate_gate_needs_fresh_approval [OF c i] c i show ?thesis by auto
qed

text \<open>
  C23: once the persisted status is \<open>completed\<close>, \<open>failed\<close>, \<open>blocked\<close>, \<open>recovery_required\<close>
  or (after an interruption) \<open>executing\<close>, no call invokes anything whatever its environment or
  approval: the state file keeps its content or becomes \<open>recovery_required\<close> with the same
  cursor, completed tasks, evidence and consumed approvals.
\<close>

theorem stopped_mission_never_invokes:
  assumes "load_execution_state (d_state d) mission_id = Inr (Some s)"
    and "st_status s \<in> {''completed'', ''failed'', ''blocked'', ''recovery_required'', ''executing''}"
    and "execute_or_resume_plan gate registry env approval mission_id d = (d', evs, r)"
  shows "evs = [] \<or> (\<exists>diagnostic. evs = [SaveState (recovery_result s diagnostic (e_now env))])"
proof (cases "evs = []")
  case False
  with public_effects [OF assms(3)] obtain plan s' where
    sub: "call_subject env mission_id d = Some (plan, s')"
    and eff: "call_effects gate registry env approval plan s' (d_evidence d) evs" by auto
  from sub assms(1) have s': "s' = s"
    by (auto simp: call_subject_def split: sum.splits)
  have st: "st_status s \<notin> {''in_progress'', ''waiting_for_approval''}"
    using assms(2) by auto
  from eff False show ?thesis
    unfolding s'
  proof cases
    case (rest s'')
    from rest(2) st show ?thesis
      unfolding rest(1) by cases auto
  next
    case run
    with st show ?thesis by blast
  qed simp
qed simp

definition demo_interrupted :: ExecutionState where
  "demo_interrupted = transition_to_executing (new_execution_state demo_approved (e_now demo_env)) demo_a1 None (e_now demo_env)"

lemma demo_interrupted_settled: "settled demo_approved demo_interrupted"
proof -
  let ?s = "new_execution_state demo_approved (e_now demo_env)"
  have s: "settled demo_approved ?s"
    using consistent_new [of demo_approved] state_wf_new [OF demo_plan_facts(3), of demo_approved]
    by (simp add: settled_def demo_plan_facts)
  have "permitted None demo_approved ?s demo_a1 None"
    by (simp add: permitted_def demo_a1_def demo_approved_def)
  moreover have "current_assignment demo_approved ?s = Some demo_a1"
    by (simp add: current_assignment_def demo_plan_facts new_execution_state_def)
  ultimately show ?thesis
    unfolding demo_interrupted_def using executing_settled [OF s demo_plan_facts(1,3)] by blast
qed

theorem stopped_mission_never_invokes_witness:
  "load_execution_state (state_file demo_interrupted) ''mission-demo'' = Inr (Some demo_interrupted) \<and>
   st_status demo_interrupted = ''executing'' \<and>
   (\<exists>d' evs r. execute_or_resume_plan demo_gate demo_registry demo_env None ''mission-demo''
        (demo_disk\<lparr>d_state := state_file demo_interrupted\<rparr>) = (d', evs, r) \<and>
      (evs = [] \<or> (\<exists>diagnostic. evs = [SaveState (recovery_result demo_interrupted diagnostic (e_now demo_env))])))"
proof -
  have l: "load_execution_state (state_file demo_interrupted) ''mission-demo'' = Inr (Some demo_interrupted)"
    using demo_interrupted_settled by (simp add: load_state_file settled_def demo_plan_facts)
  have st: "st_status demo_interrupted = ''executing''"
    by (simp add: demo_interrupted_def transition_to_executing_def Let_def)
  obtain d' evs r where e: "execute_or_resume_plan demo_gate demo_registry demo_env None ''mission-demo''
      (demo_disk\<lparr>d_state := state_file demo_interrupted\<rparr>) = (d', evs, r)"
    using prod_cases3 by blast
  from stopped_mission_never_invokes [OF _ _ e, of demo_interrupted] l st e show ?thesis by auto
qed

text \<open>
  The mission lock. While the lock file exists a call changes nothing on disk and has no
  effect; a call that ran its body leaves the lock released exactly when the unlink succeeded,
  whether the body returned or raised; an exception of the body is passed on unchanged, and a
  failed release only replaces the diagnostic of a body that returned.
\<close>

theorem lock_discipline:
  "case execute_or_resume_plan gate registry env approval mission_id d of (d', evs, r) \<Rightarrow>
     (d_lock d \<longrightarrow> d' = d \<and> evs = []) \<and>
     (evs \<noteq> [] \<longrightarrow> d_lock d' = (\<not> e_unlink env) \<and>
        (\<exists>r'. execute_or_resume_plan_locked gate registry env approval mission_id (d\<lparr>d_lock := True\<rparr>) = (evs, r') \<and>
           (case r' of Inl e \<Rightarrow> r = Inl e
            | Inr a \<Rightarrow> r = Inr (if e_unlink env then a else a\<lparr>at_diagnostic := ''lock_release_error''\<rparr>))))"
proof -
  have keep: "d_lock (apply_effects evs x) = d_lock x" for evs x
  proof (induction evs arbitrary: x)
    case (Cons e evs)
    then show ?case by (cases e) simp_all
  qed simp
  obtain d' evs r where e: "execute_or_resume_plan gate registry env approval mission_id d = (d', evs, r)"
    using prod_cases3 by blast
  then show ?thesis
  proof (cases rule: execute_cases)
    case refused
    then show ?thesis unfolding e by (auto simp: lock_acquire_def split: if_splits)
  next
    case (ran d1 released r')
    then have "\<not> d_lock d" "d1 = d\<lparr>d_lock := True\<rparr>" "released = e_unlink env" "d_lock d' = (\<not> e_unlink env)"
      using keep [of evs d1] by (auto simp: lock_acquire_def lock_release_def split: if_splits)
    with ran(2,4) show ?thesis unfolding e by (auto split: sum.split)
  qed
qed

theorem lock_discipline_witness:
  "\<exists>d' r. execute_or_resume_plan demo_gate demo_registry demo_env None ''mission-demo'' demo_disk = (d', demo_effects, r) \<and>
     demo_effects \<noteq> [] \<and> \<not> d_lock d' \<and>
   (case execute_or_resume_plan demo_gate demo_registry demo_env None ''mission-demo'' (demo_disk\<lparr>d_lock := True\<rparr>) of
      (d2, evs, r2) \<Rightarrow> d2 = demo_disk\<lparr>d_lock := True\<rparr> \<and> evs = [])"
proof -
  from demo_call obtain d' r where
    c: "execute_or_resume_plan demo_gate demo_registry demo_env None ''mission-demo'' demo_disk = (d', demo_effects, r)"
    by blast
  have "demo_effects \<noteq> []" by (simp add: demo_effects_def demo_resume Let_def)
  moreover have "e_unlink demo_env" by (simp add: demo_env_def)
  moreover note c
  ultimately show ?thesis
    using lock_discipline [where d = demo_disk and gate = demo_gate and registry = demo_registry and env = demo_env
        and approval = None and mission_id = "''mission-demo''"]
      lock_discipline [where d = "demo_disk\<lparr>d_lock := True\<rparr>" and gate = demo_gate and registry = demo_registry
        and env = demo_env and approval = None and mission_id = "''mission-demo''"]
    by (auto split: prod.splits)
qed

end
