(* ===== verification/Required_Sources.thy ===== *)
theory Required_Sources
  imports Executor
begin

text \<open>
  \<^verbatim>\<open>tools/konoha_v4/required_sources.py\<close> and the gate of \<^verbatim>\<open>executor.py\<close> built on it: the
  vocabulary of sources a family may require, the resolver of each, the bounded material
  delivered to a worker, and the pre-invocation gate.

  The repository is a tree of nodes; a regular file has an identity (device and inode), a size,
  and a content. A file is classified in the tree and read again later: \<open>fs_reread\<close> is what its
  name denotes in the directory held open when it is finally opened, so a swapped file shows as a
  different identity. Repository evidence packs and \<open>git check-ignore\<close> answers are inputs.
\<close>

datatype SourceAvailability = AVAILABLE | PENDING_PRODUCER | MISSING | UNAUTHORIZED | NOT_APPLICABLE

datatype SourceKind = PLAN_SCOPE | ASSIGNMENT_PRODUCED | STRUCTURAL_DEPENDENCY

definition availability_value :: "SourceAvailability \<Rightarrow> pystr" where
  "availability_value a = (case a of AVAILABLE \<Rightarrow> ''available'' | PENDING_PRODUCER \<Rightarrow> ''pending_producer''
     | MISSING \<Rightarrow> ''missing'' | UNAUTHORIZED \<Rightarrow> ''unauthorized'' | NOT_APPLICABLE \<Rightarrow> ''not_applicable'')"

record SourceResolution =
  sr_canonical_id :: pystr
  sr_availability :: SourceAvailability
  sr_reason :: "pystr option"
  sr_producer_task_ids :: "pystr list"
  sr_materialization :: "jdict option"

definition unresolved :: "pystr \<Rightarrow> SourceAvailability \<Rightarrow> pystr \<Rightarrow> SourceResolution" where
  "unresolved cid a reason = \<lparr>sr_canonical_id = cid, sr_availability = a, sr_reason = Some reason,
     sr_producer_task_ids = [], sr_materialization = None\<rparr>"

definition available :: "pystr \<Rightarrow> jdict \<Rightarrow> SourceResolution" where
  "available cid material = \<lparr>sr_canonical_id = cid, sr_availability = AVAILABLE, sr_reason = None,
     sr_producer_task_ids = [], sr_materialization = Some material\<rparr>"

section \<open>The file system a resolver sees\<close>

datatype fnode =
    RegFile nat bool nat "nat list"
  | DirNode "(string \<times> fnode) list"
  | LinkNode
  | SpecialNode

record repo_fs =
  fs_root_path :: pystr
  fs_tree :: "(string \<times> fnode) list"
  fs_reread :: "pystr list \<Rightarrow> fnode option"
  fs_ignored :: "pystr \<Rightarrow> bool"
  fs_failure_dir_is_dir :: bool
  fs_root_resolves :: bool
  fs_failure_dir_canonical :: bool
  fs_listdir_ok :: bool

record evidence_pack =
  pk_authorized_repo_root :: pystr
  pk_current :: bool
  pk_excluded_paths :: "pystr list"
  pk_view :: jdict

record ResolutionContext =
  rc_plan_approval_status :: json
  rc_plan_acceptance_criteria :: "pystr list"
  rc_user_mission_request :: "pystr option"
  rc_repo :: "repo_fs option"
  rc_repo_evidence_pack :: "evidence_pack option"
  rc_family_contracts :: "jdict pydict"
  rc_task_family_by_id :: "pystr pydict"
  rc_evidence_by_task_id :: "EvidenceRecord pydict"
  rc_failure_log_dir_given :: bool
  rc_excluded_paths :: "pystr list"
  rc_mission_plan :: "jdict option"
  rc_capability_registry :: json
  rc_limit :: nat

definition MAX_MATERIAL_FILE_BYTES :: nat where "MAX_MATERIAL_FILE_BYTES = 20000"
definition MAX_MATERIAL_LIST_ITEMS :: nat where "MAX_MATERIAL_LIST_ITEMS = 10"
definition MAX_MATERIAL_TEXT_CHARS :: nat where "MAX_MATERIAL_TEXT_CHARS = 2000"
definition MAX_PERSISTED_OUTPUT_BYTES :: nat where "MAX_PERSISTED_OUTPUT_BYTES = 200000"

section \<open>Bounded projections\<close>

definition bounded_text :: "pystr \<Rightarrow> json" where
  "bounded_text s = JObj [(''text'', JStr (take MAX_MATERIAL_TEXT_CHARS s)), (''total_chars'', JInt (int (length s))),
     (''truncated'', JBool (length s > MAX_MATERIAL_TEXT_CHARS))]"

definition list_view :: "nat \<Rightarrow> json list \<Rightarrow> json" where
  "list_view n items = JObj [(''total'', JInt (int n)), (''included'', JInt (int (length items))),
     (''truncated'', JBool (length items < n)), (''items'', JList items)]"

text \<open>The slice of ten is taken after the projection of the elements; the two commute.\<close>

fun bounded_value :: "nat \<Rightarrow> json \<Rightarrow> json" where
  "bounded_value depth v =
     (if depth > 6 then JObj [(''omitted'', JStr ''depth_limit'')]
      else case v of
        JStr s \<Rightarrow> bounded_text s
      | JList xs \<Rightarrow> list_view (length xs) (take MAX_MATERIAL_LIST_ITEMS (map (bounded_value (Suc depth)) xs))
      | JObj d \<Rightarrow>
         (let chosen = take MAX_MATERIAL_LIST_ITEMS (map (\<lambda>(k, x). (k, bounded_value (Suc depth) x)) d)
          in JObj [(''fields'', JObj (fold (\<lambda>(k, x) acc. dict_set acc (take MAX_MATERIAL_TEXT_CHARS k) x) chosen [])),
                   (''total_fields'', JInt (int (length d))), (''truncated'', JBool (length chosen < length d))])
      | _ \<Rightarrow> v)"

declare bounded_value.simps [simp del]

definition bounded_list :: "json list \<Rightarrow> json" where
  "bounded_list xs = list_view (length xs) (map (bounded_value 0) (take MAX_MATERIAL_LIST_ITEMS xs))"

section \<open>Markers and material inside an evidence record\<close>

definition record_payload :: "nat \<Rightarrow> EvidenceRecord \<Rightarrow> jdict option" where
  "record_payload limit rec =
     (if ev_status rec \<noteq> ''completed'' then None
      else if length (ev_output rec) > MAX_PERSISTED_OUTPUT_BYTES then None
      else if length (utf8_encode (ev_output rec)) > MAX_PERSISTED_OUTPUT_BYTES then None
      else case parse_assignment_result_text limit (ev_output rec) of
        Inr (JObj p) \<Rightarrow> Some p
      | _ \<Rightarrow> None)"

definition SOURCE_VOCABULARY :: "SourceKind pydict" where
  "SOURCE_VOCABULARY = [
     (''mission_plan'', PLAN_SCOPE), (''acceptance_criteria'', PLAN_SCOPE), (''user_mission_request'', PLAN_SCOPE),
     (''repository_state'', PLAN_SCOPE), (''capability_registry'', PLAN_SCOPE), (''failure_logs'', PLAN_SCOPE),
     (''python_coding_rules'', PLAN_SCOPE), (''python_source_files'', PLAN_SCOPE), (''approved_checklist'', PLAN_SCOPE),
     (''authorized_local_source'', PLAN_SCOPE), (''approved_style_statute'', PLAN_SCOPE),
     (''target_journal_rules'', PLAN_SCOPE),
     (''target_assignment_evidence'', STRUCTURAL_DEPENDENCY), (''dependency_evidence_bundle'', STRUCTURAL_DEPENDENCY),
     (''implementation_diff'', ASSIGNMENT_PRODUCED), (''test_evidence'', ASSIGNMENT_PRODUCED),
     (''review_evidence'', ASSIGNMENT_PRODUCED), (''source_fact_cards'', ASSIGNMENT_PRODUCED)]"

definition PRODUCED_SOURCE_MARKER :: pystr where "PRODUCED_SOURCE_MARKER = ''produced_source''"
definition MATERIAL_ROW_PREFIX :: pystr where "MATERIAL_ROW_PREFIX = ''material:''"

definition add_kv_part :: "pystr \<Rightarrow> pystr pydict \<Rightarrow> pystr pydict" where
  "add_kv_part part kv =
     (if CHR ''='' \<notin> set part then kv
      else case py_partition (CHR ''='') (py_strip part) of
        (key, v) \<Rightarrow> if py_strip key \<noteq> [] then dict_set kv (py_strip key) (py_strip v) else kv)"

definition parse_kv_observation :: "pystr \<Rightarrow> pystr pydict" where
  "parse_kv_observation observation = fold add_kv_part (py_split (CHR ''|'') observation) []"

text \<open>The rows of a completed, parseable record; none otherwise.\<close>

definition payload_rows :: "nat \<Rightarrow> EvidenceRecord \<Rightarrow> json list" where
  "payload_rows limit rec =
     (case record_payload limit rec of
        None \<Rightarrow> []
      | Some p \<Rightarrow> (case dget p ''evidence'' of JList rows \<Rightarrow> rows | _ \<Rightarrow> []))"

definition row_observation :: "pystr \<Rightarrow> json \<Rightarrow> pystr option" where
  "row_observation tag row =
     (case row of
        JObj r \<Rightarrow> (if dget r ''source'' \<noteq> JStr tag then None
                   else case dget r ''observation'' of JStr obs \<Rightarrow> Some obs | _ \<Rightarrow> None)
      | _ \<Rightarrow> None)"

definition extract_produced_source_ids :: "nat \<Rightarrow> EvidenceRecord \<Rightarrow> pystr list" where
  "extract_produced_source_ids limit rec =
     List.map_filter (\<lambda>row.
       case row_observation PRODUCED_SOURCE_MARKER row of
         None \<Rightarrow> None
       | Some obs \<Rightarrow>
          (case dict_get (parse_kv_observation obs) ''source_id'' of
             None \<Rightarrow> None
           | Some candidate \<Rightarrow> if dict_get SOURCE_VOCABULARY candidate \<noteq> None then Some candidate else None))
       (payload_rows limit rec)"

definition MATERIAL_KEYS :: "pystr list" where
  "MATERIAL_KEYS = [''locator'', ''command'', ''result'', ''verdict'', ''fact'']"

definition material_row :: "pystr \<Rightarrow> pystr pydict" where
  "material_row obs = map (\<lambda>(k, v). (k, take MAX_MATERIAL_TEXT_CHARS v))
     (filter (\<lambda>(k, v). k \<in> set MATERIAL_KEYS) (parse_kv_observation obs))"

text \<open>The loop stops once ten rows are collected.\<close>

definition material_rows_for :: "nat \<Rightarrow> EvidenceRecord \<Rightarrow> pystr \<Rightarrow> pystr pydict list" where
  "material_rows_for limit rec cid =
     take MAX_MATERIAL_LIST_ITEMS
       (map material_row (List.map_filter (row_observation (MATERIAL_ROW_PREFIX @ cid)) (payload_rows limit rec)))"

definition kv_nonblank :: "pystr pydict \<Rightarrow> pystr \<Rightarrow> bool" where
  "kv_nonblank kv k = (case dict_get kv k of None \<Rightarrow> False | Some v \<Rightarrow> py_nonblank v)"

definition validate_implementation_diff_material :: "pystr pydict list \<Rightarrow> bool" where
  "validate_implementation_diff_material rows = list_ex (\<lambda>kv. kv_nonblank kv ''locator'') rows"

definition validate_test_evidence_material :: "pystr pydict list \<Rightarrow> bool" where
  "validate_test_evidence_material rows = list_ex (\<lambda>kv. kv_nonblank kv ''command'' \<and> kv_nonblank kv ''result'') rows"

definition validate_review_evidence_material :: "pystr pydict list \<Rightarrow> bool" where
  "validate_review_evidence_material rows = list_ex (\<lambda>kv. kv_nonblank kv ''verdict'') rows"

definition validate_source_fact_cards_material :: "pystr pydict list \<Rightarrow> bool" where
  "validate_source_fact_cards_material rows = list_ex (\<lambda>kv. kv_nonblank kv ''fact'' \<and> kv_nonblank kv ''locator'') rows"

definition evaluate_produced_source_material :: "nat \<Rightarrow> pystr \<Rightarrow> EvidenceRecord \<Rightarrow> bool" where
  "evaluate_produced_source_material limit cid rec =
     (let rows = material_rows_for limit rec cid in
      if cid = ''implementation_diff'' then validate_implementation_diff_material rows
      else if cid = ''test_evidence'' then validate_test_evidence_material rows
      else if cid = ''review_evidence'' then validate_review_evidence_material rows
      else if cid = ''source_fact_cards'' then validate_source_fact_cards_material rows
      else False)"

text \<open>The claim of one row: what its marker or its material tag names.\<close>

definition row_claim :: "json \<Rightarrow> pystr option" where
  "row_claim row =
     (case row of
        JObj r \<Rightarrow>
          (case dget r ''source'' of
             JStr source \<Rightarrow>
               (if source = PRODUCED_SOURCE_MARKER then
                  (case dget r ''observation'' of
                     JStr obs \<Rightarrow> dict_get (parse_kv_observation obs) ''source_id''
                   | _ \<Rightarrow> None)
                else if py_startswith source MATERIAL_ROW_PREFIX then Some (drop (length MATERIAL_ROW_PREFIX) source)
                else None)
           | _ \<Rightarrow> None)
      | _ \<Rightarrow> None)"

definition find_undeclared_produced_sources :: "nat \<Rightarrow> EvidenceRecord \<Rightarrow> pystr list \<Rightarrow> pystr list" where
  "find_undeclared_produced_sources limit rec declared =
     filter (\<lambda>c. c \<noteq> [] \<and> dict_get SOURCE_VOCABULARY c \<noteq> None \<and> c \<notin> set declared)
       (List.map_filter row_claim (payload_rows limit rec))"

section \<open>Bounded file material\<close>

text \<open>
  \<open>bytes.decode("utf-8", errors="replace")\<close> on the code points of the model: the two-byte
  sequences up to U+00FF are decoded; every other valid sequence, and every maximal invalid
  prefix, becomes one question mark.
\<close>

definition is_cont :: "nat \<Rightarrow> bool" where
  "is_cont b \<longleftrightarrow> 128 \<le> b \<and> b < 192"

text \<open>How many continuation bytes a lead byte asks for, and the range of the first of them.\<close>

definition lead_info :: "nat \<Rightarrow> (nat \<times> nat \<times> nat) option" where
  "lead_info b =
     (if 194 \<le> b \<and> b \<le> 223 then Some (1, 128, 191)
      else if b = 224 then Some (2, 160, 191)
      else if b = 237 then Some (2, 128, 159)
      else if 225 \<le> b \<and> b \<le> 239 then Some (2, 128, 191)
      else if b = 240 then Some (3, 144, 191)
      else if 241 \<le> b \<and> b \<le> 243 then Some (3, 128, 191)
      else if b = 244 then Some (3, 128, 143)
      else None)"

definition taken_conts :: "nat \<times> nat \<times> nat \<Rightarrow> nat list \<Rightarrow> nat" where
  "taken_conts info bs =
     (case info of (n, lo, hi) \<Rightarrow>
        case bs of
          [] \<Rightarrow> 0
        | c # cs \<Rightarrow> if lo \<le> c \<and> c \<le> hi then Suc (length (takeWhile is_cont (take (n - 1) cs))) else 0)"

function utf8_decode :: "nat list \<Rightarrow> pystr" where
  "utf8_decode [] = []"
| "utf8_decode (b # bs) =
     (if b < 128 then char_of b # utf8_decode bs
      else case lead_info b of
        None \<Rightarrow> CHR ''?'' # utf8_decode bs
      | Some info \<Rightarrow>
         (let k = taken_conts info bs
          in (if k = fst info \<and> b \<le> 195 then char_of ((b - 192) * 64 + (hd bs - 128)) else CHR ''?'') #
             utf8_decode (drop k bs)))"
  by pat_completeness auto
termination by (relation "measure length") auto

definition unavailable_file_text :: jdict where
  "unavailable_file_text = [(''available'', JBool False), (''total_bytes'', JNull), (''included_bytes'', JInt 0),
     (''truncated'', JBool False), (''text'', JStr [])]"

definition is_plain_basename :: "pystr \<Rightarrow> bool" where
  "is_plain_basename name \<longleftrightarrow> name \<noteq> [] \<and> name \<notin> {''.'', ''..''} \<and> CHR ''/'' \<notin> set name \<and> CHR 0x00 \<notin> set name"

text \<open>
  \<open>node\<close> is what the name denotes when it is opened; at most \<open>limit + 1\<close> bytes are read from the
  descriptor, and the size comes from its \<open>fstat\<close>.
\<close>

definition bounded_file_text :: "pystr \<Rightarrow> fnode option \<Rightarrow> nat \<Rightarrow> nat \<Rightarrow> jdict" where
  "bounded_file_text name node expected limit =
     (if \<not> is_plain_basename name then unavailable_file_text
      else case node of
        Some (RegFile ident readable sz bytes) \<Rightarrow>
          (if \<not> readable \<or> ident \<noteq> expected then unavailable_file_text
           else let raw = take (limit + 1) bytes; included = take limit raw
                in [(''available'', JBool True), (''total_bytes'', JInt (int sz)),
                    (''included_bytes'', JInt (int (length included))),
                    (''truncated'', JBool (length raw > limit \<or> sz > limit)),
                    (''text'', JStr (utf8_decode included))])
      | _ \<Rightarrow> unavailable_file_text)"

definition usable_text :: "jdict \<Rightarrow> bool" where
  "usable_text info \<longleftrightarrow> dget info ''available'' = JBool True \<and> dget info ''included_bytes'' \<noteq> JInt 0"

section \<open>Plan-scope resolvers\<close>

definition resolve_mission_plan :: "ResolutionContext \<Rightarrow> SourceResolution" where
  "resolve_mission_plan ctx =
     (if rc_plan_approval_status ctx \<noteq> JStr ''approved''
        then unresolved ''mission_plan'' MISSING ''plan_not_yet_approved''
      else case rc_mission_plan ctx of
        None \<Rightarrow> unresolved ''mission_plan'' MISSING ''mission_plan_material_unavailable''
      | Some p \<Rightarrow>
          (if p = [] then unresolved ''mission_plan'' MISSING ''mission_plan_material_unavailable''
           else available ''mission_plan'' [(''mission_plan'', bounded_value 0 (JObj p))]))"

definition resolve_acceptance_criteria :: "ResolutionContext \<Rightarrow> SourceResolution" where
  "resolve_acceptance_criteria ctx =
     (let cs = rc_plan_acceptance_criteria ctx in
      if cs \<noteq> [] \<and> list_all py_nonblank cs
      then available ''acceptance_criteria'' [(''acceptance_criteria'', bounded_list (map JStr cs))]
      else unresolved ''acceptance_criteria'' MISSING ''plan_acceptance_criteria_empty'')"

definition resolve_user_mission_request :: "ResolutionContext \<Rightarrow> SourceResolution" where
  "resolve_user_mission_request ctx =
     (case rc_user_mission_request ctx of
        None \<Rightarrow> unresolved ''user_mission_request'' MISSING ''user_mission_request_empty''
      | Some raw \<Rightarrow>
          (if \<not> py_nonblank raw then unresolved ''user_mission_request'' MISSING ''user_mission_request_empty''
           else if length raw > MAX_MATERIAL_TEXT_CHARS
             then unresolved ''user_mission_request'' MISSING ''original_request_exceeds_material_bound''
           else available ''user_mission_request'' [(''text'', JStr raw), (''original'', JBool True),
                  (''truncated'', JBool False)]))"

definition resolve_capability_registry :: "AgentAssignment \<Rightarrow> ResolutionContext \<Rightarrow> SourceResolution" where
  "resolve_capability_registry task ctx =
     (case dict_get (rc_family_contracts ctx) (a_family task) of
        None \<Rightarrow> unresolved ''capability_registry'' MISSING ''family_contract_unavailable''
      | Some contract \<Rightarrow>
          (if contract = [] then unresolved ''capability_registry'' MISSING ''family_contract_unavailable''
           else available ''capability_registry'' [(''family'', JStr (a_family task)),
                  (''contract'', bounded_value 0 (JObj contract)),
                  (''capabilities'', bounded_value 0 (rc_capability_registry ctx))]))"

definition resolve_repository_state :: "ResolutionContext \<Rightarrow> SourceResolution" where
  "resolve_repository_state ctx =
     (case rc_repo_evidence_pack ctx of
        None \<Rightarrow> unresolved ''repository_state'' MISSING ''repository_evidence_not_acquired''
      | Some pack \<Rightarrow>
         (case rc_repo ctx of
            None \<Rightarrow> unresolved ''repository_state'' MISSING ''repo_root_unavailable_for_currentness_check''
          | Some fs \<Rightarrow>
             (if pk_authorized_repo_root pack \<noteq> fs_root_path fs
                then unresolved ''repository_state'' UNAUTHORIZED ''repository_root_mismatch''
              else if \<not> pk_current pack
                then unresolved ''repository_state'' MISSING ''repository_evidence_stale''
              else available ''repository_state'' (pk_view pack))))"

definition PRIVATE_MARKERS :: "pystr list" where
  "PRIVATE_MARKERS = [''private/'', ''local/'', ''alliance/kirigakure/'', ''private-library/'', ''/memory/'',
     ''memory/local/'', ''vault/'', ''sandbox/'', ''.env'', ''credentials'', ''token'', ''secret'']"

definition rstrip_slash :: "pystr \<Rightarrow> pystr" where
  "rstrip_slash p = rev (dropWhile (\<lambda>c. c = CHR ''/'') (rev p))"

definition is_excluded_by_config :: "pystr \<Rightarrow> pystr list \<Rightarrow> bool" where
  "is_excluded_by_config rel excluded =
     list_ex (\<lambda>p. rel = p \<or> py_startswith rel (rstrip_slash p @ ''/'')) excluded"

definition has_private_marker :: "pystr \<Rightarrow> bool" where
  "has_private_marker rel = list_ex (\<lambda>m. py_contains m rel) PRIVATE_MARKERS"

text \<open>Opening a subdirectory of a held directory without following links.\<close>

datatype dir_open = Opened "(string \<times> fnode) list" | NotADirectory | NoEntry

definition open_dir :: "(string \<times> fnode) list \<Rightarrow> pystr \<Rightarrow> dir_open" where
  "open_dir entries name =
     (case dict_get entries name of
        None \<Rightarrow> NoEntry
      | Some (DirNode es) \<Rightarrow> Opened es
      | Some _ \<Rightarrow> NotADirectory)"

fun open_chain :: "(string \<times> fnode) list \<Rightarrow> pystr list \<Rightarrow> dir_open" where
  "open_chain entries [] = Opened entries"
| "open_chain entries (p # ps) =
     (case open_dir entries p of Opened es \<Rightarrow> open_chain es ps | r \<Rightarrow> r)"

text \<open>The candidates among the sorted names: basename, locator, identity.\<close>

definition failure_candidate :: "pystr list \<Rightarrow> pystr \<times> fnode \<Rightarrow> (pystr \<times> pystr \<times> nat) option" where
  "failure_candidate excluded entry =
     (case entry of (name, node) \<Rightarrow>
        let rel = ''memory/failures/'' @ name in
        if py_startswith name ''.'' \<or> \<not> is_plain_basename name then None
        else if has_private_marker rel \<or> is_excluded_by_config rel excluded then None
        else case node of
          RegFile ident readable sz bytes \<Rightarrow> if sz = 0 then None else Some (name, rel, ident)
        | _ \<Rightarrow> None)"

fun read_failure_logs :: "repo_fs \<Rightarrow> (pystr \<times> pystr \<times> nat) list \<Rightarrow> json list option" where
  "read_failure_logs fs [] = Some []"
| "read_failure_logs fs ((name, rel, ident) # rest) =
     (let info = bounded_file_text name (fs_reread fs [''memory'', ''failures'', name]) ident MAX_MATERIAL_FILE_BYTES in
      if \<not> usable_text info \<or> dget info ''total_bytes'' \<in> {JNull, JInt 0} then None
      else map_option ((#) (JObj ((''path'', JStr rel) # info))) (read_failure_logs fs rest))"

definition resolve_failure_logs :: "ResolutionContext \<Rightarrow> SourceResolution" where
  "resolve_failure_logs ctx =
     (let missing = unresolved ''failure_logs'' MISSING; denied = unresolved ''failure_logs'' UNAUTHORIZED in
      case rc_repo ctx of
        None \<Rightarrow> missing ''repo_root_unavailable_for_failure_log_check''
      | Some fs \<Rightarrow>
         (if \<not> rc_failure_log_dir_given ctx \<or> \<not> fs_failure_dir_is_dir fs then missing ''failure_log_directory_absent''
          else if \<not> fs_root_resolves fs then missing ''repo_root_unavailable_for_failure_log_check''
          else if \<not> fs_failure_dir_canonical fs then denied ''failure_log_directory_not_canonical''
          else case open_chain (fs_tree fs) [''memory'', ''failures''] of
            NotADirectory \<Rightarrow> denied ''failure_log_directory_not_canonical''
          | NoEntry \<Rightarrow> missing ''failure_log_directory_absent''
          | Opened entries \<Rightarrow>
             (if \<not> fs_listdir_ok fs then missing ''failure_log_files_unreadable'' else
              let candidates = List.map_filter (failure_candidate (rc_excluded_paths ctx)) (sort_key fst entries) in
              if candidates = [] then missing ''failure_log_directory_empty''
              else case read_failure_logs fs (take MAX_MATERIAL_LIST_ITEMS candidates) of
                None \<Rightarrow> missing ''failure_log_files_unreadable''
              | Some items \<Rightarrow> available ''failure_logs'' [(''failure_logs'', list_view (length candidates) items)])))"

definition path_parts :: "pystr \<Rightarrow> pystr list" where
  "path_parts rel = filter (\<lambda>p. p \<noteq> [] \<and> p \<noteq> ''.'') (py_split (CHR ''/'') rel)"

definition input_path_bad :: "pystr \<Rightarrow> pystr list \<Rightarrow> bool" where
  "input_path_bad rel excluded \<longleftrightarrow>
     rel = [] \<or> py_startswith rel ''/'' \<or> ''..'' \<in> set (path_parts rel) \<or> backslash \<in> set rel \<or>
     CHR 0x00 \<in> set rel \<or> list_ex (\<lambda>p. py_startswith p ''.'') (path_parts rel) \<or>
     has_private_marker rel \<or> is_excluded_by_config rel excluded"

datatype input_read = ReadItem json | ReadStop SourceAvailability pystr

text \<open>One declared input: a path with no component at all makes \<open>parts[-1]\<close> raise.\<close>

definition read_input :: "repo_fs \<Rightarrow> pystr \<Rightarrow> input_read py" where
  "read_input fs rel =
     (let parts = path_parts rel; gone = ''task_input_material_unavailable'' in
      if fs_ignored fs rel then Inr (ReadStop UNAUTHORIZED ''task_input_ignored'')
      else if \<not> fs_root_resolves fs then Inr (ReadStop MISSING gone)
      else case open_chain (fs_tree fs) (butlast parts) of
        NotADirectory \<Rightarrow> Inr (ReadStop UNAUTHORIZED gone)
      | NoEntry \<Rightarrow> Inr (ReadStop MISSING gone)
      | Opened entries \<Rightarrow>
         (if parts = [] then Inl IndexError
          else case dict_get entries (last parts) of
            None \<Rightarrow> Inr (ReadStop MISSING gone)
          | Some LinkNode \<Rightarrow> Inr (ReadStop UNAUTHORIZED ''input_symlink_refused'')
          | Some (RegFile ident readable sz bytes) \<Rightarrow>
             (let info = bounded_file_text (last parts) (fs_reread fs parts) ident MAX_MATERIAL_FILE_BYTES
              in if usable_text info then Inr (ReadItem (JObj ((''path'', JStr rel) # info)))
                 else Inr (ReadStop MISSING gone))
          | Some _ \<Rightarrow> Inr (ReadStop MISSING gone)))"

fun read_inputs :: "repo_fs \<Rightarrow> pystr list \<Rightarrow> (SourceAvailability \<times> pystr + json list) py" where
  "read_inputs fs [] = Inr (Inr [])"
| "read_inputs fs (rel # rest) =
     py_bind (read_input fs rel) (\<lambda>r. case r of
       ReadStop a reason \<Rightarrow> Inr (Inl (a, reason))
     | ReadItem item \<Rightarrow>
         py_bind (read_inputs fs rest) (\<lambda>rs. Inr (case rs of Inl stop \<Rightarrow> Inl stop | Inr items \<Rightarrow> Inr (item # items))))"

definition resolve_task_input_source :: "pystr \<Rightarrow> AgentAssignment \<Rightarrow> ResolutionContext \<Rightarrow> SourceResolution py" where
  "resolve_task_input_source cid task ctx =
     (if a_inputs task = [] then Inr (unresolved cid MISSING ''no_task_inputs_declared'')
      else case rc_repo ctx of
        None \<Rightarrow> Inr (unresolved cid MISSING ''repo_root_unavailable_for_input_check'')
      | Some fs \<Rightarrow>
         (if list_ex (\<lambda>rel. input_path_bad rel (rc_excluded_paths ctx)) (a_inputs task)
            then Inr (unresolved cid UNAUTHORIZED ''input_path_unauthorized'')
          else
            let chosen = take MAX_MATERIAL_LIST_ITEMS (a_inputs task)
            in py_bind (read_inputs fs chosen) (\<lambda>r. Inr (case r of
                 Inl (a, reason) \<Rightarrow> unresolved cid a reason
               | Inr items \<Rightarrow> available cid [(''input_locators'', JList (map JStr chosen)),
                   (''files'', list_view (length (a_inputs task)) items)]))))"

definition resolve_plan_scope :: "pystr \<Rightarrow> AgentAssignment \<Rightarrow> ResolutionContext \<Rightarrow> SourceResolution py" where
  "resolve_plan_scope cid task ctx =
     (if cid = ''mission_plan'' then Inr (resolve_mission_plan ctx)
      else if cid = ''acceptance_criteria'' then Inr (resolve_acceptance_criteria ctx)
      else if cid = ''user_mission_request'' then Inr (resolve_user_mission_request ctx)
      else if cid = ''capability_registry'' then Inr (resolve_capability_registry task ctx)
      else if cid = ''repository_state'' then Inr (resolve_repository_state ctx)
      else if cid = ''failure_logs'' then Inr (resolve_failure_logs ctx)
      else resolve_task_input_source cid task ctx)"

section \<open>Dependencies and produced sources\<close>

definition not_yet_run :: "ResolutionContext \<Rightarrow> pystr list \<Rightarrow> pystr list" where
  "not_yet_run ctx ids = filter (\<lambda>t. dict_get (rc_evidence_by_task_id ctx) t = None) ids"

definition evidence_row_ok :: "json \<Rightarrow> bool" where
  "evidence_row_ok row = (case row of JObj r \<Rightarrow> is_str (dget r ''source'') \<and> is_str (dget r ''observation'') | _ \<Rightarrow> False)"

definition dependency_item :: "ResolutionContext \<Rightarrow> pystr \<Rightarrow> json option" where
  "dependency_item ctx dep =
     (case dict_get (rc_evidence_by_task_id ctx) dep of
        None \<Rightarrow> None
      | Some rec \<Rightarrow>
         (case record_payload (rc_limit ctx) rec of
            None \<Rightarrow> None
          | Some p \<Rightarrow>
             (if \<not> nonblank_str (dget p ''summary'') then None
              else case (dget p ''summary'', dget p ''evidence'') of
                (JStr summary, JList rows) \<Rightarrow>
                  (if list_all evidence_row_ok rows
                   then Some (JObj [(''task_id'', JStr dep), (''evidence_id'', JStr (ev_evidence_id rec)),
                     (''summary'', bounded_text summary), (''evidence'', bounded_list rows),
                     (''authority'', JStr ''provider_claim_only'')])
                   else None)
              | _ \<Rightarrow> None)))"

fun dependency_items :: "ResolutionContext \<Rightarrow> pystr list \<Rightarrow> json list option" where
  "dependency_items ctx [] = Some []"
| "dependency_items ctx (dep # deps) =
     (case dependency_item ctx dep of
        None \<Rightarrow> None
      | Some item \<Rightarrow> map_option ((#) item) (dependency_items ctx deps))"

definition with_producers :: "SourceResolution \<Rightarrow> pystr list \<Rightarrow> SourceResolution" where
  "with_producers r ids = r\<lparr>sr_producer_task_ids := ids\<rparr>"

definition resolve_structural_dependency ::
  "pystr \<Rightarrow> AgentAssignment \<Rightarrow> ResolutionContext \<Rightarrow> bool \<Rightarrow> SourceResolution" where
  "resolve_structural_dependency cid task ctx enforcing =
     (let deps = a_dependencies task; pending = not_yet_run ctx deps in
      if deps = [] then unresolved cid MISSING ''no_dependencies_declared''
      else if pending \<noteq> [] then
        (if enforcing
         then with_producers (unresolved cid MISSING ''dependency_not_yet_run_at_enforcement'') pending
         else with_producers (unresolved cid PENDING_PRODUCER ''scheduled_dependency_not_yet_run'') pending)
      else if list_ex (\<lambda>dep. case dict_get (rc_evidence_by_task_id ctx) dep of
                 None \<Rightarrow> True | Some rec \<Rightarrow> ev_status rec \<noteq> ''completed'') deps
        then unresolved cid MISSING ''dependency_not_completed''
      else case dependency_items ctx (take MAX_MATERIAL_LIST_ITEMS deps) of
        None \<Rightarrow> unresolved cid MISSING ''dependency_material_unavailable''
      | Some items \<Rightarrow>
          with_producers (available cid [(''dependencies'', list_view (length deps) items)]) deps)"

text \<open>\<open>canonical_id in (contract.get("produces_sources") or [])\<close> on whatever value the contract holds.\<close>

definition declares_source :: "jdict \<Rightarrow> pystr \<Rightarrow> bool py" where
  "declares_source contract cid =
     (case dget contract ''produces_sources'' of
        JList xs \<Rightarrow> Inr (JStr cid \<in> set xs)
      | JObj d \<Rightarrow> Inr (dict_get d cid \<noteq> None)
      | JStr s \<Rightarrow> Inr (s \<noteq> [] \<and> py_contains cid s)
      | JNull \<Rightarrow> Inr False
      | JBool False \<Rightarrow> Inr False
      | JInt i \<Rightarrow> if i = 0 then Inr False else Inl TypeError
      | JFloat (FFin neg m e) \<Rightarrow> if m = 0 then Inr False else Inl TypeError
      | _ \<Rightarrow> Inl TypeError)"

fun declared_producers :: "ResolutionContext \<Rightarrow> pystr \<Rightarrow> pystr list \<Rightarrow> pystr list py" where
  "declared_producers ctx cid [] = Inr []"
| "declared_producers ctx cid (dep # deps) =
     (case dict_get (rc_task_family_by_id ctx) dep of
        None \<Rightarrow> declared_producers ctx cid deps
      | Some family \<Rightarrow>
          py_bind (declares_source (case dict_get (rc_family_contracts ctx) family of None \<Rightarrow> [] | Some c \<Rightarrow> c) cid)
            (\<lambda>b. py_bind (declared_producers ctx cid deps) (\<lambda>ds. Inr (if b then dep # ds else ds))))"

text \<open>The scan over the producers: the first with marker and material wins, else who only marked.\<close>

fun scan_producers :: "ResolutionContext \<Rightarrow> pystr \<Rightarrow> pystr list \<Rightarrow> pystr list \<Rightarrow> pystr list + pystr \<times> EvidenceRecord" where
  "scan_producers ctx cid marked [] = Inl marked"
| "scan_producers ctx cid marked (p # ps) =
     (case dict_get (rc_evidence_by_task_id ctx) p of
        None \<Rightarrow> scan_producers ctx cid marked ps
      | Some rec \<Rightarrow>
          (if cid \<notin> set (extract_produced_source_ids (rc_limit ctx) rec) then scan_producers ctx cid marked ps
           else if \<not> evaluate_produced_source_material (rc_limit ctx) cid rec
             then scan_producers ctx cid (marked @ [p]) ps
           else Inr (p, rec)))"

definition kv_json :: "pystr pydict \<Rightarrow> json" where
  "kv_json kv = JObj (map (\<lambda>(k, v). (k, JStr v)) kv)"

definition resolve_assignment_produced ::
  "pystr \<Rightarrow> AgentAssignment \<Rightarrow> ResolutionContext \<Rightarrow> bool \<Rightarrow> SourceResolution py" where
  "resolve_assignment_produced cid task ctx enforcing =
     py_bind (declared_producers ctx cid (a_dependencies task)) (\<lambda>producers. Inr
       (let pending = not_yet_run ctx producers in
        if producers = [] then unresolved cid MISSING ''no_declared_producer_in_dependencies''
        else if pending \<noteq> [] then
          (if enforcing
           then with_producers (unresolved cid MISSING ''producer_not_yet_run_at_enforcement'') pending
           else with_producers (unresolved cid PENDING_PRODUCER ''scheduled_producer_not_yet_run'') pending)
        else case scan_producers ctx cid [] producers of
          Inr (p, rec) \<Rightarrow>
            with_producers (available cid [(''source_id'', JStr cid), (''producer_task_id'', JStr p),
              (''evidence_id'', JStr (ev_evidence_id rec)),
              (''material'', JList (map kv_json (material_rows_for (rc_limit ctx) rec cid))),
              (''bounded'', JBool True), (''authority'', JStr ''provider_claim_only'')]) [p]
        | Inl marked \<Rightarrow>
            (if marked \<noteq> []
             then with_producers (unresolved cid MISSING ''produced_source_evidence_missing'') marked
             else with_producers (unresolved cid MISSING ''declared_producer_did_not_produce_source'') producers)))"

section \<open>Dispatcher and gate\<close>

datatype resolve_exn = UnknownSourceError | EscapedExn py_exn

definition lift_exn :: "'a py \<Rightarrow> resolve_exn + 'a" where
  "lift_exn m = (case m of Inl e \<Rightarrow> Inl (EscapedExn e) | Inr x \<Rightarrow> Inr x)"

definition resolve_required_sources ::
  "pystr \<Rightarrow> AgentAssignment \<Rightarrow> ResolutionContext \<Rightarrow> bool \<Rightarrow> resolve_exn + SourceResolution" where
  "resolve_required_sources cid task ctx enforcing =
     (case dict_get SOURCE_VOCABULARY cid of
        None \<Rightarrow> Inl UnknownSourceError
      | Some PLAN_SCOPE \<Rightarrow> lift_exn (resolve_plan_scope cid task ctx)
      | Some STRUCTURAL_DEPENDENCY \<Rightarrow> Inr (resolve_structural_dependency cid task ctx enforcing)
      | Some ASSIGNMENT_PRODUCED \<Rightarrow> lift_exn (resolve_assignment_produced cid task ctx enforcing))"

fun resolve_into ::
  "pystr list \<Rightarrow> AgentAssignment \<Rightarrow> ResolutionContext \<Rightarrow> bool \<Rightarrow> SourceResolution pydict \<Rightarrow>
   resolve_exn + SourceResolution pydict" where
  "resolve_into [] task ctx enforcing acc = Inr acc"
| "resolve_into (cid # cids) task ctx enforcing acc =
     py_bind (resolve_required_sources cid task ctx enforcing)
       (\<lambda>r. resolve_into cids task ctx enforcing (dict_set acc cid r))"

definition resolve_all ::
  "pystr list \<Rightarrow> AgentAssignment \<Rightarrow> ResolutionContext \<Rightarrow> bool \<Rightarrow> resolve_exn + SourceResolution pydict" where
  "resolve_all required task ctx enforcing = resolve_into required task ctx enforcing []"

definition material_missing :: "SourceResolution \<Rightarrow> bool" where
  "material_missing r \<longleftrightarrow> sr_availability r = AVAILABLE \<and>
     (case sr_materialization r of None \<Rightarrow> True | Some m \<Rightarrow> m = [])"

definition find_available_sources_without_material :: "SourceResolution pydict \<Rightarrow> pystr list" where
  "find_available_sources_without_material resolved = map fst (filter (\<lambda>(k, r). material_missing r) resolved)"

definition materialize_resolved_sources :: "SourceResolution pydict \<Rightarrow> jdict py" where
  "materialize_resolved_sources resolved =
     (if find_available_sources_without_material resolved \<noteq> [] then Inl ValueError
      else Inr (List.map_filter (\<lambda>(k, r). if sr_availability r = AVAILABLE
                  then (case sr_materialization r of Some m \<Rightarrow> Some (k, JObj m) | None \<Rightarrow> None) else None) resolved))"

text \<open>\<^verbatim>\<open>continuity.json\<close> as \<open>_durable_original_request\<close> sees it: type, size, content.\<close>

record continuity_file =
  cf_regular :: bool
  cf_bytes :: nat
  cf_content :: disk_file

definition durable_original_request :: "continuity_file \<Rightarrow> pystr \<Rightarrow> pystr option" where
  "durable_original_request c mission_id =
     (if \<not> cf_regular c \<or> cf_bytes c > 2000000 then None
      else case cf_content c of
        FJson (JObj p) \<Rightarrow>
          (if dget p ''mission_id'' \<noteq> JStr mission_id \<or> dget p ''schema_version'' \<noteq> JStr ''1.0'' then None
           else case dget p ''original_request'' of
             JStr request \<Rightarrow> if py_nonblank request then Some request else None
           | _ \<Rightarrow> None)
      | _ \<Rightarrow> None)"

record gate_env =
  ge_fs :: repo_fs
  ge_pack :: "pystr + evidence_pack"
  ge_continuity :: continuity_file
  ge_limit :: nat

fun add_contracts :: "CapabilityRegistry \<Rightarrow> AgentAssignment list \<Rightarrow> jdict pydict \<Rightarrow> jdict pydict" where
  "add_contracts registry [] contracts = contracts"
| "add_contracts registry (a # as) contracts =
     add_contracts registry as
       (if dict_get contracts (a_family a) \<noteq> None then contracts
        else case agent_family registry (a_family a) of
          None \<Rightarrow> contracts
        | Some c \<Rightarrow> dict_set contracts (a_family a) c)"

definition gate_context ::
  "gate_env \<Rightarrow> CapabilityRegistry \<Rightarrow> MissionPlan \<Rightarrow> AgentAssignment \<Rightarrow> jdict \<Rightarrow> EvidenceRecord list \<Rightarrow>
   pystr list \<Rightarrow> evidence_pack option \<Rightarrow> ResolutionContext" where
  "gate_context ge registry plan task family evidence required pack = \<lparr>
     rc_plan_approval_status = dget (p_approval plan) ''status'',
     rc_plan_acceptance_criteria = p_acceptance_criteria plan,
     rc_user_mission_request =
       (if ''user_mission_request'' \<in> set required
        then durable_original_request (ge_continuity ge) (p_mission_id plan) else None),
     rc_repo = Some (ge_fs ge), rc_repo_evidence_pack = pack,
     rc_family_contracts = add_contracts registry (p_assignments plan) [(a_family task, family)],
     rc_task_family_by_id = fold (\<lambda>a d. dict_set d (a_task_id a) (a_family a)) (p_assignments plan) [],
     rc_evidence_by_task_id = fold (\<lambda>r d. dict_set d (ev_task_id r) r) evidence [],
     rc_failure_log_dir_given = True,
     rc_excluded_paths = (case pack of None \<Rightarrow> [] | Some pk \<Rightarrow> pk_excluded_paths pk),
     rc_mission_plan = Some (asdict_plan plan),
     rc_capability_registry = JObj (reg_data registry), rc_limit = ge_limit ge\<rparr>"

text \<open>\<open>_required_sources_gate\<close> once the pack question is settled.\<close>

definition gate_resolutions ::
  "pystr list \<Rightarrow> AgentAssignment \<Rightarrow> ResolutionContext \<Rightarrow> source_gate" where
  "gate_resolutions required task ctx =
     (case resolve_all required task ctx True of
        Inl UnknownSourceError \<Rightarrow> GateRefuses ''required_sources:unknown_source''
      | Inl (EscapedExn e) \<Rightarrow> GateRaises e
      | Inr resolved \<Rightarrow>
         (case filter (\<lambda>(k, r). sr_availability r \<notin> {AVAILABLE, NOT_APPLICABLE}) resolved of
            (k, r) # _ \<Rightarrow> GateRefuses (''required_sources:'' @ k @ '':'' @
               (case sr_reason r of Some reason \<Rightarrow> reason | None \<Rightarrow> availability_value (sr_availability r)))
          | [] \<Rightarrow>
             (case find_available_sources_without_material resolved of
                k # _ \<Rightarrow> GateRefuses (''required_sources:'' @ k @ '':material_unavailable'')
              | [] \<Rightarrow>
                 (case materialize_resolved_sources resolved of
                    Inl e \<Rightarrow> GateRaises e
                  | Inr material \<Rightarrow> GatePasses material))))"

definition required_sources_gate :: "gate_env \<Rightarrow> CapabilityRegistry \<Rightarrow> gate_fun" where
  "required_sources_gate ge registry plan task family evidence =
     (case (case dict_get family ''required_sources'' of None \<Rightarrow> JList [] | Some v \<Rightarrow> v) of
        JList items \<Rightarrow>
          (if \<not> list_all is_str items then GateRefuses ''required_sources:invalid_family_contract''
           else
             let required = map the_str items;
                 go = (\<lambda>pack. gate_resolutions required task
                        (gate_context ge registry plan task family evidence required pack))
             in if p_repository_evidence plan = None then go None
                else case ge_pack ge of
                  Inl err \<Rightarrow> GateRefuses (''required_sources:repository_state:'' @ err)
                | Inr pack \<Rightarrow>
                   (if pk_authorized_repo_root pack \<noteq> fs_root_path (ge_fs ge)
                      then GateRefuses ''required_sources:repository_state:repository_root_mismatch''
                    else if ''repository_state'' \<notin> set required \<and> \<not> pk_current pack
                      then GateRefuses ''required_sources:repository_state:repository_evidence_stale_replan_required''
                    else go (Some pack)))
      | _ \<Rightarrow> GateRefuses ''required_sources:invalid_family_contract'')"

text \<open>\<open>execute_or_resume_plan\<close> with the gate it calls.\<close>

definition resume_mission ::
  "gate_env \<Rightarrow> CapabilityRegistry \<Rightarrow> call_env \<Rightarrow> AssignmentApproval option \<Rightarrow> pystr \<Rightarrow> mission_disk \<Rightarrow>
   mission_disk \<times> outcome" where
  "resume_mission ge registry = execute_or_resume_plan (required_sources_gate ge registry) registry"

section \<open>Lemmas\<close>

lemma unresolved_simps [simp]:
  "sr_availability (unresolved cid a reason) = a" "sr_reason (unresolved cid a reason) = Some reason"
  "sr_materialization (unresolved cid a reason) = None" "sr_canonical_id (unresolved cid a reason) = cid"
  by (simp_all add: unresolved_def)

lemma available_simps [simp]:
  "sr_availability (available cid m) = AVAILABLE" "sr_materialization (available cid m) = Some m"
  "sr_canonical_id (available cid m) = cid"
  by (simp_all add: available_def)

lemma available_eq [simp]: "available cid m = available cid m' \<longleftrightarrow> m = m'"
  by (simp add: available_def)

lemma with_producers_simps [simp]:
  "sr_availability (with_producers r ids) = sr_availability r" "sr_materialization (with_producers r ids) = sr_materialization r"
  "sr_reason (with_producers r ids) = sr_reason r" "sr_canonical_id (with_producers r ids) = sr_canonical_id r"
  by (simp_all add: with_producers_def)

lemma lift_exn_simps [simp]: "lift_exn (Inr x) = Inr x" "lift_exn (Inl e) = Inl (EscapedExn e)"
  by (simp_all add: lift_exn_def)

lemma read_inputs_Cons:
  "read_inputs fs (rel # rest) = Inr (Inl stop) \<longleftrightarrow>
     (\<exists>a reason. read_input fs rel = Inr (ReadStop a reason) \<and> stop = (a, reason)) \<or>
     (\<exists>item. read_input fs rel = Inr (ReadItem item) \<and> read_inputs fs rest = Inr (Inl stop))"
  "read_inputs fs (rel # rest) = Inr (Inr items) \<longleftrightarrow>
     (\<exists>item its. items = item # its \<and> read_input fs rel = Inr (ReadItem item) \<and> read_inputs fs rest = Inr (Inr its))"
  by (cases "read_input fs rel"; cases "read_inputs fs rest"; auto split: input_read.splits sum.splits)+

text \<open>The availability a resolver can report.\<close>

lemma read_inputs_stop: "read_inputs fs rels = Inr (Inl (a, reason)) \<Longrightarrow> a \<in> {MISSING, UNAUTHORIZED}"
proof (induction rels)
  case (Cons rel rels)
  then show ?case
    by (auto simp: read_inputs_Cons read_input_def Let_def simp del: read_inputs.simps
        split: if_splits dir_open.splits option.splits fnode.splits)
qed simp

lemma task_input_cases:
  assumes "resolve_task_input_source cid task ctx = Inr r"
  obtains (stopped) a reason where "r = unresolved cid a reason" and "a \<in> {MISSING, UNAUTHORIZED}"
    | (delivered) fs items where "rc_repo ctx = Some fs" and "a_inputs task \<noteq> []"
      and "\<forall>rel \<in> set (a_inputs task). \<not> input_path_bad rel (rc_excluded_paths ctx)"
      and "read_inputs fs (take MAX_MATERIAL_LIST_ITEMS (a_inputs task)) = Inr (Inr items)"
      and "r = available cid [(''input_locators'', JList (map JStr (take MAX_MATERIAL_LIST_ITEMS (a_inputs task)))),
             (''files'', list_view (length (a_inputs task)) items)]"
proof (cases "rc_repo ctx")
  case None
  with assms stopped show ?thesis
    by (auto simp: resolve_task_input_source_def split: if_splits)
next
  case (Some fs)
  let ?reads = "read_inputs fs (take MAX_MATERIAL_LIST_ITEMS (a_inputs task))"
  show ?thesis
  proof (cases "a_inputs task = [] \<or> list_ex (\<lambda>rel. input_path_bad rel (rc_excluded_paths ctx)) (a_inputs task)")
    case True
    with assms Some stopped show ?thesis
      by (auto simp: resolve_task_input_source_def split: if_splits)
  next
    case False
    with assms Some obtain x where x: "?reads = Inr x" "r = (case x of
          Inl (a, reason) \<Rightarrow> unresolved cid a reason
        | Inr items \<Rightarrow> available cid [(''input_locators'', JList (map JStr (take MAX_MATERIAL_LIST_ITEMS (a_inputs task)))),
             (''files'', list_view (length (a_inputs task)) items)])"
      by (auto simp: resolve_task_input_source_def Let_def)
    show ?thesis
    proof (cases x)
      case (Inl stop)
      with x stopped read_inputs_stop show ?thesis by (cases stop) auto
    next
      case (Inr items)
      with x False Some delivered [of fs items] show ?thesis by (simp add: list_ex_iff)
    qed
  qed
qed

lemma plan_scope_availability:
  assumes "resolve_plan_scope cid task ctx = Inr r"
  shows "sr_availability r \<in> {AVAILABLE, MISSING, UNAUTHORIZED}"
proof -
  have files: "sr_availability r' \<in> {AVAILABLE, MISSING, UNAUTHORIZED}"
    if "resolve_task_input_source cid task ctx = Inr r'" for r'
    using that by (rule task_input_cases) auto
  have logs: "sr_availability (resolve_failure_logs ctx) \<in> {AVAILABLE, MISSING, UNAUTHORIZED}"
    by (simp add: resolve_failure_logs_def Let_def split: option.split dir_open.split)
  have others: "sr_availability (resolve_mission_plan ctx) \<in> {AVAILABLE, MISSING, UNAUTHORIZED}"
    "sr_availability (resolve_acceptance_criteria ctx) \<in> {AVAILABLE, MISSING, UNAUTHORIZED}"
    "sr_availability (resolve_user_mission_request ctx) \<in> {AVAILABLE, MISSING, UNAUTHORIZED}"
    "sr_availability (resolve_capability_registry task ctx) \<in> {AVAILABLE, MISSING, UNAUTHORIZED}"
    "sr_availability (resolve_repository_state ctx) \<in> {AVAILABLE, MISSING, UNAUTHORIZED}"
    by (simp_all add: resolve_mission_plan_def resolve_acceptance_criteria_def resolve_user_mission_request_def
        resolve_capability_registry_def resolve_repository_state_def Let_def split: option.split)
  from assms show ?thesis
    unfolding resolve_plan_scope_def using others logs files
    by (metis (no_types) sum.inject(2))
qed

lemma structural_availability:
  "sr_availability (resolve_structural_dependency cid task ctx enforcing) \<in>
     {AVAILABLE, MISSING} \<union> (if enforcing then {} else {PENDING_PRODUCER})"
  by (simp add: resolve_structural_dependency_def Let_def split: option.split)

lemma produced_availability:
  "resolve_assignment_produced cid task ctx enforcing = Inr r \<Longrightarrow>
     sr_availability r \<in> {AVAILABLE, MISSING} \<union> (if enforcing then {} else {PENDING_PRODUCER})"
  by (cases "declared_producers ctx cid (a_dependencies task)")
     (auto simp: resolve_assignment_produced_def Let_def split: sum.splits if_splits)

lemma lift_exn_Inr [simp]: "lift_exn m = Inr x \<longleftrightarrow> m = Inr x"
  by (cases m) simp_all

lemma resolved_availability:
  assumes "resolve_required_sources cid task ctx enforcing = Inr r"
  shows "sr_availability r \<noteq> NOT_APPLICABLE \<and> (enforcing \<longrightarrow> sr_availability r \<noteq> PENDING_PRODUCER)"
  using assms structural_availability [of cid task ctx enforcing] produced_availability [of cid task ctx enforcing r]
    plan_scope_availability [of cid task ctx r]
  by (auto simp: resolve_required_sources_def split: option.splits SourceKind.splits if_splits)

lemma keys_dict_set [simp]: "fst ` set (dict_set d k v) = insert k (fst ` set d)"
  by (simp add: dict_set_def dom_update)

lemma resolve_into_spec:
  assumes "resolve_into cids task ctx enforcing acc = Inr resolved"
  shows "(\<forall>k. dict_get resolved k =
           (if k \<in> set cids then (case resolve_required_sources k task ctx enforcing of Inr r \<Rightarrow> Some r | Inl _ \<Rightarrow> None)
            else dict_get acc k)) \<and>
    (\<forall>k \<in> set cids. \<exists>r. resolve_required_sources k task ctx enforcing = Inr r) \<and>
    fst ` set resolved = set cids \<union> fst ` set acc \<and> (dict_wf acc \<longrightarrow> dict_wf resolved)"
  using assms
proof (induction cids arbitrary: acc)
  case (Cons c cs)
  from Cons.prems obtain r where r: "resolve_required_sources c task ctx enforcing = Inr r"
    and rest: "resolve_into cs task ctx enforcing (dict_set acc c r) = Inr resolved"
    by auto
  from Cons.IH [OF rest] show ?case
    by (simp add: r)
qed simp

lemmas resolve_into_get = resolve_into_spec [THEN conjunct1, rule_format]
  resolve_into_spec [THEN conjunct2, THEN conjunct1]
  resolve_into_spec [THEN conjunct2, THEN conjunct2, THEN conjunct1]
  resolve_into_spec [THEN conjunct2, THEN conjunct2, THEN conjunct2, rule_format]

lemma resolve_all_get:
  assumes "resolve_all cids task ctx enforcing = Inr resolved" and "k \<in> set cids"
  shows "\<exists>r. resolve_required_sources k task ctx enforcing = Inr r \<and> dict_get resolved k = Some r \<and> (k, r) \<in> set resolved"
proof -
  from resolve_into_get(2) [OF assms(1) [unfolded resolve_all_def]] assms(2)
  obtain r where r: "resolve_required_sources k task ctx enforcing = Inr r" by blast
  with resolve_into_get(1) [OF assms(1) [unfolded resolve_all_def], of k] assms(2)
  have "dict_get resolved k = Some r" by simp
  with r show ?thesis by (auto simp: dict_get_def dest: map_of_SomeD)
qed

lemma resolve_all_member:
  assumes "resolve_all cids task ctx enforcing = Inr resolved" and "(k, r) \<in> set resolved"
  shows "k \<in> set cids \<and> resolve_required_sources k task ctx enforcing = Inr r"
proof -
  note into = resolve_into_get [OF assms(1) [unfolded resolve_all_def]]
  have "k \<in> set cids" using into(3) assms(2) by force
  moreover have "dict_get resolved k = Some r"
    using into(4) assms(2) by (simp add: dict_wf_def dict_get_def)
  ultimately show ?thesis using resolve_all_get [OF assms(1), of k] by auto
qed

lemma map_filter_get:
  assumes "dict_wf d" and "(k, r) \<in> set d" and "f r = Some v"
  shows "dict_get (List.map_filter (\<lambda>(k, r). map_option (Pair k) (f r)) d) k = Some v"
  using assms
proof (induction d)
  case (Cons x d)
  obtain k0 r0 where "x = (k0, r0)" by force
  with Cons show ?case
    by (auto simp: List.map_filter_simps dict_wf_def split: option.split) (metis fst_conv image_eqI)
qed simp

text \<open>What passing the gate means, source by source.\<close>

lemma gate_resolutions_passes:
  assumes "gate_resolutions required task ctx = GatePasses material" and "cid \<in> set required"
  shows "\<exists>r m. resolve_required_sources cid task ctx True = Inr r \<and> sr_availability r = AVAILABLE \<and>
     sr_materialization r = Some m \<and> m \<noteq> [] \<and> dict_get material cid = Some (JObj m)"
proof -
  from assms(1) obtain resolved where res: "resolve_all required task ctx True = Inr resolved"
    by (auto simp: gate_resolutions_def split: sum.splits resolve_exn.splits)
  with assms(1) have ok: "filter (\<lambda>(k, r). sr_availability r \<notin> {AVAILABLE, NOT_APPLICABLE}) resolved = []"
      "find_available_sources_without_material resolved = []" "materialize_resolved_sources resolved = Inr material"
    by (auto simp: gate_resolutions_def split: list.splits sum.splits)
  from resolve_all_get [OF res assms(2)] obtain r where
    r: "resolve_required_sources cid task ctx True = Inr r" "(cid, r) \<in> set resolved" by blast
  have av: "sr_availability r = AVAILABLE"
    using ok(1) r resolved_availability [OF r(1)] by (auto simp: filter_empty_conv)
  have "\<not> material_missing r"
    using ok(2) r(2) by (auto simp: find_available_sources_without_material_def filter_empty_conv)
  with av obtain m where m: "sr_materialization r = Some m" "m \<noteq> []"
    by (auto simp: material_missing_def split: option.splits)
  let ?f = "\<lambda>r. if sr_availability r = AVAILABLE then map_option JObj (sr_materialization r) else None"
  have eq: "(\<lambda>(k, r). if sr_availability r = AVAILABLE
      then (case sr_materialization r of Some m \<Rightarrow> Some (k, JObj m) | None \<Rightarrow> None) else None) =
    (\<lambda>(k :: pystr, r). map_option (Pair k) (?f r))"
    by (auto simp: fun_eq_iff split: option.split)
  have "material = List.map_filter (\<lambda>(k, r). map_option (Pair k) (?f r)) resolved"
    using ok(2,3) by (simp add: materialize_resolved_sources_def eq)
  moreover have "dict_wf resolved"
    using resolve_into_get(4) [OF res [unfolded resolve_all_def]] by (simp add: dict_wf_def)
  ultimately have "dict_get material cid = Some (JObj m)"
    using map_filter_get [of resolved cid r ?f "JObj m"] r(2) av m(1) by simp
  with r(1) av m show ?thesis by blast
qed

subsection \<open>Produced sources\<close>

lemma declared_producers_sound:
  assumes "declared_producers ctx cid deps = Inr producers"
  shows "set producers \<subseteq> set deps \<and> (\<forall>p \<in> set producers. \<exists>family.
     dict_get (rc_task_family_by_id ctx) p = Some family \<and>
     declares_source (case dict_get (rc_family_contracts ctx) family of None \<Rightarrow> [] | Some c \<Rightarrow> c) cid = Inr True)"
  using assms
proof (induction deps arbitrary: producers)
  case (Cons dep deps)
  show ?case
  proof (cases "dict_get (rc_task_family_by_id ctx) dep")
    case None
    with Cons show ?thesis by fastforce
  next
    case (Some family)
    with Cons.prems obtain b ds where
      b: "declares_source (case dict_get (rc_family_contracts ctx) family of None \<Rightarrow> [] | Some c \<Rightarrow> c) cid = Inr b"
      and ds: "declared_producers ctx cid deps = Inr ds" "producers = (if b then dep # ds else ds)"
      by auto
    from Cons.IH [OF ds(1)] show ?thesis
      using b Some unfolding ds(2) by (cases b) auto
  qed
qed simp

lemma scan_producers_sound:
  "scan_producers ctx cid marked ps = Inr (p, rec) \<Longrightarrow>
     p \<in> set ps \<and> dict_get (rc_evidence_by_task_id ctx) p = Some rec \<and>
     cid \<in> set (extract_produced_source_ids (rc_limit ctx) rec) \<and>
     evaluate_produced_source_material (rc_limit ctx) cid rec"
  by (induction ps arbitrary: marked) (auto split: option.splits if_splits)

lemma produced_ids_completed: "extract_produced_source_ids limit rec \<noteq> [] \<Longrightarrow> ev_status rec = ''completed''"
  by (auto simp: extract_produced_source_ids_def payload_rows_def record_payload_def List.map_filter_simps
      split: if_splits)

subsection \<open>Files\<close>

text \<open>A path of real directories, no link on the way, ending in the entries of the last one.\<close>

lemma open_chain_append:
  "open_chain entries (ps @ qs) = (case open_chain entries ps of Opened es \<Rightarrow> open_chain es qs | r \<Rightarrow> r)"
  by (induction ps arbitrary: entries) (auto split: dir_open.split)

definition honest_item :: "repo_fs \<Rightarrow> pystr \<Rightarrow> json \<Rightarrow> bool" where
  "honest_item fs rel item \<longleftrightarrow>
     (\<exists>entries name ident readable sz bytes readable' sz' bytes'.
        path_parts rel \<noteq> [] \<and> name = last (path_parts rel) \<and> is_plain_basename name \<and>
        open_chain (fs_tree fs) (butlast (path_parts rel)) = Opened entries \<and>
        dict_get entries name = Some (RegFile ident readable sz bytes) \<and>
        fs_reread fs (path_parts rel) = Some (RegFile ident readable' sz' bytes') \<and>
        bytes' \<noteq> [] \<and>
        item = JObj [(''path'', JStr rel), (''available'', JBool True), (''total_bytes'', JInt (int sz')),
          (''included_bytes'', JInt (int (min (length bytes') MAX_MATERIAL_FILE_BYTES))),
          (''truncated'', JBool (length bytes' > MAX_MATERIAL_FILE_BYTES \<or> sz' > MAX_MATERIAL_FILE_BYTES)),
          (''text'', JStr (utf8_decode (take MAX_MATERIAL_FILE_BYTES bytes')))])"

lemma usable_bounded_file_text:
  assumes "usable_text (bounded_file_text name node ident limit)" and "0 < limit"
  shows "\<exists>readable sz bytes. node = Some (RegFile ident readable sz bytes) \<and> is_plain_basename name \<and> bytes \<noteq> [] \<and>
     bounded_file_text name node ident limit = [(''available'', JBool True), (''total_bytes'', JInt (int sz)),
       (''included_bytes'', JInt (int (min (length bytes) limit))),
       (''truncated'', JBool (length bytes > limit \<or> sz > limit)), (''text'', JStr (utf8_decode (take limit bytes)))]"
proof -
  have un: "\<not> usable_text unavailable_file_text"
    by (simp add: usable_text_def unavailable_file_text_def)
  from assms(1) un obtain readable sz bytes where n: "node = Some (RegFile ident readable sz bytes)" "is_plain_basename name"
      "readable"
    by (auto simp: bounded_file_text_def split: if_splits option.splits fnode.splits)
  have eq: "bounded_file_text name node ident limit = [(''available'', JBool True), (''total_bytes'', JInt (int sz)),
       (''included_bytes'', JInt (int (min (length bytes) limit))),
       (''truncated'', JBool (length bytes > limit \<or> sz > limit)), (''text'', JStr (utf8_decode (take limit bytes)))]"
    using n by (auto simp: bounded_file_text_def Let_def min_def)
  from assms(1)[unfolded eq] assms(2) have "bytes \<noteq> []"
    by (auto simp: usable_text_def)
  with n eq show ?thesis by blast
qed

lemma read_input_honest:
  assumes "read_input fs rel = Inr (ReadItem item)"
  shows "honest_item fs rel item"
proof -
  from assms obtain entries ident readable sz bytes where
    e: "path_parts rel \<noteq> []" "open_chain (fs_tree fs) (butlast (path_parts rel)) = Opened entries"
      "dict_get entries (last (path_parts rel)) = Some (RegFile ident readable sz bytes)"
    and u: "usable_text (bounded_file_text (last (path_parts rel)) (fs_reread fs (path_parts rel)) ident MAX_MATERIAL_FILE_BYTES)"
    and i: "item = JObj ((''path'', JStr rel) #
        bounded_file_text (last (path_parts rel)) (fs_reread fs (path_parts rel)) ident MAX_MATERIAL_FILE_BYTES)"
    by (auto simp: read_input_def Let_def split: if_splits dir_open.splits option.splits fnode.splits)
  from usable_bounded_file_text [OF u] e i show ?thesis
    unfolding honest_item_def by (force simp: MAX_MATERIAL_FILE_BYTES_def)
qed

lemma read_inputs_honest:
  "read_inputs fs rels = Inr (Inr items) \<Longrightarrow> list_all2 (honest_item fs) rels items"
proof (induction rels arbitrary: items)
  case (Cons rel rels)
  then show ?case
    by (auto simp: read_inputs_Cons read_input_honest simp del: read_inputs.simps)
qed simp

subsection \<open>Bounds\<close>

fun json_depth :: "json \<Rightarrow> nat" where
  "json_depth (JList xs) = Suc (foldr max (map json_depth xs) 0)"
| "json_depth (JObj d) = Suc (foldr max (map (\<lambda>(k, v). json_depth v) d) 0)"
| "json_depth _ = 0"

text \<open>Every text, every list and every object of a value is within the material bounds.\<close>

fun within_bounds :: "json \<Rightarrow> bool" where
  "within_bounds (JStr s) = (length s \<le> MAX_MATERIAL_TEXT_CHARS)"
| "within_bounds (JList xs) = (length xs \<le> MAX_MATERIAL_LIST_ITEMS \<and> list_all within_bounds xs)"
| "within_bounds (JObj d) = (length d \<le> MAX_MATERIAL_LIST_ITEMS \<and>
     list_all (\<lambda>(k, v). length k \<le> MAX_MATERIAL_TEXT_CHARS \<and> within_bounds v) d)"
| "within_bounds _ = True"

lemma foldr_max_le: "foldr max xs (0 :: nat) \<le> n \<longleftrightarrow> (\<forall>x \<in> set xs. x \<le> n)"
  by (induction xs) auto

lemma fold_set_bounds:
  assumes "list_all (\<lambda>(k, v). P v) xs" and "list_all (\<lambda>(k, v). length k \<le> n \<and> P v) acc"
  shows "list_all (\<lambda>(k, v). length k \<le> n \<and> P v) (fold (\<lambda>(k, x) acc. dict_set acc (take n k) x) xs acc) \<and>
    length (fold (\<lambda>(k, x) acc. dict_set acc (take n k) x) xs acc) \<le> length acc + length xs"
  using assms
proof (induction xs arbitrary: acc)
  case (Cons x xs)
  obtain k v where x: "x = (k, v)" by force
  have upd: "list_all (\<lambda>(k, v). length k \<le> n \<and> P v) (dict_set acc (take n k) v)"
    using Cons.prems x by (induction acc) (auto simp: dict_set_def)
  have len: "length (dict_set d k' v') \<le> Suc (length d)" for d :: "'a pydict" and k' v'
    by (induction d) (auto simp: dict_set_def)
  from Cons.IH [OF _ upd] Cons.prems x len [of acc "take n k" v] show ?case by auto
qed simp

lemma within_bounds_literals: "length k \<le> 20 \<Longrightarrow> length k \<le> MAX_MATERIAL_TEXT_CHARS"
  by (simp add: MAX_MATERIAL_TEXT_CHARS_def)

lemma bounded_value_bounds:
  "within_bounds (bounded_value depth v) \<and> json_depth (bounded_value depth v) \<le> 2 * (7 - depth) + 1"
proof (induction depth v rule: bounded_value.induct)
  case (1 depth v)
  show ?case
  proof (cases "depth > 6")
    case True
    then show ?thesis
      by (simp add: bounded_value.simps MAX_MATERIAL_LIST_ITEMS_def MAX_MATERIAL_TEXT_CHARS_def)
  next
    case False
    then have d: "2 * (7 - depth) = Suc (Suc (2 * (7 - Suc depth)))" by simp
    show ?thesis
    proof (cases v)
      case (JStr s)
      with False show ?thesis
        by (simp add: bounded_value.simps bounded_text_def MAX_MATERIAL_LIST_ITEMS_def MAX_MATERIAL_TEXT_CHARS_def)
    next
      case (JList xs)
      let ?items = "take MAX_MATERIAL_LIST_ITEMS (map (bounded_value (Suc depth)) xs)"
      have "\<forall>y \<in> set ?items. within_bounds y \<and> json_depth y \<le> 2 * (7 - Suc depth) + 1"
        using 1(1) [OF False JList] by (auto dest!: in_set_takeD)
      then show ?thesis
        using False JList d
        by (simp add: bounded_value.simps list_view_def list_all_iff foldr_max_le)
           (simp add: MAX_MATERIAL_LIST_ITEMS_def MAX_MATERIAL_TEXT_CHARS_def)
    next
      case (JObj fs)
      let ?chosen = "take MAX_MATERIAL_LIST_ITEMS (map (\<lambda>(k, x). (k, bounded_value (Suc depth) x)) fs)"
      let ?out = "fold (\<lambda>(k, x) acc. dict_set acc (take MAX_MATERIAL_TEXT_CHARS k) x) ?chosen []"
      let ?P = "\<lambda>y. within_bounds y \<and> json_depth y \<le> 2 * (7 - Suc depth) + 1"
      have "list_all (\<lambda>(k, y). ?P y) ?chosen"
        using 1(2) [OF False JObj] by (force simp: list_all_iff dest!: in_set_takeD)
      from fold_set_bounds [OF this, of MAX_MATERIAL_TEXT_CHARS "[]"]
      have out: "list_all (\<lambda>(k, y). length k \<le> MAX_MATERIAL_TEXT_CHARS \<and> ?P y) ?out"
        "length ?out \<le> MAX_MATERIAL_LIST_ITEMS" by auto
      then have "\<forall>y \<in> snd ` set ?out. json_depth y \<le> 2 * (7 - Suc depth) + 1"
        by (auto simp: list_all_iff)
      then have "foldr max (map (\<lambda>(k, v). json_depth v) ?out) 0 \<le> 2 * (7 - Suc depth) + 1"
        by (auto simp: foldr_max_le)
      moreover from out have "within_bounds (JObj ?out)" by (auto simp: list_all_iff)
      ultimately show ?thesis
        using False JObj d
        by (simp add: bounded_value.simps Let_def del: within_bounds.simps(3))
           (simp add: MAX_MATERIAL_LIST_ITEMS_def MAX_MATERIAL_TEXT_CHARS_def)
    qed (use False in \<open>simp_all add: bounded_value.simps\<close>)
  qed
qed

section \<open>Concrete inputs\<close>

definition demo_fs :: repo_fs where
  "demo_fs = \<lparr>fs_root_path = ''/repo'',
     fs_tree = [(''docs'', DirNode [(''a.md'', RegFile 7 True 2 [104, 105])]),
       (''memory'', DirNode [(''failures'', DirNode [(''f1.log'', RegFile 9 True 3 [98, 97, 100])])])],
     fs_reread = (\<lambda>p. if p = [''docs'', ''a.md''] then Some (RegFile 7 True 2 [104, 105])
       else if p = [''memory'', ''failures'', ''f1.log''] then Some (RegFile 9 True 3 [98, 97, 100]) else None),
     fs_ignored = (\<lambda>_. False), fs_failure_dir_is_dir = True,
     fs_root_resolves = True, fs_failure_dir_canonical = True, fs_listdir_ok = True\<rparr>"

definition demo_ge :: gate_env where
  "demo_ge = \<lparr>ge_fs = demo_fs, ge_pack = Inl ''absent'',
     ge_continuity = \<lparr>cf_regular = True, cf_bytes = 10, cf_content = FAbsent\<rparr>, ge_limit = 900\<rparr>"

definition demo_needs :: jdict where
  "demo_needs = [(''required_sources'', JList [JStr ''acceptance_criteria'', JStr ''authorized_local_source''])]"

definition demo_task :: AgentAssignment where
  "demo_task = demo_a1\<lparr>a_inputs := [''docs/a.md'']\<rparr>"

definition demo_cards :: "json list" where
  "demo_cards = [
     JObj [(''observation'', JStr ''source_id=source_fact_cards''), (''source'', JStr ''produced_source'')],
     JObj [(''observation'', JStr ''fact=x | locator=a.md:1''), (''source'', JStr ''material:source_fact_cards'')]]"

definition demo_cards_text :: pystr where
  "demo_cards_text = canonical_dumps (JObj [(''summary'', JStr ''cards''), (''evidence'', JList demo_cards)])"

definition demo_producer :: EvidenceRecord where
  "demo_producer = evidence_build (replicate 32 (CHR ''c'')) ''mission-demo'' ''t0'' ''codex'' ''m'' ''completed''
     demo_cards_text [] [] (JInt 0) (JInt 1)"

definition demo_ctx :: ResolutionContext where
  "demo_ctx = \<lparr>rc_plan_approval_status = JStr ''approved'', rc_plan_acceptance_criteria = [''ok''],
     rc_user_mission_request = None, rc_repo = Some demo_fs, rc_repo_evidence_pack = None,
     rc_family_contracts = [(''source-extraction'', [(''produces_sources'', JList [JStr ''source_fact_cards''])])],
     rc_task_family_by_id = [(''t0'', ''source-extraction'')], rc_evidence_by_task_id = [(''t0'', demo_producer)],
     rc_failure_log_dir_given = True,
     rc_excluded_paths = [], rc_mission_plan = None, rc_capability_registry = JNull, rc_limit = 20\<rparr>"

section \<open>Properties\<close>

text \<open>The evidence pack a plan may use: none without repository evidence in the plan, otherwise the current one of
  the same repository (a stale one only when \<open>repository_state\<close> itself is required, which then judges it).\<close>

definition pack_admitted :: "gate_env \<Rightarrow> MissionPlan \<Rightarrow> pystr list \<Rightarrow> evidence_pack option \<Rightarrow> bool" where
  "pack_admitted ge plan required pack \<longleftrightarrow>
     (case p_repository_evidence plan of
        None \<Rightarrow> pack = None
      | Some _ \<Rightarrow> \<exists>pk. pack = Some pk \<and> ge_pack ge = Inr pk \<and> pk_authorized_repo_root pk = fs_root_path (ge_fs ge) \<and>
          (''repository_state'' \<in> set required \<or> pk_current pk))"

text \<open>The resolution context is the one of this mission: its plan and approval, its original request, its
  repository and evidence pack, and the records of the tasks completed so far.\<close>

definition context_of_mission ::
  "gate_env \<Rightarrow> MissionPlan \<Rightarrow> EvidenceRecord list \<Rightarrow> pystr list \<Rightarrow> evidence_pack option \<Rightarrow> ResolutionContext \<Rightarrow> bool" where
  "context_of_mission ge plan evidence required pack ctx \<longleftrightarrow>
     rc_plan_approval_status ctx = dget (p_approval plan) ''status'' \<and> rc_plan_acceptance_criteria ctx = p_acceptance_criteria plan \<and>
     rc_mission_plan ctx = Some (asdict_plan plan) \<and>
     (''user_mission_request'' \<in> set required \<longrightarrow>
        rc_user_mission_request ctx = durable_original_request (ge_continuity ge) (p_mission_id plan)) \<and>
     rc_repo ctx = Some (ge_fs ge) \<and> rc_repo_evidence_pack ctx = pack \<and>
     rc_excluded_paths ctx = (case pack of None \<Rightarrow> [] | Some pk \<Rightarrow> pk_excluded_paths pk) \<and>
     rc_evidence_by_task_id ctx = fold (\<lambda>r d. dict_set d (ev_task_id r) r) evidence []"

lemma gate_context_of_mission: "context_of_mission ge plan evidence required pack (gate_context ge registry plan task family evidence required pack)"
  by (simp add: context_of_mission_def gate_context_def)

lemma required_sources_gate_passes:
  assumes "required_sources_gate ge registry plan task family evidence = GatePasses material"
    and "dict_get family ''required_sources'' = Some (JList items)"
  obtains pack where "pack_admitted ge plan (map the_str items) pack"
    "gate_resolutions (map the_str items) task (gate_context ge registry plan task family evidence (map the_str items) pack) = GatePasses material"
proof -
  define required where "required = map the_str items"
  let ?go = "\<lambda>pack. gate_resolutions required task (gate_context ge registry plan task family evidence required pack)"
  show thesis
  proof (cases "p_repository_evidence plan")
    case None
    then have "?go None = GatePasses material" using assms unfolding required_sources_gate_def Let_def
      by (simp add: required_def [symmetric] split: if_splits)
    moreover have "pack_admitted ge plan required None" using None by (simp add: pack_admitted_def)
    ultimately show thesis using that unfolding required_def by blast
  next
    case (Some recorded)
    then obtain pk where "ge_pack ge = Inr pk" "pk_authorized_repo_root pk = fs_root_path (ge_fs ge)"
        "''repository_state'' \<in> set required \<or> pk_current pk" "?go (Some pk) = GatePasses material"
      using assms unfolding required_sources_gate_def Let_def
      by (auto simp: required_def [symmetric] split: if_splits sum.splits)
    moreover from this Some have "pack_admitted ge plan required (Some pk)" by (simp add: pack_admitted_def)
    ultimately show thesis using that unfolding required_def by blast
  qed
qed

text \<open>
  C22: the pre-invocation gate lets a task pass only when every source its family requires was
  resolved, in enforcing mode and in the context of this very mission (the approval and criteria of its
  plan, its original request, its repository and admitted evidence pack, the records of its completed
  tasks), as available with non-empty material, and what is delivered for it is exactly that material.
  So an unknown source, a pending producer, a missing or unauthorized source always refuses.
\<close>

theorem gate_passes_only_with_material:
  assumes "required_sources_gate ge registry plan task family evidence = GatePasses material"
    and "dict_get family ''required_sources'' = Some (JList items)" and "JStr cid \<in> set items"
  shows "\<exists>pack ctx r m. pack_admitted ge plan (map the_str items) pack \<and>
     ctx = gate_context ge registry plan task family evidence (map the_str items) pack \<and>
     context_of_mission ge plan evidence (map the_str items) pack ctx \<and>
     resolve_required_sources cid task ctx True = Inr r \<and> sr_availability r = AVAILABLE \<and>
     sr_materialization r = Some m \<and> m \<noteq> [] \<and> dict_get material cid = Some (JObj m)"
proof -
  obtain pack where p: "pack_admitted ge plan (map the_str items) pack"
    and pass: "gate_resolutions (map the_str items) task (gate_context ge registry plan task family evidence (map the_str items) pack) = GatePasses material"
    by (rule required_sources_gate_passes [OF assms(1,2)])
  have "cid \<in> set (map the_str items)" using assms(3) by force
  from gate_resolutions_passes [OF pass this] obtain r m where
    "resolve_required_sources cid task (gate_context ge registry plan task family evidence (map the_str items) pack) True = Inr r"
    "sr_availability r = AVAILABLE" "sr_materialization r = Some m" "m \<noteq> []" "dict_get material cid = Some (JObj m)" by blast
  with p gate_context_of_mission show ?thesis by iprover
qed

lemma demo_input_read:
  "\<exists>item. read_inputs demo_fs [''docs/a.md''] = Inr (Inr [item])"
proof -
  have "path_parts ''docs/a.md'' = [''docs'', ''a.md'']" "is_plain_basename ''a.md''" by code_simp+
  then show ?thesis
    by (simp add: read_input_def demo_fs_def open_dir_def bounded_file_text_def usable_text_def MAX_MATERIAL_FILE_BYTES_def)
qed

lemma demo_gate_passes:
  "\<exists>material. required_sources_gate demo_ge demo_registry demo_approved demo_task demo_needs [] = GatePasses material"
proof -
  have bad: "\<not> input_path_bad ''docs/a.md'' []" and nb: "py_nonblank ''verdict''" by code_simp+
  have voc: "dict_get SOURCE_VOCABULARY ''acceptance_criteria'' = Some PLAN_SCOPE"
    "dict_get SOURCE_VOCABULARY ''authorized_local_source'' = Some PLAN_SCOPE"
    by (simp_all add: SOURCE_VOCABULARY_def)
  let ?ctx = "gate_context demo_ge demo_registry demo_approved demo_task demo_needs []
    [''acceptance_criteria'', ''authorized_local_source''] None"
  have ctx: "rc_repo ?ctx = Some demo_fs" "rc_excluded_paths ?ctx = []" "rc_plan_acceptance_criteria ?ctx = [''verdict'']"
    by (simp_all add: gate_context_def demo_ge_def demo_approved_def demo_plan_def)
  have inp: "a_inputs demo_task = [''docs/a.md'']" by (simp add: demo_task_def)
  obtain item where item: "read_inputs demo_fs [''docs/a.md''] = Inr (Inr [item])" using demo_input_read by blast
  have "\<exists>m. resolve_task_input_source ''authorized_local_source'' demo_task ?ctx = Inr (available ''authorized_local_source'' m) \<and> m \<noteq> []"
    using bad item by (simp add: resolve_task_input_source_def ctx inp MAX_MATERIAL_LIST_ITEMS_def del: read_inputs.simps)
  then obtain m where m: "resolve_task_input_source ''authorized_local_source'' demo_task ?ctx =
      Inr (available ''authorized_local_source'' m)" "m \<noteq> []" by blast
  have "\<exists>k. resolve_acceptance_criteria ?ctx = available ''acceptance_criteria'' k \<and> k \<noteq> []"
    by (simp add: resolve_acceptance_criteria_def ctx nb)
  then obtain k where k: "resolve_acceptance_criteria ?ctx = available ''acceptance_criteria'' k" "k \<noteq> []" by blast
  have "\<exists>material. gate_resolutions [''acceptance_criteria'', ''authorized_local_source''] demo_task ?ctx = GatePasses material"
    using m k
    by (simp add: gate_resolutions_def resolve_all_def resolve_required_sources_def voc resolve_plan_scope_def dict_set_def
        find_available_sources_without_material_def materialize_resolved_sources_def material_missing_def)
  moreover have "p_repository_evidence demo_approved = None" by (simp add: demo_approved_def demo_plan_def)
  ultimately show ?thesis
    by (simp add: required_sources_gate_def Let_def demo_needs_def [THEN arg_cong [of _ _ "\<lambda>d. dict_get d ''required_sources''"]])
qed

theorem gate_passes_only_with_material_witness:
  "\<exists>material ctx r m. required_sources_gate demo_ge demo_registry demo_approved demo_task demo_needs [] = GatePasses material \<and>
     resolve_required_sources ''authorized_local_source'' demo_task ctx True = Inr r \<and>
     sr_materialization r = Some m \<and> m \<noteq> [] \<and> dict_get material ''authorized_local_source'' = Some (JObj m)"
proof -
  from demo_gate_passes obtain material where
    g: "required_sources_gate demo_ge demo_registry demo_approved demo_task demo_needs [] = GatePasses material" ..
  have f: "dict_get demo_needs ''required_sources'' = Some (JList [JStr ''acceptance_criteria'', JStr ''authorized_local_source''])"
    by (simp add: demo_needs_def)
  from gate_passes_only_with_material [OF g f, of "''authorized_local_source''"] g show ?thesis by auto
qed

text \<open>How enforcement turns the result of a preview into its own.\<close>

definition enforced :: "SourceResolution \<Rightarrow> SourceResolution" where
  "enforced r = (if sr_availability r = PENDING_PRODUCER
     then r\<lparr>sr_availability := MISSING, sr_reason := Some (if sr_reason r = Some ''scheduled_dependency_not_yet_run''
            then ''dependency_not_yet_run_at_enforcement'' else ''producer_not_yet_run_at_enforcement'')\<rparr>
     else r)"

text \<open>
  Planning preview and execution never diverge on a source. Resolving in enforcing mode gives
  the result of the preview, except that a producer or dependency that has not run yet, which the
  preview reports as pending, is reported as missing; so enforcement never ends in a pending state.
\<close>

theorem preview_and_enforcement_agree:
  "resolve_required_sources cid task ctx True = map_sum id enforced (resolve_required_sources cid task ctx False)"
proof -
  have "map_sum id enforced (lift_exn m) = lift_exn m"
    if "\<And>r. m = Inr r \<Longrightarrow> sr_availability r \<noteq> PENDING_PRODUCER" for m
    using that by (cases m) (auto simp: enforced_def)
  then have "map_sum id enforced (lift_exn (resolve_plan_scope cid task ctx)) = lift_exn (resolve_plan_scope cid task ctx)"
    using plan_scope_availability [of cid task ctx] by (metis insertE SourceAvailability.distinct(1,9,11) singletonD)
  moreover have "resolve_structural_dependency cid task ctx True = enforced (resolve_structural_dependency cid task ctx False)"
    by (auto simp: resolve_structural_dependency_def Let_def enforced_def unresolved_def available_def with_producers_def
        split: option.split)
  moreover have "lift_exn (resolve_assignment_produced cid task ctx True) =
      map_sum id enforced (lift_exn (resolve_assignment_produced cid task ctx False))"
    by (cases "declared_producers ctx cid (a_dependencies task)")
       (auto simp: resolve_assignment_produced_def Let_def enforced_def unresolved_def available_def with_producers_def
        split: sum.split)
  ultimately show ?thesis
    by (auto simp: resolve_required_sources_def split: option.split SourceKind.split)
qed

text \<open>
  A produced source is available only through a declared dependency whose family declares it
  in \<open>produces_sources\<close>, whose record is completed, carries the marker row and carries material
  rows that pass the validator of that very source; a marker alone never suffices.
\<close>

theorem produced_source_needs_marker_and_material:
  assumes "resolve_assignment_produced cid task ctx enforcing = Inr r" and "sr_availability r = AVAILABLE"
  shows "\<exists>p family rec. p \<in> set (a_dependencies task) \<and> sr_producer_task_ids r = [p] \<and>
     dict_get (rc_task_family_by_id ctx) p = Some family \<and>
     declares_source (case dict_get (rc_family_contracts ctx) family of None \<Rightarrow> [] | Some c \<Rightarrow> c) cid = Inr True \<and>
     dict_get (rc_evidence_by_task_id ctx) p = Some rec \<and> ev_status rec = ''completed'' \<and>
     cid \<in> set (extract_produced_source_ids (rc_limit ctx) rec) \<and>
     evaluate_produced_source_material (rc_limit ctx) cid rec"
proof -
  from assms(1) obtain producers where pr: "declared_producers ctx cid (a_dependencies task) = Inr producers"
    by (auto simp: resolve_assignment_produced_def)
  with assms obtain p rec where s: "scan_producers ctx cid [] producers = Inr (p, rec)"
    and ids: "sr_producer_task_ids r = [p]"
    by (auto simp: resolve_assignment_produced_def Let_def with_producers_def split: sum.splits if_splits)
  from scan_producers_sound [OF s] have sc: "p \<in> set producers" "dict_get (rc_evidence_by_task_id ctx) p = Some rec"
    "cid \<in> set (extract_produced_source_ids (rc_limit ctx) rec)" "evaluate_produced_source_material (rc_limit ctx) cid rec"
    by auto
  moreover from sc(3) have "ev_status rec = ''completed''"
    by (metis produced_ids_completed empty_iff list.set(1))
  ultimately show ?thesis
    using declared_producers_sound [OF pr] ids by blast
qed

theorem produced_source_needs_marker_and_material_witness:
  "\<exists>r p rec. resolve_assignment_produced ''source_fact_cards'' (demo_a2\<lparr>a_dependencies := [''t0'']\<rparr>) demo_ctx True = Inr r \<and>
     sr_availability r = AVAILABLE \<and> sr_producer_task_ids r = [p] \<and>
     dict_get (rc_evidence_by_task_id demo_ctx) p = Some rec \<and>
     ''source_fact_cards'' \<in> set (extract_produced_source_ids (rc_limit demo_ctx) rec)"
proof -
  let ?t = "demo_a2\<lparr>a_dependencies := [''t0'']\<rparr>"
  have rows: "payload_rows 20 demo_producer = demo_cards"
  proof -
    have "length demo_cards_text \<le> 300" "length (utf8_encode demo_cards_text) \<le> 300"
      "parse_assignment_result_text 20 demo_cards_text =
        Inr (JObj [(''evidence'', JList demo_cards), (''summary'', JStr ''cards'')])"
      by code_simp+
    then show ?thesis
      by (simp add: payload_rows_def record_payload_def demo_producer_def evidence_build_def MAX_PERSISTED_OUTPUT_BYTES_def)
  qed
  have kv: "parse_kv_observation ''source_id=source_fact_cards'' = [(''source_id'', ''source_fact_cards'')]"
    "parse_kv_observation ''fact=x | locator=a.md:1'' = [(''fact'', ''x''), (''locator'', ''a.md:1'')]"
    "py_nonblank ''x''" "py_nonblank ''a.md:1''"
    by code_simp+
  have m: "''source_fact_cards'' \<in> set (extract_produced_source_ids 20 demo_producer)"
    by (simp add: extract_produced_source_ids_def rows demo_cards_def row_observation_def PRODUCED_SOURCE_MARKER_def
        kv SOURCE_VOCABULARY_def List.map_filter_simps)
  have "evaluate_produced_source_material 20 ''source_fact_cards'' demo_producer"
    by (simp add: evaluate_produced_source_material_def material_rows_for_def rows demo_cards_def row_observation_def
        MATERIAL_ROW_PREFIX_def List.map_filter_simps material_row_def kv MATERIAL_KEYS_def MAX_MATERIAL_TEXT_CHARS_def
        MAX_MATERIAL_LIST_ITEMS_def validate_source_fact_cards_material_def kv_nonblank_def)
  note m = m this
  have "declared_producers demo_ctx ''source_fact_cards'' [''t0''] = Inr [''t0'']"
    by (simp add: demo_ctx_def declares_source_def)
  moreover have "not_yet_run demo_ctx [''t0''] = []"
    by (simp add: not_yet_run_def demo_ctx_def)
  moreover have "scan_producers demo_ctx ''source_fact_cards'' [] [''t0''] = Inr (''t0'', demo_producer)"
    using m by (simp add: demo_ctx_def)
  ultimately have "\<exists>r. resolve_assignment_produced ''source_fact_cards'' ?t demo_ctx True = Inr r \<and> sr_availability r = AVAILABLE"
    by (simp add: resolve_assignment_produced_def)
  then obtain r where r: "resolve_assignment_produced ''source_fact_cards'' ?t demo_ctx True = Inr r"
      "sr_availability r = AVAILABLE" by blast
  from produced_source_needs_marker_and_material [OF r] r show ?thesis by blast
qed

text \<open>
  Material read from a task's declared inputs never leaves what the task may see. When such a
  source is available, every declared input (also those beyond the first ten) is a relative path
  without parent or hidden components, private marker or excluded prefix, and every delivered file
  is a regular file reached through real directories only, still the same file when it was opened,
  non-empty, of at most 20000 bytes, with its size and truncation stated.
\<close>

theorem input_material_is_confined:
  assumes "resolve_task_input_source cid task ctx = Inr r" and "sr_availability r = AVAILABLE"
  shows "(\<forall>rel \<in> set (a_inputs task). rel \<noteq> [] \<and> \<not> py_startswith rel ''/'' \<and> ''..'' \<notin> set (path_parts rel) \<and>
       (\<forall>part \<in> set (path_parts rel). \<not> py_startswith part ''.'') \<and>
       (\<forall>marker \<in> set PRIVATE_MARKERS. \<not> py_contains marker rel) \<and>
       \<not> is_excluded_by_config rel (rc_excluded_paths ctx)) \<and>
     (\<exists>fs items. rc_repo ctx = Some fs \<and> list_all2 (honest_item fs) (take 10 (a_inputs task)) items \<and>
       sr_materialization r = Some [(''input_locators'', JList (map JStr (take 10 (a_inputs task)))),
         (''files'', list_view (length (a_inputs task)) items)])"
  using assms(1)
proof (cases rule: task_input_cases)
  case (stopped a reason)
  with assms(2) show ?thesis by auto
next
  case (delivered fs items)
  from read_inputs_honest [OF delivered(4)] delivered(1,3,5) show ?thesis
    by (auto simp: input_path_bad_def has_private_marker_def list_ex_iff MAX_MATERIAL_LIST_ITEMS_def)
qed

theorem input_material_is_confined_witness:
  "\<exists>r. resolve_task_input_source ''authorized_local_source'' demo_task demo_ctx = Inr r \<and> sr_availability r = AVAILABLE \<and>
     ''..'' \<notin> set (path_parts ''docs/a.md'') \<and>
     (\<exists>item. honest_item demo_fs ''docs/a.md'' item)"
proof -
  have bad: "\<not> input_path_bad ''docs/a.md'' []" by code_simp
  have inp: "a_inputs demo_task = [''docs/a.md'']" by (simp add: demo_task_def)
  obtain item where item: "read_inputs demo_fs [''docs/a.md''] = Inr (Inr [item])" using demo_input_read by blast
  have "rc_repo demo_ctx = Some demo_fs" "rc_excluded_paths demo_ctx = []" by (simp_all add: demo_ctx_def)
  then have "\<exists>r. resolve_task_input_source ''authorized_local_source'' demo_task demo_ctx = Inr r \<and> sr_availability r = AVAILABLE"
    using bad item by (simp add: resolve_task_input_source_def inp MAX_MATERIAL_LIST_ITEMS_def del: read_inputs.simps)
  then obtain r where r: "resolve_task_input_source ''authorized_local_source'' demo_task demo_ctx = Inr r"
    "sr_availability r = AVAILABLE" by blast
  from input_material_is_confined [OF r] r show ?thesis
    by (auto simp: inp list_all2_Cons1 demo_ctx_def)
qed

text \<open>
  Whatever value is projected for a worker, the result nests at most fifteen levels deep, and
  every text in it has at most 2000 characters, every list at most ten items and every object at
  most ten members.
\<close>

theorem bounded_value_is_bounded:
  "within_bounds (bounded_value 0 v) \<and> json_depth (bounded_value 0 v) \<le> 15"
  using bounded_value_bounds [of 0 v] by simp

text \<open>
  A declared input with no path component, such as \<open>"."\<close>, passes every check on the
  locator and is not ignored by Git in general; reading it then indexes an empty tuple, and the
  \<open>IndexError\<close> is none of the exceptions handled, so it leaves the gate and the call instead of
  becoming a diagnostic.
\<close>

theorem dot_input_escapes_gate:
  assumes "fs_root_resolves (ge_fs ge)" and "\<not> fs_ignored (ge_fs ge) ''.''" and "a_inputs task = [''.'']"
    and "p_repository_evidence plan = None"
    and "dict_get family ''required_sources'' = Some (JList [JStr ''authorized_local_source''])"
  shows "required_sources_gate ge registry plan task family evidence = GateRaises IndexError"
proof -
  have parts: "path_parts ''.'' = []" and ok: "\<not> input_path_bad ''.'' []" by code_simp+
  let ?ctx = "gate_context ge registry plan task family evidence [''authorized_local_source''] None"
  have ctx: "rc_repo ?ctx = Some (ge_fs ge)" "rc_excluded_paths ?ctx = []" by (simp_all add: gate_context_def)
  have "read_inputs (ge_fs ge) [''.''] = Inl IndexError"
    using assms(1,2) by (simp add: read_input_def parts)
  then have "resolve_task_input_source ''authorized_local_source'' task ?ctx = Inl IndexError"
    using ok assms(3) by (simp add: resolve_task_input_source_def ctx MAX_MATERIAL_LIST_ITEMS_def del: read_inputs.simps)
  moreover have "dict_get SOURCE_VOCABULARY ''authorized_local_source'' = Some PLAN_SCOPE"
    by (simp add: SOURCE_VOCABULARY_def)
  ultimately have "gate_resolutions [''authorized_local_source''] task ?ctx = GateRaises IndexError"
    by (simp add: gate_resolutions_def resolve_all_def resolve_required_sources_def resolve_plan_scope_def)
  with assms(4,5) show ?thesis by (simp add: required_sources_gate_def Let_def)
qed

theorem dot_input_escapes_gate_witness:
  "required_sources_gate demo_ge demo_registry demo_approved (demo_a1\<lparr>a_inputs := [''.'']\<rparr>)
     [(''required_sources'', JList [JStr ''authorized_local_source''])] [] = GateRaises IndexError"
  by (rule dot_input_escapes_gate) (simp_all add: demo_ge_def demo_fs_def demo_approved_def demo_plan_def)

end
