(* ===== verification/Continuity.thy ===== *)
theory Continuity
  imports Required_Sources
begin

text \<open>
  \<^verbatim>\<open>tools/konoha_v4/continuity.py\<close>: the durable memory of a mission. The store is the state in
  memory with the content of \<^verbatim>\<open>continuity.json\<close>; every recording operation changes the state and
  saves it through a temporary file and a rename, so the file is replaced whole or, when the write
  raises, kept. Field values of declared type \<open>dict\<close> or \<open>list\<close> are JSON members.
\<close>

record MissionContinuity =
  mc_schema_version :: pystr
  mc_mission_id :: pystr
  mc_original_request :: pystr
  mc_repo_baseline :: jdict
  mc_requested_changes_history :: "json list"
  mc_validator_findings_history :: "json list"
  mc_plan_revisions :: "json list"
  mc_approval :: jdict
  mc_execution :: jdict
  mc_provider_sessions :: jdict
  mc_updated_at :: pystr

record continuity_store =
  cs_state :: MissionContinuity
  cs_file :: disk_file

definition default_approval :: jdict where
  "default_approval = [(''status'', JStr ''pending''), (''approved_by'', JNull), (''approved_at'', JNull)]"

definition default_execution :: jdict where
  "default_execution = [(''started'', JBool False), (''completed'', JBool False), (''tools_executed'', JList [])]"

definition asdict_continuity :: "MissionContinuity \<Rightarrow> jdict" where
  "asdict_continuity s = [
     (''schema_version'', JStr (mc_schema_version s)), (''mission_id'', JStr (mc_mission_id s)),
     (''original_request'', JStr (mc_original_request s)), (''repo_baseline'', JObj (mc_repo_baseline s)),
     (''requested_changes_history'', JList (mc_requested_changes_history s)),
     (''validator_findings_history'', JList (mc_validator_findings_history s)),
     (''plan_revisions'', JList (mc_plan_revisions s)), (''approval'', JObj (mc_approval s)),
     (''execution'', JObj (mc_execution s)), (''provider_sessions'', JObj (mc_provider_sessions s)),
     (''updated_at'', JStr (mc_updated_at s))]"

definition CONTINUITY_FIELDS :: "pystr list" where
  "CONTINUITY_FIELDS = [''schema_version'', ''mission_id'', ''original_request'', ''repo_baseline'',
     ''requested_changes_history'', ''validator_findings_history'', ''plan_revisions'', ''approval'', ''execution'',
     ''provider_sessions'', ''updated_at'']"

definition CONTINUITY_REQUIRED :: "pystr list" where
  "CONTINUITY_REQUIRED = [''schema_version'', ''mission_id'', ''original_request'', ''repo_baseline'']"

definition field_or :: "jdict \<Rightarrow> pystr \<Rightarrow> json \<Rightarrow> json" where
  "field_or raw k absent = (case dict_get raw k of None \<Rightarrow> absent | Some v \<Rightarrow> v)"

text \<open>Values of another type than declared are outside the model (a dataclass accepts them).\<close>

definition continuity_typed :: "jdict \<Rightarrow> bool" where
  "continuity_typed raw \<longleftrightarrow>
     list_all (\<lambda>k. is_str (dget raw k)) [''schema_version'', ''mission_id'', ''original_request''] \<and>
     is_dict (dget raw ''repo_baseline'') \<and>
     list_all (\<lambda>k. is_list (field_or raw k (JList [])))
       [''requested_changes_history'', ''validator_findings_history'', ''plan_revisions''] \<and>
     list_all (\<lambda>k. is_dict (field_or raw k (JObj []))) [''approval'', ''execution'', ''provider_sessions''] \<and>
     is_str (field_or raw ''updated_at'' (JStr []))"

text \<open>\<open>MissionContinuity(**raw)\<close>, with the defaults of absent optional fields.\<close>

definition continuity_of :: "jdict \<Rightarrow> pystr \<Rightarrow> MissionContinuity" where
  "continuity_of raw now = \<lparr>
     mc_schema_version = the_str (dget raw ''schema_version''), mc_mission_id = the_str (dget raw ''mission_id''),
     mc_original_request = the_str (dget raw ''original_request''), mc_repo_baseline = the_obj (dget raw ''repo_baseline''),
     mc_requested_changes_history = the_list (field_or raw ''requested_changes_history'' (JList [])),
     mc_validator_findings_history = the_list (field_or raw ''validator_findings_history'' (JList [])),
     mc_plan_revisions = the_list (field_or raw ''plan_revisions'' (JList [])),
     mc_approval = the_obj (field_or raw ''approval'' (JObj default_approval)),
     mc_execution = the_obj (field_or raw ''execution'' (JObj default_execution)),
     mc_provider_sessions = the_obj (field_or raw ''provider_sessions'' (JObj [])),
     mc_updated_at = the_str (field_or raw ''updated_at'' (JStr now))\<rparr>"

datatype create_error = ContinuityRaised py_exn | ContinuityIllTyped

section \<open>Operations\<close>

definition store_save :: "bool \<Rightarrow> pystr \<Rightarrow> continuity_store \<Rightarrow> continuity_store" where
  "store_save ok now st =
     (let s = (cs_state st)\<lparr>mc_updated_at := now\<rparr>
      in st\<lparr>cs_state := s, cs_file := (if ok then FJson (JObj (asdict_continuity s)) else cs_file st)\<rparr>)"

definition store_create ::
  "disk_file \<Rightarrow> bool \<Rightarrow> pystr \<Rightarrow> pystr \<Rightarrow> pystr \<Rightarrow> jdict \<Rightarrow> create_error + continuity_store" where
  "store_create f ok now mission_id original_request repo_baseline =
     (case f of
        FAbsent \<Rightarrow>
          (let st = store_save ok now \<lparr>cs_state = \<lparr>mc_schema_version = ''1.0'', mc_mission_id = mission_id,
                 mc_original_request = original_request, mc_repo_baseline = repo_baseline,
                 mc_requested_changes_history = [], mc_validator_findings_history = [], mc_plan_revisions = [],
                 mc_approval = default_approval, mc_execution = default_execution, mc_provider_sessions = [],
                 mc_updated_at = now\<rparr>, cs_file = FAbsent\<rparr>
           in if ok then Inr st else Inl (ContinuityRaised OtherError))
      | FUnreadable \<Rightarrow> Inl (ContinuityRaised ValueError)
      | FRaises e \<Rightarrow> Inl (ContinuityRaised e)
      | FJson (JObj raw) \<Rightarrow>
          (if \<not> list_all (\<lambda>(k, _). k \<in> set CONTINUITY_FIELDS) raw \<or>
              \<not> list_all (\<lambda>k. dict_get raw k \<noteq> None) CONTINUITY_REQUIRED then Inl (ContinuityRaised TypeError)
           else if dget raw ''original_request'' \<noteq> JStr original_request then Inl (ContinuityRaised ValueError)
           else if \<not> continuity_typed raw then Inl ContinuityIllTyped
           else Inr \<lparr>cs_state = continuity_of raw now, cs_file = f\<rparr>)
      | FJson _ \<Rightarrow> Inl (ContinuityRaised TypeError))"

definition revision_of :: "json list \<Rightarrow> json" where
  "revision_of history = JInt (int (length history) + 1)"

definition record_plan :: "MissionPlan \<Rightarrow> pystr \<Rightarrow> pystr \<Rightarrow> MissionContinuity \<Rightarrow> MissionContinuity" where
  "record_plan plan reason now s = s\<lparr>mc_plan_revisions := mc_plan_revisions s @
     [JObj [(''revision'', revision_of (mc_plan_revisions s)), (''plan_id'', JStr (p_plan_hash plan)),
            (''reason'', JStr reason), (''recorded_at'', JStr now), (''plan'', JObj (asdict_plan plan))]]\<rparr>"

definition record_requested_change :: "pystr \<Rightarrow> pystr option \<Rightarrow> pystr \<Rightarrow> MissionContinuity \<Rightarrow> MissionContinuity" where
  "record_requested_change change previous_plan_id now s =
     s\<lparr>mc_requested_changes_history := mc_requested_changes_history s @
     [JObj [(''revision'', revision_of (mc_requested_changes_history s)), (''text'', JStr change),
            (''previous_plan_id'', jopt previous_plan_id), (''recorded_at'', JStr now)]]\<rparr>"

definition record_validator_findings ::
  "pystr list \<Rightarrow> pystr option \<Rightarrow> pystr \<Rightarrow> MissionContinuity \<Rightarrow> MissionContinuity" where
  "record_validator_findings findings plan_id now s =
     s\<lparr>mc_validator_findings_history := mc_validator_findings_history s @
     [JObj [(''revision'', revision_of (mc_validator_findings_history s)), (''plan_id'', jopt plan_id),
            (''findings'', jstrs findings), (''recorded_at'', JStr now)]]\<rparr>"

definition record_approval :: "pystr \<Rightarrow> pystr option \<Rightarrow> pystr option \<Rightarrow> MissionContinuity \<Rightarrow> MissionContinuity" where
  "record_approval status approved_by approved_at s =
     s\<lparr>mc_approval := [(''status'', JStr status), (''approved_by'', jopt approved_by), (''approved_at'', jopt approved_at)]\<rparr>"

definition record_execution_started :: "pystr \<Rightarrow> pystr \<Rightarrow> MissionContinuity \<Rightarrow> MissionContinuity" where
  "record_execution_started plan_id now s =
     s\<lparr>mc_execution := [(''started'', JBool True), (''completed'', JBool False), (''plan_id'', JStr plan_id),
        (''tools_executed'', JList []), (''started_at'', JStr now)]\<rparr>"

definition tool_entry :: "EvidenceRecord \<Rightarrow> json" where
  "tool_entry e = JObj [(''task_id'', JStr (ev_task_id e)), (''provider'', JStr (ev_provider e)),
     (''model'', JStr (ev_model e)), (''status'', JStr (ev_status e))]"

definition record_execution_finished :: "EvidenceRecord list \<Rightarrow> pystr \<Rightarrow> MissionContinuity \<Rightarrow> MissionContinuity" where
  "record_execution_finished evidence now s =
     s\<lparr>mc_execution := dict_set (dict_set (dict_set (mc_execution s) ''completed'' (JBool True))
        ''finished_at'' (JStr now)) ''tools_executed'' (JList (map tool_entry evidence))\<rparr>"

definition planner_context :: "MissionContinuity \<Rightarrow> jdict" where
  "planner_context s = [
     (''schema_version'', JStr (mc_schema_version s)), (''mission_id'', JStr (mc_mission_id s)),
     (''original_request'', JStr (mc_original_request s)), (''repo_baseline'', JObj (mc_repo_baseline s)),
     (''requested_changes_history'', JList (mc_requested_changes_history s)),
     (''validator_findings_history'', JList (mc_validator_findings_history s)),
     (''previous_plan'', if mc_plan_revisions s = [] then JNull
        else dget (the_obj (last (mc_plan_revisions s))) ''plan''),
     (''approval'', JObj (mc_approval s)), (''execution'', JObj (mc_execution s)),
     (''provider_sessions'', JObj (mc_provider_sessions s))]"

definition validate_replanned_plan :: "MissionPlan \<Rightarrow> MissionContinuity \<Rightarrow> bool" where
  "validate_replanned_plan plan s = (p_mission_id plan = mc_mission_id s)"

section \<open>Histories\<close>

text \<open>One recording call: the state changes, then \<open>save\<close> runs and may fail.\<close>

inductive store_step :: "continuity_store \<Rightarrow> continuity_store \<Rightarrow> bool" where
  step_plan: "store_step st (store_save ok t2 (st\<lparr>cs_state := record_plan plan reason t1 (cs_state st)\<rparr>))"
| step_change: "store_step st (store_save ok t2 (st\<lparr>cs_state := record_requested_change c p t1 (cs_state st)\<rparr>))"
| step_findings: "store_step st (store_save ok t2 (st\<lparr>cs_state := record_validator_findings fs p t1 (cs_state st)\<rparr>))"
| step_approval: "store_step st (store_save ok t2 (st\<lparr>cs_state := record_approval s b a (cs_state st)\<rparr>))"
| step_started: "store_step st (store_save ok t2 (st\<lparr>cs_state := record_execution_started p t1 (cs_state st)\<rparr>))"
| step_finished: "store_step st (store_save ok t2 (st\<lparr>cs_state := record_execution_finished es t1 (cs_state st)\<rparr>))"

definition numbered :: "json list \<Rightarrow> bool" where
  "numbered history \<longleftrightarrow>
     (\<forall>i < length history. dget (the_obj (history ! i)) ''revision'' = JInt (int i + 1))"

lemma numbered_append:
  "numbered history \<Longrightarrow> numbered (history @ [JObj ((''revision'', revision_of history) # rest)])"
  by (auto simp: numbered_def nth_append revision_of_def less_Suc_eq)

definition extends :: "MissionContinuity \<Rightarrow> MissionContinuity \<Rightarrow> bool" where
  "extends s s' \<longleftrightarrow>
     mc_schema_version s' = mc_schema_version s \<and> mc_mission_id s' = mc_mission_id s \<and>
     mc_original_request s' = mc_original_request s \<and> mc_repo_baseline s' = mc_repo_baseline s \<and>
     mc_provider_sessions s' = mc_provider_sessions s \<and>
     prefix (mc_plan_revisions s) (mc_plan_revisions s') \<and>
     prefix (mc_requested_changes_history s) (mc_requested_changes_history s') \<and>
     prefix (mc_validator_findings_history s) (mc_validator_findings_history s')"

definition all_numbered :: "MissionContinuity \<Rightarrow> bool" where
  "all_numbered s \<longleftrightarrow> numbered (mc_plan_revisions s) \<and> numbered (mc_requested_changes_history s) \<and>
     numbered (mc_validator_findings_history s)"

lemmas recording_defs = record_plan_def record_requested_change_def record_validator_findings_def record_approval_def
  record_execution_started_def record_execution_finished_def store_save_def Let_def

text \<open>The file is what it was, or the whole of a state that extends the beginning.\<close>

definition faithful_file :: "MissionContinuity \<Rightarrow> disk_file \<Rightarrow> disk_file \<Rightarrow> bool" where
  "faithful_file s0 f0 f \<longleftrightarrow> f = f0 \<or> (\<exists>s. f = FJson (JObj (asdict_continuity s)) \<and> extends s0 s \<and> all_numbered s)"

definition store_ok :: "MissionContinuity \<Rightarrow> disk_file \<Rightarrow> continuity_store \<Rightarrow> bool" where
  "store_ok s0 f0 st \<longleftrightarrow> extends s0 (cs_state st) \<and> all_numbered (cs_state st) \<and> faithful_file s0 f0 (cs_file st)"

lemma extends_trans: "extends a b \<Longrightarrow> extends b c \<Longrightarrow> extends a c"
  by (auto simp: extends_def intro: prefix_order.trans)

lemma store_step_state:
  assumes "store_step st st'" and "all_numbered (cs_state st)"
  shows "extends (cs_state st) (cs_state st') \<and> all_numbered (cs_state st') \<and>
     (cs_file st' = cs_file st \<or> cs_file st' = FJson (JObj (asdict_continuity (cs_state st'))))"
  using assms by cases (auto simp: recording_defs extends_def all_numbered_def numbered_append)

interpretation memory: kept store_step "store_ok s0 f0"
proof
  fix st st' assume ok: "store_ok s0 f0 st" and step: "store_step st st'"
  then have "all_numbered (cs_state st)" by (simp add: store_ok_def)
  from store_step_state [OF step this] ok show "store_ok s0 f0 st'"
    unfolding store_ok_def faithful_file_def by (metis extends_trans)
qed

section \<open>Properties\<close>

lemma dget_asdict_continuity [simp]:
  "dict_get (asdict_continuity s) ''schema_version'' = Some (JStr (mc_schema_version s))"
  "dict_get (asdict_continuity s) ''mission_id'' = Some (JStr (mc_mission_id s))"
  "dict_get (asdict_continuity s) ''original_request'' = Some (JStr (mc_original_request s))"
  "dict_get (asdict_continuity s) ''repo_baseline'' = Some (JObj (mc_repo_baseline s))"
  "dict_get (asdict_continuity s) ''requested_changes_history'' = Some (JList (mc_requested_changes_history s))"
  "dict_get (asdict_continuity s) ''validator_findings_history'' = Some (JList (mc_validator_findings_history s))"
  "dict_get (asdict_continuity s) ''plan_revisions'' = Some (JList (mc_plan_revisions s))"
  "dict_get (asdict_continuity s) ''approval'' = Some (JObj (mc_approval s))"
  "dict_get (asdict_continuity s) ''execution'' = Some (JObj (mc_execution s))"
  "dict_get (asdict_continuity s) ''provider_sessions'' = Some (JObj (mc_provider_sessions s))"
  "dict_get (asdict_continuity s) ''updated_at'' = Some (JStr (mc_updated_at s))"
  by (simp_all add: asdict_continuity_def)

lemma continuity_of_asdict:
  "continuity_of (asdict_continuity s) now = s" "continuity_typed (asdict_continuity s)"
  by (simp_all add: continuity_of_def continuity_typed_def field_or_def dget_def)

lemma create_existing:
  "store_create (FJson (JObj (asdict_continuity s))) ok now mission_id request baseline =
     (if mc_original_request s = request
      then Inr \<lparr>cs_state = s, cs_file = FJson (JObj (asdict_continuity s))\<rparr>
      else Inl (ContinuityRaised ValueError))"
proof -
  have "list_all (\<lambda>(k, _). k \<in> set CONTINUITY_FIELDS) (asdict_continuity s)"
    by (simp add: asdict_continuity_def CONTINUITY_FIELDS_def)
  moreover have "list_all (\<lambda>k. dict_get (asdict_continuity s) k \<noteq> None) CONTINUITY_REQUIRED"
    by (simp add: CONTINUITY_REQUIRED_def)
  moreover have "dget (asdict_continuity s) ''original_request'' = JStr (mc_original_request s)"
    by (simp add: dget_def)
  ultimately show ?thesis
    by (auto simp: store_create_def continuity_of_asdict)
qed

text \<open>
  C32: along any sequence of recorded plans, changes, findings, approvals and executions, saved or
  not, a mission's identity, original request and baseline never change, the three histories only
  grow, their entries are numbered 1, 2, 3, \<dots>, and the file on disk is either untouched or the
  whole of one such state.
\<close>

theorem continuity_is_append_only:
  assumes "store_step\<^sup>*\<^sup>* st st'" and "all_numbered (cs_state st)"
  shows "extends (cs_state st) (cs_state st') \<and> all_numbered (cs_state st') \<and>
     faithful_file (cs_state st) (cs_file st) (cs_file st')"
proof -
  have "store_ok (cs_state st) (cs_file st) st"
    using assms(2) by (simp add: store_ok_def extends_def faithful_file_def)
  from memory.history [OF assms(1) this] show ?thesis by (simp add: store_ok_def)
qed

definition demo_store :: continuity_store where
  "demo_store = \<lparr>cs_state = \<lparr>mc_schema_version = ''1.0'', mc_mission_id = ''mission-demo'',
     mc_original_request = ''in two steps, please'', mc_repo_baseline = [], mc_requested_changes_history = [],
     mc_validator_findings_history = [], mc_plan_revisions = [], mc_approval = default_approval,
     mc_execution = default_execution, mc_provider_sessions = [], mc_updated_at = ''t''\<rparr>, cs_file = FAbsent\<rparr>"

theorem continuity_is_append_only_witness:
  "\<exists>st'. store_step\<^sup>*\<^sup>* demo_store st' \<and> length (mc_plan_revisions (cs_state st')) = 2 \<and> all_numbered (cs_state st')"
proof -
  let ?a = "store_save True ''t2'' (demo_store\<lparr>cs_state := record_plan demo_plan ''first'' ''t1'' (cs_state demo_store)\<rparr>)"
  let ?b = "store_save False ''t4'' (?a\<lparr>cs_state := record_plan demo_plan ''again'' ''t3'' (cs_state ?a)\<rparr>)"
  have h: "store_step\<^sup>*\<^sup>* demo_store ?b"
    by (rule rtranclp.rtrancl_into_rtrancl [OF r_into_rtranclp]) (rule step_plan)+
  have n: "all_numbered (cs_state demo_store)" by (simp add: demo_store_def all_numbered_def numbered_def)
  have "length (mc_plan_revisions (cs_state ?b)) = 2"
    by (simp add: recording_defs demo_store_def)
  with h continuity_is_append_only [OF h n] show ?thesis by blast
qed

text \<open>
  Reopening a mission. After any recorded history that was saved last, creating the store again
  with the original request returns exactly the saved state, with any other request it raises; and
  the executor's reading of the durable request, within the size it accepts, is that request.
\<close>

theorem continuity_reopens:
  assumes "cs_file st = FJson (JObj (asdict_continuity (cs_state st)))"
  shows "store_create (cs_file st) ok now mission_id request baseline =
       (if request = mc_original_request (cs_state st) then Inr st else Inl (ContinuityRaised ValueError)) \<and>
     (mc_schema_version (cs_state st) = ''1.0'' \<and> py_nonblank (mc_original_request (cs_state st)) \<and> n \<le> 2000000 \<longrightarrow>
      durable_original_request \<lparr>cf_regular = True, cf_bytes = n, cf_content = cs_file st\<rparr> (mc_mission_id (cs_state st)) =
        Some (mc_original_request (cs_state st)))"
  using create_existing [of "cs_state st" ok now mission_id request baseline] assms
  by (auto simp: durable_original_request_def dget_def)

theorem continuity_reopens_witness:
  "(let st = store_save True ''t2'' demo_store in
     store_create (cs_file st) True ''t3'' ''mission-demo'' ''in two steps, please'' [] = Inr st \<and>
     store_create (cs_file st) True ''t3'' ''mission-demo'' ''something else'' [] = Inl (ContinuityRaised ValueError) \<and>
     durable_original_request \<lparr>cf_regular = True, cf_bytes = 900, cf_content = cs_file st\<rparr> ''mission-demo'' =
       Some ''in two steps, please'')"
proof -
  let ?st = "store_save True ''t2'' demo_store"
  have f: "cs_file ?st = FJson (JObj (asdict_continuity (cs_state ?st)))"
    and r: "mc_original_request (cs_state ?st) = ''in two steps, please''" "mc_schema_version (cs_state ?st) = ''1.0''"
      "mc_mission_id (cs_state ?st) = ''mission-demo''"
    by (simp_all add: store_save_def Let_def demo_store_def)
  have nb: "py_nonblank ''in two steps, please''" by code_simp
  show ?thesis
    using continuity_reopens [OF f, of True "''t3''" "''mission-demo''" "''in two steps, please''" "[]" 900]
      continuity_reopens [OF f, of True "''t3''" "''mission-demo''" "''something else''" "[]" 900] nb
    by (simp add: r Let_def)
qed

end
