(* ===== verification/Execute_Plan.thy ===== *)
theory Execute_Plan
  imports Mission_History Required_Sources Json_Text Py_Values
begin

text \<open>
  \<^verbatim>\<open>tools/konoha_v4/executor.py\<close>, the prompt of an assignment (\<open>_task_prompt\<close>) and the
  all-or-nothing runtime \<open>execute_plan\<close>, which runs a whole plan in one call: it refuses a plan
  with a mutating task or with a gate that the plan's approval does not open, and otherwise runs
  the assignments in order until one does not complete.

  \<open>step_env\<close> is what the world answers for one assignment. A call yields its effects in order
  (the type of the resumable runtime) and either the exception that left it or its evidence.
\<close>

section \<open>The prompt\<close>

definition TASK_RULES :: "pystr list" where
  "TASK_RULES = [
     ''La salida es evidencia, no autoridad.'',
     ''No conviertas inferencias en hechos o normas.'',
     ''No excedas el alcance de la tarea.'',
     ''Cuando cites una ruta, l'' @ [CHR 0xED] @
     ''nea o localizador, escribilo dentro del texto del campo source (por ejemplo '' @ [dquote] @
     ''path/to/file.py:10-20'' @ [dquote] @ ''); nunca como una clave JSON separada.'',
     ''El workspace es read-only.'',
     ''Para tests us'' @ [CHR 0xE1] @
     '' PYTHONDONTWRITEBYTECODE=1, PYTHONPYCACHEPREFIX, TMPDIR y KONOHA_STATE_ROOT privados.'',
     ''La verificaci'' @ [CHR 0xF3] @ ''n de integridad Git antes/despu'' @ [CHR 0xE9] @
     ''s pertenece al runtime. No ejecutes git status '' @ [CHR 0xFA] @
     ''nicamente para reproducir ese gate ni uses timeouts propios para inferir que el '' @
     ''workspace est'' @ [CHR 0xE1] @ '' bloqueado.'',
     ''Devolv'' @ [CHR 0xE9] @
     '' exclusivamente un objeto JSON con exactamente estas seis claves: outcome, '' @
     ''objective_satisfied, summary, diagnostic, evidence, review_outcome. Ning'' @ [CHR 0xFA] @
     ''n texto fuera de ese JSON.'',
     ''evidence debe ser un array JSON. Cada elemento debe ser un objeto con EXACTAMENTE estas '' @
     ''dos claves: source, observation. Ning'' @ [CHR 0xFA] @ ''n otro nombre de clave est'' @
     [CHR 0xE1] @
     '' permitido en un elemento de evidence (por ejemplo, locator, content, path y quote NO '' @
     ''son claves v'' @ [CHR 0xE1] @ ''lidas). Ambos valores deben ser strings no vac'' @ [CHR 0xED] @
     ''os. Ejemplo de un elemento v'' @ [CHR 0xE1] @ ''lido: {'' @ [dquote] @ ''source'' @ [dquote] @
     '': '' @ [dquote] @ ''path/to/file.py:10-20'' @ [dquote] @ '', '' @ [dquote] @ ''observation'' @
     [dquote] @ '': '' @ [dquote] @ ''Hecho observado respaldado por esa fuente.'' @ [dquote] @
     ''}. Para tareas autocontenidas sin evidencia externa o de archivos, pod'' @ [CHR 0xE9] @
     ''s usar como source '' @ [dquote] @ ''task_prompt'' @ [dquote] @ '' o '' @ [dquote] @
     ''mission_context'' @ [dquote] @ '' siempre que la observaci'' @ [CHR 0xF3] @ ''n est'' @
     [CHR 0xE9] @
     '' efectivamente respaldada por ese contexto suministrado. El campo mission_context de '' @
     ''este mismo JSON es exactamente el array explicit_facts del plan aprobado; si '' @
     ''mission_context_truncated=true, solo se incluye una vista acotada. no es el mensaje '' @
     ''original completo del humano, y citarlo como source significa citar uno de esos hechos '' @
     ''expl'' @ [CHR 0xED] @
     ''citos, no inventar contenido adicional. No fabriques evidencia: si no hay evidencia que '' @
     ''respalde el resultado, un array evidence vac'' @ [CHR 0xED] @ ''o sigue siendo v'' @
     [CHR 0xE1] @ ''lido cuando la sem'' @ [CHR 0xE1] @ ''ntica del resultado lo permite.'',
     ''outcome=completed requiere objective_satisfied=true; outcome en {blocked, failed, '' @
     ''changes_requested} requiere objective_satisfied=false.'',
     ''Si tu family es jounin-review, review_outcome es obligatorio y debe corresponder '' @
     ''exactamente con outcome/objective_satisfied: approved o approved_with_notes -> completed '' @
     ''+ true; blocked -> blocked + false; changes_requested -> changes_requested + false. Para '' @
     ''cualquier otra family, review_outcome debe ser null.'',
     ''El resultado es evidencia, no autoridad: quien lo interpreta valida el JSON de forma '' @
     ''determinista, nunca busca palabras dentro de texto libre.'']"

text \<open>The comprehension over \<open>task.__dict__\<close>.\<close>

fun bounded_task_value :: "json \<Rightarrow> json" where
  "bounded_task_value (JStr s) = JStr (take MAX_MATERIAL_TEXT_CHARS s)"
| "bounded_task_value (JList xs) =
     JList (map (\<lambda>v. case v of JStr s \<Rightarrow> JStr (take MAX_MATERIAL_TEXT_CHARS s) | _ \<Rightarrow> v) (take MAX_MATERIAL_LIST_ITEMS xs))"
| "bounded_task_value v = v"

definition mission_context :: "MissionPlan \<Rightarrow> json" where
  "mission_context plan =
     jstrs (map (take MAX_MATERIAL_TEXT_CHARS) (take MAX_MATERIAL_LIST_ITEMS (p_explicit_facts plan)))"

definition mission_context_truncated :: "MissionPlan \<Rightarrow> bool" where
  "mission_context_truncated plan \<longleftrightarrow> length (p_explicit_facts plan) > MAX_MATERIAL_LIST_ITEMS \<or>
     list_ex (\<lambda>fact. length fact > MAX_MATERIAL_TEXT_CHARS) (p_explicit_facts plan)"

definition task_prompt_payload :: "MissionPlan \<Rightarrow> AgentAssignment \<Rightarrow> jdict \<Rightarrow> jdict \<Rightarrow> jdict" where
  "task_prompt_payload plan task family resolved_source_bundle = [
     (''mission_id'', JStr (p_mission_id plan)),
     (''mission_understanding'', JStr (take MAX_MATERIAL_TEXT_CHARS (p_understanding plan))),
     (''mission_context'', mission_context plan),
     (''mission_context_truncated'', JBool (mission_context_truncated plan)),
     (''task'', JObj (map (\<lambda>(key, value). (key, bounded_task_value value)) (the_obj (asdict_assignment task)))),
     (''task_context_bounded'', JBool True),
     (''agent_contract'', bounded_value 0 (JObj family)),
     (''resolved_source_bundle'', JObj resolved_source_bundle),
     (''workspace_policy'', bounded_value 0 (JObj (p_workspace_policy plan))),
     (''rules'', jstrs TASK_RULES)]"

definition task_prompt :: "MissionPlan \<Rightarrow> AgentAssignment \<Rightarrow> jdict \<Rightarrow> jdict \<Rightarrow> pystr" where
  "task_prompt plan task family resolved_source_bundle =
     json_dumps_indent 0 (JObj (task_prompt_payload plan task family resolved_source_bundle))"

section \<open>Gates and refusals\<close>

definition gate_satisfied :: "MissionPlan \<Rightarrow> AgentAssignment \<Rightarrow> bool" where
  "gate_satisfied plan task \<longleftrightarrow>
     (let gate = a_execution_gate task in
      if gate \<notin> set EXECUTION_GATES then False
      else if gate = ''plan_approval'' then dget (p_approval plan) ''status'' = JStr ''approved''
      else False)"

record step_env =
  s_uuid :: pystr
  s_now :: json
  s_gate :: gate_env
  s_git_before :: git_outcome
  s_run :: run_env
  s_persist :: bool
  s_torn :: disk_file

definition blocked_evidence :: "step_env \<Rightarrow> MissionPlan \<Rightarrow> AgentAssignment \<Rightarrow> EvidenceRecord" where
  "blocked_evidence e plan task =
     evidence_build (s_uuid e) (p_mission_id plan) (a_task_id task) (a_provider task) (a_model task) ''blocked''
       (''Assignment execution gate bloqueado. task_id='' @ a_task_id task @ '' execution_gate='' @
        repr_str (a_execution_gate task) @ ''.'')
       [] [] (s_now e) (s_now e)"

definition mutation_blocked_evidence :: "step_env \<Rightarrow> MissionPlan \<Rightarrow> AgentAssignment \<Rightarrow> EvidenceRecord" where
  "mutation_blocked_evidence e plan task =
     evidence_build (s_uuid e) (p_mission_id plan) (a_task_id task) (a_provider task) (a_model task) ''blocked''
       (''mutation_runtime_not_supported: el runtime de worktree aislado para mutaci'' @ [CHR 0xF3] @
        ''n todav'' @ [CHR 0xED] @ ''a no existe. task_id='' @ a_task_id task @ ''.'')
       [] [] (s_now e) (s_now e)"

definition baseline_failed_evidence :: "step_env \<Rightarrow> MissionPlan \<Rightarrow> AgentAssignment \<Rightarrow> pystr \<Rightarrow> EvidenceRecord" where
  "baseline_failed_evidence e plan task diagnostic =
     evidence_build (s_uuid e) (p_mission_id plan) (a_task_id task) (a_provider task) (a_model task) ''failed''
       (diagnostic @ '': no se pudo capturar el estado Git base antes de ejecutar.'')
       [] [] (s_now e) (s_now e)"

section \<open>The runtime\<close>

datatype legacy_exn =
  RegistryError | RequiredSourcesError pystr | GateRaised py_exn | RunRaised run_exn | PersistRaised

type_synonym legacy_outcome = "effect list \<times> (legacy_exn + EvidenceRecord list)"

text \<open>\<open>_persist\<close> followed by \<open>k\<close>; a failed write leaves any content behind and raises.\<close>

definition persist_then :: "step_env \<Rightarrow> EvidenceRecord \<Rightarrow> legacy_outcome \<Rightarrow> legacy_outcome" where
  "persist_then e rec k =
     (if s_persist e then (PersistEvidence rec # fst k, snd k)
      else ([TornEvidence (ev_evidence_id rec) (s_torn e)], Inl PersistRaised))"

fun block_offenders ::
  "(nat \<Rightarrow> step_env) \<Rightarrow> MissionPlan \<Rightarrow> nat \<Rightarrow> AgentAssignment list \<Rightarrow> EvidenceRecord list \<Rightarrow> legacy_outcome" where
  "block_offenders env plan i [] evidence = ([], Inr evidence)"
| "block_offenders env plan i (task # tasks) evidence =
     (let rec = blocked_evidence (env i) plan task
      in persist_then (env i) rec (block_offenders env plan (Suc i) tasks (evidence @ [rec])))"

fun run_assignments ::
  "CapabilityRegistry \<Rightarrow> (nat \<Rightarrow> step_env) \<Rightarrow> MissionPlan \<Rightarrow> nat \<Rightarrow> AgentAssignment list \<Rightarrow> EvidenceRecord list \<Rightarrow>
   legacy_outcome" where
  "run_assignments registry env plan i [] evidence = ([], Inr evidence)"
| "run_assignments registry env plan i (task # tasks) evidence =
     (case agent_family registry (a_family task) of
        None \<Rightarrow> ([], Inl RegistryError)
      | Some family \<Rightarrow>
         (case required_sources_gate (s_gate (env i)) registry plan task family evidence of
            GateRaises e \<Rightarrow> ([], Inl (GateRaised e))
          | GateRefuses diagnostic \<Rightarrow> ([], Inl (RequiredSourcesError diagnostic))
          | GatePasses material \<Rightarrow>
             (case s_git_before (env i) of
                GitTimeout \<Rightarrow>
                  (let rec = baseline_failed_evidence (env i) plan task ''git_status_timeout''
                   in persist_then (env i) rec ([], Inr (evidence @ [rec])))
              | GitFailed \<Rightarrow>
                  (let rec = baseline_failed_evidence (env i) plan task ''git_status_failed''
                   in persist_then (env i) rec ([], Inr (evidence @ [rec])))
              | GitClean baseline \<Rightarrow>
                 (case run_assignment (s_run (env i)) plan task baseline of
                    Inl e \<Rightarrow> ([Invoke task], Inl (RunRaised e))
                  | Inr (rec, diagnostic) \<Rightarrow>
                      (let r = persist_then (env i) rec
                         (if ev_status rec \<noteq> ''completed'' then ([], Inr (evidence @ [rec]))
                          else run_assignments registry env plan (Suc i) tasks (evidence @ [rec]))
                       in (Invoke task # fst r, snd r))))))"

definition execute_plan :: "CapabilityRegistry \<Rightarrow> (nat \<Rightarrow> step_env) \<Rightarrow> MissionPlan \<Rightarrow> legacy_outcome" where
  "execute_plan registry env plan =
     (case filter a_mutation (p_assignments plan) of
        task # _ \<Rightarrow>
          (let rec = mutation_blocked_evidence (env 0) plan task in persist_then (env 0) rec ([], Inr [rec]))
      | [] \<Rightarrow>
         (case filter (\<lambda>task. \<not> gate_satisfied plan task) (p_assignments plan) of
            [] \<Rightarrow> run_assignments registry env plan 0 (p_assignments plan) []
          | offenders \<Rightarrow> block_offenders env plan 0 offenders []))"

section \<open>Lemmas\<close>

fun persisted :: "effect list \<Rightarrow> EvidenceRecord list" where
  "persisted [] = []"
| "persisted (PersistEvidence r # evs) = r # persisted evs"
| "persisted (_ # evs) = persisted evs"

lemma gate_satisfied_iff:
  "gate_satisfied plan t \<longleftrightarrow>
     a_execution_gate t = ''plan_approval'' \<and> dget (p_approval plan) ''status'' = JStr ''approved''"
  by (auto simp: gate_satisfied_def Let_def EXECUTION_GATES_def)

lemma built_evidence [simp]:
  "ev_task_id (blocked_evidence e plan t) = a_task_id t" "ev_status (blocked_evidence e plan t) = ''blocked''"
  "ev_task_id (mutation_blocked_evidence e plan t) = a_task_id t"
  "ev_status (mutation_blocked_evidence e plan t) = ''blocked''"
  "ev_task_id (baseline_failed_evidence e plan t d) = a_task_id t"
  "ev_status (baseline_failed_evidence e plan t d) = ''failed''"
  by (simp_all add: blocked_evidence_def mutation_blocked_evidence_def baseline_failed_evidence_def evidence_build_def)

lemma persist_then_eq:
  "persist_then e rec k = (effs, res) \<longleftrightarrow>
     (if s_persist e then effs = PersistEvidence rec # fst k \<and> res = snd k
      else effs = [TornEvidence (ev_evidence_id rec) (s_torn e)] \<and> res = Inl PersistRaised)"
  by (auto simp: persist_then_def)

lemma block_offenders_effects:
  "block_offenders env plan i tasks evidence = (effs, res) \<Longrightarrow>
     invocations effs = [] \<and>
     (case res of Inl x \<Rightarrow> True
      | Inr out \<Rightarrow> \<exists>new. out = evidence @ new \<and> persisted effs = new \<and> map ev_task_id new = map a_task_id tasks \<and>
          list_all (\<lambda>r. ev_status r = ''blocked'') new)"
proof (induction env plan i tasks evidence arbitrary: effs rule: block_offenders.induct)
  case (2 env plan i task tasks evidence)
  obtain effs' res' where "block_offenders env plan (Suc i) tasks (evidence @ [blocked_evidence (env i) plan task]) = (effs', res')"
    by force
  with 2 show ?case
    by (auto simp: Let_def persist_then_eq split: if_splits sum.splits)
qed auto

text \<open>
  What a run from position \<open>i\<close> did: it invoked a prefix of the tasks, each after its sources gate
  passed with the evidence so far, and what it returns is one record per task of a prefix, all
  but the last of them completed.
\<close>

definition ran_prefix ::
  "CapabilityRegistry \<Rightarrow> (nat \<Rightarrow> step_env) \<Rightarrow> MissionPlan \<Rightarrow> nat \<Rightarrow> AgentAssignment list \<Rightarrow> EvidenceRecord list \<Rightarrow>
   legacy_outcome \<Rightarrow> bool" where
  "ran_prefix registry env plan i tasks evidence r \<longleftrightarrow>
     (\<exists>n \<le> length tasks. invocations (fst r) = map a_task_id (take n tasks) \<and>
        (\<forall>k < n. \<exists>family material. agent_family registry (a_family (tasks ! k)) = Some family \<and>
           required_sources_gate (s_gate (env (i + k))) registry plan (tasks ! k) family
             (evidence @ take k (persisted (fst r))) = GatePasses material)) \<and>
     (\<forall>out. snd r = Inr out \<longrightarrow>
        out = evidence @ persisted (fst r) \<and>
        map ev_task_id (persisted (fst r)) = map a_task_id (take (length (persisted (fst r))) tasks) \<and>
        length (persisted (fst r)) \<le> length tasks \<and>
        list_all (\<lambda>rec. ev_status rec = ''completed'') (butlast (persisted (fst r))) \<and>
        (length (persisted (fst r)) < length tasks \<longrightarrow>
           persisted (fst r) \<noteq> [] \<and> ev_status (last (persisted (fst r))) \<noteq> ''completed''))"

lemma ran_prefix_none:
  "ran_prefix registry env plan i tasks evidence ([], Inl x)"
  by (auto simp: ran_prefix_def intro: exI [of _ 0])

lemma ran_prefix_baseline:
  assumes "ev_task_id rec = a_task_id t" and "ev_status rec = ''failed''"
  shows "ran_prefix registry env plan i (t # ts) evidence (persist_then e rec ([], Inr (evidence @ [rec])))"
  using assms by (auto simp: ran_prefix_def persist_then_def intro: exI [of _ 0])

text \<open>One more task in front of a run.\<close>

lemma ran_prefix_step:
  assumes gate: "agent_family registry (a_family t) = Some family"
    "required_sources_gate (s_gate (env i)) registry plan t family evidence = GatePasses material"
    and rec: "ev_task_id rec = a_task_id t"
    and k: "if ev_status rec = ''completed'' then ran_prefix registry env plan (Suc i) ts (evidence @ [rec]) k
            else k = ([], Inr (evidence @ [rec]))"
    and r: "r = persist_then e rec k"
  shows "ran_prefix registry env plan i (t # ts) evidence (Invoke t # fst r, snd r)"
proof (cases "s_persist e")
  case False
  with gate r show ?thesis
    by (auto simp: ran_prefix_def persist_then_def intro!: exI [of _ 1])
next
  case True
  show ?thesis
  proof (cases "ev_status rec = ''completed''")
    case False
    with gate r True rec k show ?thesis
      by (auto simp: ran_prefix_def persist_then_def intro!: exI [of _ 1])
  next
    case completed: True
    with k obtain n where n: "n \<le> length ts" "invocations (fst k) = map a_task_id (take n ts)"
      "\<forall>j < n. \<exists>family material. agent_family registry (a_family (ts ! j)) = Some family \<and>
           required_sources_gate (s_gate (env (Suc i + j))) registry plan (ts ! j) family
             ((evidence @ [rec]) @ take j (persisted (fst k))) = GatePasses material"
      by (auto simp: ran_prefix_def)
    have "\<exists>family material. agent_family registry (a_family ((t # ts) ! j)) = Some family \<and>
           required_sources_gate (s_gate (env (i + j))) registry plan ((t # ts) ! j) family
             (evidence @ take j (rec # persisted (fst k))) = GatePasses material" if "j < Suc n" for j
      using that gate n(3) by (cases j) auto
    then have "\<exists>m \<le> length (t # ts). invocations (Invoke t # fst r) = map a_task_id (take m (t # ts)) \<and>
        (\<forall>j < m. \<exists>family material. agent_family registry (a_family ((t # ts) ! j)) = Some family \<and>
           required_sources_gate (s_gate (env (i + j))) registry plan ((t # ts) ! j) family
             (evidence @ take j (persisted (Invoke t # fst r))) = GatePasses material)"
      using n(1,2) True r by (intro exI [of _ "Suc n"]) (simp add: persist_then_def)
    then show ?thesis
      using k completed True r rec unfolding ran_prefix_def by (auto simp: persist_then_def)
  qed
qed

lemma run_assignments_prefix:
  "ran_prefix registry env plan i tasks evidence (run_assignments registry env plan i tasks evidence)"
proof (induction registry env plan i tasks evidence rule: run_assignments.induct)
  case (1 registry env plan i evidence)
  show ?case by (simp add: ran_prefix_def)
next
  case (2 registry env plan i t ts evidence)
  show ?case
  proof (cases "agent_family registry (a_family t)")
    case None
    then show ?thesis by (simp add: ran_prefix_none)
  next
    case family: (Some family)
    show ?thesis
    proof (cases "required_sources_gate (s_gate (env i)) registry plan t family evidence")
      case gate: (GatePasses material)
      show ?thesis
      proof (cases "s_git_before (env i)")
        case git: (GitClean baseline)
        show ?thesis
        proof (cases "run_assignment (s_run (env i)) plan t baseline")
          case (Inl x)
          with family gate git show ?thesis
            by (auto simp: ran_prefix_def intro!: exI [of _ 1])
        next
          case (Inr p)
          obtain rec d where p: "p = (rec, d)" by force
          have "ran_prefix registry env plan i (t # ts) evidence (Invoke t # fst r, snd r)"
            if "r = persist_then (env i) rec (if ev_status rec \<noteq> ''completed'' then ([], Inr (evidence @ [rec]))
                  else run_assignments registry env plan (Suc i) ts (evidence @ [rec]))" for r
          proof (rule ran_prefix_step [where env = env and i = i, OF family gate _ _ that])
            show "ev_task_id rec = a_task_id t"
              by (rule run_assignment_result(3) [OF Inr [unfolded p]])
          qed (use 2 [OF family gate git Inr p [symmetric]] in auto)
          with family gate git Inr p show ?thesis by (simp add: Let_def)
        qed
      qed (use family gate in \<open>auto simp: Let_def intro: ran_prefix_baseline\<close>)
    qed (use family in \<open>simp_all add: ran_prefix_none\<close>)
  qed
qed

lemma execute_plan_cases:
  obtains (mutating) task where "task \<in> set (p_assignments plan)" "a_mutation task"
      "execute_plan registry env plan =
         persist_then (env 0) (mutation_blocked_evidence (env 0) plan task) ([], Inr [mutation_blocked_evidence (env 0) plan task])"
    | (closed) offenders where "offenders = filter (\<lambda>t. \<not> gate_satisfied plan t) (p_assignments plan)" "offenders \<noteq> []"
      "execute_plan registry env plan = block_offenders env plan 0 offenders []"
    | (opened) "\<forall>t \<in> set (p_assignments plan). \<not> a_mutation t \<and> gate_satisfied plan t"
      "execute_plan registry env plan = run_assignments registry env plan 0 (p_assignments plan) []"
proof (cases "filter a_mutation (p_assignments plan)")
  case (Cons t ts)
  then have "t \<in> set (p_assignments plan)" "a_mutation t"
    by (auto simp: filter_eq_Cons_iff)
  with Cons show ?thesis by (intro mutating [of t]) (simp_all add: execute_plan_def Let_def)
next
  case Nil
  then have calm: "\<forall>t \<in> set (p_assignments plan). \<not> a_mutation t" by (simp add: filter_empty_conv)
  show ?thesis
  proof (cases "filter (\<lambda>t. \<not> gate_satisfied plan t) (p_assignments plan)")
    case shut: Nil
    then have "\<forall>t \<in> set (p_assignments plan). gate_satisfied plan t" by (simp add: filter_empty_conv)
    with calm Nil shut show ?thesis by (intro opened) (simp_all add: execute_plan_def)
  next
    case (Cons t ts)
    with Nil show ?thesis by (intro closed [of "t # ts"]) (simp_all add: execute_plan_def)
  qed
qed

lemma persist_then_no_invoke [simp]: "invocations (fst (persist_then e rec ([], x))) = []"
  by (simp add: persist_then_def)

section \<open>A run of the demonstration plan\<close>

definition demo_open :: MissionPlan where
  "demo_open = demo_approved\<lparr>p_assignments := [demo_a1]\<rparr>"

definition demo_step :: step_env where
  "demo_step = \<lparr>s_uuid = replicate 32 (CHR ''c''), s_now = JInt 1, s_gate = demo_ge, s_git_before = GitClean [],
     s_run = demo_run_env, s_persist = True, s_torn = FUnreadable\<rparr>"

lemma demo_open_simps [simp]:
  "p_assignments demo_open = [demo_a1]" "p_repository_evidence demo_open = None"
  "dget (p_approval demo_open) ''status'' = JStr ''approved''" "\<not> a_mutation demo_a1"
  "a_execution_gate demo_a1 = ''plan_approval''" "a_task_id demo_a1 = ''t1''"
  by (simp_all add: demo_open_def demo_approved_def demo_plan_def demo_a1_def)

lemma demo_open_run:
  "\<exists>rec. execute_plan demo_registry (\<lambda>_. demo_step) demo_open = ([Invoke demo_a1, PersistEvidence rec], Inr [rec])"
proof -
  have family: "agent_family demo_registry (a_family demo_a1) = Some demo_contract"
    by (simp add: agent_family_def demo_registry_def demo_a1_def)
  have gate: "required_sources_gate demo_ge demo_registry demo_open demo_a1 demo_contract [] = GatePasses []"
    by (simp add: required_sources_gate_def demo_contract_def gate_resolutions_def resolve_all_def
        find_available_sources_without_material_def materialize_resolved_sources_def List.map_filter_simps)
  have "p_mission_id demo_open = p_mission_id demo_approved" by (simp add: demo_open_def)
  then have "run_assignment demo_run_env demo_open demo_a1 [] = run_assignment demo_run_env demo_approved demo_a1 []"
    by (simp add: run_assignment_def)
  then have run: "\<exists>rec d. run_assignment demo_run_env demo_open demo_a1 [] = Inr (rec, d) \<and> ev_status rec = ''completed''"
    by (simp add: demo_run evidence_build_def)
  show ?thesis
    using family gate run
    by (auto simp: execute_plan_def gate_satisfied_iff demo_step_def persist_then_def)
qed

section \<open>Properties\<close>

text \<open>
  C25: \<open>execute_plan\<close> is all or nothing. If it invokes a provider at all, then no assignment of the
  plan asks for mutation and every one of them is gated by the plan's approval, which was given.
\<close>

theorem execute_plan_all_or_nothing:
  assumes "invocations (fst (execute_plan registry env plan)) \<noteq> []"
  shows "dget (p_approval plan) ''status'' = JStr ''approved'' \<and>
    (\<forall>t \<in> set (p_assignments plan). \<not> a_mutation t \<and> a_execution_gate t = ''plan_approval'')"
proof (cases rule: execute_plan_cases [of plan registry env])
  case (closed offenders)
  with assms block_offenders_effects [of env plan 0 offenders "[]"] show ?thesis
    by (cases "block_offenders env plan 0 offenders []") auto
next
  case opened
  with assms have "p_assignments plan \<noteq> []" by auto
  with opened(1) show ?thesis by (cases "p_assignments plan") (auto simp: gate_satisfied_iff)
qed (use assms in simp)

theorem execute_plan_all_or_nothing_witness:
  "invocations (fst (execute_plan demo_registry (\<lambda>_. demo_step) demo_open)) = [''t1''] \<and>
   dget (p_approval demo_open) ''status'' = JStr ''approved''"
proof -
  have "invocations (fst (execute_plan demo_registry (\<lambda>_. demo_step) demo_open)) = [''t1'']"
    using demo_open_run by auto
  with execute_plan_all_or_nothing [of demo_registry "\<lambda>_. demo_step" demo_open] show ?thesis by simp
qed

text \<open>
  When \<open>execute_plan\<close> runs a plan whose gates are open, it invokes a prefix of the assignments
  in plan order, each only after its required sources were resolved against the evidence of the
  ones before; if it returns, it returns exactly what it persisted, one record per assignment of a
  prefix, all but the last completed, and it covers the whole plan unless the last one did not
  complete.
\<close>

theorem execute_plan_runs_prefix:
  assumes "\<forall>t \<in> set (p_assignments plan). \<not> a_mutation t \<and> gate_satisfied plan t"
  shows "ran_prefix registry env plan 0 (p_assignments plan) [] (execute_plan registry env plan)"
proof (cases rule: execute_plan_cases [of plan registry env])
  case (closed offenders)
  with assms show ?thesis by auto
qed (use assms run_assignments_prefix in auto)

theorem execute_plan_runs_prefix_witness:
  "ran_prefix demo_registry (\<lambda>_. demo_step) demo_open 0 [demo_a1] []
     (execute_plan demo_registry (\<lambda>_. demo_step) demo_open)"
  using execute_plan_runs_prefix [of demo_open demo_registry "\<lambda>_. demo_step"]
  by (simp add: gate_satisfied_iff)

text \<open>
  The view of the mission's facts in an assignment's prompt is honest: the flag
  \<open>mission_context_truncated\<close> is false exactly when the prompt carries every explicit fact of
  the plan in full, and the view never exceeds ten texts of 2000 characters.
\<close>

theorem prompt_context_is_honest:
  "(dget (task_prompt_payload plan t family material) ''mission_context_truncated'' = JBool False \<longleftrightarrow>
      dget (task_prompt_payload plan t family material) ''mission_context'' = jstrs (p_explicit_facts plan)) \<and>
   within_bounds (dget (task_prompt_payload plan t family material) ''mission_context'')"
proof -
  let ?n = MAX_MATERIAL_LIST_ITEMS and ?m = MAX_MATERIAL_TEXT_CHARS and ?fs = "p_explicit_facts plan"
  have "map (take ?m) (take ?n ?fs) = ?fs \<longleftrightarrow> length ?fs \<le> ?n \<and> (\<forall>f \<in> set ?fs. length f \<le> ?m)"
  proof
    assume eq: "map (take ?m) (take ?n ?fs) = ?fs"
    then have "length ?fs = length (map (take ?m) (take ?n ?fs))" by simp
    then have len: "length ?fs \<le> ?n" by simp
    with eq have same: "map (take ?m) ?fs = ?fs" by simp
    have "length f \<le> ?m" if "f \<in> set ?fs" for f
    proof -
      from that same have "f \<in> set (map (take ?m) ?fs)" by simp
      then show ?thesis by auto
    qed
    with len show "length ?fs \<le> ?n \<and> (\<forall>f \<in> set ?fs. length f \<le> ?m)" by blast
  qed (simp add: map_idI)
  moreover have "jstrs xs = jstrs ys \<longleftrightarrow> xs = ys" for xs ys
    by (auto simp: jstrs_def inj_map_eq_map inj_on_def)
  moreover have "within_bounds (mission_context plan)"
    by (auto simp: mission_context_def jstrs_def list_all_iff)
  ultimately show ?thesis
    by (auto simp: task_prompt_payload_def mission_context_def mission_context_truncated_def list_ex_iff not_less)
qed

end
