(* ===== verification/Context_Acquisition.thy ===== *)
theory Context_Acquisition
  imports Required_Sources Hokage
begin

text \<open>
  \<^verbatim>\<open>tools/konoha_v4/context_acquisition.py\<close>: what Konoha reads by itself before it plans. From four
  required files it follows the references that Markdown files make to other files of the
  workspace, reads each admissible file once, probes the providers, and separates the context a
  human must supply from what it can resolve locally.

  \<open>workspace\<close> is the file system as this module sees it: the resolved root, the result of
  \<open>(repo / rel).resolve()\<close>, and the finitely many regular files with the text that
  \<open>read_text(errors="replace")\<close> returns (\<open>None\<close> where reading raises).
\<close>

section \<open>The workspace\<close>

record workspace =
  ws_root :: "pystr list"
  ws_resolve :: "pystr list \<Rightarrow> pystr list"
  ws_files :: "(pystr list \<times> pystr option) list"
  ws_policy :: disk_file

definition DEFAULT_REQUIRED :: "pystr list" where
  "DEFAULT_REQUIRED = [''AGENTS.md'', ''docs/architecture/konoha_v4_operating_model.md'',
     ''config/konoha_v4_capabilities.json'', ''config/policies/read_only_workspace_commands.json'']"

definition as_posix :: "pystr list \<Rightarrow> pystr" where
  "as_posix parts = (if parts = [] then ''.'' else py_join ''/'' parts)"

definition safe_repo_file :: "workspace \<Rightarrow> pystr \<Rightarrow> pystr list option" where
  "safe_repo_file ws rel =
     (if py_startswith rel ''/'' \<or> ''..'' \<in> set (path_parts rel) then None
      else if has_private_marker (as_posix (path_parts rel)) then None
      else let path = ws_resolve ws (path_parts rel) in
           if prefix (ws_root ws) path then Some path else None)"

section \<open>References in a text\<close>

text \<open>
  \<^verbatim>\<open>(?<![\w/.-])([A-Za-z0-9_.-]+(?:/[A-Za-z0-9_.-]+)+\.(?:md|json|yaml|yml|toml))\<close>. Only the last
  segment can give back characters (a shortened earlier one is not followed by a slash), and the
  greedy loop gives back the fewest, so the match at a position is the one whose stem is longest.
\<close>

definition REF_SUFFIXES :: "pystr list" where
  "REF_SUFFIXES = [''.md'', ''.json'', ''.yaml'', ''.yml'', ''.toml'']"

definition ref_stem :: "pystr \<Rightarrow> bool" where
  "ref_stem p \<longleftrightarrow> (let segments = py_split (CHR ''/'') p in
     2 \<le> length segments \<and> list_all (\<lambda>s. s \<noteq> [] \<and> list_all path_char s) segments)"

definition ref_match :: "pystr \<Rightarrow> nat option" where
  "ref_match s =
     (case filter (\<lambda>n. ref_stem (take n s) \<and> list_ex (py_startswith (drop n s)) REF_SUFFIXES) (rev [0..<length s]) of
        [] \<Rightarrow> None
      | n # _ \<Rightarrow> map_option (\<lambda>x. n + length x) (find (py_startswith (drop n s)) REF_SUFFIXES))"

fun find_refs :: "char option \<Rightarrow> pystr \<Rightarrow> pystr list" where
  "find_refs prev [] = []"
| "find_refs prev (c # s) =
     (let blocked = (case prev of None \<Rightarrow> False | Some p \<Rightarrow> word_char p \<or> p \<in> set ''/.-'') in
      case (if blocked then None else ref_match (c # s)) of
        None \<Rightarrow> find_refs (Some c) s
      | Some n \<Rightarrow> take n (c # s) # find_refs (Some ((c # s) ! (n - 1))) (drop (n - 1) s))"

definition extract_local_references :: "pystr \<Rightarrow> pystr list" where
  "extract_local_references s = sort (remdups (find_refs None s))"

definition READ_LIMIT :: nat where "READ_LIMIT = 120000"

definition read_text :: "pystr \<Rightarrow> pystr" where
  "read_text s = (if length s > READ_LIMIT then take READ_LIMIT s @ [LF] @ ''[TRUNCATED BY CONTEXT ACQUISITION POLICY]'' else s)"

section \<open>The acquisition loop\<close>

record acquired_files =
  af_visited :: "pystr list"
  af_loaded :: "pystr pydict"
  af_missing :: "pystr list"
  af_notes :: "pystr list"

text \<open>The body of the loop for a path not visited before: the new lists and the references to queue.\<close>

definition acquire_visit :: "workspace \<Rightarrow> pystr \<Rightarrow> acquired_files \<Rightarrow> (acquired_files \<times> pystr list) py" where
  "acquire_visit ws rel acc0 =
     (let acc = acc0\<lparr>af_visited := rel # af_visited acc0\<rparr> in
      case safe_repo_file ws rel of
        None \<Rightarrow> Inr (acc\<lparr>af_notes := af_notes acc @ [''excluded_by_policy:'' @ rel]\<rparr>, [])
      | Some path \<Rightarrow>
         (case map_of (ws_files ws) path of
            None \<Rightarrow>
              (if rel = ''AGENTS.md''
               then Inr (acc\<lparr>af_notes := af_notes acc @ [''AGENTS.md_absent_not_user_context'']\<rparr>, [])
               else Inr (acc\<lparr>af_missing := af_missing acc @ [rel]\<rparr>, []))
          | Some None \<Rightarrow> Inl OtherError
          | Some (Some content) \<Rightarrow>
              Inr (acc\<lparr>af_loaded := dict_set (af_loaded acc) rel (read_text content)\<rparr>,
                   if py_endswith rel ''.md''
                   then filter (\<lambda>ref. ref \<notin> set (af_visited acc)) (extract_local_references (read_text content))
                   else [])))"

definition all_refs :: "workspace \<Rightarrow> pystr set" where
  "all_refs ws = (\<Union>(p, t) \<in> set (ws_files ws). case t of None \<Rightarrow> {} | Some s \<Rightarrow> set (extract_local_references (read_text s)))"

lemma all_refs_finite [simp]: "finite (all_refs ws)"
  by (auto simp: all_refs_def split: option.split)

lemma acquire_visit_Inr:
  assumes "acquire_visit ws rel acc = Inr (acc', refs)"
  shows "af_visited acc' = rel # af_visited acc" and "set refs \<subseteq> all_refs ws"
proof -
  from assms show "af_visited acc' = rel # af_visited acc"
    by (auto simp: acquire_visit_def Let_def split: option.splits if_splits)
  have "set (extract_local_references (read_text content)) \<subseteq> all_refs ws"
    if "map_of (ws_files ws) path = Some (Some content)" for path content
    using map_of_SomeD [OF that] by (force simp: all_refs_def)
  moreover have "\<exists>path content. map_of (ws_files ws) path = Some (Some content) \<and>
      ref \<in> set (extract_local_references (read_text content))" if "ref \<in> set refs" for ref
    using assms that by (auto simp: acquire_visit_def Let_def split: option.splits if_splits) blast
  ultimately show "set refs \<subseteq> all_refs ws" by blast
qed

function acquire_loop :: "workspace \<Rightarrow> pystr list \<Rightarrow> acquired_files \<Rightarrow> acquired_files py" where
  "acquire_loop ws [] acc = Inr acc"
| "acquire_loop ws (rel # queue) acc =
     (if rel \<in> set (af_visited acc) then acquire_loop ws queue acc
      else case acquire_visit ws rel acc of
        Inl e \<Rightarrow> Inl e
      | Inr (acc', refs) \<Rightarrow> acquire_loop ws (queue @ refs) acc')"
  by pat_completeness auto

text \<open>
  Every path read comes from the required ones or from a reference in one of the finitely many
  files, and none is read twice.
\<close>

lemma acquire_loop_decreases:
  assumes "rel \<notin> set (af_visited acc)" and "acquire_visit ws rel acc = Inr (acc', refs)"
  shows "card ((all_refs ws \<union> set (queue @ refs)) - set (af_visited acc')) <
         card ((all_refs ws \<union> set (rel # queue)) - set (af_visited acc))"
proof (rule psubset_card_mono)
  from acquire_visit_Inr [OF assms(2)] assms(1)
  show "(all_refs ws \<union> set (queue @ refs)) - set (af_visited acc') \<subset>
        (all_refs ws \<union> set (rel # queue)) - set (af_visited acc)"
    by auto
qed simp

termination acquire_loop
proof (relation "inv_image (less_than <*lex*> less_than)
    (\<lambda>(ws, queue, acc). (card ((all_refs ws \<union> set queue) - set (af_visited acc)), length queue))")
  fix ws :: workspace and rel :: pystr and queue :: "pystr list" and acc :: acquired_files
  assume "rel \<in> set (af_visited acc)"
  then have "(all_refs ws \<union> set queue) - set (af_visited acc) = (all_refs ws \<union> set (rel # queue)) - set (af_visited acc)"
    by auto
  then show "((ws, queue, acc), ws, rel # queue, acc) \<in> inv_image (less_than <*lex*> less_than)
    (\<lambda>(ws, queue, acc). (card ((all_refs ws \<union> set queue) - set (af_visited acc)), length queue))"
    by (simp only: in_inv_image case_prod_conv in_lex_prod list.size) simp
next
  fix ws :: workspace and rel :: pystr and queue refs :: "pystr list" and acc acc' :: acquired_files
    and x :: "acquired_files \<times> pystr list"
  assume "rel \<notin> set (af_visited acc)" and "acquire_visit ws rel acc = Inr x" and "(acc', refs) = x"
  then show "((ws, queue @ refs, acc'), ws, rel # queue, acc) \<in> inv_image (less_than <*lex*> less_than)
    (\<lambda>(ws, queue, acc). (card ((all_refs ws \<union> set queue) - set (af_visited acc)), length queue))"
    using acquire_loop_decreases [of rel acc ws acc' refs queue] by simp
qed (simp add: wf_lex_prod)

definition acquire_files :: "workspace \<Rightarrow> acquired_files py" where
  "acquire_files ws = acquire_loop ws DEFAULT_REQUIRED \<lparr>af_visited = [], af_loaded = [], af_missing = [], af_notes = []\<rparr>"

section \<open>Provider readiness\<close>

record ProviderReadiness =
  pr_provider :: pystr
  pr_executable :: "pystr option"
  pr_available :: bool
  pr_version :: pystr
  pr_models :: "pystr list"
  pr_evidence :: pystr

text \<open>What a subprocess does: its exit code and streams, or the exception it ends with.\<close>

datatype process_outcome = Exited int pystr pystr | ProcessError pystr

definition run_command :: "process_outcome \<Rightarrow> int \<times> pystr \<times> pystr" where
  "run_command p = (case p of Exited code out err \<Rightarrow> (code, py_strip out, py_strip err) | ProcessError msg \<Rightarrow> (127, [], msg))"

record probe_env =
  pe_which :: "pystr \<Rightarrow> pystr option"
  pe_process :: "pystr list \<Rightarrow> process_outcome"

definition is_linebreak :: "char \<Rightarrow> bool" where
  "is_linebreak c \<longleftrightarrow> (let n = code_point c in 10 \<le> n \<and> n \<le> 13 \<or> 28 \<le> n \<and> n \<le> 30 \<or> n = 133)"

text \<open>\<open>str.splitlines\<close>, the current line kept reversed.\<close>

fun splitlines_from :: "pystr \<Rightarrow> pystr \<Rightarrow> pystr list" where
  "splitlines_from cur [] = (if cur = [] then [] else [rev cur])"
| "splitlines_from cur [c] = (if is_linebreak c then [rev cur] else [rev (c # cur)])"
| "splitlines_from cur (c # d # s) =
     (if c = CR \<and> d = LF then rev cur # splitlines_from [] s
      else if is_linebreak c then rev cur # splitlines_from [] (d # s)
      else splitlines_from (c # cur) (d # s))"

definition first_word :: "pystr \<Rightarrow> pystr option" where
  "first_word line = (let s = dropWhile py_isspace line in if s = [] then None else Some (takeWhile (\<lambda>c. \<not> py_isspace c) s))"

definition probe_provider :: "probe_env \<Rightarrow> pystr \<Rightarrow> ProviderReadiness" where
  "probe_provider pe provider =
     (case pe_which pe provider of
        None \<Rightarrow> \<lparr>pr_provider = provider, pr_executable = None, pr_available = False, pr_version = [], pr_models = [],
                 pr_evidence = ''executable_not_found''\<rparr>
      | Some [] \<Rightarrow> \<lparr>pr_provider = provider, pr_executable = None, pr_available = False, pr_version = [], pr_models = [],
                 pr_evidence = ''executable_not_found''\<rparr>
      | Some executable \<Rightarrow>
         (if provider \<notin> {''codex'', ''claude'', ''ollama''}
          then \<lparr>pr_provider = provider, pr_executable = Some executable, pr_available = False, pr_version = [],
                pr_models = [], pr_evidence = ''unsupported_provider''\<rparr>
          else case run_command (pe_process pe [executable, ''--version'']) of (code, out, err) \<Rightarrow>
            let models = (if provider \<noteq> ''ollama'' then []
                  else case run_command (pe_process pe [executable, ''list'']) of (list_code, list_out, _) \<Rightarrow>
                    if list_code = 0 then List.map_filter first_word (drop 1 (splitlines_from [] list_out)) else [])
            in \<lparr>pr_provider = provider, pr_executable = Some executable, pr_available = (code = 0),
                pr_version = take 500 (if out \<noteq> [] then out else err), pr_models = models,
                pr_evidence = ''deterministic_local_probe''\<rparr>))"

section \<open>The acquired context\<close>

record AcquiredContext =
  ac_private_paths_excluded :: "pystr list"
  ac_loaded_files :: "pystr pydict"
  ac_missing_files :: "pystr list"
  ac_provider_readiness :: "ProviderReadiness pydict"
  ac_registered_families :: "pystr list"
  ac_read_only_policy :: json
  ac_notes :: "pystr list"

definition load_policy :: "disk_file \<Rightarrow> json py" where
  "load_policy f = (case f of FAbsent \<Rightarrow> Inr (JObj []) | FJson v \<Rightarrow> Inr v | FRaises e \<Rightarrow> Inl e | FUnreadable \<Rightarrow> Inl OtherError)"

definition acquire_context :: "workspace \<Rightarrow> probe_env \<Rightarrow> CapabilityRegistry \<Rightarrow> AcquiredContext py" where
  "acquire_context ws pe registry =
     py_bind (acquire_files ws) (\<lambda>files.
     py_bind (load_policy (ws_policy ws)) (\<lambda>policy.
       Inr \<lparr>ac_private_paths_excluded = PRIVATE_MARKERS, ac_loaded_files = af_loaded files,
            ac_missing_files = sort (remdups (af_missing files)),
            ac_provider_readiness = map (\<lambda>name. (name, probe_provider pe name)) [''codex'', ''claude'', ''ollama''],
            ac_registered_families = available_families registry, ac_read_only_policy = policy,
            ac_notes = af_notes files\<rparr>))"

section \<open>Missing context\<close>

definition LOCAL_RESOLVABLE_PATTERNS :: "pystr list" where
  "LOCAL_RESOLVABLE_PATTERNS = [
     ''no tengo a'' @ [CHR 0xFA] @ ''n el contenido le'' @ [CHR 0xED] @ ''do'',
     ''primera fase de ejecuci'' @ [CHR 0xF3] @ ''n debe leer'',
     ''no est'' @ [CHR 0xE1] @ '' provisto el contenido'',
     ''si existe y es accesible'',
     ''no est'' @ [CHR 0xE1] @ '' confirmado si las herramientas'',
     ''disponibilidad de claude'',
     ''disponibilidad de ollama'',
     ''definici'' @ [CHR 0xF3] @ ''n formal de jounin'',
     ''lista completa de comandos read-only'',
     ''rutas locales o privadas est'' @ [CHR 0xE1] @ ''n autorizadas'']"

definition locally_resolvable :: "AcquiredContext \<Rightarrow> pystr \<Rightarrow> bool" where
  "locally_resolvable ctx item \<longleftrightarrow>
     (let lower = py_lower item in
      list_ex (\<lambda>p. py_contains p lower) LOCAL_RESOLVABLE_PATTERNS \<or>
      list_ex (\<lambda>(rel, _). py_contains (py_lower rel) lower) (ac_loaded_files ctx) \<or>
      py_contains ''jounin'' lower \<and> list_ex (\<lambda>x. py_contains ''jounin'' (py_lower x)) (ac_registered_families ctx) \<or>
      (py_contains ''read-only'' lower \<or> py_contains ''read only'' lower) \<and> truthy (ac_read_only_policy ctx) \<or>
      list_ex (\<lambda>(prov, _). py_contains prov lower \<and> py_contains ''dispon'' lower) (ac_provider_readiness ctx))"

fun normalize_missing_context :: "pystr list \<Rightarrow> AcquiredContext \<Rightarrow> pystr list \<times> pystr list" where
  "normalize_missing_context [] ctx = ([], [])"
| "normalize_missing_context (raw # items) ctx =
     (let item = py_strip raw in
      case normalize_missing_context items ctx of (user_required, locally_resolved) \<Rightarrow>
        if locally_resolvable ctx item then (user_required, item # locally_resolved)
        else (item # user_required, locally_resolved))"

section \<open>Lemmas\<close>

text \<open>The text of a path the policy admits, and the paths the required files lead to.\<close>

definition file_text :: "workspace \<Rightarrow> pystr \<Rightarrow> pystr option" where
  "file_text ws rel =
     (case safe_repo_file ws rel of
        None \<Rightarrow> None
      | Some path \<Rightarrow> (case map_of (ws_files ws) path of Some (Some s) \<Rightarrow> Some (read_text s) | _ \<Rightarrow> None))"

definition file_absent :: "workspace \<Rightarrow> pystr \<Rightarrow> bool" where
  "file_absent ws rel \<longleftrightarrow> (\<exists>path. safe_repo_file ws rel = Some path \<and> map_of (ws_files ws) path = None)"

definition file_unreadable :: "workspace \<Rightarrow> pystr \<Rightarrow> bool" where
  "file_unreadable ws rel \<longleftrightarrow> (\<exists>path. safe_repo_file ws rel = Some path \<and> map_of (ws_files ws) path = Some None)"

definition mentions :: "workspace \<Rightarrow> pystr \<Rightarrow> pystr \<Rightarrow> bool" where
  "mentions ws rel ref \<longleftrightarrow> py_endswith rel ''.md'' \<and>
     (\<exists>s. file_text ws rel = Some s \<and> ref \<in> set (extract_local_references s))"

inductive referenced :: "workspace \<Rightarrow> pystr \<Rightarrow> bool" for ws where
  required: "rel \<in> set DEFAULT_REQUIRED \<Longrightarrow> referenced ws rel"
| mentioned: "referenced ws rel \<Longrightarrow> mentions ws rel ref \<Longrightarrow> referenced ws ref"

lemma acquire_visit_cases:
  obtains (excluded) "safe_repo_file ws rel = None"
      "acquire_visit ws rel acc = Inr (acc\<lparr>af_visited := rel # af_visited acc,
         af_notes := af_notes acc @ [''excluded_by_policy:'' @ rel]\<rparr>, [])"
    | (absent) "file_absent ws rel" "rel \<noteq> ''AGENTS.md''"
      "acquire_visit ws rel acc = Inr (acc\<lparr>af_visited := rel # af_visited acc, af_missing := af_missing acc @ [rel]\<rparr>, [])"
    | (no_agents) "file_absent ws rel" "rel = ''AGENTS.md''"
      "acquire_visit ws rel acc = Inr (acc\<lparr>af_visited := rel # af_visited acc,
         af_notes := af_notes acc @ [''AGENTS.md_absent_not_user_context'']\<rparr>, [])"
    | (unreadable) "file_unreadable ws rel" "acquire_visit ws rel acc = Inl OtherError"
    | (loaded) s where "file_text ws rel = Some s"
      "acquire_visit ws rel acc = Inr (acc\<lparr>af_visited := rel # af_visited acc, af_loaded := dict_set (af_loaded acc) rel s\<rparr>,
         if py_endswith rel ''.md''
         then filter (\<lambda>ref. ref \<notin> set (rel # af_visited acc)) (extract_local_references s) else [])"
proof (cases "safe_repo_file ws rel")
  case None
  then show ?thesis by (intro excluded) (simp_all add: acquire_visit_def)
next
  case path: (Some path)
  show ?thesis
  proof (cases "map_of (ws_files ws) path")
    case None
    with path show ?thesis
      by (cases "rel = ''AGENTS.md''") (simp_all add: absent no_agents acquire_visit_def file_absent_def)
  next
    case found: (Some t)
    show ?thesis
    proof (cases t)
      case None
      with path found show ?thesis by (intro unreadable) (simp_all add: acquire_visit_def file_unreadable_def)
    next
      case (Some s)
      with path found show ?thesis
        by (intro loaded [of "read_text s"]) (simp_all add: acquire_visit_def file_text_def Let_def)
    qed
  qed
qed

lemma file_exclusive:
  "file_absent ws rel \<Longrightarrow> file_text ws rel = None" "file_unreadable ws rel \<Longrightarrow> file_text ws rel = None"
  "safe_repo_file ws rel = None \<Longrightarrow> file_text ws rel = None" "safe_repo_file ws rel = None \<Longrightarrow> \<not> file_absent ws rel"
  "file_text ws rel = Some s \<Longrightarrow> \<not> file_absent ws rel" "file_text ws rel = Some s \<Longrightarrow> safe_repo_file ws rel \<noteq> None"
  "file_absent ws rel \<Longrightarrow> safe_repo_file ws rel \<noteq> None"
  by (auto simp: file_absent_def file_text_def file_unreadable_def split: option.splits)

text \<open>What the lists hold of the paths visited so far.\<close>

definition lists_ok :: "workspace \<Rightarrow> acquired_files \<Rightarrow> bool" where
  "lists_ok ws acc \<longleftrightarrow>
     (\<forall>rel. dict_get (af_loaded acc) rel = (if rel \<in> set (af_visited acc) then file_text ws rel else None)) \<and>
     set (af_missing acc) = {rel \<in> set (af_visited acc). file_absent ws rel \<and> rel \<noteq> ''AGENTS.md''} \<and>
     (\<forall>rel \<in> set (af_visited acc). \<not> file_unreadable ws rel)"

definition frontier_ok :: "workspace \<Rightarrow> pystr list \<Rightarrow> acquired_files \<Rightarrow> bool" where
  "frontier_ok ws queue acc \<longleftrightarrow>
     set DEFAULT_REQUIRED \<subseteq> set (af_visited acc) \<union> set queue \<and>
     (\<forall>rel \<in> set (af_visited acc) \<union> set queue. referenced ws rel) \<and>
     (\<forall>rel \<in> set (af_visited acc). \<forall>ref. mentions ws rel ref \<longrightarrow> ref \<in> set (af_visited acc) \<union> set queue)"

lemma acquire_visit_lists:
  assumes "acquire_visit ws rel acc = Inr (acc', refs)" and "lists_ok ws acc" and "rel \<notin> set (af_visited acc)"
  shows "lists_ok ws acc'"
proof -
  have "\<not> file_unreadable ws rel"
    using assms(1) by (auto simp: acquire_visit_def file_unreadable_def)
  note lists = assms(2,3) this
  show ?thesis
  proof (cases rule: acquire_visit_cases [of ws rel acc])
    case excluded
    with assms(1) lists file_exclusive(3,4) [OF excluded(1)] show ?thesis by (auto simp: lists_ok_def)
  next
    case absent
    with assms(1) lists file_exclusive(1) [OF absent(1)] show ?thesis by (auto simp: lists_ok_def)
  next
    case no_agents
    with assms(1) lists file_exclusive(1) [OF no_agents(1)] show ?thesis by (auto simp: lists_ok_def)
  next
    case (loaded s)
    with assms(1) lists file_exclusive(5) [OF loaded(1)] show ?thesis by (auto simp: lists_ok_def)
  qed (use assms(1) in simp)
qed

lemma acquire_visit_refs:
  assumes "acquire_visit ws rel acc = Inr (acc', refs)"
  shows "ref \<in> set refs \<longleftrightarrow> mentions ws rel ref \<and> ref \<notin> set (rel # af_visited acc)"
proof (cases rule: acquire_visit_cases [of ws rel acc])
  case (loaded s)
  with assms show ?thesis by (auto simp: mentions_def)
next
  case excluded
  with assms file_exclusive(3) [OF excluded(1)] show ?thesis by (simp add: mentions_def)
next
  case absent
  with assms file_exclusive(1) [OF absent(1)] show ?thesis by (simp add: mentions_def)
next
  case no_agents
  with assms file_exclusive(1) [OF no_agents(1)] show ?thesis by (simp add: mentions_def)
qed (use assms in simp)

lemma acquire_visit_frontier:
  assumes "acquire_visit ws rel acc = Inr (acc', refs)" and "frontier_ok ws (rel # queue) acc"
  shows "frontier_ok ws (queue @ refs) acc'"
proof -
  have rel: "referenced ws rel" using assms(2) by (simp add: frontier_ok_def)
  note refs = acquire_visit_refs [OF assms(1)] and visited = acquire_visit_Inr(1) [OF assms(1)]
  have "ref \<in> set (rel # af_visited acc) \<union> set (queue @ refs)"
    if "x \<in> set (rel # af_visited acc)" and "mentions ws x ref" for x ref
  proof (cases "x = rel")
    case True
    with that(2) show ?thesis by (auto simp: refs)
  next
    case False
    with that assms(2) have "ref \<in> set (af_visited acc) \<union> set (rel # queue)"
      unfolding frontier_ok_def by auto
    then show ?thesis by auto
  qed
  moreover have "referenced ws x" if "x \<in> set (rel # af_visited acc) \<union> set (queue @ refs)" for x
    using that assms(2) mentioned [OF rel] by (auto simp: refs frontier_ok_def)
  moreover have "set DEFAULT_REQUIRED \<subseteq> set (rel # af_visited acc) \<union> set (queue @ refs)"
    using assms(2) by (auto simp: frontier_ok_def)
  ultimately show ?thesis unfolding frontier_ok_def visited by blast
qed

lemma acquire_loop_result:
  assumes "acquire_loop ws queue acc = Inr a" and "lists_ok ws acc" and "frontier_ok ws queue acc"
  shows "lists_ok ws a \<and> frontier_ok ws [] a"
  using assms
proof (induction ws queue acc rule: acquire_loop.induct)
  case (2 ws rel queue acc)
  show ?case
  proof (cases "rel \<in> set (af_visited acc)")
    case True
    with 2(3) have "acquire_loop ws queue acc = Inr a" by simp
    moreover from True 2(5) have "frontier_ok ws queue acc" by (auto simp: frontier_ok_def)
    ultimately show ?thesis using 2(1) [OF True] 2(4) by blast
  next
    case False
    with 2(3) obtain acc' refs where v: "acquire_visit ws rel acc = Inr (acc', refs)"
      and l: "acquire_loop ws (queue @ refs) acc' = Inr a"
      by (auto split: sum.splits)
    show ?thesis
      using 2(2) [OF False v refl l] acquire_visit_lists [OF v 2(4) False] acquire_visit_frontier [OF v 2(5)] by blast
  qed
qed simp

lemma visited_are_referenced:
  assumes "frontier_ok ws [] a"
  shows "rel \<in> set (af_visited a) \<longleftrightarrow> referenced ws rel"
proof
  show "referenced ws rel \<Longrightarrow> rel \<in> set (af_visited a)"
    by (induction rule: referenced.induct) (use assms in \<open>auto simp: frontier_ok_def\<close>)
qed (use assms in \<open>auto simp: frontier_ok_def\<close>)

lemma acquire_loop_fails:
  assumes "acquire_loop ws queue acc = Inl e" and "frontier_ok ws queue acc"
  shows "\<exists>rel. referenced ws rel \<and> file_unreadable ws rel"
  using assms
proof (induction ws queue acc rule: acquire_loop.induct)
  case (2 ws rel queue acc)
  show ?case
  proof (cases "rel \<in> set (af_visited acc)")
    case True
    with 2(3) have "acquire_loop ws queue acc = Inl e" by simp
    moreover from True 2(4) have "frontier_ok ws queue acc" by (auto simp: frontier_ok_def)
    ultimately show ?thesis using 2(1) [OF True] by blast
  next
    case fresh: False
    show ?thesis
    proof (cases "acquire_visit ws rel acc")
      case (Inl x)
      then have "file_unreadable ws rel" by (cases rule: acquire_visit_cases [of ws rel acc]) auto
      with 2(4) show ?thesis by (auto simp: frontier_ok_def)
    next
      case (Inr p)
      obtain acc' refs where p: "p = (acc', refs)" by force
      with fresh 2(3) Inr have "acquire_loop ws (queue @ refs) acc' = Inl e" by simp
      then show ?thesis
        using 2(2) [OF fresh Inr p [symmetric]] acquire_visit_frontier [OF Inr [unfolded p] 2(4)] by blast
    qed
  qed
qed simp

lemma initial_ok:
  "lists_ok ws \<lparr>af_visited = [], af_loaded = [], af_missing = [], af_notes = []\<rparr>"
  "frontier_ok ws DEFAULT_REQUIRED \<lparr>af_visited = [], af_loaded = [], af_missing = [], af_notes = []\<rparr>"
  by (auto simp: lists_ok_def frontier_ok_def intro: required)

lemma acquire_files_result:
  assumes "acquire_files ws = Inr a"
  shows "dict_get (af_loaded a) rel = (if referenced ws rel then file_text ws rel else None)"
    and "set (af_missing a) = {rel. referenced ws rel \<and> file_absent ws rel \<and> rel \<noteq> ''AGENTS.md''}"
    and "referenced ws rel \<Longrightarrow> \<not> file_unreadable ws rel"
  using acquire_loop_result [OF assms [unfolded acquire_files_def] initial_ok]
  by (auto simp: lists_ok_def visited_are_referenced)

lemma normalize_missing_context_split:
  "normalize_missing_context items ctx =
     (filter (\<lambda>x. \<not> locally_resolvable ctx x) (map py_strip items), filter (locally_resolvable ctx) (map py_strip items))"
  by (induction items) (simp_all add: Let_def)

section \<open>A small workspace\<close>

definition demo_ws :: workspace where
  "demo_ws = \<lparr>ws_root = [''repo''], ws_resolve = (@) [''repo''],
     ws_files = [([''repo'', ''AGENTS.md''], Some ''read docs/x.md and private/y.md first''),
                 ([''repo'', ''docs'', ''x.md''], Some ''nothing''), ([''repo'', ''private'', ''y.md''], Some ''secret'')],
     ws_policy = FAbsent\<rparr>"

definition demo_probe :: probe_env where
  "demo_probe = \<lparr>pe_which = (\<lambda>_. None), pe_process = (\<lambda>_. ProcessError ''absent'')\<rparr>"

lemma demo_acquired:
  "\<exists>a. acquire_files demo_ws = Inr a \<and> af_loaded a = [(''AGENTS.md'', ''read docs/x.md and private/y.md first''), (''docs/x.md'', ''nothing'')]"
proof -
  let ?t = "''read docs/x.md and private/y.md first''"
  have refs: "extract_local_references ?t = [''docs/x.md'', ''private/y.md'']"
    "extract_local_references ''nothing'' = []" by code_simp+
  have safe: "safe_repo_file demo_ws ''AGENTS.md'' = Some [''repo'', ''AGENTS.md'']"
    "safe_repo_file demo_ws ''docs/x.md'' = Some [''repo'', ''docs'', ''x.md'']"
    "safe_repo_file demo_ws ''private/y.md'' = None"
    "safe_repo_file demo_ws ''docs/architecture/konoha_v4_operating_model.md'' =
       Some [''repo'', ''docs'', ''architecture'', ''konoha_v4_operating_model.md'']"
    "safe_repo_file demo_ws ''config/konoha_v4_capabilities.json'' = Some [''repo'', ''config'', ''konoha_v4_capabilities.json'']"
    "safe_repo_file demo_ws ''config/policies/read_only_workspace_commands.json'' =
       Some [''repo'', ''config'', ''policies'', ''read_only_workspace_commands.json'']"
    by code_simp+
  have md: "py_endswith ''AGENTS.md'' ''.md''" "py_endswith ''docs/x.md'' ''.md''" by code_simp+
  have files: "ws_files demo_ws = [([''repo'', ''AGENTS.md''], Some ?t),
      ([''repo'', ''docs'', ''x.md''], Some ''nothing''), ([''repo'', ''private'', ''y.md''], Some ''secret'')]"
    by (simp add: demo_ws_def)
  have small: "read_text ?t = ?t" "read_text ''nothing'' = ''nothing''" by (simp_all add: read_text_def READ_LIMIT_def)
  show ?thesis
    by (simp add: acquire_files_def DEFAULT_REQUIRED_def acquire_visit_def Let_def safe files refs md small dict_set_def)
qed

lemma demo_context:
  "\<exists>ctx. acquire_context demo_ws demo_probe demo_registry = Inr ctx \<and>
     dict_get (ac_loaded_files ctx) ''docs/x.md'' = Some ''nothing''"
  using demo_acquired by (auto simp: acquire_context_def load_policy_def demo_ws_def)

section \<open>Properties\<close>

text \<open>
  C29: whenever context acquisition succeeds, it has loaded exactly the files that the required ones
  lead to through references in Markdown files, each with its text, and it reports as missing
  exactly the admissible ones among them that do not exist (the optional \<^verbatim>\<open>AGENTS.md\<close> apart).
\<close>

theorem acquired_files_are_the_referenced_ones:
  assumes "acquire_context ws pe registry = Inr ctx"
  shows "(\<forall>rel. dict_get (ac_loaded_files ctx) rel = (if referenced ws rel then file_text ws rel else None)) \<and>
    set (ac_missing_files ctx) = {rel. referenced ws rel \<and> file_absent ws rel \<and> rel \<noteq> ''AGENTS.md''} \<and>
    sorted (ac_missing_files ctx) \<and> distinct (ac_missing_files ctx)"
proof -
  from assms obtain a where a: "acquire_files ws = Inr a" "ac_loaded_files ctx = af_loaded a"
    "ac_missing_files ctx = sort (remdups (af_missing a))"
    by (auto simp: acquire_context_def)
  then show ?thesis by (simp add: acquire_files_result [OF a(1)])
qed

theorem acquired_files_are_the_referenced_ones_witness:
  "referenced demo_ws ''docs/x.md'' \<and> file_text demo_ws ''docs/x.md'' = Some ''nothing''"
proof -
  from demo_context obtain ctx where ctx: "acquire_context demo_ws demo_probe demo_registry = Inr ctx"
    and x: "dict_get (ac_loaded_files ctx) ''docs/x.md'' = Some ''nothing''" by blast
  from acquired_files_are_the_referenced_ones [OF ctx]
  have "dict_get (ac_loaded_files ctx) ''docs/x.md'' =
      (if referenced demo_ws ''docs/x.md'' then file_text demo_ws ''docs/x.md'' else None)"
    by blast
  with x show ?thesis by (simp split: if_splits)
qed

text \<open>
  Nothing private is ever loaded: a loaded path is relative, does not climb out with \<open>..\<close>,
  carries none of the private markers, resolves (links included) to a regular file inside the
  workspace, and its text is cut at the limit.
\<close>

theorem loaded_files_are_public:
  assumes "acquire_context ws pe registry = Inr ctx" and "dict_get (ac_loaded_files ctx) rel = Some s"
  shows "\<not> py_startswith rel ''/'' \<and> ''..'' \<notin> set (path_parts rel) \<and>
    \<not> has_private_marker (as_posix (path_parts rel)) \<and> prefix (ws_root ws) (ws_resolve ws (path_parts rel)) \<and>
    (\<exists>t. map_of (ws_files ws) (ws_resolve ws (path_parts rel)) = Some (Some t) \<and> take READ_LIMIT s = take READ_LIMIT t) \<and>
    length s \<le> READ_LIMIT + 42"
proof -
  from assms(1) obtain a where a: "acquire_files ws = Inr a" "ac_loaded_files ctx = af_loaded a"
    by (auto simp: acquire_context_def)
  from acquire_files_result(1) [OF a(1), of rel] assms(2) a(2) have "file_text ws rel = Some s"
    by (simp split: if_splits)
  then obtain path t where path: "safe_repo_file ws rel = Some path" "map_of (ws_files ws) path = Some (Some t)"
    and s: "s = read_text t"
    by (auto simp: file_text_def split: option.splits)
  have "path = ws_resolve ws (path_parts rel)" "\<not> py_startswith rel ''/''" "''..'' \<notin> set (path_parts rel)"
    "\<not> has_private_marker (as_posix (path_parts rel))" "prefix (ws_root ws) path"
    using path(1) by (simp_all add: safe_repo_file_def Let_def split: if_splits)
  moreover have "take READ_LIMIT s = take READ_LIMIT t" "length s \<le> READ_LIMIT + 42"
    by (simp_all add: s read_text_def)
  ultimately show ?thesis using path(2) by blast
qed

theorem loaded_files_are_public_witness:
  "\<not> has_private_marker (as_posix (path_parts ''docs/x.md''))"
proof -
  from demo_context obtain ctx where "acquire_context demo_ws demo_probe demo_registry = Inr ctx"
    "dict_get (ac_loaded_files ctx) ''docs/x.md'' = Some ''nothing''" by blast
  from loaded_files_are_public [OF this] show ?thesis by blast
qed

text \<open>
  C30: the loop over references always ends, and acquisition fails only when a referenced file
  exists but cannot be read or when the read-only policy file cannot be loaded.
\<close>

theorem acquire_context_succeeds_iff:
  "(\<exists>ctx. acquire_context ws pe registry = Inr ctx) \<longleftrightarrow>
     \<not> (\<exists>rel. referenced ws rel \<and> file_unreadable ws rel) \<and> (\<exists>policy. load_policy (ws_policy ws) = Inr policy)"
proof (cases "acquire_files ws")
  case (Inl e)
  from acquire_loop_fails [OF Inl [unfolded acquire_files_def] initial_ok(2)] Inl show ?thesis
    by (simp add: acquire_context_def)
next
  case (Inr a)
  with acquire_files_result(3) [OF Inr] show ?thesis by (auto simp: acquire_context_def)
qed

end
