(* ===== verification/Planner.thy ===== *)
theory Planner
  imports Context_Acquisition
begin

text \<open>
  \<^verbatim>\<open>tools/konoha_v4/planner.py\<close>: from the provider's JSON to a sealed plan. \<open>build_plan\<close> drops the
  provider's own evidence reference, moves locally resolvable context out of \<open>missing_context\<close>,
  previews the required sources of every assignment as though the draft were approved, and adds
  what is missing or unauthorized to \<open>missing_context\<close>, which Hokage then refuses.

  The provider's answer, the workspace, the probe results and the acquired evidence pack (with
  its reference) are inputs. The constant text of the planning prompt is not part of the model.
\<close>

datatype plan_failure =
    AcquisitionRaised py_exn
  | ProviderFailed
  | BuildRaised py_exn
  | PreviewRaised resolve_exn
  | DraftIllTyped

text \<open>\<open>invoke_codex\<close>: the text of its result, or the \<open>ProviderError\<close> it raises.\<close>

datatype codex_outcome = CodexText pystr | CodexError

record planning_env =
  pl_workspace :: workspace
  pl_probe :: probe_env
  pl_codex :: codex_outcome
  pl_fs :: repo_fs
  pl_evidence :: "(evidence_pack \<times> jdict) option"
  pl_limit :: nat

section \<open>The draft\<close>

definition ASSIGNMENT_DEFAULTS :: jdict where
  "ASSIGNMENT_DEFAULTS = [(''dependencies'', JList []), (''private_context'', JBool False), (''network'', JBool False),
     (''mutation'', JBool False), (''estimated_input_tokens'', JInt 0), (''estimated_output_tokens'', JInt 0),
     (''estimated_total_tokens'', JInt 0), (''cost_class'', JStr ''low''), (''fallback'', JStr ''stop''),
     (''stop_condition'', JStr ''boundary crossing or unavailable required evidence''), (''execution_gate'', JStr [])]"

definition fill_defaults :: "jdict \<Rightarrow> jdict" where
  "fill_defaults item = item @ filter (\<lambda>(k, _). dict_get item k = None) ASSIGNMENT_DEFAULTS"

text \<open>\<open>AgentAssignment(**item)\<close>: unknown or missing keywords are a \<open>TypeError\<close>.\<close>

fun make_assignments :: "json list \<Rightarrow> plan_failure + AgentAssignment list" where
  "make_assignments [] = Inr []"
| "make_assignments (item # items) =
     (case item of
        JObj d \<Rightarrow>
          (if \<not> dict_keys_eq (fill_defaults d) ASSIGNMENT_FIELDS then Inl (BuildRaised TypeError)
           else if \<not> assignment_typed (fill_defaults d) then Inl DraftIllTyped
           else py_bind (make_assignments items) (\<lambda>rest. Inr (assignment_of (fill_defaults d) # rest)))
      | _ \<Rightarrow> Inl (BuildRaised TypeError))"

text \<open>The provider's reference is dropped and its \<open>missing_context\<close> normalized.\<close>

definition resolved_fact :: "pystr list \<Rightarrow> pystr" where
  "resolved_fact locally_resolved = ''Contexto resuelto localmente antes del plan: '' @ py_join '' | '' locally_resolved"

definition normalize_draft :: "AcquiredContext \<Rightarrow> jdict \<Rightarrow> plan_failure + jdict" where
  "normalize_draft acquired raw0 =
     (let raw = dict_set raw0 ''repository_evidence'' JNull;
          declared = (case dict_get raw ''missing_context'' of None \<Rightarrow> JList [] | Some v \<Rightarrow> v);
          facts = (case dict_get raw ''explicit_facts'' of None \<Rightarrow> JList [] | Some v \<Rightarrow> v)
      in if \<not> is_strs declared then Inl DraftIllTyped
         else case normalize_missing_context (the_strs declared) acquired of (user_missing, locally_resolved) \<Rightarrow>
           let raw1 = dict_set raw ''missing_context'' (jstrs user_missing)
           in if locally_resolved = [] then Inr raw1
              else if \<not> is_strs facts then Inl DraftIllTyped
              else Inr (dict_set raw1 ''explicit_facts'' (jstrs (the_strs facts @ [resolved_fact locally_resolved]))))"

section \<open>The preview of required sources\<close>

definition preview_contracts :: "CapabilityRegistry \<Rightarrow> AgentAssignment list \<Rightarrow> jdict pydict" where
  "preview_contracts registry assignments =
     List.map_filter (\<lambda>name. map_option (Pair name) (agent_family registry name)) (remdups (map a_family assignments))"

definition preview_context ::
  "planning_env \<Rightarrow> CapabilityRegistry \<Rightarrow> pystr \<Rightarrow> jdict \<Rightarrow> AgentAssignment list \<Rightarrow> ResolutionContext" where
  "preview_context pl registry mission_text raw assignments = \<lparr>
     rc_plan_approval_status = JStr ''approved'',
     rc_plan_acceptance_criteria = the_strs (dget raw ''acceptance_criteria''),
     rc_user_mission_request = Some mission_text,
     rc_repo = Some (pl_fs pl), rc_repo_evidence_pack = map_option fst (pl_evidence pl),
     rc_family_contracts = preview_contracts registry assignments,
     rc_task_family_by_id = fold (\<lambda>a d. dict_set d (a_task_id a) (a_family a)) assignments [],
     rc_evidence_by_task_id = [], rc_failure_log_dir_given = False, rc_excluded_paths = [],
     rc_mission_plan = Some raw, rc_capability_registry = JObj (reg_data registry), rc_limit = pl_limit pl\<rparr>"

definition required_of :: "jdict pydict \<Rightarrow> AgentAssignment \<Rightarrow> json" where
  "required_of contracts task =
     (let v = dget (case dict_get contracts (a_family task) of None \<Rightarrow> [] | Some c \<Rightarrow> c) ''required_sources''
      in if truthy v then v else JList [])"

definition gap_line :: "AgentAssignment \<Rightarrow> pystr \<Rightarrow> SourceResolution \<Rightarrow> pystr list" where
  "gap_line task cid r =
     (let reason = (case sr_reason r of None \<Rightarrow> ''None'' | Some x \<Rightarrow> x);
          line = (\<lambda>what. a_task_id task @ '': required_sources '' @ [CHR 0x27] @ cid @ [CHR 0x27] @ '' '' @ what @
                    '' ('' @ reason @ '').'')
      in if sr_availability r = MISSING then [line ''missing'']
         else if sr_availability r = UNAUTHORIZED then [line ''unauthorized'']
         else [])"

fun source_gaps :: "ResolutionContext \<Rightarrow> AgentAssignment list \<Rightarrow> plan_failure + pystr list" where
  "source_gaps ctx [] = Inr []"
| "source_gaps ctx (task # tasks) =
     (let required = required_of (rc_family_contracts ctx) task in
      if \<not> is_strs required then Inl DraftIllTyped
      else case resolve_all (the_strs required) task ctx False of
        Inl e \<Rightarrow> Inl (PreviewRaised e)
      | Inr resolved \<Rightarrow>
          py_bind (source_gaps ctx tasks) (\<lambda>rest. Inr (concat (map (\<lambda>(cid, r). gap_line task cid r) resolved) @ rest)))"

section \<open>The plan\<close>

definition BUILT_FIELDS :: "pystr list" where
  "BUILT_FIELDS = [''mission_id'', ''understanding'', ''explicit_facts'', ''missing_context'',
     ''assumptions_prohibited'', ''complexity'', ''acceptance_criteria'', ''approval_boundaries'',
     ''estimated_tokens'', ''estimated_cost_class'', ''rationale'', ''approval'', ''teachback_policy'',
     ''workspace_policy'', ''budget'', ''governance'', ''mission_constraints'']"

definition finish_plan ::
  "jdict option \<Rightarrow> jdict \<Rightarrow> AgentAssignment list \<Rightarrow> pystr list \<Rightarrow> plan_failure + MissionPlan" where
  "finish_plan reference raw assignments gaps =
     (let raw1 = dict_set raw ''missing_context'' (jstrs (the_strs (dget raw ''missing_context'') @ gaps));
          draft = dict_set (dict_set (dict_set raw1 ''assignments'' (JList [])) ''plan_hash'' (JStr []))
                    ''repository_evidence'' JNull
      in if \<not> list_all (\<lambda>k. dict_get raw1 k \<noteq> None) BUILT_FIELDS then Inl (BuildRaised KeyError)
         else if \<not> plan_typed draft then Inl DraftIllTyped
         else Inr (seal ((plan_of draft)\<lparr>p_assignments := assignments, p_repository_evidence := reference\<rparr>)))"

definition plan_from_draft ::
  "planning_env \<Rightarrow> CapabilityRegistry \<Rightarrow> pystr \<Rightarrow> AcquiredContext \<Rightarrow> json \<Rightarrow> plan_failure + MissionPlan" where
  "plan_from_draft pl registry mission_text acquired v =
     (case v of
        JObj raw0 \<Rightarrow>
          py_bind (normalize_draft acquired raw0) (\<lambda>raw.
            case dict_get raw ''assignments'' of
              None \<Rightarrow> Inl (BuildRaised KeyError)
            | Some (JList items) \<Rightarrow>
                py_bind (make_assignments items) (\<lambda>assignments.
                  case dict_get raw ''acceptance_criteria'' of
                    None \<Rightarrow> Inl (BuildRaised KeyError)
                  | Some criteria \<Rightarrow>
                      (if \<not> is_strs criteria then Inl DraftIllTyped
                       else py_bind (source_gaps (preview_context pl registry mission_text raw assignments) assignments)
                         (\<lambda>gaps. finish_plan (map_option snd (pl_evidence pl)) raw assignments gaps)))
            | Some _ \<Rightarrow> Inl DraftIllTyped)
      | _ \<Rightarrow> Inl (BuildRaised TypeError))"

definition build_plan :: "planning_env \<Rightarrow> CapabilityRegistry \<Rightarrow> pystr \<Rightarrow> plan_failure + MissionPlan" where
  "build_plan pl registry mission_text =
     (case acquire_context (pl_workspace pl) (pl_probe pl) registry of
        Inl e \<Rightarrow> Inl (AcquisitionRaised e)
      | Inr acquired \<Rightarrow>
         (case pl_codex pl of
            CodexError \<Rightarrow> Inl ProviderFailed
          | CodexText reply \<Rightarrow>
             (case json_loads (pl_limit pl) reply of
                Inl JSONDecodeError \<Rightarrow> Inl ProviderFailed
              | Inl e \<Rightarrow> Inl (BuildRaised e)
              | Inr v \<Rightarrow> plan_from_draft pl registry mission_text acquired v)))"

section \<open>Lemmas\<close>

definition source_gap :: "SourceResolution \<Rightarrow> bool" where
  "source_gap r \<longleftrightarrow> sr_availability r \<in> {MISSING, UNAUTHORIZED}"

lemma gap_line_Nil [simp]: "gap_line task cid r = [] \<longleftrightarrow> \<not> source_gap r"
  by (simp add: gap_line_def source_gap_def Let_def)

text \<open>The preview finds no gap exactly when every source of every task resolves without one.\<close>

lemma source_gaps_Nil:
  assumes "source_gaps ctx tasks = Inr gaps" and "t \<in> set tasks"
  obtains resolved where "resolve_all (the_strs (required_of (rc_family_contracts ctx) t)) t ctx False = Inr resolved"
    and "gaps = [] \<Longrightarrow> \<forall>(cid, r) \<in> set resolved. \<not> source_gap r"
proof -
  have "\<exists>resolved. resolve_all (the_strs (required_of (rc_family_contracts ctx) t)) t ctx False = Inr resolved \<and>
      (gaps = [] \<longrightarrow> (\<forall>(cid, r) \<in> set resolved. \<not> source_gap r))"
    using assms
  proof (induction tasks arbitrary: gaps)
    case (Cons u tasks)
    from Cons.prems(1) obtain resolved rest where
      u: "resolve_all (the_strs (required_of (rc_family_contracts ctx) u)) u ctx False = Inr resolved"
      and rest: "source_gaps ctx tasks = Inr rest"
      and gaps: "gaps = concat (map (\<lambda>(cid, r). gap_line u cid r) resolved) @ rest"
      by (auto simp: Let_def split: if_splits sum.splits)
    have "gaps = [] \<Longrightarrow> \<forall>(cid, r) \<in> set resolved. \<not> source_gap r"
      by (auto simp: gaps split: prod.splits)
    with Cons.IH [OF rest] Cons.prems(2) u gaps show ?case by (cases "t = u") auto
  qed simp
  with that show ?thesis by blast
qed

lemma seal_fields [simp]:
  "p_missing_context (seal p) = p_missing_context p" "p_assignments (seal p) = p_assignments p"
  "p_repository_evidence (seal p) = p_repository_evidence p"
  by (simp_all add: seal_def Let_def)

lemma seal_idem: "seal (seal p) = seal p"
  by (simp add: seal_def Let_def drop_legacy_fields_def asdict_plan_def dict_set_def)

lemma finish_plan_Inr:
  assumes "finish_plan reference raw assignments gaps = Inr plan"
  shows "p_assignments plan = assignments" and "p_repository_evidence plan = reference" and "seal plan = plan"
    and "p_missing_context plan = the_strs (dget raw ''missing_context'') @ gaps"
proof -
  have strs: "the_strs (jstrs xs) = xs" for xs by (simp add: the_strs_def jstrs_def comp_def)
  from assms show "p_assignments plan = assignments" "p_repository_evidence plan = reference" "seal plan = plan"
    by (auto simp: finish_plan_def Let_def seal_idem split: if_splits)
  from assms show "p_missing_context plan = the_strs (dget raw ''missing_context'') @ gaps"
    by (auto simp: finish_plan_def Let_def plan_of_def dget_def strs split: if_splits)
qed

lemma build_plan_Inr:
  assumes "build_plan pl registry m = Inr plan"
  obtains raw gaps where
    "source_gaps (preview_context pl registry m raw (p_assignments plan)) (p_assignments plan) = Inr gaps"
    "finish_plan (map_option snd (pl_evidence pl)) raw (p_assignments plan) gaps = Inr plan"
proof -
  from assms obtain acquired where "(case pl_codex pl of
            CodexError \<Rightarrow> Inl ProviderFailed
          | CodexText reply \<Rightarrow>
             (case json_loads (pl_limit pl) reply of
                Inl JSONDecodeError \<Rightarrow> Inl ProviderFailed
              | Inl e \<Rightarrow> Inl (BuildRaised e)
              | Inr v \<Rightarrow> plan_from_draft pl registry m acquired v)) = Inr plan"
    unfolding build_plan_def by (cases "acquire_context (pl_workspace pl) (pl_probe pl) registry") simp_all
  moreover obtain reply where "pl_codex pl = CodexText reply"
    using calculation by (cases "pl_codex pl") simp_all
  moreover obtain v where "json_loads (pl_limit pl) reply = Inr v"
    using calculation by (cases "json_loads (pl_limit pl) reply") (simp_all split: py_exn.splits)
  ultimately have "plan_from_draft pl registry m acquired v = Inr plan" by simp
  then obtain raw0 raw where "(case dict_get raw ''assignments'' of
              None \<Rightarrow> Inl (BuildRaised KeyError)
            | Some (JList items) \<Rightarrow>
                py_bind (make_assignments items) (\<lambda>assignments.
                  case dict_get raw ''acceptance_criteria'' of
                    None \<Rightarrow> Inl (BuildRaised KeyError)
                  | Some criteria \<Rightarrow>
                      (if \<not> is_strs criteria then Inl DraftIllTyped
                       else py_bind (source_gaps (preview_context pl registry m raw assignments) assignments)
                         (\<lambda>gaps. finish_plan (map_option snd (pl_evidence pl)) raw assignments gaps)))
            | Some _ \<Rightarrow> Inl DraftIllTyped) = Inr plan"
    unfolding plan_from_draft_def by (cases v) auto
  moreover obtain items where "dict_get raw ''assignments'' = Some (JList items)"
    using calculation by (cases "dict_get raw ''assignments''") (simp_all split: json.splits)
  moreover obtain criteria where "dict_get raw ''acceptance_criteria'' = Some criteria"
    using calculation by (cases "dict_get raw ''acceptance_criteria''") simp_all
  ultimately obtain assignments gaps where
    "source_gaps (preview_context pl registry m raw assignments) assignments = Inr gaps"
    and f: "finish_plan (map_option snd (pl_evidence pl)) raw assignments gaps = Inr plan"
    by (auto split: if_splits)
  with that finish_plan_Inr(1) [OF f] show ?thesis by simp
qed

lemma preview_contracts_get:
  "dict_get (preview_contracts registry assignments) f = (if f \<in> a_family ` set assignments then agent_family registry f else None)"
proof -
  have "map_of (List.map_filter (\<lambda>n. map_option (Pair n) (g n)) ns) f = (if f \<in> set ns then g f else None)"
    for g :: "pystr \<Rightarrow> jdict option" and ns
    by (induction ns) (auto simp: List.map_filter_simps split: option.splits)
  from this [of "agent_family registry" "remdups (map a_family assignments)"] show ?thesis
    by (simp add: preview_contracts_def dict_get_def)
qed

text \<open>The preview context names no failure-log directory.\<close>

lemma preview_failure_logs:
  "resolve_required_sources ''failure_logs'' t (preview_context pl registry m raw assignments) False =
     Inr (unresolved ''failure_logs'' MISSING ''failure_log_directory_absent'')"
  by (simp add: resolve_required_sources_def SOURCE_VOCABULARY_def resolve_plan_scope_def resolve_failure_logs_def
      preview_context_def lift_exn_def Let_def)

lemma resolve_into_keeps:
  "resolve_into cids task ctx enforcing acc = Inr resolved \<Longrightarrow> dict_get acc c = Some r \<Longrightarrow> c \<notin> set cids \<Longrightarrow>
   dict_get resolved c = Some r"
  by (induction cids task ctx enforcing acc rule: resolve_into.induct) auto

lemma resolve_into_member:
  "resolve_into cids task ctx enforcing acc = Inr resolved \<Longrightarrow> c \<in> set cids \<Longrightarrow>
   resolve_required_sources c task ctx enforcing = Inr r \<Longrightarrow> dict_get resolved c = Some r"
proof (induction cids task ctx enforcing acc rule: resolve_into.induct)
  case (2 cid cids task ctx enforcing acc)
  then show ?case
    by (cases "c \<in> set cids") (auto intro: resolve_into_keeps)
qed simp

lemma unresolved_gap: "dict_get resolved c = Some r \<Longrightarrow> (c, r) \<in> set resolved"
  by (simp add: dict_get_def map_of_SomeD)

lemma required_of_contract:
  assumes "t \<in> set assignments" and "agent_family registry (a_family t) = Some contract"
    and "dget contract ''required_sources'' = jstrs req" and "req \<noteq> []"
  shows "the_strs (required_of (preview_contracts registry assignments) t) = req"
proof -
  have "dict_get (preview_contracts registry assignments) (a_family t) = Some contract"
    using assms(1,2) by (simp add: preview_contracts_get)
  then show ?thesis
    using assms(3,4) by (simp add: required_of_def Let_def jstrs_def the_strs_def comp_def)
qed

lemma accepted_plan_complete:
  "validate_plan plan registry readiness texts = Inr [] \<Longrightarrow> p_missing_context plan = []"
  by (cases "assignment_loop plan registry readiness empty_totals (p_assignments plan)")
     (auto simp: validate_plan_def Let_def plan_level_problems_Nil plan_lawful_def)

section \<open>A draft\<close>

definition demo_draft_text :: pystr where
  "demo_draft_text = json_dumps '', '' '': '' False (JObj (asdict_plan demo_plan))"

definition demo_planning :: planning_env where
  "demo_planning = \<lparr>pl_workspace = demo_ws, pl_probe = demo_probe, pl_codex = CodexText demo_draft_text,
     pl_fs = demo_fs, pl_evidence = None, pl_limit = 50\<rparr>"

lemma demo_draft_parses: "json_loads 50 demo_draft_text = Inr (JObj (asdict_plan demo_plan))"
proof -
  have "fits 50 (JObj (asdict_plan demo_plan))"
    by (simp add: asdict_plan_def demo_plan_def demo_budget_def demo_constraint_def demo_a1_def demo_a2_def
        asdict_assignment_def jstrs_def nat_digits.simps)
  then show ?thesis
    unfolding demo_draft_text_def by (rule json_dumps_loads)
qed

lemma demo_assignments:
  "make_assignments [asdict_assignment demo_a1, asdict_assignment demo_a2] = Inr [demo_a1, demo_a2]"
  by code_simp

lemma demo_draft_built:
  assumes "source_gaps (preview_context demo_planning registry m
      (dict_set (dict_set (asdict_plan demo_plan) ''repository_evidence'' JNull) ''missing_context'' (jstrs []))
      [demo_a1, demo_a2]) [demo_a1, demo_a2] = Inr gaps"
  shows "build_plan demo_planning registry m = Inr (seal (demo_plan\<lparr>p_missing_context := gaps\<rparr>))"
proof -
  let ?raw = "dict_set (dict_set (asdict_plan demo_plan) ''repository_evidence'' JNull) ''missing_context'' (jstrs [])"
  have norm: "normalize_draft acquired (asdict_plan demo_plan) = Inr ?raw" for acquired
    by (simp add: normalize_draft_def Let_def asdict_plan_def demo_plan_def jstrs_def is_strs_def the_strs_def dict_set_def)
  have raw: "dict_get ?raw ''assignments'' = Some (JList [asdict_assignment demo_a1, asdict_assignment demo_a2])"
    "dict_get ?raw ''acceptance_criteria'' = Some (jstrs [''verdict''])"
    by (simp_all add: asdict_plan_def demo_plan_def)
  have fin: "finish_plan None ?raw [demo_a1, demo_a2] gaps = Inr (seal (demo_plan\<lparr>p_missing_context := gaps\<rparr>))"
    by (simp add: finish_plan_def Let_def BUILT_FIELDS_def asdict_plan_def demo_plan_def plan_typed_def plan_of_def
        jstrs_def is_strs_def the_strs_def comp_def list_all_iff dict_set_def)
  obtain ctx where "acquire_context demo_ws demo_probe registry = Inr ctx"
    using demo_acquired by (auto simp: acquire_context_def load_policy_def demo_ws_def)
  moreover have "pl_workspace demo_planning = demo_ws" "pl_probe demo_planning = demo_probe" "pl_limit demo_planning = 50"
    "pl_codex demo_planning = CodexText demo_draft_text" "pl_evidence demo_planning = None"
    by (simp_all add: demo_planning_def)
  ultimately show ?thesis
    using assms norm raw fin demo_assignments demo_draft_parses
    by (simp add: build_plan_def plan_from_draft_def is_strs_def jstrs_def)
qed

section \<open>Properties\<close>

text \<open>
  C31: the plan that \<open>build_plan\<close> returns carries exactly the reference of the acquired evidence,
  whatever the provider wrote, is sealed, and tells the truth about its sources: if Hokage accepts
  it, then in the preview every source that the family of any of its assignments requires resolved
  as available, pending or not applicable, never as missing or unauthorized.
\<close>

theorem accepted_plan_has_no_source_gap:
  assumes "build_plan pl registry m = Inr plan" and "validate_plan plan registry readiness texts = Inr []"
  shows "p_repository_evidence plan = map_option snd (pl_evidence pl) \<and> seal plan = plan \<and>
    (\<exists>raw. \<forall>t \<in> set (p_assignments plan). \<exists>resolved.
       resolve_all (the_strs (required_of (preview_contracts registry (p_assignments plan)) t)) t
         (preview_context pl registry m raw (p_assignments plan)) False = Inr resolved \<and>
       (\<forall>(cid, r) \<in> set resolved. sr_availability r \<in> {AVAILABLE, PENDING_PRODUCER, NOT_APPLICABLE}))"
proof -
  from build_plan_Inr [OF assms(1)] obtain raw gaps where
    gaps: "source_gaps (preview_context pl registry m raw (p_assignments plan)) (p_assignments plan) = Inr gaps"
    and fin: "finish_plan (map_option snd (pl_evidence pl)) raw (p_assignments plan) gaps = Inr plan"
    by blast
  note built = finish_plan_Inr [OF fin]
  from accepted_plan_complete [OF assms(2)] built(4) have none: "gaps = []" by simp
  have ctx: "rc_family_contracts (preview_context pl registry m raw (p_assignments plan)) =
      preview_contracts registry (p_assignments plan)"
    by (simp add: preview_context_def)
  have ok: "\<not> source_gap r \<longleftrightarrow> sr_availability r \<in> {AVAILABLE, PENDING_PRODUCER, NOT_APPLICABLE}" for r
    by (cases "sr_availability r") (simp_all add: source_gap_def)
  have "\<exists>resolved. resolve_all (the_strs (required_of (preview_contracts registry (p_assignments plan)) t)) t
         (preview_context pl registry m raw (p_assignments plan)) False = Inr resolved \<and>
       (\<forall>(cid, r) \<in> set resolved. sr_availability r \<in> {AVAILABLE, PENDING_PRODUCER, NOT_APPLICABLE})"
    if "t \<in> set (p_assignments plan)" for t
    using source_gaps_Nil [OF gaps that] none by (metis (no_types, lifting) ctx ok case_prodI2 case_prodD)
  with built(2,3) show ?thesis by blast
qed

lemma demo_built: "build_plan demo_planning demo_registry m = Inr (seal demo_plan)"
proof -
  have "source_gaps (preview_context demo_planning demo_registry m raw [demo_a1, demo_a2]) [demo_a1, demo_a2] = Inr []" for raw
    by (simp add: preview_context_def required_of_def Let_def preview_contracts_get agent_family_def demo_registry_def
        demo_a1_def demo_a2_def demo_contract_def is_strs_def the_strs_def resolve_all_def)
  from demo_draft_built [OF this] show ?thesis by (simp add: demo_plan_def)
qed

lemma demo_built_valid:
  "validate_plan (demo_plan\<lparr>p_plan_hash := h\<rparr>) demo_registry (Some demo_readiness) (Some [''in two steps, please'']) = Inr []"
  by code_simp

theorem accepted_plan_has_no_source_gap_witness:
  "build_plan demo_planning demo_registry ''in two steps, please'' = Inr (seal demo_plan) \<and>
   validate_plan (seal demo_plan) demo_registry (Some demo_readiness) (Some [''in two steps, please'']) = Inr [] \<and>
   p_repository_evidence (seal demo_plan) = None \<and> seal (seal demo_plan) = seal demo_plan"
proof -
  have valid: "validate_plan (seal demo_plan) demo_registry (Some demo_readiness) (Some [''in two steps, please'']) = Inr []"
    unfolding seal_def Let_def by (rule demo_built_valid)
  have "pl_evidence demo_planning = None" by (simp add: demo_planning_def)
  with accepted_plan_has_no_source_gap [OF demo_built [of "''in two steps, please''"] valid] demo_built valid
  show ?thesis by simp
qed

text \<open>
  C40: the preview leaves out the failure-log directory that the executor's gate supplies, so the
  source \<open>failure_logs\<close> is always missing at planning time: a plan with an assignment whose
  family requires it always has missing context and is never accepted, whatever the repository holds.
\<close>

theorem failure_logs_are_never_plannable:
  assumes "build_plan pl registry m = Inr plan" and "t \<in> set (p_assignments plan)"
    and "agent_family registry (a_family t) = Some contract"
    and "dget contract ''required_sources'' = jstrs req" and "''failure_logs'' \<in> set req"
  shows "p_missing_context plan \<noteq> [] \<and> validate_plan plan registry readiness texts \<noteq> Inr []"
proof -
  from build_plan_Inr [OF assms(1)] obtain raw gaps where
    gaps: "source_gaps (preview_context pl registry m raw (p_assignments plan)) (p_assignments plan) = Inr gaps"
    and fin: "finish_plan (map_option snd (pl_evidence pl)) raw (p_assignments plan) gaps = Inr plan"
    by blast
  let ?ctx = "preview_context pl registry m raw (p_assignments plan)"
  have "req \<noteq> []" using assms(5) by auto
  from required_of_contract [OF assms(2-4) this] have "the_strs (required_of (rc_family_contracts ?ctx) t) = req"
    by (simp add: preview_context_def)
  with source_gaps_Nil [OF gaps assms(2)] obtain resolved where
    r: "resolve_all req t ?ctx False = Inr resolved" "gaps = [] \<Longrightarrow> \<forall>(cid, r) \<in> set resolved. \<not> source_gap r"
    by metis
  have "(''failure_logs'', unresolved ''failure_logs'' MISSING ''failure_log_directory_absent'') \<in> set resolved"
    by (rule unresolved_gap [OF resolve_into_member [OF r(1) [unfolded resolve_all_def] assms(5) preview_failure_logs]])
  with r(2) have "gaps \<noteq> []" by (force simp: source_gap_def)
  with finish_plan_Inr(4) [OF fin] have "p_missing_context plan \<noteq> []" by simp
  with accepted_plan_complete [of plan registry readiness texts] show ?thesis by blast
qed

definition demo_needy_registry :: CapabilityRegistry where
  "demo_needy_registry = demo_registry\<lparr>reg_family := (\<lambda>_. Some [(''required_sources'', jstrs [''failure_logs''])])\<rparr>"

theorem failure_logs_are_never_plannable_witness:
  "\<exists>plan. build_plan demo_planning demo_needy_registry ''fix it'' = Inr plan \<and> p_missing_context plan \<noteq> [] \<and>
     validate_plan plan demo_needy_registry None None \<noteq> Inr []"
proof -
  have gaps: "\<exists>gaps. source_gaps (preview_context demo_planning demo_needy_registry ''fix it'' raw [demo_a1, demo_a2]) [demo_a1, demo_a2] =
      Inr gaps" for raw
  proof -
    let ?ctx = "preview_context demo_planning demo_needy_registry ''fix it'' raw [demo_a1, demo_a2]"
    have "required_of (rc_family_contracts ?ctx) t = jstrs [''failure_logs'']" if "t \<in> {demo_a1, demo_a2}" for t
      using that by (auto simp: preview_context_def required_of_def Let_def preview_contracts_get agent_family_def
          demo_needy_registry_def jstrs_def)
    then show ?thesis
      by (simp add: jstrs_def is_strs_def the_strs_def resolve_all_def preview_failure_logs)
  qed
  then obtain gaps where b: "build_plan demo_planning demo_needy_registry ''fix it'' =
      Inr (seal (demo_plan\<lparr>p_missing_context := gaps\<rparr>))"
    using demo_draft_built by blast
  have t: "demo_a1 \<in> set (p_assignments (seal (demo_plan\<lparr>p_missing_context := gaps\<rparr>)))" by (simp add: demo_plan_def)
  have f: "agent_family demo_needy_registry (a_family demo_a1) = Some [(''required_sources'', jstrs [''failure_logs''])]"
    by (simp add: agent_family_def demo_needy_registry_def)
  from failure_logs_are_never_plannable [OF b t f, of "[''failure_logs'']" None None] b show ?thesis by auto
qed

end
