(* ===== verification/Canonical_Json.thy ===== *)
theory Canonical_Json
  imports Json_Text Sha256
begin

text \<open>
  The canonical form of \<open>tools/hokage_orchestrator/authority.py\<close>: key-sorted text, its digest,
  and the key-sorted file that \<open>atomic_write_json\<close> and \<open>publish_once\<close> write. The value read back
  from such a file is the written one with the keys of every object in order; digests do not see
  the difference, and two values of equal canonical text differ in key order only.
\<close>

section \<open>Definitions\<close>

text \<open>The value that a text printed with \<open>sort_keys=True\<close> parses to.\<close>

fun sorted_json :: "json \<Rightarrow> json" where
  "sorted_json (JList xs) = JList (map sorted_json xs)"
| "sorted_json (JObj d) = JObj (sort_key fst (map (\<lambda>(k, v). (k, sorted_json v)) d))"
| "sorted_json v = v"

definition sorted_dict :: "jdict \<Rightarrow> jdict" where
  "sorted_dict d = the_obj (sorted_json (JObj d))"

definition canonical_json :: "jdict \<Rightarrow> pystr" where
  "canonical_json payload = canonical_dumps (JObj payload)"

definition canonical_digest :: "jdict \<Rightarrow> pystr" where
  "canonical_digest payload = sha256_hex (canonical_json payload)"

text \<open>The text of \<open>atomic_write_json\<close> and \<open>publish_once\<close>: two-space indentation, sorted keys, a
  final newline.\<close>

definition stored_text :: "jdict \<Rightarrow> pystr" where
  "stored_text payload = json_dumps_indent 0 (sorted_json (JObj payload)) @ new_line 0"

text \<open>
  \<open>a == b\<close> on decoded values: booleans are integers, integers and floats compare by value (a
  float NaN equals nothing), objects regardless of key order.
\<close>

fun number_of :: "json \<Rightarrow> (int \<times> int) option" where
  "number_of (JInt i) = Some (i, 0)"
| "number_of (JBool b) = Some (if b then 1 else 0, 0)"
| "number_of (JFloat (FFin neg m e)) = Some (if neg then - int m else int m, e)"
| "number_of _ = None"

definition same_decimal :: "int \<times> int \<Rightarrow> int \<times> int \<Rightarrow> bool" where
  "same_decimal a b = (case (a, b) of ((m, e), (n, f)) \<Rightarrow>
     if e \<le> f then m = n * 10 ^ nat (f - e) else m * 10 ^ nat (e - f) = n)"

fun py_eq :: "json \<Rightarrow> json \<Rightarrow> bool" where
  "py_eq (JStr s) w = (w = JStr s)"
| "py_eq JNull w = (w = JNull)"
| "py_eq (JList xs) w = (case w of JList ys \<Rightarrow> list_all2 py_eq xs ys | _ \<Rightarrow> False)"
| "py_eq (JObj d) w = (case w of
      JObj e \<Rightarrow> length d = length e \<and>
        list_all (\<lambda>(k, v). case dict_get e k of None \<Rightarrow> False | Some u \<Rightarrow> py_eq v u) d
    | _ \<Rightarrow> False)"
| "py_eq (JFloat FInf) w = (w = JFloat FInf)"
| "py_eq (JFloat FNegInf) w = (w = JFloat FNegInf)"
| "py_eq (JFloat FNaN) w = False"
| "py_eq v w = (case (number_of v, number_of w) of (Some a, Some b) \<Rightarrow> same_decimal a b | _ \<Rightarrow> False)"

section \<open>Reading a key-sorted object\<close>

lemma sort_key_map: "map f (sort_key g xs) = sort_key h (map f xs)" if "\<And>x. h (f x) = g x"
proof -
  have ins: "map f (insort_key g x ys) = insort_key h (f x) (map f ys)" for x ys
    by (induction ys) (simp_all add: that)
  show ?thesis by (induction xs) (simp_all add: ins)
qed

lemma map_of_sort_key: "map_of (sort_key fst d) k = map_of (d :: (pystr \<times> 'v) list) k"
proof -
  have first: "map_of xs k = (case filter (\<lambda>p. fst p = k) xs of [] \<Rightarrow> None | p # _ \<Rightarrow> Some (snd p))"
    for xs :: "(pystr \<times> 'v) list"
    by (induction xs) auto
  have "filter (\<lambda>p. fst p = k) (sort_key fst d) = filter (\<lambda>p. fst p = k) d"
    using sort_key_stable [of fst k d] by (simp add: eq_commute)
  then show ?thesis by (simp add: first)
qed

lemma dict_get_sorted [simp]: "dict_get (sorted_dict d) k = map_option sorted_json (dict_get d k)"
proof -
  have "map_of (map (\<lambda>(k, v). (k, sorted_json v)) d) k = map_option sorted_json (map_of d k)"
    by (induction d) auto
  then show ?thesis by (simp add: sorted_dict_def dict_get_def map_of_sort_key)
qed

lemma dget_sorted [simp]: "dget (sorted_dict d) k = sorted_json (dget d k)"
  by (cases "dict_get d k") (simp_all add: dget_def)

lemma sorted_json_atoms [simp]:
  "sorted_json v = JStr s \<longleftrightarrow> v = JStr s" "sorted_json v = JBool b \<longleftrightarrow> v = JBool b"
  "sorted_json v = JNull \<longleftrightarrow> v = JNull"
  "is_str (sorted_json v) = is_str v" "is_bool (sorted_json v) = is_bool v"
  "nonempty_str (sorted_json v) = nonempty_str v" "is_dict (sorted_json v) = is_dict v"
  "is_list (sorted_json v) = is_list v" "the_str (sorted_json v) = the_str v"
  "the_bool (sorted_json v) = the_bool v" "hashable (sorted_json v) = hashable v"
  by (cases v; simp)+

lemma sorted_dict_alt: "sorted_dict d = sort_key fst (map (\<lambda>(k, v). (k, sorted_json v)) d)"
  by (simp add: sorted_dict_def)

lemma sorted_json_JObj [simp]: "sorted_json (JObj d) = JObj (sorted_dict d)"
  by (simp add: sorted_dict_def)

declare sorted_json.simps(2) [simp del]

lemma the_obj_sorted [simp]: "the_obj (sorted_json v) = sorted_dict (the_obj v)"
  by (cases v) (simp_all add: sorted_dict_alt)

lemma the_list_sorted [simp]: "the_list (sorted_json v) = map sorted_json (the_list v)"
  by (cases v) simp_all

lemma the_strs_sorted [simp]: "the_strs (sorted_json v) = the_strs v"
  by (simp add: the_strs_def)

lemma keys_sorted [simp]: "fst ` set (sorted_dict d) = fst ` set d"
  by (force simp: sorted_dict_alt)

lemma distinct_keys_sorted [simp]: "distinct (map fst (sorted_dict d)) = distinct (map fst d)"
proof -
  have "map fst (sorted_dict d) = sort (map fst d)"
    by (simp add: sorted_dict_alt sort_key_map [where h = "\<lambda>k. k"] case_prod_unfold comp_def)
  then show ?thesis by simp
qed

section \<open>Canonical texts\<close>

lemma canonical_dumps_sorted_json: "canonical_dumps v = json_dumps '','' '':'' False (sorted_json v)"
  unfolding canonical_dumps_def
proof (induction v)
  case (JObj d)
  have "map snd (sort_key fst (map (\<lambda>(k, v). (k, json_quote k @ '':'' @ json_dumps '','' '':'' True v)) d))
      = map (\<lambda>(k, v). json_quote k @ '':'' @ json_dumps '','' '':'' True v) (sort_key fst d)"
    by (simp add: sort_key_map [where h = fst, symmetric] case_prod_unfold)
  also have "\<dots> = map (\<lambda>(k, v). json_quote k @ '':'' @ json_dumps '','' '':'' False (sorted_json v)) (sort_key fst d)"
    using JObj by (auto simp: case_prod_unfold)
  also have "\<dots> = map (\<lambda>(k, w). json_quote k @ '':'' @ json_dumps '','' '':'' False w) (sorted_dict d)"
    by (simp add: sorted_dict_alt sort_key_map [where h = fst, symmetric] case_prod_unfold)
  finally show ?case by (simp add: case_prod_unfold comp_def Let_def)
next
  case (JList xs)
  then show ?case by (simp add: comp_def cong: map_cong)
qed simp_all

lemma sorted_json_idem [simp]: "sorted_json (sorted_json v) = sorted_json v"
proof (induction v)
  case (JObj d)
  let ?m = "map (\<lambda>(k, v). (k, sorted_json v)) d"
  have "map (\<lambda>(k, v). (k, sorted_json v)) (sort_key fst ?m) = sort_key fst ?m"
    using JObj by (intro map_idI) (auto simp: case_prod_unfold)
  then show ?case
    by (simp add: sorted_dict_alt sort_key_id_if_sorted)
qed (simp_all add: comp_def cong: map_cong)

lemma canonical_digest_sorted [simp]: "canonical_digest (sorted_dict d) = canonical_digest d"
proof -
  have "canonical_dumps (sorted_json (JObj d)) = canonical_dumps (JObj d)"
    by (simp only: canonical_dumps_sorted_json sorted_json_idem)
  then show ?thesis by (simp add: canonical_digest_def canonical_json_def)
qed

lemma canonical_digest_nonempty [simp]: "canonical_digest d \<noteq> []"
  using length_sha256_hex [of "canonical_json d"] by (auto simp: canonical_digest_def simp del: length_sha256_hex)

lemma length_canonical_digest [simp]: "length (canonical_digest d) = 64"
  by (simp add: canonical_digest_def)

section \<open>Round trips\<close>

lemma fits_sorted: "fits n v \<Longrightarrow> fits n (sorted_json v)"
proof (induction v arbitrary: n)
  case (JList xs)
  then show ?case by (cases n) (auto simp: list_all_iff)
next
  case (JObj d)
  then obtain m where m: "n = Suc m" "distinct (map fst d)" "\<forall>(k, v) \<in> set d. fits m v"
    by (cases n) (auto simp: list_all_iff)
  have "fits m w" if "(k, w) \<in> set (sorted_dict d)" for k w
    using that m(3) JObj.IH by (force simp: sorted_dict_alt)
  with m show ?case by (auto simp: list_all_iff)
qed simp_all

lemma stored_text_loads:
  assumes "fits limit (JObj payload)"
  shows "json_loads limit (stored_text payload) = Inr (JObj (sorted_dict payload))"
proof -
  let ?v = "JObj (sorted_dict payload)" and ?s = "json_dumps_indent 0 (JObj (sorted_dict payload))"
  have r: "renders limit ?v ?s"
    using fits_sorted [OF assms] by (simp only: sorted_json_JObj json_dumps_indent_renders)
  obtain c t where s: "?s = c # t" "\<not> json_ws c" using renders_head(1) [OF r] by blast
  have nl: "ends_number (new_line 0)" "skip_ws (new_line 0) = []"
    by (simp_all add: new_line_def ends_number_def is_digit_def code_point_def skip_ws_def json_ws_def)
  from s have "skip_ws (?s @ new_line 0) = ?s @ new_line 0" by (simp add: skip_ws_def)
  with rendered_text_parses(1) [OF r, of "json_fuel (?s @ new_line 0)" "new_line 0"] nl show ?thesis
    by (simp add: json_loads_def json_fuel_def stored_text_def)
qed

lemma canonical_text_identifies:
  assumes "fits n (JObj a)" and "fits n (JObj b)" and "canonical_json a = canonical_json b"
  shows "sorted_dict a = sorted_dict b"
proof -
  have "json_loads n (canonical_json d) = Inr (JObj (sorted_dict d))" if "fits n (JObj d)" for d
    using fits_sorted [OF that] json_dumps_renders [of "[]" "[]" n "sorted_json (JObj d)"]
    by (simp add: canonical_json_def canonical_dumps_sorted_json blank_def rendered_text_loads)
  from this [OF assms(1)] this [OF assms(2)] assms(3) show ?thesis by simp
qed

text \<open>
  The canonical text, on which every digest of the authority files rests, identifies a
  payload up to the order of keys: it does not see how the keys of the objects in the payload are
  ordered, and payloads with equal canonical texts are equal once their keys are put in order.
\<close>

theorem canonical_json_identifies_payload:
  assumes "fits n (JObj a)" and "fits n (JObj b)"
  shows "canonical_json a = canonical_json b \<longleftrightarrow> sorted_dict a = sorted_dict b"
proof
  assume "sorted_dict a = sorted_dict b"
  then have "sorted_json (JObj a) = sorted_json (JObj b)" by simp
  then show "canonical_json a = canonical_json b" by (simp only: canonical_json_def canonical_dumps_sorted_json)
qed (rule canonical_text_identifies [OF assms])

theorem canonical_json_identifies_payload_witness:
  "canonical_json [(''b'', JInt 1), (''a'', JList [JObj [(''y'', JNull), (''x'', JBool True)]])]
   = canonical_json [(''a'', JList [JObj [(''x'', JBool True), (''y'', JNull)]]), (''b'', JInt 1)]"
  by (rule canonical_json_identifies_payload [of 5, THEN iffD2])
    (simp_all add: sorted_dict_alt nat_digits.simps)

end
