(* ===== verification/Skills.thy ===== *)
theory Skills
  imports Canonical_Json
begin

text \<open>
  The skill registry of \<open>tools/hokage_orchestrator/skill_runtime.py\<close>: the closed table of skills,
  the capability profile that each skill has with each provider, and the schema 1.0 action
  proposal with its approval check.
\<close>

record capabilities =
  mutates_files :: bool
  external_network :: bool
  local_transport :: bool
  private_context :: bool

record skill = capabilities +
  sk_title :: pystr
  sk_description :: pystr
  runtime_kind :: pystr
  command_id :: "pystr option"
  risk_level :: pystr
  internal_token :: "pystr option"

definition inert :: capabilities where
  "inert = \<lparr>mutates_files = False, external_network = False, local_transport = False, private_context = False\<rparr>"

definition make_skill :: "bool \<Rightarrow> pystr \<Rightarrow> pystr \<Rightarrow> pystr \<Rightarrow> pystr option \<Rightarrow> pystr \<Rightarrow> pystr option \<Rightarrow> skill" where
  "make_skill mutates title description kind command risk token =
     \<lparr>mutates_files = mutates, external_network = False, local_transport = False, private_context = False,
      sk_title = title, sk_description = description, runtime_kind = kind, command_id = command,
      risk_level = risk, internal_token = token\<rparr>"

definition SKILLS :: "skill pydict" where
  "SKILLS = [
    (''inspect_python_runtime'', make_skill False ''Inspect Python runtime''
       ''Execute the planned Python version inspection.'' ''execute-command''
       (Some ''inspect-python'') ''low'' (Some ''EXECUTE_APPROVED_COMMAND'')),
    (''inspect_git_status'', make_skill False ''Inspect Git status''
       ''Execute the planned read-only Git status inspection.'' ''execute-command''
       (Some ''inspect-git-status'') ''low'' (Some ''EXECUTE_APPROVED_COMMAND'')),
    (''run_deterministic_audit_checks'', make_skill False ''Run deterministic audit checks''
       ''Run repository tests before any local-model invocation.'' ''orchestrator'' None ''low'' None),
    (''run_technical_plan'', make_skill False ''Produce a technical plan''
       ''Invoke the decision-selected provider (codex or ollama) to produce a bounded technical plan.''
       ''orchestrator'' None ''medium'' None),
    (''invoke_local_model_audit'', make_skill False ''Run local-model repository audit''
       ''Invoke the approved Ollama model after deterministic checks, then normalize and validate all findings.''
       ''orchestrator'' None ''medium'' None),
    (''apply_validated_patch'', make_skill True ''Apply validated documentation patch''
       ''Apply only the exact approved patch plan and changed paths.'' ''orchestrator'' None ''medium'' None),
    (''run_post_patch_tests'', make_skill False ''Run post-patch tests''
       ''Run the full focused regression suite after patch application.'' ''orchestrator'' None ''low'' None)]"

text \<open>The problems \<open>validate_skills\<close> reports; the boolean type test of the source is the typing of
  the record here.\<close>

datatype skill_problem = UnsupportedKind pystr | UnexpectedMutation pystr | NetworkNotBlocked pystr

definition skill_problems :: "pystr \<times> skill \<Rightarrow> skill_problem list" where
  "skill_problems entry = (case entry of (skill_id, s) \<Rightarrow>
     (if runtime_kind s \<notin> {''execute-command'', ''orchestrator''} then [UnsupportedKind skill_id] else []) @
     (if mutates_files s \<and> skill_id \<notin> {''apply_validated_patch''} then [UnexpectedMutation skill_id] else []) @
     (if external_network s then [NetworkNotBlocked skill_id] else []))"

definition validate_skills :: "skill_problem list" where
  "validate_skills = concat (map skill_problems SKILLS)"

definition PROVIDER_SKILL_IDS :: "pystr list" where
  "PROVIDER_SKILL_IDS = [''run_technical_plan'', ''invoke_local_model_audit'']"

definition PROVIDER_CAPABILITIES :: "capabilities pydict pydict" where
  "PROVIDER_CAPABILITIES = [
     (''run_technical_plan'',
       [(''codex'', inert\<lparr>external_network := True\<rparr>), (''ollama'', inert\<lparr>local_transport := True\<rparr>)]),
     (''invoke_local_model_audit'', [(''ollama'', inert\<lparr>local_transport := True\<rparr>)])]"

definition effective_capabilities :: "pystr \<Rightarrow> pystr option \<Rightarrow> capabilities py" where
  "effective_capabilities skill_id provider =
     (case dict_get SKILLS skill_id of
        None \<Rightarrow> Inl KeyError
      | Some s \<Rightarrow>
         (if skill_id \<in> set PROVIDER_SKILL_IDS then
            (case provider of
               None \<Rightarrow> Inl ValueError
             | Some p \<Rightarrow>
                (if p = [] then Inl ValueError
                 else case dict_get PROVIDER_CAPABILITIES skill_id of
                        None \<Rightarrow> Inl KeyError
                      | Some table \<Rightarrow> (case dict_get table p of None \<Rightarrow> Inl ValueError | Some caps \<Rightarrow> Inr caps)))
          else if provider \<noteq> None then Inl ValueError
          else Inr (capabilities.truncate s)))"

section \<open>Schema 1.0 action proposals\<close>

definition arguments_hash :: "jdict \<Rightarrow> pystr" where
  "arguments_hash arguments = canonical_digest arguments"

definition proposal_digest :: "pystr \<Rightarrow> pystr \<Rightarrow> pystr \<Rightarrow> pystr" where
  "proposal_digest mission_id skill_id args_hash =
     take 10 (sha256_hex (mission_id @ ''|'' @ skill_id @ ''|'' @ args_hash))"

definition proposal_authority :: json where
  "proposal_authority = JObj [(''proposal_is_not_permission'', JBool True),
     (''approval_is_bound_to_arguments_hash'', JBool True)]"

definition make_action :: "pystr \<Rightarrow> pystr \<Rightarrow> pystr \<Rightarrow> pystr \<Rightarrow> jdict \<Rightarrow> jdict py" where
  "make_action now mission_id plan_id skill_id arguments =
     (case dict_get SKILLS skill_id of
        None \<Rightarrow> Inl KeyError
      | Some s \<Rightarrow>
         (let digest = proposal_digest mission_id skill_id (arguments_hash arguments);
              suffix = py_upper digest
          in Inr [
            (''schema_version'', JStr ''1.0.0''),
            (''report_type'', JStr ''conversational_action_proposal''),
            (''action_id'', JStr (''action-'' @ digest)),
            (''mission_id'', JStr mission_id),
            (''plan_id'', JStr plan_id),
            (''skill_id'', JStr skill_id),
            (''title'', JStr (sk_title s)),
            (''description'', JStr (sk_description s)),
            (''arguments'', JObj arguments),
            (''arguments_hash'', JStr (arguments_hash arguments)),
            (''risk_level'', JStr (risk_level s)),
            (''mutates_files'', JBool (mutates_files s)),
            (''network_required'', JBool False),
            (''private_context_required'', JBool False),
            (''status'', JStr ''proposed''),
            (''approval_phrase'', JStr (''APROBAR ACCION-'' @ suffix)),
            (''rejection_phrase'', JStr (''RECHAZAR ACCION-'' @ suffix)),
            (''created_at'', JStr now),
            (''authority'', proposal_authority)]))"

text \<open>Whatever value \<open>action["arguments"]\<close> is, it has a canonical text and a digest.\<close>

definition verify_action_approval :: "jdict \<Rightarrow> pystr \<Rightarrow> bool py" where
  "verify_action_approval action phrase =
     (case (dict_get action ''approval_phrase'', dict_get action ''arguments'', dict_get action ''arguments_hash'') of
        (None, _, _) \<Rightarrow> Inl KeyError
      | (Some p, a, h) \<Rightarrow>
         (if JStr (py_strip phrase) \<noteq> p then Inr False
          else case (a, h) of
                 (Some args, Some hash) \<Rightarrow> Inr (JStr (sha256_hex (canonical_dumps args)) = hash)
               | _ \<Rightarrow> Inl KeyError))"

section \<open>What the registry guarantees\<close>

lemma registry_is_valid: "validate_skills = []"
  by (simp add: validate_skills_def skill_problems_def SKILLS_def make_skill_def)

lemma provider_skills_registered: "s \<in> set PROVIDER_SKILL_IDS \<Longrightarrow> dict_get SKILLS s \<noteq> None"
  by (auto simp: PROVIDER_SKILL_IDS_def SKILLS_def)

lemma no_private_context: "effective_capabilities skill_id provider = Inr caps \<Longrightarrow> \<not> private_context caps"
  by (auto simp: effective_capabilities_def SKILLS_def make_skill_def PROVIDER_CAPABILITIES_def inert_def
      capabilities.truncate_def PROVIDER_SKILL_IDS_def split: option.splits if_splits)

lemma only_the_patch_mutates:
  "effective_capabilities skill_id provider = Inr caps \<Longrightarrow> mutates_files caps \<longleftrightarrow> skill_id = ''apply_validated_patch''"
  by (auto simp: effective_capabilities_def SKILLS_def make_skill_def PROVIDER_CAPABILITIES_def inert_def
      capabilities.truncate_def PROVIDER_SKILL_IDS_def split: option.splits if_splits)

lemma only_codex_leaves_the_machine:
  "effective_capabilities skill_id provider = Inr caps \<Longrightarrow>
     external_network caps \<longleftrightarrow> skill_id = ''run_technical_plan'' \<and> provider = Some ''codex''"
  by (auto simp: effective_capabilities_def SKILLS_def make_skill_def PROVIDER_CAPABILITIES_def inert_def
      capabilities.truncate_def PROVIDER_SKILL_IDS_def split: option.splits if_splits)

lemma length_proposal_digest [simp]: "length (proposal_digest m s h) = 10"
  by (simp add: proposal_digest_def)

lemma proposal_digest_nonempty [simp]: "proposal_digest m s h \<noteq> []"
  using length_proposal_digest [of m s h] by (auto simp del: length_proposal_digest)

end
