(* ===== verification/Authority.thy ===== *)
theory Authority
  imports Skills
begin

text \<open>
  The authority checkpoint, \<open>tools/hokage_orchestrator/authority.py\<close>: the closed shapes of the
  mission charter, the mission decision and the approval receipt, the write-once publication of
  the receipt, the check of a charter candidate, and the check that every action passes when it
  is created, restored and dispatched.

  A file is what reading and decoding it yields (\<open>stored\<close>); the three files of a mission
  directory, with the directory's name, form an \<open>authority_files\<close>. Every check takes the files
  as its reads found them, so that two checks may see two different contents. A function raises
  an \<open>AuthorityBindingError\<close> of one of the stable codes, or an exception that is not normalized;
  the free text of a diagnostic is left out.
\<close>

section \<open>Errors\<close>

datatype code =
    charter_binding_mismatch | decision_binding_mismatch | mission_binding_mismatch
  | provider_selection_mismatch | model_selection_mismatch | strategy_selection_mismatch
  | selection_source_mismatch | capability_binding_mismatch | capability_constraint_violation
  | skill_forbidden | authority_receipt_missing | authority_receipt_invalid
  | charter_immutable_violation | decision_immutable_violation | arguments_hash_mismatch
  | approval_binding_mismatch | charter_schema_migration_required | execution_claim_missing
  | execution_claim_invalid | execution_already_claimed | execution_claim_binding_mismatch
  | action_queue_lock_timeout | execution_still_active

text \<open>\<open>Raised\<close> is an exception of the interpreter, \<open>OsRaised\<close> an \<open>OSError\<close>.\<close>

datatype qexn = Binding code | Raised py_exn | OsRaised

text \<open>A guard of the code, and a sequence of guards of which the first that fails is raised.\<close>

definition require :: "bool \<Rightarrow> code \<Rightarrow> qexn + unit" where
  "require b c = (if b then Inr () else Inl (Binding c))"

fun checks :: "(bool \<times> code) list \<Rightarrow> qexn + unit" where
  "checks [] = Inr ()"
| "checks ((b, c) # rest) = (if b then checks rest else Inl (Binding c))"

lemma require_Inr [simp]: "require b c = Inr u \<longleftrightarrow> b"
  by (simp add: require_def)

lemma checks_Inr [simp]: "checks gs = Inr u \<longleftrightarrow> list_all fst gs"
  by (induction gs) (auto split: if_splits)

text \<open>A sequence of guards fails with the code of one of them.\<close>

lemma checks_Inl: "checks gs = Inl e \<Longrightarrow> \<exists>c \<in> snd ` set gs. e = Binding c"
  by (induction gs) (auto simp del: checks_Inr split: if_splits)

declare checks.simps [simp del]

section \<open>The three files\<close>

text \<open>
  What reading a file as UTF-8 JSON meets: no file, an \<open>OSError\<close>, a \<open>ValueError\<close> that is no
  \<open>JSONDecodeError\<close> (bytes that are not UTF-8, an integer literal beyond the conversion limit),
  a \<open>JSONDecodeError\<close>, a \<open>RecursionError\<close>, or a value.
\<close>

datatype stored = Missing | OsFailure | NotText | NotJsonText | DeepText | Holds json

record authority_files =
  dir_name :: pystr
  charter_file :: stored
  decision_file :: stored
  receipt_file :: stored

definition read_authoritative_json :: "code \<Rightarrow> stored \<Rightarrow> qexn + jdict" where
  "read_authoritative_json error_code f = (case f of
     Missing \<Rightarrow> Inl (Binding error_code)
   | OsFailure \<Rightarrow> Inl (Binding error_code)
   | NotText \<Rightarrow> Inl (Raised ValueError)
   | NotJsonText \<Rightarrow> Inl (Binding error_code)
   | DeepText \<Rightarrow> Inl (Raised RecursionError)
   | Holds v \<Rightarrow> (case v of JObj d \<Rightarrow> Inr d | _ \<Rightarrow> Inl (Binding error_code)))"

definition required :: "jdict \<Rightarrow> pystr \<Rightarrow> code \<Rightarrow> qexn + json" where
  "required source key c = (case dict_get source key of None \<Rightarrow> Inl (Binding c) | Some v \<Rightarrow> Inr v)"

text \<open>
  How the exclusive create of \<open>publish_once\<close> goes: the bytes reach the file; the directory cannot
  be made or the file not opened; the write raises, or stops short without
  raising (the count \<open>os.write\<close> returns is not looked at), and leaves some content behind.
\<close>

datatype publish_env = Publishes | MkdirFails | CreateFails | WriteFails stored | ShortWrite stored

text \<open>Once created the file exists, empty at the least, which is no JSON text.\<close>

definition left_behind :: "stored \<Rightarrow> stored" where
  "left_behind torn = (if torn = Missing then NotJsonText else torn)"

definition publish_once ::
  "publish_env \<Rightarrow> stored \<Rightarrow> jdict \<Rightarrow> pystr list \<Rightarrow> code \<Rightarrow> (qexn + jdict \<times> bool) \<times> stored" where
  "publish_once env cell payload identity_fields error_code =
     (case env of
        MkdirFails \<Rightarrow> (Inl OsRaised, cell)
      | CreateFails \<Rightarrow> (Inl (Binding error_code), cell)
      | _ \<Rightarrow>
       (if cell \<noteq> Missing then
          (py_bind (read_authoritative_json error_code cell) (\<lambda>existing.
             if list_ex (\<lambda>k. \<not> py_eq (dget existing k) (dget payload k)) identity_fields
             then Inl (Binding error_code) else Inr (existing, False)), cell)
        else case env of
          WriteFails torn \<Rightarrow> (Inl (Binding error_code), left_behind torn)
        | ShortWrite torn \<Rightarrow> (Inr (payload, True), left_behind torn)
        | _ \<Rightarrow> (Inr (payload, True), Holds (JObj (sorted_dict payload)))))"

section \<open>Closed shapes\<close>

definition CHARTER_SCHEMA_VERSION :: pystr where "CHARTER_SCHEMA_VERSION = ''1.1.0''"
definition DECISION_SCHEMA_VERSION :: pystr where "DECISION_SCHEMA_VERSION = ''1.1.0''"
definition AUTHORITY_RECEIPT_SCHEMA_VERSION :: pystr where "AUTHORITY_RECEIPT_SCHEMA_VERSION = ''1.1.0''"

definition REQUIRED_HUMAN_CONSTRAINT_KEYS :: "pystr list" where
  "REQUIRED_HUMAN_CONSTRAINT_KEYS =
     [''mutation_forbidden'', ''network_blocked'', ''local_model_only'', ''private_context_restricted'']"

definition SELECTION_REQUIRED_KEYS :: "pystr list" where
  "SELECTION_REQUIRED_KEYS = [''provider'', ''model'', ''strategy'', ''selection_source'']"

definition SELECTION_ALLOWED_KEYS :: "pystr list" where
  "SELECTION_ALLOWED_KEYS = SELECTION_REQUIRED_KEYS @
     [''rationale'', ''provider_readiness'', ''selection_is_proposal_only'', ''blocked_diagnostic'']"

definition CHARTER_REQUIRED_KEYS :: "pystr list" where
  "CHARTER_REQUIRED_KEYS =
     [''schema_version'', ''report_type'', ''charter_id'', ''mission_id'', ''state'', ''human_constraints'',
      ''proposed_skills'', ''forbidden_skills'', ''allowed_followup_skills'', ''memory_write_allowed'',
      ''decision_id'', ''decision_digest'', ''approval_phrase'']"

definition CHARTER_ALLOWED_KEYS :: "pystr list" where
  "CHARTER_ALLOWED_KEYS = CHARTER_REQUIRED_KEYS @
     [''created_at'', ''actor'', ''objective'', ''scope'', ''out_of_scope'', ''constraints'', ''risk_level'',
      ''approval_gates'', ''success_criteria'', ''authority'', ''rejection_phrase'', ''approved_at'', ''approved_by'']"

definition DECISION_REQUIRED_KEYS :: "pystr list" where
  "DECISION_REQUIRED_KEYS = [''schema_version'', ''report_type'', ''decision_id'', ''mission_id'', ''selection'']"

definition DECISION_ALLOWED_KEYS :: "pystr list" where
  "DECISION_ALLOWED_KEYS = DECISION_REQUIRED_KEYS @
     [''created_at'', ''classification'', ''economy'', ''supervision'', ''review_checkpoints'',
      ''telemetry_contract'', ''authority'']"

definition RECEIPT_REQUIRED_KEYS :: "pystr list" where
  "RECEIPT_REQUIRED_KEYS =
     [''schema_version'', ''report_type'', ''mission_id'', ''charter_id'', ''charter_digest'', ''decision_id'',
      ''decision_digest'', ''approved_at'', ''approval_phrase_hash'']"

definition has_keys :: "jdict \<Rightarrow> pystr list \<Rightarrow> bool" where
  "has_keys d ks = list_all (\<lambda>k. dict_get d k \<noteq> None) ks"

definition only_keys :: "jdict \<Rightarrow> pystr list \<Rightarrow> bool" where
  "only_keys d ks = list_all (\<lambda>p. fst p \<in> set ks) d"

text \<open>The opening guards that the three shapes share: report type, version, missing and extra keys.\<close>

definition envelope ::
  "jdict \<Rightarrow> pystr \<Rightarrow> pystr \<Rightarrow> pystr list \<Rightarrow> pystr list \<Rightarrow> code \<Rightarrow> (bool \<times> code) list" where
  "envelope d report_type version needed allowed c =
     [(dget d ''report_type'' = JStr report_type, c),
      (dget d ''schema_version'' = JStr version, charter_schema_migration_required),
      (has_keys d needed, c),
      (only_keys d allowed, c)]"

definition strings_present :: "jdict \<Rightarrow> pystr list \<Rightarrow> code \<Rightarrow> (bool \<times> code) list" where
  "strings_present d ks c = map (\<lambda>k. (nonempty_str (dget d k), c)) ks"

definition validate_skill_list :: "jdict \<Rightarrow> pystr \<Rightarrow> (bool \<times> code) list" where
  "validate_skill_list charter key =
     [(is_list (dget charter key), charter_binding_mismatch),
      (list_all nonempty_str (the_list (dget charter key)), charter_binding_mismatch),
      (distinct (the_list (dget charter key)), charter_binding_mismatch)]"

definition charter_state_ok :: "bool \<Rightarrow> json \<Rightarrow> qexn + unit" where
  "charter_state_ok require_approved state =
     (if require_approved then require (state = JStr ''approved'') charter_binding_mismatch
      else case in_str_set state [''proposed'', ''approved''] of
             Inl e \<Rightarrow> Inl (Raised e)
           | Inr b \<Rightarrow> require b charter_binding_mismatch)"

definition validate_charter_shape :: "bool \<Rightarrow> jdict \<Rightarrow> qexn + unit" where
  "validate_charter_shape require_approved charter =
     py_bind (checks (envelope charter ''conversational_mission_charter'' CHARTER_SCHEMA_VERSION
                CHARTER_REQUIRED_KEYS CHARTER_ALLOWED_KEYS charter_binding_mismatch)) (\<lambda>_.
     py_bind (charter_state_ok require_approved (dget charter ''state'')) (\<lambda>_.
     checks
       (strings_present charter [''charter_id'', ''mission_id'', ''decision_id'', ''decision_digest'', ''approval_phrase'']
          charter_binding_mismatch @
        [(is_dict (dget charter ''human_constraints'') \<and>
          dict_keys_eq (the_obj (dget charter ''human_constraints'')) REQUIRED_HUMAN_CONSTRAINT_KEYS,
          charter_binding_mismatch)] @
        map (\<lambda>k. (is_bool (dget (the_obj (dget charter ''human_constraints'')) k), charter_binding_mismatch))
          REQUIRED_HUMAN_CONSTRAINT_KEYS @
        concat (map (validate_skill_list charter) [''proposed_skills'', ''forbidden_skills'', ''allowed_followup_skills'']) @
        [(is_bool (dget charter ''memory_write_allowed''), charter_binding_mismatch)])))"

definition validate_decision_shape :: "jdict \<Rightarrow> qexn + unit" where
  "validate_decision_shape decision =
     (let selection = the_obj (dget decision ''selection'') in
      checks
        (envelope decision ''hokage_mission_decision'' DECISION_SCHEMA_VERSION
           DECISION_REQUIRED_KEYS DECISION_ALLOWED_KEYS decision_binding_mismatch @
         strings_present decision [''decision_id'', ''mission_id''] decision_binding_mismatch @
         [(is_dict (dget decision ''selection''), decision_binding_mismatch),
          (has_keys selection SELECTION_REQUIRED_KEYS, decision_binding_mismatch),
          (only_keys selection SELECTION_ALLOWED_KEYS, decision_binding_mismatch)] @
         strings_present selection SELECTION_REQUIRED_KEYS decision_binding_mismatch))"

definition validate_receipt_shape :: "jdict \<Rightarrow> qexn + unit" where
  "validate_receipt_shape receipt =
     checks
       (envelope receipt ''conversational_mission_authority_receipt'' AUTHORITY_RECEIPT_SCHEMA_VERSION
          RECEIPT_REQUIRED_KEYS RECEIPT_REQUIRED_KEYS authority_receipt_invalid @
        strings_present receipt RECEIPT_REQUIRED_KEYS authority_receipt_invalid)"

definition validate_charter_skill_registration :: "jdict \<Rightarrow> qexn + unit" where
  "validate_charter_skill_registration charter =
     (let proposed = the_strs (dget charter ''proposed_skills'');
          forbidden = the_strs (dget charter ''forbidden_skills'');
          followups = the_strs (dget charter ''allowed_followup_skills'')
      in checks
        [(list_all (\<lambda>s. dict_get SKILLS s \<noteq> None) (proposed @ forbidden @ followups), skill_forbidden),
         (list_all (\<lambda>s. s \<notin> set forbidden) proposed, skill_forbidden),
         (list_all (\<lambda>s. s \<notin> set forbidden) followups, skill_forbidden)])"

definition resolve_capabilities :: "pystr \<Rightarrow> pystr option \<Rightarrow> qexn + capabilities" where
  "resolve_capabilities skill_id provider =
     (case effective_capabilities skill_id provider of
        Inl _ \<Rightarrow> Inl (Binding capability_binding_mismatch) | Inr caps \<Rightarrow> Inr caps)"

section \<open>The receipt and the authoritative state\<close>

definition RECEIPT_IDENTITY_FIELDS :: "pystr list" where
  "RECEIPT_IDENTITY_FIELDS =
     [''mission_id'', ''charter_id'', ''charter_digest'', ''decision_id'', ''decision_digest'', ''approval_phrase_hash'']"

definition receipt_payload :: "pystr \<Rightarrow> jdict \<Rightarrow> jdict \<Rightarrow> pystr \<Rightarrow> pystr \<Rightarrow> jdict" where
  "receipt_payload mission_id charter decision approved_at approval_phrase = [
     (''schema_version'', JStr AUTHORITY_RECEIPT_SCHEMA_VERSION),
     (''report_type'', JStr ''conversational_mission_authority_receipt''),
     (''mission_id'', JStr mission_id),
     (''charter_id'', dget charter ''charter_id''),
     (''charter_digest'', JStr (canonical_digest charter)),
     (''decision_id'', dget decision ''decision_id''),
     (''decision_digest'', JStr (canonical_digest decision)),
     (''approved_at'', JStr approved_at),
     (''approval_phrase_hash'', JStr (sha256_hex approval_phrase))]"

definition receipt_guards :: "pystr \<Rightarrow> jdict \<Rightarrow> jdict \<Rightarrow> pystr \<Rightarrow> pystr \<Rightarrow> (bool \<times> code) list" where
  "receipt_guards mission_id charter decision approved_at approval_phrase =
     [(mission_id \<noteq> [], mission_binding_mismatch),
      (dget charter ''mission_id'' = JStr mission_id \<and> dget decision ''mission_id'' = JStr mission_id,
       mission_binding_mismatch),
      (dget charter ''decision_id'' = dget decision ''decision_id'', decision_binding_mismatch),
      (dget charter ''decision_digest'' = JStr (canonical_digest decision), decision_binding_mismatch),
      (approved_at \<noteq> [], authority_receipt_invalid),
      (approval_phrase \<noteq> [], authority_receipt_invalid),
      (dget charter ''approval_phrase'' = JStr approval_phrase, authority_receipt_invalid)]"

definition write_authority_receipt ::
  "publish_env \<Rightarrow> stored \<Rightarrow> pystr \<Rightarrow> jdict \<Rightarrow> jdict \<Rightarrow> pystr \<Rightarrow> pystr \<Rightarrow> (qexn + jdict) \<times> stored" where
  "write_authority_receipt env cell mission_id charter decision approved_at approval_phrase =
     (case py_bind (validate_charter_shape True charter) (\<lambda>_.
           py_bind (validate_decision_shape decision) (\<lambda>_.
           checks (receipt_guards mission_id charter decision approved_at approval_phrase))) of
        Inl e \<Rightarrow> (Inl e, cell)
      | Inr _ \<Rightarrow>
         (case publish_once env cell (receipt_payload mission_id charter decision approved_at approval_phrase)
                 RECEIPT_IDENTITY_FIELDS authority_receipt_invalid of
            (published, cell') \<Rightarrow>
              (py_bind published (\<lambda>(receipt, _). py_bind (validate_receipt_shape receipt) (\<lambda>_. Inr receipt)), cell')))"

text \<open>\<open>path.is_file()\<close> comes first, so that a missing receipt has its own code.\<close>

definition verify_authority_receipt :: "stored \<Rightarrow> jdict \<Rightarrow> jdict \<Rightarrow> qexn + unit" where
  "verify_authority_receipt cell charter decision =
     (if cell = Missing then Inl (Binding authority_receipt_missing)
      else py_bind (read_authoritative_json authority_receipt_invalid cell) (\<lambda>receipt.
           py_bind (validate_receipt_shape receipt) (\<lambda>_.
           checks
             [(dget receipt ''mission_id'' = dget charter ''mission_id'' \<and>
               dget receipt ''mission_id'' = dget decision ''mission_id'', mission_binding_mismatch),
              (dget receipt ''charter_id'' = dget charter ''charter_id'', charter_immutable_violation),
              (dget receipt ''charter_digest'' = JStr (canonical_digest charter), charter_immutable_violation),
              (dget receipt ''decision_id'' = dget decision ''decision_id'', decision_immutable_violation),
              (dget receipt ''decision_digest'' = JStr (canonical_digest decision), decision_immutable_violation)])))"

definition cross_reference :: "pystr \<Rightarrow> jdict \<Rightarrow> jdict \<Rightarrow> (bool \<times> code) list" where
  "cross_reference name charter decision =
     [(dget charter ''decision_id'' = dget decision ''decision_id'' \<and>
       dget charter ''decision_digest'' = JStr (canonical_digest decision), decision_binding_mismatch),
      (dget charter ''mission_id'' = dget decision ''mission_id'', mission_binding_mismatch),
      (dget charter ''mission_id'' = JStr name, mission_binding_mismatch)]"

definition load_authoritative_state :: "authority_files \<Rightarrow> qexn + jdict \<times> jdict" where
  "load_authoritative_state files =
     py_bind (read_authoritative_json charter_binding_mismatch (charter_file files)) (\<lambda>charter.
     py_bind (validate_charter_shape True charter) (\<lambda>_.
     py_bind (validate_charter_skill_registration charter) (\<lambda>_.
     py_bind (read_authoritative_json decision_binding_mismatch (decision_file files)) (\<lambda>decision.
     py_bind (validate_decision_shape decision) (\<lambda>_.
     py_bind (checks (cross_reference (dir_name files) charter decision)) (\<lambda>_.
     py_bind (verify_authority_receipt (receipt_file files) charter decision) (\<lambda>_.
     Inr (charter, decision))))))))"

section \<open>Charter candidates\<close>

definition human_constraint :: "jdict \<Rightarrow> pystr \<Rightarrow> bool" where
  "human_constraint charter key = the_bool (dget (the_obj (dget charter ''human_constraints'')) key)"

text \<open>The constraint guards that a capability profile must pass.\<close>

definition constraint_guards :: "jdict \<Rightarrow> capabilities \<Rightarrow> (bool \<times> code) list" where
  "constraint_guards charter caps =
     [(\<not> (human_constraint charter ''mutation_forbidden'' \<and> mutates_files caps), capability_constraint_violation),
      (\<not> (human_constraint charter ''network_blocked'' \<and> external_network caps), capability_constraint_violation),
      (\<not> (human_constraint charter ''private_context_restricted'' \<and> private_context caps), capability_constraint_violation)]"

definition selected :: "jdict \<Rightarrow> pystr \<Rightarrow> json" where
  "selected decision key = dget (the_obj (dget decision ''selection'')) key"

definition provider_for :: "jdict \<Rightarrow> pystr \<Rightarrow> pystr option" where
  "provider_for decision skill_id =
     (if skill_id \<in> set PROVIDER_SKILL_IDS then Some (the_str (selected decision ''provider'')) else None)"

fun check_skills :: "jdict \<Rightarrow> jdict \<Rightarrow> pystr list \<Rightarrow> qexn + unit" where
  "check_skills charter decision [] = Inr ()"
| "check_skills charter decision (skill_id # rest) =
     py_bind (resolve_capabilities skill_id (provider_for decision skill_id)) (\<lambda>caps.
     py_bind (checks (constraint_guards charter caps)) (\<lambda>_.
     check_skills charter decision rest))"

definition local_guard :: "jdict \<Rightarrow> jdict \<Rightarrow> bool \<times> code" where
  "local_guard charter decision =
     (\<not> (human_constraint charter ''local_model_only'' \<and>
         the_str (selected decision ''provider'') \<in> {''codex'', ''claude''}), capability_constraint_violation)"

definition validate_charter_construction :: "jdict \<Rightarrow> jdict \<Rightarrow> qexn + unit" where
  "validate_charter_construction charter decision =
     py_bind (validate_charter_shape False charter) (\<lambda>_.
     py_bind (validate_decision_shape decision) (\<lambda>_.
     py_bind (validate_charter_skill_registration charter) (\<lambda>_.
     py_bind (checks
       [(dget charter ''mission_id'' = dget decision ''mission_id'', mission_binding_mismatch),
        (dget charter ''decision_id'' = dget decision ''decision_id'', decision_binding_mismatch),
        (dget charter ''decision_digest'' = JStr (canonical_digest decision), decision_binding_mismatch),
        local_guard charter decision,
        (the_bool (dget charter ''memory_write_allowed'') = (\<not> human_constraint charter ''private_context_restricted''),
         capability_constraint_violation)]) (\<lambda>_.
     check_skills charter decision
       (sort (remdups (the_strs (dget charter ''proposed_skills'') @ the_strs (dget charter ''allowed_followup_skills''))))))))"

section \<open>The checkpoint of an action\<close>

datatype phase = QueueInit | FollowupAppend | Restore | PreDispatch

definition compute_arguments_hash :: "jdict \<Rightarrow> pystr" where
  "compute_arguments_hash arguments = canonical_digest arguments"

definition compute_action_id :: "pystr \<Rightarrow> pystr \<Rightarrow> pystr \<Rightarrow> pystr" where
  "compute_action_id mission_id skill_id args_hash =
     ''action-'' @ proposal_digest mission_id skill_id args_hash"

definition validate_approval_evidence :: "jdict \<Rightarrow> qexn + unit" where
  "validate_approval_evidence action =
     (let evidence = the_obj (dget action ''evidence'') in
      checks
        ([(is_dict (dget action ''evidence''), approval_binding_mismatch)] @
         strings_present evidence [''approved_by'', ''approved_at'', ''arguments_hash''] approval_binding_mismatch @
         [(dget evidence ''arguments_hash'' = dget action ''arguments_hash'', approval_binding_mismatch)]))"

definition expected_tier :: "phase \<Rightarrow> pystr \<Rightarrow> pystr" where
  "expected_tier ph tier = (case ph of QueueInit \<Rightarrow> ''initial'' | FollowupAppend \<Rightarrow> ''followup'' | _ \<Rightarrow> tier)"

text \<open>The seven fields an action must have, each with the code of its absence.\<close>

definition action_fields :: "(pystr \<times> code) list" where
  "action_fields =
     [(''mission_id'', mission_binding_mismatch), (''action_id'', arguments_hash_mismatch),
      (''skill_id'', charter_binding_mismatch), (''tier'', charter_binding_mismatch),
      (''plan_id'', arguments_hash_mismatch), (''arguments'', arguments_hash_mismatch),
      (''arguments_hash'', arguments_hash_mismatch)]"

definition presence :: "jdict \<Rightarrow> (pystr \<times> code) list \<Rightarrow> (bool \<times> code) list" where
  "presence d fs = map (\<lambda>(k, c). (dict_get d k \<noteq> None, c)) fs"

definition text_fields :: "jdict \<Rightarrow> (pystr \<times> code) list \<Rightarrow> (bool \<times> code) list" where
  "text_fields d fs = map (\<lambda>(k, c). (nonempty_str (dget d k), c)) fs"

definition text_of :: "jdict \<Rightarrow> pystr \<Rightarrow> pystr" where
  "text_of d k = the_str (dget d k)"

text \<open>Identity and argument integrity: everything that is checked before a file is read.\<close>

definition identity_guards :: "phase \<Rightarrow> jdict \<Rightarrow> (bool \<times> code) list" where
  "identity_guards ph action =
     (let arguments = the_obj (dget action ''arguments'') in
      presence action action_fields @
      text_fields action (filter (\<lambda>f. fst f \<noteq> ''arguments'') action_fields) @
      [(is_dict (dget action ''arguments''), arguments_hash_mismatch),
       (text_of action ''tier'' \<in> {''initial'', ''followup''}, charter_binding_mismatch),
       (text_of action ''tier'' = expected_tier ph (text_of action ''tier''), charter_binding_mismatch),
       (compute_arguments_hash arguments = text_of action ''arguments_hash'', arguments_hash_mismatch),
       (compute_action_id (text_of action ''mission_id'') (text_of action ''skill_id'') (text_of action ''arguments_hash'')
          = text_of action ''action_id'', arguments_hash_mismatch)] @
      presence arguments [(''skill_id'', charter_binding_mismatch), (''tier'', charter_binding_mismatch),
        (''plan_id'', arguments_hash_mismatch)] @
      [(nonempty_str (dget arguments ''plan_id''), arguments_hash_mismatch),
       (dget arguments ''skill_id'' = dget action ''skill_id'', charter_binding_mismatch),
       (dget arguments ''tier'' = dget action ''tier'', charter_binding_mismatch),
       (dget arguments ''plan_id'' = dget action ''plan_id'', arguments_hash_mismatch)])"

definition approval_on_record :: "phase \<Rightarrow> jdict \<Rightarrow> qexn + unit" where
  "approval_on_record ph action =
     (if ph = PreDispatch then
        py_bind (require (dget action ''status'' = JStr ''running'') approval_binding_mismatch) (\<lambda>_.
        validate_approval_evidence action)
      else if ph = Restore \<and> dget action ''status'' = JStr ''running'' then validate_approval_evidence action
      else Inr ())"

text \<open>The skill is registered, not forbidden, and among the skills its tier allows; the arguments
  name the charter and the decision that are on disk.\<close>

definition binding_guards :: "jdict \<Rightarrow> jdict \<Rightarrow> jdict \<Rightarrow> (bool \<times> code) list" where
  "binding_guards action charter decision =
     (let arguments = the_obj (dget action ''arguments''); skill_id = text_of action ''skill_id'' in
      [(dget action ''mission_id'' = dget charter ''mission_id'', mission_binding_mismatch),
       (dict_get SKILLS skill_id \<noteq> None, skill_forbidden),
       (skill_id \<notin> set (the_strs (dget charter ''forbidden_skills'')), skill_forbidden),
       (skill_id \<in> set (the_strs (dget charter
          (if text_of action ''tier'' = ''initial'' then ''proposed_skills'' else ''allowed_followup_skills''))),
        skill_forbidden)] @
      presence arguments [(''charter_id'', charter_binding_mismatch), (''charter_digest'', charter_binding_mismatch)] @
      [(dget arguments ''charter_id'' = dget charter ''charter_id'' \<and>
        dget arguments ''charter_digest'' = JStr (canonical_digest charter), charter_binding_mismatch)] @
      presence arguments [(''decision_id'', decision_binding_mismatch), (''decision_digest'', decision_binding_mismatch)] @
      [(dget arguments ''decision_id'' = dget decision ''decision_id'' \<and>
        dget arguments ''decision_digest'' = JStr (canonical_digest decision), decision_binding_mismatch)])"

definition selection_fields :: "(pystr \<times> code) list" where
  "selection_fields =
     [(''provider'', provider_selection_mismatch), (''model'', model_selection_mismatch),
      (''strategy'', strategy_selection_mismatch), (''selection_source'', selection_source_mismatch)]"

definition provider_guards :: "jdict \<Rightarrow> jdict \<Rightarrow> (bool \<times> code) list" where
  "provider_guards arguments decision =
     presence arguments (selection_fields @
       [(''external_network'', capability_binding_mismatch), (''local_transport'', capability_binding_mismatch)]) @
     text_fields arguments selection_fields @
     [(is_bool (dget arguments ''external_network'') \<and> is_bool (dget arguments ''local_transport''),
       capability_binding_mismatch)] @
     map (\<lambda>(k, c). (dget arguments k = selected decision k, c)) selection_fields"

definition provider_binding :: "jdict \<Rightarrow> jdict \<Rightarrow> jdict \<Rightarrow> qexn + capabilities" where
  "provider_binding action charter decision =
     (let arguments = the_obj (dget action ''arguments''); skill_id = text_of action ''skill_id'' in
      if skill_id \<in> set PROVIDER_SKILL_IDS then
        py_bind (checks (provider_guards arguments decision)) (\<lambda>_.
        py_bind (resolve_capabilities skill_id (Some (text_of arguments ''provider''))) (\<lambda>caps.
        py_bind (checks
          [(dget arguments ''external_network'' = JBool (external_network caps) \<and>
            dget arguments ''local_transport'' = JBool (local_transport caps), capability_binding_mismatch),
           (\<not> (human_constraint charter ''local_model_only'' \<and>
               text_of arguments ''provider'' \<in> {''codex'', ''claude''}), capability_constraint_violation)]) (\<lambda>_.
        Inr caps)))
      else resolve_capabilities skill_id None)"

definition validate_action_authority :: "authority_files \<Rightarrow> jdict \<Rightarrow> phase \<Rightarrow> qexn + unit" where
  "validate_action_authority files action ph =
     py_bind (checks (identity_guards ph action)) (\<lambda>_.
     py_bind (approval_on_record ph action) (\<lambda>_.
     py_bind (load_authoritative_state files) (\<lambda>(charter, decision).
     py_bind (checks (binding_guards action charter decision)) (\<lambda>_.
     py_bind (provider_binding action charter decision) (\<lambda>caps.
     checks (constraint_guards charter caps))))))"

section \<open>What the shapes give\<close>

lemmas shape_defs = validate_charter_shape_def validate_decision_shape_def validate_receipt_shape_def
  envelope_def strings_present_def validate_skill_list_def charter_state_ok_def Let_def checks_Inr

lemmas guard_defs = identity_guards_def binding_guards_def provider_guards_def constraint_guards_def
  presence_def text_fields_def action_fields_def selection_fields_def Let_def checks_Inr

lemma nonempty_str_iff: "nonempty_str v \<longleftrightarrow> (\<exists>s. v = JStr s \<and> s \<noteq> [])"
  by (cases v) auto

lemma is_dict_iff: "is_dict v \<longleftrightarrow> v = JObj (the_obj v)"
  by (cases v) auto

lemma read_authoritative_json_Inr [simp]: "read_authoritative_json c f = Inr d \<longleftrightarrow> f = Holds (JObj d)"
  by (auto simp: read_authoritative_json_def split: stored.splits json.splits)

lemma required_Inr [simp]: "required d k c = Inr v \<longleftrightarrow> dict_get d k = Some v"
  by (auto simp: required_def split: option.splits)

lemma resolve_capabilities_Inr [simp]:
  "resolve_capabilities s p = Inr caps \<longleftrightarrow> effective_capabilities s p = Inr caps"
  by (auto simp: resolve_capabilities_def split: sum.splits)

text \<open>The state that loads is the one the three files hold, approved, bound to each other, to the
  directory and to the receipt.\<close>

definition bound_state :: "authority_files \<Rightarrow> jdict \<Rightarrow> jdict \<Rightarrow> bool" where
  "bound_state files charter decision \<longleftrightarrow>
     charter_file files = Holds (JObj charter) \<and> decision_file files = Holds (JObj decision) \<and>
     dget charter ''state'' = JStr ''approved'' \<and>
     dget charter ''mission_id'' = JStr (dir_name files) \<and> dget decision ''mission_id'' = JStr (dir_name files) \<and>
     dget charter ''decision_id'' = dget decision ''decision_id'' \<and>
     dget charter ''decision_digest'' = JStr (canonical_digest decision) \<and>
     (\<exists>receipt. receipt_file files = Holds (JObj receipt) \<and>
        dget receipt ''charter_digest'' = JStr (canonical_digest charter) \<and>
        dget receipt ''decision_digest'' = JStr (canonical_digest decision))"

lemma charter_shape_state: "validate_charter_shape True charter = Inr u \<Longrightarrow> dget charter ''state'' = JStr ''approved''"
  by (simp add: validate_charter_shape_def charter_state_ok_def)

lemma loaded_state_is_bound:
  assumes "load_authoritative_state files = Inr (charter, decision)"
  shows "bound_state files charter decision"
proof -
  from assms have c: "charter_file files = Holds (JObj charter)" and d: "decision_file files = Holds (JObj decision)"
    and shape: "validate_charter_shape True charter = Inr ()"
    and x: "checks (cross_reference (dir_name files) charter decision) = Inr ()"
    and v: "verify_authority_receipt (receipt_file files) charter decision = Inr ()"
    by (auto simp: load_authoritative_state_def)
  from v obtain receipt where r: "receipt_file files = Holds (JObj receipt)"
      "dget receipt ''charter_digest'' = JStr (canonical_digest charter)"
      "dget receipt ''decision_digest'' = JStr (canonical_digest decision)"
    by (auto simp: verify_authority_receipt_def checks_Inr split: if_splits)
  from x c d r show ?thesis
    by (auto simp: bound_state_def cross_reference_def checks_Inr charter_shape_state [OF shape])
qed

section \<open>What the checkpoint guarantees\<close>

lemma identity_guards_facts:
  assumes "checks (identity_guards ph action) = Inr ()"
  obtains arguments skill where "dget action ''arguments'' = JObj arguments"
    and "dget action ''arguments_hash'' = JStr (canonical_digest arguments)"
    and "dget action ''skill_id'' = JStr skill" and "dget arguments ''skill_id'' = JStr skill"
    and "dget action ''action_id'' = JStr (compute_action_id (text_of action ''mission_id'') skill (canonical_digest arguments))"
proof -
  let ?a = "the_obj (dget action ''arguments'')"
  from assms have "is_dict (dget action ''arguments'')" and "nonempty_str (dget action ''arguments_hash'')"
    and "nonempty_str (dget action ''skill_id'')" and "nonempty_str (dget action ''action_id'')"
    and "compute_arguments_hash ?a = text_of action ''arguments_hash''"
    and "compute_action_id (text_of action ''mission_id'') (text_of action ''skill_id'') (text_of action ''arguments_hash'')
          = text_of action ''action_id''"
    and "dget ?a ''skill_id'' = dget action ''skill_id''"
    by (simp_all add: guard_defs)
  then show thesis
    by (intro that [of ?a "text_of action ''skill_id''"])
      (auto simp: is_dict_iff nonempty_str_iff text_of_def compute_arguments_hash_def)
qed

text \<open>What the human allowed a charter's actions to do.\<close>

definition within_constraints :: "jdict \<Rightarrow> jdict \<Rightarrow> pystr \<Rightarrow> bool" where
  "within_constraints charter decision skill \<longleftrightarrow>
     (human_constraint charter ''mutation_forbidden'' \<longrightarrow> skill \<noteq> ''apply_validated_patch'') \<and>
     (human_constraint charter ''network_blocked'' \<longrightarrow>
        \<not> (skill = ''run_technical_plan'' \<and> selected decision ''provider'' = JStr ''codex'')) \<and>
     (human_constraint charter ''local_model_only'' \<and> skill \<in> set PROVIDER_SKILL_IDS \<longrightarrow>
        selected decision ''provider'' = JStr ''ollama'')"

lemma provider_binding_facts:
  assumes "provider_binding action charter decision = Inr caps"
    and "dget action ''skill_id'' = JStr skill"
  shows "\<exists>provider. effective_capabilities skill provider = Inr caps \<and>
    (skill \<in> set PROVIDER_SKILL_IDS \<longrightarrow> (\<exists>p. provider = Some p \<and> selected decision ''provider'' = JStr p \<and>
       (human_constraint charter ''local_model_only'' \<longrightarrow> p \<notin> {''codex'', ''claude''})))"
proof (cases "skill \<in> set PROVIDER_SKILL_IDS")
  case True
  let ?a = "the_obj (dget action ''arguments'')"
  from assms True have g: "checks (provider_guards ?a decision) = Inr ()"
    and e: "effective_capabilities skill (Some (text_of ?a ''provider'')) = Inr caps"
    and l: "human_constraint charter ''local_model_only'' \<longrightarrow> text_of ?a ''provider'' \<notin> {''codex'', ''claude''}"
    by (auto simp: provider_binding_def Let_def text_of_def checks_Inr)
  from g have "nonempty_str (dget ?a ''provider'')" and "dget ?a ''provider'' = selected decision ''provider''"
    unfolding guard_defs by auto
  then have "selected decision ''provider'' = JStr (text_of ?a ''provider'')"
    by (auto simp: nonempty_str_iff text_of_def)
  with e l show ?thesis by blast
next
  case False
  with assms show ?thesis by (auto simp: provider_binding_def Let_def text_of_def)
qed

lemma provider_skill_providers:
  "effective_capabilities skill (Some p) = Inr caps \<Longrightarrow> p = ''codex'' \<and> skill = ''run_technical_plan'' \<or> p = ''ollama''"
  by (auto simp: effective_capabilities_def PROVIDER_CAPABILITIES_def PROVIDER_SKILL_IDS_def split: option.splits if_splits)

lemma constraints_hold:
  assumes "provider_binding action charter decision = Inr caps" and "checks (constraint_guards charter caps) = Inr ()"
    and "dget action ''skill_id'' = JStr skill"
  shows "within_constraints charter decision skill"
proof -
  obtain provider where e: "effective_capabilities skill provider = Inr caps"
    and p: "skill \<in> set PROVIDER_SKILL_IDS \<longrightarrow> (\<exists>p. provider = Some p \<and> selected decision ''provider'' = JStr p \<and>
       (human_constraint charter ''local_model_only'' \<longrightarrow> p \<notin> {''codex'', ''claude''}))"
    using provider_binding_facts [OF assms(1,3)] by blast
  from assms(2) have m: "human_constraint charter ''mutation_forbidden'' \<longrightarrow> \<not> mutates_files caps"
    and n: "human_constraint charter ''network_blocked'' \<longrightarrow> \<not> external_network caps"
    by (simp_all add: constraint_guards_def checks_Inr)
  have plan: "''run_technical_plan'' \<in> set PROVIDER_SKILL_IDS" by (simp add: PROVIDER_SKILL_IDS_def)
  have "human_constraint charter ''mutation_forbidden'' \<longrightarrow> skill \<noteq> ''apply_validated_patch''"
    using m only_the_patch_mutates [OF e] by simp
  moreover have "\<not> (skill = ''run_technical_plan'' \<and> selected decision ''provider'' = JStr ''codex'')"
    if "human_constraint charter ''network_blocked''"
  proof
    assume "skill = ''run_technical_plan'' \<and> selected decision ''provider'' = JStr ''codex''"
    with p plan have "skill = ''run_technical_plan'' \<and> provider = Some ''codex''" by fastforce
    with n that show False using only_codex_leaves_the_machine [OF e] by blast
  qed
  moreover have "selected decision ''provider'' = JStr ''ollama''"
    if l: "human_constraint charter ''local_model_only''" and s: "skill \<in> set PROVIDER_SKILL_IDS"
  proof -
    from p s obtain q where q: "provider = Some q" "selected decision ''provider'' = JStr q"
      "human_constraint charter ''local_model_only'' \<longrightarrow> q \<notin> {''codex'', ''claude''}" by blast
    with l provider_skill_providers e show ?thesis by blast
  qed
  ultimately show ?thesis by (simp add: within_constraints_def)
qed

text \<open>The evidence of an approval: who, when, and for which arguments.\<close>

definition approval_recorded :: "jdict \<Rightarrow> bool" where
  "approval_recorded action \<longleftrightarrow> (\<exists>evidence by_whom at. dget action ''evidence'' = JObj evidence \<and>
     dget evidence ''approved_by'' = JStr by_whom \<and> by_whom \<noteq> [] \<and>
     dget evidence ''approved_at'' = JStr at \<and> at \<noteq> [] \<and>
     dget evidence ''arguments_hash'' = dget action ''arguments_hash'')"

lemma validate_approval_evidence_Inr:
  "validate_approval_evidence action = Inr u \<Longrightarrow> approval_recorded action"
  by (cases "dget action ''evidence''")
    (auto simp: validate_approval_evidence_def approval_recorded_def strings_present_def Let_def checks_Inr nonempty_str_iff)

lemma approval_on_record_PreDispatch:
  "approval_on_record PreDispatch action = Inr u \<Longrightarrow> dget action ''status'' = JStr ''running'' \<and> approval_recorded action"
  by (auto simp: approval_on_record_def intro: validate_approval_evidence_Inr)

definition action_bound :: "jdict \<Rightarrow> jdict \<Rightarrow> jdict \<Rightarrow> bool" where
  "action_bound action charter decision \<longleftrightarrow> (\<exists>arguments skill tier.
     dget action ''arguments'' = JObj arguments \<and>
     dget action ''arguments_hash'' = JStr (canonical_digest arguments) \<and>
     dget action ''skill_id'' = JStr skill \<and> dget arguments ''skill_id'' = JStr skill \<and>
     dget action ''tier'' = JStr tier \<and>
     dget arguments ''charter_digest'' = JStr (canonical_digest charter) \<and>
     dget arguments ''decision_digest'' = JStr (canonical_digest decision) \<and>
     skill \<notin> set (the_strs (dget charter ''forbidden_skills'')) \<and>
     skill \<in> set (the_strs (dget charter
       (if tier = ''initial'' then ''proposed_skills'' else ''allowed_followup_skills''))) \<and>
     within_constraints charter decision skill)"

lemma validate_action_authority_steps:
  assumes "validate_action_authority files action ph = Inr ()"
  obtains charter decision caps where "load_authoritative_state files = Inr (charter, decision)"
    and "checks (identity_guards ph action) = Inr ()" and "approval_on_record ph action = Inr ()"
    and "checks (binding_guards action charter decision) = Inr ()"
    and "provider_binding action charter decision = Inr caps" and "checks (constraint_guards charter caps) = Inr ()"
  using assms by (auto simp: validate_action_authority_def)

lemma authorised_action_bound:
  assumes "checks (identity_guards ph action) = Inr ()" and "checks (binding_guards action charter decision) = Inr ()"
    and "provider_binding action charter decision = Inr caps" and "checks (constraint_guards charter caps) = Inr ()"
  shows "action_bound action charter decision"
proof -
  obtain arguments skill where a: "dget action ''arguments'' = JObj arguments"
    "dget action ''arguments_hash'' = JStr (canonical_digest arguments)"
    "dget action ''skill_id'' = JStr skill" "dget arguments ''skill_id'' = JStr skill"
    using identity_guards_facts [OF assms(1)] by metis
  obtain tier where t: "dget action ''tier'' = JStr tier"
    using assms(1) by (auto simp: guard_defs nonempty_str_iff)
  from assms(2) a t show ?thesis
    by (auto simp: action_bound_def binding_guards_def presence_def Let_def checks_Inr text_of_def
        constraints_hold [OF assms(3,4) a(3)])
qed

section \<open>An example mission\<close>

definition demo_decision :: jdict where
  "demo_decision = [
     (''schema_version'', JStr ''1.1.0''), (''report_type'', JStr ''hokage_mission_decision''),
     (''decision_id'', JStr ''decision-1''), (''mission_id'', JStr ''mission-1''),
     (''selection'', JObj [(''model'', JStr ''qwen''), (''provider'', JStr ''ollama''),
        (''selection_source'', JStr ''policy''), (''strategy'', JStr ''local'')])]"

definition demo_charter :: "pystr \<Rightarrow> jdict" where
  "demo_charter state = [
     (''schema_version'', JStr ''1.1.0''), (''report_type'', JStr ''conversational_mission_charter''),
     (''charter_id'', JStr ''charter-1''), (''mission_id'', JStr ''mission-1''), (''state'', JStr state),
     (''human_constraints'', JObj [(''local_model_only'', JBool True), (''mutation_forbidden'', JBool True),
        (''network_blocked'', JBool True), (''private_context_restricted'', JBool True)]),
     (''proposed_skills'', JList [JStr ''run_technical_plan'']),
     (''forbidden_skills'', JList [JStr ''apply_validated_patch'']),
     (''allowed_followup_skills'', JList [JStr ''inspect_git_status'']),
     (''memory_write_allowed'', JBool False), (''decision_id'', JStr ''decision-1''),
     (''decision_digest'', JStr (canonical_digest demo_decision)),
     (''approval_phrase'', JStr ''APROBAR MISION'')]"

definition demo_receipt :: jdict where
  "demo_receipt = receipt_payload ''mission-1'' (demo_charter ''approved'') demo_decision ''now'' ''APROBAR MISION''"

definition demo_files :: authority_files where
  "demo_files = \<lparr>dir_name = ''mission-1'', charter_file = Holds (JObj (demo_charter ''approved'')),
     decision_file = Holds (JObj demo_decision), receipt_file = Holds (JObj demo_receipt)\<rparr>"

definition demo_arguments :: jdict where
  "demo_arguments = [
     (''skill_id'', JStr ''run_technical_plan''), (''tier'', JStr ''initial''), (''plan_id'', JStr ''plan-1''),
     (''charter_id'', JStr ''charter-1''), (''charter_digest'', JStr (canonical_digest (demo_charter ''approved''))),
     (''decision_id'', JStr ''decision-1''), (''decision_digest'', JStr (canonical_digest demo_decision)),
     (''provider'', JStr ''ollama''), (''model'', JStr ''qwen''), (''strategy'', JStr ''local''),
     (''selection_source'', JStr ''policy''), (''external_network'', JBool False), (''local_transport'', JBool True)]"

definition demo_action :: jdict where
  "demo_action = [
     (''action_id'', JStr (compute_action_id ''mission-1'' ''run_technical_plan'' (canonical_digest demo_arguments))),
     (''mission_id'', JStr ''mission-1''), (''plan_id'', JStr ''plan-1''), (''skill_id'', JStr ''run_technical_plan''),
     (''tier'', JStr ''initial''), (''arguments'', JObj demo_arguments),
     (''arguments_hash'', JStr (canonical_digest demo_arguments)), (''status'', JStr ''running''),
     (''evidence'', JObj [(''approved_by'', JStr ''human''), (''approved_at'', JStr ''now''),
        (''arguments_hash'', JStr (canonical_digest demo_arguments))])]"

lemma demo_charter_shape: "validate_charter_shape True (demo_charter ''approved'') = Inr ()"
  "validate_charter_shape False (demo_charter ''proposed'') = Inr ()"
  by (simp_all add: shape_defs demo_charter_def has_keys_def only_keys_def dict_keys_eq_def in_str_set_def
      CHARTER_SCHEMA_VERSION_def CHARTER_REQUIRED_KEYS_def CHARTER_ALLOWED_KEYS_def REQUIRED_HUMAN_CONSTRAINT_KEYS_def)

lemma demo_charter_skills: "validate_charter_skill_registration (demo_charter state) = Inr ()"
  by (simp add: validate_charter_skill_registration_def demo_charter_def the_strs_def SKILLS_def)

lemma demo_decision_shape: "validate_decision_shape demo_decision = Inr ()"
  by (simp add: shape_defs demo_decision_def has_keys_def only_keys_def DECISION_SCHEMA_VERSION_def
      DECISION_REQUIRED_KEYS_def DECISION_ALLOWED_KEYS_def SELECTION_REQUIRED_KEYS_def SELECTION_ALLOWED_KEYS_def)

lemma sha256_hex_nonempty [simp]: "sha256_hex s \<noteq> []"
  using length_sha256_hex [of s] by (auto simp del: length_sha256_hex)

lemma receipt_payload_shape:
  assumes "mission_id \<noteq> []" "at \<noteq> []" "nonempty_str (dget charter ''charter_id'')" "nonempty_str (dget decision ''decision_id'')"
  shows "validate_receipt_shape (receipt_payload mission_id charter decision at phrase) = Inr ()"
  using assms by (simp add: shape_defs receipt_payload_def has_keys_def only_keys_def
      AUTHORITY_RECEIPT_SCHEMA_VERSION_def RECEIPT_REQUIRED_KEYS_def)

lemma demo_state_loads: "load_authoritative_state demo_files = Inr (demo_charter ''approved'', demo_decision)"
proof -
  have "validate_receipt_shape demo_receipt = Inr ()"
    unfolding demo_receipt_def by (rule receipt_payload_shape) (simp_all add: demo_charter_def demo_decision_def)
  then have "verify_authority_receipt (Holds (JObj demo_receipt)) (demo_charter ''approved'') demo_decision = Inr ()"
    by (simp add: verify_authority_receipt_def)
      (simp add: demo_receipt_def receipt_payload_def, simp add: demo_charter_def demo_decision_def)
  then show ?thesis
    by (simp add: load_authoritative_state_def demo_files_def demo_charter_shape demo_charter_skills demo_decision_shape)
      (simp add: cross_reference_def, simp add: demo_charter_def, simp add: demo_decision_def)
qed

lemma demo_action_authorised: "validate_action_authority demo_files demo_action ph = Inr ()"
  if "ph = PreDispatch \<or> ph = Restore"
proof -
  have a: "the_obj (dget demo_action ''arguments'') = demo_arguments" by (simp add: demo_action_def)
  have "checks (identity_guards ph demo_action) = Inr ()"
    using that unfolding identity_guards_def a
    by (auto simp: demo_action_def text_of_def presence_def text_fields_def action_fields_def expected_tier_def
        compute_arguments_hash_def compute_action_id_def) (simp_all add: demo_arguments_def)
  moreover have "approval_on_record ph demo_action = Inr ()"
    using that by (auto simp: approval_on_record_def validate_approval_evidence_def strings_present_def demo_action_def)
  moreover have "checks (binding_guards demo_action (demo_charter ''approved'') demo_decision) = Inr ()"
    unfolding binding_guards_def a
    by (simp add: demo_action_def text_of_def presence_def SKILLS_def the_strs_def)
      (simp add: demo_charter_def demo_arguments_def demo_decision_def the_strs_def)
  moreover have "provider_binding demo_action (demo_charter ''approved'') demo_decision = Inr (inert\<lparr>local_transport := True\<rparr>)"
    unfolding provider_binding_def a
    by (simp add: demo_action_def text_of_def PROVIDER_SKILL_IDS_def provider_guards_def presence_def text_fields_def
        selection_fields_def demo_arguments_def demo_decision_def selected_def effective_capabilities_def SKILLS_def
        PROVIDER_CAPABILITIES_def inert_def)
  ultimately show ?thesis
    by (simp add: validate_action_authority_def demo_state_loads constraint_guards_def inert_def)
qed

section \<open>The guarantees of the checkpoint\<close>

text \<open>
  C11: an action that passes the checkpoint, in any phase, is bound to the approved charter and
  decision that the files hold and that the write-once receipt froze: its arguments carry their
  digests and match the recorded hash, its skill is one its tier allows and none the charter
  forbids, and the human constraints hold of it (no patch when mutation is forbidden, no external
  provider when the network is blocked, only the local provider under local-model-only). At
  dispatch it also carries a complete approval record for exactly these arguments.
\<close>

theorem authorised_action_is_within_charter:
  assumes "validate_action_authority files action ph = Inr ()"
  shows "\<exists>charter decision. bound_state files charter decision \<and> action_bound action charter decision \<and>
    (ph = PreDispatch \<longrightarrow> dget action ''status'' = JStr ''running'' \<and> approval_recorded action)"
  using assms
  by (elim validate_action_authority_steps)
    (use loaded_state_is_bound authorised_action_bound approval_on_record_PreDispatch in blast)

theorem authorised_action_is_within_charter_witness:
  "\<exists>charter decision. bound_state demo_files charter decision \<and> action_bound demo_action charter decision \<and>
     approval_recorded demo_action"
  using authorised_action_is_within_charter [OF demo_action_authorised [of PreDispatch]] by blast

lemma bound_arguments:
  assumes "validate_action_authority files action ph = Inr ()"
  obtains charter decision where "bound_state files charter decision"
    and "dget (the_obj (dget action ''arguments'')) ''charter_digest'' = JStr (canonical_digest charter)"
    and "dget (the_obj (dget action ''arguments'')) ''decision_digest'' = JStr (canonical_digest decision)"
proof -
  obtain charter decision where l: "load_authoritative_state files = Inr (charter, decision)"
    and b: "checks (binding_guards action charter decision) = Inr ()"
    using validate_action_authority_steps [OF assms] by metis
  from b have "dget (the_obj (dget action ''arguments'')) ''charter_digest'' = JStr (canonical_digest charter)"
    and "dget (the_obj (dget action ''arguments'')) ''decision_digest'' = JStr (canonical_digest decision)"
    by (simp_all add: guard_defs)
  with loaded_state_is_bound [OF l] show thesis by (rule that)
qed

text \<open>
  C12: an action that passed the checkpoint detects every later rewrite. If it passes again, with
  the same arguments, over files of which any or all (the charter, the decision, the receipt) may
  have been replaced in between, then the charter and the decision now on disk have the digests
  they had then, and so has the receipt.
\<close>

theorem bound_action_detects_rewrites:
  assumes "validate_action_authority files action ph = Inr ()"
    and "validate_action_authority files' action' ph' = Inr ()"
    and "dget action' ''arguments'' = dget action ''arguments''"
  shows "\<exists>charter decision charter' decision'. bound_state files charter decision \<and> bound_state files' charter' decision' \<and>
    canonical_digest charter' = canonical_digest charter \<and> canonical_digest decision' = canonical_digest decision"
proof -
  obtain c d where 1: "bound_state files c d"
    "dget (the_obj (dget action ''arguments'')) ''charter_digest'' = JStr (canonical_digest c)"
    "dget (the_obj (dget action ''arguments'')) ''decision_digest'' = JStr (canonical_digest d)"
    using bound_arguments [OF assms(1)] by blast
  obtain c' d' where 2: "bound_state files' c' d'"
    "dget (the_obj (dget action' ''arguments'')) ''charter_digest'' = JStr (canonical_digest c')"
    "dget (the_obj (dget action' ''arguments'')) ''decision_digest'' = JStr (canonical_digest d')"
    using bound_arguments [OF assms(2)] by blast
  from 1 2 assms(3) have "canonical_digest c' = canonical_digest c \<and> canonical_digest d' = canonical_digest d"
    by simp
  with 1 2 show ?thesis by blast
qed

theorem bound_action_detects_rewrites_witness:
  "\<exists>charter decision charter' decision'. bound_state demo_files charter decision \<and> bound_state demo_files charter' decision' \<and>
    canonical_digest charter' = canonical_digest charter \<and> canonical_digest decision' = canonical_digest decision"
  by (rule bound_action_detects_rewrites [OF demo_action_authorised [of Restore] demo_action_authorised [of PreDispatch]])
    simp_all

section \<open>Approval establishes authority, once\<close>

lemma has_keys_sorted [simp]: "has_keys (sorted_dict d) ks = has_keys d ks"
  by (simp add: has_keys_def)

lemma only_keys_sorted [simp]: "only_keys (sorted_dict d) ks = only_keys d ks"
proof -
  have "only_keys d ks \<longleftrightarrow> fst ` set d \<subseteq> set ks" for d by (auto simp: only_keys_def list_all_iff)
  then show ?thesis by simp
qed

lemma dict_keys_eq_sorted [simp]: "dict_keys_eq (sorted_dict d) ks = dict_keys_eq d ks"
proof -
  have "dict_keys_eq d ks \<longleftrightarrow> only_keys d ks \<and> has_keys d ks" for d :: jdict
    by (simp add: dict_keys_eq_def only_keys_def has_keys_def case_prod_unfold)
  then show ?thesis by simp
qed

lemma sorted_strings: "list_all nonempty_str xs \<Longrightarrow> map sorted_json xs = xs"
  by (induction xs) (auto simp: nonempty_str_iff)

lemma charter_shape_sorted:
  assumes "validate_charter_shape True charter = Inr ()"
  shows "validate_charter_shape True (sorted_dict charter) = Inr ()"
  using assms by (simp add: shape_defs sorted_strings)

lemma decision_shape_sorted:
  "validate_decision_shape decision = Inr () \<Longrightarrow> validate_decision_shape (sorted_dict decision) = Inr ()"
  by (simp add: shape_defs)

lemma receipt_shape_sorted:
  "validate_receipt_shape receipt = Inr () \<Longrightarrow> validate_receipt_shape (sorted_dict receipt) = Inr ()"
  by (simp add: shape_defs)

lemma registration_sorted:
  "validate_charter_skill_registration (sorted_dict charter) = validate_charter_skill_registration charter"
  by (simp add: validate_charter_skill_registration_def)

lemma publish_once_keeps: "cell \<noteq> Missing \<Longrightarrow> snd (publish_once env cell payload fs c) = cell"
  by (cases env) (simp_all add: publish_once_def)

lemma publish_once_creates:
  "publish_once env cell payload fs c = (Inr (d, True), cell') \<Longrightarrow> cell = Missing \<and> cell' \<noteq> Missing \<and> d = payload"
  by (cases env) (auto simp: publish_once_def left_behind_def split: if_splits)

lemma write_authority_receipt_keeps:
  "cell \<noteq> Missing \<Longrightarrow> snd (write_authority_receipt env cell m charter decision at phrase) = cell"
  by (simp add: write_authority_receipt_def case_prod_unfold publish_once_keeps split: sum.split)

lemma published_receipt_verifies:
  assumes "validate_receipt_shape (receipt_payload m charter decision at phrase) = Inr ()"
    and "dget charter ''mission_id'' = JStr m" and "dget decision ''mission_id'' = JStr m"
    and "nonempty_str (dget charter ''charter_id'')" and "nonempty_str (dget decision ''decision_id'')"
  shows "verify_authority_receipt (Holds (JObj (sorted_dict (receipt_payload m charter decision at phrase))))
    (sorted_dict charter) (sorted_dict decision) = Inr ()"
  using receipt_shape_sorted [OF assms(1)] assms(2-)
  by (simp add: verify_authority_receipt_def) (auto simp: receipt_payload_def nonempty_str_iff)

lemma published_state_loads:
  assumes "write_authority_receipt Publishes Missing mission_id charter decision approved_at phrase = (Inr receipt, cell)"
    and "validate_charter_skill_registration charter = Inr ()"
  shows "cell \<noteq> Missing" "load_authoritative_state \<lparr>dir_name = mission_id, charter_file = Holds (JObj (sorted_dict charter)),
        decision_file = Holds (JObj (sorted_dict decision)), receipt_file = cell\<rparr>
      = Inr (sorted_dict charter, sorted_dict decision)"
proof -
  let ?r = "receipt_payload mission_id charter decision approved_at phrase"
  from assms(1) have g: "validate_charter_shape True charter = Inr ()" "validate_decision_shape decision = Inr ()"
      "checks (receipt_guards mission_id charter decision approved_at phrase) = Inr ()"
    and cell: "cell = Holds (JObj (sorted_dict ?r))" and r: "validate_receipt_shape ?r = Inr ()"
    by (auto simp: write_authority_receipt_def publish_once_def split: sum.splits)
  from g(3) have ids: "dget charter ''mission_id'' = JStr mission_id" "dget decision ''mission_id'' = JStr mission_id"
    "dget charter ''decision_id'' = dget decision ''decision_id''"
    "dget charter ''decision_digest'' = JStr (canonical_digest decision)" by (simp_all add: receipt_guards_def)
  from g(1,2) have n: "nonempty_str (dget charter ''charter_id'')" "nonempty_str (dget decision ''decision_id'')"
    by (simp_all add: shape_defs)
  have "checks (cross_reference mission_id (sorted_dict charter) (sorted_dict decision)) = Inr ()"
    using ids n by (auto simp: cross_reference_def nonempty_str_iff)
  then show "load_authoritative_state \<lparr>dir_name = mission_id, charter_file = Holds (JObj (sorted_dict charter)),
        decision_file = Holds (JObj (sorted_dict decision)), receipt_file = cell\<rparr>
      = Inr (sorted_dict charter, sorted_dict decision)"
    using published_receipt_verifies [OF r ids(1,2) n] g assms(2)
    by (simp add: load_authoritative_state_def charter_shape_sorted decision_shape_sorted registration_sorted cell
        del: checks_Inr)
qed (use assms in \<open>auto simp: write_authority_receipt_def publish_once_def split: sum.splits\<close>)

text \<open>
  When a receipt is published for an approved charter and its decision, the three files of
  the directory load as the authoritative state, exactly as saved; and no later call, with any
  charter, decision and phrase and whatever happens to its write, changes the receipt.
\<close>

theorem approval_establishes_authority:
  assumes "write_authority_receipt Publishes Missing mission_id charter decision approved_at phrase = (Inr receipt, cell)"
    and "validate_charter_skill_registration charter = Inr ()"
  shows "load_authoritative_state \<lparr>dir_name = mission_id, charter_file = Holds (JObj (sorted_dict charter)),
        decision_file = Holds (JObj (sorted_dict decision)), receipt_file = cell\<rparr>
      = Inr (sorted_dict charter, sorted_dict decision) \<and>
    snd (write_authority_receipt env cell mission_id' charter' decision' approved_at' phrase') = cell"
  using published_state_loads [OF assms] write_authority_receipt_keeps by blast

theorem approval_establishes_authority_witness:
  "\<exists>cell. load_authoritative_state \<lparr>dir_name = ''mission-1'', charter_file = Holds (JObj (sorted_dict (demo_charter ''approved''))),
        decision_file = Holds (JObj (sorted_dict demo_decision)), receipt_file = cell\<rparr>
      = Inr (sorted_dict (demo_charter ''approved''), sorted_dict demo_decision)"
proof -
  have r: "validate_receipt_shape demo_receipt = Inr ()"
    unfolding demo_receipt_def by (rule receipt_payload_shape) (simp_all add: demo_charter_def demo_decision_def)
  have g: "checks (receipt_guards ''mission-1'' (demo_charter ''approved'') demo_decision ''now'' ''APROBAR MISION'') = Inr ()"
    by (simp add: receipt_guards_def, simp add: demo_charter_def, simp add: demo_decision_def)
  have "write_authority_receipt Publishes Missing ''mission-1'' (demo_charter ''approved'') demo_decision ''now'' ''APROBAR MISION''
      = (Inr demo_receipt, Holds (JObj (sorted_dict demo_receipt)))"
    using r g by (simp add: write_authority_receipt_def demo_charter_shape demo_decision_shape publish_once_def
        flip: demo_receipt_def del: checks_Inr)
  from approval_establishes_authority [OF this demo_charter_skills] show ?thesis by blast
qed

section \<open>An exception that is not normalized\<close>

text \<open>
  A charter file whose bytes are not UTF-8, or that holds an integer literal beyond the
  interpreter's limit, makes the checkpoint raise \<open>ValueError\<close>, and one nested too deeply
  \<open>RecursionError\<close>, instead of a binding error with a stable code.
\<close>

theorem undecodable_charter_escapes:
  assumes "checks (identity_guards ph action) = Inr ()" and "approval_on_record ph action = Inr ()"
  shows "validate_action_authority (files\<lparr>charter_file := NotText\<rparr>) action ph = Inl (Raised ValueError) \<and>
    validate_action_authority (files\<lparr>charter_file := DeepText\<rparr>) action ph = Inl (Raised RecursionError)"
  using assms by (simp add: validate_action_authority_def load_authoritative_state_def read_authoritative_json_def
      del: checks_Inr)

theorem undecodable_charter_escapes_witness:
  "validate_action_authority (demo_files\<lparr>charter_file := NotText\<rparr>) demo_action PreDispatch = Inl (Raised ValueError)"
proof -
  obtain charter decision where "checks (identity_guards PreDispatch demo_action) = Inr ()"
    and "approval_on_record PreDispatch demo_action = Inr ()"
    using validate_action_authority_steps [OF demo_action_authorised [of PreDispatch]] by blast
  from undecodable_charter_escapes [OF this, of demo_files] show ?thesis by blast
qed

end
