(* ===== verification/Mission_Intent.thy ===== *)
theory Mission_Intent
  imports Models Sha256 Py_Values
begin

text \<open>
  The deterministic reading of a request, \<open>tools/hokage_orchestrator/intent.py\<close>: the type of the
  mission, its targets, constraints, requested outputs and risk, and the validation of the result.

  The regular expression for paths is its deterministic reading: its character classes make every
  greedy run maximal, so that only the optional prefix needs alternatives. The file system is a
  \<open>repo_view\<close>: the text of the repository root, what a candidate path resolves to (the candidate
  itself when \<open>resolve\<close> raises \<open>OSError\<close>), and whether a resolved target lies under the root.
\<close>

section \<open>Strings\<close>

definition contains_any :: "pystr \<Rightarrow> pystr list \<Rightarrow> bool" where
  "contains_any text terms = list_ex (\<lambda>t. py_contains t text) terms"

fun dedupe_from :: "pystr list \<Rightarrow> pystr list \<Rightarrow> pystr list" where
  "dedupe_from seen [] = []"
| "dedupe_from seen (value # rest) =
     (let normalized = py_strip value in
      if normalized \<noteq> [] \<and> normalized \<notin> set seen then normalized # dedupe_from (normalized # seen) rest
      else dedupe_from seen rest)"

definition dedupe :: "pystr list \<Rightarrow> pystr list" where
  "dedupe values = dedupe_from [] values"

text \<open>The maximal runs of characters of a class: \<open>re.findall("[...]+", s)\<close>, and \<open>s.split()\<close> for the
  characters that are no white space.\<close>

function runs :: "(char \<Rightarrow> bool) \<Rightarrow> pystr \<Rightarrow> pystr list" where
  "runs P s =
     (let t = dropWhile (\<lambda>c. \<not> P c) s in
      if t = [] then [] else takeWhile P t # runs P (dropWhile P t))"
  by pat_completeness auto
termination
proof (relation "measure (\<lambda>(_, s). length s)", simp, goal_cases)
  case (1 P s t)
  obtain c u where t: "t = c # u" using 1(2) by (cases t) auto
  have "P c" using 1 t by (metis hd_dropWhile list.sel(1))
  moreover have "length t \<le> length s" using 1(1) length_dropWhile_le [of "\<lambda>c. \<not> P c" s] by simp
  ultimately show ?case using t length_dropWhile_le [of P u] by simp
qed

declare runs.simps [simp del]

definition py_words :: "pystr \<Rightarrow> pystr list" where
  "py_words s = runs (\<lambda>c. \<not> py_isspace c) s"

definition strip_chars :: "pystr \<Rightarrow> pystr \<Rightarrow> pystr" where
  "strip_chars cs s = rev (dropWhile (\<lambda>c. c \<in> set cs) (rev (dropWhile (\<lambda>c. c \<in> set cs) s)))"

section \<open>Paths in a text\<close>

definition ascii_letter :: "char \<Rightarrow> bool" where
  "ascii_letter c = (let n = code_point c in (65 \<le> n \<and> n \<le> 90) \<or> (97 \<le> n \<and> n \<le> 122))"

text \<open>\<open>[A-Za-z0-9_. -]\<close> and \<open>[\\/]\<close>.\<close>

definition tail_char :: "char \<Rightarrow> bool" where
  "tail_char c \<longleftrightarrow> path_char c \<or> c = CHR '' ''"

definition path_separator :: "char \<Rightarrow> bool" where
  "path_separator c \<longleftrightarrow> c = CHR ''/'' \<or> c = CHR 0x5C"

function path_tail :: "pystr \<Rightarrow> pystr" where
  "path_tail [] = []"
| "path_tail (c # s) =
     (if path_separator c \<and> takeWhile tail_char s \<noteq> []
      then c # takeWhile tail_char s @ path_tail (dropWhile tail_char s) else [])"
  by pat_completeness auto
termination by (relation "measure length") (auto simp: less_Suc_eq_le length_dropWhile_le)

definition path_body :: "pystr \<Rightarrow> pystr option" where
  "path_body s =
     (let start = takeWhile path_char s; rest = path_tail (dropWhile path_char s)
      in if start = [] \<or> rest = [] then None else Some (start @ rest))"

text \<open>The optional prefix, longest alternative first, then none.\<close>

definition path_prefixes :: "pystr \<Rightarrow> pystr list" where
  "path_prefixes s =
     filter (\<lambda>p. prefix p s) [''../'', ''./'', ''/''] @
     (case s of c # d # e # _ \<Rightarrow> (if ascii_letter c \<and> d = CHR '':'' \<and> path_separator e then [[c, d, e]] else []) | _ \<Rightarrow> []) @
     [[]]"

fun first_some :: "('a \<Rightarrow> 'b option) \<Rightarrow> 'a list \<Rightarrow> 'b option" where
  "first_some f [] = None"
| "first_some f (x # xs) = (case f x of None \<Rightarrow> first_some f xs | Some y \<Rightarrow> Some y)"

definition path_at :: "pystr \<Rightarrow> pystr option" where
  "path_at s = first_some (\<lambda>p. map_option (\<lambda>b. p @ b) (path_body (drop (length p) s))) (path_prefixes s)"

text \<open>\<open>finditer\<close>: matches from left to right that do not overlap; none starts right after a word
  character, a dot or a hyphen. \<open>before\<close> is that preceding character.\<close>

function path_matches :: "char option \<Rightarrow> pystr \<Rightarrow> pystr list" where
  "path_matches before [] = []"
| "path_matches before (c # s) =
     (let blocked = (case before of None \<Rightarrow> False | Some b \<Rightarrow> word_char b \<or> b = CHR ''.'' \<or> b = CHR ''-'') in
      case (if blocked then None else path_at (c # s)) of
        None \<Rightarrow> path_matches (Some c) s
      | Some m \<Rightarrow>
          (if m = [] then [] else m # path_matches (Some (last m)) (drop (length m) (c # s))))"
  by pat_completeness auto
termination by (relation "measure (\<lambda>(_, s). length s)") auto

declare path_matches.simps(2) [simp del]

section \<open>Interpretation\<close>

record repo_view =
  root_text :: pystr
  resolved :: "pystr \<Rightarrow> pystr"
  under_root :: "pystr \<Rightarrow> bool"

record intent =
  in_type :: pystr
  in_objective :: pystr
  in_targets :: "pystr list"
  in_constraints :: "pystr list"
  in_outputs :: "pystr list"
  in_missing :: "pystr list"
  in_risk :: pystr

definition intent_type :: "pystr \<Rightarrow> pystr" where
  "intent_type text =
     (if contains_any text [''revis'', ''audit'', ''analiz'', ''inspect'', ''review''] then ''inspect_and_review''
      else if contains_any text
          [''implement'', ''crea'', ''agrega'', ''a'' @ [CHR 0xF1] @ ''ad'', ''modific'', ''corrig'', ''patch'', ''refactor'']
        then ''implement_change''
      else if contains_any text [''test'', ''prueba'', ''verific'', ''validate''] then ''validate_project''
      else if contains_any text [''record'', ''memoria'', ''obsidian'', ''handoff''] then ''record_memory''
      else ''general_mission'')"

definition targets :: "repo_view \<Rightarrow> pystr \<Rightarrow> pystr list" where
  "targets view request =
     (let here = (if contains_any (py_lower request)
                    [''este repo'', ''este repositorio'', ''este proyecto'', ''the repo'', ''the repository'', ''current project'']
                  then [root_text view] else []);
          named = map (\<lambda>m. resolved view (strip_chars ''.,;:()[]{}'' m)) (path_matches None request);
          found = here @ named
      in dedupe (if found = [] then [root_text view] else found))"

definition note_if :: "bool \<Rightarrow> pystr \<Rightarrow> pystr list" where
  "note_if b s = (if b then [s] else [])"

definition constraints :: "pystr \<Rightarrow> pystr list" where
  "constraints text = dedupe (
     [''explicit approval before execution'', ''model output is evidence only'', ''memory does not authorize action''] @
     note_if (contains_any text [''no modifi'', ''sin modifi'', ''no camb'', ''solo lectura'', ''read only'', ''read-only''])
       ''no filesystem mutation before explicit approval'' @
     note_if (contains_any text [''sin red'', ''no network'', ''offline'']) ''network access blocked'' @
     note_if (contains_any text [''ollama'', ''modelo local'', ''local model'']) ''local model only'' @
     note_if (contains_any text [''determin'', ''checks primero'', ''controles primero'', ''tests first''])
       ''deterministic checks before model invocation'' @
     note_if (contains_any text [''privad'', ''kirigakure'', ''obsidian'', ''context pack'', ''biblioteca''])
       ''private context requires a scoped approval'' @
     note_if (contains_any text [''token'', ''tiempo'', ''timing'', ''latencia'', ''med'' @ [CHR 0xED], ''mide''])
       ''record token and timing evidence'')"

definition requested_outputs :: "pystr \<Rightarrow> pystr \<Rightarrow> pystr list" where
  "requested_outputs text kind =
     (let outputs =
        note_if (kind \<in> {''inspect_and_review'', ''validate_project''}) ''findings'' @
        note_if (contains_any text [''patch'', ''corrig'', ''implement'', ''refactor'']) ''patch_proposal'' @
        note_if (contains_any text [''test'', ''prueba'', ''verific'', ''validate'']) ''test_evidence'' @
        note_if (contains_any text [''token'', ''tiempo'', ''timing'', ''latencia'']) ''usage_report'' @
        note_if (contains_any text [''memoria'', ''obsidian'', ''record'', ''guard'']) ''memory_summary''
      in dedupe (if outputs = [] then [''mission_result''] else outputs))"

definition risk_of :: "pystr \<Rightarrow> pystr list \<Rightarrow> pystr" where
  "risk_of kind cs =
     (if kind = ''implement_change'' then ''medium''
      else if ''private context requires a scoped approval'' \<in> set cs then ''medium'' else ''low'')"

definition interpret_intent :: "repo_view \<Rightarrow> pystr \<Rightarrow> intent" where
  "interpret_intent view request =
     (let normalized = py_join '' '' (py_words (py_strip request));
          lowered = py_lower normalized;
          kind = intent_type lowered;
          cs = constraints lowered;
          ts = targets view normalized
      in \<lparr>in_type = kind, in_objective = normalized, in_targets = ts, in_constraints = cs,
          in_outputs = requested_outputs lowered kind,
          in_missing = note_if (normalized = []) ''mission request'' @ note_if (ts = []) ''target'',
          in_risk = risk_of kind cs\<rparr>)"

text \<open>The dictionary that \<open>interpret_intent\<close> returns.\<close>

definition intent_payload :: "intent \<Rightarrow> jdict" where
  "intent_payload i = [
     (''schema_version'', JStr ''1.0.0''),
     (''report_type'', JStr ''conversational_intent''),
     (''intent_type'', JStr (in_type i)),
     (''objective'', JStr (in_objective i)),
     (''targets'', jstrs (in_targets i)),
     (''constraints'', jstrs (in_constraints i)),
     (''requested_outputs'', jstrs (in_outputs i)),
     (''missing_context'', jstrs (in_missing i)),
     (''risk_level'', JStr (in_risk i)),
     (''requires_charter'', JBool True),
     (''authority'', JObj [(''intent_is_not_permission'', JBool True),
        (''model_output_is_evidence_only'', JBool True), (''explicit_approval_required'', JBool True)])]"

section \<open>Validation\<close>

datatype intent_problem =
    MissingFields "pystr list" | InvalidReportType | ObjectiveBlank | NoTargets | TargetNotText
  | TargetEscapes pystr | RiskLevelInvalid | AuthorityNotObject | AuthorityInvariantMissing

definition INTENT_FIELDS :: "pystr list" where
  "INTENT_FIELDS = [''schema_version'', ''report_type'', ''intent_type'', ''objective'', ''targets'', ''constraints'',
     ''requested_outputs'', ''missing_context'', ''risk_level'', ''requires_charter'', ''authority'']"

definition target_problems :: "repo_view \<Rightarrow> json \<Rightarrow> intent_problem list" where
  "target_problems view target =
     (if \<not> nonblank_str target then [TargetNotText]
      else if under_root view (the_str target) then [] else [TargetEscapes (the_str target)])"

definition validate_intent :: "repo_view \<Rightarrow> jdict \<Rightarrow> intent_problem list py" where
  "validate_intent view payload =
     (let missing = sort (filter (\<lambda>k. dict_get payload k = None) INTENT_FIELDS);
          ts = dget payload ''targets'';
          early = (if missing = [] then [] else [MissingFields missing]) @
            (if dget payload ''report_type'' = JStr ''conversational_intent'' then [] else [InvalidReportType]) @
            (if nonblank_str (dget payload ''objective'') then [] else [ObjectiveBlank]) @
            (if is_list ts \<and> the_list ts \<noteq> [] then concat (map (target_problems view) (the_list ts)) else [NoTargets])
      in py_bind (in_str_set (dget payload ''risk_level'') [''low'', ''medium'', ''high'']) (\<lambda>known.
         Inr (early @ (if known then [] else [RiskLevelInvalid]) @
           (case dget payload ''authority'' of
              JObj a \<Rightarrow> (if dget a ''intent_is_not_permission'' = JBool True then [] else [AuthorityInvariantMissing])
            | _ \<Rightarrow> [AuthorityNotObject]))))"

section \<open>Properties of the string operations\<close>

lemma set_dedupe_from: "set (dedupe_from seen vs) = {w \<in> py_strip ` set vs. w \<noteq> [] \<and> w \<notin> set seen}"
  by (induction vs arbitrary: seen) (auto simp: Let_def)

lemma set_dedupe: "set (dedupe vs) = {w \<in> py_strip ` set vs. w \<noteq> []}"
  by (simp add: dedupe_def set_dedupe_from)

lemma distinct_dedupe [simp]: "distinct (dedupe vs)"
proof -
  have "distinct (dedupe_from seen vs)" for seen
    by (induction vs arbitrary: seen) (auto simp: Let_def set_dedupe_from)
  then show ?thesis by (simp add: dedupe_def)
qed

lemma dedupe_stripped: "w \<in> set (dedupe vs) \<Longrightarrow> py_strip w = w \<and> w \<noteq> []"
  by (auto simp: set_dedupe)

lemma dedupe_empty_iff: "dedupe vs = [] \<longleftrightarrow> (\<forall>v \<in> set vs. \<not> py_nonblank v)"
proof -
  have "dedupe vs = [] \<longleftrightarrow> set (dedupe vs) = {}" by simp
  then show ?thesis by (auto simp: set_dedupe py_nonblank_def)
qed

text \<open>Deduplication of stripped distinct texts changes nothing.\<close>

lemma dedupe_id: "dedupe vs = vs" if "distinct vs" "\<forall>v \<in> set vs. py_strip v = v \<and> v \<noteq> []"
proof -
  have "dedupe_from seen vs = vs" if "distinct vs" "\<forall>v \<in> set vs. py_strip v = v \<and> v \<noteq> []" "set seen \<inter> set vs = {}" for seen
    using that by (induction vs arbitrary: seen) (auto simp: Let_def)
  with that show ?thesis by (simp add: dedupe_def)
qed

lemma py_nonblank_iff: "py_nonblank s \<longleftrightarrow> (\<exists>c \<in> set s. \<not> py_isspace c)"
proof
  assume "\<exists>c \<in> set s. \<not> py_isspace c"
  then have "dropWhile py_isspace s \<noteq> []" by (auto simp: dropWhile_eq_Nil_conv)
  then obtain c t where t: "dropWhile py_isspace s = c # t" by (cases "dropWhile py_isspace s") auto
  then have "\<not> py_isspace c" by (metis hd_dropWhile list.distinct(1) list.sel(1))
  then have "dropWhile py_isspace (rev t @ [c]) \<noteq> []" by (auto simp: dropWhile_eq_Nil_conv)
  with t show "py_nonblank s" by (simp add: py_nonblank_def py_strip_def)
next
  assume "py_nonblank s"
  then have "dropWhile py_isspace s \<noteq> []" by (metis py_nonblank_def py_strip_def dropWhile.simps(1) rev.simps(1))
  then show "\<exists>c \<in> set s. \<not> py_isspace c" by (simp add: dropWhile_eq_Nil_conv)
qed

lemma runs_empty_iff: "runs P s = [] \<longleftrightarrow> (\<forall>c \<in> set s. \<not> P c)"
  by (simp add: runs.simps [of P s] Let_def dropWhile_eq_Nil_conv)

lemma runs_in_class: "\<forall>w \<in> set (runs P s). w \<noteq> [] \<and> (\<forall>c \<in> set w. P c)"
proof (induction P s rule: runs.induct)
  case (1 P s)
  define t where "t = dropWhile (\<lambda>c. \<not> P c) s"
  show ?case
  proof (cases "t = []")
    case True
    then show ?thesis by (simp add: runs.simps [of P s] t_def)
  next
    case False
    let ?w = "takeWhile P t"
    have "P (hd t)" using False hd_dropWhile [of "\<lambda>c. \<not> P c" s] unfolding t_def by blast
    with False have "?w \<noteq> []" by (cases t) auto
    moreover have "\<forall>c \<in> set ?w. P c" by (auto dest: set_takeWhileD)
    moreover have "runs P s = ?w # runs P (dropWhile P t)"
      using False unfolding t_def by (subst runs.simps) (simp only: Let_def if_False)
    ultimately show ?thesis using 1 [OF t_def False] by (metis set_ConsD)
  qed
qed

lemma py_words_empty_iff: "py_words s = [] \<longleftrightarrow> \<not> py_nonblank s"
  by (simp add: py_words_def runs_empty_iff py_nonblank_iff)

lemma py_words_nonblank: "w \<in> set (py_words s) \<Longrightarrow> py_nonblank w"
  using runs_in_class [of "\<lambda>c. \<not> py_isspace c" s] by (cases w) (force simp: py_words_def py_nonblank_iff)+

lemma py_join_nonblank: "(\<And>w. w \<in> set ws \<Longrightarrow> py_nonblank w) \<Longrightarrow> py_nonblank (py_join sep ws) \<longleftrightarrow> ws \<noteq> []"
  by (induction sep ws rule: py_join.induct) (auto simp: py_nonblank_iff)

lemma objective_nonblank: "py_nonblank (py_join '' '' (py_words (py_strip s))) \<longleftrightarrow> py_nonblank s"
  by (simp add: py_join_nonblank py_words_nonblank py_words_empty_iff) (simp add: py_nonblank_def)

section \<open>What an interpreted request contains\<close>

lemma targets_nonempty: "targets view request \<noteq> []" if "\<And>p. py_nonblank (resolved view p)" and "py_nonblank (root_text view)"
  using that by (cases "path_matches None request") (auto simp: targets_def Let_def dedupe_empty_iff)

lemma risk_of_known: "risk_of kind cs \<in> {''low'', ''medium'', ''high''}"
  by (simp add: risk_of_def)

lemma constraints_alt:
  "constraints text =
     [''explicit approval before execution'', ''model output is evidence only'', ''memory does not authorize action''] @
     note_if (contains_any text [''no modifi'', ''sin modifi'', ''no camb'', ''solo lectura'', ''read only'', ''read-only''])
       ''no filesystem mutation before explicit approval'' @
     note_if (contains_any text [''sin red'', ''no network'', ''offline'']) ''network access blocked'' @
     note_if (contains_any text [''ollama'', ''modelo local'', ''local model'']) ''local model only'' @
     note_if (contains_any text [''determin'', ''checks primero'', ''controles primero'', ''tests first''])
       ''deterministic checks before model invocation'' @
     note_if (contains_any text [''privad'', ''kirigakure'', ''obsidian'', ''context pack'', ''biblioteca''])
       ''private context requires a scoped approval'' @
     note_if (contains_any text [''token'', ''tiempo'', ''timing'', ''latencia'', ''med'' @ [CHR 0xED], ''mide''])
       ''record token and timing evidence''"
  unfolding constraints_def by (rule dedupe_id) (auto simp: note_if_def py_strip_def py_isspace_def code_point_def)

lemma intent_validation:
  assumes "\<And>p. py_nonblank (resolved view p)" and "py_nonblank (root_text view)"
  shows "validate_intent view (intent_payload (interpret_intent view request)) =
    Inr ((if py_nonblank request then [] else [ObjectiveBlank]) @
      map TargetEscapes (filter (\<lambda>t. \<not> under_root view t) (in_targets (interpret_intent view request))))"
proof -
  let ?i = "interpret_intent view request"
  have ts: "concat (map (target_problems view) (map JStr xs)) = map TargetEscapes (filter (\<lambda>t. \<not> under_root view t) xs)"
    if "\<forall>x \<in> set xs. py_nonblank x" for xs
    using that by (induction xs) (auto simp: target_problems_def)
  have nb: "py_nonblank x" if "x \<in> set (in_targets ?i)" for x
    using that by (auto simp: interpret_intent_def Let_def targets_def py_nonblank_def dest!: dedupe_stripped)
  have "in_targets ?i \<noteq> []" using targets_nonempty [OF assms] by (simp add: interpret_intent_def Let_def)
  moreover have "nonblank_str (JStr (in_objective ?i)) = py_nonblank request"
    by (simp add: interpret_intent_def Let_def objective_nonblank)
  moreover have "in_risk ?i \<in> {''low'', ''medium'', ''high''}"
    using risk_of_known by (simp add: interpret_intent_def Let_def)
  ultimately show ?thesis using ts [of "in_targets ?i"] nb
    by (auto simp: validate_intent_def intent_payload_def INTENT_FIELDS_def jstrs_def in_str_set_def Let_def)
qed

text \<open>
  C27: a request that is not blank is read as an intent that its own validation accepts, unless one
  of the paths it names lies outside the repository; the problems reported are exactly those.
\<close>

theorem interpreted_intent_validates:
  assumes "\<And>p. py_nonblank (resolved view p)" and "py_nonblank (root_text view)"
  shows "validate_intent view (intent_payload (interpret_intent view request)) =
    Inr ((if py_nonblank request then [] else [ObjectiveBlank]) @
      map TargetEscapes (filter (\<lambda>t. \<not> under_root view t) (in_targets (interpret_intent view request))))"
  using assms by (rule intent_validation)

definition demo_view :: repo_view where
  "demo_view = \<lparr>root_text = ''/repo'', resolved = (\<lambda>p. ''/repo/'' @ p), under_root = (\<lambda>t. prefix ''/repo'' t)\<rparr>"

theorem interpreted_intent_validates_witness:
  "validate_intent demo_view (intent_payload (interpret_intent demo_view ''Revisar'')) = Inr []"
proof -
  have n: "py_nonblank (root_text demo_view)" "py_nonblank (resolved demo_view p)" "py_nonblank ''Revisar''" for p
    by (simp_all add: demo_view_def py_nonblank_iff py_isspace_def code_point_def)
  have w: "py_join '' '' (py_words (py_strip ''Revisar'')) = ''Revisar''"
    by (simp add: py_words_def runs.simps py_strip_def py_isspace_def code_point_def)
  have m: "path_matches None ''Revisar'' = []"
    by (simp add: path_matches.simps path_at_def path_prefixes_def path_body_def path_char_def ascii_alnum_def word_char_def
        ascii_letter_def code_point_def)
  have "set (in_targets (interpret_intent demo_view ''Revisar'')) \<subseteq> {py_strip (root_text demo_view)}"
    by (auto simp: interpret_intent_def Let_def w targets_def m set_dedupe)
  then have "\<forall>t \<in> set (in_targets (interpret_intent demo_view ''Revisar'')). under_root demo_view t"
    by (auto simp: demo_view_def py_strip_def py_isspace_def code_point_def)
  then have "filter (\<lambda>t. \<not> under_root demo_view t) (in_targets (interpret_intent demo_view ''Revisar'')) = []"
    by (simp add: filter_empty_conv)
  with interpreted_intent_validates [of demo_view "''Revisar''", OF n(2,1)] n(3) show ?thesis by simp
qed

section \<open>A path takes the words that follow it\<close>

lemma path_tail_run:
  assumes "list_all tail_char run" and "run \<noteq> []"
  shows "path_tail (CHR ''/'' # run) = CHR ''/'' # run"
  using assms by (simp add: path_separator_def takeWhile_eq_all_conv [THEN iffD2] dropWhile_eq_Nil_conv [THEN iffD2] list_all_iff)

lemma path_body_run:
  assumes "list_all path_char start" and "start \<noteq> []" and "list_all tail_char run" and "run \<noteq> []"
  shows "path_body (start @ CHR ''/'' # run) = Some (start @ CHR ''/'' # run)"
proof -
  have "\<not> path_char (CHR ''/'')" by (simp add: path_char_def ascii_alnum_def code_point_def)
  with assms(1) have "takeWhile path_char (start @ CHR ''/'' # run) = start"
    and "dropWhile path_char (start @ CHR ''/'' # run) = CHR ''/'' # run"
    by (induction start) auto
  with path_tail_run [OF assms(3,4)] assms(2) show ?thesis by (simp add: path_body_def)
qed

text \<open>
  The character class of a path contains the blank, so that a path named in a request takes
  every word up to the next punctuation mark as part of its name: the target of \<open>review src/main.py
  and run tests\<close> is a file called \<open>main.py and run tests\<close>.
\<close>

theorem path_takes_following_words:
  assumes "ascii_letter c" and "list_all path_char start" and "list_all tail_char run" and "run \<noteq> []"
  shows "path_matches None (c # start @ CHR ''/'' # run) = [c # start @ CHR ''/'' # run]"
proof -
  let ?s = "c # start @ CHR ''/'' # run"
  have h: "path_char c" using assms(1) by (auto simp: path_char_def ascii_letter_def ascii_alnum_def Let_def)
  have "c \<noteq> CHR ''.''" and "c \<noteq> CHR ''/''" using assms(1) by (auto simp: ascii_letter_def code_point_def)
  moreover have "(start @ CHR ''/'' # run) ! 0 \<noteq> CHR '':''"
    using assms(2) by (cases start) (auto simp: path_char_def ascii_alnum_def code_point_def)
  ultimately have "path_prefixes ?s = [[]]"
    by (auto simp: path_prefixes_def split: list.splits)
  then have "path_at ?s = Some ?s"
    using path_body_run [of "c # start" run] assms h by (simp add: path_at_def)
  then show ?thesis by (simp add: path_matches.simps)
qed

theorem path_takes_following_words_witness:
  "path_matches None ''src/main.py and run tests'' = [''src/main.py and run tests'']"
  using path_takes_following_words [of "CHR ''s''" "''rc''" "''main.py and run tests''"]
  by (simp add: ascii_letter_def path_char_def tail_char_def ascii_alnum_def code_point_def)

end
