(* ===== verification/Mission_Decision.thy ===== *)
theory Mission_Decision
  imports Authority Mission_Intent
begin

text \<open>
  The supervised decision for a mission, \<open>tools/hokage_orchestrator/mission_decision.py\<close>:
  classification of the intent, choice of a provider and model under the human constraints, the
  economy estimate and the supervision policy, and the decision payload of both schemas.

  The snapshot of the machine is the list of its provider rows; the texts \<open>rationale\<close> are kept,
  because the decision is digested.
\<close>

section \<open>Classification\<close>

definition token_char :: "char \<Rightarrow> bool" where
  "token_char c = (let n = code_point c in (48 \<le> n \<and> n \<le> 57) \<or> (97 \<le> n \<and> n \<le> 122) \<or> c \<in> set ''_+.-'')"

definition contains_word :: "pystr \<Rightarrow> pystr list \<Rightarrow> bool" where
  "contains_word text values = list_ex (\<lambda>v. py_lower v \<in> set (runs token_char (py_lower text))) values"

record classification =
  category :: pystr
  complexity :: pystr
  cl_risk :: pystr
  cl_type :: pystr
  cl_targets :: "pystr list"
  cl_outputs :: "pystr list"

definition category_of :: "pystr \<Rightarrow> pystr \<times> pystr" where
  "category_of material =
     (if contains_word material [''code'', ''implement'', ''fix'', ''test'', ''repo'', ''git'', ''.py''] then
        (''software_engineering'',
         if contains_word material [''architecture'', ''migration'', ''release''] then ''high'' else ''medium'')
      else if contains_word material [''research'', ''paper'', ''thesis'', ''sources'', ''investigate''] then
        (''research'', ''medium'')
      else if contains_word material [''summarize'', ''summary'', ''rewrite'', ''format'', ''extract''] then
        (''knowledge_processing'', ''low'')
      else if contains_word material [''audit'', ''review'', ''security'', ''privacy'', ''risk''] then
        (''audit_and_review'', ''high'')
      else (''general_supervised_task'', ''medium''))"

definition classify_mission :: "intent \<Rightarrow> classification" where
  "classify_mission i =
     (case category_of (py_join '' '' (in_objective i # in_targets i @ in_outputs i)) of (cat, cx) \<Rightarrow>
        \<lparr>category = cat, complexity = cx, cl_risk = in_risk i, cl_type = in_type i,
         cl_targets = in_targets i, cl_outputs = in_outputs i\<rparr>)"

definition classification_payload :: "classification \<Rightarrow> json" where
  "classification_payload c = JObj [
     (''category'', JStr (category c)),
     (''complexity'', JStr (complexity c)),
     (''risk_level'', JStr (cl_risk c)),
     (''evidence'', JObj [(''intent_type'', JStr (cl_type c)), (''targets'', jstrs (cl_targets c)),
        (''requested_outputs'', jstrs (cl_outputs c))])]"

section \<open>Providers\<close>

record provider_row =
  row_provider :: pystr
  row_status :: pystr

definition provider_map :: "provider_row list \<Rightarrow> provider_row pydict" where
  "provider_map snapshot =
     foldl (\<lambda>d row. if row_provider row = [] then d else dict_set d (row_provider row) row) [] snapshot"

definition ready_providers :: "provider_row list \<Rightarrow> pystr list" where
  "ready_providers snapshot = map fst (filter (\<lambda>(_, row). row_status row = ''ready'') (provider_map snapshot))"

text \<open>Schema 1.0: the first clause that fits the category and the ready providers.\<close>

definition select_provider_and_model :: "classification \<Rightarrow> provider_row list \<Rightarrow> pystr \<Rightarrow> jdict" where
  "select_provider_and_model c snapshot local_model =
     (let ready = ready_providers snapshot;
          (provider, strategy, model, rationale) =
            (if category c = ''knowledge_processing'' \<and> ''ollama'' \<in> set ready then
               (''ollama'', ''local'', local_model, ''Low-risk knowledge processing fits the ready local provider.'')
             else if category c \<in> {''software_engineering'', ''audit_and_review''} \<and> ''codex'' \<in> set ready then
               (''codex'', ''remote'', ''provider_default'', ''Repository and review work prioritizes the ready coding provider.'')
             else if category c \<in> {''research'', ''general_supervised_task''} \<and> ''claude'' \<in> set ready then
               (''claude'', ''remote'', ''provider_default'', ''Long-form reasoning prioritizes the ready general remote provider.'')
             else if ''codex'' \<in> set ready then
               (''codex'', ''remote'', ''provider_default'', ''Codex is the highest-priority ready fallback.'')
             else if ''claude'' \<in> set ready then
               (''claude'', ''remote'', ''provider_default'', ''Claude is the available ready fallback.'')
             else if ''ollama'' \<in> set ready then
               (''ollama'', ''local'', local_model, ''Only the local provider is ready.'')
             else (''none'', ''blocked'', ''none'', ''No provider is ready; execution must stop and escalate.''));
          hybrid = (complexity c = ''high'' \<and> provider = ''ollama'')
      in [(''provider'', JStr provider),
          (''model'', JStr model),
          (''strategy'', JStr (if hybrid then ''hybrid_review_required'' else strategy)),
          (''rationale'', JStr (if hybrid then rationale @ '' High complexity requires superior independent review.'' else rationale)),
          (''provider_readiness'', jstrs (sort ready)),
          (''selection_is_proposal_only'', JBool True)])"

text \<open>\<open>ProviderSelectionError\<close>, an \<open>AuthorityBindingError\<close> and the interpreter's exceptions.\<close>

datatype dexn = ProviderSelectionError | DecisionRaised py_exn

definition validate_human_constraints :: "json \<Rightarrow> dexn + unit" where
  "validate_human_constraints hc =
     (if \<not> (is_dict hc \<and> dict_keys_eq (the_obj hc) REQUIRED_HUMAN_CONSTRAINT_KEYS) then Inl ProviderSelectionError
      else if list_all (\<lambda>k. is_bool (dget (the_obj hc) k)) REQUIRED_HUMAN_CONSTRAINT_KEYS then Inr ()
      else Inl ProviderSelectionError)"

definition constraint :: "json \<Rightarrow> pystr \<Rightarrow> bool" where
  "constraint hc key = the_bool (dget (the_obj hc) key)"

definition violates :: "json \<Rightarrow> capabilities \<Rightarrow> bool" where
  "violates hc caps \<longleftrightarrow>
     (constraint hc ''network_blocked'' \<and> external_network caps) \<or>
     (constraint hc ''mutation_forbidden'' \<and> mutates_files caps) \<or>
     (constraint hc ''private_context_restricted'' \<and> private_context caps)"

text \<open>The loop over the candidates; a provider without a capability profile is passed over.\<close>

fun choose_provider :: "json \<Rightarrow> pystr \<Rightarrow> pystr list \<Rightarrow> pystr list \<Rightarrow> dexn + pystr" where
  "choose_provider hc skill_id ready [] = Inl ProviderSelectionError"
| "choose_provider hc skill_id ready (provider # rest) =
     (if provider \<notin> set ready then choose_provider hc skill_id ready rest
      else case effective_capabilities skill_id (Some provider) of
             Inl e \<Rightarrow> (if e \<in> {KeyError, TypeError, ValueError} then choose_provider hc skill_id ready rest
                       else Inl (DecisionRaised e))
           | Inr caps \<Rightarrow> (if violates hc caps then choose_provider hc skill_id ready rest else Inr provider))"

definition candidate_order :: "json \<Rightarrow> pystr \<Rightarrow> pystr \<Rightarrow> pystr list \<times> pystr" where
  "candidate_order hc skill_id cat =
     (if constraint hc ''local_model_only'' then ([''ollama''], ''human_constraint_local_model_only'')
      else if skill_id = ''invoke_local_model_audit'' then ([''ollama''], ''provider_skill_ollama_only'')
      else
        (if cat = ''knowledge_processing'' then [''ollama'', ''codex'', ''claude'']
         else if cat \<in> {''software_engineering'', ''audit_and_review''} then [''codex'', ''claude'', ''ollama'']
         else if cat \<in> {''research'', ''general_supervised_task''} then [''claude'', ''codex'', ''ollama'']
         else [''codex'', ''claude'', ''ollama''],
         ''deterministic_classification_and_readiness''))"

definition no_provider_selection :: "pystr list \<Rightarrow> jdict" where
  "no_provider_selection ready = [
     (''provider'', JStr ''none''), (''model'', JStr ''none''), (''strategy'', JStr ''deterministic_only''),
     (''selection_source'', JStr ''no_provider_skill_requested''),
     (''rationale'', JStr ''No provider-backed skill is proposed for this mission.''),
     (''provider_readiness'', jstrs (sort ready)), (''selection_is_proposal_only'', JBool True)]"

definition provider_selection :: "json \<Rightarrow> classification \<Rightarrow> pystr \<Rightarrow> pystr list \<Rightarrow> pystr \<Rightarrow> pystr \<Rightarrow> pystr \<Rightarrow> jdict" where
  "provider_selection hc c local_model ready skill_id source provider = [
     (''provider'', JStr provider),
     (''model'', JStr (if provider = ''ollama'' then local_model else ''provider_default'')),
     (''strategy'', JStr
        (if complexity c = ''high'' \<and> provider = ''ollama'' \<and> \<not> constraint hc ''local_model_only'' then ''hybrid_review_required''
         else if provider = ''ollama'' then ''local'' else ''remote'')),
     (''selection_source'', JStr source),
     (''rationale'', JStr (''Selected the highest-priority provider for '' @ skill_id @
        '' that is ready and compatible with this mission's human constraints and effective capabilities.'')),
     (''provider_readiness'', jstrs (sort ready)),
     (''selection_is_proposal_only'', JBool True)]"

definition select_provider_and_model_1_1 ::
  "classification \<Rightarrow> provider_row list \<Rightarrow> json \<Rightarrow> pystr \<Rightarrow> pystr option \<Rightarrow> dexn + jdict" where
  "select_provider_and_model_1_1 c snapshot hc local_model provider_skill_id =
     py_bind (validate_human_constraints hc) (\<lambda>_.
       let ready = ready_providers snapshot in
       case provider_skill_id of
         None \<Rightarrow> Inr (no_provider_selection ready)
       | Some skill_id \<Rightarrow>
          (if skill_id \<notin> {''run_technical_plan'', ''invoke_local_model_audit''} then Inl ProviderSelectionError
           else case candidate_order hc skill_id (category c) of (order, source) \<Rightarrow>
             py_bind (choose_provider hc skill_id ready order) (\<lambda>provider.
             Inr (provider_selection hc c local_model ready skill_id source provider))))"

section \<open>Economy and supervision\<close>

text \<open>
  The savings are a quotient of an integer by its double, which binary floating point represents
  exactly, so exact arithmetic in hundredths of a percent gives the float; \<open>round(x, 2)\<close> rounds half to even.
\<close>

definition round_quotient :: "int \<Rightarrow> int \<Rightarrow> int" where
  "round_quotient n d =
     (let q = n div d; r = n mod d
      in if 2 * r < d then q else if 2 * r > d then q + 1 else if even q then q else q + 1)"

definition hundredths_json :: "int \<Rightarrow> json" where
  "hundredths_json h =
     (case norm_decimal (Suc (length (nat_digits (nat \<bar>h\<bar>)))) (nat \<bar>h\<bar>) (- 2) of (m, e) \<Rightarrow> JFloat (FFin (h < 0) m e))"

definition savings_hundredths :: "int \<Rightarrow> int \<Rightarrow> int" where
  "savings_hundredths planned baseline = round_quotient ((baseline - planned) * 100 * 100) baseline"

definition MINIMUM_SAVINGS_PERCENT :: int where
  "MINIMUM_SAVINGS_PERCENT = 30"

definition complexity_factor :: "pystr \<Rightarrow> int py" where
  "complexity_factor cx =
     (case dict_get [(''low'', 1), (''medium'', 2), (''high'', 4)] cx of None \<Rightarrow> Inl KeyError | Some f \<Rightarrow> Inr f)"

definition input_tokens :: "intent \<Rightarrow> int" where
  "input_tokens i = max 500 (int (length (py_words (in_objective i))) * 8 + int (length (in_targets i)) * 350)"

definition estimate_economy :: "intent \<Rightarrow> classification \<Rightarrow> jdict py" where
  "estimate_economy i c =
     py_bind (complexity_factor (complexity c)) (\<lambda>factor.
       let input = input_tokens i; output = 500 * factor;
           baseline = (input + output) * 2; planned = input + output;
           savings = savings_hundredths planned baseline
       in Inr [
         (''estimate_source'', JStr ''deterministic_heuristic''),
         (''estimated_input_tokens'', JInt input),
         (''estimated_output_tokens'', JInt output),
         (''premium_baseline_tokens'', JInt baseline),
         (''planned_tokens'', JInt planned),
         (''estimated_savings_percent'', hundredths_json savings),
         (''minimum_savings_percent'', JInt MINIMUM_SAVINGS_PERCENT),
         (''minimum_savings_met'', JBool (savings \<ge> MINIMUM_SAVINGS_PERCENT * 100)),
         (''monetary_cost'', JObj [(''status'', JStr ''manual_required''),
            (''reason'', JStr ''Provider price and subscription limits are not inferred.'')]),
         (''estimate_is_not_billing_truth'', JBool True)])"

definition build_supervision_policy :: "classification \<Rightarrow> jdict" where
  "build_supervision_policy c = [
     (''maximum_worker_attempts'', JInt (if cl_risk c = ''high'' \<or> complexity c = ''high'' then 1 else 2)),
     (''retry_requires_new_root_cause_evidence'', JBool True),
     (''stop_on_repeated_error_signature'', JBool True),
     (''root_cause_escalation'', JStr ''hokage_and_human_council''),
     (''independent_jounin_review'', JBool True),
     (''review_before_permanent_change'', JBool True),
     (''teachback_required'', JBool True),
     (''instruction_delta'', JObj [(''owner'', JStr ''shikamaru''), (''status'', JStr ''proposal_only''),
        (''requires_independent_review'', JBool True), (''requires_human_approval'', JBool True),
        (''may_modify_own_policy'', JBool False)])]"

section \<open>The decision\<close>

definition decision_id_of :: "pystr \<Rightarrow> intent \<Rightarrow> pystr" where
  "decision_id_of mission_id i = ''decision-'' @ take 12 (sha256_hex (mission_id @ ''|'' @ in_objective i))"

definition decision_payload ::
  "pystr \<Rightarrow> pystr \<Rightarrow> pystr \<Rightarrow> intent \<Rightarrow> classification \<Rightarrow> jdict \<Rightarrow> jdict \<Rightarrow> jdict" where
  "decision_payload version now mission_id i c selection economy = [
     (''schema_version'', JStr version),
     (''report_type'', JStr ''hokage_mission_decision''),
     (''decision_id'', JStr (decision_id_of mission_id i)),
     (''mission_id'', JStr mission_id),
     (''created_at'', JStr now),
     (''classification'', classification_payload c),
     (''selection'', JObj selection),
     (''economy'', JObj economy),
     (''supervision'', JObj (build_supervision_policy c)),
     (''review_checkpoints'', jstrs [''mission_charter_approval'', ''per_action_approval'', ''independent_jounin_review'',
        ''teachback'', ''human_closure'']),
     (''telemetry_contract'', JObj (map (\<lambda>k. (k, JBool True)) [''record_provider'', ''record_model'',
        ''record_input_output_tokens_when_available'', ''record_duration'', ''record_outcome'',
        ''record_error_signature'', ''private_state_only''])),
     (''authority'', JObj (map (\<lambda>k. (k, JBool True)) [''hokage_decision_is_proposal_only'',
        ''decision_does_not_authorize_execution'', ''provider_output_is_evidence_only'', ''no_self_approval'']))]"

definition raise_py :: "'a py \<Rightarrow> dexn + 'a" where
  "raise_py r = (case r of Inl e \<Rightarrow> Inl (DecisionRaised e) | Inr x \<Rightarrow> Inr x)"

definition build_decision_1_1 ::
  "pystr \<Rightarrow> pystr \<Rightarrow> intent \<Rightarrow> provider_row list \<Rightarrow> pystr \<Rightarrow> json \<Rightarrow> pystr option \<Rightarrow> dexn + jdict" where
  "build_decision_1_1 now mission_id i snapshot local_model hc provider_skill_id =
     (let c = classify_mission i in
      py_bind (select_provider_and_model_1_1 c snapshot hc local_model provider_skill_id) (\<lambda>selection.
      py_bind (raise_py (estimate_economy i c)) (\<lambda>economy.
      Inr (decision_payload ''1.1.0'' now mission_id i c selection economy))))"

text \<open>\<open>MissionDecisionEngine.decide\<close>: the schema 1.0 payload, which it also writes under
  \<open>decisions/<mission_id>.json\<close> with sorted keys.\<close>

definition decide :: "pystr \<Rightarrow> pystr \<Rightarrow> intent \<Rightarrow> provider_row list \<Rightarrow> pystr \<Rightarrow> dexn + jdict" where
  "decide now mission_id i snapshot local_model =
     (let c = classify_mission i in
      py_bind (raise_py (estimate_economy i c)) (\<lambda>economy.
      Inr (decision_payload ''1.0.0'' now mission_id i c (select_provider_and_model c snapshot local_model) economy)))"

section \<open>Readiness\<close>

lemma dict_get_provider_map:
  "dict_get (provider_map snapshot) p =
     (if p = [] then None else find (\<lambda>row. row_provider row = p) (rev snapshot))"
proof (induction snapshot rule: rev_induct)
  case Nil
  then show ?case by (simp add: provider_map_def)
next
  case (snoc row rows)
  then show ?case by (auto simp: provider_map_def)
qed

lemma dict_wf_provider_map: "dict_wf (provider_map snapshot)"
  by (induction snapshot rule: rev_induct) (auto simp: provider_map_def dict_wf_def intro: dict_wf_set [unfolded dict_wf_def])

text \<open>A provider is ready when its last row says so.\<close>

lemma ready_provider_iff:
  "p \<in> set (ready_providers snapshot) \<longleftrightarrow>
     p \<noteq> [] \<and> (\<exists>row. find (\<lambda>r. row_provider r = p) (rev snapshot) = Some row \<and> row_status row = ''ready'')"
proof -
  have "p \<in> set (ready_providers snapshot) \<longleftrightarrow> (\<exists>row. dict_get (provider_map snapshot) p = Some row \<and> row_status row = ''ready'')"
    using dict_wf_provider_map [of snapshot]
    by (force simp: ready_providers_def dict_get_def dict_wf_def)
  then show ?thesis by (auto simp: dict_get_provider_map split: if_splits)
qed

section \<open>The chosen provider\<close>

definition acceptable :: "json \<Rightarrow> pystr \<Rightarrow> pystr list \<Rightarrow> pystr \<Rightarrow> bool" where
  "acceptable hc skill_id ready p \<longleftrightarrow> p \<in> set ready \<and>
     (\<exists>caps. effective_capabilities skill_id (Some p) = Inr caps \<and> \<not> violates hc caps)"

lemma effective_capabilities_errors:
  "effective_capabilities skill_id provider = Inl e \<Longrightarrow> e \<in> {KeyError, TypeError, ValueError}"
  by (auto simp: effective_capabilities_def split: option.splits if_splits)

lemma choose_provider_find:
  "choose_provider hc skill_id ready order =
     (case find (acceptable hc skill_id ready) order of None \<Rightarrow> Inl ProviderSelectionError | Some p \<Rightarrow> Inr p)"
  by (induction order)
    (auto simp: acceptable_def split: sum.split dest: effective_capabilities_errors)

lemma acceptable_audit: "acceptable hc ''invoke_local_model_audit'' ready p \<longleftrightarrow> p = ''ollama'' \<and> p \<in> set ready"
  by (auto simp: acceptable_def effective_capabilities_def SKILLS_def PROVIDER_SKILL_IDS_def PROVIDER_CAPABILITIES_def
      inert_def violates_def split: if_splits option.splits)

lemma acceptable_plan:
  "acceptable hc ''run_technical_plan'' ready p \<longleftrightarrow> p \<in> set ready \<and>
     (p = ''ollama'' \<or> p = ''codex'' \<and> \<not> constraint hc ''network_blocked'')"
  by (auto simp: acceptable_def effective_capabilities_def SKILLS_def PROVIDER_SKILL_IDS_def PROVIDER_CAPABILITIES_def
      inert_def violates_def split: if_splits option.splits)

text \<open>The providers a mission may use for a provider skill.\<close>

definition lawful_provider :: "json \<Rightarrow> pystr \<Rightarrow> pystr list \<Rightarrow> pystr \<Rightarrow> bool" where
  "lawful_provider hc skill_id ready p \<longleftrightarrow> p \<in> set ready \<and>
     (p = ''ollama'' \<or> p = ''codex'' \<and> skill_id = ''run_technical_plan'' \<and>
        \<not> constraint hc ''network_blocked'' \<and> \<not> constraint hc ''local_model_only'')"

text \<open>
  C17: provider selection for a provider skill fails closed, and otherwise gives the first provider
  of the priority list that is ready and lawful. It succeeds exactly when some candidate is ready,
  has a capability profile for the skill and violates no human constraint; under local-model-only,
  and for the local audit, the only candidate is the local provider; the provider and the model
  that the selection records are that provider's.
\<close>

theorem selected_provider_is_lawful:
  assumes "validate_human_constraints hc = Inr ()"
    and "skill_id = ''run_technical_plan'' \<or> skill_id = ''invoke_local_model_audit''"
  shows "(case select_provider_and_model_1_1 c snapshot hc local_model (Some skill_id) of
      Inl e \<Rightarrow> e = ProviderSelectionError \<and> (\<forall>p. \<not> lawful_provider hc skill_id (ready_providers snapshot) p)
    | Inr selection \<Rightarrow> (\<exists>p. dget selection ''provider'' = JStr p \<and>
        lawful_provider hc skill_id (ready_providers snapshot) p \<and>
        find (lawful_provider hc skill_id (ready_providers snapshot)) (fst (candidate_order hc skill_id (category c))) = Some p \<and>
        dget selection ''model'' = JStr (if p = ''ollama'' then local_model else ''provider_default'')))"
proof -
  let ?ready = "ready_providers snapshot"
  obtain order source where o: "candidate_order hc skill_id (category c) = (order, source)" by fastforce
  have "acceptable hc skill_id ?ready p \<and> p \<in> set order \<longleftrightarrow> lawful_provider hc skill_id ?ready p" for p
    using assms(2) o by (auto simp: candidate_order_def acceptable_audit acceptable_plan lawful_provider_def split: if_splits)
  then have agree: "find (acceptable hc skill_id ?ready) order = find (lawful_provider hc skill_id ?ready) order"
    and none: "find (lawful_provider hc skill_id ?ready) order = None \<longleftrightarrow> (\<forall>p. \<not> lawful_provider hc skill_id ?ready p)"
    by (auto simp: find_None_iff intro: find_cong)
  have some: "find (lawful_provider hc skill_id ?ready) order = Some p \<Longrightarrow> lawful_provider hc skill_id ?ready p" for p
    by (auto simp: find_Some_iff)
  have s: "select_provider_and_model_1_1 c snapshot hc local_model (Some skill_id) =
      py_bind (choose_provider hc skill_id ?ready order) (\<lambda>p. Inr (provider_selection hc c local_model ?ready skill_id source p))"
    using assms o by (auto simp: select_provider_and_model_1_1_def Let_def)
  show ?thesis
  proof (cases "find (lawful_provider hc skill_id ?ready) order")
    case None
    with none s show ?thesis by (simp add: choose_provider_find agree)
  next
    case (Some p)
    from some [OF Some] show ?thesis by (simp add: s o choose_provider_find agree Some provider_selection_def)
  qed
qed

definition demo_constraints :: json where
  "demo_constraints = JObj [(''mutation_forbidden'', JBool False), (''network_blocked'', JBool True),
     (''local_model_only'', JBool False), (''private_context_restricted'', JBool False)]"

definition demo_snapshot :: "provider_row list" where
  "demo_snapshot = [\<lparr>row_provider = ''codex'', row_status = ''ready''\<rparr>,
     \<lparr>row_provider = ''claude'', row_status = ''missing''\<rparr>, \<lparr>row_provider = ''ollama'', row_status = ''ready''\<rparr>]"

lemma demo_constraints_valid: "validate_human_constraints demo_constraints = Inr ()"
  by (simp add: validate_human_constraints_def demo_constraints_def REQUIRED_HUMAN_CONSTRAINT_KEYS_def dict_keys_eq_def)

theorem selected_provider_is_lawful_witness:
  "\<exists>selection. select_provider_and_model_1_1 (classify_mission (interpret_intent demo_view ''Revisar'')) demo_snapshot
      demo_constraints ''qwen'' (Some ''run_technical_plan'') = Inr selection \<and> dget selection ''provider'' = JStr ''ollama''"
proof -
  let ?s = "select_provider_and_model_1_1 (classify_mission (interpret_intent demo_view ''Revisar'')) demo_snapshot
      demo_constraints ''qwen'' (Some ''run_technical_plan'')"
  have ok: "lawful_provider demo_constraints ''run_technical_plan'' (ready_providers demo_snapshot) p \<longleftrightarrow> p = ''ollama''" for p
    by (auto simp: lawful_provider_def demo_constraints_def constraint_def ready_provider_iff demo_snapshot_def)
  show ?thesis
    using selected_provider_is_lawful [OF demo_constraints_valid, where skill_id = "''run_technical_plan''" and
        c = "classify_mission (interpret_intent demo_view ''Revisar'')" and snapshot = demo_snapshot and local_model = "''qwen''"]
    by (cases ?s) (auto simp: ok)
qed

section \<open>Economy\<close>

lemma complexity_known: "complexity (classify_mission i) \<in> {''low'', ''medium'', ''high''}"
  by (auto simp: classify_mission_def category_of_def)

lemma complexity_factor_total: "\<exists>f \<in> {1, 2, 4}. complexity_factor (complexity (classify_mission i)) = Inr f"
  using complexity_known [of i] by (auto simp: complexity_factor_def)

lemma half_is_saved: "0 < p \<Longrightarrow> savings_hundredths p (p * 2) = 5000"
proof -
  assume "0 < p"
  then have "(p * 2 - p) * 100 * 100 = 5000 * (p * 2)" by simp
  with \<open>0 < p\<close> show ?thesis
    by (simp only: savings_hundredths_def round_quotient_def) (simp add: Let_def)
qed

lemma fifty_percent: "hundredths_json 5000 = JFloat (FFin False 5 1)"
proof -
  have "nat_digits 5000 = ''5000''" by (simp add: nat_digits.simps) (simp add: char_of_def bit_iff_odd)
  then show ?thesis by (simp add: hundredths_json_def)
qed

text \<open>
  The economy estimate exists for every intent; it plans at least 1000 tokens, half of its own
  baseline, so that the recorded saving is always 50.0 percent and the minimum of 30 is always met.
\<close>

theorem economy_estimate_is_constant:
  "\<exists>economy planned. estimate_economy i (classify_mission i) = Inr economy \<and>
     dget economy ''planned_tokens'' = JInt planned \<and> 1000 \<le> planned \<and>
     dget economy ''premium_baseline_tokens'' = JInt (planned * 2) \<and>
     dget economy ''estimated_savings_percent'' = JFloat (FFin False 5 1) \<and>
     dget economy ''minimum_savings_met'' = JBool True"
proof -
  obtain f where f: "f \<in> {1, 2, 4}" "complexity_factor (complexity (classify_mission i)) = Inr f"
    using complexity_factor_total by blast
  have "500 \<le> input_tokens i" by (simp add: input_tokens_def)
  with f(1) have p: "1000 \<le> input_tokens i + 500 * f" by auto
  then have "savings_hundredths (input_tokens i + 500 * f) ((input_tokens i + 500 * f) * 2) = 5000"
    by (intro half_is_saved) simp
  with f(2) p show ?thesis
    by (simp add: estimate_economy_def Let_def fifty_percent MINIMUM_SAVINGS_PERCENT_def)
qed

section \<open>The shape of a built decision\<close>

definition selection_keys_ok :: "jdict \<Rightarrow> bool" where
  "selection_keys_ok selection \<longleftrightarrow> has_keys selection SELECTION_REQUIRED_KEYS \<and>
     only_keys selection SELECTION_ALLOWED_KEYS \<and> list_all (\<lambda>k. nonempty_str (dget selection k)) SELECTION_REQUIRED_KEYS"

lemmas selection_keys_defs = selection_keys_ok_def has_keys_def only_keys_def SELECTION_REQUIRED_KEYS_def SELECTION_ALLOWED_KEYS_def

lemma no_provider_selection_keys: "selection_keys_ok (no_provider_selection ready)"
  by (simp add: selection_keys_defs no_provider_selection_def)

lemma provider_selection_keys:
  "p \<noteq> [] \<Longrightarrow> source \<noteq> [] \<Longrightarrow> local_model \<noteq> [] \<Longrightarrow>
     selection_keys_ok (provider_selection hc c local_model ready s source p)"
  by (simp add: selection_keys_defs provider_selection_def)

lemma chosen_is_candidate: "choose_provider hc s ready order = Inr p \<Longrightarrow> p \<in> set order"
  by (induction order) (auto split: sum.splits if_splits)

lemma candidates_named: "candidate_order hc s cat = (order, source) \<Longrightarrow> [] \<notin> set order \<and> source \<noteq> []"
proof -
  have "[] \<notin> set (fst (candidate_order hc s cat)) \<and> snd (candidate_order hc s cat) \<noteq> []"
    by (simp add: candidate_order_def)
  then show "candidate_order hc s cat = (order, source) \<Longrightarrow> ?thesis" by simp
qed

lemma selection_shape:
  assumes "select_provider_and_model_1_1 c snapshot hc local_model skill = Inr selection" and "local_model \<noteq> []"
  shows "selection_keys_ok selection"
proof (cases skill)
  case None
  with assms(1) show ?thesis by (auto simp: select_provider_and_model_1_1_def no_provider_selection_keys)
next
  case (Some s)
  obtain order source where o: "candidate_order hc s (category c) = (order, source)" by fastforce
  from assms(1) Some obtain p where "choose_provider hc s (ready_providers snapshot) order = Inr p"
    and "selection = provider_selection hc c local_model (ready_providers snapshot) s source p"
    by (auto simp: select_provider_and_model_1_1_def Let_def o split: if_splits)
  moreover then have "p \<noteq> []" using chosen_is_candidate candidates_named [OF o] by metis
  ultimately show ?thesis using provider_selection_keys candidates_named [OF o] assms(2) by blast
qed

lemma built_decision:
  assumes "build_decision_1_1 now mission_id i snapshot local_model hc skill = Inr decision"
  obtains selection economy where
    "select_provider_and_model_1_1 (classify_mission i) snapshot hc local_model skill = Inr selection"
    and "decision = decision_payload ''1.1.0'' now mission_id i (classify_mission i) selection economy"
  using assms by (auto simp: build_decision_1_1_def Let_def)

lemma built_decision_shape:
  assumes "build_decision_1_1 now mission_id i snapshot local_model hc skill = Inr decision"
    and "mission_id \<noteq> []" and "local_model \<noteq> []"
  shows "validate_decision_shape decision = Inr ()"
  using assms(1)
proof (rule built_decision)
  fix selection economy
  assume s: "select_provider_and_model_1_1 (classify_mission i) snapshot hc local_model skill = Inr selection"
    and d: "decision = decision_payload ''1.1.0'' now mission_id i (classify_mission i) selection economy"
  have "has_keys decision DECISION_REQUIRED_KEYS" and "only_keys decision DECISION_ALLOWED_KEYS"
    by (simp_all add: d decision_payload_def has_keys_def only_keys_def DECISION_REQUIRED_KEYS_def DECISION_ALLOWED_KEYS_def)
  moreover have "dget decision ''report_type'' = JStr ''hokage_mission_decision''"
    "dget decision ''schema_version'' = JStr DECISION_SCHEMA_VERSION" "dget decision ''mission_id'' = JStr mission_id"
    "dget decision ''selection'' = JObj selection" "nonempty_str (dget decision ''decision_id'')"
    by (simp_all add: d decision_payload_def DECISION_SCHEMA_VERSION_def decision_id_of_def)
  ultimately show ?thesis
    using selection_shape [OF s assms(3)] assms(2) by (simp add: shape_defs selection_keys_ok_def list_all_iff)
qed

end
