(* ===== verification/Charter.thy ===== *)
theory Charter
  imports Mission_Decision
begin

text \<open>
  Mission charters, \<open>tools/hokage_orchestrator/charter.py\<close>: identifiers and exact phrases, the
  skills an intent proposes, the charters of both schemas, and the approval of a charter, which
  writes the decision, the charter and the write-once receipt.
\<close>

section \<open>Identifiers and phrases\<close>

definition charter_id :: "intent \<Rightarrow> pystr" where
  "charter_id i = ''charter-'' @
     take 10 (sha256_hex (py_join ''|'' (in_objective i # in_targets i @ in_constraints i)))"

definition phrase_suffix :: "jdict \<Rightarrow> pystr" where
  "phrase_suffix charter = py_upper (py_after_first (CHR ''-'') (the_str (dget charter ''charter_id'')))"

definition approval_phrase :: "jdict \<Rightarrow> pystr" where
  "approval_phrase charter = ''APROBAR CHARTER-'' @ phrase_suffix charter"

definition rejection_phrase :: "jdict \<Rightarrow> pystr" where
  "rejection_phrase charter = ''RECHAZAR CHARTER-'' @ phrase_suffix charter"

section \<open>Skills\<close>

text \<open>The suggestions of schema 1.0, whose names no registry knows, and the real ones of 1.1.\<close>

definition proposed_skills :: "intent \<Rightarrow> pystr list" where
  "proposed_skills i = dedupe
     ((if in_type i \<in> {''inspect_and_review'', ''validate_project'', ''implement_change''} then [''inspect_public_repo''] else []) @
      (if in_type i \<in> {''validate_project'', ''implement_change''} \<or> ''test_evidence'' \<in> set (in_outputs i)
       then [''run_deterministic_tests''] else []) @
      (if ''local model only'' \<in> set (in_constraints i) then [''invoke_local_model''] else []) @
      (if ''patch_proposal'' \<in> set (in_outputs i) then [''prepare_patch'', ''run_self_review''] else []) @
      (if ''memory_summary'' \<in> set (in_outputs i) then [''write_private_memory''] else []) @
      [''close_mission''])"

definition real_proposed_skills :: "intent \<Rightarrow> pystr list" where
  "real_proposed_skills i = dedupe
     ((if in_type i \<in> {''inspect_and_review'', ''validate_project'', ''implement_change''}
       then [''inspect_python_runtime'', ''inspect_git_status''] else []) @
      (if ''findings'' \<in> set (in_outputs i) \<or> ''patch_proposal'' \<in> set (in_outputs i) \<or>
          in_type i \<in> {''inspect_and_review'', ''validate_project''}
       then [''run_deterministic_audit_checks'', ''invoke_local_model_audit''] else []))"

definition real_allowed_followup_skills :: "intent \<Rightarrow> pystr list" where
  "real_allowed_followup_skills i = dedupe
     (if ''patch_proposal'' \<in> set (in_outputs i) \<or> in_type i = ''implement_change''
      then [''apply_validated_patch'', ''run_post_patch_tests''] else [])"

section \<open>Building a charter\<close>

definition OUT_OF_SCOPE :: "pystr list" where
  "OUT_OF_SCOPE = [''autonomous background execution'', ''arbitrary shell execution'',
     ''unapproved filesystem mutation'', ''unapproved Git writes'', ''unapproved network access'']"

definition APPROVAL_GATES :: "pystr list" where
  "APPROVAL_GATES = [''charter approval'', ''per-action approval before execution'',
     ''separate patch approval before mutation'', ''separate Git approvals for stage, commit and push'']"

definition SUCCESS_CRITERIA :: "pystr list" where
  "SUCCESS_CRITERIA = [''requested outputs are produced'', ''evidence is retained'',
     ''model output is deterministically reviewed'', ''no action exceeds its approved scope'',
     ''Teachback and human closure remain required'']"

definition charter_authority :: json where
  "charter_authority = JObj [(''charter_is_not_permission'', JBool True),
     (''skill_proposals_are_not_permission'', JBool True), (''memory_does_not_authorize_action'', JBool True)]"

definition charter_scope :: "intent \<Rightarrow> json" where
  "charter_scope i = JObj [(''targets'', jstrs (in_targets i)), (''requested_outputs'', jstrs (in_outputs i))]"

text \<open>The two phrases are added last, from the identifier in the charter.\<close>

definition with_phrases :: "jdict \<Rightarrow> jdict" where
  "with_phrases charter =
     (let c = dict_set charter ''approval_phrase'' (JStr (approval_phrase charter))
      in dict_set c ''rejection_phrase'' (JStr (rejection_phrase c)))"

definition build_charter :: "pystr \<Rightarrow> intent \<Rightarrow> pystr \<Rightarrow> jdict" where
  "build_charter now i actor = with_phrases [
     (''schema_version'', JStr ''1.0.0''),
     (''report_type'', JStr ''conversational_mission_charter''),
     (''charter_id'', JStr (charter_id i)),
     (''created_at'', JStr now),
     (''actor'', JStr actor),
     (''objective'', JStr (in_objective i)),
     (''scope'', charter_scope i),
     (''out_of_scope'', jstrs OUT_OF_SCOPE),
     (''constraints'', jstrs (in_constraints i)),
     (''risk_level'', JStr (in_risk i)),
     (''proposed_skills'', jstrs (proposed_skills i)),
     (''approval_gates'', jstrs APPROVAL_GATES),
     (''success_criteria'', jstrs SUCCESS_CRITERIA),
     (''state'', JStr ''proposed''),
     (''authority'', charter_authority)]"

definition charter_1_1 :: "pystr \<Rightarrow> intent \<Rightarrow> jdict \<Rightarrow> pystr \<Rightarrow> jdict \<Rightarrow> pystr list \<Rightarrow> jdict" where
  "charter_1_1 now i decision actor human_constraints forbidden = with_phrases [
     (''schema_version'', JStr ''1.1.0''),
     (''report_type'', JStr ''conversational_mission_charter''),
     (''charter_id'', JStr (charter_id i)),
     (''mission_id'', dget decision ''mission_id''),
     (''state'', JStr ''proposed''),
     (''human_constraints'', JObj human_constraints),
     (''proposed_skills'', jstrs (real_proposed_skills i)),
     (''forbidden_skills'', jstrs forbidden),
     (''allowed_followup_skills'', jstrs (real_allowed_followup_skills i)),
     (''memory_write_allowed'', JBool (\<not> the_bool (dget human_constraints ''private_context_restricted''))),
     (''decision_id'', dget decision ''decision_id''),
     (''decision_digest'', JStr (canonical_digest decision)),
     (''created_at'', JStr now),
     (''actor'', JStr actor),
     (''objective'', JStr (in_objective i)),
     (''scope'', charter_scope i),
     (''out_of_scope'', jstrs OUT_OF_SCOPE),
     (''constraints'', jstrs (in_constraints i)),
     (''risk_level'', JStr (in_risk i)),
     (''approval_gates'', jstrs APPROVAL_GATES),
     (''success_criteria'', jstrs SUCCESS_CRITERIA),
     (''authority'', charter_authority)]"

text \<open>The subscriptions \<open>decision["mission_id"]\<close>, \<open>decision["decision_id"]\<close> and
  \<open>human_constraints["private_context_restricted"]\<close> raise on a missing key; the result is returned
  only when the construction check accepts it.\<close>

definition build_charter_1_1 ::
  "pystr \<Rightarrow> intent \<Rightarrow> jdict \<Rightarrow> pystr \<Rightarrow> jdict \<Rightarrow> pystr list \<Rightarrow> qexn + jdict" where
  "build_charter_1_1 now i decision actor human_constraints forbidden =
     (if dict_get decision ''mission_id'' = None \<or> dict_get decision ''decision_id'' = None \<or>
         dict_get human_constraints ''private_context_restricted'' = None then Inl (Raised KeyError)
      else let charter = charter_1_1 now i decision actor human_constraints forbidden in
        py_bind (validate_charter_construction charter decision) (\<lambda>_. Inr charter))"

section \<open>Approval\<close>

text \<open>The clock, and how the two replacing writes and the exclusive create go.\<close>

record approval_env =
  approval_time :: pystr
  decision_written :: bool
  charter_written :: bool
  receipt_written :: publish_env

text \<open>The phrase and the approver as typed: any value, of which only a string can pass.\<close>

definition stripped :: "json \<Rightarrow> json" where
  "stripped v = (case v of JStr s \<Rightarrow> JStr (py_strip s) | _ \<Rightarrow> JNull)"

definition approver :: "json \<Rightarrow> pystr" where
  "approver v = (case v of JStr s \<Rightarrow> py_strip s | _ \<Rightarrow> [])"

definition approved_charter :: "jdict \<Rightarrow> pystr \<Rightarrow> pystr \<Rightarrow> jdict" where
  "approved_charter charter now by =
     dict_set (dict_set (dict_set charter ''state'' (JStr ''approved'')) ''approved_at'' (JStr now)) ''approved_by'' (JStr by)"

definition approve_guards :: "jdict \<Rightarrow> json \<Rightarrow> json \<Rightarrow> (bool \<times> code) list" where
  "approve_guards charter phrase approved_by =
     [(stripped phrase = dget charter ''approval_phrase'', approval_binding_mismatch),
      (approver approved_by \<noteq> [], approval_binding_mismatch),
      (dget charter ''schema_version'' = JStr ''1.1.0'', charter_schema_migration_required),
      (dget charter ''state'' = JStr ''proposed'', charter_binding_mismatch)]"

definition approve_charter_1_1 ::
  "approval_env \<Rightarrow> authority_files \<Rightarrow> jdict \<Rightarrow> jdict \<Rightarrow> json \<Rightarrow> json \<Rightarrow> (qexn + jdict) \<times> authority_files" where
  "approve_charter_1_1 env files charter decision phrase approved_by =
     (case py_bind (checks (approve_guards charter phrase approved_by)) (\<lambda>_.
           py_bind (validate_charter_construction charter decision) (\<lambda>_.
           require (receipt_file files = Missing) authority_receipt_invalid)) of
        Inl e \<Rightarrow> (Inl e, files)
      | Inr _ \<Rightarrow>
         (let approved = approved_charter charter (approval_time env) (approver approved_by);
              files1 = files\<lparr>decision_file := Holds (JObj (sorted_dict decision))\<rparr>;
              files2 = files1\<lparr>charter_file := Holds (JObj (sorted_dict approved))\<rparr> in
          if \<not> decision_written env then (Inl OsRaised, files)
          else if \<not> charter_written env then (Inl OsRaised, files1)
          else case write_authority_receipt (receipt_written env) (receipt_file files) (the_str (dget approved ''mission_id''))
                      approved decision (approval_time env) (the_str (stripped phrase)) of
                 (result, cell) \<Rightarrow> (py_bind result (\<lambda>_. Inr approved), files2\<lparr>receipt_file := cell\<rparr>)))"

section \<open>Reading a built charter\<close>

lemma phrases_of_set [simp]:
  "k \<noteq> ''charter_id'' \<Longrightarrow> approval_phrase (dict_set c k v) = approval_phrase c"
  "k \<noteq> ''charter_id'' \<Longrightarrow> rejection_phrase (dict_set c k v) = rejection_phrase c"
  by (simp_all add: approval_phrase_def rejection_phrase_def phrase_suffix_def)

lemma dget_with_phrases:
  "dget (with_phrases c) k = (if k = ''rejection_phrase'' then JStr (rejection_phrase c)
     else if k = ''approval_phrase'' then JStr (approval_phrase c) else dget c k)"
  by (simp add: with_phrases_def Let_def)

lemma only_keys_set [simp]: "only_keys (dict_set d k v) ks \<longleftrightarrow> only_keys d ks \<and> k \<in> set ks"
proof -
  have "only_keys d ks \<longleftrightarrow> fst ` set d \<subseteq> set ks" for d by (auto simp: only_keys_def list_all_iff)
  then show ?thesis by (auto simp: dict_set_def dom_update)
qed

lemma has_keys_set: "has_keys d ks \<Longrightarrow> has_keys (dict_set d k v) ks"
  by (auto simp: has_keys_def list_all_iff)

lemma charter_keys: "only_keys (charter_1_1 now i decision actor hc forbidden) CHARTER_ALLOWED_KEYS"
    "has_keys (charter_1_1 now i decision actor hc forbidden) CHARTER_REQUIRED_KEYS"
  by (simp_all add: charter_1_1_def with_phrases_def Let_def)
    (simp_all add: only_keys_def has_keys_def CHARTER_ALLOWED_KEYS_def CHARTER_REQUIRED_KEYS_def)

lemma charter_fields [simp]:
  "dget (charter_1_1 now i decision actor hc forbidden) ''schema_version'' = JStr ''1.1.0''"
  "dget (charter_1_1 now i decision actor hc forbidden) ''report_type'' = JStr ''conversational_mission_charter''"
  "dget (charter_1_1 now i decision actor hc forbidden) ''charter_id'' = JStr (charter_id i)"
  "dget (charter_1_1 now i decision actor hc forbidden) ''mission_id'' = dget decision ''mission_id''"
  "dget (charter_1_1 now i decision actor hc forbidden) ''state'' = JStr ''proposed''"
  "dget (charter_1_1 now i decision actor hc forbidden) ''human_constraints'' = JObj hc"
  "dget (charter_1_1 now i decision actor hc forbidden) ''proposed_skills'' = jstrs (real_proposed_skills i)"
  "dget (charter_1_1 now i decision actor hc forbidden) ''forbidden_skills'' = jstrs forbidden"
  "dget (charter_1_1 now i decision actor hc forbidden) ''allowed_followup_skills'' = jstrs (real_allowed_followup_skills i)"
  "dget (charter_1_1 now i decision actor hc forbidden) ''memory_write_allowed''
     = JBool (\<not> the_bool (dget hc ''private_context_restricted''))"
  "dget (charter_1_1 now i decision actor hc forbidden) ''decision_id'' = dget decision ''decision_id''"
  "dget (charter_1_1 now i decision actor hc forbidden) ''decision_digest'' = JStr (canonical_digest decision)"
  "dget (charter_1_1 now i decision actor hc forbidden) ''approval_phrase''
     = JStr (''APROBAR CHARTER-'' @ py_upper (py_after_first (CHR ''-'') (charter_id i)))"
  by (simp_all add: charter_1_1_def dget_with_phrases approval_phrase_def phrase_suffix_def)

declare the_strs_jstrs [simp] is_list_jstrs [simp]

lemma distinct_strings [simp]: "distinct (map JStr xs) = distinct xs"
  by (simp add: distinct_map inj_on_def)

lemma charter_id_nonempty [simp]: "charter_id i \<noteq> []"
  by (simp add: charter_id_def)

section \<open>The skills of an intent\<close>

lemma proposed_skills_known:
  "set (real_proposed_skills i) \<subseteq> {''inspect_python_runtime'', ''inspect_git_status'',
     ''run_deterministic_audit_checks'', ''invoke_local_model_audit''}"
  by (auto simp: real_proposed_skills_def set_dedupe py_strip_def py_isspace_def code_point_def)

lemma followup_skills_alt:
  "real_allowed_followup_skills i = (if ''patch_proposal'' \<in> set (in_outputs i) \<or> in_type i = ''implement_change''
     then [''apply_validated_patch'', ''run_post_patch_tests''] else [])"
  by (simp add: real_allowed_followup_skills_def dedupe_def Let_def py_strip_def py_isspace_def code_point_def)

lemma followup_skills_known:
  "set (real_allowed_followup_skills i) \<subseteq> {''apply_validated_patch'', ''run_post_patch_tests''}"
  using followup_skills_alt [of i] by (auto split: if_splits)

lemma distinct_skills [simp]: "distinct (real_proposed_skills i)" "distinct (real_allowed_followup_skills i)"
  by (simp_all add: real_proposed_skills_def real_allowed_followup_skills_def)

lemma skills_named:
  "\<forall>s \<in> set (real_proposed_skills i) \<union> set (real_allowed_followup_skills i). s \<noteq> [] \<and> dict_get SKILLS s \<noteq> None"
proof -
  have "dict_get SKILLS s \<noteq> None" if "s \<in> {''inspect_python_runtime'', ''inspect_git_status'',
     ''run_deterministic_audit_checks'', ''invoke_local_model_audit'', ''apply_validated_patch'', ''run_post_patch_tests''}" for s
    using that by (auto simp: SKILLS_def)
  with proposed_skills_known [of i] followup_skills_known [of i] show ?thesis by blast
qed

text \<open>The capabilities the charter's skills have when a provider skill is bound to the local provider.\<close>

lemma skill_capabilities:
  "effective_capabilities ''inspect_python_runtime'' None = Inr inert"
  "effective_capabilities ''inspect_git_status'' None = Inr inert"
  "effective_capabilities ''run_deterministic_audit_checks'' None = Inr inert"
  "effective_capabilities ''invoke_local_model_audit'' (Some ''ollama'') = Inr (inert\<lparr>local_transport := True\<rparr>)"
  "effective_capabilities ''apply_validated_patch'' None = Inr (inert\<lparr>mutates_files := True\<rparr>)"
  "effective_capabilities ''run_post_patch_tests'' None = Inr inert"
  by (simp_all add: effective_capabilities_def PROVIDER_SKILL_IDS_def SKILLS_def make_skill_def
      capabilities.truncate_def PROVIDER_CAPABILITIES_def inert_def)

lemma provider_for_charter:
  "provider_for decision ''inspect_python_runtime'' = None" "provider_for decision ''inspect_git_status'' = None"
  "provider_for decision ''run_deterministic_audit_checks'' = None" "provider_for decision ''apply_validated_patch'' = None"
  "provider_for decision ''run_post_patch_tests'' = None"
  "provider_for decision ''invoke_local_model_audit'' = Some (the_str (selected decision ''provider''))"
  by (simp_all add: provider_for_def PROVIDER_SKILL_IDS_def)

lemma charter_skill_capabilities:
  assumes "s \<in> set (real_proposed_skills i) \<union> set (real_allowed_followup_skills i)"
    and "s = ''invoke_local_model_audit'' \<Longrightarrow> selected decision ''provider'' = JStr ''ollama''"
  shows "\<exists>caps. effective_capabilities s (provider_for decision s) = Inr caps \<and> \<not> external_network caps \<and> \<not> private_context caps \<and>
    (mutates_files caps \<longleftrightarrow> s = ''apply_validated_patch'')"
  using subsetD [OF Un_mono [OF proposed_skills_known followup_skills_known] assms(1)] assms(2)
  by (elim UnE insertE emptyE; hypsubst) (simp_all add: skill_capabilities provider_for_charter inert_def)

lemma check_skills_outcome:
  assumes "\<And>s. s \<in> set ss \<Longrightarrow> \<exists>caps. effective_capabilities s (provider_for decision s) = Inr caps \<and>
      \<not> external_network caps \<and> \<not> private_context caps \<and> (mutates_files caps \<longleftrightarrow> s = ''apply_validated_patch'')"
  shows "check_skills charter decision ss =
    (if human_constraint charter ''mutation_forbidden'' \<and> ''apply_validated_patch'' \<in> set ss
     then Inl (Binding capability_constraint_violation) else Inr ())"
  using assms
proof (induction ss)
  case (Cons s ss)
  obtain caps where c: "effective_capabilities s (provider_for decision s) = Inr caps" "\<not> external_network caps"
    "\<not> private_context caps" "mutates_files caps \<longleftrightarrow> s = ''apply_validated_patch''"
    using Cons.prems [of s] by auto
  have "checks (constraint_guards charter caps) =
      (if human_constraint charter ''mutation_forbidden'' \<and> s = ''apply_validated_patch''
       then Inl (Binding capability_constraint_violation) else Inr ())"
    by (simp add: constraint_guards_def checks.simps c(2-4) del: checks_Inr)
  moreover have "check_skills charter decision ss = (if human_constraint charter ''mutation_forbidden'' \<and>
      ''apply_validated_patch'' \<in> set ss then Inl (Binding capability_constraint_violation) else Inr ())"
    using Cons by simp
  ultimately show ?case by (simp add: resolve_capabilities_def c(1) del: checks_Inr)
qed simp

section \<open>The outcome of the construction check\<close>

definition constraints_ok :: "jdict \<Rightarrow> bool" where
  "constraints_ok hc \<longleftrightarrow> dict_keys_eq hc REQUIRED_HUMAN_CONSTRAINT_KEYS \<and>
     list_all (\<lambda>k. is_bool (dget hc k)) REQUIRED_HUMAN_CONSTRAINT_KEYS"

lemma constraints_ok_iff: "validate_human_constraints (JObj hc) = Inr () \<longleftrightarrow> constraints_ok hc"
  by (simp add: validate_human_constraints_def constraints_ok_def)

lemma decision_shape_facts:
  assumes "validate_decision_shape decision = Inr ()"
  shows "nonempty_str (dget decision ''mission_id'')" "nonempty_str (dget decision ''decision_id'')"
    "nonempty_str (selected decision ''provider'')"
  using assms by (simp_all add: shape_defs selected_def SELECTION_REQUIRED_KEYS_def)

lemma built_charter_shape:
  assumes "constraints_ok hc" and "validate_decision_shape decision = Inr ()"
  shows "validate_charter_shape False (charter_1_1 now i decision actor hc []) = Inr ()"
proof -
  have keys: "charter_state_ok False (JStr ''proposed'') = Inr ()"
    by (simp add: charter_state_ok_def in_str_set_def)
  have "list_all nonempty_str (map JStr (real_proposed_skills i))"
    and "list_all nonempty_str (map JStr (real_allowed_followup_skills i))"
    using skills_named [of i] by (auto simp: list_all_iff)
  with assms(1) decision_shape_facts [OF assms(2)] show ?thesis
    by (simp add: validate_charter_shape_def keys envelope_def strings_present_def validate_skill_list_def charter_keys
        CHARTER_SCHEMA_VERSION_def constraints_ok_def list_all_iff)
qed

lemma built_charter_registration: "validate_charter_skill_registration (charter_1_1 now i decision actor hc []) = Inr ()"
  using skills_named [of i] by (auto simp: validate_charter_skill_registration_def list_all_iff)

lemma patch_in_skills:
  "''apply_validated_patch'' \<in> set (real_proposed_skills i @ real_allowed_followup_skills i) \<longleftrightarrow> real_allowed_followup_skills i \<noteq> []"
  using proposed_skills_known [of i] followup_skills_alt [of i] by auto

lemma construction_outcome:
  assumes hc: "constraints_ok hc" and d: "validate_decision_shape decision = Inr ()"
    and a: "''invoke_local_model_audit'' \<in> set (real_proposed_skills i) \<Longrightarrow> selected decision ''provider'' = JStr ''ollama''"
    and l: "the_str (selected decision ''provider'') \<notin> {''codex'', ''claude''}"
  shows "validate_charter_construction (charter_1_1 now i decision actor hc []) decision =
    (if the_bool (dget hc ''mutation_forbidden'') \<and> real_allowed_followup_skills i \<noteq> []
     then Inl (Binding capability_constraint_violation) else Inr ())"
proof -
  let ?c = "charter_1_1 now i decision actor hc []"
  let ?ss = "sort (remdups (real_proposed_skills i @ real_allowed_followup_skills i))"
  have "checks
       [(dget ?c ''mission_id'' = dget decision ''mission_id'', mission_binding_mismatch),
        (dget ?c ''decision_id'' = dget decision ''decision_id'', decision_binding_mismatch),
        (dget ?c ''decision_digest'' = JStr (canonical_digest decision), decision_binding_mismatch),
        local_guard ?c decision,
        (the_bool (dget ?c ''memory_write_allowed'') = (\<not> human_constraint ?c ''private_context_restricted''),
         capability_constraint_violation)] = Inr ()"
    using l by (simp add: local_guard_def human_constraint_def)
  moreover have "check_skills ?c decision ?ss =
      (if human_constraint ?c ''mutation_forbidden'' \<and> ''apply_validated_patch'' \<in> set ?ss
       then Inl (Binding capability_constraint_violation) else Inr ())"
  proof (rule check_skills_outcome, rule charter_skill_capabilities [where i = i])
    fix s assume "s \<in> set ?ss"
    then show "s \<in> set (real_proposed_skills i) \<union> set (real_allowed_followup_skills i)" by simp
    assume "s = ''invoke_local_model_audit''"
    with \<open>s \<in> set ?ss\<close> have "''invoke_local_model_audit'' \<in> set (real_proposed_skills i)"
      using followup_skills_known [of i] by auto
    then show "selected decision ''provider'' = JStr ''ollama''" by (rule a)
  qed
  moreover have "''apply_validated_patch'' \<in> set ?ss \<longleftrightarrow> real_allowed_followup_skills i \<noteq> []"
    using patch_in_skills [of i] by simp
  ultimately show ?thesis
    by (simp add: validate_charter_construction_def built_charter_shape [OF hc d] d built_charter_registration
        human_constraint_def del: checks_Inr)
qed

section \<open>What an approval does\<close>

lemma approve_rejects:
  "receipt_file files \<noteq> Missing \<Longrightarrow>
     \<exists>e. approve_charter_1_1 env files charter decision phrase by = (Inl e, files)"
  by (cases "checks (approve_guards charter phrase by)"; cases "validate_charter_construction charter decision")
    (simp_all add: approve_charter_1_1_def require_def del: checks_Inr)

lemma approved_fields [simp]:
  "dget (approved_charter charter now by) k = (if k = ''approved_by'' then JStr by else if k = ''approved_at'' then JStr now
     else if k = ''state'' then JStr ''approved'' else dget charter k)"
  by (simp add: approved_charter_def)

lemma approved_shape:
  assumes "validate_charter_shape False charter = Inr ()"
  shows "validate_charter_shape True (approved_charter charter now by) = Inr ()"
proof -
  have "has_keys (approved_charter charter now by) CHARTER_REQUIRED_KEYS" if "has_keys charter CHARTER_REQUIRED_KEYS"
    using that by (simp add: approved_charter_def has_keys_set)
  moreover have "only_keys (approved_charter charter now by) CHARTER_ALLOWED_KEYS" if "only_keys charter CHARTER_ALLOWED_KEYS"
    using that by (simp add: approved_charter_def) (simp add: CHARTER_ALLOWED_KEYS_def CHARTER_REQUIRED_KEYS_def)
  ultimately show ?thesis using assms
    by (auto simp: validate_charter_shape_def envelope_def strings_present_def validate_skill_list_def charter_state_ok_def)
qed

lemma approved_registration:
  "validate_charter_skill_registration (approved_charter charter now by) = validate_charter_skill_registration charter"
  by (simp add: validate_charter_skill_registration_def)

lemma construction_facts:
  assumes "validate_charter_construction charter decision = Inr ()"
  shows "validate_charter_shape False charter = Inr ()" "validate_decision_shape decision = Inr ()"
    "validate_charter_skill_registration charter = Inr ()"
    "dget charter ''mission_id'' = dget decision ''mission_id''" "dget charter ''decision_id'' = dget decision ''decision_id''"
    "dget charter ''decision_digest'' = JStr (canonical_digest decision)"
  using assms by (auto simp: validate_charter_construction_def)

text \<open>All of the guards pass and every write succeeds.\<close>

definition all_written :: "approval_env \<Rightarrow> bool" where
  "all_written env \<longleftrightarrow> decision_written env \<and> charter_written env \<and> receipt_written env = Publishes \<and> approval_time env \<noteq> []"

lemma receipt_written:
  assumes "validate_charter_shape True charter = Inr ()" and "validate_decision_shape decision = Inr ()"
    and "checks (receipt_guards m charter decision at phrase) = Inr ()"
  shows "write_authority_receipt Publishes Missing m charter decision at phrase
    = (Inr (receipt_payload m charter decision at phrase), Holds (JObj (sorted_dict (receipt_payload m charter decision at phrase))))"
proof -
  from assms have "m \<noteq> []" "at \<noteq> []" by (simp_all add: receipt_guards_def)
  moreover from assms(1,2) have "nonempty_str (dget charter ''charter_id'')" "nonempty_str (dget decision ''decision_id'')"
    by (simp_all add: shape_defs)
  ultimately have "validate_receipt_shape (receipt_payload m charter decision at phrase) = Inr ()"
    by (intro receipt_payload_shape)
  with assms show ?thesis by (simp add: write_authority_receipt_def publish_once_def del: checks_Inr)
qed

lemma approve_accepts:
  assumes g: "checks (approve_guards charter phrase by) = Inr ()"
    and c: "validate_charter_construction charter decision = Inr ()"
    and r: "receipt_file files = Missing" and w: "all_written env"
    and m: "dget charter ''mission_id'' = JStr (dir_name files)"
  shows "\<exists>approved files'. approve_charter_1_1 env files charter decision phrase by = (Inr approved, files') \<and>
    approved = approved_charter charter (approval_time env) (approver by) \<and> dir_name files' = dir_name files \<and>
    load_authoritative_state files' = Inr (sorted_dict approved, sorted_dict decision)"
proof -
  let ?a = "approved_charter charter (approval_time env) (approver by)"
  let ?p = "the_str (stripped phrase)"
  let ?w = "write_authority_receipt Publishes Missing (dir_name files) ?a decision (approval_time env) ?p"
  note f = construction_facts [OF c]
  have shape: "validate_charter_shape True ?a = Inr ()" by (rule approved_shape [OF f(1)])
  have reg: "validate_charter_skill_registration ?a = Inr ()" using f(3) by (simp add: approved_registration)
  from f(1) have ids: "nonempty_str (dget charter ''mission_id'')" "nonempty_str (dget charter ''approval_phrase'')"
    by (simp_all add: shape_defs)
  from g ids(2) have p: "dget charter ''approval_phrase'' = JStr ?p" "?p \<noteq> []"
    by (auto simp: approve_guards_def nonempty_str_iff)
  from m ids(1) have "dir_name files \<noteq> []" by simp
  then have guards: "checks (receipt_guards (dir_name files) ?a decision (approval_time env) ?p) = Inr ()"
    using f(4-6) m p w by (simp add: receipt_guards_def all_written_def)
  obtain receipt cell where wr: "?w = (Inr receipt, cell)" using receipt_written [OF shape f(2) guards] by simp
  have "approve_charter_1_1 env files charter decision phrase by = (Inr ?a,
      files\<lparr>decision_file := Holds (JObj (sorted_dict decision)), charter_file := Holds (JObj (sorted_dict ?a)), receipt_file := cell\<rparr>)"
    using w wr by (simp add: approve_charter_1_1_def g c r m all_written_def require_def Let_def del: checks_Inr)
  moreover have "load_authoritative_state (files\<lparr>decision_file := Holds (JObj (sorted_dict decision)),
      charter_file := Holds (JObj (sorted_dict ?a)), receipt_file := cell\<rparr>) = Inr (sorted_dict ?a, sorted_dict decision)"
    using published_state_loads [OF wr reg] by (cases files) (simp add: load_authoritative_state_def)
  ultimately show ?thesis by auto
qed

end
