(* ===== verification/Action_Queue.thy ===== *)
theory Action_Queue
  imports Authority Py_Values
begin

text \<open>
  The mission action queue, class \<open>ActionQueue\<close> of \<open>tools/hokage_orchestrator/skill_runtime.py\<close>:
  one queue file per mission, a write-once execution claim per action, a lease held while an
  action is dispatched.

  \<open>mission_fs\<close> is what the operations read and write: the queue file and the claim of each
  action. Every operation that holds the queue lock is a function from it to a result and a new
  one. What the world decides is an argument: the clock, the authority files as each validation
  finds them, how the publication of a claim goes, whether a lease is free, whether a write
  raises. The queue is replaced atomically, so a write that raises leaves it as it was; a process
  that dies inside a locked section leaves what one of these failing environments leaves, since
  the operating system releases its locks.
\<close>

record mission_fs =
  queue_file :: stored
  claims :: "pystr \<Rightarrow> stored"

definition ACTION_SCHEMA_VERSION :: pystr where "ACTION_SCHEMA_VERSION = ''1.1.0''"
definition CLAIM_SCHEMA_VERSION :: pystr where "CLAIM_SCHEMA_VERSION = ''1.1.0''"
definition CLAIM_REPORT_TYPE :: pystr where "CLAIM_REPORT_TYPE = ''conversational_execution_claim''"

definition CLAIM_REQUIRED_KEYS :: "pystr list" where
  "CLAIM_REQUIRED_KEYS =
     [''schema_version'', ''report_type'', ''mission_id'', ''plan_id'', ''action_id'', ''arguments_hash'',
      ''approved_by'', ''approved_at'', ''claimed_at'']"

definition CLAIM_BINDING_FIELDS :: "pystr list" where
  "CLAIM_BINDING_FIELDS = [''mission_id'', ''plan_id'', ''action_id'', ''arguments_hash'']"

definition interrupted_recovery_phrase :: "pystr \<Rightarrow> pystr" where
  "interrupted_recovery_phrase action_id = ''BLOQUEAR INTERRUMPIDA-'' @ py_upper (py_after_first (CHR ''-'') action_id)"

section \<open>Locks\<close>

text \<open>
  One attempt to take a lock without waiting: granted, refused because another process holds it
  (with whether the deadline has passed by then), or failed. The queue lock retries until the
  deadline; \<open>None\<close> is a loop that has not returned within the attempts given.
\<close>

datatype flock_try = Granted | Busy bool | FlockError

fun queue_lock_enter :: "flock_try list \<Rightarrow> (qexn + unit) option" where
  "queue_lock_enter [] = None"
| "queue_lock_enter (Granted # rest) = Some (Inr ())"
| "queue_lock_enter (Busy expired # rest) =
     (if expired then Some (Inl (Binding action_queue_lock_timeout)) else queue_lock_enter rest)"
| "queue_lock_enter (FlockError # rest) = Some (Inl OsRaised)"

definition lease_is_held :: "flock_try \<Rightarrow> bool" where
  "lease_is_held t \<longleftrightarrow> t \<noteq> Granted"

text \<open>The loop ends once the deadline has passed, whatever the attempts meet.\<close>

lemma queue_lock_returns: "Busy True \<in> set tries \<Longrightarrow> queue_lock_enter tries \<noteq> None"
  by (induction tries rule: queue_lock_enter.induct) auto

section \<open>Execution claims\<close>

text \<open>The shape tests that publication and verification share.\<close>

definition claim_shape :: "jdict \<Rightarrow> (bool \<times> code) list" where
  "claim_shape claim =
     [(dict_keys_eq claim CLAIM_REQUIRED_KEYS, execution_claim_invalid),
      (dget claim ''schema_version'' = JStr CLAIM_SCHEMA_VERSION \<and> dget claim ''report_type'' = JStr CLAIM_REPORT_TYPE,
       execution_claim_invalid)]"

definition agree_on :: "jdict \<Rightarrow> jdict \<Rightarrow> pystr list \<Rightarrow> bool" where
  "agree_on a b ks = list_all (\<lambda>k. py_eq (dget a k) (dget b k)) ks"

definition claim_payload :: "pystr \<Rightarrow> jdict \<Rightarrow> pystr \<Rightarrow> pystr \<Rightarrow> jdict" where
  "claim_payload now action approved_by approved_at = [
     (''schema_version'', JStr CLAIM_SCHEMA_VERSION), (''report_type'', JStr CLAIM_REPORT_TYPE),
     (''mission_id'', dget action ''mission_id''), (''plan_id'', dget action ''plan_id''),
     (''action_id'', dget action ''action_id''), (''arguments_hash'', dget action ''arguments_hash''),
     (''approved_by'', JStr approved_by), (''approved_at'', JStr approved_at), (''claimed_at'', JStr now)]"

text \<open>Called on a validated action, which has the four fields; an existing claim never lets the
  approval continue.\<close>

definition publish_execution_claim ::
  "publish_env \<Rightarrow> pystr \<Rightarrow> stored \<Rightarrow> jdict \<Rightarrow> pystr \<Rightarrow> pystr \<Rightarrow> (qexn + jdict) \<times> stored" where
  "publish_execution_claim env now cell action approved_by approved_at =
     (let payload = claim_payload now action approved_by approved_at in
      case publish_once env cell payload [] execution_claim_invalid of
        (result, cell') \<Rightarrow>
          (py_bind result (\<lambda>(published, created).
           py_bind (checks (claim_shape published @
             [(agree_on published payload CLAIM_BINDING_FIELDS, execution_claim_binding_mismatch),
              (created, execution_already_claimed)])) (\<lambda>_.
           Inr published)), cell'))"

definition verify_execution_claim :: "stored \<Rightarrow> jdict \<Rightarrow> qexn + jdict" where
  "verify_execution_claim cell action =
     (if cell = Missing then Inl (Binding execution_claim_missing)
      else py_bind (read_authoritative_json execution_claim_invalid cell) (\<lambda>claim.
           py_bind (checks (claim_shape claim @
             [(agree_on claim action CLAIM_BINDING_FIELDS, execution_claim_binding_mismatch),
              (is_dict (dget action ''evidence'') \<longrightarrow>
                 agree_on claim (the_obj (dget action ''evidence'')) [''approved_by'', ''approved_at'', ''arguments_hash''],
               execution_claim_binding_mismatch)])) (\<lambda>_.
           Inr claim)))"

section \<open>Building an action\<close>

definition dict_update :: "jdict \<Rightarrow> jdict \<Rightarrow> jdict" where
  "dict_update d kvs = foldl (\<lambda>acc (k, v). dict_set acc k v) d kvs"

definition binding_arguments :: "pystr \<Rightarrow> pystr \<Rightarrow> pystr \<Rightarrow> jdict \<Rightarrow> jdict \<Rightarrow> jdict" where
  "binding_arguments plan_id skill_id tier charter decision = [
     (''skill_id'', JStr skill_id), (''tier'', JStr tier), (''plan_id'', JStr plan_id),
     (''charter_id'', dget charter ''charter_id''), (''charter_digest'', JStr (canonical_digest charter)),
     (''decision_id'', dget decision ''decision_id''), (''decision_digest'', JStr (canonical_digest decision))]"

definition provider_arguments :: "jdict \<Rightarrow> capabilities \<Rightarrow> jdict" where
  "provider_arguments decision caps = [
     (''provider'', selected decision ''provider''), (''model'', selected decision ''model''),
     (''strategy'', selected decision ''strategy''), (''selection_source'', selected decision ''selection_source''),
     (''external_network'', JBool (external_network caps)), (''local_transport'', JBool (local_transport caps))]"

definition action_of :: "pystr \<Rightarrow> pystr \<Rightarrow> pystr \<Rightarrow> pystr \<Rightarrow> pystr \<Rightarrow> skill \<Rightarrow> jdict \<Rightarrow> jdict" where
  "action_of now mission_id plan_id skill_id tier s arguments =
     (let args_hash = compute_arguments_hash arguments;
          action_id = compute_action_id mission_id skill_id args_hash;
          suffix = py_upper (py_after_first (CHR ''-'') action_id)
      in [
        (''schema_version'', JStr ACTION_SCHEMA_VERSION), (''report_type'', JStr ''conversational_action_proposal''),
        (''action_id'', JStr action_id), (''mission_id'', JStr mission_id), (''plan_id'', JStr plan_id),
        (''skill_id'', JStr skill_id), (''tier'', JStr tier), (''title'', JStr (sk_title s)),
        (''description'', JStr (sk_description s)), (''arguments'', JObj arguments),
        (''arguments_hash'', JStr args_hash), (''risk_level'', JStr (risk_level s)), (''status'', JStr ''proposed''),
        (''approval_phrase'', JStr (''APROBAR ACCION-'' @ suffix)),
        (''rejection_phrase'', JStr (''RECHAZAR ACCION-'' @ suffix)),
        (''created_at'', JStr now), (''authority'', proposal_authority)])"

text \<open>The charter and the decision have passed their shape checks; \<open>extra\<close> is
  \<open>dict(extra_arguments or {})\<close>.\<close>

definition build_action ::
  "pystr \<Rightarrow> pystr \<Rightarrow> pystr \<Rightarrow> pystr \<Rightarrow> pystr \<Rightarrow> jdict \<Rightarrow> jdict \<Rightarrow> jdict \<Rightarrow> jdict py" where
  "build_action now mission_id plan_id skill_id tier charter decision extra =
     (case dict_get SKILLS skill_id of
        None \<Rightarrow> Inl KeyError
      | Some s \<Rightarrow>
         (let arguments = dict_update extra (binding_arguments plan_id skill_id tier charter decision) in
          py_bind
            (if skill_id \<in> set PROVIDER_SKILL_IDS then
               py_bind (effective_capabilities skill_id (Some (the_str (selected decision ''provider'')))) (\<lambda>caps.
               Inr (dict_update arguments (provider_arguments decision caps)))
             else Inr arguments)
            (\<lambda>bound. Inr (action_of now mission_id plan_id skill_id tier s bound))))"

section \<open>Reading and writing the queue\<close>

definition empty_queue :: json where
  "empty_queue = JObj [
     (''schema_version'', JStr ACTION_SCHEMA_VERSION), (''report_type'', JStr ''conversational_action_queue''),
     (''actions'', JList []), (''authority'', JObj [(''action_proposals_are_not_permission'', JBool True)])]"

definition load_queue :: "stored \<Rightarrow> qexn + json" where
  "load_queue f = (case f of
     Missing \<Rightarrow> Inr empty_queue
   | OsFailure \<Rightarrow> Inl OsRaised
   | NotText \<Rightarrow> Inl (Raised ValueError)
   | NotJsonText \<Rightarrow> Inl (Raised JSONDecodeError)
   | DeepText \<Rightarrow> Inl (Raised RecursionError)
   | Holds v \<Rightarrow> Inr v)"

text \<open>\<open>v.get\<close> of a value that is no dictionary is an \<open>AttributeError\<close>.\<close>

definition as_dict :: "json \<Rightarrow> qexn + jdict" where
  "as_dict v = (case v of JObj d \<Rightarrow> Inr d | _ \<Rightarrow> Inl (Raised OtherError))"

text \<open>\<open>d.get(k) or {}\<close>, of which \<open>.get\<close> is then called, and \<open>action.get("evidence", {}).get("result") or {}\<close>.\<close>

definition get_or_empty :: "jdict \<Rightarrow> pystr \<Rightarrow> qexn + jdict" where
  "get_or_empty d k = (if truthy (dget d k) then as_dict (dget d k) else Inr [])"

definition action_result :: "jdict \<Rightarrow> qexn + jdict" where
  "action_result action =
     py_bind (if dict_get action ''evidence'' = None then Inr [] else as_dict (dget action ''evidence'')) (\<lambda>evidence.
     get_or_empty evidence ''result'')"

definition require_current_schema :: "json \<Rightarrow> qexn + jdict" where
  "require_current_schema payload =
     py_bind (as_dict payload) (\<lambda>d.
     if dget d ''schema_version'' = JStr ACTION_SCHEMA_VERSION then Inr d
     else Inl (Binding charter_schema_migration_required))"

text \<open>\<open>for x in v\<close>.\<close>

definition iterate :: "json \<Rightarrow> qexn + json list" where
  "iterate v = (case v of
     JList xs \<Rightarrow> Inr xs
   | JStr s \<Rightarrow> Inr (map (\<lambda>c. JStr [c]) s)
   | JObj d \<Rightarrow> Inr (map (\<lambda>p. JStr (fst p)) d)
   | _ \<Rightarrow> Inl (Raised TypeError))"

definition queue_actions :: "jdict \<Rightarrow> qexn + json list" where
  "queue_actions payload = (case dict_get payload ''actions'' of None \<Rightarrow> Inr [] | Some v \<Rightarrow> iterate v)"

fun find_from :: "nat \<Rightarrow> json list \<Rightarrow> pystr \<Rightarrow> qexn + nat \<times> jdict" where
  "find_from n [] action_id = Inl (Raised KeyError)"
| "find_from n (v # rest) action_id =
     py_bind (as_dict v) (\<lambda>action.
     if dget action ''action_id'' = JStr action_id then Inr (n, action) else find_from (Suc n) rest action_id)"

text \<open>The action and its place in the list, where the source mutates it.\<close>

definition find_locked :: "jdict \<Rightarrow> pystr \<Rightarrow> qexn + nat \<times> jdict" where
  "find_locked payload action_id = py_bind (queue_actions payload) (\<lambda>xs. find_from 0 xs action_id)"

definition put_action :: "jdict \<Rightarrow> nat \<Rightarrow> jdict \<Rightarrow> jdict" where
  "put_action payload i action =
     dict_set payload ''actions'' (JList ((the_list (dget payload ''actions''))[i := JObj action]))"

fun next_proposed :: "json list \<Rightarrow> qexn + jdict option" where
  "next_proposed [] = Inr None"
| "next_proposed (v # rest) =
     py_bind (as_dict v) (\<lambda>action.
     if dget action ''status'' = JStr ''proposed'' then Inr (Some action) else next_proposed rest)"

definition next_pending :: "mission_fs \<Rightarrow> qexn + jdict option" where
  "next_pending fs =
     py_bind (load_queue (queue_file fs)) (\<lambda>v.
     py_bind (as_dict v) (\<lambda>payload.
     py_bind (queue_actions payload) next_proposed))"

text \<open>Either the temporary file replaces the queue, or an exception leaves the queue as it was.\<close>

datatype write_env = WriteOk | WriteRaises qexn

definition write_locked :: "write_env \<Rightarrow> pystr \<Rightarrow> jdict \<Rightarrow> mission_fs \<Rightarrow> (qexn + jdict) \<times> mission_fs" where
  "write_locked env now payload fs =
     (let payload' = dict_set payload ''updated_at'' (JStr now) in
      case env of
        WriteOk \<Rightarrow> (Inr payload', fs\<lparr>queue_file := Holds (JObj (sorted_dict payload'))\<rparr>)
      | WriteRaises e \<Rightarrow> (Inl e, fs))"

text \<open>The mutated action goes back into the payload, and the payload to the file. An operation that
  returns the action it has stored also has the payload it has written as a result here.\<close>

definition store_action ::
  "write_env \<Rightarrow> pystr \<Rightarrow> jdict \<Rightarrow> nat \<Rightarrow> jdict \<Rightarrow> mission_fs \<Rightarrow> (qexn + jdict \<times> jdict) \<times> mission_fs" where
  "store_action env now payload i action fs =
     (case write_locked env now (put_action payload i action) fs of
        (Inl e, fs') \<Rightarrow> (Inl e, fs')
      | (Inr payload', fs') \<Rightarrow> (Inr (action, payload'), fs'))"

section \<open>Operations under the queue lock\<close>

text \<open>An operation that raises before it has changed anything.\<close>

definition or_raise :: "(qexn + 'a) \<Rightarrow> 's \<Rightarrow> ('a \<Rightarrow> (qexn + 'b) \<times> 's) \<Rightarrow> (qexn + 'b) \<times> 's" where
  "or_raise m fs k = (case m of Inl e \<Rightarrow> (Inl e, fs) | Inr x \<Rightarrow> k x)"

definition raised :: "'a py \<Rightarrow> qexn + 'a" where
  "raised m = (case m of Inl e \<Rightarrow> Inl (Raised e) | Inr x \<Rightarrow> Inr x)"

definition current_queue :: "mission_fs \<Rightarrow> qexn + jdict" where
  "current_queue fs = py_bind (load_queue (queue_file fs)) require_current_schema"

subsection \<open>Restoring\<close>

definition claim_if_running :: "(pystr \<Rightarrow> stored) \<Rightarrow> jdict \<Rightarrow> qexn + unit" where
  "claim_if_running cl action =
     (if dget action ''status'' = JStr ''running'' then
        py_bind (verify_execution_claim (cl (text_of action ''action_id'')) action) (\<lambda>_. Inr ())
      else Inr ())"

text \<open>The \<open>n\<close>-th validation finds the authority files \<open>auth n\<close>.\<close>

fun restore_actions :: "(nat \<Rightarrow> authority_files) \<Rightarrow> (pystr \<Rightarrow> stored) \<Rightarrow> nat \<Rightarrow> json list \<Rightarrow> qexn + unit" where
  "restore_actions auth cl n [] = Inr ()"
| "restore_actions auth cl n (v # rest) =
     (case v of
        JObj action \<Rightarrow>
          py_bind (validate_action_authority (auth n) action Restore) (\<lambda>_.
          py_bind (claim_if_running cl action) (\<lambda>_.
          restore_actions auth cl (Suc n) rest))
      | _ \<Rightarrow> Inl (Binding arguments_hash_mismatch))"

definition restore :: "(nat \<Rightarrow> authority_files) \<Rightarrow> mission_fs \<Rightarrow> qexn + jdict" where
  "restore auth fs =
     py_bind (current_queue fs) (\<lambda>payload.
     py_bind (queue_actions payload) (\<lambda>xs.
     py_bind (restore_actions auth (claims fs) 0 xs) (\<lambda>_.
     Inr payload)))"

subsection \<open>Initializing and appending\<close>

fun build_all :: "(nat \<Rightarrow> pystr) \<Rightarrow> nat \<Rightarrow> pystr \<Rightarrow> pystr \<Rightarrow> jdict \<Rightarrow> jdict \<Rightarrow> pystr list \<Rightarrow> jdict list py" where
  "build_all clock n mission_id plan_id charter decision [] = Inr []"
| "build_all clock n mission_id plan_id charter decision (skill_id # rest) =
     py_bind (build_action (clock n) mission_id plan_id skill_id ''initial'' charter decision []) (\<lambda>action.
     py_bind (build_all clock (Suc n) mission_id plan_id charter decision rest) (\<lambda>actions.
     Inr (action # actions)))"

fun validate_all :: "(nat \<Rightarrow> authority_files) \<Rightarrow> nat \<Rightarrow> jdict list \<Rightarrow> qexn + unit" where
  "validate_all auth n [] = Inr ()"
| "validate_all auth n (action # rest) =
     py_bind (validate_action_authority (auth n) action QueueInit) (\<lambda>_. validate_all auth (Suc n) rest)"

definition initial_queue :: "pystr \<Rightarrow> pystr \<Rightarrow> jdict list \<Rightarrow> jdict" where
  "initial_queue mission_id plan_id actions = [
     (''schema_version'', JStr ACTION_SCHEMA_VERSION), (''report_type'', JStr ''conversational_action_queue''),
     (''mission_id'', JStr mission_id), (''plan_id'', JStr plan_id), (''actions'', JList (map JObj actions)),
     (''authority'', JObj [(''action_proposals_are_not_permission'', JBool True),
        (''approval_is_bound_to_arguments_hash'', JBool True)])]"

definition initialize ::
  "(nat \<Rightarrow> pystr) \<Rightarrow> (nat \<Rightarrow> authority_files) \<Rightarrow> write_env \<Rightarrow> mission_fs \<Rightarrow> pystr \<Rightarrow> pystr \<Rightarrow>
   (qexn + jdict) \<times> mission_fs" where
  "initialize clock auth env fs mission_id plan_id =
     (if queue_file fs \<noteq> Missing then (restore auth fs, fs)
      else
        or_raise (load_authoritative_state (auth 0)) fs (\<lambda>(charter, decision).
        or_raise (require (dget charter ''mission_id'' = JStr mission_id) mission_binding_mismatch) fs (\<lambda>_.
        or_raise (raised (build_all clock 0 mission_id plan_id charter decision
                   (the_strs (dget charter ''proposed_skills'')))) fs (\<lambda>actions.
        or_raise (validate_all auth 1 actions) fs (\<lambda>_.
        write_locked env (clock (length actions)) (initial_queue mission_id plan_id actions) fs)))))"

text \<open>The action that the queue already has under the candidate's identifier.\<close>

fun find_existing :: "json list \<Rightarrow> jdict \<Rightarrow> qexn + jdict option" where
  "find_existing [] candidate = Inr None"
| "find_existing (v # rest) candidate =
     py_bind (as_dict v) (\<lambda>existing.
     if \<not> py_eq (dget existing ''action_id'') (dget candidate ''action_id'') then find_existing rest candidate
     else if agree_on existing candidate
               [''arguments_hash'', ''arguments'', ''mission_id'', ''plan_id'', ''skill_id'', ''tier'']
          then Inr (Some existing) else Inl (Binding arguments_hash_mismatch))"

definition append_to_queue :: "jdict \<Rightarrow> jdict \<Rightarrow> jdict" where
  "append_to_queue payload candidate =
     dict_set payload ''actions'' (JList (the_list (dget payload ''actions'') @ [JObj candidate]))"

text \<open>\<open>payload.setdefault("actions", []).append\<close> fails on a value that is no list; an iteration over
  one that is empty (a string, an object) has not raised before.\<close>

definition append_action_checked ::
  "(nat \<Rightarrow> pystr) \<Rightarrow> (nat \<Rightarrow> authority_files) \<Rightarrow> write_env \<Rightarrow> mission_fs \<Rightarrow> pystr \<Rightarrow> pystr \<Rightarrow> pystr \<Rightarrow> jdict \<Rightarrow>
   (qexn + jdict) \<times> mission_fs" where
  "append_action_checked clock auth env fs mission_id plan_id skill_id extra =
     or_raise (current_queue fs) fs (\<lambda>payload.
     or_raise (require (dget payload ''mission_id'' = JStr mission_id) mission_binding_mismatch) fs (\<lambda>_.
     or_raise (load_authoritative_state (auth 0)) fs (\<lambda>(charter, decision).
     or_raise (raised (build_action (clock 0) mission_id plan_id skill_id ''followup'' charter decision extra)) fs (\<lambda>candidate.
     or_raise (py_bind (queue_actions payload) (\<lambda>xs. find_existing xs candidate)) fs (\<lambda>found.
     case found of
       Some existing \<Rightarrow>
         or_raise (validate_action_authority (auth 1) existing Restore) fs (\<lambda>_. (Inr existing, fs))
     | None \<Rightarrow>
         or_raise (validate_action_authority (auth 1) candidate FollowupAppend) fs (\<lambda>_.
         if dict_get payload ''actions'' \<noteq> None \<and> \<not> is_list (dget payload ''actions'') then (Inl (Raised OtherError), fs)
         else case write_locked env (clock 1) (append_to_queue payload candidate) fs of
                (Inl e, fs') \<Rightarrow> (Inl e, fs')
              | (Inr _, fs') \<Rightarrow> (Inr candidate, fs')))))))"

subsection \<open>Transitions\<close>

definition transition_guards :: "(pystr \<Rightarrow> stored) \<Rightarrow> jdict \<Rightarrow> pystr \<Rightarrow> json \<Rightarrow> qexn + unit" where
  "transition_guards cl action expected_status expected_hash =
     py_bind (checks
       [(dget action ''status'' = JStr expected_status, approval_binding_mismatch),
        (py_eq (dget action ''arguments_hash'') expected_hash, arguments_hash_mismatch)]) (\<lambda>_.
     py_bind (verify_execution_claim (cl (text_of action ''action_id'')) action) (\<lambda>_. Inr ()))"

definition transition_locked ::
  "(nat \<Rightarrow> pystr) \<Rightarrow> write_env \<Rightarrow> mission_fs \<Rightarrow> jdict \<Rightarrow> pystr \<Rightarrow> pystr \<Rightarrow> json \<Rightarrow> pystr \<Rightarrow> jdict \<Rightarrow>
   (qexn + jdict \<times> jdict) \<times> mission_fs" where
  "transition_locked clock env fs payload action_id expected_status expected_hash new_status evidence =
     or_raise (find_locked payload action_id) fs (\<lambda>(i, action).
     or_raise (transition_guards (claims fs) action expected_status expected_hash) fs (\<lambda>_.
     store_action env (clock 1) payload i
       (dict_set (dict_set (dict_set action ''status'' (JStr new_status)) ''updated_at'' (JStr (clock 0)))
          ''evidence'' (JObj evidence)) fs))"

definition mark_blocked_locked ::
  "(nat \<Rightarrow> pystr) \<Rightarrow> authority_files \<Rightarrow> write_env \<Rightarrow> mission_fs \<Rightarrow> jdict \<Rightarrow> pystr \<Rightarrow> pystr \<Rightarrow> json \<Rightarrow> pystr \<Rightarrow>
   (qexn + jdict \<times> jdict) \<times> mission_fs" where
  "mark_blocked_locked clock files env fs payload action_id expected_status expected_hash reason =
     or_raise (find_locked payload action_id) fs (\<lambda>(i, action).
     or_raise (transition_guards (claims fs) action expected_status expected_hash) fs (\<lambda>_.
     or_raise (validate_action_authority files action Restore) fs (\<lambda>_.
     store_action env (clock 1) payload i
       (dict_set (dict_set (dict_set action ''status'' (JStr ''blocked'')) ''updated_at'' (JStr (clock 0)))
          ''blocked_reason'' (JStr reason)) fs)))"

subsection \<open>Approval and dispatch\<close>

datatype lease_env = LeaseFree | LeaseHeld | LeaseOsError

definition acquire_lease :: "lease_env \<Rightarrow> qexn + unit" where
  "acquire_lease l = (case l of LeaseFree \<Rightarrow> Inr () | LeaseHeld \<Rightarrow> Inl (Binding execution_still_active)
     | LeaseOsError \<Rightarrow> Inl OsRaised)"

record approve_env =
  ae_clock :: "nat \<Rightarrow> pystr"
  ae_restore :: authority_files
  ae_publish :: publish_env
  ae_lease :: lease_env
  ae_write :: write_env
  ae_predispatch :: authority_files
  ae_blocked :: authority_files
  ae_block_write :: write_env

definition approval_guards :: "jdict \<Rightarrow> pystr \<Rightarrow> pystr \<Rightarrow> (bool \<times> code) list" where
  "approval_guards proposal phrase approved_by =
     [(dget proposal ''status'' = JStr ''proposed'', approval_binding_mismatch),
      (dget proposal ''approval_phrase'' = JStr (py_strip phrase), approval_binding_mismatch),
      (approved_by \<noteq> [], approval_binding_mismatch)]"

definition approval_evidence :: "pystr \<Rightarrow> pystr \<Rightarrow> json \<Rightarrow> jdict" where
  "approval_evidence approved_by approved_at args_hash =
     [(''approved_by'', JStr approved_by), (''approved_at'', JStr approved_at), (''arguments_hash'', args_hash)]"

text \<open>The check between the transition to \<open>running\<close> and the dispatch; when it raises, the action is
  to be marked blocked, and an exception on the way takes the place of the first one.\<close>

definition dispatch_check ::
  "approve_env \<Rightarrow> mission_fs \<Rightarrow> jdict \<Rightarrow> pystr \<Rightarrow> json \<Rightarrow> jdict \<Rightarrow> (qexn + jdict) \<times> mission_fs" where
  "dispatch_check env fs payload action_id args_hash action =
     (case py_bind (validate_action_authority (ae_predispatch env) action PreDispatch) (\<lambda>_.
           verify_execution_claim (claims fs (text_of action ''action_id'')) action) of
        Inr _ \<Rightarrow> (Inr action, fs)
      | Inl e \<Rightarrow>
         (case mark_blocked_locked (\<lambda>n. ae_clock env (n + 4)) (ae_blocked env) (ae_block_write env) fs payload
                 action_id ''running'' args_hash ''authority or claim check failed after claim and before dispatch'' of
            (Inl e', fs') \<Rightarrow> (Inl e', fs')
          | (Inr _, fs') \<Rightarrow> (Inl e, fs')))"

text \<open>The first locked section of \<open>approve_and_dispatch\<close>: its result is the action that is handed to
  \<open>dispatch\<close>, with the lease held.\<close>

definition approve_section ::
  "approve_env \<Rightarrow> mission_fs \<Rightarrow> pystr \<Rightarrow> pystr \<Rightarrow> pystr \<Rightarrow> (qexn + jdict) \<times> mission_fs" where
  "approve_section env fs action_id phrase approved_by =
     or_raise (current_queue fs) fs (\<lambda>payload.
     or_raise (find_locked payload action_id) fs (\<lambda>(i, proposal).
     or_raise (validate_action_authority (ae_restore env) proposal Restore) fs (\<lambda>_.
     or_raise (checks (approval_guards proposal phrase approved_by)) fs (\<lambda>_.
     case publish_execution_claim (ae_publish env) (ae_clock env 1) (claims fs action_id) proposal
            approved_by (ae_clock env 0) of
       (claimed, cell) \<Rightarrow>
         (let fs1 = fs\<lparr>claims := (claims fs)(action_id := cell)\<rparr>; args_hash = dget proposal ''arguments_hash'' in
          or_raise claimed fs1 (\<lambda>_.
          or_raise (acquire_lease (ae_lease env)) fs1 (\<lambda>_.
          case transition_locked (\<lambda>n. ae_clock env (n + 2)) (ae_write env) fs1 payload action_id ''proposed'' args_hash
                 ''running'' (approval_evidence approved_by (ae_clock env 0) args_hash) of
            (Inl e, fs2) \<Rightarrow> (Inl e, fs2)
          | (Inr (action, payload'), fs2) \<Rightarrow> dispatch_check env fs2 payload' action_id args_hash action)))))))"

text \<open>
  What \<open>dispatch(action)\<close> does: it returns a value, returns one that \<open>json.dumps\<close> cannot write
  (the write of the queue then raises before the file is touched), or raises.
\<close>

datatype dispatched = Returned json | ReturnedUnserializable | DispatchRaised

record lease =
  le_action_id :: pystr
  le_hash :: json
  le_evidence :: jdict

text \<open>The second locked section: the outcome goes into the queue, unless that raises.\<close>

definition finish_section ::
  "(nat \<Rightarrow> pystr) \<Rightarrow> write_env \<Rightarrow> mission_fs \<Rightarrow> lease \<Rightarrow> dispatched \<Rightarrow> (qexn + jdict) \<times> mission_fs" where
  "finish_section clock env fs l outcome =
     or_raise (current_queue fs) fs (\<lambda>payload.
     let (new_status, value, env') =
           (case outcome of
              Returned v \<Rightarrow> (''completed'', v, env)
            | ReturnedUnserializable \<Rightarrow> (''completed'', JNull, WriteRaises (Raised TypeError))
            | DispatchRaised \<Rightarrow> (''failed'', JNull, env))
     in case transition_locked clock env' fs payload (le_action_id l) ''running'' (le_hash l) new_status
               (dict_set (le_evidence l) ''result'' value) of
          (Inl e, fs') \<Rightarrow> (Inl e, fs')
        | (Inr (action, _), fs') \<Rightarrow> (if outcome = DispatchRaised then Inl (Raised OtherError) else Inr action, fs'))"

subsection \<open>Rejection and recovery\<close>

definition reject_action_checked ::
  "(nat \<Rightarrow> pystr) \<Rightarrow> authority_files \<Rightarrow> write_env \<Rightarrow> mission_fs \<Rightarrow> pystr \<Rightarrow> pystr \<Rightarrow> pystr \<Rightarrow>
   (qexn + jdict \<times> jdict) \<times> mission_fs" where
  "reject_action_checked clock files env fs action_id phrase expected_hash =
     or_raise (current_queue fs) fs (\<lambda>payload.
     or_raise (find_locked payload action_id) fs (\<lambda>(i, action).
     or_raise (checks
       [(dget action ''status'' = JStr ''proposed'', approval_binding_mismatch),
        (dget action ''arguments_hash'' = JStr expected_hash, arguments_hash_mismatch)]) fs (\<lambda>_.
     or_raise (if claims fs action_id = Missing then Inr ()
              else py_bind (verify_execution_claim (claims fs action_id) action) (\<lambda>_.
                   Inl (Binding execution_already_claimed))) fs (\<lambda>_.
     or_raise (validate_action_authority files action Restore) fs (\<lambda>_.
     or_raise (require (dget action ''rejection_phrase'' = JStr (py_strip phrase)) approval_binding_mismatch) fs (\<lambda>_.
     store_action env (clock 1) payload i
       (dict_set (dict_set action ''status'' (JStr ''rejected'')) ''updated_at'' (JStr (clock 0))) fs))))))"

datatype recovery_status = normal_pending | interrupted_claimed | active_running | interrupted_running

text \<open>A file under \<open>action_claims\<close> is named after the identifier as \<open>str\<close> shows it.\<close>

definition claim_of :: "mission_fs \<Rightarrow> json \<Rightarrow> stored" where
  "claim_of fs v = claims fs (py_str v)"

definition recovery_of :: "mission_fs \<Rightarrow> (json \<Rightarrow> bool) \<Rightarrow> jdict \<Rightarrow> pystr \<Rightarrow> json \<Rightarrow> qexn + recovery_status" where
  "recovery_of fs held action status action_id =
     (if status = ''proposed'' then
        (if claim_of fs action_id \<noteq> Missing then
           py_bind (verify_execution_claim (claim_of fs action_id) action) (\<lambda>_. Inr interrupted_claimed)
         else Inr normal_pending)
      else if claim_of fs action_id = Missing then Inl (Binding execution_claim_missing)
      else py_bind (verify_execution_claim (claim_of fs action_id) action) (\<lambda>_.
           Inr (if held action_id then active_running else interrupted_running)))"

fun classify :: "mission_fs \<Rightarrow> (json \<Rightarrow> bool) \<Rightarrow> json list \<Rightarrow> qexn + (json \<times> pystr \<times> recovery_status) list" where
  "classify fs held [] = Inr []"
| "classify fs held (v # rest) =
     py_bind (as_dict v) (\<lambda>action.
     py_bind (raised (in_str_set (dget action ''status'') [''proposed'', ''running''])) (\<lambda>open_status.
     if \<not> open_status then classify fs held rest
     else
       py_bind (raised (case dict_get action ''action_id'' of None \<Rightarrow> Inl KeyError | Some w \<Rightarrow> Inr w)) (\<lambda>action_id.
       py_bind (recovery_of fs held action (text_of action ''status'') action_id) (\<lambda>label.
       py_bind (classify fs held rest) (\<lambda>found.
       Inr ((action_id, text_of action ''status'', label) # found))))))"

definition find_recovery_candidates ::
  "mission_fs \<Rightarrow> (json \<Rightarrow> bool) \<Rightarrow> qexn + (json \<times> pystr \<times> recovery_status) list" where
  "find_recovery_candidates fs held =
     py_bind (current_queue fs) (\<lambda>payload.
     py_bind (queue_actions payload) (\<lambda>xs. classify fs held xs))"

definition block_interrupted_action_checked ::
  "(nat \<Rightarrow> pystr) \<Rightarrow> authority_files \<Rightarrow> authority_files \<Rightarrow> lease_env \<Rightarrow> write_env \<Rightarrow> mission_fs \<Rightarrow>
   pystr \<Rightarrow> pystr \<Rightarrow> pystr \<Rightarrow> pystr \<Rightarrow> (qexn + jdict \<times> jdict) \<times> mission_fs" where
  "block_interrupted_action_checked clock files files2 l env fs action_id phrase expected_hash reason =
     or_raise (current_queue fs) fs (\<lambda>payload.
     or_raise (find_locked payload action_id) fs (\<lambda>(i, action).
     or_raise (raised (in_str_set (dget action ''status'') [''proposed'', ''running''])) fs (\<lambda>open_status.
     or_raise (checks
       [(open_status, approval_binding_mismatch),
        (dget action ''arguments_hash'' = JStr expected_hash, arguments_hash_mismatch),
        (py_strip phrase = interrupted_recovery_phrase action_id, approval_binding_mismatch)]) fs (\<lambda>_.
     or_raise (verify_execution_claim (claims fs action_id) action) fs (\<lambda>_.
     or_raise (validate_action_authority files action Restore) fs (\<lambda>_.
     or_raise (acquire_lease l) fs (\<lambda>_.
     or_raise (verify_execution_claim (claims fs action_id) action) fs (\<lambda>_.
     mark_blocked_locked clock files2 env fs payload action_id (text_of action ''status'') (JStr expected_hash) reason))))))))"

section \<open>The abstract queue\<close>

text \<open>
  What the queue promises, without files, locks and authority: a list of actions that only grows,
  each with its identifier, the hash of its arguments and a status that moves along fixed edges.
\<close>

type_synonym abstract_action = "json \<times> json \<times> json"

inductive edge :: "json \<Rightarrow> json \<Rightarrow> bool" where
  claimed: "edge (JStr ''proposed'') (JStr ''running'')"
| completed: "edge (JStr ''running'') (JStr ''completed'')"
| failed: "edge (JStr ''running'') (JStr ''failed'')"
| rejected: "edge (JStr ''proposed'') (JStr ''rejected'')"
| blocked: "edge (JStr ''proposed'') (JStr ''blocked'')"
| interrupted: "edge (JStr ''running'') (JStr ''blocked'')"

inductive spec_step :: "abstract_action list \<Rightarrow> abstract_action list \<Rightarrow> bool" where
  create: "list_all (\<lambda>(a, h, s). s = JStr ''proposed'') ys \<Longrightarrow> spec_step [] ys"
| propose: "spec_step xs (xs @ [(a, h, JStr ''proposed'')])"
| move: "i < length xs \<Longrightarrow> xs ! i = (a, h, s) \<Longrightarrow> edge s t \<Longrightarrow> spec_step xs (xs[i := (a, h, t)])"

definition terminal :: "json \<Rightarrow> bool" where
  "terminal s \<longleftrightarrow> s \<in> {JStr ''completed'', JStr ''failed'', JStr ''rejected'', JStr ''blocked''}"

lemma terminal_no_edge: "terminal s \<Longrightarrow> \<not> edge s t"
  by (auto simp: terminal_def elim: edge.cases)

text \<open>No action disappears or changes its identity, and a terminal status stays.\<close>

definition grows_to :: "abstract_action list \<Rightarrow> abstract_action list \<Rightarrow> bool" where
  "grows_to xs ys \<longleftrightarrow> length xs \<le> length ys \<and>
     (\<forall>i < length xs. fst (ys ! i) = fst (xs ! i) \<and> fst (snd (ys ! i)) = fst (snd (xs ! i)) \<and>
        (terminal (snd (snd (xs ! i))) \<longrightarrow> ys ! i = xs ! i))"

lemma grows_to_refl [simp]: "grows_to xs xs"
  by (simp add: grows_to_def)

lemma grows_to_trans: "grows_to xs ys \<Longrightarrow> grows_to ys zs \<Longrightarrow> grows_to xs zs"
  by (auto simp: grows_to_def)

lemma spec_step_extends: "spec_step xs ys \<Longrightarrow> grows_to xs ys"
proof (induction rule: spec_step.induct)
  case (move i xs a h s t)
  then show ?case using terminal_no_edge [of s t] by (auto simp: grows_to_def nth_list_update)
qed (simp_all add: grows_to_def nth_append)

lemma spec_steps_extend: "spec_step\<^sup>*\<^sup>* xs ys \<Longrightarrow> grows_to xs ys"
  by (induction rule: rtranclp_induct) (auto intro: grows_to_trans spec_step_extends)

definition abs_entry :: "json \<Rightarrow> abstract_action" where
  "abs_entry v = (let d = the_obj v in
     (sorted_json (dget d ''action_id''), sorted_json (dget d ''arguments_hash''), sorted_json (dget d ''status'')))"

definition abs_payload :: "jdict \<Rightarrow> abstract_action list" where
  "abs_payload payload = map abs_entry (the_list (dget payload ''actions''))"

definition abs_queue :: "mission_fs \<Rightarrow> abstract_action list" where
  "abs_queue fs = (case queue_file fs of Holds (JObj payload) \<Rightarrow> abs_payload payload | _ \<Rightarrow> [])"

section \<open>The operations refine the abstract queue\<close>

lemma or_raise_simps [simp]: "or_raise (Inl e) fs k = (Inl e, fs)" "or_raise (Inr x) fs k = k x"
  by (simp_all add: or_raise_def)

lemma or_raise_Inr [simp]: "or_raise m fs k = (Inr y, fs') \<longleftrightarrow> (\<exists>x. m = Inr x \<and> k x = (Inr y, fs'))"
  by (cases m) simp_all

lemma raised_Inr [simp]: "raised m = Inr x \<longleftrightarrow> m = Inr x"
  by (cases m) (simp_all add: raised_def)

lemma abs_entry_sorted [simp]: "abs_entry (sorted_json v) = abs_entry v"
  by (simp add: abs_entry_def Let_def)

lemma abs_payload_sorted [simp]: "abs_payload (sorted_dict p) = abs_payload p"
  by (simp add: abs_payload_def)

lemma abs_payload_stamp [simp]: "abs_payload (dict_set p ''updated_at'' v) = abs_payload p"
  by (simp add: abs_payload_def)

lemma abs_payload_put [simp]: "abs_payload (put_action p i a) = (abs_payload p)[i := abs_entry (JObj a)]"
  by (simp add: abs_payload_def put_action_def map_update)

lemma current_queue_abs: "current_queue fs = Inr payload \<Longrightarrow> abs_queue fs = abs_payload payload"
  by (auto simp: current_queue_def require_current_schema_def load_queue_def as_dict_def abs_queue_def abs_payload_def
      empty_queue_def split: stored.splits json.splits if_splits)

lemma find_from_Inr:
  "find_from n xs action_id = Inr (i, action) \<Longrightarrow>
     n \<le> i \<and> i < n + length xs \<and> xs ! (i - n) = JObj action \<and> dget action ''action_id'' = JStr action_id"
proof (induction xs arbitrary: n)
  case (Cons v xs)
  from Cons.prems obtain d where d: "v = JObj d" by (auto simp: as_dict_def split: json.splits)
  show ?case
  proof (cases "dget d ''action_id'' = JStr action_id")
    case False
    with Cons d have "find_from (Suc n) xs action_id = Inr (i, action)" by (simp add: as_dict_def)
    from Cons.IH [OF this] show ?thesis by (auto simp: nth_Cons')
  qed (use Cons.prems d in \<open>auto simp: as_dict_def\<close>)
qed simp

lemma find_locked_Inr:
  assumes "find_locked payload action_id = Inr (i, action)"
  shows "i < length (the_list (dget payload ''actions''))" "the_list (dget payload ''actions'') ! i = JObj action"
    "dget action ''action_id'' = JStr action_id"
proof -
  from assms obtain xs where xs: "queue_actions payload = Inr xs" and f: "find_from 0 xs action_id = Inr (i, action)"
    by (auto simp: find_locked_def)
  note f' = find_from_Inr [OF f]
  have "JObj action \<in> set xs" using f' by (metis diff_zero nth_mem add_0)
  with xs have "the_list (dget payload ''actions'') = xs"
    by (auto simp: queue_actions_def iterate_def dget_def split: option.splits json.splits)
  with f' show "i < length (the_list (dget payload ''actions''))" "the_list (dget payload ''actions'') ! i = JObj action"
    "dget action ''action_id'' = JStr action_id" by auto
qed

text \<open>What one write of the queue does, and what a section does in the abstract.\<close>

definition refines :: "mission_fs \<Rightarrow> mission_fs \<Rightarrow> bool" where
  "refines fs fs' \<longleftrightarrow> spec_step\<^sup>*\<^sup>* (abs_queue fs) (abs_queue fs') \<and> claims fs' = claims fs"

lemma refines_refl [simp, intro]: "refines fs fs"
  by (simp add: refines_def)

lemma or_raise_refines [intro]:
  assumes "refines fs0 fs" and "\<And>x. m = Inr x \<Longrightarrow> refines fs0 (snd (k x))"
  shows "refines fs0 (snd (or_raise m fs k))"
  using assms by (cases m) auto

lemma write_locked_cases:
  assumes "write_locked env now payload fs = (r, fs')"
  shows "(\<exists>e. r = Inl e \<and> fs' = fs) \<or>
    (\<exists>payload'. r = Inr payload' \<and> payload' = dict_set payload ''updated_at'' (JStr now) \<and>
       fs' = fs\<lparr>queue_file := Holds (JObj (sorted_dict payload'))\<rparr>)"
  using assms by (cases env) (auto simp: write_locked_def Let_def)

lemma abs_queue_written [simp]: "abs_queue (fs\<lparr>queue_file := Holds (JObj p)\<rparr>) = abs_payload p"
  by (simp add: abs_queue_def)

lemma put_moves:
  assumes "find_locked payload action_id = Inr (i, action)" and "edge (dget action ''status'') (JStr t)"
    and "dget action' ''action_id'' = dget action ''action_id''" and "dget action' ''arguments_hash'' = dget action ''arguments_hash''"
    and "dget action' ''status'' = JStr t"
  shows "spec_step (abs_payload payload) (abs_payload (put_action payload i action'))"
proof -
  note f = find_locked_Inr [OF assms(1)]
  from assms(2) have s: "sorted_json (dget action ''status'') = dget action ''status''" by cases simp_all
  have i: "i < length (abs_payload payload)" "abs_payload payload ! i = abs_entry (JObj action)"
    using f by (simp_all add: abs_payload_def)
  from spec_step.move [OF i(1) i(2) [unfolded abs_entry_def Let_def]] assms(2-) s show ?thesis
    by (simp add: abs_entry_def Let_def)
qed

lemma write_put_refines:
  assumes "find_locked payload action_id = Inr (i, action)" and "edge (dget action ''status'') (JStr t)"
    and "dget action' ''action_id'' = dget action ''action_id''" and "dget action' ''arguments_hash'' = dget action ''arguments_hash''"
    and "dget action' ''status'' = JStr t"
    and "abs_queue fs = abs_payload payload"
    and "write_locked env now (put_action payload i action') fs = (r, fs')"
  shows "refines fs fs' \<and> (\<forall>payload'. r = Inr payload' \<longrightarrow> abs_queue fs' = abs_payload payload')"
  using write_locked_cases [OF assms(7)] put_moves [OF assms(1-5)] assms(6)
  by (auto simp: refines_def simp del: abs_payload_put)

lemma refines_trans: "refines a b \<Longrightarrow> refines b c \<Longrightarrow> refines a c"
  by (auto simp: refines_def)

lemma store_action_cases:
  "(\<exists>e. store_action env now payload i action fs = (Inl e, fs)) \<or>
   (\<exists>payload'. payload' = dict_set (put_action payload i action) ''updated_at'' (JStr now) \<and>
      store_action env now payload i action fs = (Inr (action, payload'), fs\<lparr>queue_file := Holds (JObj (sorted_dict payload'))\<rparr>))"
  by (cases env) (simp_all add: store_action_def write_locked_def Let_def)

text \<open>A section that ends by storing an action refines the abstract queue.\<close>

lemma store_refines:
  assumes "find_locked payload action_id = Inr (i, action)" and "edge (dget action ''status'') (JStr t)"
    and "dget action' ''action_id'' = dget action ''action_id''" and "dget action' ''arguments_hash'' = dget action ''arguments_hash''"
    and "dget action' ''status'' = JStr t" and "abs_queue fs = abs_payload payload"
  shows "refines fs (snd (store_action env now payload i action' fs)) \<and>
    (\<forall>a p. fst (store_action env now payload i action' fs) = Inr (a, p) \<longrightarrow>
       abs_queue (snd (store_action env now payload i action' fs)) = abs_payload p)"
  using store_action_cases [of env now payload i action' fs] put_moves [OF assms(1-5)] assms(6)
  by (elim disjE exE conjE) (auto simp: refines_def simp del: abs_payload_put)

lemma transition_guards_status: "transition_guards cl action es h = Inr u \<Longrightarrow> dget action ''status'' = JStr es"
  by (simp add: transition_guards_def)

lemma transition_locked_refines:
  assumes "abs_queue fs = abs_payload payload" and "edge (JStr es) (JStr ns)"
  shows "refines fs (snd (transition_locked clock env fs payload action_id es h ns ev)) \<and>
    (\<forall>a p. fst (transition_locked clock env fs payload action_id es h ns ev) = Inr (a, p) \<longrightarrow>
       abs_queue (snd (transition_locked clock env fs payload action_id es h ns ev)) = abs_payload p)"
proof (cases "find_locked payload action_id")
  case (Inr x)
  obtain i action where x: "x = (i, action)" by force
  show ?thesis
  proof (cases "transition_guards (claims fs) action es h")
    case g: (Inr u)
    from Inr x have f: "find_locked payload action_id = Inr (i, action)" by simp
    show ?thesis
      using store_refines [OF f, where t = ns and fs = fs, OF _ _ _ _ assms(1)] transition_guards_status [OF g] assms(2)
      by (simp add: transition_locked_def f g)
  qed (simp add: transition_locked_def Inr x)
qed (simp add: transition_locked_def)

lemma mark_blocked_refines:
  assumes "abs_queue fs = abs_payload payload" and "edge (JStr es) (JStr ''blocked'')"
  shows "refines fs (snd (mark_blocked_locked clock files env fs payload action_id es h reason))"
  unfolding mark_blocked_locked_def
proof (intro or_raise_refines refines_refl, split prod.split, intro allI impI or_raise_refines refines_refl)
  fix x i action u v
  assume "find_locked payload action_id = Inr x" "x = (i, action)"
    and g: "transition_guards (claims fs) action es h = Inr u"
  then have f: "find_locked payload action_id = Inr (i, action)" by simp
  show "refines fs (snd (store_action env (clock 1) payload i (dict_set (dict_set (dict_set action ''status'' (JStr ''blocked''))
      ''updated_at'' (JStr (clock 0))) ''blocked_reason'' (JStr reason)) fs))"
    by (rule store_refines [OF f, where t = "''blocked''", THEN conjunct1])
      (simp_all add: assms transition_guards_status [OF g])
qed

text \<open>Claims are write-once: whatever a claim file holds, it keeps.\<close>

definition evolves :: "mission_fs \<Rightarrow> mission_fs \<Rightarrow> bool" where
  "evolves fs fs' \<longleftrightarrow> spec_step\<^sup>*\<^sup>* (abs_queue fs) (abs_queue fs') \<and>
     (\<forall>a. claims fs a \<noteq> Missing \<longrightarrow> claims fs' a = claims fs a)"

lemma refines_evolves: "refines fs fs' \<Longrightarrow> evolves fs fs'"
  by (simp add: refines_def evolves_def)

lemma evolves_refl [simp, intro]: "evolves fs fs"
  by (simp add: evolves_def)

lemma evolves_trans: "evolves a b \<Longrightarrow> evolves b c \<Longrightarrow> evolves a c"
  unfolding evolves_def by (metis rtranclp_trans)

lemma or_raise_evolves:
  assumes "evolves fs0 fs" and "\<And>x. m = Inr x \<Longrightarrow> evolves fs0 (snd (k x))"
  shows "evolves fs0 (snd (or_raise m fs k))"
  using assms by (cases m) auto

lemma reject_refines: "refines fs (snd (reject_action_checked clock files env fs action_id phrase h))"
  unfolding reject_action_checked_def
proof (intro or_raise_refines refines_refl, split prod.split, intro allI impI or_raise_refines refines_refl)
  fix payload x i action u v w z
  assume p: "current_queue fs = Inr payload" and "find_locked payload action_id = Inr x" "x = (i, action)"
    and g: "checks [(dget action ''status'' = JStr ''proposed'', approval_binding_mismatch),
        (dget action ''arguments_hash'' = JStr h, arguments_hash_mismatch)] = Inr u"
  then have f: "find_locked payload action_id = Inr (i, action)" by simp
  show "refines fs (snd (store_action env (clock 1) payload i
      (dict_set (dict_set action ''status'' (JStr ''rejected'')) ''updated_at'' (JStr (clock 0))) fs))"
    using g by (intro store_refines [OF f, where t = "''rejected''", THEN conjunct1])
      (simp_all add: current_queue_abs [OF p] edge.rejected)
qed

lemma block_refines:
  "refines fs (snd (block_interrupted_action_checked clock files files2 l env fs action_id phrase h reason))"
  unfolding block_interrupted_action_checked_def
proof (intro or_raise_refines refines_refl, split prod.split, intro allI impI or_raise_refines refines_refl)
  fix payload x i action open_status u v w z y
  assume p: "current_queue fs = Inr payload"
    and o: "raised (in_str_set (dget action ''status'') [''proposed'', ''running'']) = Inr open_status"
    and g: "checks [(open_status, approval_binding_mismatch),
        (dget action ''arguments_hash'' = JStr h, arguments_hash_mismatch),
        (py_strip phrase = interrupted_recovery_phrase action_id, approval_binding_mismatch)] = Inr u"
  from o g have "text_of action ''status'' \<in> {''proposed'', ''running''}"
    by (auto simp: in_str_set_def text_of_def split: if_splits json.splits)
  then have "edge (JStr (text_of action ''status'')) (JStr ''blocked'')" by (auto intro: edge.intros)
  then show "refines fs (snd (mark_blocked_locked clock files2 env fs payload action_id (text_of action ''status'') (JStr h) reason))"
    by (rule mark_blocked_refines [OF current_queue_abs [OF p]])
qed

lemma snd_result_case [simp]:
  "snd (case r of (Inl e, fs') \<Rightarrow> (Inl e, fs') | (Inr (a, b), fs') \<Rightarrow> (g a b, fs')) = snd r"
  by (auto split: prod.split sum.split)

lemma finish_refines: "refines fs (snd (finish_section clock env fs l outcome))"
proof (cases "current_queue fs")
  case (Inr payload)
  let ?t = "\<lambda>ns v env'. transition_locked clock env' fs payload (le_action_id l) ''running'' (le_hash l) ns
       (dict_set (le_evidence l) ''result'' v)"
  have t: "refines fs (snd (?t ns v env'))" if "ns = ''completed'' \<or> ns = ''failed''" for ns v env'
    using that by (intro transition_locked_refines [OF current_queue_abs [OF Inr], THEN conjunct1]) (auto intro: edge.intros)
  show ?thesis
    using t [of "''completed''"] t [of "''failed''"]
    by (cases outcome) (simp_all add: finish_section_def Inr)
qed (simp add: finish_section_def)

lemma queue_actions_list:
  "queue_actions payload = Inr xs \<Longrightarrow> \<not> (dict_get payload ''actions'' \<noteq> None \<and> \<not> is_list (dget payload ''actions'')) \<Longrightarrow>
     the_list (dget payload ''actions'') = xs"
  by (cases "dget payload ''actions''") (auto simp: queue_actions_def iterate_def dget_def split: option.splits)

lemma built_action_proposed: "build_action now m p s t c d x = Inr a \<Longrightarrow> dget a ''status'' = JStr ''proposed''"
  by (auto simp: build_action_def action_of_def Let_def split: option.splits)

lemma abs_payload_append:
  "abs_payload (append_to_queue payload a) = abs_payload payload @ [abs_entry (JObj a)]"
  by (simp add: abs_payload_def append_to_queue_def)

lemma append_refines: "refines fs (snd (append_action_checked clock auth env fs m p s x))"
  unfolding append_action_checked_def
proof (intro or_raise_refines refines_refl, split prod.split, intro allI impI or_raise_refines refines_refl)
  fix payload u cd charter decision candidate found
  assume q: "current_queue fs = Inr payload"
    and c: "raised (build_action (clock 0) m p s ''followup'' charter decision x) = Inr candidate"
  have "spec_step (abs_payload payload) (abs_payload (append_to_queue payload candidate))"
    using built_action_proposed [of _ _ _ _ _ _ _ _ candidate] c
    by (auto simp: abs_payload_append abs_entry_def Let_def intro: spec_step.propose)
  then have w: "refines fs (snd (write_locked env (clock 1) (append_to_queue payload candidate) fs))"
    using current_queue_abs [OF q] by (cases env) (auto simp: write_locked_def Let_def refines_def)
  show "refines fs (snd (case found of
       Some existing \<Rightarrow>
         or_raise (validate_action_authority (auth 1) existing Restore) fs (\<lambda>_. (Inr existing, fs))
     | None \<Rightarrow>
         or_raise (validate_action_authority (auth 1) candidate FollowupAppend) fs (\<lambda>_.
         if dict_get payload ''actions'' \<noteq> None \<and> \<not> is_list (dget payload ''actions'') then (Inl (Raised OtherError), fs)
         else case write_locked env (clock 1) (append_to_queue payload candidate) fs of
                (Inl e, fs') \<Rightarrow> (Inl e, fs')
              | (Inr _, fs') \<Rightarrow> (Inr candidate, fs'))))"
    using w by (cases found) (auto split: prod.split sum.split)
qed

lemma build_all_proposed:
  "build_all clock n m p c d skills = Inr actions \<Longrightarrow> list_all (\<lambda>a. dget a ''status'' = JStr ''proposed'') actions"
  by (induction skills arbitrary: n actions) (auto dest: built_action_proposed)

lemma initialize_refines: "refines fs (snd (initialize clock auth env fs m p))"
proof (cases "queue_file fs = Missing")
  case True
  have w: "refines fs (snd (write_locked env now (initial_queue m p actions) fs))"
    if "list_all (\<lambda>a. dget a ''status'' = JStr ''proposed'') actions" for now actions
  proof -
    have "abs_queue fs = []" by (simp add: abs_queue_def True)
    moreover have "spec_step [] (abs_payload (initial_queue m p actions))"
      using that by (intro spec_step.create) (auto simp: abs_payload_def initial_queue_def abs_entry_def Let_def list_all_iff)
    ultimately show ?thesis by (cases env) (auto simp: write_locked_def Let_def refines_def)
  qed
  from True show ?thesis unfolding initialize_def
    by (auto intro!: or_raise_refines w build_all_proposed split: prod.split)
qed (simp add: initialize_def)

subsection \<open>Approval\<close>

lemma publish_claim_keeps:
  "cell \<noteq> Missing \<Longrightarrow> snd (publish_execution_claim env now cell action who at) = cell"
  by (simp add: publish_execution_claim_def Let_def case_prod_unfold publish_once_keeps)

lemma publish_claim_creates:
  assumes "publish_execution_claim env now cell action who at = (Inr claim, cell')"
  shows "cell = Missing \<and> cell' \<noteq> Missing \<and> claim = claim_payload now action who at"
proof -
  obtain r where p: "publish_once env cell (claim_payload now action who at) [] execution_claim_invalid = (r, cell')"
    using assms by (auto simp: publish_execution_claim_def Let_def split: prod.splits)
  with assms have "r = Inr (claim, True)"
    by (cases r) (auto simp: publish_execution_claim_def Let_def)
  with p show ?thesis using publish_once_creates by blast
qed

lemma dispatch_check_refines:
  assumes "abs_queue fs = abs_payload payload"
  shows "refines fs (snd (dispatch_check env fs payload action_id h action))"
proof -
  let ?b = "mark_blocked_locked (\<lambda>n. ae_clock env (n + 4)) (ae_blocked env) (ae_block_write env) fs payload
       action_id ''running'' h ''authority or claim check failed after claim and before dispatch''"
  have "refines fs (snd ?b)"
    by (rule mark_blocked_refines [OF assms edge.interrupted])
  then show ?thesis
    by (auto simp: dispatch_check_def split: sum.split prod.split)
qed

lemma dispatch_check_Inr:
  "dispatch_check env fs payload action_id h action = (Inr a, fs') \<Longrightarrow>
     a = action \<and> fs' = fs \<and> validate_action_authority (ae_predispatch env) action PreDispatch = Inr () \<and>
     (\<exists>claim. verify_execution_claim (claims fs (text_of action ''action_id'')) action = Inr claim)"
  by (auto simp: dispatch_check_def split: sum.splits prod.splits)

lemma claimed_evolves:
  "evolves fs (fs\<lparr>claims := (claims fs)(action_id := snd (publish_execution_claim env now (claims fs action_id) action who at))\<rparr>)"
  by (simp add: evolves_def abs_queue_def publish_claim_keeps)

lemma abs_queue_claims [simp]: "abs_queue (fs\<lparr>claims := c\<rparr>) = abs_queue fs"
  by (simp add: abs_queue_def)

lemma transition_then_dispatch:
  assumes "abs_queue fs = abs_payload payload"
  shows "refines fs (snd (case transition_locked clock w fs payload action_id ''proposed'' h ''running'' ev of
      (Inl e, fs2) \<Rightarrow> (Inl e, fs2)
    | (Inr (action, payload'), fs2) \<Rightarrow> dispatch_check env fs2 payload' action_id h action))"
proof -
  obtain r fs2 where t: "transition_locked clock w fs payload action_id ''proposed'' h ''running'' ev = (r, fs2)" by force
  have s: "refines fs fs2" "\<And>a p. r = Inr (a, p) \<Longrightarrow> abs_queue fs2 = abs_payload p"
    using transition_locked_refines [OF assms edge.claimed, of clock w action_id h ev] t by auto
  show ?thesis
  proof (cases r)
    case (Inr ap)
    obtain a p where ap: "ap = (a, p)" by force
    from refines_trans [OF s(1) dispatch_check_refines [OF s(2)]] show ?thesis by (simp add: t Inr ap)
  qed (simp add: t s(1))
qed

lemma approve_evolves: "evolves fs (snd (approve_section env fs action_id phrase who))"
  unfolding approve_section_def
proof (intro or_raise_evolves evolves_refl, split prod.split, intro allI impI or_raise_evolves evolves_refl, split prod.split,
    intro allI impI)
  fix payload x i proposal u v claimed cell
  assume q: "current_queue fs = Inr payload"
    and c: "publish_execution_claim (ae_publish env) (ae_clock env 1) (claims fs action_id) proposal who (ae_clock env 0)
        = (claimed, cell)"
  let ?fs1 = "fs\<lparr>claims := (claims fs)(action_id := cell)\<rparr>" and ?h = "dget proposal ''arguments_hash''"
  have e: "evolves fs ?fs1"
    using claimed_evolves [of fs action_id "ae_publish env" "ae_clock env 1" proposal who "ae_clock env 0"] by (simp only: c snd_conv)
  have "refines ?fs1 (snd (case transition_locked (\<lambda>n. ae_clock env (n + 2)) (ae_write env) ?fs1 payload action_id ''proposed''
        ?h ''running'' (approval_evidence who (ae_clock env 0) ?h) of
      (Inl e, fs2) \<Rightarrow> (Inl e, fs2)
    | (Inr (action, payload'), fs2) \<Rightarrow> dispatch_check env fs2 payload' action_id ?h action))"
    by (rule transition_then_dispatch) (simp add: current_queue_abs [OF q])
  with e have "evolves fs (snd (case transition_locked (\<lambda>n. ae_clock env (n + 2)) (ae_write env) ?fs1 payload action_id ''proposed''
        ?h ''running'' (approval_evidence who (ae_clock env 0) ?h) of
      (Inl e, fs2) \<Rightarrow> (Inl e, fs2)
    | (Inr (action, payload'), fs2) \<Rightarrow> dispatch_check env fs2 payload' action_id ?h action))"
    using evolves_trans refines_evolves by blast
  with e show "evolves fs (snd (let fs1 = ?fs1; args_hash = ?h in
          or_raise claimed fs1 (\<lambda>_.
          or_raise (acquire_lease (ae_lease env)) fs1 (\<lambda>_.
          case transition_locked (\<lambda>n. ae_clock env (n + 2)) (ae_write env) fs1 payload action_id ''proposed'' args_hash
                 ''running'' (approval_evidence who (ae_clock env 0) args_hash) of
            (Inl e, fs2) \<Rightarrow> (Inl e, fs2)
          | (Inr (action, payload'), fs2) \<Rightarrow> dispatch_check env fs2 payload' action_id args_hash action))))"
    unfolding Let_def by (intro or_raise_evolves)
qed

text \<open>What a dispatch tells of the section that led to it.\<close>

lemma approve_section_Inr:
  assumes "approve_section env fs action_id phrase who = (Inr action, fs')"
  obtains payload i proposal where "current_queue fs = Inr payload" and "find_locked payload action_id = Inr (i, proposal)"
    and "validate_action_authority (ae_restore env) proposal Restore = Inr ()"
    and "checks (approval_guards proposal phrase who) = Inr ()"
    and "claims fs action_id = Missing" and "claims fs' action_id \<noteq> Missing" and "ae_lease env = LeaseFree"
    and "action = dict_set (dict_set (dict_set proposal ''status'' (JStr ''running'')) ''updated_at'' (JStr (ae_clock env 2)))
           ''evidence'' (JObj (approval_evidence who (ae_clock env 0) (dget proposal ''arguments_hash'')))"
    and "queue_file fs' = Holds (JObj (sorted_dict (dict_set (put_action payload i action) ''updated_at'' (JStr (ae_clock env 3)))))"
    and "validate_action_authority (ae_predispatch env) action PreDispatch = Inr ()"
    and "\<exists>claim. verify_execution_claim (claims fs' action_id) action = Inr claim"
proof -
  from assms obtain payload where q: "current_queue fs = Inr payload" by (auto simp: approve_section_def)
  from assms q obtain x where f: "find_locked payload action_id = Inr x" by (auto simp: approve_section_def)
  obtain i proposal where x: "x = (i, proposal)" by force
  obtain claimed cell where c: "publish_execution_claim (ae_publish env) (ae_clock env 1) (claims fs action_id) proposal who
      (ae_clock env 0) = (claimed, cell)" by force
  let ?fs1 = "fs\<lparr>claims := (claims fs)(action_id := cell)\<rparr>" and ?h = "dget proposal ''arguments_hash''"
  obtain r fs2 where t: "transition_locked (\<lambda>n. ae_clock env (n + 2)) (ae_write env) ?fs1
          payload action_id ''proposed'' ?h ''running'' (approval_evidence who (ae_clock env 0) ?h) = (r, fs2)" by force
  from assms have a: "validate_action_authority (ae_restore env) proposal Restore = Inr ()"
      "checks (approval_guards proposal phrase who) = Inr ()" "acquire_lease (ae_lease env) = Inr ()"
    and cl: "\<exists>claim. claimed = Inr claim"
    and rest: "(case r of Inl e \<Rightarrow> (Inl e, fs2) | Inr (action, payload') \<Rightarrow> dispatch_check env fs2 payload' action_id ?h action)
        = (Inr action, fs')"
    unfolding approve_section_def q f x or_raise_simps prod.case c Let_def t by (auto simp del: checks_Inr)
  from rest obtain action2 payload2 where r: "r = Inr (action2, payload2)"
    and d: "dispatch_check env fs2 payload2 action_id ?h action2 = (Inr action, fs')"
    by (auto split: sum.splits)
  note d' = dispatch_check_Inr [OF d]
  have t': "action2 = dict_set (dict_set (dict_set proposal ''status'' (JStr ''running'')) ''updated_at'' (JStr (ae_clock env 2)))
           ''evidence'' (JObj (approval_evidence who (ae_clock env 0) (dget proposal ''arguments_hash'')))"
    "fs2 = ?fs1\<lparr>queue_file := Holds (JObj (sorted_dict (dict_set (put_action payload i action2) ''updated_at'' (JStr (ae_clock env 3)))))\<rparr>"
    using t by (auto simp: transition_locked_def store_action_def write_locked_def Let_def r f x numeral_2_eq_2
        numeral_3_eq_3 split: write_env.splits)
  have id: "text_of action2 ''action_id'' = action_id"
    using find_locked_Inr(3) [OF f [unfolded x]] by (simp add: t'(1) text_of_def)
  have lease: "ae_lease env = LeaseFree" using a(3) by (auto simp: acquire_lease_def split: lease_env.splits)
  have m: "claims fs action_id = Missing" "cell \<noteq> Missing" using cl c publish_claim_creates by blast+
  have fs': "claims fs' action_id = cell" "action = action2" "queue_file fs' = queue_file fs2" using d' t' by auto
  show thesis
  proof (rule that [OF q f [unfolded x] a(1,2) m(1) _ lease])
    show "claims fs' action_id \<noteq> Missing" using fs' m by simp
    show "action = dict_set (dict_set (dict_set proposal ''status'' (JStr ''running'')) ''updated_at'' (JStr (ae_clock env 2)))
           ''evidence'' (JObj (approval_evidence who (ae_clock env 0) ?h))"
      using fs'(2) t'(1) by simp
    show "queue_file fs' = Holds (JObj (sorted_dict (dict_set (put_action payload i action) ''updated_at'' (JStr (ae_clock env 3)))))"
      using fs'(2,3) t'(2) by simp
    show "validate_action_authority (ae_predispatch env) action PreDispatch = Inr ()" using d' by simp
    show "\<exists>claim. verify_execution_claim (claims fs' action_id) action = Inr claim" using d' id by simp
  qed
qed

end
