(* ===== verification/Queue_History.thy ===== *)
theory Queue_History
  imports Action_Queue
begin

text \<open>
  Every history of a mission's action queue: any number of processes call the operations of
  \<open>ActionQueue\<close> in any order, over authority files that may change under them, with writes that
  fail; a process that dispatches an action holds its lease until it records the outcome or dies.
  The histories follow the abstract queue, dispatch an action at most once, and can always record
  the outcome of a dispatch.
\<close>

section \<open>Histories\<close>

record queue_conf =
  qc_fs :: mission_fs
  qc_flight :: "lease list"
  qc_log :: "pystr list"

definition held :: "queue_conf \<Rightarrow> pystr \<Rightarrow> bool" where
  "held c action_id \<longleftrightarrow> action_id \<in> le_action_id ` set (qc_flight c)"

definition lease_of :: "approve_env \<Rightarrow> pystr \<Rightarrow> pystr \<Rightarrow> jdict \<Rightarrow> lease" where
  "lease_of env action_id who action =
     \<lparr>le_action_id = action_id, le_hash = dget action ''arguments_hash'',
      le_evidence = approval_evidence who (ae_clock env 0) (dget action ''arguments_hash'')\<rparr>"

definition without :: "nat \<Rightarrow> 'a list \<Rightarrow> 'a list" where
  "without i xs = take i xs @ drop (Suc i) xs"

text \<open>A lease that is free is held by nobody. \<open>q_die\<close> is a process that ends during a dispatch or
  cannot take the queue lock afterwards; \<open>q_approve_refused\<close> also covers one that dies inside the
  first section.\<close>

inductive queue_step :: "queue_conf \<Rightarrow> queue_conf \<Rightarrow> bool" where
  q_initialize: "queue_step c (c\<lparr>qc_fs := snd (initialize clock auth env (qc_fs c) m p)\<rparr>)"
| q_append: "queue_step c (c\<lparr>qc_fs := snd (append_action_checked clock auth env (qc_fs c) m p s x)\<rparr>)"
| q_reject: "queue_step c (c\<lparr>qc_fs := snd (reject_action_checked clock files env (qc_fs c) action_id phrase h)\<rparr>)"
| q_block: "(l = LeaseFree \<longrightarrow> \<not> held c action_id) \<Longrightarrow>
    queue_step c (c\<lparr>qc_fs := snd (block_interrupted_action_checked clock files files2 l env (qc_fs c) action_id phrase h reason)\<rparr>)"
| q_approve_refused: "approve_section env (qc_fs c) action_id phrase who = (Inl e, fs') \<Longrightarrow>
    queue_step c (c\<lparr>qc_fs := fs'\<rparr>)"
| q_approve: "approve_section env (qc_fs c) action_id phrase who = (Inr action, fs') \<Longrightarrow> \<not> held c action_id \<Longrightarrow>
    queue_step c (c\<lparr>qc_fs := fs', qc_flight := qc_flight c @ [lease_of env action_id who action],
      qc_log := qc_log c @ [action_id]\<rparr>)"
| q_finish: "i < length (qc_flight c) \<Longrightarrow>
    queue_step c (c\<lparr>qc_fs := snd (finish_section clock env (qc_fs c) (qc_flight c ! i) outcome),
      qc_flight := without i (qc_flight c)\<rparr>)"
| q_die: "i < length (qc_flight c) \<Longrightarrow> queue_step c (c\<lparr>qc_flight := without i (qc_flight c)\<rparr>)"

lemma step_evolves: "queue_step c c' \<Longrightarrow> evolves (qc_fs c) (qc_fs c')"
proof (induction rule: queue_step.induct)
  case (q_approve_refused env c action_id phrase who e fs')
  then show ?case using approve_evolves [of "qc_fs c" env action_id phrase who] by simp
next
  case (q_approve env c action_id phrase who action fs')
  then show ?case using approve_evolves [of "qc_fs c" env action_id phrase who] by simp
qed (simp_all add: initialize_refines append_refines reject_refines block_refines finish_refines refines_evolves)

lemma steps_evolve: "queue_step\<^sup>*\<^sup>* c c' \<Longrightarrow> evolves (qc_fs c) (qc_fs c')"
  by (induction rule: rtranclp_induct) (auto intro: evolves_trans step_evolves)

section \<open>At most one dispatch\<close>

definition dispatches_claimed :: "queue_conf \<Rightarrow> bool" where
  "dispatches_claimed c \<longleftrightarrow> distinct (qc_log c) \<and> (\<forall>a \<in> set (qc_log c). claims (qc_fs c) a \<noteq> Missing)"

lemma claims_stay: "queue_step c c' \<Longrightarrow> claims (qc_fs c) a \<noteq> Missing \<Longrightarrow> claims (qc_fs c') a \<noteq> Missing"
  using step_evolves [of c c'] by (simp add: evolves_def)

interpretation once: kept queue_step dispatches_claimed
proof
  fix c c'
  assume inv: "dispatches_claimed c" and step: "queue_step c c'"
  from step have "qc_log c' = qc_log c \<or>
      (\<exists>a. qc_log c' = qc_log c @ [a] \<and> claims (qc_fs c) a = Missing \<and> claims (qc_fs c') a \<noteq> Missing)"
  proof cases
    case (q_approve env action_id phrase who action fs')
    from q_approve(2) have "claims (qc_fs c) action_id = Missing" "claims fs' action_id \<noteq> Missing"
      by (auto elim: approve_section_Inr)
    with q_approve show ?thesis by simp
  qed simp_all
  with inv claims_stay [OF step] show "dispatches_claimed c'"
    by (auto simp: dispatches_claimed_def)
qed

section \<open>A dispatch needs approval and authority\<close>

text \<open>The action that the operations find under an identifier.\<close>

definition queue_entry :: "mission_fs \<Rightarrow> pystr \<Rightarrow> jdict \<Rightarrow> bool" where
  "queue_entry fs action_id action \<longleftrightarrow>
     (\<exists>payload i. current_queue fs = Inr payload \<and> find_locked payload action_id = Inr (i, action))"

section \<open>The outcome of a dispatch can be recorded\<close>

text \<open>What the verification of a claim reads of an action; the dispatched action has strings there.\<close>

definition claim_view :: "jdict \<Rightarrow> json list" where
  "claim_view a = map (dget a) (CLAIM_BINDING_FIELDS @ [''status'']) @
     map (dget (the_obj (dget a ''evidence''))) [''approved_by'', ''approved_at'', ''arguments_hash'']"

definition string_view :: "jdict \<Rightarrow> bool" where
  "string_view a \<longleftrightarrow> list_all is_str (claim_view a) \<and> is_dict (dget a ''evidence'')"

lemma verify_execution_claim_view:
  "claim_view a = claim_view b \<Longrightarrow> string_view a \<Longrightarrow> string_view b \<Longrightarrow>
     verify_execution_claim cell a = verify_execution_claim cell b"
  by (simp add: verify_execution_claim_def claim_view_def string_view_def agree_on_def CLAIM_BINDING_FIELDS_def)

lemma is_str_sorted: "is_str v \<Longrightarrow> sorted_json v = v"
  by (cases v) simp_all

lemma claim_view_sorted: "string_view a \<Longrightarrow> claim_view (sorted_dict a) = claim_view a \<and> string_view (sorted_dict a)"
  by (simp add: claim_view_def string_view_def CLAIM_BINDING_FIELDS_def is_str_sorted)

lemma find_from_sorted:
  "find_from n xs action_id = Inr (i, a) \<Longrightarrow> find_from n (map sorted_json xs) action_id = Inr (i, sorted_dict a)"
proof (induction xs arbitrary: n)
  case (Cons v xs)
  from Cons.prems obtain d where "v = JObj d" by (auto simp: as_dict_def split: json.splits)
  with Cons show ?case by (auto simp: as_dict_def split: if_splits)
qed simp

lemma find_from_append: "find_from n xs action_id = Inr r \<Longrightarrow> find_from n (xs @ ys) action_id = Inr r"
proof (induction xs arbitrary: n)
  case (Cons v xs)
  from Cons.prems obtain d where "v = JObj d" by (auto simp: as_dict_def split: json.splits)
  with Cons show ?case by (auto simp: as_dict_def split: if_splits)
qed simp

lemma find_from_index: "find_from n xs action_id = Inr (i, a) \<Longrightarrow> n \<le> i"
  by (drule find_from_Inr) simp

text \<open>Replacing the action found under one identifier keeps what is found under another.\<close>

lemma find_from_update_other:
  assumes "find_from n xs action_id = Inr (i, a)" and "find_from n xs other = Inr (j, b)"
    and "other \<noteq> action_id" and "dget b' ''action_id'' = JStr other"
  shows "find_from n (xs[j - n := JObj b']) action_id = Inr (i, a)"
  using assms(1,2)
proof (induction xs arbitrary: n)
  case (Cons v xs)
  from Cons.prems obtain d where v: "v = JObj d" by (auto simp: as_dict_def split: json.splits)
  show ?case
  proof (cases "dget d ''action_id'' = JStr other")
    case True
    with Cons.prems v assms(3,4) show ?thesis by (auto simp: as_dict_def)
  next
    case False
    with Cons.prems(2) v have j: "find_from (Suc n) xs other = Inr (j, b)" by (simp add: as_dict_def)
    from find_from_index [OF j] have "j - n = Suc (j - Suc n)" by simp
    with Cons v j show ?thesis by (auto simp: as_dict_def split: if_splits)
  qed
qed simp

lemma find_from_update_same:
  assumes "find_from n xs action_id = Inr (i, a)" and "dget a' ''action_id'' = JStr action_id"
  shows "find_from n (xs[i - n := JObj a']) action_id = Inr (i, a')"
  using assms(1)
proof (induction xs arbitrary: n)
  case (Cons v xs)
  from Cons.prems obtain d where v: "v = JObj d" by (auto simp: as_dict_def split: json.splits)
  show ?case
  proof (cases "dget d ''action_id'' = JStr action_id")
    case True
    with Cons.prems v assms(2) show ?thesis by (auto simp: as_dict_def)
  next
    case False
    with Cons.prems v have j: "find_from (Suc n) xs action_id = Inr (i, a)" by (simp add: as_dict_def)
    from find_from_index [OF j] have "i - n = Suc (i - Suc n)" by simp
    with Cons.IH [OF j] False v show ?thesis by (simp add: as_dict_def)
  qed
qed simp

lemma found_in_list:
  assumes "find_locked payload action_id = Inr (i, a)"
  shows "dict_get payload ''actions'' = Some (JList (the_list (dget payload ''actions'')))"
    and "find_from 0 (the_list (dget payload ''actions'')) action_id = Inr (i, a)"
proof -
  from assms obtain xs where xs: "queue_actions payload = Inr xs" and f: "find_from 0 xs action_id = Inr (i, a)"
    by (auto simp: find_locked_def)
  have "JObj a \<in> set xs" using find_from_Inr [OF f] by (metis diff_zero nth_mem add_0)
  with xs have "dict_get payload ''actions'' = Some (JList xs)"
    by (auto simp: queue_actions_def iterate_def split: option.splits json.splits)
  with f show "dict_get payload ''actions'' = Some (JList (the_list (dget payload ''actions'')))"
    "find_from 0 (the_list (dget payload ''actions'')) action_id = Inr (i, a)"
    by (simp_all add: dget_def)
qed

lemma find_locked_list:
  "dict_get payload ''actions'' = Some (JList xs) \<Longrightarrow> find_locked payload action_id = find_from 0 xs action_id"
  by (simp add: find_locked_def queue_actions_def iterate_def)

lemma find_locked_put_other:
  assumes "find_locked payload action_id = Inr (i, a)" and "find_locked payload other = Inr (j, b)"
    and "other \<noteq> action_id" and "dget b' ''action_id'' = JStr other"
  shows "find_locked (put_action payload j b') action_id = Inr (i, a)"
  using find_from_update_other [OF found_in_list(2) [OF assms(1)] found_in_list(2) [OF assms(2)] assms(3,4)]
  by (simp add: put_action_def find_locked_list)

lemma find_locked_put_same:
  assumes "find_locked payload action_id = Inr (i, a)" and "dget a' ''action_id'' = JStr action_id"
  shows "find_locked (put_action payload i a') action_id = Inr (i, a')"
  using find_from_update_same [OF found_in_list(2) [OF assms(1)] assms(2)]
  by (simp add: put_action_def find_locked_list)

lemma find_locked_append:
  assumes "find_locked payload action_id = Inr (i, a)"
  shows "find_locked (append_to_queue payload b) action_id = Inr (i, a)"
  using find_from_append [OF found_in_list(2) [OF assms]]
  by (simp add: append_to_queue_def find_locked_list)

lemma find_locked_stamp [simp]: "find_locked (dict_set p ''updated_at'' v) action_id = find_locked p action_id"
  by (simp add: find_locked_def queue_actions_def)

lemma find_locked_sorted:
  assumes "find_locked p action_id = Inr (i, a)"
  shows "find_locked (sorted_dict p) action_id = Inr (i, sorted_dict a)"
proof -
  have "dict_get (sorted_dict p) ''actions'' = Some (JList (map sorted_json (the_list (dget p ''actions''))))"
    using found_in_list(1) [OF assms] by simp
  then show ?thesis using find_from_sorted [OF found_in_list(2) [OF assms]] by (simp add: find_locked_list)
qed

lemma find_from_sorted_iff:
  "find_from n (map sorted_json xs) action_id = Inr (i, a) \<longleftrightarrow> (\<exists>b. find_from n xs action_id = Inr (i, b) \<and> a = sorted_dict b)"
proof (induction xs arbitrary: n)
  case (Cons v xs)
  show ?case
  proof (cases v)
    case (JObj d)
    with Cons show ?thesis by (auto simp: as_dict_def)
  qed (simp_all add: as_dict_def)
qed simp

text \<open>The payload in memory is the one on disk, read from it or just written to it.\<close>

definition tracks :: "mission_fs \<Rightarrow> jdict \<Rightarrow> bool" where
  "tracks fs payload \<longleftrightarrow> dget payload ''schema_version'' = JStr ACTION_SCHEMA_VERSION \<and>
     (current_queue fs = Inr payload \<or> queue_file fs = Holds (JObj (sorted_dict payload)))"

lemma current_queue_schema: "current_queue fs = Inr payload \<Longrightarrow> dget payload ''schema_version'' = JStr ACTION_SCHEMA_VERSION"
  by (auto simp: current_queue_def require_current_schema_def split: if_splits)

lemma tracks_current: "current_queue fs = Inr payload \<Longrightarrow> tracks fs payload"
  by (simp add: tracks_def current_queue_schema)

lemma current_queue_holds:
  "queue_file fs = Holds (JObj p) \<Longrightarrow> dget p ''schema_version'' = JStr ACTION_SCHEMA_VERSION \<Longrightarrow> current_queue fs = Inr p"
  by (simp add: current_queue_def load_queue_def require_current_schema_def as_dict_def)

lemma tracked_entry:
  assumes "tracks fs payload" and "queue_entry fs action_id a"
  obtains i b where "find_locked payload action_id = Inr (i, b)" and "a = b \<or> a = sorted_dict b"
proof (cases "current_queue fs = Inr payload")
  case True
  with assms(2) that show thesis by (auto simp: queue_entry_def)
next
  case False
  with assms(1) have q: "queue_file fs = Holds (JObj (sorted_dict payload))"
    and v: "dget payload ''schema_version'' = JStr ACTION_SCHEMA_VERSION" by (auto simp: tracks_def)
  from current_queue_holds [OF q] v assms(2) obtain i where f: "find_locked (sorted_dict payload) action_id = Inr (i, a)"
    by (auto simp: queue_entry_def)
  from found_in_list(1) [OF f] obtain xs where xs: "dict_get payload ''actions'' = Some (JList xs)"
    by (auto simp: dget_def split: option.splits elim!: sorted_json.elims)
  then have "find_from 0 (map sorted_json xs) action_id = Inr (i, a)"
    using f by (simp add: find_locked_list)
  then obtain b where "find_from 0 xs action_id = Inr (i, b)" "a = sorted_dict b"
    by (auto simp: find_from_sorted_iff)
  with xs that show thesis by (auto simp: find_locked_list)
qed

lemma written_entry:
  assumes "find_locked p action_id = Inr (i, a)" and "dget p ''schema_version'' = JStr ACTION_SCHEMA_VERSION"
  shows "queue_entry (fs\<lparr>queue_file := Holds (JObj (sorted_dict p))\<rparr>) action_id (sorted_dict a)"
proof -
  have "current_queue (fs\<lparr>queue_file := Holds (JObj (sorted_dict p))\<rparr>) = Inr (sorted_dict p)"
    by (rule current_queue_holds) (simp_all add: assms(2))
  then show ?thesis using find_locked_sorted [OF assms(1)] by (auto simp: queue_entry_def)
qed

text \<open>An operation keeps an entry when it is found again with the same view.\<close>

definition keeps_entry :: "pystr \<Rightarrow> mission_fs \<Rightarrow> mission_fs \<Rightarrow> bool" where
  "keeps_entry action_id fs fs' \<longleftrightarrow> (\<forall>a. queue_entry fs action_id a \<and> string_view a \<longrightarrow>
     (\<exists>a'. queue_entry fs' action_id a' \<and> string_view a' \<and> claim_view a' = claim_view a))"

lemma keeps_refl [simp, intro]: "keeps_entry action_id fs fs"
  by (auto simp: keeps_entry_def)

lemma keeps_trans: "keeps_entry i a b \<Longrightarrow> keeps_entry i b c \<Longrightarrow> keeps_entry i a c"
  unfolding keeps_entry_def by metis

lemma keeps_claims [simp]: "keeps_entry action_id fs (fs\<lparr>claims := c\<rparr>)"
  by (auto simp: keeps_entry_def queue_entry_def current_queue_def)

lemma or_raise_keeps:
  assumes "keeps_entry i fs0 fs" and "\<And>x. m = Inr x \<Longrightarrow> keeps_entry i fs0 (snd (k x))"
  shows "keeps_entry i fs0 (snd (or_raise m fs k))"
  using assms by (cases m) auto

lemma sorted_view: "string_view (sorted_dict b) \<Longrightarrow> string_view b"
  by (simp add: claim_view_def string_view_def CLAIM_BINDING_FIELDS_def)

lemma write_keeps:
  assumes "tracks fs payload"
    and "\<And>i b. find_locked payload action_id = Inr (i, b) \<Longrightarrow> find_locked p action_id = Inr (i, b)"
    and "dget p ''schema_version'' = JStr ACTION_SCHEMA_VERSION"
  shows "keeps_entry action_id fs (fs\<lparr>queue_file := Holds (JObj (sorted_dict p))\<rparr>)"
  unfolding keeps_entry_def
proof (intro allI impI, elim conjE)
  fix a assume q: "queue_entry fs action_id a" and v: "string_view a"
  obtain i b where b: "find_locked payload action_id = Inr (i, b)" "a = b \<or> a = sorted_dict b"
    using tracked_entry [OF assms(1) q] by blast
  with v have "string_view b" using sorted_view by blast
  with b(2) have "string_view (sorted_dict b) \<and> claim_view (sorted_dict b) = claim_view a"
    using claim_view_sorted by metis
  with written_entry [OF assms(2) [OF b(1)] assms(3)]
  show "\<exists>a'. queue_entry (fs\<lparr>queue_file := Holds (JObj (sorted_dict p))\<rparr>) action_id a' \<and> string_view a' \<and> claim_view a' = claim_view a"
    by blast
qed

lemma tracks_written:
  "dget p ''schema_version'' = JStr ACTION_SCHEMA_VERSION \<Longrightarrow> tracks (fs\<lparr>queue_file := Holds (JObj (sorted_dict p))\<rparr>) p"
  by (simp add: tracks_def)

lemma put_schema [simp]: "dget (put_action p i a) ''schema_version'' = dget p ''schema_version''"
  by (simp add: put_action_def)

lemma store_keeps_other:
  assumes "tracks fs payload" and "find_locked payload other = Inr (j, b)" and "other \<noteq> action_id"
    and "dget b' ''action_id'' = dget b ''action_id''"
  shows "keeps_entry action_id fs (snd (store_action env now payload j b' fs))"
    and "fst (store_action env now payload j b' fs) = Inr (a, p) \<Longrightarrow> tracks (snd (store_action env now payload j b' fs)) p"
proof -
  let ?p = "dict_set (put_action payload j b') ''updated_at'' (JStr now)"
  have v: "dget ?p ''schema_version'' = JStr ACTION_SCHEMA_VERSION" using assms(1) by (simp add: tracks_def)
  have "keeps_entry action_id fs (fs\<lparr>queue_file := Holds (JObj (sorted_dict ?p))\<rparr>)"
  proof (rule write_keeps [OF assms(1) _ v])
    fix i c assume "find_locked payload action_id = Inr (i, c)"
    then show "find_locked ?p action_id = Inr (i, c)"
      using find_locked_put_other [OF _ assms(2,3)] assms(4) find_locked_Inr(3) [OF assms(2)] by simp
  qed
  then show "keeps_entry action_id fs (snd (store_action env now payload j b' fs))"
    using store_action_cases [of env now payload j b' fs] by auto
  show "fst (store_action env now payload j b' fs) = Inr (a, p) \<Longrightarrow> tracks (snd (store_action env now payload j b' fs)) p"
    using store_action_cases [of env now payload j b' fs] tracks_written [OF v] by auto
qed

lemma transition_is_store:
  "(\<exists>e. transition_locked clock env fs payload action_id es h ns ev = (Inl e, fs)) \<or>
   (\<exists>i b b'. find_locked payload action_id = Inr (i, b) \<and> transition_guards (claims fs) b es h = Inr () \<and>
      b' = dict_set (dict_set (dict_set b ''status'' (JStr ns)) ''updated_at'' (JStr (clock 0))) ''evidence'' (JObj ev) \<and>
      transition_locked clock env fs payload action_id es h ns ev = store_action env (clock 1) payload i b' fs)"
proof (cases "find_locked payload action_id")
  case (Inr x)
  obtain i b where x: "x = (i, b)" by force
  then show ?thesis
    by (cases "transition_guards (claims fs) b es h") (simp_all add: transition_locked_def Inr)
qed (simp add: transition_locked_def)

lemma transition_keeps_other:
  assumes "tracks fs payload" and "other \<noteq> action_id"
  shows "keeps_entry action_id fs (snd (transition_locked clock env fs payload other es h ns ev))"
    and "fst (transition_locked clock env fs payload other es h ns ev) = Inr (a, p) \<Longrightarrow>
      tracks (snd (transition_locked clock env fs payload other es h ns ev)) p"
  using transition_is_store [of clock env fs payload other es h ns ev]
    store_keeps_other [OF assms(1) _ assms(2)] by auto

lemma mark_blocked_keeps_other:
  assumes "tracks fs payload" and "other \<noteq> action_id"
  shows "keeps_entry action_id fs (snd (mark_blocked_locked clock files env fs payload other es h reason))"
  unfolding mark_blocked_locked_def
proof (intro or_raise_keeps keeps_refl, split prod.split, intro allI impI or_raise_keeps keeps_refl)
  fix x i b u v
  assume "find_locked payload other = Inr x" "x = (i, b)"
  then show "keeps_entry action_id fs (snd (store_action env (clock 1) payload i (dict_set (dict_set (dict_set b ''status''
      (JStr ''blocked'')) ''updated_at'' (JStr (clock 0))) ''blocked_reason'' (JStr reason)) fs))"
    by (intro store_keeps_other(1) [OF assms(1) _ assms(2)]) simp_all
qed

lemma reject_keeps_other:
  assumes "other \<noteq> action_id"
  shows "keeps_entry action_id fs (snd (reject_action_checked clock files env fs other phrase h))"
  unfolding reject_action_checked_def
proof (intro or_raise_keeps keeps_refl, split prod.split, intro allI impI or_raise_keeps keeps_refl)
  fix payload x i b u v w z
  assume "current_queue fs = Inr payload" "find_locked payload other = Inr x" "x = (i, b)"
  then show "keeps_entry action_id fs (snd (store_action env (clock 1) payload i
      (dict_set (dict_set b ''status'' (JStr ''rejected'')) ''updated_at'' (JStr (clock 0))) fs))"
    by (intro store_keeps_other(1) [OF tracks_current _ assms]) simp_all
qed

lemma block_keeps_other:
  assumes "other \<noteq> action_id"
  shows "keeps_entry action_id fs (snd (block_interrupted_action_checked clock files files2 l env fs other phrase h reason))"
  unfolding block_interrupted_action_checked_def
  by (intro or_raise_keeps keeps_refl, split prod.split, intro allI impI or_raise_keeps keeps_refl)
    (rule mark_blocked_keeps_other [OF tracks_current assms])

lemma finish_keeps_other:
  assumes "le_action_id l \<noteq> action_id"
  shows "keeps_entry action_id fs (snd (finish_section clock env fs l outcome))"
proof (cases "current_queue fs")
  case (Inr payload)
  note t = transition_keeps_other(1) [OF tracks_current [OF Inr] assms]
  show ?thesis by (cases outcome) (simp_all add: finish_section_def Inr t)
qed (simp add: finish_section_def)

lemma append_keeps: "keeps_entry action_id fs (snd (append_action_checked clock auth env fs m p s x))"
  unfolding append_action_checked_def
proof (intro or_raise_keeps keeps_refl, split prod.split, intro allI impI or_raise_keeps keeps_refl)
  fix payload u cd charter decision candidate found
  assume q: "current_queue fs = Inr payload"
  let ?p = "dict_set (append_to_queue payload candidate) ''updated_at'' (JStr (clock 1))"
  have "keeps_entry action_id fs (fs\<lparr>queue_file := Holds (JObj (sorted_dict ?p))\<rparr>)"
    by (rule write_keeps [OF tracks_current [OF q]])
      (use find_locked_append current_queue_schema [OF q] in \<open>auto simp: append_to_queue_def\<close>)
  then have w: "keeps_entry action_id fs (snd (write_locked env (clock 1) (append_to_queue payload candidate) fs))"
    by (cases env) (auto simp: write_locked_def Let_def)
  show "keeps_entry action_id fs (snd (case found of
       Some existing \<Rightarrow>
         or_raise (validate_action_authority (auth 1) existing Restore) fs (\<lambda>_. (Inr existing, fs))
     | None \<Rightarrow>
         or_raise (validate_action_authority (auth 1) candidate FollowupAppend) fs (\<lambda>_.
         if dict_get payload ''actions'' \<noteq> None \<and> \<not> is_list (dget payload ''actions'') then (Inl (Raised OtherError), fs)
         else case write_locked env (clock 1) (append_to_queue payload candidate) fs of
                (Inl e, fs') \<Rightarrow> (Inl e, fs')
              | (Inr _, fs') \<Rightarrow> (Inr candidate, fs'))))"
    using w by (cases found) (auto intro!: or_raise_keeps split: prod.split sum.split)
qed

lemma initialize_keeps:
  assumes "queue_file fs \<noteq> Missing"
  shows "snd (initialize clock auth env fs m p) = fs"
  using assms by (simp add: initialize_def)

lemma dispatch_check_snd:
  "snd (dispatch_check env fs payload action_id h a) = fs \<or>
   (\<exists>clock files w r. snd (dispatch_check env fs payload action_id h a) =
      snd (mark_blocked_locked clock files w fs payload action_id ''running'' h r))"
  by (auto simp: dispatch_check_def split: sum.split prod.split) (metis snd_conv)+

lemma dispatch_check_keeps_other:
  assumes "tracks fs payload" and "other \<noteq> action_id"
  shows "keeps_entry action_id fs (snd (dispatch_check env fs payload other h a))"
  using dispatch_check_snd [of env fs payload other h a] mark_blocked_keeps_other [OF assms] by auto

lemma tracks_claims [simp]: "tracks (fs\<lparr>claims := c\<rparr>) payload = tracks fs payload"
  by (simp add: tracks_def current_queue_def)

lemma approve_keeps_other:
  assumes "other \<noteq> action_id"
  shows "keeps_entry action_id fs (snd (approve_section env fs other phrase who))"
  unfolding approve_section_def
proof (intro or_raise_keeps keeps_refl, split prod.split, intro allI impI or_raise_keeps keeps_refl, split prod.split,
    intro allI impI)
  fix payload x i proposal u v claimed cell
  assume q: "current_queue fs = Inr payload"
  let ?fs1 = "fs\<lparr>claims := (claims fs)(other := cell)\<rparr>" and ?h = "dget proposal ''arguments_hash''"
  obtain r fs2 where t: "transition_locked (\<lambda>n. ae_clock env (n + 2)) (ae_write env) ?fs1 payload other ''proposed''
        ?h ''running'' (approval_evidence who (ae_clock env 0) ?h) = (r, fs2)" by force
  have tr: "tracks ?fs1 payload" using tracks_current [OF q] by simp
  have k: "keeps_entry action_id fs fs2"
    using transition_keeps_other(1) [OF tr assms] keeps_trans [OF keeps_claims] t by (metis snd_conv)
  have "keeps_entry action_id fs (snd (dispatch_check env fs2 p other ?h a))" if "r = Inr (a, p)" for a p
  proof -
    have "tracks fs2 p" using transition_keeps_other(2) [OF tr assms] t that by (metis fst_conv snd_conv)
    from keeps_trans [OF k dispatch_check_keeps_other [OF this assms]] show ?thesis .
  qed
  then show "keeps_entry action_id fs (snd (let fs1 = ?fs1; args_hash = ?h in
          or_raise claimed fs1 (\<lambda>_.
          or_raise (acquire_lease (ae_lease env)) fs1 (\<lambda>_.
          case transition_locked (\<lambda>n. ae_clock env (n + 2)) (ae_write env) fs1 payload other ''proposed'' args_hash
                 ''running'' (approval_evidence who (ae_clock env 0) args_hash) of
            (Inl e, fs2) \<Rightarrow> (Inl e, fs2)
          | (Inr (action, payload'), fs2) \<Rightarrow> dispatch_check env fs2 payload' other args_hash action))))"
    unfolding Let_def t using k by (intro or_raise_keeps keeps_claims) (auto split: sum.split)
qed

lemma claimed_publish_fails:
  assumes "cell \<noteq> Missing"
  shows "\<exists>e. publish_execution_claim env now cell action who at = (Inl e, cell)"
proof -
  obtain r cell' where p: "publish_execution_claim env now cell action who at = (r, cell')" by force
  with publish_claim_keeps [OF assms, of env now action who at] have "cell' = cell" by simp
  with p assms show ?thesis using publish_claim_creates by (cases r) auto
qed

text \<open>A claimed action is left alone by approval and rejection.\<close>

lemma approve_claimed:
  assumes "claims fs action_id \<noteq> Missing"
  shows "snd (approve_section env fs action_id phrase who) = fs"
proof -
  have e: "\<exists>e. publish_execution_claim (ae_publish env) now (claims fs action_id) a w at = (Inl e, claims fs action_id)" for now a w at
    by (rule claimed_publish_fails [OF assms])
  have inner: "snd (case publish_execution_claim (ae_publish env) now (claims fs action_id) a w at of
      (claimed, cell) \<Rightarrow> or_raise claimed (fs\<lparr>claims := (claims fs)(action_id := cell)\<rparr>) (k cell)) = fs" for now a w at k
    using e [of now a w at] by auto
  show ?thesis
    unfolding approve_section_def Let_def by (auto simp: or_raise_def inner [unfolded or_raise_def] split: sum.split)
qed

lemma reject_claimed:
  assumes "claims fs action_id \<noteq> Missing"
  shows "snd (reject_action_checked clock files env fs action_id phrase h) = fs"
proof -
  have "snd (or_raise (if claims fs action_id = Missing then Inr ()
              else py_bind (verify_execution_claim (claims fs action_id) a) (\<lambda>_. Inl (Binding execution_already_claimed))) fs k) = fs"
    for a and k :: "unit \<Rightarrow> (qexn + jdict \<times> jdict) \<times> mission_fs"
    using assms by (cases "verify_execution_claim (claims fs action_id) a") simp_all
  then show ?thesis
    unfolding reject_action_checked_def by (auto simp: or_raise_def split: sum.split)
qed

lemma block_held:
  "l \<noteq> LeaseFree \<Longrightarrow> snd (block_interrupted_action_checked clock files files2 l env fs action_id phrase h reason) = fs"
  by (cases l) (auto simp: block_interrupted_action_checked_def or_raise_def acquire_lease_def split: sum.split)

definition recordable :: "mission_fs \<Rightarrow> lease \<Rightarrow> bool" where
  "recordable fs l \<longleftrightarrow> (\<exists>a claim. queue_entry fs (le_action_id l) a \<and> string_view a \<and>
     dget a ''status'' = JStr ''running'' \<and> dget a ''arguments_hash'' = le_hash l \<and>
     verify_execution_claim (claims fs (le_action_id l)) a = Inr claim)"

definition flights_recordable :: "queue_conf \<Rightarrow> bool" where
  "flights_recordable c \<longleftrightarrow> distinct (map le_action_id (qc_flight c)) \<and> (\<forall>l \<in> set (qc_flight c). recordable (qc_fs c) l)"

lemma recordable_claimed: "recordable fs l \<Longrightarrow> claims fs (le_action_id l) \<noteq> Missing"
  by (auto simp: recordable_def verify_execution_claim_def)

lemma recordable_queue: "recordable fs l \<Longrightarrow> queue_file fs \<noteq> Missing"
proof
  assume "recordable fs l" and m: "queue_file fs = Missing"
  then obtain payload i a where "current_queue fs = Inr payload" "find_locked payload (le_action_id l) = Inr (i, a)"
    by (auto simp: recordable_def queue_entry_def)
  with m show False
    by (auto simp: current_queue_def load_queue_def require_current_schema_def as_dict_def empty_queue_def find_locked_def
        queue_actions_def iterate_def)
qed

lemma recordable_kept:
  assumes "recordable fs l" and "keeps_entry (le_action_id l) fs fs'"
    and "claims fs' (le_action_id l) = claims fs (le_action_id l)"
  shows "recordable fs' l"
proof -
  obtain a claim where a: "queue_entry fs (le_action_id l) a" "string_view a" "dget a ''status'' = JStr ''running''"
      "dget a ''arguments_hash'' = le_hash l" "verify_execution_claim (claims fs (le_action_id l)) a = Inr claim"
    using assms(1) by (auto simp: recordable_def)
  obtain a' where a': "queue_entry fs' (le_action_id l) a'" "string_view a'" "claim_view a' = claim_view a"
    using assms(2) a(1,2) by (auto simp: keeps_entry_def)
  have "dget a' ''status'' = JStr ''running''" "dget a' ''arguments_hash'' = le_hash l"
    using a'(3) a(3,4) by (simp_all add: claim_view_def CLAIM_BINDING_FIELDS_def)
  moreover have "verify_execution_claim (claims fs' (le_action_id l)) a' = Inr claim"
    using verify_execution_claim_view [OF a'(3) a'(2) a(2)] a(5) assms(3) by simp
  ultimately show ?thesis using a' by (auto simp: recordable_def)
qed

lemma dispatched_is_recordable:
  assumes "approve_section env fs action_id phrase who = (Inr action, fs')"
  shows "recordable fs' (lease_of env action_id who action)"
proof -
  obtain payload i proposal where q: "current_queue fs = Inr payload" "find_locked payload action_id = Inr (i, proposal)"
    and a: "action = dict_set (dict_set (dict_set proposal ''status'' (JStr ''running'')) ''updated_at'' (JStr (ae_clock env 2)))
           ''evidence'' (JObj (approval_evidence who (ae_clock env 0) (dget proposal ''arguments_hash'')))"
    and w: "queue_file fs' = Holds (JObj (sorted_dict (dict_set (put_action payload i action) ''updated_at'' (JStr (ae_clock env 3)))))"
    and v: "validate_action_authority (ae_predispatch env) action PreDispatch = Inr ()"
    and c: "\<exists>claim. verify_execution_claim (claims fs' action_id) action = Inr claim"
    using assms by (rule approve_section_Inr)
  let ?p = "dict_set (put_action payload i action) ''updated_at'' (JStr (ae_clock env 3))"
  have id: "dget action ''action_id'' = JStr action_id" using find_locked_Inr(3) [OF q(2)] by (simp add: a)
  from find_locked_put_same [OF q(2) id] have f: "find_locked ?p action_id = Inr (i, action)" by simp
  have "current_queue fs' = Inr (sorted_dict ?p)"
    by (rule current_queue_holds [OF w]) (simp add: current_queue_schema [OF q(1)])
  with find_locked_sorted [OF f] have e: "queue_entry fs' action_id (sorted_dict action)" by (auto simp: queue_entry_def)
  from v have g: "checks (identity_guards PreDispatch action) = Inr ()" by (auto elim: validate_action_authority_steps)
  then have h: "is_str (dget action ''mission_id'')" "is_str (dget action ''plan_id'')" "is_str (dget action ''arguments_hash'')"
    by (auto simp: guard_defs nonempty_str_iff)
  have s: "string_view action"
    using h id by (simp add: string_view_def claim_view_def CLAIM_BINDING_FIELDS_def a approval_evidence_def)
  from verify_execution_claim_view [of "sorted_dict action" action] claim_view_sorted [OF s] s c
  have "\<exists>claim. verify_execution_claim (claims fs' action_id) (sorted_dict action) = Inr claim" by simp
  then show ?thesis
    using e claim_view_sorted [OF s] h(3) by (auto simp: recordable_def lease_of_def a is_str_sorted)
qed

lemma without_other:
  assumes "distinct (map f xs)" and "i < length xs" and "y \<in> set (without i xs)"
  shows "f (xs ! i) \<noteq> f y"
proof -
  have "distinct (map f (take i xs @ xs ! i # drop (Suc i) xs))"
    using assms(1) id_take_nth_drop [OF assms(2)] by simp
  then show ?thesis using assms(3) by (auto simp: without_def simp del: append_take_drop_id)
qed

lemma step_keeps_flight:
  assumes "queue_step c c'" and "recordable (qc_fs c) l" and "l \<in> set (qc_flight c)" and "l \<in> set (qc_flight c')"
    and "distinct (map le_action_id (qc_flight c))"
  shows "recordable (qc_fs c') l"
proof (rule recordable_kept [OF assms(2)])
  show "claims (qc_fs c') (le_action_id l) = claims (qc_fs c) (le_action_id l)"
    using step_evolves [OF assms(1)] recordable_claimed [OF assms(2)] by (simp add: evolves_def)
  from assms(1) show "keeps_entry (le_action_id l) (qc_fs c) (qc_fs c')"
  proof cases
    case (q_initialize clock auth env m p)
    then show ?thesis using initialize_keeps [OF recordable_queue [OF assms(2)]] by simp
  next
    case (q_append clock auth env m p s x)
    then show ?thesis by (simp add: append_keeps)
  next
    case (q_reject clock files env action_id phrase h)
    then show ?thesis using reject_claimed recordable_claimed [OF assms(2)] reject_keeps_other
      by (cases "action_id = le_action_id l") auto
  next
    case (q_block la action_id clock files files2 env phrase h reason)
    show ?thesis
    proof (cases "action_id = le_action_id l")
      case True
      with q_block(2) assms(3) have "la \<noteq> LeaseFree" by (auto simp: held_def)
      from block_held [OF this] q_block(1) show ?thesis by simp
    qed (simp add: q_block(1) block_keeps_other)
  next
    case (q_approve_refused env action_id phrase who e fs')
    have "keeps_entry (le_action_id l) (qc_fs c) (snd (approve_section env (qc_fs c) action_id phrase who))"
    proof (cases "action_id = le_action_id l")
      case True
      then show ?thesis using approve_claimed recordable_claimed [OF assms(2)] by simp
    qed (rule approve_keeps_other)
    with q_approve_refused show ?thesis by simp
  next
    case (q_approve env action_id phrase who action fs')
    have "action_id \<noteq> le_action_id l" using q_approve(3) assms(3) by (auto simp: held_def)
    with approve_keeps_other [of action_id "le_action_id l" "qc_fs c" env phrase who] q_approve show ?thesis by simp
  next
    case (q_finish i clock env outcome)
    have "le_action_id (qc_flight c ! i) \<noteq> le_action_id l"
      using without_other [OF assms(5) q_finish(2), of l] assms(4) q_finish(1) by simp
    with q_finish(1) show ?thesis by (simp add: finish_keeps_other)
  qed simp
qed

interpretation flight: kept queue_step flights_recordable
proof
  fix c c'
  assume inv: "flights_recordable c" and step: "queue_step c c'"
  have old: "recordable (qc_fs c') l" if "l \<in> set (qc_flight c)" "l \<in> set (qc_flight c')" for l
    using step_keeps_flight [OF step _ that] inv that by (auto simp: flights_recordable_def)
  from step have "set (qc_flight c') \<subseteq> set (qc_flight c) \<and> distinct (map le_action_id (qc_flight c')) \<or>
      (\<exists>l. qc_flight c' = qc_flight c @ [l] \<and> \<not> held c (le_action_id l) \<and> recordable (qc_fs c') l)"
  proof cases
    case (q_approve env action_id phrase who action fs')
    then show ?thesis using dispatched_is_recordable [OF q_approve(2)] by (auto simp: lease_of_def)
  next
    case (q_finish i clock env outcome)
    then show ?thesis using inv
      by (auto simp: flights_recordable_def without_def map_append take_map [symmetric] drop_map [symmetric]
          distinct_take distinct_drop set_take_disj_set_drop_if_distinct dest: in_set_takeD in_set_dropD)
  next
    case (q_die i)
    then show ?thesis using inv
      by (auto simp: flights_recordable_def without_def map_append take_map [symmetric] drop_map [symmetric]
          distinct_take distinct_drop set_take_disj_set_drop_if_distinct dest: in_set_takeD in_set_dropD)
  qed (use inv in \<open>auto simp: flights_recordable_def\<close>)
  with inv old show "flights_recordable c'"
    by (auto simp: flights_recordable_def held_def)
qed

definition outcome_status :: "dispatched \<Rightarrow> pystr" where
  "outcome_status outcome = (if outcome = DispatchRaised then ''failed'' else ''completed'')"

lemma finish_recordable:
  assumes "recordable fs l" and "outcome \<noteq> ReturnedUnserializable"
  shows "\<exists>entry. queue_entry (snd (finish_section clock WriteOk fs l outcome)) (le_action_id l) entry \<and>
    dget entry ''status'' = JStr (outcome_status outcome)"
proof -
  obtain payload i a claim where q: "current_queue fs = Inr payload" "find_locked payload (le_action_id l) = Inr (i, a)"
    and a: "string_view a" "dget a ''status'' = JStr ''running''" "dget a ''arguments_hash'' = le_hash l"
      "verify_execution_claim (claims fs (le_action_id l)) a = Inr claim"
    using assms(1) by (auto simp: recordable_def queue_entry_def)
  have id: "text_of a ''action_id'' = le_action_id l" "dget a ''action_id'' = JStr (le_action_id l)"
    using find_locked_Inr(3) [OF q(2)] by (simp_all add: text_of_def)
  have "is_str (le_hash l)" using a(1,3) by (auto simp: string_view_def claim_view_def CLAIM_BINDING_FIELDS_def)
  then have "py_eq (le_hash l) (le_hash l)" by (cases "le_hash l") simp_all
  then have g: "transition_guards (claims fs) a ''running'' (le_hash l) = Inr ()"
    using a id by (simp add: transition_guards_def)
  have t: "\<exists>entry. queue_entry (snd (transition_locked clock WriteOk fs payload (le_action_id l) ''running'' (le_hash l) ns ev))
      (le_action_id l) entry \<and> dget entry ''status'' = JStr ns" for ns ev
  proof -
    let ?a = "dict_set (dict_set (dict_set a ''status'' (JStr ns)) ''updated_at'' (JStr (clock 0))) ''evidence'' (JObj ev)"
    let ?p = "dict_set (put_action payload i ?a) ''updated_at'' (JStr (clock 1))"
    have "find_locked ?p (le_action_id l) = Inr (i, ?a)"
      using find_locked_put_same [OF q(2), of ?a] id by simp
    from written_entry [OF this, of fs] have "queue_entry (fs\<lparr>queue_file := Holds (JObj (sorted_dict ?p))\<rparr>) (le_action_id l) (sorted_dict ?a)"
      by (simp add: current_queue_schema [OF q(1)])
    moreover have "snd (transition_locked clock WriteOk fs payload (le_action_id l) ''running'' (le_hash l) ns ev)
        = fs\<lparr>queue_file := Holds (JObj (sorted_dict ?p))\<rparr>"
      by (simp add: transition_locked_def q g store_action_def write_locked_def Let_def)
    moreover have "dget (sorted_dict ?a) ''status'' = JStr ns" by simp
    ultimately show ?thesis by auto
  qed
  show ?thesis using assms(2) t by (cases outcome) (auto simp: finish_section_def q outcome_status_def)
qed

end
