(* ===== verification/Queue_Runs.thy ===== *)
theory Queue_Runs
  imports Queue_History
begin

text \<open>
  The guarantees of a mission's action queue over its histories, the runs that succeed (an accepted
  charter initializes its queue, an approved action is dispatched and completed), the run in which a
  failed check before the dispatch leaves the action running, and a complete example.
\<close>

section \<open>Guarantees over histories\<close>

text \<open>
  C5: over every history of a mission's queue, with any number of processes approving, rejecting,
  recovering and crashing in any interleaving, no action identifier is dispatched twice, and every
  dispatched action has its execution claim on disk.
\<close>

theorem actions_dispatch_at_most_once:
  assumes "queue_step\<^sup>*\<^sup>* c c'" and "qc_log c = []"
  shows "distinct (qc_log c') \<and> (\<forall>a \<in> set (qc_log c'). claims (qc_fs c') a \<noteq> Missing)"
  using once.history [OF assms(1)] assms(2) by (simp add: dispatches_claimed_def)

text \<open>
  C7: the queue refines its abstract specification: every history moves the actions of the
  abstract queue along its edges (proposed to running, rejected or blocked; running to completed,
  failed or blocked), so no action ever disappears, changes its identity or leaves a terminal
  status; and an execution claim, once on disk, never changes.
\<close>

theorem queue_refines_specification:
  assumes "queue_step\<^sup>*\<^sup>* c c'"
  shows "spec_step\<^sup>*\<^sup>* (abs_queue (qc_fs c)) (abs_queue (qc_fs c')) \<and>
    grows_to (abs_queue (qc_fs c)) (abs_queue (qc_fs c')) \<and>
    (\<forall>a. claims (qc_fs c) a \<noteq> Missing \<longrightarrow> claims (qc_fs c') a = claims (qc_fs c) a)"
  using steps_evolve [OF assms] spec_steps_extend by (simp add: evolves_def)

text \<open>
  C6: an action is dispatched only if the queue proposes it, the caller gave exactly its approval
  phrase and a name, and nobody had claimed it; and then, right before the dispatch, the authority
  files hold an approved charter and decision that the action is bound to, within the human
  constraints, and the action carries the approval of this caller for exactly its arguments.
\<close>

theorem dispatch_needs_approval_and_authority:
  assumes "approve_section env fs action_id phrase who = (Inr action, fs')"
  shows "\<exists>proposal charter decision. queue_entry fs action_id proposal \<and> dget proposal ''status'' = JStr ''proposed'' \<and>
    dget proposal ''approval_phrase'' = JStr (py_strip phrase) \<and> who \<noteq> [] \<and>
    claims fs action_id = Missing \<and> claims fs' action_id \<noteq> Missing \<and>
    bound_state (ae_predispatch env) charter decision \<and> action_bound action charter decision \<and>
    dget action ''arguments'' = dget proposal ''arguments'' \<and> dget action ''status'' = JStr ''running'' \<and>
    dget (the_obj (dget action ''evidence'')) ''approved_by'' = JStr who \<and> approval_recorded action"
proof -
  obtain payload i proposal where q: "current_queue fs = Inr payload" "find_locked payload action_id = Inr (i, proposal)"
    and g: "checks (approval_guards proposal phrase who) = Inr ()"
    and c: "claims fs action_id = Missing" "claims fs' action_id \<noteq> Missing"
    and a: "action = dict_set (dict_set (dict_set proposal ''status'' (JStr ''running'')) ''updated_at'' (JStr (ae_clock env 2)))
           ''evidence'' (JObj (approval_evidence who (ae_clock env 0) (dget proposal ''arguments_hash'')))"
    and v: "validate_action_authority (ae_predispatch env) action PreDispatch = Inr ()"
    using assms by (rule approve_section_Inr)
  from validate_action_authority_steps [OF v] obtain charter decision caps where
    l: "load_authoritative_state (ae_predispatch env) = Inr (charter, decision)"
    and b: "checks (identity_guards PreDispatch action) = Inr ()" "checks (binding_guards action charter decision) = Inr ()"
      "provider_binding action charter decision = Inr caps" "checks (constraint_guards charter caps) = Inr ()"
    and r: "approval_on_record PreDispatch action = Inr ()" by blast
  have "queue_entry fs action_id proposal" using q by (auto simp: queue_entry_def)
  moreover have "dget (the_obj (dget action ''evidence'')) ''approved_by'' = JStr who"
    by (simp add: a approval_evidence_def)
  moreover have "dget action ''arguments'' = dget proposal ''arguments''" by (simp add: a)
  ultimately show ?thesis
    using g c loaded_state_is_bound [OF l] authorised_action_bound [OF b] approval_on_record_PreDispatch [OF r]
    unfolding approval_guards_def by auto
qed

text \<open>
  C13: while an action is dispatched nothing else can move it, whatever the other processes do: in
  every history, whenever its dispatch ends (with a value or an exception) and the disk accepts
  the write, the second locked section records the outcome as completed or failed.
\<close>

theorem dispatch_outcome_is_recorded:
  assumes "queue_step\<^sup>*\<^sup>* c c'" and "qc_flight c = []" and "l \<in> set (qc_flight c')"
    and "outcome \<noteq> ReturnedUnserializable"
  shows "\<exists>entry. queue_entry (snd (finish_section clock WriteOk (qc_fs c') l outcome)) (le_action_id l) entry \<and>
    dget entry ''status'' = JStr (outcome_status outcome)"
proof -
  have "flights_recordable c'" using flight.history [OF assms(1)] assms(2) by (simp add: flights_recordable_def)
  with assms(3) show ?thesis using finish_recordable [OF _ assms(4)] by (simp add: flights_recordable_def)
qed

section \<open>Runs that succeed\<close>

subsection \<open>Approval\<close>

definition approved :: "approve_env \<Rightarrow> pystr \<Rightarrow> jdict \<Rightarrow> jdict" where
  "approved env who proposal =
     dict_set (dict_set (dict_set proposal ''status'' (JStr ''running'')) ''updated_at'' (JStr (ae_clock env 2)))
       ''evidence'' (JObj (approval_evidence who (ae_clock env 0) (dget proposal ''arguments_hash'')))"

lemma dget_approved [simp]:
  "k \<notin> {''status'', ''updated_at'', ''evidence''} \<Longrightarrow> dget (approved env who a) k = dget a k"
  "k \<notin> {''status'', ''updated_at'', ''evidence''} \<Longrightarrow> dict_get (approved env who a) k = dict_get a k"
  "dget (approved env who a) ''status'' = JStr ''running''"
  "dget (approved env who a) ''evidence'' = JObj (approval_evidence who (ae_clock env 0) (dget a ''arguments_hash''))"
  by (simp_all add: approved_def)

lemma approved_passes:
  assumes "validate_action_authority files proposal Restore = Inr ()" and "who \<noteq> []" and "ae_clock env 0 \<noteq> []"
  shows "validate_action_authority files (approved env who proposal) PreDispatch = Inr ()"
proof -
  let ?a = "approved env who proposal"
  obtain charter decision caps where l: "load_authoritative_state files = Inr (charter, decision)"
    and g: "checks (identity_guards Restore proposal) = Inr ()" and b: "checks (binding_guards proposal charter decision) = Inr ()"
    and p: "provider_binding proposal charter decision = Inr caps" and c: "checks (constraint_guards charter caps) = Inr ()"
    using validate_action_authority_steps [OF assms(1)] by metis
  have "checks (identity_guards PreDispatch ?a) = Inr ()"
    using g by (simp add: guard_defs text_of_def expected_tier_def)
  moreover have "approval_on_record PreDispatch ?a = Inr ()"
    using g assms(2,3) by (auto simp: approval_on_record_def validate_approval_evidence_def strings_present_def
        approval_evidence_def guard_defs)
  moreover have "binding_guards ?a charter decision = binding_guards proposal charter decision"
    by (simp add: binding_guards_def text_of_def)
  moreover have "provider_binding ?a charter decision = provider_binding proposal charter decision"
    by (simp add: provider_binding_def text_of_def)
  ultimately show ?thesis
    using l b p c by (simp add: validate_action_authority_def del: checks_Inr)
qed

lemma fresh_claim_agrees:
  assumes "list_all is_str (map (dget a) CLAIM_BINDING_FIELDS)" and "list_all (\<lambda>k. dget a' k = dget a k) CLAIM_BINDING_FIELDS"
    and "is_dict (dget a' ''evidence'') \<Longrightarrow> the_obj (dget a' ''evidence'') = approval_evidence who at (dget a ''arguments_hash'')"
  shows "\<exists>claim. verify_execution_claim (Holds (JObj (sorted_dict (claim_payload now a who at)))) a' = Inr claim"
proof -
  have s: "is_str (dget a ''mission_id'')" "is_str (dget a ''plan_id'')" "is_str (dget a ''action_id'')" "is_str (dget a ''arguments_hash'')"
    using assms(1) by (simp_all add: CLAIM_BINDING_FIELDS_def)
  have e: "py_eq (sorted_json v) v" if "is_str v" for v using that by (cases v) simp_all
  have d: "dict_keys_eq (claim_payload now a who at) CLAIM_REQUIRED_KEYS"
    by (simp add: claim_payload_def dict_keys_eq_def CLAIM_REQUIRED_KEYS_def)
  have "agree_on (sorted_dict (claim_payload now a who at)) a' CLAIM_BINDING_FIELDS"
    using assms(2) e s by (simp add: agree_on_def CLAIM_BINDING_FIELDS_def claim_payload_def)
  moreover have "is_dict (dget a' ''evidence'') \<longrightarrow> agree_on (sorted_dict (claim_payload now a who at))
      (the_obj (dget a' ''evidence'')) [''approved_by'', ''approved_at'', ''arguments_hash'']"
    using assms(3) e s by (simp add: agree_on_def approval_evidence_def claim_payload_def)
  ultimately show ?thesis
    using d by (simp add: verify_execution_claim_def claim_shape_def) (simp add: claim_payload_def)
qed

lemma fresh_claim_published:
  assumes "list_all is_str (map (dget a) CLAIM_BINDING_FIELDS)"
  shows "publish_execution_claim Publishes now Missing a who at
    = (Inr (claim_payload now a who at), Holds (JObj (sorted_dict (claim_payload now a who at))))"
proof -
  have e: "py_eq v v" if "is_str v" for v using that by (cases v) simp_all
  have "agree_on (claim_payload now a who at) (claim_payload now a who at) CLAIM_BINDING_FIELDS"
    using assms e by (simp add: agree_on_def CLAIM_BINDING_FIELDS_def claim_payload_def)
  then show ?thesis
    by (simp add: publish_execution_claim_def publish_once_def claim_shape_def Let_def)
      (simp add: claim_payload_def dict_keys_eq_def CLAIM_REQUIRED_KEYS_def)
qed

text \<open>An environment in which the claim, the lease and the write of the queue go well.\<close>

definition unobstructed :: "approve_env \<Rightarrow> bool" where
  "unobstructed env \<longleftrightarrow> ae_publish env = Publishes \<and> ae_lease env = LeaseFree \<and> ae_write env = WriteOk \<and> ae_clock env 0 \<noteq> []"

text \<open>A cooperative one, in which the authority files stay as they are too.\<close>

definition cooperative :: "approve_env \<Rightarrow> authority_files \<Rightarrow> bool" where
  "cooperative env files \<longleftrightarrow> unobstructed env \<and> ae_restore env = files \<and> ae_predispatch env = files"

text \<open>The approval gets as far as the check before the dispatch, with the claim and the running
  action on disk.\<close>

lemma approval_reaches_check:
  assumes "queue_entry fs action_id proposal" and "validate_action_authority (ae_restore env) proposal Restore = Inr ()"
    and "checks (approval_guards proposal phrase who) = Inr ()" and "\<not> is_dict (dget proposal ''evidence'')"
    and "claims fs action_id = Missing" and "unobstructed env"
  obtains payload i fs2 c where "approve_section env fs action_id phrase who
      = dispatch_check env fs2 payload action_id (dget proposal ''arguments_hash'') (approved env who proposal)"
    and "queue_file fs2 = Holds (JObj (sorted_dict payload))" and "dget payload ''schema_version'' = JStr ACTION_SCHEMA_VERSION"
    and "find_locked payload action_id = Inr (i, approved env who proposal)"
    and "verify_execution_claim (claims fs2 action_id) (approved env who proposal) = Inr c"
proof -
  note env = assms(6) [unfolded unobstructed_def]
  obtain payload i where q: "current_queue fs = Inr payload" "find_locked payload action_id = Inr (i, proposal)"
    using assms(1) by (auto simp: queue_entry_def)
  have id: "text_of proposal ''action_id'' = action_id" "dget (approved env who proposal) ''action_id'' = JStr action_id"
    using find_locked_Inr(3) [OF q(2)] by (simp_all add: text_of_def)
  obtain charter decision caps where "checks (identity_guards Restore proposal) = Inr ()"
    using validate_action_authority_steps [OF assms(2)] by metis
  then have s: "list_all is_str (map (dget proposal) CLAIM_BINDING_FIELDS)"
    by (auto simp: guard_defs nonempty_str_iff CLAIM_BINDING_FIELDS_def)
  let ?claim = "Holds (JObj (sorted_dict (claim_payload (ae_clock env 1) proposal who (ae_clock env 0))))"
  let ?fs1 = "fs\<lparr>claims := (claims fs)(action_id := ?claim)\<rparr>"
  have status: "dget proposal ''status'' = JStr ''proposed''" using assms(3) by (simp add: approval_guards_def)
  have "\<exists>c1. verify_execution_claim ?claim proposal = Inr c1"
    by (rule fresh_claim_agrees [OF s]) (use assms(4) in \<open>simp_all add: list_all_iff\<close>)
  then obtain c1 where v1: "verify_execution_claim ?claim proposal = Inr c1" ..
  have "\<exists>c2. verify_execution_claim ?claim (approved env who proposal) = Inr c2"
    by (rule fresh_claim_agrees [OF s]) (simp_all add: CLAIM_BINDING_FIELDS_def)
  then obtain c2 where v2: "verify_execution_claim ?claim (approved env who proposal) = Inr c2" ..
  have "py_eq (dget proposal ''arguments_hash'') (dget proposal ''arguments_hash'')"
    using s by (cases "dget proposal ''arguments_hash''") (simp_all add: CLAIM_BINDING_FIELDS_def)
  then have g: "transition_guards (claims ?fs1) proposal ''proposed'' (dget proposal ''arguments_hash'') = Inr ()"
    by (simp add: transition_guards_def status id v1 del: One_nat_def)
  let ?p = "dict_set (put_action payload i (approved env who proposal)) ''updated_at'' (JStr (ae_clock env 3))"
  have t: "transition_locked (\<lambda>n. ae_clock env (n + 2)) WriteOk ?fs1 payload action_id ''proposed'' (dget proposal ''arguments_hash'')
      ''running'' (approval_evidence who (ae_clock env 0) (dget proposal ''arguments_hash''))
      = (Inr (approved env who proposal, ?p), ?fs1\<lparr>queue_file := Holds (JObj (sorted_dict ?p))\<rparr>)"
    unfolding transition_locked_def q or_raise_simps prod.case g
    by (simp add: store_action_def write_locked_def Let_def approved_def numeral_2_eq_2 numeral_3_eq_3)
  show thesis
  proof (rule that)
    show "approve_section env fs action_id phrase who = dispatch_check env (?fs1\<lparr>queue_file := Holds (JObj (sorted_dict ?p))\<rparr>) ?p
        action_id (dget proposal ''arguments_hash'') (approved env who proposal)"
      unfolding approve_section_def q or_raise_simps prod.case assms(3) Let_def
      using env by (simp only: assms(2,5) or_raise_simps fresh_claim_published [OF s] prod.case acquire_lease_def lease_env.case t
          sum.case)
    show "find_locked ?p action_id = Inr (i, approved env who proposal)"
      using find_locked_put_same [OF q(2) id(2)] by simp
  qed (use v2 current_queue_schema [OF q(1)] in simp_all)
qed

lemma cooperative_approval:
  assumes "queue_entry fs action_id proposal" and "validate_action_authority files proposal Restore = Inr ()"
    and "checks (approval_guards proposal phrase who) = Inr ()" and "\<not> is_dict (dget proposal ''evidence'')"
    and "claims fs action_id = Missing" and "cooperative env files"
  shows "\<exists>fs'. approve_section env fs action_id phrase who = (Inr (approved env who proposal), fs')"
proof -
  note env = assms(6) [unfolded cooperative_def]
  from env assms(2) have r: "validate_action_authority (ae_restore env) proposal Restore = Inr ()" by simp
  obtain payload i fs2 c where a: "approve_section env fs action_id phrase who
      = dispatch_check env fs2 payload action_id (dget proposal ''arguments_hash'') (approved env who proposal)"
    and f: "find_locked payload action_id = Inr (i, approved env who proposal)"
    and c: "verify_execution_claim (claims fs2 action_id) (approved env who proposal) = Inr c"
    using approval_reaches_check [OF assms(1) r assms(3-5)] env by metis
  have "text_of (approved env who proposal) ''action_id'' = action_id"
    using find_locked_Inr(3) [OF f] by (simp add: text_of_def)
  moreover have "who \<noteq> []" using assms(3) by (simp add: approval_guards_def)
  ultimately show ?thesis
    using approved_passes [OF assms(2)] env c by (simp add: a dispatch_check_def unobstructed_def)
qed

text \<open>
  An approval in a cooperative environment reaches its end: an action that the queue proposes,
  that passes the checkpoint, nobody has claimed and the caller approves with its phrase and a
  name is dispatched, and when the dispatch returns the queue holds the action as completed.
\<close>

theorem approved_action_completes:
  assumes "queue_entry fs action_id proposal" and "validate_action_authority files proposal Restore = Inr ()"
    and "dget proposal ''status'' = JStr ''proposed''" and "dget proposal ''approval_phrase'' = JStr (py_strip phrase)"
    and "who \<noteq> []" and "\<not> is_dict (dget proposal ''evidence'')" and "claims fs action_id = Missing"
    and "cooperative env files"
  shows "\<exists>action fs' entry. approve_section env fs action_id phrase who = (Inr action, fs') \<and>
    dget action ''arguments'' = dget proposal ''arguments'' \<and>
    queue_entry (snd (finish_section clock WriteOk fs' (lease_of env action_id who action) (Returned v))) action_id entry \<and>
    dget entry ''status'' = JStr ''completed''"
proof -
  have "checks (approval_guards proposal phrase who) = Inr ()" using assms(3-5) by (simp add: approval_guards_def)
  from cooperative_approval [OF assms(1,2) this assms(6-8)] obtain fs' where
    a: "approve_section env fs action_id phrase who = (Inr (approved env who proposal), fs')" by blast
  from finish_recordable [OF dispatched_is_recordable [OF a], of "Returned v" clock] obtain entry where
    "queue_entry (snd (finish_section clock WriteOk fs' (lease_of env action_id who (approved env who proposal)) (Returned v))) action_id entry"
    "dget entry ''status'' = JStr ''completed''"
    by (auto simp: outcome_status_def lease_of_def)
  with a show ?thesis by fastforce
qed

subsection \<open>Initialization\<close>

lemma check_skills_all:
  "check_skills charter decision xs = Inr () \<longleftrightarrow>
     (\<forall>s \<in> set xs. \<exists>caps. effective_capabilities s (provider_for decision s) = Inr caps \<and>
        checks (constraint_guards charter caps) = Inr ())"
  by (induction xs) auto

lemma loaded_shapes:
  assumes "load_authoritative_state files = Inr (charter, decision)"
  shows "validate_charter_shape True charter = Inr ()" "validate_charter_skill_registration charter = Inr ()"
    "validate_decision_shape decision = Inr ()"
  using assms by (auto simp: load_authoritative_state_def)

lemma selection_strings:
  "validate_decision_shape decision = Inr () \<Longrightarrow> k \<in> set SELECTION_REQUIRED_KEYS \<Longrightarrow> nonempty_str (selected decision k)"
  by (auto simp: shape_defs SELECTION_REQUIRED_KEYS_def selected_def)

lemma dget_update_simps [simp]:
  "dget (dict_update d []) k = dget d k"
  "dget (dict_update d ((k', v) # kvs)) k = dget (dict_update (dict_set d k' v) kvs) k"
  "dict_get (dict_update d []) k = dict_get d k"
  "dict_get (dict_update d ((k', v) # kvs)) k = dict_get (dict_update (dict_set d k' v) kvs) k"
  by (simp_all add: dict_update_def)

text \<open>The skill may be used under the charter, and its provider's profile respects the constraints.\<close>

definition usable :: "jdict \<Rightarrow> jdict \<Rightarrow> pystr \<Rightarrow> capabilities \<Rightarrow> bool" where
  "usable charter decision skill caps \<longleftrightarrow> effective_capabilities skill (provider_for decision skill) = Inr caps \<and>
     checks (constraint_guards charter caps) = Inr () \<and> fst (local_guard charter decision)"

lemma built_arguments:
  assumes "build_action now m p skill tier charter decision [] = Inr a"
    and "effective_capabilities skill (provider_for decision skill) = Inr caps"
  obtains s where "a = action_of now m p skill tier s
      (dict_update [] (binding_arguments p skill tier charter decision @
         (if skill \<in> set PROVIDER_SKILL_IDS then provider_arguments decision caps else [])))"
  using assms by (auto simp: build_action_def Let_def provider_for_def dict_update_def split: option.splits if_splits)

lemma built_action_identity:
  assumes "m \<noteq> []" and "p \<noteq> []" and "skill \<noteq> []"
    and that: "\<And>k. k \<in> {''skill_id'', ''tier'', ''plan_id''} \<Longrightarrow> k \<notin> fst ` set rest"
  shows "checks (identity_guards QueueInit (action_of now m p skill ''initial'' s
      (dict_update [] (binding_arguments p skill ''initial'' charter decision @ rest)))) = Inr ()"
proof -
  let ?args = "dict_update [] (binding_arguments p skill ''initial'' charter decision @ rest)"
  have u: "dict_get (dict_update d kvs) k = dict_get d k" if "k \<notin> fst ` set kvs" for d kvs :: jdict and k
    using that by (induction kvs arbitrary: d) auto
  have r: "dict_update [] (binding_arguments p skill ''initial'' charter decision @ rest)
      = dict_update (dict_update [] (binding_arguments p skill ''initial'' charter decision)) rest"
    by (simp add: dict_update_def)
  have "dict_get ?args ''skill_id'' = Some (JStr skill)" "dict_get ?args ''tier'' = Some (JStr ''initial'')"
    "dict_get ?args ''plan_id'' = Some (JStr p)"
    using that by (simp_all add: r u) (simp_all add: binding_arguments_def)
  then have d: "dict_get ?args ''skill_id'' = Some (JStr skill)" "dget ?args ''skill_id'' = JStr skill"
    "dict_get ?args ''tier'' = Some (JStr ''initial'')" "dget ?args ''tier'' = JStr ''initial''"
    "dict_get ?args ''plan_id'' = Some (JStr p)" "dget ?args ''plan_id'' = JStr p"
    by (simp_all add: dget_def)
  show ?thesis
    using assms d
    by (simp add: identity_guards_def presence_def text_fields_def action_fields_def Let_def action_of_def text_of_def
        expected_tier_def compute_action_id_def compute_arguments_hash_def)
qed

lemma built_action_passes:
  assumes l: "load_authoritative_state files = Inr (charter, decision)" and m: "dget charter ''mission_id'' = JStr m"
    and "p \<noteq> []" and s: "skill \<in> set (the_strs (dget charter ''proposed_skills''))"
    and b: "build_action now m p skill ''initial'' charter decision [] = Inr a" and u: "usable charter decision skill caps"
  shows "validate_action_authority files a QueueInit = Inr ()"
proof -
  let ?rest = "if skill \<in> set PROVIDER_SKILL_IDS then provider_arguments decision caps else []"
  let ?args = "dict_update [] (binding_arguments p skill ''initial'' charter decision @ ?rest)"
  have e: "effective_capabilities skill (provider_for decision skill) = Inr caps" using u by (simp add: usable_def)
  obtain sk where a: "a = action_of now m p skill ''initial'' sk ?args" using built_arguments [OF b e] by blast
  note sh = loaded_shapes [OF l]
  from sh(1) m have "m \<noteq> []" by (simp add: shape_defs)
  from sh(2) s have reg: "dict_get SKILLS skill \<noteq> None" "skill \<notin> set (the_strs (dget charter ''forbidden_skills''))"
    by (auto simp: validate_charter_skill_registration_def Let_def list_all_iff)
  then have "skill \<noteq> []" by (auto simp: SKILLS_def)
  have "checks (identity_guards QueueInit a) = Inr ()"
    unfolding a by (rule built_action_identity) (use \<open>m \<noteq> []\<close> \<open>p \<noteq> []\<close> \<open>skill \<noteq> []\<close> in \<open>auto simp: provider_arguments_def\<close>)
  moreover have args: "dget a ''arguments'' = JObj ?args" and ids: "dget a ''mission_id'' = JStr m" "dget a ''skill_id'' = JStr skill"
      "dget a ''tier'' = JStr ''initial''"
    by (simp_all add: a action_of_def Let_def)
  have "checks (binding_guards a charter decision) = Inr ()"
    using reg s m by (auto simp: binding_guards_def args ids text_of_def presence_def binding_arguments_def provider_arguments_def)
  moreover have "provider_binding a charter decision = Inr caps"
  proof (cases "skill \<in> set PROVIDER_SKILL_IDS")
    case True
    have "nonempty_str (selected decision k)" if "k \<in> {''provider'', ''model'', ''strategy'', ''selection_source''}" for k
      using selection_strings [OF sh(3)] that by (auto simp: SELECTION_REQUIRED_KEYS_def)
    with True e u show ?thesis
      by (simp add: provider_binding_def args ids text_of_def provider_guards_def presence_def text_fields_def selection_fields_def
          binding_arguments_def provider_arguments_def provider_for_def usable_def local_guard_def)
  next
    case False
    with e show ?thesis by (simp add: provider_binding_def args ids text_of_def provider_for_def)
  qed
  ultimately show ?thesis
    using l u by (simp add: validate_action_authority_def approval_on_record_def usable_def)
qed

lemma sorted_str: "nonempty_str v \<Longrightarrow> sorted_json v = v"
  by (cases v) simp_all

text \<open>An action read back from the queue file passes whenever the one in memory does.\<close>

lemma stored_action_passes:
  assumes "validate_action_authority files a ph = Inr ()"
  shows "validate_action_authority files (sorted_dict a) ph = Inr ()"
proof -
  obtain charter decision caps where l: "load_authoritative_state files = Inr (charter, decision)"
    and g: "checks (identity_guards ph a) = Inr ()" and r: "approval_on_record ph a = Inr ()"
    and b: "checks (binding_guards a charter decision) = Inr ()"
    and p: "provider_binding a charter decision = Inr caps" and c: "checks (constraint_guards charter caps) = Inr ()"
    using validate_action_authority_steps [OF assms] by metis
  let ?d = "the_obj (dget a ''arguments'')"
  have ids: "nonempty_str (dget charter ''charter_id'')" "nonempty_str (dget decision ''decision_id'')"
    "nonempty_str (dget charter ''mission_id'')"
    using loaded_shapes [OF l] by (simp_all add: shape_defs)
  have "checks (identity_guards ph (sorted_dict a)) = Inr ()"
    using g by (auto simp: guard_defs text_of_def compute_arguments_hash_def expected_tier_def nonempty_str_iff)
  moreover have "approval_on_record ph (sorted_dict a) = Inr ()"
    using r by (auto simp: approval_on_record_def validate_approval_evidence_def strings_present_def Let_def split: if_splits)
  moreover have "checks (binding_guards (sorted_dict a) charter decision) = Inr ()"
    using b ids by (auto simp: binding_guards_def presence_def text_of_def Let_def sorted_str)
  moreover have "provider_binding (sorted_dict a) charter decision = Inr caps"
  proof (cases "text_of a ''skill_id'' \<in> set PROVIDER_SKILL_IDS")
    case True
    with p have pg: "checks (provider_guards ?d decision) = Inr ()" by (auto simp: provider_binding_def Let_def)
    then have "checks (provider_guards (sorted_dict ?d) decision) = Inr ()"
      by (auto simp: guard_defs nonempty_str_iff)
    with True p show ?thesis by (auto simp: provider_binding_def Let_def text_of_def)
  qed (use p in \<open>simp add: provider_binding_def text_of_def\<close>)
  ultimately show ?thesis using l c by (simp add: validate_action_authority_def)
qed

lemma proposed_restores:
  assumes "validate_action_authority files a QueueInit = Inr ()" and "dget a ''status'' = JStr ''proposed''"
  shows "validate_action_authority files a Restore = Inr ()"
proof -
  have "checks (identity_guards Restore a) = Inr ()" if "checks (identity_guards QueueInit a) = Inr ()"
    using that by (auto simp: identity_guards_def expected_tier_def Let_def)
  with assms show ?thesis
    by (auto simp: validate_action_authority_def approval_on_record_def)
qed

lemma build_all_passes:
  assumes "load_authoritative_state files = Inr (charter, decision)" and "dget charter ''mission_id'' = JStr m" and "p \<noteq> []"
    and "set skills \<subseteq> set (the_strs (dget charter ''proposed_skills''))"
    and "\<And>s. s \<in> set skills \<Longrightarrow> \<exists>caps. usable charter decision s caps"
  shows "\<exists>actions. build_all clock n m p charter decision skills = Inr actions \<and>
    map (\<lambda>a. dget a ''skill_id'') actions = map JStr skills \<and>
    list_all (\<lambda>a. validate_action_authority files a QueueInit = Inr ()) actions"
  using assms(4,5)
proof (induction skills arbitrary: n)
  case (Cons s skills)
  obtain caps where u: "usable charter decision s caps" using Cons.prems(2) by auto
  have "dict_get SKILLS s \<noteq> None"
    using loaded_shapes(2) [OF assms(1)] Cons.prems(1) by (auto simp: validate_charter_skill_registration_def Let_def list_all_iff)
  with u have "\<exists>a. build_action (clock n) m p s ''initial'' charter decision [] = Inr a"
    by (cases "s \<in> set PROVIDER_SKILL_IDS") (auto simp: build_action_def usable_def provider_for_def Let_def)
  then obtain a where b: "build_action (clock n) m p s ''initial'' charter decision [] = Inr a" ..
  have "validate_action_authority files a QueueInit = Inr ()"
    by (rule built_action_passes [OF assms(1-3) _ b u]) (use Cons.prems(1) in simp)
  moreover have "dget a ''skill_id'' = JStr s"
    using b by (auto simp: build_action_def action_of_def Let_def split: option.splits)
  moreover obtain actions where "build_all clock (Suc n) m p charter decision skills = Inr actions \<and>
    map (\<lambda>a. dget a ''skill_id'') actions = map JStr skills \<and>
    list_all (\<lambda>a. validate_action_authority files a QueueInit = Inr ()) actions"
    using Cons.IH [of "Suc n"] Cons.prems by auto
  ultimately show ?case by (auto simp: b)
qed simp

lemma validate_all_constant:
  "list_all (\<lambda>a. validate_action_authority files a QueueInit = Inr ()) actions \<Longrightarrow> validate_all (\<lambda>_. files) n actions = Inr ()"
  by (induction actions arbitrary: n) auto

text \<open>The approved charter keeps what the construction check looked at.\<close>

definition same_terms :: "jdict \<Rightarrow> jdict \<Rightarrow> jdict \<Rightarrow> jdict \<Rightarrow> bool" where
  "same_terms candidate candidate_decision charter decision \<longleftrightarrow>
     (\<forall>k \<in> {''human_constraints'', ''proposed_skills'', ''allowed_followup_skills''}.
        dget charter k = sorted_json (dget candidate k)) \<and>
     dget decision ''selection'' = sorted_json (dget candidate_decision ''selection'')"

lemma construction_gives_usable:
  assumes "validate_charter_construction candidate cd = Inr ()" and "same_terms candidate cd charter decision"
    and "s \<in> set (the_strs (dget charter ''proposed_skills''))"
  shows "\<exists>caps. usable charter decision s caps"
proof -
  have h: "human_constraint charter k = human_constraint candidate k" for k
    using assms(2) by (simp add: same_terms_def human_constraint_def)
  have p: "the_str (selected decision ''provider'') = the_str (selected cd ''provider'')"
    using assms(2) by (simp add: same_terms_def selected_def)
  have "s \<in> set (the_strs (dget candidate ''proposed_skills''))" using assms(2,3) by (simp add: same_terms_def)
  with assms(1) obtain caps where "effective_capabilities s (provider_for cd s) = Inr caps"
      "checks (constraint_guards candidate caps) = Inr ()" "fst (local_guard candidate cd)"
    by (auto simp: validate_charter_construction_def check_skills_all)
  then show ?thesis
    by (auto simp: usable_def provider_for_def constraint_guards_def local_guard_def h p)
qed

lemma charter_initializes:
  assumes "validate_charter_construction candidate cd = Inr ()"
    and "load_authoritative_state files = Inr (charter, decision)"
    and "same_terms candidate cd charter decision"
    and "queue_file fs = Missing" and "plan_id \<noteq> []"
  shows "\<exists>payload actions. initialize clock (\<lambda>_. files) WriteOk fs (dir_name files) plan_id
        = (Inr payload, fs\<lparr>queue_file := Holds (JObj (sorted_dict payload))\<rparr>) \<and>
    dget (sorted_dict payload) ''actions'' = JList (map JObj actions) \<and>
    map (\<lambda>a. dget a ''skill_id'') actions = map JStr (the_strs (dget charter ''proposed_skills'')) \<and>
    list_all (\<lambda>a. dget a ''status'' = JStr ''proposed'' \<and> validate_action_authority files a Restore = Inr ()) actions"
proof -
  have m: "dget charter ''mission_id'' = JStr (dir_name files)"
    using loaded_state_is_bound [OF assms(2)] by (simp add: bound_state_def)
  obtain actions where b: "build_all clock 0 (dir_name files) plan_id charter decision (the_strs (dget charter ''proposed_skills'')) = Inr actions"
    and s: "map (\<lambda>a. dget a ''skill_id'') actions = map JStr (the_strs (dget charter ''proposed_skills''))"
    and v: "list_all (\<lambda>a. validate_action_authority files a QueueInit = Inr ()) actions"
    using build_all_passes [OF assms(2) m assms(5) subset_refl construction_gives_usable [OF assms(1,3)]] by blast
  let ?p = "dict_set (initial_queue (dir_name files) plan_id actions) ''updated_at'' (JStr (clock (length actions)))"
  have "initialize clock (\<lambda>_. files) WriteOk fs (dir_name files) plan_id
      = (Inr ?p, fs\<lparr>queue_file := Holds (JObj (sorted_dict ?p))\<rparr>)"
    by (simp add: initialize_def assms(2,4) m b validate_all_constant [OF v] raised_def write_locked_def Let_def)
  moreover have "dget (sorted_dict ?p) ''actions'' = JList (map JObj (map sorted_dict actions))"
    by (simp add: initial_queue_def comp_def)
  moreover have "map (\<lambda>a. dget a ''skill_id'') (map sorted_dict actions) = map JStr (the_strs (dget charter ''proposed_skills''))"
  proof -
    have "map (sorted_json \<circ> (\<lambda>a. dget a ''skill_id'')) actions = map sorted_json (map JStr (the_strs (dget charter ''proposed_skills'')))"
      using s by (metis map_map)
    then show ?thesis by (simp add: comp_def)
  qed
  moreover have "list_all (\<lambda>a. dget a ''status'' = JStr ''proposed'' \<and> validate_action_authority files a Restore = Inr ()) (map sorted_dict actions)"
    using v build_all_proposed [OF b] stored_action_passes [OF proposed_restores] by (simp add: list_all_iff)
  ultimately show ?thesis by blast
qed

text \<open>
  A charter candidate that the construction check accepts, once approved with its terms
  unchanged, initializes its queue: one proposed action per proposed skill, in order, and every
  action that the queue file then holds passes the checkpoint.
\<close>

theorem accepted_charter_initializes:
  assumes "validate_charter_construction candidate cd = Inr ()"
    and "load_authoritative_state files = Inr (charter, decision)"
    and "same_terms candidate cd charter decision"
    and "queue_file fs = Missing" and "plan_id \<noteq> []"
  shows "\<exists>payload actions. initialize clock (\<lambda>_. files) WriteOk fs (dir_name files) plan_id
        = (Inr payload, fs\<lparr>queue_file := Holds (JObj (sorted_dict payload))\<rparr>) \<and>
    dget (sorted_dict payload) ''actions'' = JList (map JObj actions) \<and>
    map (\<lambda>a. dget a ''skill_id'') actions = map JStr (the_strs (dget charter ''proposed_skills'')) \<and>
    list_all (\<lambda>a. dget a ''status'' = JStr ''proposed'' \<and> validate_action_authority files a Restore = Inr ()) actions"
  using assms by (rule charter_initializes)

section \<open>A failed check before the dispatch\<close>

lemma no_authority: "load_authoritative_state files = Inl e \<Longrightarrow> \<exists>e. validate_action_authority files action ph = Inl e"
  by (cases "checks (identity_guards ph action)"; cases "approval_on_record ph action")
    (simp_all add: validate_action_authority_def del: checks_Inr)

text \<open>
  When the authority files stop being valid between the approval and the check before the
  dispatch, the action is not marked blocked: \<open>_mark_blocked_locked\<close> validates it against the same
  files and raises too, so the queue keeps it as running, with its claim and a free lease; and while
  the files stay invalid the recovery operation leaves it running as well.
\<close>

theorem failed_check_leaves_action_running:
  assumes "queue_entry fs action_id proposal" and "validate_action_authority (ae_restore env) proposal Restore = Inr ()"
    and "dget proposal ''status'' = JStr ''proposed''" and "dget proposal ''approval_phrase'' = JStr (py_strip phrase)"
    and "who \<noteq> []" and "\<not> is_dict (dget proposal ''evidence'')" and "claims fs action_id = Missing"
    and "unobstructed env" and "load_authoritative_state (ae_predispatch env) = Inl e" and "ae_blocked env = ae_predispatch env"
  shows "\<exists>e' fs' entry. approve_section env fs action_id phrase who = (Inl e', fs') \<and>
    queue_entry fs' action_id entry \<and> dget entry ''status'' = JStr ''running'' \<and> claims fs' action_id \<noteq> Missing \<and>
    snd (block_interrupted_action_checked clock (ae_predispatch env) files l w fs' action_id phrase' h reason) = fs'"
proof -
  let ?a = "approved env who proposal"
  have g: "checks (approval_guards proposal phrase who) = Inr ()" using assms(3-5) by (simp add: approval_guards_def)
  obtain payload i fs2 c where a: "approve_section env fs action_id phrase who
      = dispatch_check env fs2 payload action_id (dget proposal ''arguments_hash'') ?a"
    and q: "queue_file fs2 = Holds (JObj (sorted_dict payload))" "dget payload ''schema_version'' = JStr ACTION_SCHEMA_VERSION"
    and f: "find_locked payload action_id = Inr (i, ?a)"
    and c: "verify_execution_claim (claims fs2 action_id) ?a = Inr c"
    using approval_reaches_check [OF assms(1,2) g assms(6-8)] by metis
  obtain e1 e2 where v: "validate_action_authority (ae_predispatch env) ?a PreDispatch = Inl e1"
      "validate_action_authority (ae_predispatch env) ?a Restore = Inl e2"
    using no_authority [OF assms(9)] by metis
  have m: "\<exists>e3. mark_blocked_locked ck (ae_predispatch env) w2 fs2 payload action_id st hh rs = (Inl e3, fs2)" for ck w2 st hh rs
    by (cases "transition_guards (claims fs2) ?a st hh") (simp_all add: mark_blocked_locked_def f v)
  obtain e3 where b: "mark_blocked_locked (\<lambda>n. ae_clock env (n + 4)) (ae_predispatch env) (ae_block_write env) fs2 payload
                 action_id ''running'' (dget proposal ''arguments_hash'')
                 ''authority or claim check failed after claim and before dispatch'' = (Inl e3, fs2)"
    using m by blast
  have d: "dispatch_check env fs2 payload action_id (dget proposal ''arguments_hash'') ?a = (Inl e3, fs2)"
    by (simp add: dispatch_check_def v b assms(10))
  have "current_queue fs2 = Inr (sorted_dict payload)" by (rule current_queue_holds [OF q(1)]) (simp add: q(2))
  with find_locked_sorted [OF f] have entry: "queue_entry fs2 action_id (sorted_dict ?a)" by (auto simp: queue_entry_def)
  have block: "snd (block_interrupted_action_checked clock (ae_predispatch env) files l w fs2 action_id phrase' h reason) = fs2"
  proof -
    have "validate_action_authority (ae_predispatch env) b Restore \<noteq> Inr ()" for b
      using no_authority [OF assms(9), of b Restore] by auto
    then show ?thesis by (auto simp: block_interrupted_action_checked_def or_raise_def split: sum.split)
  qed
  have "claims fs2 action_id \<noteq> Missing" using c by (auto simp: verify_execution_claim_def)
  with a d entry block show ?thesis by auto
qed

section \<open>An example queue\<close>

definition demo_proposal :: jdict where
  "demo_proposal = [
     (''action_id'', dget demo_action ''action_id''), (''mission_id'', JStr ''mission-1''), (''plan_id'', JStr ''plan-1''),
     (''skill_id'', JStr ''run_technical_plan''), (''tier'', JStr ''initial''), (''arguments'', JObj demo_arguments),
     (''arguments_hash'', JStr (canonical_digest demo_arguments)), (''status'', JStr ''proposed''),
     (''approval_phrase'', JStr ''APROBAR'')]"

definition demo_id :: pystr where
  "demo_id = compute_action_id ''mission-1'' ''run_technical_plan'' (canonical_digest demo_arguments)"

definition demo_queue_fs :: mission_fs where
  "demo_queue_fs = \<lparr>queue_file = Holds (JObj [(''schema_version'', JStr ACTION_SCHEMA_VERSION), (''actions'', JList [JObj demo_proposal])]),
     claims = (\<lambda>_. Missing)\<rparr>"

definition demo_approve_env :: "authority_files \<Rightarrow> approve_env" where
  "demo_approve_env files = \<lparr>ae_clock = (\<lambda>_. ''now''), ae_restore = demo_files, ae_publish = Publishes, ae_lease = LeaseFree,
     ae_write = WriteOk, ae_predispatch = files, ae_blocked = files, ae_block_write = WriteOk\<rparr>"

definition demo_conf :: queue_conf where
  "demo_conf = \<lparr>qc_fs = demo_queue_fs, qc_flight = [], qc_log = []\<rparr>"

lemma demo_entry: "queue_entry demo_queue_fs demo_id demo_proposal"
  by (simp add: queue_entry_def demo_queue_fs_def current_queue_def load_queue_def require_current_schema_def as_dict_def
      find_locked_def queue_actions_def iterate_def) (simp add: demo_proposal_def demo_action_def demo_id_def)

lemma demo_proposal_passes: "validate_action_authority demo_files demo_proposal Restore = Inr ()"
proof -
  have d: "dget demo_proposal k = dget demo_action k" "dict_get demo_proposal k = dict_get demo_action k"
    if "k \<in> fst ` set action_fields" for k
    using that by (auto simp: demo_proposal_def demo_action_def action_fields_def)
  have "identity_guards Restore demo_proposal = identity_guards Restore demo_action"
    by (simp add: identity_guards_def presence_def text_fields_def action_fields_def text_of_def d [unfolded action_fields_def])
  moreover have "binding_guards demo_proposal = binding_guards demo_action" "provider_binding demo_proposal = provider_binding demo_action"
    by (simp_all add: fun_eq_iff binding_guards_def provider_binding_def text_of_def d [unfolded action_fields_def])
  moreover have "approval_on_record Restore demo_proposal = Inr ()" by (simp add: approval_on_record_def demo_proposal_def)
  ultimately show ?thesis
    using demo_action_authorised [of Restore] by (auto simp: validate_action_authority_def)
qed

lemma demo_approval: "dget demo_proposal ''status'' = JStr ''proposed''"
  "dget demo_proposal ''approval_phrase'' = JStr (py_strip ''APROBAR'')" "\<not> is_dict (dget demo_proposal ''evidence'')"
  "claims demo_queue_fs demo_id = Missing" "unobstructed (demo_approve_env files)" "cooperative (demo_approve_env demo_files) demo_files"
  by (simp_all add: demo_proposal_def demo_queue_fs_def cooperative_def unobstructed_def demo_approve_env_def py_strip_def py_isspace_def
      code_point_def)

lemma demo_dispatch:
  obtains fs' where "approve_section (demo_approve_env demo_files) demo_queue_fs demo_id ''APROBAR'' ''human''
    = (Inr (approved (demo_approve_env demo_files) ''human'' demo_proposal), fs')"
  using cooperative_approval [OF demo_entry demo_proposal_passes _ demo_approval(3,4,6), of "''APROBAR''" "''human''"] demo_approval(1,2)
  by (auto simp: approval_guards_def)

lemma demo_queue_history:
  obtains c l where "queue_step\<^sup>*\<^sup>* demo_conf c" and "qc_log c = [demo_id]" and "qc_flight c = [l]" and "le_action_id l = demo_id"
proof -
  obtain fs' where a: "approve_section (demo_approve_env demo_files) demo_queue_fs demo_id ''APROBAR'' ''human''
    = (Inr (approved (demo_approve_env demo_files) ''human'' demo_proposal), fs')" by (rule demo_dispatch)
  let ?l = "lease_of (demo_approve_env demo_files) demo_id ''human'' (approved (demo_approve_env demo_files) ''human'' demo_proposal)"
  have "approve_section (demo_approve_env demo_files) (qc_fs demo_conf) demo_id ''APROBAR'' ''human''
    = (Inr (approved (demo_approve_env demo_files) ''human'' demo_proposal), fs')" "\<not> held demo_conf demo_id"
    using a by (simp_all add: demo_conf_def held_def)
  note step = queue_step.q_approve [OF this]
  show thesis
  proof (rule that [OF r_into_rtranclp [where r = queue_step, OF step]])
    show "le_action_id ?l = demo_id" by (simp add: lease_of_def)
  qed (simp_all add: demo_conf_def)
qed

theorem actions_dispatch_at_most_once_witness:
  "\<exists>c :: queue_conf. qc_log c = [demo_id] \<and> distinct (qc_log c) \<and> claims (qc_fs c) demo_id \<noteq> Missing"
proof -
  obtain c l where h: "queue_step\<^sup>*\<^sup>* demo_conf c" "qc_log c = [demo_id]" by (rule demo_queue_history)
  from actions_dispatch_at_most_once [OF h(1)] h(2) show ?thesis by (intro exI [of _ c]) (simp add: demo_conf_def)
qed

theorem queue_refines_specification_witness:
  "\<exists>c :: queue_conf. qc_log c = [demo_id] \<and> spec_step\<^sup>*\<^sup>* (abs_queue demo_queue_fs) (abs_queue (qc_fs c)) \<and> grows_to (abs_queue demo_queue_fs) (abs_queue (qc_fs c))"
proof -
  obtain c l where h: "queue_step\<^sup>*\<^sup>* demo_conf c" "qc_log c = [demo_id]" by (rule demo_queue_history)
  from queue_refines_specification [OF h(1)] h(2) show ?thesis by (intro exI [of _ c]) (simp add: demo_conf_def)
qed

theorem dispatch_needs_approval_and_authority_witness:
  "\<exists>charter decision. bound_state demo_files charter decision \<and>
     action_bound (approved (demo_approve_env demo_files) ''human'' demo_proposal) charter decision"
proof -
  obtain fs' where "approve_section (demo_approve_env demo_files) demo_queue_fs demo_id ''APROBAR'' ''human''
    = (Inr (approved (demo_approve_env demo_files) ''human'' demo_proposal), fs')" by (rule demo_dispatch)
  from dispatch_needs_approval_and_authority [OF this] show ?thesis by (auto simp: demo_approve_env_def)
qed

theorem dispatch_outcome_is_recorded_witness:
  "\<exists>(c :: queue_conf) l entry. qc_flight c = [l] \<and> queue_entry (snd (finish_section (\<lambda>_. ''later'') WriteOk (qc_fs c) l (Returned JNull))) demo_id entry \<and>
     dget entry ''status'' = JStr ''completed''"
proof -
  obtain c l where h: "queue_step\<^sup>*\<^sup>* demo_conf c" "qc_flight c = [l]" "le_action_id l = demo_id" using demo_queue_history by metis
  then have "l \<in> set (qc_flight c)" "qc_flight demo_conf = []" by (simp_all add: demo_conf_def)
  from dispatch_outcome_is_recorded [OF h(1) this(2,1), of "Returned JNull" "\<lambda>_. ''later''"] h show ?thesis
    by (intro exI [of _ c] exI [of _ l]) (simp add: outcome_status_def)
qed

theorem approved_action_completes_witness:
  "\<exists>action fs' entry. approve_section (demo_approve_env demo_files) demo_queue_fs demo_id ''APROBAR'' ''human'' = (Inr action, fs') \<and>
     queue_entry (snd (finish_section (\<lambda>_. ''later'') WriteOk fs' (lease_of (demo_approve_env demo_files) demo_id ''human'' action) (Returned JNull))) demo_id entry \<and>
     dget entry ''status'' = JStr ''completed''"
  using approved_action_completes [OF demo_entry demo_proposal_passes demo_approval(1,2) _ demo_approval(3,4,6),
      of "''human''" "\<lambda>_. ''later''" JNull] by auto

theorem failed_check_leaves_action_running_witness:
  "\<exists>e fs' entry. approve_section (demo_approve_env (demo_files\<lparr>charter_file := Missing\<rparr>)) demo_queue_fs demo_id ''APROBAR'' ''human'' = (Inl e, fs') \<and>
     queue_entry fs' demo_id entry \<and> dget entry ''status'' = JStr ''running''"
proof -
  let ?env = "demo_approve_env (demo_files\<lparr>charter_file := Missing\<rparr>)"
  have "load_authoritative_state (ae_predispatch ?env) = Inl (Binding charter_binding_mismatch)"
    by (simp add: load_authoritative_state_def read_authoritative_json_def demo_approve_env_def)
  moreover have "validate_action_authority (ae_restore ?env) demo_proposal Restore = Inr ()" "ae_blocked ?env = ae_predispatch ?env"
    using demo_proposal_passes by (simp_all add: demo_approve_env_def)
  ultimately obtain e fs' entry where
    "approve_section ?env demo_queue_fs demo_id ''APROBAR'' ''human'' = (Inl e, fs')" "queue_entry fs' demo_id entry"
    "dget entry ''status'' = JStr ''running''"
    using failed_check_leaves_action_running [OF demo_entry _ demo_approval(1,2) _ demo_approval(3-5)] by blast
  then show ?thesis by blast
qed

theorem accepted_charter_initializes_witness:
  "\<exists>payload action. initialize (\<lambda>_. ''now'') (\<lambda>_. demo_files) WriteOk \<lparr>queue_file = Missing, claims = (\<lambda>_. Missing)\<rparr> ''mission-1'' ''plan-1''
       = (Inr payload, \<lparr>queue_file = Holds (JObj (sorted_dict payload)), claims = (\<lambda>_. Missing)\<rparr>) \<and>
     dget (sorted_dict payload) ''actions'' = JList [JObj action] \<and> dget action ''skill_id'' = JStr ''run_technical_plan''"
proof -
  have guards: "checks [(dget (demo_charter ''proposed'') ''mission_id'' = dget demo_decision ''mission_id'', mission_binding_mismatch),
        (dget (demo_charter ''proposed'') ''decision_id'' = dget demo_decision ''decision_id'', decision_binding_mismatch),
        (dget (demo_charter ''proposed'') ''decision_digest'' = JStr (canonical_digest demo_decision), decision_binding_mismatch),
        local_guard (demo_charter ''proposed'') demo_decision,
        (the_bool (dget (demo_charter ''proposed'') ''memory_write_allowed'')
           = (\<not> human_constraint (demo_charter ''proposed'') ''private_context_restricted''), capability_constraint_violation)] = Inr ()"
    by (simp add: demo_charter_def local_guard_def human_constraint_def selected_def) (simp add: demo_decision_def)
  have skills: "check_skills (demo_charter ''proposed'') demo_decision
      (sort (remdups (the_strs (dget (demo_charter ''proposed'') ''proposed_skills'') @
         the_strs (dget (demo_charter ''proposed'') ''allowed_followup_skills'')))) = Inr ()"
    by (simp add: check_skills_all demo_charter_def the_strs_def)
      (simp add: provider_for_def PROVIDER_SKILL_IDS_def selected_def demo_decision_def effective_capabilities_def SKILLS_def
        make_skill_def PROVIDER_CAPABILITIES_def inert_def constraint_guards_def capabilities.truncate_def)
  have "validate_charter_construction (demo_charter ''proposed'') demo_decision = Inr ()"
    unfolding validate_charter_construction_def demo_charter_shape(2) demo_decision_shape demo_charter_skills py_bind_simps guards skills ..
  moreover have "same_terms (demo_charter ''proposed'') demo_decision (demo_charter ''approved'') demo_decision"
    by (simp add: same_terms_def demo_charter_def demo_decision_def sorted_dict_alt)
  moreover have "dir_name demo_files = ''mission-1''" "the_strs (dget (demo_charter ''approved'') ''proposed_skills'') = [''run_technical_plan'']"
    by (simp_all add: demo_files_def demo_charter_def the_strs_def)
  ultimately show ?thesis
    using accepted_charter_initializes [OF _ demo_state_loads, of "demo_charter ''proposed''" demo_decision
        "\<lparr>queue_file = Missing, claims = (\<lambda>_. Missing)\<rparr>" "''plan-1''" "\<lambda>_. ''now''"]
    by auto
qed

end
