(* ===== verification/Mission_Proposal.thy ===== *)
theory Mission_Proposal
  imports Charter Queue_Runs
begin

text \<open>
  How a request becomes a mission, \<open>ConversationalHokage.propose\<close> of
  \<open>tools/hokage_orchestrator/run_conversational_hokage.py\<close>: the identifier of the mission, the human
  constraints read off the intent, the decision and the charter, and the files it writes.

  The missions of a workspace are a function from identifiers to the authority files of their
  directories. Of the writes of \<open>propose\<close> (the intent, the decision, the charter, its Markdown) the
  environment says how many succeed; the private continuity record is not part of the state.
\<close>

section \<open>Identifiers\<close>

text \<open>Compatibility decomposition with everything beyond ASCII dropped, for U+0000 to U+00FF.\<close>

definition ascii_fold :: "char \<Rightarrow> pystr" where
  "ascii_fold c = (let n = code_point c in
     if n < 128 then [c]
     else if n \<in> {160, 168, 175, 180, 184} then '' ''
     else if n = 178 then ''2'' else if n = 179 then ''3'' else if n = 185 then ''1''
     else if n = 188 then ''14'' else if n = 189 then ''12'' else if n = 190 then ''34''
     else if 192 \<le> n \<and> n \<le> 197 then ''A'' else if n = 199 then ''C''
     else if 200 \<le> n \<and> n \<le> 203 then ''E'' else if 204 \<le> n \<and> n \<le> 207 then ''I''
     else if n = 209 then ''N'' else if 210 \<le> n \<and> n \<le> 214 then ''O''
     else if 217 \<le> n \<and> n \<le> 220 then ''U'' else if n = 221 then ''Y''
     else if n = 170 \<or> 224 \<le> n \<and> n \<le> 229 then ''a'' else if n = 231 then ''c''
     else if 232 \<le> n \<and> n \<le> 235 then ''e'' else if 236 \<le> n \<and> n \<le> 239 then ''i''
     else if n = 241 then ''n'' else if n = 186 \<or> 242 \<le> n \<and> n \<le> 246 then ''o''
     else if 249 \<le> n \<and> n \<le> 252 then ''u'' else if n = 253 \<or> n = 255 then ''y'' else [])"

definition slug_char :: "char \<Rightarrow> bool" where
  "slug_char c = (let n = code_point c in (48 \<le> n \<and> n \<le> 57) \<or> (97 \<le> n \<and> n \<le> 122) \<or> n = 95 \<or> n = 45)"

text \<open>Every maximal run of other characters becomes one hyphen.\<close>

fun hyphenate :: "bool \<Rightarrow> pystr \<Rightarrow> pystr" where
  "hyphenate in_run [] = []"
| "hyphenate in_run (c # s) =
     (if slug_char c then c # hyphenate False s
      else if in_run then hyphenate True s else CHR ''-'' # hyphenate True s)"

definition slug_match :: "pystr \<Rightarrow> bool" where
  "slug_match s = (case s of [] \<Rightarrow> False | c # t \<Rightarrow> slug_char c \<and> c \<noteq> CHR ''_'' \<and> c \<noteq> CHR ''-'' \<and> list_all slug_char t)"

definition safe_slug :: "pystr \<Rightarrow> pystr py" where
  "safe_slug value =
     (let short = take 48 (strip_chars ''-_'' (hyphenate False (py_lower (concat (map ascii_fold value)))));
          slug = (if short = [] then ''mission'' else short)
      in if slug_match slug then Inr slug else Inl ValueError)"

definition mission_id_for_intent :: "intent \<Rightarrow> pystr py" where
  "mission_id_for_intent i =
     py_bind (safe_slug (in_objective i)) (\<lambda>slug.
     Inr (''mission-'' @ py_after_first (CHR ''-'') (charter_id i) @ ''-'' @ take 28 slug))"

section \<open>Proposing a mission\<close>

definition human_constraints_from_intent :: "intent \<Rightarrow> jdict" where
  "human_constraints_from_intent i = [
     (''mutation_forbidden'', JBool (''no filesystem mutation before explicit approval'' \<in> set (in_constraints i))),
     (''network_blocked'', JBool (''network access blocked'' \<in> set (in_constraints i))),
     (''local_model_only'', JBool (''local model only'' \<in> set (in_constraints i))),
     (''private_context_restricted'', JBool (''private context requires a scoped approval'' \<in> set (in_constraints i)))]"

definition provider_skill_ids :: "intent \<Rightarrow> pystr list" where
  "provider_skill_ids i = sort (remdups (filter (\<lambda>s. s \<in> set PROVIDER_SKILL_IDS) (real_proposed_skills i)))"

datatype propose_exn = SelectionExn dexn | CharterExn qexn | InterpreterExn py_exn | WriteExn

datatype proposal =
    NeedsContext "intent_problem list" | AmbiguousProviderSkill "pystr list" | Proposed pystr jdict jdict

record propose_env =
  decision_time :: pystr
  charter_time :: pystr
  writes_done :: nat

record machine =
  view :: repo_view
  snapshot :: "provider_row list"
  local_model :: pystr
  actor :: pystr

definition except :: "('e \<Rightarrow> propose_exn) \<Rightarrow> 'e + 'a \<Rightarrow> propose_exn + 'a" where
  "except wrap r = (case r of Inl e \<Rightarrow> Inl (wrap e) | Inr x \<Rightarrow> Inr x)"

definition proposal_of :: "propose_env \<Rightarrow> machine \<Rightarrow> pystr \<Rightarrow> propose_exn + proposal" where
  "proposal_of env m request =
     (let i = interpret_intent (view m) request in
      py_bind (except InterpreterExn (validate_intent (view m) (intent_payload i))) (\<lambda>errors.
      if errors \<noteq> [] then Inr (NeedsContext errors)
      else py_bind (except InterpreterExn (mission_id_for_intent i)) (\<lambda>mission_id.
        let hc = human_constraints_from_intent i; skill_ids = provider_skill_ids i in
        if length skill_ids > 1 then Inr (AmbiguousProviderSkill skill_ids)
        else
          py_bind (except SelectionExn (build_decision_1_1 (decision_time env) mission_id i (snapshot m) (local_model m)
                     (JObj hc) (case skill_ids of [] \<Rightarrow> None | s # _ \<Rightarrow> Some s))) (\<lambda>decision.
          py_bind (except CharterExn (build_charter_1_1 (charter_time env) i decision (actor m) hc [])) (\<lambda>charter.
          Inr (Proposed mission_id decision charter))))))"

definition propose ::
  "propose_env \<Rightarrow> machine \<Rightarrow> (pystr \<Rightarrow> authority_files) \<Rightarrow> pystr \<Rightarrow> (propose_exn + proposal) \<times> (pystr \<Rightarrow> authority_files)" where
  "propose env m missions request =
     (case proposal_of env m request of
        Inr (Proposed mission_id decision charter) \<Rightarrow>
          (let files = missions mission_id;
               files1 = (if writes_done env \<ge> 2 then files\<lparr>decision_file := Holds (JObj (sorted_dict decision))\<rparr> else files);
               files2 = (if writes_done env \<ge> 3 then files1\<lparr>charter_file := Holds (JObj (sorted_dict charter))\<rparr> else files1)
           in (if writes_done env \<ge> 4 then Inr (Proposed mission_id decision charter) else Inl WriteExn,
               missions(mission_id := files2)))
      | result \<Rightarrow> (result, missions))"

section \<open>Identifiers are safe\<close>

lemma hyphenate_slug: "list_all slug_char (hyphenate r s)"
  by (induction r s rule: hyphenate.induct) (auto simp: slug_char_def code_point_def)

lemma strip_chars_head: "strip_chars cs s = c # t \<Longrightarrow> c \<notin> set cs"
proof -
  let ?P = "\<lambda>c. c \<in> set cs"
  assume s: "strip_chars cs s = c # t"
  then have "prefix (c # t) (dropWhile ?P s)"
    by (metis strip_chars_def suffix_dropWhile suffix_to_prefix rev_rev_ident)
  then obtain u where "dropWhile ?P s = c # u" by (auto simp: prefix_def)
  then show "c \<notin> set cs" by (metis dropWhile_eq_Cons_conv)
qed

lemma set_strip_chars: "set (strip_chars cs s) \<subseteq> set s"
  by (auto simp: strip_chars_def dest!: set_dropWhileD)

lemma safe_slug_total: "\<exists>slug. safe_slug value = Inr slug \<and> slug \<noteq> [] \<and> list_all slug_char slug"
proof -
  define s where "s = strip_chars ''-_'' (hyphenate False (py_lower (concat (map ascii_fold value))))"
  have all: "list_all slug_char s" using hyphenate_slug set_strip_chars unfolding s_def list_all_iff by blast
  show ?thesis
  proof (cases s)
    case Nil
    then show ?thesis by (simp add: safe_slug_def s_def [symmetric] slug_match_def slug_char_def code_point_def)
  next
    case (Cons c t)
    then have "c \<notin> set ''-_''" using strip_chars_head unfolding s_def by blast
    with Cons all show ?thesis
      by (simp add: safe_slug_def s_def [symmetric] slug_match_def take_Cons' list_all_take)
  qed
qed

lemma sha256_slug: "list_all slug_char (sha256_hex s)"
proof -
  have "slug_char c" if "is_hex c" for c
    using that by (auto simp: is_hex_def hex_digits_def slug_char_def code_point_def)
  then show ?thesis using sha256_hex_format [of s] by (auto simp: hex_fullmatch_def list_all_iff)
qed

lemma charter_suffix: "py_after_first (CHR ''-'') (charter_id i)
    = take 10 (sha256_hex (py_join ''|'' (in_objective i # in_targets i @ in_constraints i)))"
  by (simp add: charter_id_def py_after_first_def)

text \<open>
  C26: every intent has a mission identifier, whatever the characters of the request: at most 47
  lower-case letters, digits, hyphens and underscores, which are safe as a directory name.
\<close>

theorem mission_ids_are_safe:
  "\<exists>m. mission_id_for_intent i = Inr m \<and> list_all slug_char m \<and> m \<noteq> [] \<and> length m \<le> 47"
proof -
  obtain slug where s: "safe_slug (in_objective i) = Inr slug" "list_all slug_char slug" using safe_slug_total by blast
  have "list_all slug_char (take 10 (sha256_hex x))" for x using sha256_slug by (rule list_all_take)
  with s show ?thesis
    by (simp add: mission_id_for_intent_def charter_suffix list_all_take) (simp add: slug_char_def code_point_def)
qed

section \<open>The outcome of a proposal\<close>

abbreviation audit_skill :: pystr where
  "audit_skill \<equiv> ''invoke_local_model_audit''"

lemma constraints_from_intent_ok: "constraints_ok (human_constraints_from_intent i)"
  by (simp add: constraints_ok_def human_constraints_from_intent_def REQUIRED_HUMAN_CONSTRAINT_KEYS_def dict_keys_eq_def)

lemma singleton_list:
  assumes "distinct xs" and "set xs = {a}"
  shows "xs = [a]"
proof -
  have "length xs = Suc 0" using distinct_card [OF assms(1)] assms(2) by simp
  then obtain b where "xs = [b]" by (auto simp: length_Suc_conv)
  with assms(2) show ?thesis by simp
qed

lemma provider_skill_ids_alt:
  "provider_skill_ids i = (if audit_skill \<in> set (real_proposed_skills i) then [audit_skill] else [])"
proof -
  have plan: "''run_technical_plan'' \<notin> set (real_proposed_skills i)"
    using subsetD [OF proposed_skills_known, of "''run_technical_plan''" i] by auto
  have "set (provider_skill_ids i) = {s \<in> set (real_proposed_skills i). s = ''run_technical_plan'' \<or> s = audit_skill}"
    by (simp add: provider_skill_ids_def PROVIDER_SKILL_IDS_def conj_commute)
  also have "\<dots> = (if audit_skill \<in> set (real_proposed_skills i) then {audit_skill} else {})"
    using plan by auto
  finally have "set (provider_skill_ids i) = (if audit_skill \<in> set (real_proposed_skills i) then {audit_skill} else {})" .
  moreover have "distinct (provider_skill_ids i)" by (simp add: provider_skill_ids_def)
  ultimately show ?thesis using singleton_list [of "provider_skill_ids i" audit_skill] by (simp split: if_splits)
qed

lemma audit_selection:
  assumes "constraints_ok hc"
  shows "select_provider_and_model_1_1 c rows (JObj hc) model (Some audit_skill) =
    (if ''ollama'' \<in> set (ready_providers rows)
     then Inr (provider_selection (JObj hc) c model (ready_providers rows) audit_skill
            (snd (candidate_order (JObj hc) audit_skill (category c))) ''ollama'')
     else Inl ProviderSelectionError)"
proof -
  have "fst (candidate_order (JObj hc) audit_skill cat) = [''ollama'']" for cat
    by (simp add: candidate_order_def)
  moreover have "validate_human_constraints (JObj hc) = Inr ()" using assms by (simp add: constraints_ok_iff)
  ultimately show ?thesis
    by (simp add: select_provider_and_model_1_1_def choose_provider_find acceptable_audit case_prod_unfold Let_def)
qed

lemma economy_total: "\<exists>economy. estimate_economy i (classify_mission i) = Inr economy"
  using complexity_factor_total [of i] by (auto simp: estimate_economy_def Let_def)

definition selected_for :: "intent \<Rightarrow> pystr" where
  "selected_for i = (if audit_skill \<in> set (real_proposed_skills i) then ''ollama'' else ''none'')"

lemma decision_outcome:
  fixes i defines "skill \<equiv> (case provider_skill_ids i of [] \<Rightarrow> None | s # _ \<Rightarrow> Some s)"
  assumes "constraints_ok hc"
  shows "if audit_skill \<in> set (real_proposed_skills i) \<and> ''ollama'' \<notin> set (ready_providers rows)
     then build_decision_1_1 now mid i rows model (JObj hc) skill = Inl ProviderSelectionError
     else \<exists>decision. build_decision_1_1 now mid i rows model (JObj hc) skill = Inr decision \<and>
       selected decision ''provider'' = JStr (selected_for i) \<and> dget decision ''mission_id'' = JStr mid"
proof (cases "audit_skill \<in> set (real_proposed_skills i)")
  case True
  obtain economy where e: "estimate_economy i (classify_mission i) = Inr economy" using economy_total by blast
  from True have "skill = Some audit_skill" by (simp add: skill_def provider_skill_ids_alt)
  with True e show ?thesis
    by (simp add: build_decision_1_1_def Let_def audit_selection [OF assms(2)] raise_py_def selected_def decision_payload_def
        provider_selection_def selected_for_def)
next
  case False
  obtain economy where e: "estimate_economy i (classify_mission i) = Inr economy" using economy_total by blast
  from False have "skill = None" by (simp add: skill_def provider_skill_ids_alt)
  moreover have "validate_human_constraints (JObj hc) = Inr ()" using assms by (simp add: constraints_ok_iff)
  ultimately show ?thesis using False e
    by (simp add: build_decision_1_1_def Let_def select_provider_and_model_1_1_def raise_py_def selected_def decision_payload_def
        no_provider_selection_def selected_for_def)
qed

text \<open>A machine as the program finds it: paths resolve to some text, and a local model is named.\<close>

definition well_equipped :: "machine \<Rightarrow> bool" where
  "well_equipped m \<longleftrightarrow> (\<forall>p. py_nonblank (resolved (view m) p)) \<and> py_nonblank (root_text (view m)) \<and> local_model m \<noteq> []"

definition in_scope :: "machine \<Rightarrow> pystr \<Rightarrow> bool" where
  "in_scope m request \<longleftrightarrow> py_nonblank request \<and>
     (\<forall>t \<in> set (in_targets (interpret_intent (view m) request)). under_root (view m) t)"

definition lacks_provider :: "machine \<Rightarrow> intent \<Rightarrow> bool" where
  "lacks_provider m i \<longleftrightarrow> audit_skill \<in> set (real_proposed_skills i) \<and> ''ollama'' \<notin> set (ready_providers (snapshot m))"

definition contradicts_itself :: "intent \<Rightarrow> bool" where
  "contradicts_itself i \<longleftrightarrow> ''no filesystem mutation before explicit approval'' \<in> set (in_constraints i) \<and>
     (''patch_proposal'' \<in> set (in_outputs i) \<or> in_type i = ''implement_change'')"

lemma contradiction_alt:
  "the_bool (dget (human_constraints_from_intent i) ''mutation_forbidden'') \<and> real_allowed_followup_skills i \<noteq> [] \<longleftrightarrow>
     contradicts_itself i"
  by (simp add: human_constraints_from_intent_def followup_skills_alt contradicts_itself_def)

lemma build_charter_outcome:
  fixes i defines "skill \<equiv> (case provider_skill_ids i of [] \<Rightarrow> None | s # _ \<Rightarrow> Some s)"
  assumes "build_decision_1_1 now mid i rows model (JObj (human_constraints_from_intent i)) skill = Inr decision"
    and "selected decision ''provider'' = JStr (selected_for i)" and "mid \<noteq> []" and "model \<noteq> []"
  shows "build_charter_1_1 now' i decision who (human_constraints_from_intent i) [] =
    (if contradicts_itself i then Inl (Binding capability_constraint_violation)
     else Inr (charter_1_1 now' i decision who (human_constraints_from_intent i) []))"
    and "\<not> contradicts_itself i \<Longrightarrow>
      validate_charter_construction (charter_1_1 now' i decision who (human_constraints_from_intent i) []) decision = Inr ()"
proof -
  let ?hc = "human_constraints_from_intent i"
  have shape: "validate_decision_shape decision = Inr ()" by (rule built_decision_shape [OF assms(2,4,5)])
  have keys: "dict_get decision ''mission_id'' \<noteq> None" "dict_get decision ''decision_id'' \<noteq> None"
    "dict_get ?hc ''private_context_restricted'' \<noteq> None"
    using decision_shape_facts [OF shape] by (auto simp: dget_def human_constraints_from_intent_def split: option.splits)
  have l: "the_str (selected decision ''provider'') \<notin> {''codex'', ''claude''}"
    using assms(3) by (simp add: selected_for_def)
  have a: "selected decision ''provider'' = JStr ''ollama''" if "audit_skill \<in> set (real_proposed_skills i)"
    using assms(3) that by (simp add: selected_for_def)
  have c: "validate_charter_construction (charter_1_1 now' i decision who ?hc []) decision =
    (if contradicts_itself i then Inl (Binding capability_constraint_violation) else Inr ())"
    unfolding contradiction_alt [symmetric] using constraints_from_intent_ok shape a l by (rule construction_outcome)
  from c keys show "build_charter_1_1 now' i decision who ?hc [] =
    (if contradicts_itself i then Inl (Binding capability_constraint_violation) else Inr (charter_1_1 now' i decision who ?hc []))"
    by (auto simp: build_charter_1_1_def Let_def)
  from c show "\<not> contradicts_itself i \<Longrightarrow> validate_charter_construction (charter_1_1 now' i decision who ?hc []) decision = Inr ()"
    by simp
qed

definition intent_of :: "machine \<Rightarrow> pystr \<Rightarrow> intent" where
  "intent_of m request = interpret_intent (view m) request"

lemma proposal_cases:
  assumes "well_equipped m"
  obtains (needs_context) "\<not> in_scope m request" "\<exists>errors. proposal_of env m request = Inr (NeedsContext errors)"
  | (no_provider) "in_scope m request" "lacks_provider m (intent_of m request)"
      "proposal_of env m request = Inl (SelectionExn ProviderSelectionError)"
  | (contradiction) "in_scope m request" "\<not> lacks_provider m (intent_of m request)" "contradicts_itself (intent_of m request)"
      "proposal_of env m request = Inl (CharterExn (Binding capability_constraint_violation))"
  | (proposed) mid decision where "in_scope m request" "\<not> lacks_provider m (intent_of m request)"
      "\<not> contradicts_itself (intent_of m request)" "mission_id_for_intent (intent_of m request) = Inr mid"
      "proposal_of env m request = Inr (Proposed mid decision
         (charter_1_1 (charter_time env) (intent_of m request) decision (actor m) (human_constraints_from_intent (intent_of m request)) []))"
      "validate_charter_construction (charter_1_1 (charter_time env) (intent_of m request) decision (actor m)
         (human_constraints_from_intent (intent_of m request)) []) decision = Inr ()"
      "dget decision ''mission_id'' = JStr mid"
proof -
  let ?i = "intent_of m request"
  let ?skill = "case provider_skill_ids ?i of [] \<Rightarrow> None | s # _ \<Rightarrow> Some s"
  let ?build = "\<lambda>mid. build_decision_1_1 (decision_time env) mid ?i (snapshot m) (local_model m)
      (JObj (human_constraints_from_intent ?i)) ?skill"
  obtain errors where v: "validate_intent (view m) (intent_payload ?i) = Inr errors" "errors = [] \<longleftrightarrow> in_scope m request"
    using intent_validation [of "view m" request] assms
    by (auto simp: well_equipped_def in_scope_def intent_of_def filter_empty_conv)
  obtain mid where mid: "mission_id_for_intent ?i = Inr mid" "mid \<noteq> []"
    using safe_slug_total [of "in_objective ?i"] by (auto simp: mission_id_for_intent_def)
  have n: "\<not> length (provider_skill_ids ?i) > 1" by (simp add: provider_skill_ids_alt)
  note p = proposal_of_def [of env m request, folded intent_of_def, unfolded Let_def]
  show thesis
  proof (cases "in_scope m request")
    case False
    with v p show thesis by (intro needs_context) (auto simp: except_def)
  next
    case True
    then have q: "proposal_of env m request = py_bind (except SelectionExn (?build mid)) (\<lambda>decision.
          py_bind (except CharterExn (build_charter_1_1 (charter_time env) ?i decision (actor m) (human_constraints_from_intent ?i) []))
            (\<lambda>charter. Inr (Proposed mid decision charter)))"
      using v mid(1) n by (simp add: p except_def)
    note d = decision_outcome [OF constraints_from_intent_ok [of ?i], where rows = "snapshot m" and i = ?i and mid = mid
        and now = "decision_time env" and model = "local_model m"]
    show thesis
    proof (cases "lacks_provider m ?i")
      case no: True
      with d q True show thesis by (intro no_provider) (simp_all add: lacks_provider_def except_def)
    next
      case provider: False
      with d obtain decision where b: "?build mid = Inr decision" "selected decision ''provider'' = JStr (selected_for ?i)"
        "dget decision ''mission_id'' = JStr mid"
        by (auto simp: lacks_provider_def split: if_splits)
      have model: "local_model m \<noteq> []" using assms by (simp add: well_equipped_def)
      note c = build_charter_outcome [OF b(1,2) mid(2) model]
      show thesis
      proof (cases "contradicts_itself ?i")
        case True
        with c(1) q b \<open>in_scope m request\<close> provider show thesis by (intro contradiction) (simp_all add: except_def)
      next
        case False
        with c q b mid \<open>in_scope m request\<close> provider show thesis by (intro proposed) (simp_all add: except_def)
      qed
    qed
  qed
qed

text \<open>
  C9: what comes of a request. It is sent back for context exactly when it is blank or names a
  path outside the repository; it raises exactly when it needs the local audit and the local
  provider is not ready, or when its own words both forbid mutation and ask for a change; in every
  other case a charter is proposed, which carries the skills of the intent and which the
  construction check accepts with its decision. The branch for several provider skills is dead.
\<close>

theorem proposal_outcome:
  assumes "well_equipped m"
  shows "(case proposal_of env m request of
      Inl e \<Rightarrow> in_scope m request \<and>
        (e = SelectionExn ProviderSelectionError \<and> lacks_provider m (intent_of m request) \<or>
         e = CharterExn (Binding capability_constraint_violation) \<and> \<not> lacks_provider m (intent_of m request) \<and>
           contradicts_itself (intent_of m request))
    | Inr (NeedsContext errors) \<Rightarrow> \<not> in_scope m request
    | Inr (AmbiguousProviderSkill ids) \<Rightarrow> False
    | Inr (Proposed mid decision charter) \<Rightarrow> in_scope m request \<and> \<not> lacks_provider m (intent_of m request) \<and>
        \<not> contradicts_itself (intent_of m request) \<and> mission_id_for_intent (intent_of m request) = Inr mid \<and>
        the_strs (dget charter ''proposed_skills'') = real_proposed_skills (intent_of m request) \<and>
        validate_charter_construction charter decision = Inr ())"
  by (rule proposal_cases [OF assms, of request env]) auto

section \<open>A read-only request that is refused\<close>

definition READ_ONLY_WORDS :: "pystr list" where
  "READ_ONLY_WORDS = [''no modifi'', ''sin modifi'', ''no camb'', ''solo lectura'', ''read only'', ''read-only'']"

definition PATCH_WORDS :: "pystr list" where
  "PATCH_WORDS = [''patch'', ''corrig'', ''implement'', ''refactor'']"

definition REVIEW_WORDS :: "pystr list" where
  "REVIEW_WORDS = [''revis'', ''audit'', ''analiz'', ''inspect'', ''review'']"

definition CHANGE_WORDS :: "pystr list" where
  "CHANGE_WORDS = [''implement'', ''crea'', ''agrega'', ''a'' @ [CHR 0xF1] @ ''ad'', ''modific'', ''corrig'', ''patch'', ''refactor'']"

lemma contains_any_trans: "py_contains t text \<Longrightarrow> sublist s t \<Longrightarrow> s \<in> set terms \<Longrightarrow> contains_any text terms"
  by (auto simp: contains_any_def py_contains_def list_ex_iff intro: sublist_order.order_trans)

lemma patch_requested: "''patch_proposal'' \<in> set (requested_outputs text kind) \<longleftrightarrow> contains_any text PATCH_WORDS"
  by (auto simp: requested_outputs_def set_dedupe PATCH_WORDS_def note_if_def py_strip_def py_isspace_def code_point_def)

lemma change_requested: "intent_type text = ''implement_change'' \<longleftrightarrow> \<not> contains_any text REVIEW_WORDS \<and> contains_any text CHANGE_WORDS"
  by (simp add: intent_type_def REVIEW_WORDS_def CHANGE_WORDS_def)

text \<open>The words of a request by which it contradicts itself.\<close>

lemma contradiction_words:
  "contradicts_itself (interpret_intent v request) \<longleftrightarrow>
     (let t = py_lower (in_objective (interpret_intent v request)) in contains_any t READ_ONLY_WORDS \<and>
       (contains_any t PATCH_WORDS \<or> \<not> contains_any t REVIEW_WORDS \<and> contains_any t CHANGE_WORDS))"
proof -
  let ?t = "py_lower (in_objective (interpret_intent v request))"
  have k: "in_type (interpret_intent v request) = intent_type ?t" "in_constraints (interpret_intent v request) = constraints ?t"
    "in_outputs (interpret_intent v request) = requested_outputs ?t (intent_type ?t)"
    by (simp_all add: interpret_intent_def Let_def)
  have "''no filesystem mutation before explicit approval'' \<in> set (constraints ?t) \<longleftrightarrow> contains_any ?t READ_ONLY_WORDS"
    by (simp add: constraints_alt note_if_def READ_ONLY_WORDS_def)
  then show ?thesis unfolding contradicts_itself_def k patch_requested change_requested Let_def by simp
qed

text \<open>
  C33: which read-only requests are refused as contradictory. Given a provider, a request in scope raises
  \<open>capability_constraint_violation\<close>, and nothing is written, exactly when it says that nothing is to be
  modified and contains a word for a patch, or a word for a change and none for a review. The stem
  \<open>modific\<close> is one of the words for a change: so every request that says \<open>sin modific...\<close> and has no
  word for a review is refused, by the very words that forbid the change.
\<close>

theorem read_only_request_refused_iff:
  assumes "well_equipped m" and "in_scope m request" and "\<not> lacks_provider m (intent_of m request)"
  defines "t \<equiv> py_lower (in_objective (intent_of m request))"
  shows "(fst (propose env m missions request) = Inl (CharterExn (Binding capability_constraint_violation)) \<longleftrightarrow>
       contains_any t READ_ONLY_WORDS \<and>
       (contains_any t PATCH_WORDS \<or> \<not> contains_any t REVIEW_WORDS \<and> contains_any t CHANGE_WORDS)) \<and>
     (py_contains ''sin modific'' t \<and> \<not> contains_any t REVIEW_WORDS \<longrightarrow>
       propose env m missions request = (Inl (CharterExn (Binding capability_constraint_violation)), missions))"
proof -
  have words: "contradicts_itself (intent_of m request) \<longleftrightarrow> contains_any t READ_ONLY_WORDS \<and>
      (contains_any t PATCH_WORDS \<or> \<not> contains_any t REVIEW_WORDS \<and> contains_any t CHANGE_WORDS)"
    unfolding t_def intent_of_def contradiction_words Let_def ..
  have "contains_any t READ_ONLY_WORDS" "contains_any t CHANGE_WORDS" if "py_contains ''sin modific'' t"
    using contains_any_trans [OF that, of "''sin modifi''" READ_ONLY_WORDS] contains_any_trans [OF that, of "''modific''" CHANGE_WORDS]
    by (simp_all add: sublist_code READ_ONLY_WORDS_def CHANGE_WORDS_def)
  moreover have "fst (propose env m missions request) = Inl (CharterExn (Binding capability_constraint_violation)) \<longleftrightarrow>
      contradicts_itself (intent_of m request)"
    and "contradicts_itself (intent_of m request) \<Longrightarrow>
      propose env m missions request = (Inl (CharterExn (Binding capability_constraint_violation)), missions)"
    by (rule proposal_cases [OF assms(1), of request env]; use assms(2,3) in \<open>auto simp: propose_def Let_def\<close>)+
  ultimately show ?thesis unfolding words by blast
qed

section \<open>From the request to the queue\<close>

lemma proposed_facts:
  assumes "proposal_of env m request = Inr (Proposed mid decision charter)"
  shows "charter = charter_1_1 (charter_time env) (intent_of m request) decision (actor m)
      (human_constraints_from_intent (intent_of m request)) []"
    and "validate_charter_construction charter decision = Inr ()"
    and "dget decision ''mission_id'' = JStr mid"
  using assms
  by (auto simp: proposal_of_def Let_def intent_of_def except_def build_charter_1_1_def decision_payload_def
      split: sum.splits if_splits elim!: built_decision)

lemma proposed_writes:
  assumes "propose env m missions request = (Inr (Proposed mid decision charter), missions')"
  shows "proposal_of env m request = Inr (Proposed mid decision charter)"
    and "missions' = missions(mid := (missions mid)
      \<lparr>decision_file := Holds (JObj (sorted_dict decision)), charter_file := Holds (JObj (sorted_dict charter))\<rparr>)"
  using assms by (auto simp: propose_def Let_def split: sum.splits proposal.splits if_splits)

lemma proposed_mission_approves:
  assumes "propose env m missions request = (Inr (Proposed mid decision charter), missions')"
    and "dir_name (missions mid) = mid" and "receipt_file (missions mid) = Missing"
    and "JStr (py_strip phrase) = dget charter ''approval_phrase''" and "py_strip who \<noteq> []" and "all_written aenv"
  obtains approved files where "approve_charter_1_1 aenv (missions' mid) charter decision (JStr phrase) (JStr who) = (Inr approved, files)"
    and "approved = approved_charter charter (approval_time aenv) (approver (JStr who))" and "dir_name files = mid"
    and "load_authoritative_state files = Inr (sorted_dict approved, sorted_dict decision)"
proof -
  note w = proposed_writes [OF assms(1)]
  note p = proposed_facts [OF w(1)]
  have f: "dir_name (missions' mid) = mid" "receipt_file (missions' mid) = Missing" using assms(2,3) by (simp_all add: w(2))
  have g: "checks (approve_guards charter (JStr phrase) (JStr who)) = Inr ()"
    using assms(4,5) by (simp add: approve_guards_def stripped_def approver_def p(1))
  have m: "dget charter ''mission_id'' = JStr (dir_name (missions' mid))" by (simp add: p(1,3) f)
  show thesis using approve_accepts [OF g p(2) f(2) assms(6) m] f(1) that by auto
qed

text \<open>
  C10: from the request to the queue. When a proposed mission's directory holds no receipt yet and the
  human types the charter's phrase, the approval succeeds, the three files it writes load as the
  authoritative state, and the queue initializes from them: one proposed action for each skill of
  the intent, in order, each of which passes the checkpoint.
\<close>

theorem proposed_mission_starts:
  assumes "propose env m missions request = (Inr (Proposed mid decision charter), missions')"
    and "dir_name (missions mid) = mid" and "receipt_file (missions mid) = Missing"
    and "JStr (py_strip phrase) = dget charter ''approval_phrase''" and "py_strip who \<noteq> []" and "all_written aenv"
    and "queue_file fs = Missing" and "plan_id \<noteq> []"
  shows "\<exists>approved files payload actions.
    approve_charter_1_1 aenv (missions' mid) charter decision (JStr phrase) (JStr who) = (Inr approved, files) \<and>
    load_authoritative_state files = Inr (sorted_dict approved, sorted_dict decision) \<and>
    initialize clock (\<lambda>_. files) WriteOk fs mid plan_id = (Inr payload, fs\<lparr>queue_file := Holds (JObj (sorted_dict payload))\<rparr>) \<and>
    dget (sorted_dict payload) ''actions'' = JList (map JObj actions) \<and>
    map (\<lambda>a. dget a ''skill_id'') actions = map JStr (real_proposed_skills (intent_of m request)) \<and>
    list_all (\<lambda>a. dget a ''status'' = JStr ''proposed'' \<and> validate_action_authority files a Restore = Inr ()) actions"
proof -
  note p = proposed_facts [OF proposed_writes(1) [OF assms(1)]]
  obtain approved files where a: "approve_charter_1_1 aenv (missions' mid) charter decision (JStr phrase) (JStr who) = (Inr approved, files)"
    "approved = approved_charter charter (approval_time aenv) (approver (JStr who))" "dir_name files = mid"
    "load_authoritative_state files = Inr (sorted_dict approved, sorted_dict decision)"
    using proposed_mission_approves [OF assms(1-6)] by blast
  have "same_terms charter decision (sorted_dict approved) (sorted_dict decision)"
    by (simp add: same_terms_def a(2))
  moreover have "the_strs (dget (sorted_dict approved) ''proposed_skills'') = real_proposed_skills (intent_of m request)"
    by (simp add: a(2) p(1))
  ultimately show ?thesis
    using charter_initializes [OF p(2) a(4) _ assms(7,8), of clock] a by auto
qed

section \<open>A repeated request\<close>

text \<open>
  C34: \<open>propose\<close> does not look at what the mission's directory already holds, and the same request
  always has the same mission: when the mission was approved, proposing the request again replaces
  the frozen charter, so that the authority no longer loads, no action can be authorised, and no
  approval can succeed in that directory again.
\<close>

theorem repeated_request_destroys_authority:
  assumes "load_authoritative_state (missions mid) = Inr state"
    and "propose env m missions request = (Inr (Proposed mid decision charter), missions')"
  shows "load_authoritative_state (missions' mid) = Inl (Binding charter_binding_mismatch) \<and>
    (\<exists>e. validate_action_authority (missions' mid) action ph = Inl e) \<and>
    (\<exists>e. approve_charter_1_1 aenv (missions' mid) charter' decision' phrase who = (Inl e, missions' mid))"
proof -
  note w = proposed_writes [OF assms(2)]
  note p = proposed_facts [OF w(1)]
  from construction_facts(1) [OF p(2)]
  have "checks (envelope (sorted_dict charter) ''conversational_mission_charter'' CHARTER_SCHEMA_VERSION
      CHARTER_REQUIRED_KEYS CHARTER_ALLOWED_KEYS charter_binding_mismatch) = Inr ()"
    by (simp add: validate_charter_shape_def envelope_def)
  moreover have "dget (sorted_dict charter) ''state'' = JStr ''proposed''" by (simp add: p(1))
  ultimately have "validate_charter_shape True (sorted_dict charter) = Inl (Binding charter_binding_mismatch)"
    by (simp add: validate_charter_shape_def charter_state_ok_def require_def del: checks_Inr)
  then have l: "load_authoritative_state (missions' mid) = Inl (Binding charter_binding_mismatch)"
    by (simp add: load_authoritative_state_def w(2) read_authoritative_json_def)
  obtain c d where "state = (c, d)" by fastforce
  with assms(1) have "bound_state (missions mid) c d" by (intro loaded_state_is_bound) simp
  then have "receipt_file (missions' mid) \<noteq> Missing" by (auto simp: bound_state_def w(2))
  with l no_authority [OF l] approve_rejects show ?thesis by blast
qed

section \<open>Witnesses\<close>

definition demo_machine :: machine where
  "demo_machine = \<lparr>view = demo_view, snapshot = demo_snapshot, local_model = ''qwen'', actor = ''human''\<rparr>"

definition demo_propose_env :: propose_env where
  "demo_propose_env = \<lparr>decision_time = ''t1'', charter_time = ''t2'', writes_done = 4\<rparr>"

definition demo_charter_approval :: approval_env where
  "demo_charter_approval = \<lparr>approval_time = ''t3'', decision_written = True, charter_written = True, receipt_written = Publishes\<rparr>"

definition empty_missions :: "pystr \<Rightarrow> authority_files" where
  "empty_missions mid = \<lparr>dir_name = mid, charter_file = Missing, decision_file = Missing, receipt_file = Missing\<rparr>"

lemma demo_equipped: "well_equipped demo_machine"
  by (simp add: well_equipped_def demo_machine_def demo_view_def py_nonblank_iff py_isspace_def code_point_def)

lemma demo_provider: "\<not> lacks_provider demo_machine i"
  by (simp add: lacks_provider_def demo_machine_def ready_provider_iff demo_snapshot_def)

lemma demo_request_scope:
  assumes "path_matches None (in_objective (intent_of demo_machine request)) = []" and "py_nonblank request"
  shows "in_scope demo_machine request"
proof -
  have "set (in_targets (interpret_intent demo_view request)) \<subseteq> {py_strip (root_text demo_view)}"
    using assms(1) by (auto simp: intent_of_def interpret_intent_def Let_def targets_def set_dedupe demo_machine_def)
  then show ?thesis using assms(2)
    by (auto simp: in_scope_def demo_machine_def demo_view_def py_strip_def py_isspace_def code_point_def)
qed

lemmas reading_defs = intent_of_def interpret_intent_def Let_def py_words_def runs.simps py_strip_def py_isspace_def code_point_def
lemmas path_defs = path_matches.simps path_at_def path_prefixes_def path_body_def path_char_def ascii_alnum_def
  word_char_def ascii_letter_def tail_char_def path_separator_def code_point_def

lemma demo_objectives:
  "in_objective (intent_of demo_machine ''Revisar'') = ''Revisar''"
  "in_objective (intent_of demo_machine ''sin modificar'') = ''sin modificar''"
  by (simp_all add: reading_defs)

lemma demo_scopes: "in_scope demo_machine ''Revisar''" "in_scope demo_machine ''sin modificar''"
  by (rule demo_request_scope; simp add: demo_objectives path_defs py_nonblank_iff py_isspace_def)+

theorem read_only_request_refused_iff_witness:
  "propose demo_propose_env demo_machine empty_missions ''sin modificar''
     = (Inl (CharterExn (Binding capability_constraint_violation)), empty_missions) \<and>
   fst (propose demo_propose_env demo_machine empty_missions ''Revisar'') \<noteq> Inl (CharterExn (Binding capability_constraint_violation))"
  using read_only_request_refused_iff [OF demo_equipped demo_scopes(2) demo_provider, of demo_propose_env empty_missions]
    read_only_request_refused_iff [OF demo_equipped demo_scopes(1) demo_provider, of demo_propose_env empty_missions]
  by (simp add: demo_objectives contains_any_def py_contains_def sublist_code py_lower_def lower_char_def code_point_def
      READ_ONLY_WORDS_def REVIEW_WORDS_def)

lemma demo_consistent: "\<not> contradicts_itself (intent_of demo_machine ''Revisar'')"
proof -
  have t: "py_lower (in_objective (intent_of demo_machine ''Revisar'')) = ''revisar''"
    by (simp add: demo_objectives py_lower_def lower_char_def code_point_def) (simp add: char_of_def bit_iff_odd)
  have k: "in_constraints (intent_of demo_machine ''Revisar'') = constraints ''revisar''"
    using t by (simp add: intent_of_def interpret_intent_def Let_def)
  show ?thesis
    by (simp add: contradicts_itself_def k constraints_alt note_if_def contains_any_def py_contains_def sublist_code)
qed

lemma demo_proposal:
  "\<exists>mid decision charter missions'. propose demo_propose_env demo_machine empty_missions ''Revisar''
     = (Inr (Proposed mid decision charter), missions')"
  by (rule proposal_cases [OF demo_equipped, of "''Revisar''" demo_propose_env])
    (use demo_scopes demo_provider demo_consistent in \<open>auto simp: propose_def Let_def demo_propose_env_def\<close>)

theorem proposal_outcome_witness:
  "(case proposal_of demo_propose_env demo_machine ''Revisar'' of Inr (Proposed mid decision charter) \<Rightarrow>
      validate_charter_construction charter decision = Inr () | _ \<Rightarrow> False)"
  using proposal_outcome [OF demo_equipped, where env = demo_propose_env and request = "''Revisar''"] demo_scopes demo_provider demo_consistent
  by (auto split: sum.splits proposal.splits)

lemma charter_phrase_strips:
  "py_strip (''APROBAR CHARTER-'' @ py_upper (py_after_first (CHR ''-'') (charter_id i)))
     = ''APROBAR CHARTER-'' @ py_upper (py_after_first (CHR ''-'') (charter_id i))"
  using digest_phrase_strips [of "CHR ''A''" "''PROBAR CHARTER-''"] by (simp add: charter_suffix py_isspace_def code_point_def)

text \<open>The example mission: proposed, with the phrase the human types.\<close>

lemma demo_mission:
  obtains mid decision charter missions' where
    "propose demo_propose_env demo_machine empty_missions ''Revisar'' = (Inr (Proposed mid decision charter), missions')"
    and "JStr (py_strip (the_str (dget charter ''approval_phrase''))) = dget charter ''approval_phrase''"
proof -
  obtain mid decision charter missions' where p: "propose demo_propose_env demo_machine empty_missions ''Revisar''
     = (Inr (Proposed mid decision charter), missions')" using demo_proposal by blast
  have "JStr (py_strip (the_str (dget charter ''approval_phrase''))) = dget charter ''approval_phrase''"
    using charter_phrase_strips by (simp add: proposed_facts(1) [OF proposed_writes(1) [OF p]])
  with p show thesis by (rule that)
qed

lemma demo_approves:
  "dir_name (empty_missions mid) = mid" "receipt_file (empty_missions mid) = Missing" "py_strip ''human'' \<noteq> []"
  "all_written demo_charter_approval"
  by (simp_all add: empty_missions_def demo_charter_approval_def all_written_def py_strip_def py_isspace_def code_point_def)

theorem proposed_mission_starts_witness:
  "\<exists>(mid :: pystr) files payload. initialize (\<lambda>_. ''now'') (\<lambda>_. files) WriteOk
     \<lparr>queue_file = Missing, claims = (\<lambda>_. Missing)\<rparr> mid ''plan-1'' = (Inr payload, \<lparr>queue_file = Holds (JObj (sorted_dict payload)),
     claims = (\<lambda>_. Missing)\<rparr>)"
proof -
  obtain mid decision charter missions' where p:
    "propose demo_propose_env demo_machine empty_missions ''Revisar'' = (Inr (Proposed mid decision charter), missions')"
    "JStr (py_strip (the_str (dget charter ''approval_phrase''))) = dget charter ''approval_phrase''" by (rule demo_mission)
  let ?fs = "\<lparr>queue_file = Missing, claims = (\<lambda>_. Missing)\<rparr>"
  obtain files payload where "initialize (\<lambda>_. ''now'') (\<lambda>_. files) WriteOk ?fs mid ''plan-1''
       = (Inr payload, ?fs\<lparr>queue_file := Holds (JObj (sorted_dict payload))\<rparr>)"
    using proposed_mission_starts [OF p(1) demo_approves(1,2) p(2) demo_approves(3,4), of ?fs "''plan-1''" "\<lambda>_. ''now''"] by auto
  then show ?thesis by auto
qed

theorem repeated_request_destroys_authority_witness:
  "\<exists>mid missions state decision charter missions'. load_authoritative_state (missions mid) = Inr state \<and>
     propose demo_propose_env demo_machine missions ''Revisar'' = (Inr (Proposed mid decision charter), missions') \<and>
     load_authoritative_state (missions' mid) = Inl (Binding charter_binding_mismatch)"
proof -
  obtain mid decision charter missions' where p:
    "propose demo_propose_env demo_machine empty_missions ''Revisar'' = (Inr (Proposed mid decision charter), missions')"
    "JStr (py_strip (the_str (dget charter ''approval_phrase''))) = dget charter ''approval_phrase''" by (rule demo_mission)
  obtain approved files where l: "load_authoritative_state files = Inr (sorted_dict approved, sorted_dict decision)"
    using proposed_mission_approves [OF p(1) demo_approves(1,2) p(2) demo_approves(3,4)] by metis
  let ?missions = "missions'(mid := files)"
  have "load_authoritative_state (?missions mid) = Inr (sorted_dict approved, sorted_dict decision)" using l by simp
  moreover obtain missions'' where
    w: "propose demo_propose_env demo_machine ?missions ''Revisar'' = (Inr (Proposed mid decision charter), missions'')"
    using proposed_writes(1) [OF p(1)] by (auto simp: propose_def Let_def demo_propose_env_def)
  ultimately show ?thesis using repeated_request_destroys_authority [OF _ w] by blast
qed

end
