(* ===== verification/Followups.thy ===== *)
theory Followups
  imports Mission_Proposal
begin

text \<open>
  What follows a completed action, \<open>_append_followups_if_needed\<close> of
  \<open>tools/hokage_orchestrator/run_conversational_hokage.py\<close>: the application of a patch that the local
  audit proposed, or the tests, appended to the queue as follow-up actions.
\<close>

text \<open>\<open>v > 0\<close>.\<close>

definition positive :: "json \<Rightarrow> bool py" where
  "positive v = (case v of
     JInt n \<Rightarrow> Inr (n > 0)
   | JBool b \<Rightarrow> Inr b
   | JFloat (FFin neg m _) \<Rightarrow> Inr (\<not> neg \<and> m > 0)
   | JFloat FInf \<Rightarrow> Inr True
   | JFloat _ \<Rightarrow> Inr False
   | _ \<Rightarrow> Inl TypeError)"

definition audit_patch :: "jdict \<Rightarrow> qexn + jdict" where
  "audit_patch completed =
     py_bind (action_result completed) (\<lambda>result. get_or_empty result ''patch_proposal'')"

definition patch_operations :: "jdict \<Rightarrow> bool py" where
  "patch_operations proposal =
     (if dict_get proposal ''operation_count'' = None then Inr False else positive (dget proposal ''operation_count''))"

text \<open>Only the two identifiers of the completed action and the skill are used.\<close>

definition append_for ::
  "(nat \<Rightarrow> pystr) \<Rightarrow> (nat \<Rightarrow> authority_files) \<Rightarrow> write_env \<Rightarrow> mission_fs \<Rightarrow> jdict \<Rightarrow> pystr \<Rightarrow> jdict \<Rightarrow> (qexn + jdict) \<times> mission_fs" where
  "append_for clock auth env fs action skill_id extra =
     (if dict_get action ''mission_id'' = None \<or> dict_get action ''plan_id'' = None then (Inl (Raised KeyError), fs)
      else append_action_checked clock auth env fs (text_of action ''mission_id'') (text_of action ''plan_id'') skill_id extra)"

definition append_post_patch_tests ::
  "(nat \<Rightarrow> pystr) \<Rightarrow> (nat \<Rightarrow> authority_files) \<Rightarrow> write_env \<Rightarrow> mission_fs \<Rightarrow> jdict \<Rightarrow> (qexn + jdict) \<times> mission_fs" where
  "append_post_patch_tests clock auth env fs action =
     append_for clock auth env fs action ''run_post_patch_tests''
       [(''suite_profile'', JStr ''v3.6.0_post_patch''), (''external_network'', JStr ''blocked'')]"

definition append_followups ::
  "(nat \<Rightarrow> pystr) \<Rightarrow> (nat \<Rightarrow> authority_files) \<Rightarrow> write_env \<Rightarrow> mission_fs \<Rightarrow> jdict \<Rightarrow> (qexn + jdict option) \<times> mission_fs" where
  "append_followups clock auth env fs completed =
     (let some = (\<lambda>(r, fs'). (py_bind r (\<lambda>a. Inr (Some a)), fs')) in
      case dict_get completed ''skill_id'' of
        None \<Rightarrow> (Inl (Raised KeyError), fs)
      | Some skill \<Rightarrow>
         (if skill = JStr ''invoke_local_model_audit'' then
            or_raise (audit_patch completed) fs (\<lambda>proposal.
            or_raise (raised (patch_operations proposal)) fs (\<lambda>operations.
            if operations then
              (if \<not> truthy (dget proposal ''patch_sha256'') \<or> \<not> truthy (dget proposal ''patch_id'') then (Inl (Raised ValueError), fs)
               else if dict_get proposal ''patch_plan'' = None \<or> dict_get proposal ''changed_paths'' = None
                 then (Inl (Raised KeyError), fs)
               else some (append_for clock auth env fs completed ''apply_validated_patch''
                 [(''patch_id'', dget proposal ''patch_id''), (''patch_sha256'', dget proposal ''patch_sha256''),
                  (''patch_plan'', dget proposal ''patch_plan''), (''changed_paths'', dget proposal ''changed_paths'')]))
            else some (append_post_patch_tests clock auth env fs completed)))
          else if skill = JStr ''apply_validated_patch'' then some (append_post_patch_tests clock auth env fs completed)
          else (Inr None, fs)))"

section \<open>A follow-up that the charter does not allow\<close>

lemma py_eq_JStr [simp]: "py_eq v (JStr s) \<longleftrightarrow> v = JStr s"
  by (cases "(v, JStr s)" rule: py_eq.cases) auto

lemma unlisted_followup_is_refused:
  assumes "load_authoritative_state files = Inr (charter, decision)"
    and "dget action ''skill_id'' = JStr skill" and "dget action ''tier'' = JStr ''followup''"
    and "skill \<notin> set (the_strs (dget charter ''allowed_followup_skills''))"
  shows "\<exists>e. validate_action_authority files action ph = Inl e"
proof (rule ccontr)
  assume "\<nexists>e. validate_action_authority files action ph = Inl e"
  then have "validate_action_authority files action ph = Inr ()"
    by (cases "validate_action_authority files action ph") auto
  then have "checks (binding_guards action charter decision) = Inr ()"
    using assms(1) by (auto elim: validate_action_authority_steps)
  with assms(2-4) show False by (simp add: binding_guards_def Let_def text_of_def)
qed

lemma find_existing_agrees:
  "find_existing xs candidate = Inr (Some existing) \<Longrightarrow>
     agree_on existing candidate [''arguments_hash'', ''arguments'', ''mission_id'', ''plan_id'', ''skill_id'', ''tier'']"
  by (induction xs candidate rule: find_existing.induct) (auto split: if_splits)

lemma build_action_fields:
  "build_action now m p skill tier charter decision extra = Inr action \<Longrightarrow>
     dget action ''skill_id'' = JStr skill \<and> dget action ''tier'' = JStr tier"
  by (auto simp: build_action_def Let_def action_of_def split: option.splits if_splits)

lemma append_unlisted_fails:
  assumes "load_authoritative_state files = Inr (charter, decision)"
    and "skill \<notin> set (the_strs (dget charter ''allowed_followup_skills''))"
  shows "\<exists>e. append_action_checked clock (\<lambda>_. files) env fs m p skill extra = (Inl e, fs)"
proof -
  have refused: "\<exists>e. validate_action_authority files a ph = Inl e"
    if "dget a ''skill_id'' = JStr skill \<and> dget a ''tier'' = JStr ''followup''" for a ph
    using unlisted_followup_is_refused [OF assms(1)] assms(2) that by blast
  show ?thesis
  proof (cases "build_action (clock 0) m p skill ''followup'' charter decision extra")
    case (Inl e)
    then show ?thesis
      by (auto simp: append_action_checked_def assms(1) or_raise_def raised_def require_def split: sum.split)
  next
    case (Inr candidate)
    have "\<exists>e. validate_action_authority files candidate FollowupAppend = Inl e"
      using build_action_fields [OF Inr] by (rule refused)
    moreover have "validate_action_authority files existing Restore \<noteq> Inr ()"
      if "find_existing xs candidate = Inr (Some existing)" for xs existing
      using refused [of existing Restore] find_existing_agrees [OF that] build_action_fields [OF Inr]
      by (auto simp: agree_on_def)
    ultimately show ?thesis
      by (auto simp: append_action_checked_def assms(1) Inr or_raise_def raised_def require_def split: sum.split option.split)
  qed
qed

text \<open>
  C35: when the local audit of a mission that asks for no change completes without a patch, the
  orchestrator appends the post-patch tests, a follow-up skill that the charter of such a mission
  never allows: the call raises after the audit was recorded, whatever the queue holds, and nothing
  is appended.
\<close>

theorem audit_without_patch_fails:
  assumes "load_authoritative_state files = Inr (charter, decision)"
    and "the_strs (dget charter ''allowed_followup_skills'') = real_allowed_followup_skills i"
    and "''patch_proposal'' \<notin> set (in_outputs i)" and "in_type i \<noteq> ''implement_change''"
    and "dict_get completed ''skill_id'' = Some (JStr ''invoke_local_model_audit'')"
    and "audit_patch completed = Inr proposal" and "patch_operations proposal = Inr False"
  shows "\<exists>e. append_followups clock (\<lambda>_. files) env fs completed = (Inl e, fs)"
proof -
  have "''run_post_patch_tests'' \<notin> set (the_strs (dget charter ''allowed_followup_skills''))"
    using assms(2-4) by (simp add: followup_skills_alt)
  from append_unlisted_fails [OF assms(1) this]
  have "\<exists>e. append_post_patch_tests clock (\<lambda>_. files) env fs completed = (Inl e, fs)"
    by (auto simp: append_post_patch_tests_def append_for_def)
  then show ?thesis using assms(5-7) by (auto simp: append_followups_def or_raise_def raised_def)
qed

definition demo_audit :: jdict where
  "demo_audit = [(''skill_id'', JStr ''invoke_local_model_audit''), (''mission_id'', JStr ''mission-1''),
     (''plan_id'', JStr ''plan-1''), (''evidence'', JObj [(''result'', JObj [(''patch_proposal'', JObj [(''operation_count'', JInt 0)])])])]"

theorem audit_without_patch_fails_witness:
  "\<exists>files state e. load_authoritative_state files = Inr state \<and>
     append_followups (\<lambda>_. ''now'') (\<lambda>_. files) WriteOk \<lparr>queue_file = Missing, claims = (\<lambda>_. Missing)\<rparr> demo_audit
       = (Inl e, \<lparr>queue_file = Missing, claims = (\<lambda>_. Missing)\<rparr>)"
proof -
  let ?i = "intent_of demo_machine ''Revisar''"
  obtain mid decision charter missions' where p:
    "propose demo_propose_env demo_machine empty_missions ''Revisar'' = (Inr (Proposed mid decision charter), missions')"
    "JStr (py_strip (the_str (dget charter ''approval_phrase''))) = dget charter ''approval_phrase''" by (rule demo_mission)
  obtain approved files where f: "approved = approved_charter charter (approval_time demo_charter_approval) (approver (JStr ''human''))"
    "load_authoritative_state files = Inr (sorted_dict approved, sorted_dict decision)"
    using proposed_mission_approves [OF p(1) demo_approves(1,2) p(2) demo_approves(3,4)] by metis
  have a: "the_strs (dget (sorted_dict approved) ''allowed_followup_skills'') = real_allowed_followup_skills ?i"
    by (simp add: f(1) proposed_facts(1) [OF proposed_writes(1) [OF p(1)]])
  have t: "py_lower (in_objective ?i) = ''revisar''"
    by (simp add: demo_objectives py_lower_def lower_char_def code_point_def) (simp add: char_of_def bit_iff_odd)
  have "in_type ?i = intent_type ''revisar''" "in_outputs ?i = requested_outputs ''revisar'' (intent_type ''revisar'')"
    using t by (simp_all add: intent_of_def interpret_intent_def Let_def)
  then have i: "''patch_proposal'' \<notin> set (in_outputs ?i)" "in_type ?i \<noteq> ''implement_change''"
    by (simp_all add: intent_type_def requested_outputs_def note_if_def contains_any_def py_contains_def sublist_code set_dedupe
        py_strip_def py_isspace_def code_point_def)
  have "audit_patch demo_audit = Inr [(''operation_count'', JInt 0)]" "patch_operations [(''operation_count'', JInt 0)] = Inr False"
    "dict_get demo_audit ''skill_id'' = Some (JStr ''invoke_local_model_audit'')"
    by (simp_all add: audit_patch_def action_result_def get_or_empty_def as_dict_def demo_audit_def patch_operations_def positive_def)
  from audit_without_patch_fails [OF f(2) a i this(3,1,2)] f(2) show ?thesis by blast
qed

end
