(* ===== verification/Lifecycle.thy ===== *)
theory Lifecycle
  imports Action_Queue Models
begin

text \<open>
  Review, teachback and closure of a mission, \<open>LifecycleStore\<close> of
  \<open>tools/hokage_orchestrator/lifecycle.py\<close>: proposals in files of the mission directory, each of
  which asks for the one before it to be recorded.

  The files of the store are a \<open>lifecycle_fs\<close>. What an operation meets outside them is a \<open>world\<close>:
  the clock, the evidence files with their digests and relative names, the mission manifest, and
  how its writes go. A write replaces the file, leaves it alone, or leaves a torn text.
\<close>

section \<open>Files\<close>

record lifecycle_fs =
  review_file :: stored
  teachback_file :: stored
  closure_file :: stored
  summary_file :: stored

datatype text_write = Written | Untouched | Torn

record world =
  clock :: "nat \<Rightarrow> pystr"
  evidence_file :: "pystr \<Rightarrow> stored"
  evidence_sha :: "pystr \<Rightarrow> pystr"
  relative_name :: "pystr \<Rightarrow> pystr option"
  manifest :: stored
  writes :: "nat \<Rightarrow> text_write"

definition read_value :: "stored \<Rightarrow> qexn + json" where
  "read_value f = (case f of
     Missing \<Rightarrow> Inl OsRaised
   | OsFailure \<Rightarrow> Inl OsRaised
   | NotText \<Rightarrow> Inl (Raised ValueError)
   | NotJsonText \<Rightarrow> Inl (Raised JSONDecodeError)
   | DeepText \<Rightarrow> Inl (Raised RecursionError)
   | Holds v \<Rightarrow> Inr v)"

text \<open>\<open>None\<close> for a missing file; a file that holds \<open>null\<close> reads the same.\<close>

definition load_optional :: "stored \<Rightarrow> qexn + json" where
  "load_optional f = (if f = Missing then Inr JNull else read_value f)"

text \<open>\<open>write_json\<close>, and what follows it when it returns.\<close>

definition saving ::
  "text_write \<Rightarrow> jdict \<Rightarrow> stored \<Rightarrow> (stored \<Rightarrow> 's) \<Rightarrow> ('s \<Rightarrow> (qexn + 'a) \<times> 's) \<Rightarrow> (qexn + 'a) \<times> 's" where
  "saving outcome payload cell put continue = (case outcome of
     Written \<Rightarrow> continue (put (Holds (JObj (sorted_dict payload))))
   | Untouched \<Rightarrow> (Inl OsRaised, put cell)
   | Torn \<Rightarrow> (Inl OsRaised, put NotJsonText))"

text \<open>\<open>mission_relative\<close>: \<open>relative_to\<close> raises \<open>ValueError\<close> outside the mission directory.\<close>

definition mission_relative :: "world \<Rightarrow> pystr \<Rightarrow> qexn + pystr" where
  "mission_relative w path = (case relative_name w path of None \<Rightarrow> Inl (Raised ValueError) | Some r \<Rightarrow> Inr r)"

definition value_error :: "bool \<Rightarrow> qexn + unit" where
  "value_error b = (if b then Inl (Raised ValueError) else Inr ())"

definition key :: "jdict \<Rightarrow> pystr \<Rightarrow> qexn + json" where
  "key d k = (case dict_get d k of None \<Rightarrow> Inl (Raised KeyError) | Some v \<Rightarrow> Inr v)"

definition get_default :: "jdict \<Rightarrow> pystr \<Rightarrow> json \<Rightarrow> json" where
  "get_default d k v = (case dict_get d k of None \<Rightarrow> v | Some x \<Rightarrow> x)"

section \<open>Validating the actions\<close>

record reported =
  rp_status :: pystr
  rp_paths :: "pystr list"
  rp_summary :: json

definition report_action :: "json \<Rightarrow> qexn + reported" where
  "report_action entry =
     py_bind (as_dict entry) (\<lambda>action.
     py_bind (action_result action) (\<lambda>runtime.
     let status = py_str (get_default action ''status'' (JStr ''unknown''));
         paths = get_default runtime ''output_paths'' (JList [])
     in Inr \<lparr>rp_status = status, rp_paths = (if is_list paths then map py_str (the_list paths) else []),
          rp_summary = JObj [(''action_id'', dget action ''action_id''), (''skill_id'', dget action ''skill_id''),
            (''status'', JStr status), (''arguments_hash'', dget action ''arguments_hash''),
            (''runtime_status'', dget runtime ''status''), (''output_paths'', paths)]\<rparr>))"

fun report_all :: "json list \<Rightarrow> qexn + reported list" where
  "report_all [] = Inr []"
| "report_all (entry # rest) =
     py_bind (report_action entry) (\<lambda>r. py_bind (report_all rest) (\<lambda>rs. Inr (r # rs)))"

definition counted :: "reported list \<Rightarrow> pystr \<Rightarrow> int" where
  "counted rs status = int (length (filter (\<lambda>r. rp_status r = status) rs))"

definition counts_payload :: "reported list \<Rightarrow> json" where
  "counts_payload rs = JObj (map (\<lambda>s. (s, JInt (counted rs s)))
     [''completed'', ''rejected'', ''failed'', ''proposed'', ''running''])"

definition check_evidence :: "world \<Rightarrow> pystr \<Rightarrow> qexn + unit" where
  "check_evidence w path =
     py_bind (value_error (evidence_file w path = Missing)) (\<lambda>_.
     py_bind (read_value (evidence_file w path)) (\<lambda>v.
     py_bind (as_dict v) (\<lambda>payload.
     let exit_code = dget payload ''exit_code'' in
     if \<not> hashable exit_code then Inl (Raised TypeError)
     else py_bind (value_error (exit_code \<noteq> JNull \<and> \<not> py_eq exit_code (JInt 0))) (\<lambda>_.
       py_bind (raised (in_str_set (dget payload ''status'') [''failed'', ''blocked'', ''error''])) value_error))))"

fun check_all_evidence :: "world \<Rightarrow> pystr list \<Rightarrow> qexn + unit" where
  "check_all_evidence w [] = Inr ()"
| "check_all_evidence w (path # rest) = py_bind (check_evidence w path) (\<lambda>_. check_all_evidence w rest)"

definition review_counts_ok :: "reported list \<Rightarrow> bool" where
  "review_counts_ok rs \<longleftrightarrow> counted rs ''failed'' = 0 \<and> counted rs ''proposed'' = 0 \<and> counted rs ''running'' = 0 \<and>
     counted rs ''completed'' \<ge> 1"

definition execution_summary :: "pystr \<Rightarrow> jdict \<Rightarrow> reported list \<Rightarrow> jdict" where
  "execution_summary now queue rs = [
     (''schema_version'', JStr ''1.0.0''),
     (''report_type'', JStr ''conversational_execution_validation''),
     (''status'', JStr ''passed''),
     (''status_code'', JStr ''EXECUTION_EVIDENCE_VALIDATED''),
     (''generated_at'', JStr now),
     (''mission_id'', dget queue ''mission_id''),
     (''plan_id'', dget queue ''plan_id''),
     (''counts'', counts_payload rs),
     (''actions'', JList (map rp_summary rs)),
     (''evidence_paths'', jstrs (concat (map rp_paths rs))),
     (''authority'', JObj [(''validation_is_evidence_only'', JBool True),
        (''validation_does_not_authorize_review'', JBool True), (''validation_does_not_close_mission'', JBool True)])]"

text \<open>The three tests of the counts all raise \<open>ValueError\<close>.\<close>

definition review_actions :: "world \<Rightarrow> jdict \<Rightarrow> qexn + reported list" where
  "review_actions w queue =
     (let actions = get_default queue ''actions'' (JList []) in
      py_bind (value_error (\<not> is_list actions \<or> the_list actions = [])) (\<lambda>_.
      py_bind (report_all (the_list actions)) (\<lambda>rs.
      py_bind (value_error (\<not> review_counts_ok rs)) (\<lambda>_.
      py_bind (check_all_evidence w (concat (map rp_paths rs))) (\<lambda>_. Inr rs)))))"

definition validate_actions :: "world \<Rightarrow> text_write \<Rightarrow> lifecycle_fs \<Rightarrow> jdict \<Rightarrow> (qexn + jdict) \<times> lifecycle_fs" where
  "validate_actions w outcome fs queue =
     or_raise (review_actions w queue) fs (\<lambda>rs.
     let summary = execution_summary (clock w 0) queue rs in
     saving outcome summary (summary_file fs) (\<lambda>c. fs\<lparr>summary_file := c\<rparr>) (\<lambda>fs'. (Inr summary, fs')))"

section \<open>Review\<close>

definition canonical_hash :: "jdict \<Rightarrow> pystr" where
  "canonical_hash payload = canonical_digest payload"

definition SUMMARY_PATH :: pystr where
  "SUMMARY_PATH = ''reports/conversation_execution_summary.json''"

definition count_of :: "jdict \<Rightarrow> pystr \<Rightarrow> int" where
  "count_of execution s = the_int (dget (the_obj (dget execution ''counts'')) s)"

definition review_summary_text :: "jdict \<Rightarrow> pystr" where
  "review_summary_text execution =
     ''Human review of conversational mission evidence: '' @ int_repr (count_of execution ''completed'') @ '' completed, '' @
     int_repr (count_of execution ''rejected'') @ '' rejected, '' @ int_repr (count_of execution ''failed'') @
     '' failed actions. All completed command evidence reports successful deterministic execution.''"

definition review_proposal :: "pystr \<Rightarrow> pystr \<Rightarrow> jdict \<Rightarrow> jdict" where
  "review_proposal now who execution =
     (let sha = sha256_hex (stored_text execution);
          suffix = take 10 (canonical_hash [(''mission_id'', dget execution ''mission_id''),
            (''execution_sha256'', JStr sha), (''counts'', dget execution ''counts'')])
      in [
     (''schema_version'', JStr ''1.0.0''),
     (''report_type'', JStr ''conversational_review_proposal''),
     (''review_id'', JStr (''review-'' @ suffix)),
     (''mission_id'', dget execution ''mission_id''),
     (''created_at'', JStr now),
     (''reviewed_by'', JStr who),
     (''decision'', JStr ''approved''),
     (''review_summary'', JStr (review_summary_text execution)),
     (''execution_evidence'', JStr SUMMARY_PATH),
     (''execution_sha256'', JStr sha),
     (''status'', JStr ''proposed''),
     (''approval_phrase'', JStr (''APROBAR REVIEW-'' @ py_upper suffix)),
     (''changes_phrase'', JStr (''CAMBIOS REVIEW-'' @ py_upper suffix)),
     (''authority'', JObj [(''proposal_is_not_human_review'', JBool True),
        (''exact_human_approval_required'', JBool True), (''review_does_not_close_mission'', JBool True)])])"

definition build_review_proposal :: "world \<Rightarrow> lifecycle_fs \<Rightarrow> jdict \<Rightarrow> pystr \<Rightarrow> (qexn + json) \<times> lifecycle_fs" where
  "build_review_proposal w fs queue who =
     or_raise (load_optional (review_file fs)) fs (\<lambda>existing.
     if existing \<noteq> JNull then (Inr existing, fs)
     else case validate_actions w (writes w 0) fs queue of
            (Inl e, fs1) \<Rightarrow> (Inl e, fs1)
          | (Inr execution, fs1) \<Rightarrow>
              (let proposal = review_proposal (clock w 1) who execution in
               saving (writes w 1) proposal (review_file fs1) (\<lambda>c. fs1\<lparr>review_file := c\<rparr>) (\<lambda>fs2. (Inr (JObj proposal), fs2))))"

text \<open>\<open>len(paths) != 1\<close> and \<open>Path(paths[0])\<close>.\<close>

definition only_path :: "json \<Rightarrow> qexn + pystr" where
  "only_path v = (case v of
     JList xs \<Rightarrow> (if length xs \<noteq> 1 then Inl (Raised ValueError)
                   else if is_str (hd xs) then Inr (the_str (hd xs)) else Inl (Raised TypeError))
   | JStr s \<Rightarrow> (if length s \<noteq> 1 then Inl (Raised ValueError) else Inr s)
   | JObj d \<Rightarrow> (if length d \<noteq> 1 then Inl (Raised ValueError) else Inl (Raised KeyError))
   | _ \<Rightarrow> Inl (Raised TypeError))"

text \<open>Reading a piece of evidence: the file must exist and hold an object.\<close>

definition read_evidence :: "world \<Rightarrow> pystr \<Rightarrow> qexn + jdict" where
  "read_evidence w path =
     py_bind (value_error (evidence_file w path = Missing)) (\<lambda>_.
     py_bind (read_value (evidence_file w path)) as_dict)"

text \<open>\<open>proposal[k] = v\<close> on a value that is no dictionary.\<close>

definition item_target :: "json \<Rightarrow> qexn + jdict" where
  "item_target v = (case v of JObj d \<Rightarrow> Inr d | _ \<Rightarrow> Inl (Raised TypeError))"

definition recorded_payload :: "jdict \<Rightarrow> pystr \<Rightarrow> pystr \<Rightarrow> pystr \<Rightarrow> pystr \<Rightarrow> pystr \<Rightarrow> jdict" where
  "recorded_payload d now name_key name sha_key sha =
     dict_set (dict_set (dict_set (dict_set d ''status'' (JStr ''recorded'')) ''recorded_at'' (JStr now))
       name_key (JStr name)) sha_key (JStr sha)"

definition mark_review_recorded :: "world \<Rightarrow> lifecycle_fs \<Rightarrow> jdict \<Rightarrow> (qexn + jdict) \<times> lifecycle_fs" where
  "mark_review_recorded w fs runtime_result =
     or_raise (load_optional (review_file fs)) fs (\<lambda>proposal.
     or_raise (value_error (proposal = JNull)) fs (\<lambda>_.
     or_raise (only_path (get_default runtime_result ''output_paths'' (JList []))) fs (\<lambda>path.
     or_raise (read_evidence w path) fs (\<lambda>review.
     or_raise (value_error (dget review ''review_decision'' \<noteq> JStr ''approved'')) fs (\<lambda>_.
     or_raise (value_error (dget review ''human_approval'' \<noteq> JBool True)) fs (\<lambda>_.
     or_raise (item_target proposal) fs (\<lambda>d.
     or_raise (mission_relative w path) fs (\<lambda>name.
     let p = recorded_payload d (clock w 0) ''review_evidence'' name ''review_sha256'' (evidence_sha w path) in
     saving (writes w 0) p (review_file fs) (\<lambda>c. fs\<lparr>review_file := c\<rparr>) (\<lambda>fs'. (Inr p, fs'))))))))))"

text \<open>\<open>review is None or review.get("status") != "recorded"\<close>.\<close>

definition require_recorded :: "json \<Rightarrow> qexn + jdict" where
  "require_recorded v =
     py_bind (value_error (v = JNull)) (\<lambda>_.
     py_bind (as_dict v) (\<lambda>d.
     py_bind (value_error (dget d ''status'' \<noteq> JStr ''recorded'')) (\<lambda>_. Inr d)))"

section \<open>Teachback\<close>

definition TEACHBACK_PROMPT :: pystr where
  "TEACHBACK_PROMPT = ''Explic'' @ [CHR 0xE1] @ '' con tus palabras qu'' @ [CHR 0xE9] @ '' se ejecut'' @ [CHR 0xF3] @
     '', qu'' @ [CHR 0xE9] @ '' evidencia demuestra el resultado y por qu'' @ [CHR 0xE9] @
     '' las acciones siguientes siguen requiriendo aprobaci'' @ [CHR 0xF3] @ ''n humana.''"

definition teachback_request :: "pystr \<Rightarrow> json \<Rightarrow> bool \<Rightarrow> int \<Rightarrow> json \<Rightarrow> json \<Rightarrow> jdict" where
  "teachback_request now mission_id needed level execution_evidence review_evidence = [
     (''schema_version'', JStr ''1.0.0''),
     (''report_type'', JStr ''conversational_teachback_request''),
     (''mission_id'', mission_id),
     (''created_at'', JStr now),
     (''required'', JBool needed),
     (''required_level'', JInt level),
     (''prompt'', JStr TEACHBACK_PROMPT),
     (''response_prefix'', JStr ''TEACHBACK:''),
     (''status'', JStr ''awaiting_user_explanation''),
     (''execution_evidence'', execution_evidence),
     (''review_evidence'', review_evidence),
     (''authority'', JObj [(''generated_prompt_is_not_teachback'', JBool True),
        (''human_explanation_is_required'', JBool True), (''teachback_does_not_close_mission'', JBool True)])]"

text \<open>\<open>first\<close> is the position of this operation's clock reading and write among those of its caller.\<close>

definition build_teachback_request :: "nat \<Rightarrow> world \<Rightarrow> lifecycle_fs \<Rightarrow> (qexn + json) \<times> lifecycle_fs" where
  "build_teachback_request first w fs =
     or_raise (load_optional (teachback_file fs)) fs (\<lambda>existing.
     if existing \<noteq> JNull then (Inr existing, fs)
     else
       or_raise (py_bind (load_optional (review_file fs)) require_recorded) fs (\<lambda>review.
       or_raise (py_bind (read_value (manifest w)) as_dict) fs (\<lambda>m.
       or_raise (as_dict (get_default m ''teachback'' (JObj []))) fs (\<lambda>policy.
       or_raise (raised (py_int (get_default policy ''required_level'' (JInt 1)))) fs (\<lambda>level.
       or_raise (key review ''mission_id'') fs (\<lambda>mission_id.
       or_raise (key review ''execution_evidence'') fs (\<lambda>execution_evidence.
       or_raise (key review ''review_evidence'') fs (\<lambda>review_evidence.
       let p = teachback_request (clock w first) mission_id (truthy (get_default policy ''required'' (JBool True))) level
                 execution_evidence review_evidence in
       saving (writes w first) p (teachback_file fs) (\<lambda>c. fs\<lparr>teachback_file := c\<rparr>) (\<lambda>fs'. (Inr (JObj p), fs'))))))))))"

definition mark_teachback_recorded :: "world \<Rightarrow> lifecycle_fs \<Rightarrow> jdict \<Rightarrow> (qexn + jdict) \<times> lifecycle_fs" where
  "mark_teachback_recorded w fs record_result =
     or_raise (load_optional (teachback_file fs)) fs (\<lambda>request.
     or_raise (value_error (request = JNull)) fs (\<lambda>_.
     or_raise (value_error (\<not> truthy (dget record_result ''record_path''))) fs (\<lambda>_.
     or_raise (if is_str (dget record_result ''record_path'') then Inr (text_of record_result ''record_path'')
               else Inl (Raised TypeError)) fs (\<lambda>path.
     or_raise (read_evidence w path) fs (\<lambda>rec.
     or_raise (value_error (dget rec ''result'' \<noteq> JStr ''passed'')) fs (\<lambda>_.
     or_raise (value_error (dget rec ''completed_by_user'' \<noteq> JBool True)) fs (\<lambda>_.
     or_raise (item_target request) fs (\<lambda>d.
     or_raise (mission_relative w path) fs (\<lambda>name.
     let p = recorded_payload d (clock w 0) ''teachback_record'' name ''teachback_sha256'' (evidence_sha w path) in
     saving (writes w 0) p (teachback_file fs) (\<lambda>c. fs\<lparr>teachback_file := c\<rparr>) (\<lambda>fs'. (Inr p, fs')))))))))))"

section \<open>Closure\<close>

definition closure_proposal :: "pystr \<Rightarrow> pystr \<Rightarrow> jdict \<Rightarrow> jdict \<Rightarrow> jdict" where
  "closure_proposal now who review teachback =
     (let suffix = take 10 (canonical_hash [(''mission_id'', dget review ''mission_id''),
            (''execution_sha256'', dget review ''execution_sha256''), (''review_sha256'', dget review ''review_sha256''),
            (''teachback_sha256'', dget teachback ''teachback_sha256''), (''actor'', JStr who)])
      in [
     (''schema_version'', JStr ''1.0.0''),
     (''report_type'', JStr ''conversational_closure_proposal''),
     (''closure_id'', JStr (''closure-'' @ suffix)),
     (''mission_id'', dget review ''mission_id''),
     (''created_at'', JStr now),
     (''human_actor'', JStr who),
     (''closure_reason'', JStr ''Human approved closure after validated execution, review and Teachback evidence.''),
     (''execution_evidence'', dget review ''execution_evidence''),
     (''review_evidence'', dget review ''review_evidence''),
     (''teachback_record'', dget teachback ''teachback_record''),
     (''status'', JStr ''proposed''),
     (''approval_phrase'', JStr (''APROBAR CIERRE-'' @ py_upper suffix)),
     (''authority'', JObj [(''proposal_is_not_closure'', JBool True),
        (''closure_requires_exact_human_approval'', JBool True), (''closure_does_not_authorize_new_work'', JBool True)])])"

definition closure_keys :: "jdict \<Rightarrow> jdict \<Rightarrow> qexn + unit" where
  "closure_keys review teachback =
     (if list_all (\<lambda>k. dict_get review k \<noteq> None)
           [''mission_id'', ''execution_sha256'', ''review_sha256'', ''execution_evidence'', ''review_evidence''] \<and>
         list_all (\<lambda>k. dict_get teachback k \<noteq> None) [''teachback_sha256'', ''teachback_record'']
      then Inr () else Inl (Raised KeyError))"

text \<open>Both files are read before either is looked at.\<close>

definition build_closure_proposal :: "nat \<Rightarrow> world \<Rightarrow> lifecycle_fs \<Rightarrow> pystr \<Rightarrow> (qexn + json) \<times> lifecycle_fs" where
  "build_closure_proposal first w fs who =
     or_raise (load_optional (closure_file fs)) fs (\<lambda>existing.
     if existing \<noteq> JNull then (Inr existing, fs)
     else
       or_raise (load_optional (review_file fs)) fs (\<lambda>v.
       or_raise (load_optional (teachback_file fs)) fs (\<lambda>u.
       or_raise (require_recorded v) fs (\<lambda>review.
       or_raise (require_recorded u) fs (\<lambda>teachback.
       or_raise (closure_keys review teachback) fs (\<lambda>_.
       let p = closure_proposal (clock w first) who review teachback in
       saving (writes w first) p (closure_file fs) (\<lambda>c. fs\<lparr>closure_file := c\<rparr>) (\<lambda>fs'. (Inr (JObj p), fs'))))))))"

definition closed_payload :: "jdict \<Rightarrow> pystr \<Rightarrow> json \<Rightarrow> json \<Rightarrow> jdict" where
  "closed_payload d now report memory =
     dict_set (dict_set (dict_set (dict_set d ''status'' (JStr ''closed'')) ''closed_at'' (JStr now))
       ''closure_report'' report) ''memory_outputs'' memory"

definition mark_closed :: "world \<Rightarrow> lifecycle_fs \<Rightarrow> jdict \<Rightarrow> (qexn + jdict) \<times> lifecycle_fs" where
  "mark_closed w fs result =
     or_raise (load_optional (closure_file fs)) fs (\<lambda>proposal.
     or_raise (value_error (proposal = JNull)) fs (\<lambda>_.
     or_raise (value_error (dget result ''status'' \<noteq> JStr ''passed'')) fs (\<lambda>_.
     or_raise (value_error (dget result ''status_code'' \<noteq> JStr ''MISSION_CLOSED'')) fs (\<lambda>_.
     or_raise (item_target proposal) fs (\<lambda>d.
     or_raise (as_dict (get_default result ''paths'' (JObj []))) fs (\<lambda>paths.
     let p = closed_payload d (clock w 0) (dget paths ''mission_closure_report'') (get_default result ''memory_outputs'' (JList [])) in
     saving (writes w 0) p (closure_file fs) (\<lambda>c. fs\<lparr>closure_file := c\<rparr>) (\<lambda>fs'. (Inr p, fs'))))))))"

section \<open>The dialogue\<close>

text \<open>
  \<open>ConversationalHokage\<close> of \<open>run_conversational_hokage.py\<close> around the store. The proposal under
  discussion is the one its file holds; a call of the runtime, its arguments read, is its result; a reply is a refusal,
  which changes nothing, or the documents of the step.
\<close>

definition open_document :: "stored \<Rightarrow> pystr \<Rightarrow> qexn + jdict option" where
  "open_document f status =
     py_bind (load_optional f) (\<lambda>v.
     if \<not> truthy v then Inr None
     else py_bind (as_dict v) (\<lambda>d. Inr (if dget d ''status'' = JStr status then Some d else None)))"

definition current_review :: "lifecycle_fs \<Rightarrow> qexn + jdict option" where
  "current_review fs = open_document (review_file fs) ''proposed''"

definition current_teachback :: "lifecycle_fs \<Rightarrow> qexn + jdict option" where
  "current_teachback fs = open_document (teachback_file fs) ''awaiting_user_explanation''"

definition current_closure :: "lifecycle_fs \<Rightarrow> qexn + jdict option" where
  "current_closure fs = open_document (closure_file fs) ''proposed''"

datatype reply = Refused pystr | Accepted "json list"

text \<open>A sequence of two operations, of which the second runs when the first returns.\<close>

definition and_then :: "(qexn + 'a) \<times> 's \<Rightarrow> ('a \<Rightarrow> 's \<Rightarrow> (qexn + 'b) \<times> 's) \<Rightarrow> (qexn + 'b) \<times> 's" where
  "and_then m k = (case m of (Inl e, s) \<Rightarrow> (Inl e, s) | (Inr x, s) \<Rightarrow> k x s)"

definition approve_review :: "world \<Rightarrow> lifecycle_fs \<Rightarrow> jdict \<Rightarrow> pystr \<Rightarrow> qexn + jdict \<Rightarrow> (qexn + reply) \<times> lifecycle_fs" where
  "approve_review w fs review phrase runtime =
     or_raise (key review ''approval_phrase'') fs (\<lambda>expected.
     if JStr (py_strip phrase) \<noteq> expected then (Inr (Refused ''REVIEW_APPROVAL_MISMATCH''), fs)
     else or_raise runtime fs (\<lambda>result.
       and_then (mark_review_recorded w fs result) (\<lambda>recorded fs1.
       and_then (build_teachback_request 1 w fs1) (\<lambda>teachback fs2.
       (Inr (Accepted [JObj recorded, teachback]), fs2)))))"

definition request_review_changes :: "world \<Rightarrow> lifecycle_fs \<Rightarrow> jdict \<Rightarrow> pystr \<Rightarrow> (qexn + reply) \<times> lifecycle_fs" where
  "request_review_changes w fs review phrase =
     or_raise (key review ''changes_phrase'') fs (\<lambda>expected.
     if JStr (py_strip phrase) \<noteq> expected then (Inr (Refused ''REVIEW_CHANGES_MISMATCH''), fs)
     else
       (let p = dict_set (dict_set review ''status'' (JStr ''changes_requested'')) ''changes_requested_at'' (JStr (clock w 0)) in
        saving (writes w 0) p (review_file fs) (\<lambda>c. fs\<lparr>review_file := c\<rparr>) (\<lambda>fs'. (Inr (Accepted [JObj p]), fs'))))"

definition explanation_of :: "pystr \<Rightarrow> pystr" where
  "explanation_of text = py_strip (drop (length ''TEACHBACK:'') text)"

definition record_teachback ::
  "world \<Rightarrow> lifecycle_fs \<Rightarrow> jdict \<Rightarrow> pystr \<Rightarrow> qexn + jdict \<Rightarrow> pystr \<Rightarrow> (qexn + reply) \<times> lifecycle_fs" where
  "record_teachback w fs request text runtime who =
     (if \<not> py_startswith (py_upper text) ''TEACHBACK:'' then (Inr (Refused ''TEACHBACK_PREFIX_REQUIRED''), fs)
      else if length (explanation_of text) < 20 then (Inr (Refused ''TEACHBACK_TOO_SHORT''), fs)
      else if list_ex (\<lambda>k. dict_get request k = None) [''mission_id'', ''required_level'', ''execution_evidence'', ''review_evidence'']
        then (Inl (Raised KeyError), fs)
      else or_raise (raised (py_int (dget request ''required_level''))) fs (\<lambda>_.
        or_raise runtime fs (\<lambda>result.
        and_then (mark_teachback_recorded w fs result) (\<lambda>recorded fs1.
        and_then (build_closure_proposal 1 w fs1 who) (\<lambda>closure fs2.
        (Inr (Accepted [JObj recorded, closure]), fs2))))))"

definition approve_closure :: "world \<Rightarrow> lifecycle_fs \<Rightarrow> jdict \<Rightarrow> pystr \<Rightarrow> qexn + jdict \<Rightarrow> (qexn + reply) \<times> lifecycle_fs" where
  "approve_closure w fs closure phrase runtime =
     or_raise (key closure ''approval_phrase'') fs (\<lambda>expected.
     if JStr (py_strip phrase) \<noteq> expected then (Inr (Refused ''CLOSURE_APPROVAL_MISMATCH''), fs)
     else or_raise runtime fs (\<lambda>result.
       and_then (mark_closed w fs result) (\<lambda>recorded fs1. (Inr (Accepted [JObj recorded]), fs1))))"

end
