(* ===== verification/Lifecycle_History.thy ===== *)
theory Lifecycle_History
  imports Lifecycle
begin

text \<open>
  All dialogues about the closure of a mission: which calls were made, with what the human typed,
  what the runtime returned and what the files and writes were, and what the store holds after
  them. A write may fail or be torn at any point; nobody else writes the store's files.
\<close>

section \<open>Dialogues\<close>

datatype call =
    PrepareReview world jdict pystr
  | ApproveReview world jdict pystr "qexn + jdict"
  | RequestChanges world jdict pystr
  | RecordTeachback world jdict pystr "qexn + jdict" pystr
  | ApproveClosure world jdict pystr "qexn + jdict"

inductive dialogue_step :: "call list \<times> lifecycle_fs \<Rightarrow> call list \<times> lifecycle_fs \<Rightarrow> bool" where
  prepare: "dialogue_step (cs, fs) (PrepareReview w queue who # cs, snd (build_review_proposal w fs queue who))"
| approve: "current_review fs = Inr (Some review) \<Longrightarrow>
    dialogue_step (cs, fs) (ApproveReview w review phrase runtime # cs, snd (approve_review w fs review phrase runtime))"
| changes: "current_review fs = Inr (Some review) \<Longrightarrow>
    dialogue_step (cs, fs) (RequestChanges w review phrase # cs, snd (request_review_changes w fs review phrase))"
| teachback: "current_teachback fs = Inr (Some request) \<Longrightarrow>
    dialogue_step (cs, fs) (RecordTeachback w request text runtime who # cs, snd (record_teachback w fs request text runtime who))"
| closure: "current_closure fs = Inr (Some proposal) \<Longrightarrow>
    dialogue_step (cs, fs) (ApproveClosure w proposal phrase runtime # cs, snd (approve_closure w fs proposal phrase runtime))"

inductive_cases dialogue_stepE: "dialogue_step (cs, fs) s'"

definition no_documents :: lifecycle_fs where
  "no_documents = \<lparr>review_file = Missing, teachback_file = Missing, closure_file = Missing, summary_file = Missing\<rparr>"

text \<open>Calls of the given kinds were made in the given order, among others; latest first.\<close>

fun ordered :: "('c \<Rightarrow> bool) list \<Rightarrow> 'c list \<Rightarrow> bool" where
  "ordered [] cs = True"
| "ordered (P # Ps) [] = False"
| "ordered (P # Ps) (c # cs) = (P c \<and> ordered Ps cs \<or> ordered (P # Ps) cs)"

lemma ordered_mono [simp, intro]: "ordered Ps cs \<Longrightarrow> ordered Ps (c # cs)"
  by (cases Ps) auto

section \<open>What the calls must have been\<close>

text \<open>The runtime's review evidence says that a human approved.\<close>

definition review_evidence_ok :: "world \<Rightarrow> jdict \<Rightarrow> bool" where
  "review_evidence_ok w result \<longleftrightarrow> (\<exists>path review. only_path (get_default result ''output_paths'' (JList [])) = Inr path \<and>
     evidence_file w path = Holds (JObj review) \<and>
     dget review ''review_decision'' = JStr ''approved'' \<and> dget review ''human_approval'' = JBool True)"

definition teachback_evidence_ok :: "world \<Rightarrow> jdict \<Rightarrow> bool" where
  "teachback_evidence_ok w result \<longleftrightarrow> (\<exists>path rec. dget result ''record_path'' = JStr path \<and> path \<noteq> [] \<and>
     evidence_file w path = Holds (JObj rec) \<and>
     dget rec ''result'' = JStr ''passed'' \<and> dget rec ''completed_by_user'' = JBool True)"

definition prepares :: "call \<Rightarrow> bool" where
  "prepares c \<longleftrightarrow> (\<exists>w queue who rs. c = PrepareReview w queue who \<and> review_actions w queue = Inr rs)"

definition approves_review :: "call \<Rightarrow> bool" where
  "approves_review c \<longleftrightarrow> (\<exists>w review phrase result. c = ApproveReview w review phrase (Inr result) \<and>
     dget review ''approval_phrase'' = JStr (py_strip phrase) \<and> review_evidence_ok w result)"

definition teaches_back :: "call \<Rightarrow> bool" where
  "teaches_back c \<longleftrightarrow> (\<exists>w request text result who. c = RecordTeachback w request text (Inr result) who \<and>
     20 \<le> length (explanation_of text) \<and> teachback_evidence_ok w result)"

definition approves_closure :: "call \<Rightarrow> bool" where
  "approves_closure c \<longleftrightarrow> (\<exists>w proposal phrase result. c = ApproveClosure w proposal phrase (Inr result) \<and>
     dget proposal ''approval_phrase'' = JStr (py_strip phrase) \<and>
     dget result ''status'' = JStr ''passed'' \<and> dget result ''status_code'' = JStr ''MISSION_CLOSED'')"

section \<open>The effect of each operation\<close>

definition document_held :: "stored \<Rightarrow> bool" where
  "document_held f \<longleftrightarrow> (\<exists>v. f = Holds v)"

definition in_status :: "stored \<Rightarrow> pystr \<Rightarrow> bool" where
  "in_status f status \<longleftrightarrow> (\<exists>d. f = Holds (JObj d) \<and> dget d ''status'' = JStr status)"

lemma document_held_simps [simp]: "document_held (Holds v)" "\<not> document_held Missing" "\<not> document_held NotJsonText"
  by (simp_all add: document_held_def)

lemma in_status_simps [simp]:
  "in_status (Holds (JObj d)) st \<longleftrightarrow> dget d ''status'' = JStr st" "\<not> in_status Missing st" "\<not> in_status NotJsonText st"
  by (simp_all add: in_status_def)

lemma in_status_held: "in_status f st \<Longrightarrow> document_held f"
  by (auto simp: in_status_def document_held_def)

lemma load_optional_Inr: "load_optional f = Inr v \<longleftrightarrow> f = Holds v \<or> f = Missing \<and> v = JNull"
  by (auto simp: load_optional_def read_value_def split: stored.splits)

lemma value_error_Inr [simp]: "value_error b = Inr u \<longleftrightarrow> \<not> b"
  by (simp add: value_error_def)

lemma as_dict_Inr [simp]: "as_dict v = Inr d \<longleftrightarrow> v = JObj d"
  by (auto simp: as_dict_def split: json.splits)

lemma item_target_Inr [simp]: "item_target v = Inr d \<longleftrightarrow> v = JObj d"
  by (auto simp: item_target_def split: json.splits)

lemma read_evidence_Inr [simp]: "read_evidence w path = Inr d \<longleftrightarrow> evidence_file w path = Holds (JObj d)"
  by (auto simp: read_evidence_def read_value_def split: stored.splits)

lemma require_recorded_Inr [simp]:
  "require_recorded v = Inr d \<longleftrightarrow> v = JObj d \<and> dget d ''status'' = JStr ''recorded''"
  by (auto simp: require_recorded_def)

lemma or_raise_pair:
  "or_raise m s k = (r, s') \<longleftrightarrow> (\<exists>e. m = Inl e \<and> r = Inl e \<and> s' = s) \<or> (\<exists>x. m = Inr x \<and> k x = (r, s'))"
  by (auto simp: or_raise_def split: sum.splits)

lemma saving_pair:
  "saving outcome p cell put k = (r, s') \<longleftrightarrow> outcome = Written \<and> k (put (Holds (JObj (sorted_dict p)))) = (r, s') \<or>
     outcome \<noteq> Written \<and> r = Inl OsRaised \<and> s' = put (if outcome = Torn then NotJsonText else cell)"
  by (cases outcome) (auto simp: saving_def)

lemma recorded_status [simp]: "dget (recorded_payload d now k n k' s) ''status'' = (if k' = ''status'' then JStr s
    else if k = ''status'' then JStr n else JStr ''recorded'')"
  by (simp add: recorded_payload_def)

text \<open>What one operation does to one file: nothing, a torn text, or a new document.\<close>

definition spoiled :: "stored \<Rightarrow> stored \<Rightarrow> bool" where
  "spoiled old new \<longleftrightarrow> new = old \<or> new = NotJsonText"

lemma mark_review_effect:
  assumes "mark_review_recorded w fs result = (r, fs')"
  shows "\<exists>f. fs' = fs\<lparr>review_file := f\<rparr> \<and>
    ((\<exists>e. r = Inl e) \<and> spoiled (review_file fs) f \<or>
     (\<exists>p. r = Inr p) \<and> in_status f ''recorded'' \<and> document_held (review_file fs) \<and> review_evidence_ok w result)"
  using assms
  by (cases fs) (auto simp: mark_review_recorded_def or_raise_pair saving_pair Let_def load_optional_Inr spoiled_def review_evidence_ok_def)

lemma build_teachback_effect:
  assumes "build_teachback_request n w fs = (r, fs')"
  shows "\<exists>f. fs' = fs\<lparr>teachback_file := f\<rparr> \<and>
    (spoiled (teachback_file fs) f \<or> in_status (review_file fs) ''recorded'' \<and> in_status f ''awaiting_user_explanation'')"
  using assms
  by (cases fs) (auto simp: build_teachback_request_def or_raise_pair saving_pair Let_def load_optional_Inr spoiled_def
      teachback_request_def split: if_splits)

lemma mark_teachback_effect:
  assumes "mark_teachback_recorded w fs result = (r, fs')"
  shows "\<exists>f. fs' = fs\<lparr>teachback_file := f\<rparr> \<and>
    ((\<exists>e. r = Inl e) \<and> spoiled (teachback_file fs) f \<or>
     (\<exists>p. r = Inr p) \<and> in_status f ''recorded'' \<and> document_held (teachback_file fs) \<and> teachback_evidence_ok w result)"
  using assms
  by (cases fs; cases "dget result ''record_path''") (auto simp: mark_teachback_recorded_def or_raise_pair saving_pair Let_def load_optional_Inr spoiled_def
      teachback_evidence_ok_def text_of_def split: if_splits)

lemma build_closure_effect:
  assumes "build_closure_proposal n w fs who = (r, fs')"
  shows "\<exists>f. fs' = fs\<lparr>closure_file := f\<rparr> \<and>
    (spoiled (closure_file fs) f \<or> in_status (review_file fs) ''recorded'' \<and> in_status (teachback_file fs) ''recorded'' \<and>
       in_status f ''proposed'')"
  using assms
  by (cases fs) (auto simp: build_closure_proposal_def or_raise_pair saving_pair Let_def load_optional_Inr spoiled_def
      closure_proposal_def split: if_splits)

lemma mark_closed_effect:
  assumes "mark_closed w fs result = (r, fs')"
  shows "\<exists>f. fs' = fs\<lparr>closure_file := f\<rparr> \<and> (spoiled (closure_file fs) f \<or> document_held (closure_file fs) \<and> document_held f \<and>
     dget result ''status'' = JStr ''passed'' \<and> dget result ''status_code'' = JStr ''MISSION_CLOSED'')"
  using assms
  by (cases fs) (auto simp: mark_closed_def or_raise_pair saving_pair Let_def load_optional_Inr spoiled_def)

lemma build_review_effect:
  assumes "build_review_proposal w fs queue who = (r, fs')"
  shows "\<exists>f g. fs' = fs\<lparr>review_file := f, summary_file := g\<rparr> \<and>
    (spoiled (review_file fs) f \<or> in_status f ''proposed'' \<and> (\<exists>rs. review_actions w queue = Inr rs))"
  using assms
  by (cases fs) (auto simp: build_review_proposal_def validate_actions_def or_raise_pair saving_pair Let_def load_optional_Inr
      spoiled_def review_proposal_def split: prod.splits sum.splits if_splits)

section \<open>The invariant of every dialogue\<close>

abbreviation proposed_calls :: "(call \<Rightarrow> bool) list" where "proposed_calls \<equiv> [prepares]"
abbreviation reviewed_calls :: "(call \<Rightarrow> bool) list" where "reviewed_calls \<equiv> approves_review # proposed_calls"
abbreviation taught_calls :: "(call \<Rightarrow> bool) list" where "taught_calls \<equiv> teaches_back # reviewed_calls"
abbreviation closed_calls :: "(call \<Rightarrow> bool) list" where "closed_calls \<equiv> approves_closure # taught_calls"

definition staged :: "call list \<times> lifecycle_fs \<Rightarrow> bool" where
  "staged s \<longleftrightarrow> (case s of (cs, fs) \<Rightarrow>
     (document_held (review_file fs) \<longrightarrow> ordered proposed_calls cs) \<and>
     (in_status (review_file fs) ''recorded'' \<longrightarrow> ordered reviewed_calls cs) \<and>
     (document_held (teachback_file fs) \<longrightarrow> ordered reviewed_calls cs) \<and>
     (in_status (teachback_file fs) ''recorded'' \<longrightarrow> ordered taught_calls cs) \<and>
     (document_held (closure_file fs) \<longrightarrow> ordered taught_calls cs) \<and>
     (in_status (closure_file fs) ''closed'' \<longrightarrow> ordered closed_calls cs))"

lemma ordered_tail: "ordered (P # Ps) cs \<Longrightarrow> ordered Ps cs"
  by (induction cs) auto

lemma staged_later: "staged (cs, fs) \<Longrightarrow> staged (c # cs, fs)"
  by (auto simp: staged_def simp del: ordered.simps)

lemma spoiled_simps: "spoiled old new \<Longrightarrow> document_held new \<Longrightarrow> new = old"
  by (auto simp: spoiled_def)

lemma current_status:
  "open_document f st = Inr (Some d) \<Longrightarrow> f = Holds (JObj d) \<and> dget d ''status'' = JStr st"
  by (auto simp: open_document_def load_optional_Inr split: if_splits)

lemma staged_review:
  assumes "staged (cs, fs)" and "spoiled (review_file fs) f \<or> in_status f st \<and> st \<noteq> ''recorded'' \<and> ordered proposed_calls cs \<or>
    in_status f ''recorded'' \<and> ordered reviewed_calls cs"
  shows "staged (cs, fs\<lparr>review_file := f\<rparr>)"
  using assms by (auto simp: staged_def in_status_def document_held_def spoiled_def dest: ordered_tail)

lemma staged_teachback:
  assumes "staged (cs, fs)" and "spoiled (teachback_file fs) f \<or> in_status f ''awaiting_user_explanation'' \<and> ordered reviewed_calls cs \<or>
    in_status f ''recorded'' \<and> ordered taught_calls cs"
  shows "staged (cs, fs\<lparr>teachback_file := f\<rparr>)"
  using assms by (auto simp: staged_def in_status_def document_held_def spoiled_def dest: ordered_tail)

lemma staged_closure:
  assumes "staged (cs, fs)" and "spoiled (closure_file fs) f \<or> in_status f ''proposed'' \<and> ordered taught_calls cs \<or>
    document_held f \<and> ordered closed_calls cs"
  shows "staged (cs, fs\<lparr>closure_file := f\<rparr>)"
  using assms by (auto simp: staged_def in_status_def document_held_def spoiled_def dest: ordered_tail)

lemma staged_summary: "staged (cs, fs) \<Longrightarrow> staged (cs, fs\<lparr>summary_file := g\<rparr>)"
  by (simp add: staged_def)

lemma and_then_snd: "snd (and_then m k) = (case m of (Inl e, s) \<Rightarrow> s | (Inr x, s) \<Rightarrow> snd (k x s))"
  by (auto simp: and_then_def split: prod.splits sum.splits)


lemma staged_prepare:
  assumes "staged (cs, fs)"
  shows "staged (PrepareReview w queue who # cs, snd (build_review_proposal w fs queue who))"
proof -
  obtain r fs' where b: "build_review_proposal w fs queue who = (r, fs')" by fastforce
  obtain f g where e: "fs' = fs\<lparr>review_file := f, summary_file := g\<rparr>"
    "spoiled (review_file fs) f \<or> in_status f ''proposed'' \<and> (\<exists>rs. review_actions w queue = Inr rs)"
    using build_review_effect [OF b] by blast
  let ?c = "PrepareReview w queue who"
  from e(2) have "spoiled (review_file fs) f \<or> in_status f ''proposed'' \<and> ordered proposed_calls (?c # cs)"
    by (auto simp: prepares_def)
  then have "staged (?c # cs, fs\<lparr>review_file := f\<rparr>)"
    using staged_review [OF staged_later [OF assms, of ?c], of f "''proposed''"] by auto
  then show ?thesis using staged_summary by (simp add: b e(1))
qed

lemma staged_approve:
  assumes s: "staged (cs, fs)"
  shows "staged (ApproveReview w review phrase runtime # cs, snd (approve_review w fs review phrase runtime))"
proof (cases "dget review ''approval_phrase'' = JStr (py_strip phrase) \<and> (\<exists>result. runtime = Inr result)")
  case False
  then have "snd (approve_review w fs review phrase runtime) = fs"
    by (auto simp: approve_review_def or_raise_def key_def dget_def split: sum.splits option.splits)
  with staged_later [OF s] show ?thesis by simp
next
  case True
  then obtain result where r: "runtime = Inr result" "dget review ''approval_phrase'' = JStr (py_strip phrase)" by blast
  let ?c = "ApproveReview w review phrase runtime"
  obtain r1 fs1 where m: "mark_review_recorded w fs result = (r1, fs1)" by fastforce
  obtain r2 fs2 where t: "build_teachback_request 1 w fs1 = (r2, fs2)" by fastforce
  have fin: "snd (approve_review w fs review phrase runtime) = (case r1 of Inl _ \<Rightarrow> fs1 | Inr _ \<Rightarrow> fs2)"
    using r(2) by (auto simp: approve_review_def key_def r(1) or_raise_def dget_def m and_then_def t
        simp del: One_nat_def split: option.splits sum.splits)
  obtain f where f: "fs1 = fs\<lparr>review_file := f\<rparr>"
    "(\<exists>e. r1 = Inl e) \<and> spoiled (review_file fs) f \<or>
     (\<exists>p. r1 = Inr p) \<and> in_status f ''recorded'' \<and> document_held (review_file fs) \<and> review_evidence_ok w result"
    using mark_review_effect [OF m] by blast
  have call: "ordered reviewed_calls (?c # cs)" if "document_held (review_file fs)" "review_evidence_ok w result"
    using s that r by (simp add: staged_def approves_review_def)
  have s1: "staged (?c # cs, fs1)"
    unfolding f(1) by (rule staged_review [OF staged_later [OF s], where st = "''recorded''"]) (use f(2) call in blast)
  obtain g where g: "fs2 = fs1\<lparr>teachback_file := g\<rparr>"
    "spoiled (teachback_file fs1) g \<or> in_status (review_file fs1) ''recorded'' \<and> in_status g ''awaiting_user_explanation''"
    using build_teachback_effect [OF t] by blast
  have "ordered reviewed_calls (?c # cs)" if "in_status (review_file fs1) ''recorded''"
    using s1 that by (simp add: staged_def del: ordered.simps)
  then have "staged (?c # cs, fs2)"
    unfolding g(1) by (intro staged_teachback [OF s1]) (use g(2) in blast)
  with s1 fin show ?thesis by (cases r1) simp_all
qed

lemma staged_changes:
  assumes s: "staged (cs, fs)" and "current_review fs = Inr (Some review)"
  shows "staged (RequestChanges w review phrase # cs, snd (request_review_changes w fs review phrase))"
proof -
  let ?c = "RequestChanges w review phrase"
  have h: "ordered proposed_calls (?c # cs)"
    using s current_status [OF assms(2) [unfolded current_review_def]] by (simp add: staged_def)
  obtain r fs' where e: "request_review_changes w fs review phrase = (r, fs')" by fastforce
  then have "\<exists>f. fs' = fs\<lparr>review_file := f\<rparr> \<and> (spoiled (review_file fs) f \<or> in_status f ''changes_requested'')"
    by (cases fs) (auto simp: request_review_changes_def or_raise_pair saving_pair Let_def spoiled_def split: if_splits)
  then obtain f where f: "fs' = fs\<lparr>review_file := f\<rparr>" "spoiled (review_file fs) f \<or> in_status f ''changes_requested''" by blast
  have "staged (?c # cs, fs\<lparr>review_file := f\<rparr>)"
    by (rule staged_review [OF staged_later [OF s], where st = "''changes_requested''"]) (use f(2) h in auto)
  then show ?thesis by (simp add: e f(1))
qed

lemma staged_record:
  assumes s: "staged (cs, fs)"
  shows "staged (RecordTeachback w request text runtime who # cs, snd (record_teachback w fs request text runtime who))"
proof (cases "20 \<le> length (explanation_of text) \<and> (\<exists>result. runtime = Inr result)")
  case False
  then have "snd (record_teachback w fs request text runtime who) = fs"
    by (auto simp: record_teachback_def or_raise_def split: sum.splits)
  with staged_later [OF s] show ?thesis by simp
next
  case True
  then obtain result where r: "runtime = Inr result" "20 \<le> length (explanation_of text)" by blast
  let ?c = "RecordTeachback w request text runtime who"
  obtain r1 fs1 where m: "mark_teachback_recorded w fs result = (r1, fs1)" by fastforce
  obtain r2 fs2 where t: "build_closure_proposal 1 w fs1 who = (r2, fs2)" by fastforce
  have fin: "snd (record_teachback w fs request text runtime who) \<in> {fs, case r1 of Inl _ \<Rightarrow> fs1 | Inr _ \<Rightarrow> fs2}"
    by (auto simp: record_teachback_def r(1) or_raise_def m and_then_def t simp del: One_nat_def split: sum.splits)
  obtain f where f: "fs1 = fs\<lparr>teachback_file := f\<rparr>"
    "(\<exists>e. r1 = Inl e) \<and> spoiled (teachback_file fs) f \<or>
     (\<exists>p. r1 = Inr p) \<and> in_status f ''recorded'' \<and> document_held (teachback_file fs) \<and> teachback_evidence_ok w result"
    using mark_teachback_effect [OF m] by blast
  have call: "ordered taught_calls (?c # cs)" if "document_held (teachback_file fs)" "teachback_evidence_ok w result"
    using s that r by (simp add: staged_def teaches_back_def)
  have s1: "staged (?c # cs, fs1)"
    unfolding f(1) by (rule staged_teachback [OF staged_later [OF s]]) (use f(2) call in blast)
  obtain g where g: "fs2 = fs1\<lparr>closure_file := g\<rparr>"
    "spoiled (closure_file fs1) g \<or> in_status (review_file fs1) ''recorded'' \<and> in_status (teachback_file fs1) ''recorded'' \<and>
       in_status g ''proposed''"
    using build_closure_effect [OF t] by blast
  have "ordered taught_calls (?c # cs)" if "in_status (teachback_file fs1) ''recorded''"
    using s1 that by (simp add: staged_def del: ordered.simps)
  then have "staged (?c # cs, fs2)"
    unfolding g(1) by (intro staged_closure [OF s1]) (use g(2) in blast)
  with s1 fin staged_later [OF s] show ?thesis by (cases r1) auto
qed

lemma staged_close:
  assumes s: "staged (cs, fs)"
  shows "staged (ApproveClosure w proposal phrase runtime # cs, snd (approve_closure w fs proposal phrase runtime))"
proof (cases "dget proposal ''approval_phrase'' = JStr (py_strip phrase) \<and> (\<exists>result. runtime = Inr result)")
  case False
  then have "snd (approve_closure w fs proposal phrase runtime) = fs"
    by (auto simp: approve_closure_def or_raise_def key_def dget_def split: sum.splits option.splits)
  with staged_later [OF s] show ?thesis by simp
next
  case True
  then obtain result where r: "runtime = Inr result" "dget proposal ''approval_phrase'' = JStr (py_strip phrase)" by blast
  let ?c = "ApproveClosure w proposal phrase runtime"
  obtain r1 fs1 where m: "mark_closed w fs result = (r1, fs1)" by fastforce
  have fin: "snd (approve_closure w fs proposal phrase runtime) = fs1"
    using r(2) by (auto simp: approve_closure_def key_def r(1) or_raise_def dget_def m and_then_def split: option.splits sum.splits)
  obtain f where f: "fs1 = fs\<lparr>closure_file := f\<rparr>" "spoiled (closure_file fs) f \<or> document_held (closure_file fs) \<and> document_held f \<and>
     dget result ''status'' = JStr ''passed'' \<and> dget result ''status_code'' = JStr ''MISSION_CLOSED''"
    using mark_closed_effect [OF m] by blast
  have "ordered closed_calls (?c # cs)" if "document_held (closure_file fs)" "dget result ''status'' = JStr ''passed''"
    "dget result ''status_code'' = JStr ''MISSION_CLOSED''"
    using s that r by (simp add: staged_def approves_closure_def)
  then have "staged (?c # cs, fs1)"
    unfolding f(1) by (intro staged_closure [OF staged_later [OF s]]) (use f(2) in blast)
  then show ?thesis by (simp add: fin)
qed

interpretation stages: kept dialogue_step staged
proof unfold_locales
  fix s s' assume "staged s" and "dialogue_step s s'"
  from this(2,1) show "staged s'"
    by cases (simp_all add: staged_prepare staged_approve staged_changes staged_record staged_close)
qed

text \<open>
  C8: a mission is closed only after the whole sequence. In every dialogue, with failed and torn
  writes anywhere, when the closure document says closed, then earlier, in this order: the actions
  were validated (some completed, none failed, proposed or running, and no evidence of a failure),
  the human typed the review's phrase and the runtime's evidence says that a human approved, the
  human explained in at least twenty characters and the runtime's record says that the user passed,
  and the human typed the closure's phrase and the runtime reported the mission closed.
\<close>

theorem closed_only_after_review_and_teachback:
  assumes "dialogue_step\<^sup>*\<^sup>* ([], no_documents) (cs, fs)" and "in_status (closure_file fs) ''closed''"
  shows "ordered [approves_closure, teaches_back, approves_review, prepares] cs"
  using stages.history [OF assms(1)] assms(2) by (simp add: staged_def no_documents_def del: ordered.simps)

section \<open>A mission that can be closed\<close>

text \<open>A world that cooperates: writes succeed, names are relative to the mission, the manifest asks
  for a teachback level.\<close>

definition cooperative_world :: "world \<Rightarrow> bool" where
  "cooperative_world w \<longleftrightarrow> writes w = (\<lambda>_. Written) \<and> (\<forall>p. relative_name w p \<noteq> None) \<and>
     (\<exists>m policy level. manifest w = Holds (JObj m) \<and> dict_get m ''teachback'' = Some (JObj policy) \<and>
        dict_get policy ''required_level'' = Some (JInt level))"

lemma saving_Written [simp]: "saving Written p cell put k = k (put (Holds (JObj (sorted_dict p))))"
  by (simp add: saving_def)

lemma load_document [simp]: "load_optional (Holds v) = Inr v" "load_optional Missing = Inr JNull"
  by (simp_all add: load_optional_def read_value_def)

lemma open_document_holds:
  "dget d ''status'' = JStr st \<Longrightarrow> open_document (Holds (JObj d)) st = Inr (Some d)"
  by (cases d) (auto simp: open_document_def)

lemma key_Inr: "dict_get d k = Some v \<Longrightarrow> key d k = Inr v"
  by (simp add: key_def)

lemma review_phrase_strips:
  "py_strip (the_str (dget (review_proposal now who execution) ''approval_phrase'')) = the_str (dget (review_proposal now who execution) ''approval_phrase'')"
  using digest_phrase_strips [of "CHR ''A''" "''PROBAR REVIEW-''"]
  by (simp add: review_proposal_def Let_def canonical_hash_def canonical_digest_def py_isspace_def code_point_def)

lemma closure_phrase_strips:
  "py_strip (the_str (dget (closure_proposal now who r t) ''approval_phrase'')) = the_str (dget (closure_proposal now who r t) ''approval_phrase'')"
  using digest_phrase_strips [of "CHR ''A''" "''PROBAR CIERRE-''"]
  by (simp add: closure_proposal_def Let_def canonical_hash_def canonical_digest_def py_isspace_def code_point_def)

lemma recorded_get:
  "dict_get (recorded_payload d now nk n sk s) k = (if k = sk then Some (JStr s) else if k = nk then Some (JStr n)
     else if k = ''recorded_at'' then Some (JStr now) else if k = ''status'' then Some (JStr ''recorded'') else dict_get d k)"
  by (simp add: recorded_payload_def)

text \<open>What the store of a mission holds at each stage: what the next operation needs of it.\<close>

definition awaits_phrase :: "jdict \<Rightarrow> bool" where
  "awaits_phrase d \<longleftrightarrow> dget d ''status'' = JStr ''proposed'' \<and>
     (\<exists>phrase. dict_get d ''approval_phrase'' = Some (JStr (py_strip phrase)))"

definition awaits_review :: "pystr \<Rightarrow> lifecycle_fs \<Rightarrow> bool" where
  "awaits_review mission fs \<longleftrightarrow> (\<exists>d. review_file fs = Holds (JObj d) \<and> awaits_phrase d \<and> dget d ''mission_id'' = JStr mission \<and>
     has_keys d [''mission_id'', ''execution_evidence'', ''execution_sha256'']) \<and>
     teachback_file fs = Missing \<and> closure_file fs = Missing"

definition reviewed_document :: "jdict \<Rightarrow> bool" where
  "reviewed_document d \<longleftrightarrow> dget d ''status'' = JStr ''recorded'' \<and>
     has_keys d [''mission_id'', ''execution_sha256'', ''review_sha256'', ''execution_evidence'', ''review_evidence'']"

definition awaits_teachback :: "pystr \<Rightarrow> lifecycle_fs \<Rightarrow> bool" where
  "awaits_teachback mission fs \<longleftrightarrow> (\<exists>d. review_file fs = Holds (JObj d) \<and> reviewed_document d \<and> dget d ''mission_id'' = JStr mission) \<and>
     (\<exists>b level. teachback_file fs = Holds (JObj b) \<and> dget b ''status'' = JStr ''awaiting_user_explanation'' \<and>
        has_keys b [''mission_id'', ''execution_evidence'', ''review_evidence''] \<and>
        dict_get b ''required_level'' = Some (JInt level)) \<and> closure_file fs = Missing"

definition awaits_closure :: "pystr \<Rightarrow> lifecycle_fs \<Rightarrow> bool" where
  "awaits_closure mission fs \<longleftrightarrow> in_status (review_file fs) ''recorded'' \<and> in_status (teachback_file fs) ''recorded'' \<and>
     (\<exists>d. closure_file fs = Holds (JObj d) \<and> awaits_phrase d \<and> dget d ''mission_id'' = JStr mission)"

text \<open>A mission whose three documents have reached their last status.\<close>

definition mission_closed :: "pystr \<Rightarrow> lifecycle_fs \<Rightarrow> bool" where
  "mission_closed mission fs \<longleftrightarrow> in_status (review_file fs) ''recorded'' \<and> in_status (teachback_file fs) ''recorded'' \<and>
     (\<exists>d. closure_file fs = Holds (JObj d) \<and> dget d ''status'' = JStr ''closed'' \<and> dget d ''mission_id'' = JStr mission)"

lemma sorted_text: "dget d k = JStr s \<Longrightarrow> dget (sorted_dict d) k = JStr s"
  by (simp add: dget_def split: option.splits)

lemma closure_status: "dget (closure_proposal now who r t) ''status'' = JStr ''proposed''"
  by (simp add: closure_proposal_def Let_def)

lemma mark_review_runs:
  assumes "cooperative_world w" and "review_evidence_ok w result" and "review_file fs = Holds (JObj d)"
  shows "\<exists>name sha. mark_review_recorded w fs result =
    (Inr (recorded_payload d (clock w 0) ''review_evidence'' name ''review_sha256'' sha),
     fs\<lparr>review_file := Holds (JObj (sorted_dict (recorded_payload d (clock w 0) ''review_evidence'' name ''review_sha256'' sha)))\<rparr>)"
proof -
  obtain path review where e: "only_path (get_default result ''output_paths'' (JList [])) = Inr path"
    "evidence_file w path = Holds (JObj review)" "dget review ''review_decision'' = JStr ''approved''"
    "dget review ''human_approval'' = JBool True" using assms(2) by (auto simp: review_evidence_ok_def)
  obtain name where "relative_name w path = Some name" using assms(1) by (auto simp: cooperative_world_def)
  with assms(1,3) e show ?thesis
    by (auto simp: mark_review_recorded_def or_raise_def value_error_def read_evidence_def read_value_def as_dict_def
        item_target_def mission_relative_def cooperative_world_def Let_def)
qed

lemma mark_teachback_runs:
  assumes "cooperative_world w" and "teachback_evidence_ok w result" and "teachback_file fs = Holds (JObj d)"
  shows "\<exists>name sha. mark_teachback_recorded w fs result =
    (Inr (recorded_payload d (clock w 0) ''teachback_record'' name ''teachback_sha256'' sha),
     fs\<lparr>teachback_file := Holds (JObj (sorted_dict (recorded_payload d (clock w 0) ''teachback_record'' name ''teachback_sha256'' sha)))\<rparr>)"
proof -
  obtain path rec where e: "dget result ''record_path'' = JStr path" "path \<noteq> []" "evidence_file w path = Holds (JObj rec)"
    "dget rec ''result'' = JStr ''passed''" "dget rec ''completed_by_user'' = JBool True"
    using assms(2) by (auto simp: teachback_evidence_ok_def)
  obtain name where "relative_name w path = Some name" using assms(1) by (auto simp: cooperative_world_def)
  with assms(1,3) e show ?thesis
    by (auto simp: mark_teachback_recorded_def or_raise_def value_error_def read_evidence_def read_value_def as_dict_def
        item_target_def mission_relative_def cooperative_world_def text_of_def Let_def)
qed

lemma build_teachback_runs:
  assumes "cooperative_world w" and "review_file fs = Holds (JObj d)" "teachback_file fs = Missing" and "reviewed_document d"
  shows "\<exists>m needed level e v. build_teachback_request 1 w fs =
    (Inr (JObj (teachback_request (clock w 1) m needed level e v)),
     fs\<lparr>teachback_file := Holds (JObj (sorted_dict (teachback_request (clock w 1) m needed level e v)))\<rparr>)"
proof -
  obtain mf policy level where p: "manifest w = Holds (JObj mf)" "dict_get mf ''teachback'' = Some (JObj policy)"
    "dict_get policy ''required_level'' = Some (JInt level)" "writes w = (\<lambda>_. Written)"
    using assms(1) by (auto simp: cooperative_world_def)
  obtain m e v where d: "dict_get d ''mission_id'' = Some m" "dict_get d ''execution_evidence'' = Some e"
    "dict_get d ''review_evidence'' = Some v" "dget d ''status'' = JStr ''recorded''"
    using assms(4) by (auto simp: reviewed_document_def has_keys_def)
  have "build_teachback_request 1 w fs = (let q = teachback_request (clock w 1) m
      (truthy (get_default policy ''required'' (JBool True))) level e v in
     (Inr (JObj q), fs\<lparr>teachback_file := Holds (JObj (sorted_dict q))\<rparr>))"
    using assms(2,3) p d by (simp add: build_teachback_request_def or_raise_def require_recorded_def value_error_def
        as_dict_def read_value_def get_default_def raised_def py_int.simps key_def Let_def del: One_nat_def)
  then show ?thesis by (metis (no_types))
qed

lemma build_closure_runs:
  assumes "cooperative_world w" and "review_file fs = Holds (JObj d)" "teachback_file fs = Holds (JObj b)" "closure_file fs = Missing"
    and "dget d ''status'' = JStr ''recorded''" "dget b ''status'' = JStr ''recorded''" "closure_keys d b = Inr ()"
  shows "snd (build_closure_proposal 1 w fs who) = fs\<lparr>closure_file := Holds (JObj (sorted_dict (closure_proposal (clock w 1) who d b)))\<rparr>"
  using assms
  by (simp add: build_closure_proposal_def or_raise_def require_recorded_def value_error_def as_dict_def cooperative_world_def Let_def
      del: One_nat_def)

lemma prepare_reaches:
  assumes "cooperative_world w" and "review_actions w queue = Inr rs" and "dget queue ''mission_id'' = JStr mission"
  shows "awaits_review mission (snd (build_review_proposal w no_documents queue who))"
proof -
  let ?d = "review_proposal (clock w 1) who (execution_summary (clock w 0) queue rs)"
  have r: "snd (build_review_proposal w no_documents queue who) =
      \<lparr>review_file = Holds (JObj (sorted_dict ?d)), teachback_file = Missing, closure_file = Missing,
       summary_file = Holds (JObj (sorted_dict (execution_summary (clock w 0) queue rs)))\<rparr>"
    using assms by (simp add: build_review_proposal_def validate_actions_def no_documents_def or_raise_def cooperative_world_def Let_def)
  have k: "has_keys ?d [''mission_id'', ''execution_evidence'', ''execution_sha256'']" "dget ?d ''status'' = JStr ''proposed''" 
    by (simp_all add: has_keys_def review_proposal_def execution_summary_def Let_def)
  have id: "dget (sorted_dict ?d) ''mission_id'' = JStr mission"
    using assms(3) by (intro sorted_text) (simp add: review_proposal_def execution_summary_def Let_def)
  obtain p where p: "dict_get ?d ''approval_phrase'' = Some (JStr p)"
    by (simp add: review_proposal_def Let_def)
  have "py_strip p = p" using review_phrase_strips [of "clock w 1" who "execution_summary (clock w 0) queue rs"] p
    by (simp add: dget_def)
  with p have "awaits_phrase ?d" using k by (metis awaits_phrase_def)
  then show ?thesis using k id unfolding r by (simp add: awaits_review_def awaits_phrase_def has_keys_def)
qed

lemma approve_reaches:
  assumes c: "cooperative_world w" and e: "review_evidence_ok w result" and s: "awaits_review mission fs"
  shows "\<exists>review phrase. current_review fs = Inr (Some review) \<and>
     awaits_teachback mission (snd (approve_review w fs review phrase (Inr result)))"
proof -
  obtain d phrase where d: "review_file fs = Holds (JObj d)" "dget d ''status'' = JStr ''proposed''"
    "dict_get d ''approval_phrase'' = Some (JStr (py_strip phrase))"
    "has_keys d [''mission_id'', ''execution_evidence'', ''execution_sha256'']" "teachback_file fs = Missing" "closure_file fs = Missing"
    "dget d ''mission_id'' = JStr mission"
    using s by (auto simp: awaits_review_def awaits_phrase_def)
  obtain name sha where m: "mark_review_recorded w fs result =
      (Inr (recorded_payload d (clock w 0) ''review_evidence'' name ''review_sha256'' sha),
       fs\<lparr>review_file := Holds (JObj (sorted_dict (recorded_payload d (clock w 0) ''review_evidence'' name ''review_sha256'' sha)))\<rparr>)"
    using mark_review_runs [OF c e d(1)] by blast
  let ?d = "sorted_dict (recorded_payload d (clock w 0) ''review_evidence'' name ''review_sha256'' sha)"
  have doc: "reviewed_document ?d" using d(4) by (simp add: reviewed_document_def has_keys_def recorded_get dget_def)
  have id: "dget ?d ''mission_id'' = JStr mission"
    using d(7) by (intro sorted_text) (simp add: recorded_get dget_def)
  obtain needed level mi ev re where b: "build_teachback_request 1 w (fs\<lparr>review_file := Holds (JObj ?d)\<rparr>) =
      (Inr (JObj (teachback_request (clock w 1) mi needed level ev re)),
       fs\<lparr>review_file := Holds (JObj ?d), teachback_file := Holds (JObj (sorted_dict (teachback_request (clock w 1) mi needed level ev re)))\<rparr>)"
    using build_teachback_runs [OF c, of "fs\<lparr>review_file := Holds (JObj ?d)\<rparr>" ?d] d(5) doc by auto
  have "awaits_teachback mission (snd (approve_review w fs d phrase (Inr result)))"
    using doc id d(6) by (simp add: approve_review_def key_Inr [OF d(3)] or_raise_def m and_then_def b awaits_teachback_def
        has_keys_def teachback_request_def del: One_nat_def)
  moreover have "current_review fs = Inr (Some d)"
    by (simp add: current_review_def d(1) open_document_holds [OF d(2)])
  ultimately show ?thesis by blast
qed

lemma teachback_reaches:
  assumes c: "cooperative_world w" and e: "teachback_evidence_ok w result" and s: "awaits_teachback mission fs"
    and typed: "py_startswith (py_upper text) ''TEACHBACK:''" "20 \<le> length (explanation_of text)"
  shows "\<exists>request. current_teachback fs = Inr (Some request) \<and>
     awaits_closure mission (snd (record_teachback w fs request text (Inr result) who))"
proof -
  obtain d b level where d: "review_file fs = Holds (JObj d)" "reviewed_document d" "teachback_file fs = Holds (JObj b)"
    "dget b ''status'' = JStr ''awaiting_user_explanation''" "has_keys b [''mission_id'', ''execution_evidence'', ''review_evidence'']"
    "dict_get b ''required_level'' = Some (JInt level)" "closure_file fs = Missing" "dget d ''mission_id'' = JStr mission"
    using s by (auto simp: awaits_teachback_def)
  obtain name sha where m: "mark_teachback_recorded w fs result =
      (Inr (recorded_payload b (clock w 0) ''teachback_record'' name ''teachback_sha256'' sha),
       fs\<lparr>teachback_file := Holds (JObj (sorted_dict (recorded_payload b (clock w 0) ''teachback_record'' name ''teachback_sha256'' sha)))\<rparr>)"
    using mark_teachback_runs [OF c e d(3)] by blast
  let ?b = "sorted_dict (recorded_payload b (clock w 0) ''teachback_record'' name ''teachback_sha256'' sha)"
  let ?p = "closure_proposal (clock w 1) who d ?b"
  have "closure_keys d ?b = Inr ()" using d(2)
    by (simp add: closure_keys_def reviewed_document_def has_keys_def recorded_get)
  then have b: "snd (build_closure_proposal 1 w (fs\<lparr>teachback_file := Holds (JObj ?b)\<rparr>) who) =
      fs\<lparr>teachback_file := Holds (JObj ?b), closure_file := Holds (JObj (sorted_dict ?p))\<rparr>"
    using build_closure_runs [OF c, of "fs\<lparr>teachback_file := Holds (JObj ?b)\<rparr>" d ?b who] d(1,2,7)
    by (simp add: reviewed_document_def)
  obtain p where p: "dict_get ?p ''approval_phrase'' = Some (JStr p)" by (simp add: closure_proposal_def Let_def)
  have "py_strip p = p" using closure_phrase_strips [of "clock w 1" who d ?b] p by (simp add: dget_def)
  with p have "awaits_phrase (sorted_dict ?p)"
    by (simp add: awaits_phrase_def) (metis closure_status)
  moreover have "snd (record_teachback w fs b text (Inr result) who) =
      snd (build_closure_proposal 1 w (fs\<lparr>teachback_file := Holds (JObj ?b)\<rparr>) who)"
    using typed d(5,6) by (auto simp: record_teachback_def or_raise_def m and_then_def has_keys_def dget_def py_int.simps raised_def
        split: sum.splits prod.splits)
  moreover have "dget (sorted_dict ?p) ''mission_id'' = JStr mission"
    using d(8) by (intro sorted_text) (simp add: closure_proposal_def Let_def)
  moreover have "dget d ''status'' = JStr ''recorded''" "dget ?b ''status'' = JStr ''recorded''"
    using d(2) by (simp_all add: reviewed_document_def recorded_get dget_def)
  ultimately have "awaits_closure mission (snd (record_teachback w fs b text (Inr result) who))"
    using d(1) by (simp add: b awaits_closure_def del: One_nat_def)
  moreover have "current_teachback fs = Inr (Some b)"
    by (simp add: current_teachback_def d(3) open_document_holds [OF d(4)])
  ultimately show ?thesis by blast
qed

lemma closure_reaches:
  assumes c: "cooperative_world w" and s: "awaits_closure mission fs"
    and r: "dget result ''status'' = JStr ''passed''" "dget result ''status_code'' = JStr ''MISSION_CLOSED''"
      "get_default result ''paths'' (JObj []) = JObj paths"
  shows "\<exists>proposal phrase. current_closure fs = Inr (Some proposal) \<and>
     mission_closed mission (snd (approve_closure w fs proposal phrase (Inr result)))"
proof -
  obtain d phrase where d: "closure_file fs = Holds (JObj d)" "dget d ''status'' = JStr ''proposed''"
    "dict_get d ''approval_phrase'' = Some (JStr (py_strip phrase))" "dget d ''mission_id'' = JStr mission"
    and others: "in_status (review_file fs) ''recorded''" "in_status (teachback_file fs) ''recorded''"
    using s by (auto simp: awaits_closure_def awaits_phrase_def)
  have "mission_closed mission (snd (approve_closure w fs d phrase (Inr result)))"
    using c r d(1,4) others sorted_text [OF d(4)] by (simp add: approve_closure_def key_Inr [OF d(3)] or_raise_def mark_closed_def value_error_def
        item_target_def as_dict_def and_then_def cooperative_world_def closed_payload_def Let_def mission_closed_def)
  moreover have "current_closure fs = Inr (Some d)"
    by (simp add: current_closure_def d(1) open_document_holds [OF d(2)])
  ultimately show ?thesis by blast
qed

lemma cooperative_dialogue:
  assumes "cooperative_world w" "review_actions w queue = Inr rs" "dget queue ''mission_id'' = JStr mission"
    and "review_evidence_ok w reviewed" "teachback_evidence_ok w taught"
    and "py_startswith (py_upper text) ''TEACHBACK:''" "20 \<le> length (explanation_of text)"
    and "dget closed ''status'' = JStr ''passed''" "dget closed ''status_code'' = JStr ''MISSION_CLOSED''"
      "get_default closed ''paths'' (JObj []) = JObj paths"
  shows "\<exists>review phrase request proposal typed fs. dialogue_step\<^sup>*\<^sup>* ([], no_documents)
       ([ApproveClosure w proposal typed (Inr closed), RecordTeachback w request text (Inr taught) who,
         ApproveReview w review phrase (Inr reviewed), PrepareReview w queue who], fs) \<and>
     mission_closed mission fs"
proof -
  let ?c1 = "PrepareReview w queue who" and ?s1 = "snd (build_review_proposal w no_documents queue who)"
  obtain review phrase where a: "current_review ?s1 = Inr (Some review)"
      "awaits_teachback mission (snd (approve_review w ?s1 review phrase (Inr reviewed)))"
    using approve_reaches [OF assms(1,4) prepare_reaches [OF assms(1-3)]] by blast
  let ?c2 = "ApproveReview w review phrase (Inr reviewed)" and ?s2 = "snd (approve_review w ?s1 review phrase (Inr reviewed))"
  obtain request where b: "current_teachback ?s2 = Inr (Some request)"
      "awaits_closure mission (snd (record_teachback w ?s2 request text (Inr taught) who))"
    using teachback_reaches [OF assms(1,5) a(2) assms(6,7)] by blast
  let ?c3 = "RecordTeachback w request text (Inr taught) who" and ?s3 = "snd (record_teachback w ?s2 request text (Inr taught) who)"
  obtain proposal typed where p: "current_closure ?s3 = Inr (Some proposal)"
      "mission_closed mission (snd (approve_closure w ?s3 proposal typed (Inr closed)))"
    using closure_reaches [OF assms(1) b(2) assms(8-10)] by blast
  let ?c4 = "ApproveClosure w proposal typed (Inr closed)" and ?s4 = "snd (approve_closure w ?s3 proposal typed (Inr closed))"
  have "dialogue_step ([], no_documents) ([?c1], ?s1)" by (rule dialogue_step.prepare)
  moreover have "dialogue_step ([?c1], ?s1) ([?c2, ?c1], ?s2)" by (rule dialogue_step.approve [OF a(1)])
  moreover have "dialogue_step ([?c2, ?c1], ?s2) ([?c3, ?c2, ?c1], ?s3)" by (rule dialogue_step.teachback [OF b(1)])
  moreover have "dialogue_step ([?c3, ?c2, ?c1], ?s3) ([?c4, ?c3, ?c2, ?c1], ?s4)" by (rule dialogue_step.closure [OF p(1)])
  ultimately have "dialogue_step\<^sup>*\<^sup>* ([], no_documents) ([?c4, ?c3, ?c2, ?c1], ?s4)"
    by (meson converse_rtranclp_into_rtranclp rtranclp.rtrancl_refl)
  with p(2) show ?thesis by blast
qed

text \<open>
  C16: every mission in order can be closed. Take any world whose writes succeed, any queue that
  names its mission and whose actions pass the validation, runtime results whose review evidence and teachback record say what they must, an
  explanation of the required form, and a runtime that reports the mission closed. Then the dialogue that
  prepares the review of this queue, approves it with these results, records this explanation and approves
  the closure (each call on the document that is on file and open at that moment, with some phrases typed)
  leads from no documents to a store whose review and teachback are recorded and whose closure is
  closed and names the mission of the queue.
\<close>

theorem resolved_mission_can_close:
  assumes "cooperative_world w" "review_actions w queue = Inr rs" "dget queue ''mission_id'' = JStr mission"
    and "review_evidence_ok w reviewed" "teachback_evidence_ok w taught"
    and "py_startswith (py_upper text) ''TEACHBACK:''" "20 \<le> length (explanation_of text)"
    and "dget closed ''status'' = JStr ''passed''" "dget closed ''status_code'' = JStr ''MISSION_CLOSED''"
      "get_default closed ''paths'' (JObj []) = JObj paths"
  shows "\<exists>review phrase request proposal typed fs. dialogue_step\<^sup>*\<^sup>* ([], no_documents)
       ([ApproveClosure w proposal typed (Inr closed), RecordTeachback w request text (Inr taught) who,
         ApproveReview w review phrase (Inr reviewed), PrepareReview w queue who], fs) \<and>
     mission_closed mission fs"
  by (rule cooperative_dialogue [OF assms])

section \<open>Requested changes\<close>

lemma changes_keep:
  assumes "dialogue_step (cs, fs) (cs', fs')" and "in_status (review_file fs) ''changes_requested''"
    and "teachback_file fs = Missing" "closure_file fs = Missing"
  shows "fs' = fs"
proof -
  obtain d where d: "review_file fs = Holds (JObj d)" "dget d ''status'' = JStr ''changes_requested''"
    using assms(2) by (auto simp: in_status_def)
  from assms(1) show ?thesis
    by (rule dialogue_stepE) (use d assms(3,4) in \<open>auto simp: build_review_proposal_def or_raise_def current_review_def
      current_teachback_def current_closure_def open_document_def as_dict_def split: if_splits\<close>)
qed

text \<open>
  C28: requested changes are the end of the dialogue: once the review says \<open>changes_requested\<close> and
  no later document exists, no call changes the store again, whatever is typed and whatever the
  runtime returns. In particular a corrected mission gets no second review.
\<close>

theorem requested_changes_are_final:
  assumes "dialogue_step\<^sup>*\<^sup>* (cs, fs) (cs', fs')" and "in_status (review_file fs) ''changes_requested''"
    and "teachback_file fs = Missing" "closure_file fs = Missing"
  shows "fs' = fs"
  using assms(1)
proof (induction "(cs', fs')" arbitrary: cs' fs' rule: rtranclp_induct)
  case base
  then show ?case by simp
next
  case (step t)
  then show ?case using changes_keep [of "fst t" "snd t" cs' fs'] assms(2-4) by (cases t) auto
qed

section \<open>Blocked actions\<close>

lemma report_all_append:
  "report_all (xs @ ys) = py_bind (report_all xs) (\<lambda>rs. py_bind (report_all ys) (\<lambda>qs. Inr (rs @ qs)))"
  by (induction xs) (auto simp: py_bind_def split: sum.splits)

text \<open>
  C36: the validation does not see blocked actions. A queue that passes still passes with one more
  action in status \<open>blocked\<close> that reports no outputs, such as one whose authority failed when it was
  to run: \<open>validate_actions\<close> refuses failed, proposed and running actions only.
\<close>

theorem blocked_action_passes_review:
  assumes "review_actions w queue = Inr rs" and "dict_get queue ''actions'' = Some (JList xs)"
    and "dict_get a ''status'' = Some (JStr ''blocked'')" and "action_result a = Inr []"
  shows "\<exists>r. review_actions w (dict_set queue ''actions'' (JList (xs @ [JObj a]))) = Inr (rs @ [r])"
proof -
  let ?r = "\<lparr>rp_status = ''blocked'', rp_paths = [],
     rp_summary = JObj [(''action_id'', dget a ''action_id''), (''skill_id'', dget a ''skill_id''),
       (''status'', JStr ''blocked''), (''arguments_hash'', dget a ''arguments_hash''),
       (''runtime_status'', JNull), (''output_paths'', JList [])]\<rparr>"
  have r: "report_action (JObj a) = Inr ?r"
    using assms(3,4) by (simp add: report_action_def as_dict_def get_default_def py_str_def dget_def Let_def)
  have o: "report_all xs = Inr rs" "review_counts_ok rs" "check_all_evidence w (concat (map rp_paths rs)) = Inr ()"
    using assms(1,2) by (auto simp: review_actions_def get_default_def)
  then have "review_counts_ok (rs @ [?r])" by (simp add: review_counts_ok_def counted_def)
  then have "review_actions w (dict_set queue ''actions'' (JList (xs @ [JObj a]))) = Inr (rs @ [?r])"
    using o r by (simp add: review_actions_def get_default_def report_all_append value_error_def)
  then show ?thesis by blast
qed

section \<open>Witnesses\<close>

definition demo_world :: world where
  "demo_world = \<lparr>clock = (\<lambda>n. ''2026-01-01T00:00:00Z''),
     evidence_file = (\<lambda>p. if p = ''review.json'' then Holds (JObj [(''review_decision'', JStr ''approved''), (''human_approval'', JBool True)])
       else if p = ''teachback.json'' then Holds (JObj [(''result'', JStr ''passed''), (''completed_by_user'', JBool True)]) else Missing),
     evidence_sha = (\<lambda>p. ''0123''), relative_name = Some,
     manifest = Holds (JObj [(''teachback'', JObj [(''required_level'', JInt 2)])]), writes = (\<lambda>_. Written)\<rparr>"

definition demo_queue :: jdict where
  "demo_queue = [(''mission_id'', JStr ''m''), (''actions'', JList [JObj [(''action_id'', JStr ''a1''), (''status'', JStr ''completed'')]])]"

abbreviation demo_reviewed :: jdict where "demo_reviewed \<equiv> [(''output_paths'', JList [JStr ''review.json''])]"
abbreviation demo_taught :: jdict where "demo_taught \<equiv> [(''record_path'', JStr ''teachback.json'')]"
abbreviation demo_closed :: jdict where
  "demo_closed \<equiv> [(''status'', JStr ''passed''), (''status_code'', JStr ''MISSION_CLOSED''), (''paths'', JObj [])]"
abbreviation demo_text :: pystr where "demo_text \<equiv> ''teachback: the tests passed and the report says so''"

lemma demo_actions_pass: "\<exists>rs. review_actions demo_world demo_queue = Inr rs"
  by (simp add: review_actions_def demo_queue_def get_default_def value_error_def report_action_def as_dict_def
      action_result_def get_or_empty_def py_str_def dget_def review_counts_ok_def counted_def Let_def)

lemma demo_cooperates: "cooperative_world demo_world" "review_evidence_ok demo_world demo_reviewed" "teachback_evidence_ok demo_world demo_taught"
  by (simp_all add: cooperative_world_def demo_world_def review_evidence_ok_def teachback_evidence_ok_def get_default_def only_path_def dget_def)

lemma demo_queue_mission: "dget demo_queue ''mission_id'' = JStr ''m''"
  by (simp add: demo_queue_def)

lemma demo_text_ok: "py_startswith (py_upper demo_text) ''TEACHBACK:''" "20 \<le> length (explanation_of demo_text)"
  by code_simp+

theorem resolved_mission_can_close_witness:
  "\<exists>review phrase request proposal typed fs. dialogue_step\<^sup>*\<^sup>* ([], no_documents)
     ([ApproveClosure demo_world proposal typed (Inr demo_closed), RecordTeachback demo_world request demo_text (Inr demo_taught) ''ana'',
       ApproveReview demo_world review phrase (Inr demo_reviewed), PrepareReview demo_world demo_queue ''ana''], fs) \<and>
     mission_closed ''m'' fs"
proof -
  obtain rs where "review_actions demo_world demo_queue = Inr rs" using demo_actions_pass by blast
  from resolved_mission_can_close [OF demo_cooperates(1) this demo_queue_mission demo_cooperates(2,3) demo_text_ok, of demo_closed "[]" "''ana''"]
  show ?thesis by (simp add: demo_queue_def get_default_def)
qed

theorem closed_only_after_review_and_teachback_witness:
  "\<exists>cs fs. dialogue_step\<^sup>*\<^sup>* ([], no_documents) (cs, fs) \<and> in_status (closure_file fs) ''closed'' \<and>
     ordered [approves_closure, teaches_back, approves_review, prepares] cs"
proof -
  obtain rs where "review_actions demo_world demo_queue = Inr rs" using demo_actions_pass by blast
  from cooperative_dialogue [OF demo_cooperates(1) this demo_queue_mission demo_cooperates(2,3) demo_text_ok, of demo_closed "[]"]
  obtain cs fs where "dialogue_step\<^sup>*\<^sup>* ([], no_documents) (cs, fs)" "in_status (closure_file fs) ''closed''"
    by (fastforce simp: get_default_def mission_closed_def in_status_def)
  with closed_only_after_review_and_teachback [OF this] show ?thesis by blast
qed

theorem requested_changes_are_final_witness:
  "\<exists>fs. in_status (review_file fs) ''changes_requested'' \<and> dialogue_step ([], fs) ([PrepareReview demo_world demo_queue ''ana''], fs)"
proof -
  let ?fs = "no_documents\<lparr>review_file := Holds (JObj [(''status'', JStr ''changes_requested'')])\<rparr>"
  have s: "dialogue_step ([], ?fs) ([PrepareReview demo_world demo_queue ''ana''], snd (build_review_proposal demo_world ?fs demo_queue ''ana''))"
    by (rule dialogue_step.prepare)
  have c: "in_status (review_file ?fs) ''changes_requested''" by (simp add: dget_def)
  have "snd (build_review_proposal demo_world ?fs demo_queue ''ana'') = ?fs"
    by (rule requested_changes_are_final [OF r_into_rtranclp [of dialogue_step, OF s] c]) (simp_all add: no_documents_def)
  with s c show ?thesis by metis
qed

theorem blocked_action_passes_review_witness:
  "\<exists>rs. review_actions demo_world (dict_set demo_queue ''actions'' (JList
     [JObj [(''action_id'', JStr ''a1''), (''status'', JStr ''completed'')], JObj [(''action_id'', JStr ''a2''), (''status'', JStr ''blocked'')]])) = Inr rs"
proof -
  obtain rs where "review_actions demo_world demo_queue = Inr rs" using demo_actions_pass by blast
  from blocked_action_passes_review [OF this, of "[JObj [(''action_id'', JStr ''a1''), (''status'', JStr ''completed'')]]"
      "[(''action_id'', JStr ''a2''), (''status'', JStr ''blocked'')]"]
  show ?thesis by (auto simp: demo_queue_def action_result_def get_or_empty_def)
qed

end
