(* ===== verification/Task_Contract.thy ===== *)
theory Task_Contract
  imports Authority Py_Values Models
begin

text \<open>
  The validator of supervised task contracts,
  \<open>tools/task_contract/validate_supervised_task_contract.py\<close>: a declarative contract of a task is
  read as JSON, every defect is reported as a blocker, and the report says \<open>ready\<close> when there is
  none. A contract is the decoded JSON object; a value of an unexpected type may raise.
\<close>

section \<open>Constants\<close>

definition RISK_LEVELS :: "pystr list" where
  "RISK_LEVELS = [''low'', ''medium'', ''high'', ''critical'']"

definition REVIEW_LEVELS :: "pystr list" where
  "REVIEW_LEVELS = [''standard'', ''strict'', ''critical'']"

definition ACCESS_POLICIES :: "pystr list" where
  "ACCESS_POLICIES = [''blocked'', ''explicit_approval_required'']"

definition SENSITIVE_OPERATIONS :: "pystr list" where
  "SENSITIVE_OPERATIONS = [''invoke_local_model'', ''execute_command'', ''apply_patch'', ''git_stage'', ''git_commit'',
     ''git_push'', ''write_private_memory'', ''close_mission'']"

definition KNOWN_OPERATIONS :: "pystr list" where
  "KNOWN_OPERATIONS = [''inspect_repository'', ''read_public_files'', ''run_deterministic_checks'', ''propose_command'',
     ''record_external_result''] @ SENSITIVE_OPERATIONS"

definition PROTECTED_PATH_PREFIXES :: "pystr list" where
  "PROTECTED_PATH_PREFIXES = [''.env'', ''alliance/kirigakure'', ''alliance/private-library'', ''memory/local'', ''vault'', ''sandbox'']"

definition REQUIRED_TOP_LEVEL :: "pystr list" where
  "REQUIRED_TOP_LEVEL = [''schema_version'', ''report_type'', ''contract_id'', ''mission_id'', ''title'', ''objective'',
     ''non_goals'', ''risk_level'', ''scope'', ''operations'', ''network_policy'', ''private_context_policy'',
     ''acceptance_criteria'', ''evidence_requirements'', ''approval_requirements'', ''completion_conditions'', ''review'',
     ''teachback_required'', ''stop_triggers'', ''authority'']"

definition REQUIRED_AUTHORITY :: "pystr list" where
  "REQUIRED_AUTHORITY = [''contract_is_not_permission'', ''validator_output_is_evidence_only'',
     ''mission_state_does_not_authorize_execution'', ''approvals_are_operation_specific'']"

section \<open>Issues\<close>

record issue =
  i_code :: pystr
  i_field :: pystr
  i_message :: pystr
  i_severity :: pystr

definition issue_json :: "issue \<Rightarrow> json" where
  "issue_json i = JObj [(''code'', JStr (i_code i)), (''field'', JStr (i_field i)), (''message'', JStr (i_message i)),
     (''severity'', JStr (i_severity i))]"

definition blocker :: "pystr \<Rightarrow> pystr \<Rightarrow> pystr \<Rightarrow> issue" where
  "blocker code field message = \<lparr>i_code = code, i_field = field, i_message = message, i_severity = ''blocker''\<rparr>"

definition warning :: "pystr \<Rightarrow> pystr \<Rightarrow> pystr \<Rightarrow> issue" where
  "warning code field message = \<lparr>i_code = code, i_field = field, i_message = message, i_severity = ''warning''\<rparr>"

definition blocker_if :: "bool \<Rightarrow> pystr \<Rightarrow> pystr \<Rightarrow> pystr \<Rightarrow> issue list" where
  "blocker_if b code field message = (if b then [blocker code field message] else [])"

text \<open>\<open>for index, x in enumerate(xs): if P(x): ...\<close>.\<close>

definition indexed :: "('a \<Rightarrow> bool) \<Rightarrow> (pystr \<Rightarrow> 'a \<Rightarrow> 'b) \<Rightarrow> 'a list \<Rightarrow> 'b list" where
  "indexed P report xs = map (\<lambda>(n, x). report (''['' @ int_repr (int n) @ '']'') x) (filter (\<lambda>(n, x). P x) (List.enumerate 0 xs))"

text \<open>\<open>sorted(set(xs))\<close>.\<close>

definition sorted_set :: "pystr list \<Rightarrow> pystr list" where
  "sorted_set xs = sort (remdups xs)"

section \<open>Values\<close>

definition list_of_non_empty_text :: "json \<Rightarrow> bool" where
  "list_of_non_empty_text v \<longleftrightarrow> is_list v \<and> the_list v \<noteq> [] \<and> list_all nonblank_str (the_list v)"

definition lower_alnum :: "char \<Rightarrow> bool" where
  "lower_alnum c = (let n = code_point c in (48 \<le> n \<and> n \<le> 57) \<or> (97 \<le> n \<and> n \<le> 122))"

definition upper_letter :: "char \<Rightarrow> bool" where
  "upper_letter c = (let n = code_point c in 65 \<le> n \<and> n \<le> 90)"

text \<open>\<open>SAFE_ID_RE\<close>, \<open>TOKEN_RE\<close> and \<open>PATH_SEGMENT_RE\<close> under \<open>fullmatch\<close>.\<close>

definition safe_id :: "json \<Rightarrow> bool" where
  "safe_id v = (case v of
     JStr (c # t) \<Rightarrow> lower_alnum c \<and> length t \<le> 79 \<and> list_all (\<lambda>x. lower_alnum x \<or> x \<in> set ''._-'') t
   | _ \<Rightarrow> False)"

definition approval_token :: "json \<Rightarrow> bool" where
  "approval_token v = (case v of
     JStr (c # t) \<Rightarrow> upper_letter c \<and> 2 \<le> length t \<and> length t \<le> 127 \<and>
       list_all (\<lambda>x. upper_letter x \<or> is_digit x \<or> x = CHR ''_'') t
   | _ \<Rightarrow> False)"

definition path_segment :: "pystr \<Rightarrow> bool" where
  "path_segment s \<longleftrightarrow> s \<noteq> [] \<and> list_all (\<lambda>c. ascii_alnum c \<or> c \<in> set ''._*?-[]'') s"

fun drop_dot_slash :: "pystr \<Rightarrow> pystr" where
  "drop_dot_slash (c # d # s) = (if c = CHR ''.'' \<and> d = CHR ''/'' then drop_dot_slash s else c # d # s)"
| "drop_dot_slash s = s"

definition drive_letter :: "pystr \<Rightarrow> bool" where
  "drive_letter s = (case s of c # d # e # _ \<Rightarrow> ascii_alnum c \<and> \<not> is_digit c \<and> d = CHR '':'' \<and> e = CHR ''/'' | _ \<Rightarrow> False)"

definition normalize_repo_path :: "pystr \<Rightarrow> pystr option" where
  "normalize_repo_path raw =
     (let value = map (\<lambda>c. if c = backslash then CHR ''/'' else c) (py_strip raw) in
      if value = [] \<or> py_startswith value ''/'' \<or> drive_letter value then None
      else
        (let relative = drop_dot_slash value; parts = py_split (CHR ''/'') relative in
         if list_ex (\<lambda>p. p \<in> {[], ''.'', ''..''}) parts \<or> \<not> list_all path_segment parts then None else Some relative))"

definition path_is_protected :: "pystr \<Rightarrow> bool" where
  "path_is_protected path =
     (let lowered = py_lower path in
      list_ex (\<lambda>p. lowered = py_lower p \<or> py_startswith lowered (py_lower p @ ''/'')) PROTECTED_PATH_PREFIXES)"

text \<open>\<open>len(v or [])\<close>.\<close>

definition len_or_zero :: "json \<Rightarrow> int py" where
  "len_or_zero v =
     (if \<not> truthy v then Inr 0
      else case v of JStr s \<Rightarrow> Inr (int (length s)) | JList xs \<Rightarrow> Inr (int (length xs)) | JObj d \<Rightarrow> Inr (int (length d))
        | _ \<Rightarrow> Inl TypeError)"

section \<open>The sections of a contract\<close>

definition top_level_issues :: "jdict \<Rightarrow> issue list" where
  "top_level_issues p =
     map (\<lambda>f. blocker ''required_field_missing'' f (''required field is missing: '' @ f))
       (filter (\<lambda>f. dict_get p f = None) (sort REQUIRED_TOP_LEVEL)) @
     blocker_if (dget p ''schema_version'' \<noteq> JStr ''1.0.0'') ''schema_version_invalid'' ''schema_version'' ''schema_version must be 1.0.0'' @
     blocker_if (dget p ''report_type'' \<noteq> JStr ''supervised_task_contract'') ''report_type_invalid'' ''report_type''
       ''report_type must be supervised_task_contract'' @
     concat (map (\<lambda>f. blocker_if (\<not> safe_id (dget p f)) ''safe_id_invalid'' f (f @ '' must match ^[a-z0-9][a-z0-9._-]{0,79}$''))
       [''contract_id'', ''mission_id'']) @
     concat (map (\<lambda>f. blocker_if (\<not> nonblank_str (dget p f)) ''text_required'' f (f @ '' must be non-empty text'')) [''title'', ''objective'']) @
     blocker_if (\<not> list_of_non_empty_text (dget p ''non_goals'')) ''non_goals_invalid'' ''non_goals''
       ''non_goals must be a non-empty list of text items''"

definition level_issue :: "json \<Rightarrow> pystr list \<Rightarrow> pystr \<Rightarrow> pystr \<Rightarrow> pystr \<Rightarrow> issue list py" where
  "level_issue v levels code field message = py_bind (in_str_set v levels) (\<lambda>known. Inr (blocker_if (\<not> known) code field message))"

text \<open>The texts of a list inside a section; none when the section is no object or the list is not of
  non-empty texts.\<close>

definition text_field :: "json \<Rightarrow> pystr \<Rightarrow> pystr list" where
  "text_field v k =
     (let xs = (if is_dict v then dget (the_obj v) k else JNull) in if list_of_non_empty_text xs then the_strs xs else [])"

definition scope_paths :: "json \<Rightarrow> pystr \<Rightarrow> pystr list" where
  "scope_paths scope k = List.map_filter normalize_repo_path (text_field scope k)"

definition scope_list_issues :: "json \<Rightarrow> pystr \<Rightarrow> issue list" where
  "scope_list_issues scope k =
     (if text_field scope k = [] then [blocker (k @ ''_invalid'') (''scope.'' @ k) (''scope.'' @ k @ '' must be a non-empty list'')]
      else indexed (\<lambda>raw. normalize_repo_path raw = None)
        (\<lambda>i raw. blocker ''repo_path_invalid'' (''scope.'' @ k @ i) (''invalid repository-relative path: '' @ repr_str raw)) (text_field scope k))"

definition scope_issues :: "json \<Rightarrow> issue list" where
  "scope_issues scope =
     (let allowed = scope_paths scope ''allowed_paths''; blocked = scope_paths scope ''blocked_paths'' in
      blocker_if (\<not> is_dict scope) ''scope_invalid'' ''scope'' ''scope must be an object'' @
      scope_list_issues scope ''allowed_paths'' @ scope_list_issues scope ''blocked_paths'' @
      indexed path_is_protected (\<lambda>i path. blocker ''protected_path_allowed'' (''scope.allowed_paths'' @ i)
        (''protected/private path cannot be allowed: '' @ path)) allowed @
      map (\<lambda>path. blocker ''scope_path_overlap'' ''scope'' (''path appears in both allowed_paths and blocked_paths: '' @ path))
        (sorted_set (filter (\<lambda>path. path \<in> set blocked) allowed)))"

definition operation_issues :: "json \<Rightarrow> issue list" where
  "operation_issues operations =
     (let allowed = text_field operations ''allowed''; blocked = text_field operations ''blocked'';
          unknown = (\<lambda>k. indexed (\<lambda>operation. operation \<notin> set KNOWN_OPERATIONS) (\<lambda>i operation.
            blocker (k @ ''_operation_unknown'') (''operations.'' @ k @ i) (''unknown operation: '' @ operation)) (text_field operations k))
      in
      blocker_if (\<not> is_dict operations) ''operations_invalid'' ''operations'' ''operations must be an object'' @
      blocker_if (allowed = []) ''allowed_operations_invalid'' ''operations.allowed'' ''operations.allowed must be a non-empty list'' @
      blocker_if (blocked = []) ''blocked_operations_invalid'' ''operations.blocked'' ''operations.blocked must be a non-empty list'' @
      unknown ''allowed'' @ unknown ''blocked'' @
      map (\<lambda>operation. blocker ''operation_overlap'' ''operations'' (''operation appears in allowed and blocked: '' @ operation))
        (sorted_set (filter (\<lambda>operation. operation \<in> set blocked) allowed)))"

definition operation_warnings :: "json \<Rightarrow> issue list" where
  "operation_warnings operations =
     map (\<lambda>operation. warning ''operation_unspecified'' ''operations'' (''operation is neither allowed nor blocked: '' @ operation))
       (filter (\<lambda>operation. operation \<notin> set (text_field operations ''allowed'') \<and> operation \<notin> set (text_field operations ''blocked''))
         (sort KNOWN_OPERATIONS))"

definition list_field_issues :: "jdict \<Rightarrow> issue list" where
  "list_field_issues p = concat (map (\<lambda>f. blocker_if (\<not> list_of_non_empty_text (dget p f)) (f @ ''_invalid'') f
     (f @ '' must be a non-empty list of text items''))
     [''acceptance_criteria'', ''evidence_requirements'', ''completion_conditions'', ''stop_triggers''])"

section \<open>Approvals\<close>

definition requirement_issues :: "pystr \<Rightarrow> jdict \<Rightarrow> issue list" where
  "requirement_issues field d =
     blocker_if (\<not> approval_token (dget d ''approval_token'')) ''approval_token_invalid'' (field @ ''.approval_token'')
       ''approval token must match ^[A-Z][A-Z0-9_]{2,127}$'' @
     blocker_if (\<not> nonblank_str (dget d ''reason'')) ''approval_reason_missing'' (field @ ''.reason'')
       ''approval requirement needs a non-empty reason''"

text \<open>The loop, with the dictionary of the requirements accepted so far.\<close>

fun approvals_from :: "nat \<Rightarrow> json pydict \<Rightarrow> json list \<Rightarrow> (issue list \<times> json pydict) py" where
  "approvals_from n result [] = Inr ([], result)"
| "approvals_from n result (item # rest) =
     (let field = ''approval_requirements['' @ int_repr (int n) @ '']'';
          go = (\<lambda>found result'. py_bind (approvals_from (Suc n) result' rest) (\<lambda>(issues, r). Inr (found @ issues, r))) in
      if \<not> is_dict item then go [blocker ''approval_requirement_not_object'' field ''approval requirement must be an object''] result
      else
        (let d = the_obj item; operation = dget d ''operation'' in
         py_bind (in_str_set operation KNOWN_OPERATIONS) (\<lambda>known.
         if \<not> known then go [blocker ''approval_operation_unknown'' (field @ ''.operation'') (''unknown operation: '' @ py_repr operation)] result
         else if dict_get result (the_str operation) \<noteq> None then
           go [blocker ''approval_operation_duplicate'' (field @ ''.operation'') (''duplicate approval requirement for '' @ the_str operation)] result
         else go (requirement_issues field d) (dict_set result (the_str operation) item))))"

definition approval_map :: "json \<Rightarrow> (issue list \<times> json pydict) py" where
  "approval_map v =
     (if is_list v then approvals_from 0 [] (the_list v)
      else Inr ([blocker ''approval_requirements_not_list'' ''approval_requirements'' ''approval_requirements must be a list''], []))"

definition approval_issues :: "pystr list \<Rightarrow> json pydict \<Rightarrow> issue list" where
  "approval_issues allowed approvals =
     map (\<lambda>operation. blocker ''sensitive_operation_without_approval'' ''approval_requirements''
       (''allowed sensitive operation requires approval: '' @ operation))
       (filter (\<lambda>operation. dict_get approvals operation = None)
         (sorted_set (filter (\<lambda>operation. operation \<in> set SENSITIVE_OPERATIONS) allowed)))"

definition approval_warnings :: "pystr list \<Rightarrow> json pydict \<Rightarrow> issue list" where
  "approval_warnings allowed approvals =
     map (\<lambda>operation. warning ''approval_for_non_allowed_operation'' ''approval_requirements''
       (''approval is declared for an operation not allowed by this contract: '' @ operation))
       (sort (filter (\<lambda>operation. operation \<notin> set allowed) (map fst approvals)))"

definition policy_issues :: "jdict \<Rightarrow> pystr list \<Rightarrow> issue list" where
  "policy_issues p allowed =
     blocker_if (''git_push'' \<in> set allowed \<and> dget p ''network_policy'' \<noteq> JStr ''explicit_approval_required'')
       ''git_push_network_policy_invalid'' ''network_policy'' ''git_push requires network_policy=explicit_approval_required'' @
     blocker_if (''write_private_memory'' \<in> set allowed \<and> dget p ''private_context_policy'' \<noteq> JStr ''explicit_approval_required'')
       ''private_memory_policy_invalid'' ''private_context_policy'' ''write_private_memory requires explicit_approval_required''"

section \<open>The validator\<close>

definition section_of :: "jdict \<Rightarrow> pystr \<Rightarrow> jdict" where
  "section_of p k = (if is_dict (dget p k) then the_obj (dget p k) else [])"

definition review_issues :: "json \<Rightarrow> json \<Rightarrow> issue list py" where
  "review_issues risk review =
     (let r = (if is_dict review then the_obj review else []); level = dget r ''level'' in
      py_bind (level_issue level REVIEW_LEVELS ''review_level_invalid'' ''review.level''
        ''review.level must be one of ['critical', 'standard', 'strict']'') (\<lambda>level_issues.
      Inr (blocker_if (\<not> is_dict review) ''review_invalid'' ''review'' ''review must be an object'' @
        blocker_if (dget r ''required'' \<noteq> JBool True) ''review_not_required'' ''review.required'' ''review.required must be true'' @
        level_issues @
        blocker_if (\<not> list_of_non_empty_text (dget r ''reviewers'')) ''reviewers_invalid'' ''review.reviewers''
          ''review.reviewers must be a non-empty list'' @
        blocker_if (risk = JStr ''high'' \<and> level = JStr ''standard'') ''review_level_too_low'' ''review.level''
          ''high-risk contracts require strict or critical review'' @
        blocker_if (risk = JStr ''critical'' \<and> level \<noteq> JStr ''critical'') ''review_level_too_low'' ''review.level''
          ''critical-risk contracts require critical review'')))"

definition authority_issues :: "json \<Rightarrow> issue list" where
  "authority_issues authority =
     (let a = (if is_dict authority then the_obj authority else []) in
      blocker_if (\<not> is_dict authority) ''authority_invalid'' ''authority'' ''authority must be an object'' @
      concat (map (\<lambda>k. blocker_if (dget a k \<noteq> JBool True) ''authority_flag_missing'' (''authority.'' @ k) (''authority.'' @ k @ '' must be true''))
        REQUIRED_AUTHORITY))"

definition closure_issues :: "jdict \<Rightarrow> pystr list \<Rightarrow> json pydict \<Rightarrow> issue list" where
  "closure_issues p allowed approvals =
     blocker_if (''close_mission'' \<in> set allowed \<and> dget p ''teachback_required'' \<noteq> JBool True) ''closure_without_teachback''
       ''teachback_required'' ''close_mission cannot be allowed without Teachback'' @
     blocker_if (''close_mission'' \<in> set allowed \<and> dict_get approvals ''close_mission'' = None) ''closure_without_approval''
       ''approval_requirements'' ''close_mission requires an operation-specific approval''"

definition normalized_summary :: "jdict \<Rightarrow> json pydict \<Rightarrow> jdict py" where
  "normalized_summary p approvals =
     (let operations = (\<lambda>k. jstrs (sorted_set (filter (\<lambda>operation. operation \<in> set KNOWN_OPERATIONS)
            (text_field (dget p ''operations'') k))));
          review = section_of p ''review'' in
      py_bind (len_or_zero (dget p ''acceptance_criteria'')) (\<lambda>acceptance.
      py_bind (len_or_zero (dget p ''evidence_requirements'')) (\<lambda>evidence.
      py_bind (len_or_zero (dget p ''completion_conditions'')) (\<lambda>completion.
      py_bind (len_or_zero (dget p ''stop_triggers'')) (\<lambda>triggers.
      Inr [
        (''contract_id'', dget p ''contract_id''), (''mission_id'', dget p ''mission_id''), (''title'', dget p ''title''),
        (''objective'', dget p ''objective''), (''risk_level'', dget p ''risk_level''),
        (''allowed_paths'', jstrs (scope_paths (dget p ''scope'') ''allowed_paths'')),
        (''blocked_paths'', jstrs (scope_paths (dget p ''scope'') ''blocked_paths'')),
        (''allowed_operations'', operations ''allowed''), (''blocked_operations'', operations ''blocked''),
        (''approval_operations'', jstrs (sort (map fst approvals))),
        (''network_policy'', dget p ''network_policy''), (''private_context_policy'', dget p ''private_context_policy''),
        (''acceptance_criteria_count'', JInt acceptance), (''evidence_requirements_count'', JInt evidence),
        (''completion_conditions_count'', JInt completion), (''stop_triggers_count'', JInt triggers),
        (''teachback_required'', JBool (dget p ''teachback_required'' = JBool True)),
        (''review_required'', JBool (dget review ''required'' = JBool True)),
        (''review_level'', dget review ''level'')])))))"

definition risk_issues :: "json \<Rightarrow> issue list py" where
  "risk_issues v = level_issue v RISK_LEVELS ''risk_level_invalid'' ''risk_level''
     ''risk_level must be one of ['critical', 'high', 'low', 'medium']''"

definition network_issues :: "json \<Rightarrow> issue list py" where
  "network_issues v = level_issue v ACCESS_POLICIES ''network_policy_invalid'' ''network_policy''
     ''network_policy must be one of ['blocked', 'explicit_approval_required']''"

definition context_issues :: "json \<Rightarrow> issue list py" where
  "context_issues v = level_issue v ACCESS_POLICIES ''private_context_policy_invalid'' ''private_context_policy''
     ''private_context_policy must be blocked or explicit_approval_required''"

definition teachback_issues :: "json \<Rightarrow> issue list" where
  "teachback_issues v = blocker_if (v \<noteq> JBool True) ''teachback_not_required'' ''teachback_required'' ''teachback_required must be true''"

definition validate_contract :: "jdict \<Rightarrow> (issue list \<times> issue list \<times> jdict) py" where
  "validate_contract p =
     (let operations = dget p ''operations''; allowed = text_field operations ''allowed'' in
      py_bind (risk_issues (dget p ''risk_level'')) (\<lambda>risk_blockers.
      py_bind (network_issues (dget p ''network_policy'')) (\<lambda>network_blockers.
      py_bind (context_issues (dget p ''private_context_policy'')) (\<lambda>context_blockers.
      py_bind (approval_map (dget p ''approval_requirements'')) (\<lambda>(requirement_blockers, approvals).
      py_bind (review_issues (dget p ''risk_level'') (dget p ''review'')) (\<lambda>review_blockers.
      py_bind (normalized_summary p approvals) (\<lambda>normalized.
      Inr (
        top_level_issues p @ risk_blockers @ scope_issues (dget p ''scope'') @ operation_issues operations @ network_blockers @
        context_blockers @ list_field_issues p @ requirement_blockers @ approval_issues allowed approvals @ policy_issues p allowed @
        review_blockers @ teachback_issues (dget p ''teachback_required'') @ authority_issues (dget p ''authority'') @
        closure_issues p allowed approvals,
        operation_warnings operations @ approval_warnings allowed approvals,
        normalized))))))))"

section \<open>The report and the command\<close>

definition BOUNDARIES :: json where
  "BOUNDARIES = JObj (map (\<lambda>k. (k, JStr ''blocked''))
     [''arbitrary_shell'', ''autonomous_background_agents'', ''command_execution'', ''git_operations'', ''model_invocation'',
      ''network_access'', ''private_context_access'', ''repository_mutation''] @
     [(''workspace_mutation'', JStr ''blocked_except_explicit_report_output_under_sandbox''), (''mission_closure'', JStr ''blocked'')])"

definition build_report :: "pystr \<Rightarrow> pystr \<Rightarrow> jdict \<Rightarrow> jdict py" where
  "build_report now contract_path p =
     py_bind (validate_contract p) (\<lambda>(blockers, warnings, normalized).
     let readiness = (if blockers = [] then ''ready'' else ''blocked'') in
     Inr [
       (''schema_version'', JStr ''1.0.0''),
       (''report_type'', JStr ''supervised_task_contract_validation_report''),
       (''generated_at'', JStr now),
       (''status'', JStr ''passed''),
       (''readiness'', JStr readiness),
       (''contract_path'', JStr contract_path),
       (''contract_report_type'', dget p ''report_type''),
       (''contract_id'', dget p ''contract_id''),
       (''mission_id'', dget p ''mission_id''),
       (''blocker_count'', JInt (int (length blockers))),
       (''warning_count'', JInt (int (length warnings))),
       (''blockers'', JList (map issue_json blockers)),
       (''warnings'', JList (map issue_json warnings)),
       (''normalized_contract_summary'', JObj normalized),
       (''authority'', JObj (map (\<lambda>k. (k, JBool True)) [''contract_is_not_permission'', ''validator_output_is_evidence_only'',
          ''ready_does_not_authorize_execution'', ''approval_tokens_are_not_consumed'', ''mission_state_does_not_authorize_execution''])),
       (''boundaries'', BOUNDARIES),
       (''next_recommended_action'', JStr (if readiness = ''ready''
          then ''Human reviewer must inspect the contract before any separate approval or execution gate.''
          else ''Resolve blockers and revalidate before proposing execution.''))])"

text \<open>\<open>ContractValidationError\<close>, which \<open>main\<close> turns into exit code 2, and what escapes it.\<close>

datatype contract_exn = ContractValidationError | ContractRaised py_exn | ContractOsError

definition read_json_object :: "stored \<Rightarrow> contract_exn + jdict" where
  "read_json_object f = (case f of
     Missing \<Rightarrow> Inl ContractValidationError
   | OsFailure \<Rightarrow> Inl ContractOsError
   | NotText \<Rightarrow> Inl (ContractRaised ValueError)
   | NotJsonText \<Rightarrow> Inl ContractValidationError
   | DeepText \<Rightarrow> Inl (ContractRaised RecursionError)
   | Holds v \<Rightarrow> (case v of JObj d \<Rightarrow> Inr d | _ \<Rightarrow> Inl ContractValidationError))"

text \<open>A requested output, already resolved: whether it lies under the sandbox, exists, and can be written.\<close>

record output_target =
  under_sandbox :: bool
  already_exists :: bool
  can_be_written :: bool

definition resolve_report_output :: "output_target option \<Rightarrow> contract_exn + output_target option" where
  "resolve_report_output raw = (case raw of
     None \<Rightarrow> Inr None
   | Some t \<Rightarrow> if under_sandbox t then Inr (Some t) else Inl ContractValidationError)"

definition write_report :: "bool \<Rightarrow> output_target option \<Rightarrow> jdict \<Rightarrow> contract_exn + jdict option" where
  "write_report force target report = (case target of
     None \<Rightarrow> Inr None
   | Some t \<Rightarrow>
       if already_exists t \<and> \<not> force then Inl ContractValidationError
       else if can_be_written t then Inr (Some (sorted_dict report)) else Inl ContractOsError)"

text \<open>\<open>main\<close>: the exit code, or what escapes it, and the report written.\<close>

definition contract_main ::
  "pystr \<Rightarrow> pystr \<Rightarrow> stored \<Rightarrow> output_target option \<Rightarrow> bool \<Rightarrow> (contract_exn + int) \<times> jdict option" where
  "contract_main now contract_path contents raw_output force =
     (case py_bind (read_json_object contents) (\<lambda>p.
           py_bind (case build_report now contract_path p of Inl e \<Rightarrow> Inl (ContractRaised e) | Inr r \<Rightarrow> Inr r) (\<lambda>report.
           py_bind (resolve_report_output raw_output) (\<lambda>target.
           py_bind (write_report force target report) (\<lambda>written. Inr (report, written))))) of
        Inr (report, written) \<Rightarrow> (Inr (if dget report ''readiness'' = JStr ''ready'' then 0 else 1), written)
      | Inl ContractValidationError \<Rightarrow> (Inr 2, None)
      | Inl e \<Rightarrow> (Inl e, None))"

section \<open>Lawful contracts\<close>

text \<open>What a contract must be, field by field.\<close>

definition one_of :: "pystr list \<Rightarrow> json \<Rightarrow> bool" where
  "one_of ks v \<longleftrightarrow> (\<exists>s \<in> set ks. v = JStr s)"

definition lawful_path :: "pystr \<Rightarrow> bool" where
  "lawful_path raw \<longleftrightarrow> (\<exists>path. normalize_repo_path raw = Some path \<and> \<not> path_is_protected path)"

definition lawful_scope :: "json \<Rightarrow> bool" where
  "lawful_scope scope \<longleftrightarrow> (\<exists>d. scope = JObj d \<and> list_of_non_empty_text (dget d ''allowed_paths'') \<and>
     list_of_non_empty_text (dget d ''blocked_paths'') \<and>
     (\<forall>raw \<in> set (the_strs (dget d ''allowed_paths'')). lawful_path raw) \<and>
     (\<forall>raw \<in> set (the_strs (dget d ''blocked_paths'')). normalize_repo_path raw \<noteq> None) \<and>
     normalize_repo_path ` set (the_strs (dget d ''allowed_paths'')) \<inter> normalize_repo_path ` set (the_strs (dget d ''blocked_paths'')) = {})"

definition lawful_operations :: "json \<Rightarrow> bool" where
  "lawful_operations operations \<longleftrightarrow> (\<exists>d. operations = JObj d \<and> list_of_non_empty_text (dget d ''allowed'') \<and>
     list_of_non_empty_text (dget d ''blocked'') \<and>
     set (the_strs (dget d ''allowed'')) \<subseteq> set KNOWN_OPERATIONS \<and> set (the_strs (dget d ''blocked'')) \<subseteq> set KNOWN_OPERATIONS \<and>
     set (the_strs (dget d ''allowed'')) \<inter> set (the_strs (dget d ''blocked'')) = {})"

definition approval_for :: "json \<Rightarrow> pystr \<Rightarrow> bool" where
  "approval_for item operation \<longleftrightarrow> (\<exists>d. item = JObj d \<and> dget d ''operation'' = JStr operation \<and> operation \<in> set KNOWN_OPERATIONS \<and>
     approval_token (dget d ''approval_token'') \<and> nonblank_str (dget d ''reason''))"

text \<open>One approval per operation, each with its token and reason.\<close>

definition lawful_approvals :: "json \<Rightarrow> pystr list \<Rightarrow> bool" where
  "lawful_approvals v operations \<longleftrightarrow> (\<exists>items. v = JList items \<and> list_all2 approval_for items operations \<and> distinct operations)"

definition lawful_review :: "json \<Rightarrow> json \<Rightarrow> bool" where
  "lawful_review risk review \<longleftrightarrow> (\<exists>d. review = JObj d \<and> dget d ''required'' = JBool True \<and> one_of REVIEW_LEVELS (dget d ''level'') \<and>
     list_of_non_empty_text (dget d ''reviewers'') \<and> (risk = JStr ''high'' \<longrightarrow> dget d ''level'' \<noteq> JStr ''standard'') \<and>
     (risk = JStr ''critical'' \<longrightarrow> dget d ''level'' = JStr ''critical''))"

definition lawful_contract :: "jdict \<Rightarrow> bool" where
  "lawful_contract p \<longleftrightarrow>
     dget p ''schema_version'' = JStr ''1.0.0'' \<and> dget p ''report_type'' = JStr ''supervised_task_contract'' \<and>
     safe_id (dget p ''contract_id'') \<and> safe_id (dget p ''mission_id'') \<and>
     nonblank_str (dget p ''title'') \<and> nonblank_str (dget p ''objective'') \<and>
     (\<forall>f \<in> {''non_goals'', ''acceptance_criteria'', ''evidence_requirements'', ''completion_conditions'', ''stop_triggers''}.
        list_of_non_empty_text (dget p f)) \<and>
     one_of RISK_LEVELS (dget p ''risk_level'') \<and> lawful_scope (dget p ''scope'') \<and> lawful_operations (dget p ''operations'') \<and>
     one_of ACCESS_POLICIES (dget p ''network_policy'') \<and> one_of ACCESS_POLICIES (dget p ''private_context_policy'') \<and>
     (\<exists>operations. lawful_approvals (dget p ''approval_requirements'') operations \<and>
        (\<forall>operation \<in> set (text_field (dget p ''operations'') ''allowed'') \<inter> set SENSITIVE_OPERATIONS. operation \<in> set operations)) \<and>
     (''git_push'' \<in> set (text_field (dget p ''operations'') ''allowed'') \<longrightarrow>
        dget p ''network_policy'' = JStr ''explicit_approval_required'') \<and>
     (''write_private_memory'' \<in> set (text_field (dget p ''operations'') ''allowed'') \<longrightarrow>
        dget p ''private_context_policy'' = JStr ''explicit_approval_required'') \<and>
     lawful_review (dget p ''risk_level'') (dget p ''review'') \<and> dget p ''teachback_required'' = JBool True \<and>
     (\<exists>d. dget p ''authority'' = JObj d \<and> (\<forall>k \<in> set REQUIRED_AUTHORITY. dget d k = JBool True))"

section \<open>The sections report exactly the defects\<close>

lemma blocker_if_Nil [simp]: "blocker_if b code field message = [] \<longleftrightarrow> \<not> b"
  by (simp add: blocker_if_def)

lemma indexed_Nil [simp]: "indexed P report xs = [] \<longleftrightarrow> list_all (\<lambda>x. \<not> P x) xs"
proof -
  have "snd ` set (List.enumerate 0 xs) = set xs" by (metis list.set_map map_snd_enumerate)
  then show ?thesis by (force simp: indexed_def filter_empty_conv list_all_iff)
qed

lemma sorted_set_set [simp]: "set (sorted_set xs) = set xs" "sorted_set xs = [] \<longleftrightarrow> xs = []"
  by (simp_all add: sorted_set_def) (metis remdups_eq_nil_iff set_empty set_sort)

lemma level_issue_Nil [simp]: "level_issue v levels code field message = Inr [] \<longleftrightarrow> one_of levels v"
  by (cases v) (auto simp: level_issue_def in_str_set_def one_of_def)

declare the_strs_jstrs [simp] is_list_jstrs [simp]

lemma level_issues_Nil [simp]:
  "risk_issues v = Inr [] \<longleftrightarrow> one_of RISK_LEVELS v"
  "network_issues v = Inr [] \<longleftrightarrow> one_of ACCESS_POLICIES v"
  "context_issues v = Inr [] \<longleftrightarrow> one_of ACCESS_POLICIES v"
  "teachback_issues v = [] \<longleftrightarrow> v = JBool True"
  by (simp_all add: risk_issues_def network_issues_def context_issues_def teachback_issues_def)

lemma texts_of_list: "list_of_non_empty_text v \<Longrightarrow> the_strs v \<noteq> []"
  by (auto simp: list_of_non_empty_text_def the_strs_def)

lemma not_a_list [simp]: "\<not> list_of_non_empty_text JNull"
  by (simp add: list_of_non_empty_text_def)

lemma text_field_JObj [simp]: "text_field (JObj d) k = (if list_of_non_empty_text (dget d k) then the_strs (dget d k) else [])"
  by (simp add: text_field_def Let_def)

lemma text_field_present: "text_field v k \<noteq> [] \<longleftrightarrow> (\<exists>d. v = JObj d \<and> list_of_non_empty_text (dget d k))"
  by (cases v) (auto simp: text_field_def texts_of_list Let_def split: if_splits)

lemma scope_list_Nil [simp]: "scope_list_issues scope k = [] \<longleftrightarrow>
    text_field scope k \<noteq> [] \<and> (\<forall>raw \<in> set (text_field scope k). normalize_repo_path raw \<noteq> None)"
  by (auto simp: scope_list_issues_def list_all_iff)

lemma scope_paths_set: "set (scope_paths scope k) = {path. \<exists>raw \<in> set (text_field scope k). normalize_repo_path raw = Some path}"
  by (force simp: scope_paths_def List.map_filter_def)

text \<open>Partial normal forms of two lists of paths.\<close>

lemma all_normal:
  "(\<forall>x \<in> A. N x \<noteq> None) \<and> (\<forall>y. (\<exists>x \<in> A. N x = Some y) \<longrightarrow> Q y) \<longleftrightarrow> (\<forall>x \<in> A. \<exists>y. N x = Some y \<and> Q y)"
  by fastforce

lemma normal_disjoint:
  assumes "\<forall>x \<in> A. N x \<noteq> None"
  shows "{y. \<exists>x \<in> A. N x = Some y} \<inter> {y. \<exists>x \<in> B. N x = Some y} = {} \<longleftrightarrow> N ` A \<inter> N ` B = {}"
proof
  assume d: "{y. \<exists>x \<in> A. N x = Some y} \<inter> {y. \<exists>x \<in> B. N x = Some y} = {}"
  have False if "x \<in> A" "x' \<in> B" "N x = N x'" for x x'
  proof -
    obtain y where "N x = Some y" using assms \<open>x \<in> A\<close> by blast
    then have "y \<in> {y. \<exists>x \<in> A. N x = Some y}" "y \<in> {y. \<exists>x \<in> B. N x = Some y}" using that by auto
    with d show False by blast
  qed
  then show "N ` A \<inter> N ` B = {}" by blast
next
  assume "N ` A \<inter> N ` B = {}"
  then have "N x \<noteq> N x'" if "x \<in> A" "x' \<in> B" for x x' using that by blast
  then show "{y. \<exists>x \<in> A. N x = Some y} \<inter> {y. \<exists>x \<in> B. N x = Some y} = {}" by fastforce
qed

lemma scope_issues_Nil: "scope_issues scope = [] \<longleftrightarrow> lawful_scope scope"
proof (cases "text_field scope ''allowed_paths'' \<noteq> [] \<and> text_field scope ''blocked_paths'' \<noteq> []")
  case True
  then obtain d where d: "scope = JObj d" "list_of_non_empty_text (dget d ''allowed_paths'')" "list_of_non_empty_text (dget d ''blocked_paths'')"
    unfolding text_field_present by auto
  let ?A = "set (the_strs (dget d ''allowed_paths''))" and ?B = "set (the_strs (dget d ''blocked_paths''))"
  let ?P = "{y. \<exists>x \<in> ?A. normalize_repo_path x = Some y}" and ?Q = "{y. \<exists>x \<in> ?B. normalize_repo_path x = Some y}"
  have P: "set (scope_paths (JObj d) ''allowed_paths'') = ?P" "set (scope_paths (JObj d) ''blocked_paths'') = ?Q"
    using d by (simp_all add: scope_paths_set)
  have "scope_issues scope = [] \<longleftrightarrow> (\<forall>x \<in> ?A. normalize_repo_path x \<noteq> None) \<and> (\<forall>x \<in> ?B. normalize_repo_path x \<noteq> None) \<and>
      (\<forall>path \<in> ?P. \<not> path_is_protected path) \<and> (\<forall>path \<in> ?P. path \<notin> ?Q)"
    using True d by (simp add: scope_issues_def Let_def list_all_iff filter_empty_conv P del: mem_Collect_eq)
  also have "\<dots> \<longleftrightarrow> (\<forall>x \<in> ?A. lawful_path x) \<and> (\<forall>x \<in> ?B. normalize_repo_path x \<noteq> None) \<and> ?P \<inter> ?Q = {}"
    unfolding lawful_path_def using all_normal [of ?A normalize_repo_path "\<lambda>y. \<not> path_is_protected y"] by blast
  also have "\<dots> \<longleftrightarrow> lawful_scope scope"
  proof (cases "\<forall>x \<in> ?A. lawful_path x")
    case True
    then have "\<forall>x \<in> ?A. normalize_repo_path x \<noteq> None" by (auto simp: lawful_path_def)
    from normal_disjoint [OF this, of ?B] show ?thesis using d by (simp add: lawful_scope_def)
  next
    case False
    with d show ?thesis by (auto simp: lawful_scope_def)
  qed
  finally show ?thesis .
next
  case False
  then show ?thesis by (auto simp: scope_issues_def Let_def lawful_scope_def text_field_present)
qed

lemma operation_issues_Nil: "operation_issues operations = [] \<longleftrightarrow> lawful_operations operations"
proof (cases "text_field operations ''allowed'' \<noteq> [] \<and> text_field operations ''blocked'' \<noteq> []")
  case True
  then obtain d where d: "operations = JObj d" "list_of_non_empty_text (dget d ''allowed'')" "list_of_non_empty_text (dget d ''blocked'')"
    unfolding text_field_present by auto
  then show ?thesis using True
    by (auto simp: operation_issues_def Let_def list_all_iff lawful_operations_def filter_empty_conv)
next
  case False
  then show ?thesis by (auto simp: operation_issues_def Let_def lawful_operations_def text_field_present)
qed

lemma requirement_issues_Nil [simp]: "requirement_issues field d = [] \<longleftrightarrow> approval_token (dget d ''approval_token'') \<and> nonblank_str (dget d ''reason'')"
  by (simp add: requirement_issues_def)

text \<open>The loop accepts exactly the lists with one lawful approval for each of some distinct new operations.\<close>

lemma approvals_from_accepts:
  "approvals_from n r items = Inr ([], m) \<longleftrightarrow>
     (\<exists>operations. list_all2 approval_for items operations \<and> distinct operations \<and> (\<forall>k \<in> set operations. dict_get r k = None) \<and>
        m = foldl (\<lambda>r (k, item). dict_set r k item) r (zip operations items))"
proof (induction items arbitrary: n r)
  case Nil
  then show ?case by auto
next
  case (Cons item items)
  show ?case
  proof (cases "\<exists>k. approval_for item k \<and> dict_get r k = None")
    case True
    then obtain k where k: "approval_for item k" "dict_get r k = None" by blast
    then obtain d where d: "item = JObj d" "dget d ''operation'' = JStr k" "k \<in> set KNOWN_OPERATIONS" "requirement_issues field d = []" for field
      by (auto simp: approval_for_def)
    have only: "approval_for item k' \<longleftrightarrow> k' = k" for k' using k(1) by (auto simp: approval_for_def)
    have "approvals_from n r (item # items) = Inr ([], m) \<longleftrightarrow> approvals_from (Suc n) (dict_set r k item) items = Inr ([], m)"
      using k(2) d by (auto simp: in_str_set_def Let_def py_bind_def split: sum.splits)
    also have "\<dots> \<longleftrightarrow> (\<exists>operations. list_all2 approval_for items operations \<and> distinct operations \<and>
        (\<forall>k' \<in> set operations. k' \<noteq> k \<and> dict_get r k' = None) \<and>
        m = foldl (\<lambda>r (k, item). dict_set r k item) (dict_set r k item) (zip operations items))"
      unfolding Cons.IH by auto
    also have "\<dots> \<longleftrightarrow> (\<exists>operations. list_all2 approval_for (item # items) operations \<and> distinct operations \<and>
        (\<forall>k \<in> set operations. dict_get r k = None) \<and> m = foldl (\<lambda>r (k, item). dict_set r k item) r (zip operations (item # items)))"
      (is "?L \<longleftrightarrow> ?R")
    proof
      assume ?L
      then obtain operations where "list_all2 approval_for items operations" "distinct operations"
        "\<forall>k' \<in> set operations. k' \<noteq> k \<and> dict_get r k' = None"
        "m = foldl (\<lambda>r (k, item). dict_set r k item) (dict_set r k item) (zip operations items)" by blast
      with k show ?R by (intro exI [of _ "k # operations"]) auto
    next
      assume ?R
      then show ?L by (auto simp: list_all2_Cons1 only)
    qed
    finally show ?thesis .
  next
    case False
    then have "approvals_from n r (item # items) \<noteq> Inr ([], m)"
      by (cases item) (auto simp: in_str_set_def Let_def py_bind_def approval_for_def split: sum.splits if_splits json.splits)
    with False show ?thesis by (auto simp: list_all2_Cons1)
  qed
qed

lemma foldl_keys:
  "length operations = length items \<Longrightarrow>
   dict_get (foldl (\<lambda>r (k, item). dict_set r k item) r (zip operations items)) k = None \<longleftrightarrow> dict_get r k = None \<and> k \<notin> set operations"
  by (induction operations items arbitrary: r rule: list_induct2) auto

lemma approval_map_accepts:
  "approval_map v = Inr ([], m) \<longleftrightarrow>
     (\<exists>items operations. v = JList items \<and> lawful_approvals v operations \<and> m = foldl (\<lambda>r (k, item). dict_set r k item) [] (zip operations items))"
  by (cases v) (auto simp: approval_map_def approvals_from_accepts lawful_approvals_def)

lemma approval_issues_Nil: "approval_issues allowed m = [] \<longleftrightarrow> (\<forall>k \<in> set allowed \<inter> set SENSITIVE_OPERATIONS. dict_get m k \<noteq> None)"
  by (auto simp: approval_issues_def filter_empty_conv)

lemma review_issues_Nil [simp]: "review_issues risk review = Inr [] \<longleftrightarrow> lawful_review risk review"
  by (cases review) (auto simp: review_issues_def lawful_review_def Let_def)

lemma authority_issues_Nil [simp]:
  "authority_issues v = [] \<longleftrightarrow> (\<exists>d. v = JObj d \<and> (\<forall>k \<in> set REQUIRED_AUTHORITY. dget d k = JBool True))"
  by (cases v) (auto simp: authority_issues_def Let_def REQUIRED_AUTHORITY_def)

lemma policy_issues_Nil: "policy_issues p allowed = [] \<longleftrightarrow>
    (''git_push'' \<in> set allowed \<longrightarrow> dget p ''network_policy'' = JStr ''explicit_approval_required'') \<and>
    (''write_private_memory'' \<in> set allowed \<longrightarrow> dget p ''private_context_policy'' = JStr ''explicit_approval_required'')"
  by (simp add: policy_issues_def)

lemma list_field_issues_Nil: "list_field_issues p = [] \<longleftrightarrow>
    (\<forall>f \<in> {''acceptance_criteria'', ''evidence_requirements'', ''completion_conditions'', ''stop_triggers''}. list_of_non_empty_text (dget p f))"
  by (simp add: list_field_issues_def)

lemma top_level_issues_Nil: "top_level_issues p = [] \<longleftrightarrow>
    (\<forall>f \<in> set REQUIRED_TOP_LEVEL. dict_get p f \<noteq> None) \<and>
    dget p ''schema_version'' = JStr ''1.0.0'' \<and> dget p ''report_type'' = JStr ''supervised_task_contract'' \<and>
    safe_id (dget p ''contract_id'') \<and> safe_id (dget p ''mission_id'') \<and>
    nonblank_str (dget p ''title'') \<and> nonblank_str (dget p ''objective'') \<and> list_of_non_empty_text (dget p ''non_goals'')"
  by (simp add: top_level_issues_def filter_empty_conv)

text \<open>A field whose value is not \<open>null\<close> is there.\<close>

lemma dget_present: "dget p f \<noteq> JNull \<Longrightarrow> dict_get p f \<noteq> None"
  by (auto simp: dget_def split: option.splits)

lemma accepted_not_null:
  "safe_id v \<Longrightarrow> v \<noteq> JNull" "nonblank_str v \<Longrightarrow> v \<noteq> JNull" "list_of_non_empty_text v \<Longrightarrow> v \<noteq> JNull" "one_of ks v \<Longrightarrow> v \<noteq> JNull"
  "lawful_scope v \<Longrightarrow> v \<noteq> JNull" "lawful_operations v \<Longrightarrow> v \<noteq> JNull" "lawful_review r v \<Longrightarrow> v \<noteq> JNull" "lawful_approvals v ops \<Longrightarrow> v \<noteq> JNull"
  by (auto simp: safe_id_def one_of_def lawful_scope_def lawful_operations_def lawful_review_def lawful_approvals_def list_of_non_empty_text_def)

lemma lawful_fields_present:
  assumes "lawful_contract p" shows "\<forall>f \<in> set REQUIRED_TOP_LEVEL. dict_get p f \<noteq> None"
proof -
  have "\<forall>f \<in> set REQUIRED_TOP_LEVEL. dget p f \<noteq> JNull"
    using assms unfolding REQUIRED_TOP_LEVEL_def lawful_contract_def
    by (elim conjE exE) (simp add: accepted_not_null)
  then show ?thesis using dget_present by blast
qed

lemma len_of_texts [simp]: "list_of_non_empty_text v \<Longrightarrow> \<exists>n. len_or_zero v = Inr n"
  by (cases v) (auto simp: len_or_zero_def list_of_non_empty_text_def)

lemma normalized_summary_exists:
  assumes "list_field_issues p = []" shows "\<exists>n. normalized_summary p approvals = Inr n"
proof -
  from assms have "list_of_non_empty_text (dget p ''acceptance_criteria'')" "list_of_non_empty_text (dget p ''evidence_requirements'')"
    "list_of_non_empty_text (dget p ''completion_conditions'')" "list_of_non_empty_text (dget p ''stop_triggers'')"
    unfolding list_field_issues_Nil by (simp_all only: ball_simps insert_iff simp_thms HOL.refl)
  from this [THEN len_of_texts] obtain a b c d where "len_or_zero (dget p ''acceptance_criteria'') = Inr a"
    "len_or_zero (dget p ''evidence_requirements'') = Inr b" "len_or_zero (dget p ''completion_conditions'') = Inr c"
    "len_or_zero (dget p ''stop_triggers'') = Inr d"
    by iprover
  then show ?thesis by (simp add: normalized_summary_def Let_def)
qed

lemma validate_contract_Nil:
  "validate_contract p = Inr ([], w, n) \<longleftrightarrow>
     (\<exists>m. approval_map (dget p ''approval_requirements'') = Inr ([], m) \<and>
        approval_issues (text_field (dget p ''operations'') ''allowed'') m = [] \<and>
        closure_issues p (text_field (dget p ''operations'') ''allowed'') m = [] \<and> normalized_summary p m = Inr n \<and>
        w = operation_warnings (dget p ''operations'') @ approval_warnings (text_field (dget p ''operations'') ''allowed'') m) \<and>
     top_level_issues p = [] \<and> one_of RISK_LEVELS (dget p ''risk_level'') \<and> scope_issues (dget p ''scope'') = [] \<and>
     operation_issues (dget p ''operations'') = [] \<and> one_of ACCESS_POLICIES (dget p ''network_policy'') \<and>
     one_of ACCESS_POLICIES (dget p ''private_context_policy'') \<and> list_field_issues p = [] \<and>
     policy_issues p (text_field (dget p ''operations'') ''allowed'') = [] \<and>
     lawful_review (dget p ''risk_level'') (dget p ''review'') \<and>
     dget p ''teachback_required'' = JBool True \<and> authority_issues (dget p ''authority'') = []"
  unfolding validate_contract_def Let_def
  by (auto simp del: authority_issues_Nil)

lemma approvals_accepted:
  assumes "dget p ''teachback_required'' = JBool True"
  shows "(\<exists>m. approval_map v = Inr ([], m) \<and> approval_issues allowed m = [] \<and> closure_issues p allowed m = []) \<longleftrightarrow>
    (\<exists>operations. lawful_approvals v operations \<and> (\<forall>k \<in> set allowed \<inter> set SENSITIVE_OPERATIONS. k \<in> set operations))"
    (is "?L \<longleftrightarrow> ?R")
proof -
  have closure: "closure_issues p allowed m = []" if "approval_issues allowed m = []" for m
  proof -
    have "''close_mission'' \<in> set SENSITIVE_OPERATIONS" by (simp add: SENSITIVE_OPERATIONS_def)
    with that assms show ?thesis unfolding approval_issues_Nil closure_issues_def by simp
  qed
  have keys: "dict_get (foldl (\<lambda>r (k, item). dict_set r k item) [] (zip operations items)) k \<noteq> None \<longleftrightarrow> k \<in> set operations"
    if "lawful_approvals (JList items) operations" for items operations k
    using that foldl_keys [of operations items "[]" k] by (auto simp: lawful_approvals_def dest: list_all2_lengthD)
  show ?thesis
  proof
    assume ?L
    then obtain items operations where "v = JList items" "lawful_approvals v operations"
      "approval_issues allowed (foldl (\<lambda>r (k, item). dict_set r k item) [] (zip operations items)) = []"
      unfolding approval_map_accepts by blast
    then show ?R using keys [of items operations] unfolding approval_issues_Nil by blast
  next
    assume ?R
    then obtain operations items where o: "lawful_approvals v operations" "v = JList items"
      "\<forall>k \<in> set allowed \<inter> set SENSITIVE_OPERATIONS. k \<in> set operations" by (auto simp: lawful_approvals_def)
    let ?m = "foldl (\<lambda>r (k, item). dict_set r k item) [] (zip operations items)"
    have "approval_issues allowed ?m = []" using o keys [of items operations] unfolding approval_issues_Nil by blast
    moreover have "approval_map v = Inr ([], ?m)" unfolding approval_map_accepts using o by blast
    ultimately show ?L using closure by blast
  qed
qed

lemma validate_contract_accepts: "(\<exists>w n. validate_contract p = Inr ([], w, n)) \<longleftrightarrow> lawful_contract p"
proof -
  let ?allowed = "text_field (dget p ''operations'') ''allowed''"
  let ?A = "\<lambda>m. approval_map (dget p ''approval_requirements'') = Inr ([], m) \<and> approval_issues ?allowed m = [] \<and> closure_issues p ?allowed m = []"
  let ?F = "\<forall>f \<in> {''acceptance_criteria'', ''evidence_requirements'', ''completion_conditions'', ''stop_triggers''}. list_of_non_empty_text (dget p f)"
  have five: "(\<forall>f \<in> {''non_goals'', ''acceptance_criteria'', ''evidence_requirements'', ''completion_conditions'', ''stop_triggers''}.
      list_of_non_empty_text (dget p f)) \<longleftrightarrow> list_of_non_empty_text (dget p ''non_goals'') \<and> ?F" by simp
  show ?thesis
  proof
    assume "\<exists>w n. validate_contract p = Inr ([], w, n)"
    then obtain m where "?A m" and rest: "dget p ''teachback_required'' = JBool True" "top_level_issues p = []"
        "one_of RISK_LEVELS (dget p ''risk_level'')" "scope_issues (dget p ''scope'') = []" "operation_issues (dget p ''operations'') = []"
        "one_of ACCESS_POLICIES (dget p ''network_policy'')" "one_of ACCESS_POLICIES (dget p ''private_context_policy'')"
        "list_field_issues p = []" "policy_issues p ?allowed = []" "lawful_review (dget p ''risk_level'') (dget p ''review'')"
        "authority_issues (dget p ''authority'') = []"
      unfolding validate_contract_Nil by iprover
    then have "\<exists>m. ?A m" by iprover
    note this [unfolded approvals_accepted [OF rest(1)]]
    then show "lawful_contract p" unfolding lawful_contract_def five
      using rest(1,3,6,7,10) rest(2) [unfolded top_level_issues_Nil] rest(4) [unfolded scope_issues_Nil] rest(5) [unfolded operation_issues_Nil]
        rest(8) [unfolded list_field_issues_Nil] rest(9) [unfolded policy_issues_Nil] rest(11) [unfolded authority_issues_Nil]
      by iprover
  next
    assume l: "lawful_contract p"
    note c = l [unfolded lawful_contract_def five]
    from c have t: "dget p ''teachback_required'' = JBool True" by iprover
    from c have "\<exists>m. ?A m" unfolding approvals_accepted [OF t] by iprover
    moreover from c have f: "list_field_issues p = []" unfolding list_field_issues_Nil by iprover
    from c lawful_fields_present [OF l] have "top_level_issues p = []" unfolding top_level_issues_Nil by iprover
    moreover from c have "policy_issues p ?allowed = []" unfolding policy_issues_Nil by iprover
    moreover from c have "scope_issues (dget p ''scope'') = []" "operation_issues (dget p ''operations'') = []"
      "authority_issues (dget p ''authority'') = []"
      unfolding scope_issues_Nil operation_issues_Nil authority_issues_Nil by iprover+
    moreover from c have "one_of RISK_LEVELS (dget p ''risk_level'')" "one_of ACCESS_POLICIES (dget p ''network_policy'')"
      "one_of ACCESS_POLICIES (dget p ''private_context_policy'')" "lawful_review (dget p ''risk_level'') (dget p ''review'')" by iprover+
    ultimately show "\<exists>w n. validate_contract p = Inr ([], w, n)"
      using normalized_summary_exists [OF f] f t unfolding validate_contract_Nil by iprover
  qed
qed

lemma build_report_ready:
  "(\<exists>report. build_report now contract_path p = Inr report \<and> dget report ''readiness'' = JStr ''ready'') \<longleftrightarrow> lawful_contract p"
proof -
  have "(\<exists>report. build_report now contract_path p = Inr report \<and> dget report ''readiness'' = JStr ''ready'') \<longleftrightarrow>
      (\<exists>w n. validate_contract p = Inr ([], w, n))"
    by (cases "validate_contract p") (auto simp: build_report_def Let_def split: if_splits)
  with validate_contract_accepts show ?thesis by simp
qed

text \<open>
  C14: the validator reports \<open>ready\<close> exactly for lawful contracts: every section is of its shape, the
  allowed paths are relative, normal, unprotected and disjoint from the blocked ones, the operations
  are known and disjoint, every sensitive operation that is allowed has its own approval with a token
  and a reason, a push or a write of private memory comes with its policy, and review, teachback and
  the authority flags are as required. In particular a lawful contract never raises.
\<close>

theorem contract_ready_iff:
  "(\<exists>report. build_report now contract_path p = Inr report \<and> dget report ''readiness'' = JStr ''ready'') \<longleftrightarrow> lawful_contract p"
  by (rule build_report_ready)

section \<open>Contracts the validator does not answer\<close>

text \<open>A value that is truthy but has no length.\<close>

definition unsized :: "json \<Rightarrow> bool" where
  "unsized v \<longleftrightarrow> truthy v \<and> \<not> is_str v \<and> \<not> is_list v \<and> \<not> is_dict v"

definition unhashable_approval :: "json \<Rightarrow> bool" where
  "unhashable_approval item \<longleftrightarrow> is_dict item \<and> \<not> hashable (dget (the_obj item) ''operation'')"

definition unanswerable :: "jdict \<Rightarrow> bool" where
  "unanswerable p \<longleftrightarrow>
     (\<exists>f \<in> {''risk_level'', ''network_policy'', ''private_context_policy''}. \<not> hashable (dget p f)) \<or>
     is_list (dget p ''approval_requirements'') \<and> list_ex unhashable_approval (the_list (dget p ''approval_requirements'')) \<or>
     is_dict (dget p ''review'') \<and> \<not> hashable (dget (the_obj (dget p ''review'')) ''level'') \<or>
     (\<exists>f \<in> {''acceptance_criteria'', ''evidence_requirements'', ''completion_conditions'', ''stop_triggers''}. unsized (dget p f))"

lemma py_bind_Inl: "py_bind m f = Inl e \<longleftrightarrow> m = Inl e \<or> (\<exists>x. m = Inr x \<and> f x = Inl e)"
  by (cases m) simp_all

lemma level_issue_raises: "level_issue v ks a b c = Inl e \<longleftrightarrow> e = TypeError \<and> \<not> hashable v"
  by (auto simp: level_issue_def in_str_set_def)

lemma hashable_JNull [simp]: "hashable JNull" by simp

lemma section_levels_raise:
  "risk_issues v = Inl e \<longleftrightarrow> e = TypeError \<and> \<not> hashable v"
  "network_issues v = Inl e \<longleftrightarrow> e = TypeError \<and> \<not> hashable v"
  "context_issues v = Inl e \<longleftrightarrow> e = TypeError \<and> \<not> hashable v"
  "review_issues r v = Inl e \<longleftrightarrow> e = TypeError \<and> is_dict v \<and> \<not> hashable (dget (the_obj v) ''level'')"
  by (auto simp: risk_issues_def network_issues_def context_issues_def review_issues_def level_issue_raises py_bind_Inl Let_def)

lemma len_or_zero_raises: "len_or_zero v = Inl e \<longleftrightarrow> e = TypeError \<and> unsized v"
  by (cases v) (auto simp: len_or_zero_def unsized_def)

lemma approvals_from_raises: "approvals_from n r items = Inl e \<longleftrightarrow> e = TypeError \<and> list_ex unhashable_approval items"
proof (induction items arbitrary: n r)
  case (Cons item items)
  show ?case
  proof (cases "unhashable_approval item")
    case True
    then show ?thesis by (auto simp: Let_def in_str_set_def unhashable_approval_def)
  next
    case False
    then show ?thesis
      by (simp add: Let_def in_str_set_def unhashable_approval_def py_bind_Inl case_prod_unfold Cons.IH)
  qed
qed simp

lemma approval_map_raises:
  "approval_map v = Inl e \<longleftrightarrow> e = TypeError \<and> is_list v \<and> list_ex unhashable_approval (the_list v)"
  by (simp add: approval_map_def approvals_from_raises)

lemma raises_or_not: "(\<And>e. m = Inl e \<longleftrightarrow> e = TypeError \<and> b) \<Longrightarrow> (m = Inl TypeError \<and> b) \<or> (\<not> b \<and> (\<exists>x. m = Inr x))"
  by (cases m) auto

lemma normalized_summary_raises: "normalized_summary p m = Inl e \<longleftrightarrow> e = TypeError \<and>
    (\<exists>f \<in> {''acceptance_criteria'', ''evidence_requirements'', ''completion_conditions'', ''stop_triggers''}. unsized (dget p f))"
  using raises_or_not [OF len_or_zero_raises [of "dget p ''acceptance_criteria''"]]
    raises_or_not [OF len_or_zero_raises [of "dget p ''evidence_requirements''"]]
    raises_or_not [OF len_or_zero_raises [of "dget p ''completion_conditions''"]]
    raises_or_not [OF len_or_zero_raises [of "dget p ''stop_triggers''"]]
  unfolding normalized_summary_def Let_def by (elim disjE conjE exE) auto

lemma validate_contract_raises: "validate_contract p = Inl e \<longleftrightarrow> e = TypeError \<and> unanswerable p"
proof -
  show ?thesis
    using raises_or_not [OF section_levels_raise(1) [of "dget p ''risk_level''"]]
      raises_or_not [OF section_levels_raise(2) [of "dget p ''network_policy''"]]
      raises_or_not [OF section_levels_raise(3) [of "dget p ''private_context_policy''"]]
      raises_or_not [OF section_levels_raise(4) [of "dget p ''risk_level''" "dget p ''review''"]]
      raises_or_not [OF approval_map_raises [of "dget p ''approval_requirements''"]]
    unfolding validate_contract_def Let_def unanswerable_def
    by (elim disjE conjE exE) (auto simp: normalized_summary_raises py_bind_Inl case_prod_unfold)
qed

text \<open>
  C38: the command answers a contract that is a JSON object with a report, unless a level, a policy or
  an operation of an approval is a list or an object, or one of the four lists of texts is a number or
  \<open>true\<close>: exactly then \<open>TypeError\<close> escapes \<open>main\<close>, which answers only \<open>ContractValidationError\<close> with
  an error report and exit code 2.
\<close>

theorem malformed_contract_crashes:
  "fst (contract_main now contract_path (Holds (JObj p)) out force) = Inl (ContractRaised TypeError) \<longleftrightarrow> unanswerable p"
proof (cases "validate_contract p")
  case (Inl e)
  then show ?thesis using validate_contract_raises [of p e]
    by (simp add: contract_main_def read_json_object_def build_report_def)
next
  case (Inr x)
  then have "\<not> unanswerable p" using validate_contract_raises [of p TypeError] by simp
  moreover obtain r where "build_report now contract_path p = Inr r" using Inr by (cases x) (simp add: build_report_def Let_def)
  ultimately show ?thesis
    by (auto simp: contract_main_def read_json_object_def resolve_report_output_def write_report_def split: option.splits)
qed

section \<open>What the command answers\<close>

definition output_accepted :: "output_target option \<Rightarrow> bool \<Rightarrow> bool" where
  "output_accepted out force = (case out of None \<Rightarrow> True
     | Some t \<Rightarrow> under_sandbox t \<and> (already_exists t \<longrightarrow> force) \<and> can_be_written t)"

text \<open>The exit code is 0 exactly for a lawful contract whose report, if asked for, is written under the sandbox.\<close>

theorem contract_exit_code:
  "fst (contract_main now contract_path contents out force) = Inr 0 \<longleftrightarrow>
     (\<exists>p. contents = Holds (JObj p) \<and> lawful_contract p) \<and> output_accepted out force"
proof (cases "\<exists>p. contents = Holds (JObj p)")
  case True
  then obtain p where p: "contents = Holds (JObj p)" by blast
  show ?thesis
  proof (cases "build_report now contract_path p")
    case (Inl e)
    then have "\<not> lawful_contract p" using build_report_ready [of now contract_path p] by simp
    then show ?thesis by (simp add: p contract_main_def read_json_object_def Inl)
  next
    case (Inr r)
    then have "dget r ''readiness'' = JStr ''ready'' \<longleftrightarrow> lawful_contract p" using build_report_ready [of now contract_path p] by simp
    then show ?thesis
      by (cases out) (auto simp: p contract_main_def read_json_object_def Inr resolve_report_output_def write_report_def output_accepted_def)
  qed
next
  case False
  then show ?thesis
    by (cases contents) (auto simp: contract_main_def read_json_object_def split: json.splits)
qed

section \<open>The parent of a protected directory\<close>

definition with_allowed_paths :: "jdict \<Rightarrow> pystr list \<Rightarrow> jdict" where
  "with_allowed_paths p paths = dict_set p ''scope'' (JObj (dict_set (the_obj (dget p ''scope'')) ''allowed_paths'' (jstrs paths)))"

lemma with_allowed_paths_get:
  "dget p ''scope'' = JObj d \<Longrightarrow> dget (with_allowed_paths p paths) f =
     (if f = ''scope'' then JObj (dict_set d ''allowed_paths'' (jstrs paths)) else dget p f)"
  by (simp add: with_allowed_paths_def)

text \<open>In a lawful contract the allowed paths may be replaced by any one path that is lawful and not blocked.\<close>

lemma with_allowed_path_lawful:
  assumes "lawful_contract p" and "normalize_repo_path path = Some path" and "py_nonblank path"
    and "Some path \<notin> normalize_repo_path ` set (text_field (dget p ''scope'') ''blocked_paths'')"
  shows "lawful_contract (with_allowed_paths p [path]) \<longleftrightarrow> \<not> path_is_protected path"
proof -
  obtain d where d: "dget p ''scope'' = JObj d" "list_of_non_empty_text (dget d ''blocked_paths'')"
    "\<forall>raw \<in> set (the_strs (dget d ''blocked_paths'')). normalize_repo_path raw \<noteq> None"
    using assms(1) by (auto simp: lawful_contract_def lawful_scope_def)
  have l: "list_of_non_empty_text (jstrs [path])" using assms(3) by (simp add: list_of_non_empty_text_def jstrs_def)
  have "lawful_scope (JObj (dict_set d ''allowed_paths'' (jstrs [path]))) \<longleftrightarrow> \<not> path_is_protected path"
    using d assms(2,4) l by (simp add: lawful_scope_def lawful_path_def)
  then show ?thesis using assms(1) by (simp add: lawful_contract_def with_allowed_paths_get [OF d(1)])
qed

text \<open>
  The paths that take in a directory without naming it: the directory above it and the pattern for what
  that directory holds, or the pattern for the whole repository when the directory is at the top.
\<close>

definition paths_above :: "pystr \<Rightarrow> pystr list" where
  "paths_above dir =
     (let above = takeWhile (\<lambda>c. c \<noteq> CHR ''/'') dir in if above = dir then [''*''] else [above, above @ ''/*''])"

lemma protected_path_facts:
  "\<forall>dir \<in> set PROTECTED_PATH_PREFIXES. normalize_repo_path dir = Some dir \<and> path_is_protected dir \<and> py_nonblank dir \<and>
     (\<forall>path \<in> set (paths_above dir). normalize_repo_path path = Some path \<and> \<not> path_is_protected path \<and> py_nonblank path)"
  by code_simp

lemma names_protected_unlawful:
  assumes "normalize_repo_path dir = Some dir" and "path_is_protected dir"
  shows "\<not> lawful_contract (with_allowed_paths p [dir])"
proof
  assume l: "lawful_contract (with_allowed_paths p [dir])"
  have "the_strs (dget (the_obj (dget (with_allowed_paths p [dir]) ''scope'')) ''allowed_paths'') = [dir]"
    by (simp add: with_allowed_paths_def)
  with l assms show False by (auto simp: lawful_contract_def lawful_scope_def lawful_path_def)
qed

text \<open>
  C37: protection is of names, not of what lies below. Take any contract that is reported ready, any of
  the six protected directories, and a path above it (\<open>memory\<close> or \<open>memory/*\<close> for \<open>memory/local\<close>, \<open>*\<close> for
  \<open>vault\<close>) that the contract does not block by the same name. With this path for its allowed paths the
  contract is still reported ready; with the directory itself it is not.
\<close>

theorem protected_directory_allowed_by_parent:
  assumes "\<exists>report. build_report now contract_path p = Inr report \<and> dget report ''readiness'' = JStr ''ready''"
    and "dir \<in> set PROTECTED_PATH_PREFIXES" and "path \<in> set (paths_above dir)"
    and "Some path \<notin> normalize_repo_path ` set (text_field (dget p ''scope'') ''blocked_paths'')"
  shows "(\<exists>report. build_report now contract_path (with_allowed_paths p [path]) = Inr report \<and>
        dget report ''readiness'' = JStr ''ready'') \<and>
     \<not> (\<exists>report. build_report now contract_path (with_allowed_paths p [dir]) = Inr report \<and>
        dget report ''readiness'' = JStr ''ready'')"
proof -
  from protected_path_facts assms(2,3) have dir: "normalize_repo_path dir = Some dir" "path_is_protected dir"
    and path: "normalize_repo_path path = Some path" "\<not> path_is_protected path" "py_nonblank path" by blast+
  from assms(1) have "lawful_contract p" unfolding build_report_ready .
  then show ?thesis unfolding build_report_ready
    using with_allowed_path_lawful [OF _ path(1,3) assms(4)] path(2) names_protected_unlawful [OF dir] by blast
qed

section \<open>Witnesses\<close>

definition demo_task_contract :: jdict where
  "demo_task_contract = [
     (''schema_version'', JStr ''1.0.0''), (''report_type'', JStr ''supervised_task_contract''),
     (''contract_id'', JStr ''contract-1''), (''mission_id'', JStr ''mission.1''), (''title'', JStr ''Publish''),
     (''objective'', JStr ''publish the docs''), (''non_goals'', jstrs [''no release'']), (''risk_level'', JStr ''high''),
     (''scope'', JObj [(''allowed_paths'', jstrs [''./docs'', ''README.md'']), (''blocked_paths'', jstrs [''memory/local''])]),
     (''operations'', JObj [(''allowed'', jstrs [''read_public_files'', ''git_push'']), (''blocked'', jstrs [''apply_patch''])]),
     (''network_policy'', JStr ''explicit_approval_required''), (''private_context_policy'', JStr ''blocked''),
     (''acceptance_criteria'', jstrs [''docs online'']), (''evidence_requirements'', jstrs [''log'']),
     (''approval_requirements'', JList [JObj [(''operation'', JStr ''git_push''), (''approval_token'', JStr ''PUSH_DOCS''),
        (''reason'', JStr ''leaves the machine'')]]),
     (''completion_conditions'', jstrs [''pushed'']),
     (''review'', JObj [(''required'', JBool True), (''level'', JStr ''strict''), (''reviewers'', jstrs [''ana''])]),
     (''teachback_required'', JBool True), (''stop_triggers'', jstrs [''any failure'']),
     (''authority'', JObj (map (\<lambda>k. (k, JBool True)) REQUIRED_AUTHORITY))]"

lemma demo_task_contract_valid: "case validate_contract demo_task_contract of Inl _ \<Rightarrow> False | Inr (blockers, _, _) \<Rightarrow> blockers = []"
  by code_simp

lemma demo_task_contract_lawful: "lawful_contract demo_task_contract"
  using demo_task_contract_valid validate_contract_accepts [of demo_task_contract] by (auto split: sum.splits prod.splits)

theorem contract_ready_iff_witness:
  "\<exists>report. build_report ''now'' ''contract.json'' demo_task_contract = Inr report \<and> dget report ''readiness'' = JStr ''ready''"
  unfolding contract_ready_iff by (rule demo_task_contract_lawful)

theorem protected_directory_allowed_by_parent_witness:
  "(\<exists>report. build_report ''now'' ''contract.json'' (with_allowed_paths demo_task_contract [''memory'']) = Inr report \<and>
        dget report ''readiness'' = JStr ''ready'') \<and>
     \<not> (\<exists>report. build_report ''now'' ''contract.json'' (with_allowed_paths demo_task_contract [''memory/local'']) = Inr report \<and>
        dget report ''readiness'' = JStr ''ready'')"
proof (rule protected_directory_allowed_by_parent)
  show "\<exists>report. build_report ''now'' ''contract.json'' demo_task_contract = Inr report \<and> dget report ''readiness'' = JStr ''ready''"
    unfolding build_report_ready by (rule demo_task_contract_lawful)
  show "Some ''memory'' \<notin> normalize_repo_path ` set (text_field (dget demo_task_contract ''scope'') ''blocked_paths'')" by code_simp
  show "''memory/local'' \<in> set PROTECTED_PATH_PREFIXES" "''memory'' \<in> set (paths_above ''memory/local'')" by code_simp+
qed

theorem malformed_contract_crashes_witness:
  "fst (contract_main ''now'' ''contract.json'' (Holds (JObj (dict_set demo_task_contract ''risk_level'' (JList [])))) None False) =
     Inl (ContractRaised TypeError)"
  unfolding malformed_contract_crashes by (simp add: unanswerable_def)

end
