(* ===== verification/Proposal_Evidence.thy ===== *)
theory Proposal_Evidence
  imports Task_Contract
begin

text \<open>
  The first half of the validator of supervised action proposals,
  \<open>tools/action_proposal/validate_supervised_action_proposal.py\<close>: repository paths, the patterns of a
  contract's scope, the references of a proposal to its contract and to its evidence bundle, and the
  checks on that bundle. The messages of blockers and warnings are left out: a defect is its code
  and its field.

  The repository is a function from relative paths to what resolving, hashing and reading the file
  yields. \<open>OtherError\<close> stands for \<open>OSError\<close>.
\<close>

section \<open>Defects\<close>

type_synonym defect = "pystr \<times> pystr"

definition defect_if :: "bool \<Rightarrow> pystr \<Rightarrow> pystr \<Rightarrow> defect list" where
  "defect_if b code field = (if b then [(code, field)] else [])"

text \<open>The flags of a required authority object.\<close>

definition flag_defects :: "pystr list \<Rightarrow> pystr \<Rightarrow> pystr \<Rightarrow> jdict \<Rightarrow> defect list" where
  "flag_defects ks code before d = concat (map (\<lambda>k. defect_if (dget d k \<noteq> JBool True) code (before @ k)) ks)"

definition list_value :: "json \<Rightarrow> json list" where
  "list_value v = (if is_list v then the_list v else [])"

definition text_items :: "json \<Rightarrow> pystr list" where
  "text_items v = map the_str (filter is_str (list_value v))"

definition sha256_text :: "json \<Rightarrow> bool" where
  "sha256_text v = (case v of JStr s \<Rightarrow> hex_fullmatch 64 s | _ \<Rightarrow> False)"

text \<open>\<open>isinstance(v, int) and not isinstance(v, bool) and 0 <= v < n\<close>.\<close>

definition index_below :: "nat \<Rightarrow> json \<Rightarrow> bool" where
  "index_below n v = (case v of JInt i \<Rightarrow> 0 \<le> i \<and> i < int n | _ \<Rightarrow> False)"

definition at :: "pystr \<Rightarrow> nat \<Rightarrow> pystr" where
  "at field n = field @ ''['' @ int_repr (int n) @ '']''"

section \<open>Paths\<close>

definition forward_slashes :: "pystr \<Rightarrow> pystr" where
  "forward_slashes s = map (\<lambda>c. if c = backslash then CHR ''/'' else c) s"

definition normalize_relative_path :: "json \<Rightarrow> pystr option" where
  "normalize_relative_path raw = (case raw of
     JStr s \<Rightarrow>
       (let value = forward_slashes (py_strip s) in
        if value = [] \<or> py_startswith value ''/'' \<or> drive_letter value then None
        else
          (let relative = drop_dot_slash value in
           if relative = ''.'' then Some relative
           else if list_ex (\<lambda>p. p \<in> {[], ''.'', ''..''}) (py_split (CHR ''/'') relative) then None else Some relative))
   | _ \<Rightarrow> None)"

definition PRIVATE_PREFIXES :: "pystr list" where
  "PRIVATE_PREFIXES = [''.env'', ''alliance/kirigakure'', ''alliance/private-library'', ''memory/local'', ''vault'']"

definition path_is_private :: "pystr \<Rightarrow> bool" where
  "path_is_private path =
     (let lowered = py_lower path; parts = py_split (CHR ''/'') lowered in
      lowered = ''.env'' \<or> py_startswith lowered ''.env.'' \<or>
      list_ex (\<lambda>p. lowered = py_lower p \<or> py_startswith lowered (py_lower p @ ''/'')) PRIVATE_PREFIXES \<or>
      (length parts \<ge> 3 \<and> parts ! 0 = ''alliance'' \<and> parts ! 2 \<in> {''private-library'', ''memory''}))"

section \<open>Patterns\<close>

text \<open>
  \<open>fnmatch.fnmatchcase\<close> of Python 3.11. A pattern is a list of stars, single characters and classes; a
  star matches any text, slashes included. In a class, a hyphen between two characters is a range
  (an empty one is dropped), and an exclamation mark that ends up first negates.
\<close>

datatype class_item = Single char | Range char char

datatype glob = Star | AnyChar | Exactly char | OneOf "class_item list" | NoneOf "class_item list"

definition item_has :: "char \<Rightarrow> class_item \<Rightarrow> bool" where
  "item_has c i = (case i of Single d \<Rightarrow> c = d | Range a b \<Rightarrow> code_point a \<le> code_point c \<and> code_point c \<le> code_point b)"

fun class_items :: "pystr \<Rightarrow> class_item list" where
  "class_items (a # h # b # s) = (if h = CHR ''-'' then Range a b # class_items s else Single a # class_items (h # b # s))"
| "class_items (a # s) = Single a # class_items s"
| "class_items [] = []"

definition nonempty_item :: "class_item \<Rightarrow> bool" where
  "nonempty_item i = (case i of Single _ \<Rightarrow> True | Range a b \<Rightarrow> code_point a \<le> code_point b)"

definition class_of :: "pystr \<Rightarrow> glob" where
  "class_of content =
     (let items = (case content of c # s \<Rightarrow> (if c = CHR ''!'' then Single c # class_items s else class_items content) | [] \<Rightarrow> []) in
      case filter nonempty_item items of
        Single c # others \<Rightarrow> (if c = CHR ''!'' then NoneOf others else OneOf (Single c # others))
      | Range a b # others \<Rightarrow> (if a = CHR ''!'' then NoneOf (Single (CHR ''-'') # Single b # others) else OneOf (Range a b # others))
      | [] \<Rightarrow> OneOf [])"

text \<open>The content of a class that starts after an opening bracket, and what follows its closing one;
  an exclamation mark and then a closing bracket that come first belong to the content.\<close>

definition leading :: "char \<Rightarrow> pystr \<Rightarrow> pystr \<times> pystr" where
  "leading c s = (case s of d # t \<Rightarrow> (if d = c then ([d], t) else ([], s)) | [] \<Rightarrow> ([], []))"

definition until_bracket :: "pystr \<Rightarrow> (pystr \<times> pystr) option" where
  "until_bracket s = (case dropWhile (\<lambda>c. c \<noteq> CHR '']'') s of
     [] \<Rightarrow> None | _ # rest \<Rightarrow> Some (takeWhile (\<lambda>c. c \<noteq> CHR '']'') s, rest))"

definition class_split :: "pystr \<Rightarrow> (pystr \<times> pystr) option" where
  "class_split s =
     (case leading (CHR ''!'') s of (bang, s1) \<Rightarrow>
      case leading (CHR '']'') s1 of (bracket, s2) \<Rightarrow>
      case until_bracket s2 of None \<Rightarrow> None | Some (inner, rest) \<Rightarrow> Some (bang @ bracket @ inner, rest))"

lemma leading_shorter: "leading c s = (lead, rest) \<Longrightarrow> length rest \<le> length s"
  by (auto simp: leading_def split: list.splits if_splits)

lemma until_bracket_shorter:
  assumes "until_bracket s = Some (inner, rest)" shows "length rest < length s"
proof -
  obtain c where "dropWhile (\<lambda>c. c \<noteq> CHR '']'') s = c # rest"
    using assms by (auto simp: until_bracket_def split: list.splits)
  then have "length (c # rest) \<le> length s" by (metis length_dropWhile_le)
  then show ?thesis by simp
qed

lemma class_split_shorter: "class_split s = Some (content, rest) \<Longrightarrow> length rest < length s"
  unfolding class_split_def
  by (auto split: prod.splits option.splits dest!: leading_shorter until_bracket_shorter)

function glob_of :: "pystr \<Rightarrow> glob list" where
  "glob_of [] = []"
| "glob_of (c # s) =
     (if c = CHR ''*'' then Star # glob_of s
      else if c = CHR ''?'' then AnyChar # glob_of s
      else if c = CHR ''['' then
        (case class_split s of None \<Rightarrow> Exactly c # glob_of s | Some (content, rest) \<Rightarrow> class_of content # glob_of rest)
      else Exactly c # glob_of s)"
  by pat_completeness auto
termination
  by (relation "measure length") (auto dest: class_split_shorter)

definition accepts :: "glob \<Rightarrow> char \<Rightarrow> bool" where
  "accepts g c = (case g of Star \<Rightarrow> False | AnyChar \<Rightarrow> True | Exactly d \<Rightarrow> c = d
     | OneOf items \<Rightarrow> list_ex (item_has c) items | NoneOf items \<Rightarrow> \<not> list_ex (item_has c) items)"

fun glob_match :: "glob list \<Rightarrow> pystr \<Rightarrow> bool" where
  "glob_match [] s = (s = [])"
| "glob_match (g # gs) [] = (g = Star \<and> glob_match gs [])"
| "glob_match (g # gs) (c # s) =
     (if g = Star then glob_match gs (c # s) \<or> glob_match (g # gs) s else accepts g c \<and> glob_match gs s)"

definition path_matches_pattern :: "pystr \<Rightarrow> pystr \<Rightarrow> bool" where
  "path_matches_pattern pattern path =
     (forward_slashes pattern = forward_slashes path \<or> glob_match (glob_of (forward_slashes pattern)) (forward_slashes path))"

datatype scope_verdict = Allowed | PrivatePath | NoScope | BlockedPath | OutsideScope

definition path_allowed_by_contract :: "jdict \<Rightarrow> pystr \<Rightarrow> scope_verdict" where
  "path_allowed_by_contract contract path =
     (let scope = the_obj (dget contract ''scope'') in
      if path_is_private path then PrivatePath
      else if \<not> is_dict (dget contract ''scope'') then NoScope
      else if list_ex (\<lambda>pattern. path_matches_pattern pattern path) (text_items (dget scope ''blocked_paths'')) then BlockedPath
      else if list_ex (\<lambda>pattern. path_matches_pattern pattern path) (text_items (dget scope ''allowed_paths'')) then Allowed
      else OutsideScope)"

section \<open>References\<close>

text \<open>A file: its digest, \<open>None\<close> when opening it raises, and what reading it meets.\<close>

datatype repo_file = EscapesRoot | NoFile | ResolveRaises py_exn | RepoFile "pystr option" stored

datatype resolution = Unresolved "pystr option" | Resolved pystr "pystr option" stored

definition resolve_repo_file :: "(pystr \<Rightarrow> repo_file) \<Rightarrow> json \<Rightarrow> resolution py" where
  "resolve_repo_file repo raw = (case normalize_relative_path raw of
     None \<Rightarrow> Inr (Unresolved None)
   | Some relative \<Rightarrow>
       if relative = ''.'' then Inr (Unresolved None)
       else if path_is_private relative then Inr (Unresolved (Some relative))
       else case repo relative of
              EscapesRoot \<Rightarrow> Inr (Unresolved (Some relative))
            | NoFile \<Rightarrow> Inr (Unresolved (Some relative))
            | ResolveRaises e \<Rightarrow> Inl e
            | RepoFile digest contents \<Rightarrow> Inr (Resolved relative digest contents))"

definition sha256_file :: "pystr option \<Rightarrow> pystr py" where
  "sha256_file digest = (case digest of None \<Rightarrow> Inl OtherError | Some d \<Rightarrow> Inr d)"

text \<open>\<open>read_json_object\<close> under the handler of its caller: \<open>None\<close> for \<open>ProposalValidationError\<close>.\<close>

definition read_reference :: "stored \<Rightarrow> jdict option py" where
  "read_reference f = (case f of
     Missing \<Rightarrow> Inr None
   | OsFailure \<Rightarrow> Inl OtherError
   | NotText \<Rightarrow> Inl ValueError
   | NotJsonText \<Rightarrow> Inr None
   | DeepText \<Rightarrow> Inl RecursionError
   | Holds v \<Rightarrow> Inr (if is_dict v then Some (the_obj v) else None))"

record reference =
  ref_payload :: "jdict option"
  ref_path :: "pystr option"
  ref_sha :: "pystr option"

definition validate_reference :: "(pystr \<Rightarrow> repo_file) \<Rightarrow> json \<Rightarrow> pystr \<Rightarrow> pystr \<Rightarrow> (defect list \<times> reference) py" where
  "validate_reference repo v field expected_type =
     (if \<not> is_dict v then Inr ([(''reference_invalid'', field)], \<lparr>ref_payload = None, ref_path = None, ref_sha = None\<rparr>)
      else
        (let d = the_obj v; expected = dget d ''sha256'' in
         py_bind (resolve_repo_file repo (dget d ''path'')) (\<lambda>resolution. case resolution of
           Unresolved relative \<Rightarrow> Inr ([(''reference_path_invalid'', field @ ''.path'')], \<lparr>ref_payload = None, ref_path = relative, ref_sha = None\<rparr>)
         | Resolved relative digest contents \<Rightarrow>
             if \<not> sha256_text expected then
               Inr ([(''reference_sha256_invalid'', field @ ''.sha256'')], \<lparr>ref_payload = None, ref_path = Some relative, ref_sha = None\<rparr>)
             else
               py_bind (sha256_file digest) (\<lambda>actual.
               py_bind (read_reference contents) (\<lambda>payload.
               Inr (defect_if (JStr actual \<noteq> expected) ''reference_sha256_mismatch'' (field @ ''.sha256'') @
                    (case payload of
                       None \<Rightarrow> [(''reference_unreadable'', field @ ''.path'')]
                     | Some p \<Rightarrow> defect_if (dget p ''report_type'' \<noteq> JStr expected_type) ''reference_report_type_invalid'' (field @ ''.path'') @
                         defect_if (dget p ''schema_version'' \<noteq> JStr ''1.0.0'') ''reference_schema_version_invalid'' (field @ ''.path'')),
                    \<lparr>ref_payload = payload, ref_path = Some relative, ref_sha = Some actual\<rparr>))))))"

section \<open>Loops\<close>

text \<open>\<open>for index, x in enumerate(xs)\<close> with a state, and without.\<close>

fun numbered_steps :: "(pystr \<Rightarrow> 's \<Rightarrow> json \<Rightarrow> (defect list \<times> 's) py) \<Rightarrow> pystr \<Rightarrow> nat \<Rightarrow> 's \<Rightarrow> json list \<Rightarrow> (defect list \<times> 's) py" where
  "numbered_steps step field n s [] = Inr ([], s)"
| "numbered_steps step field n s (x # xs) =
     py_bind (step (at field n) s x) (\<lambda>(ds, s').
     py_bind (numbered_steps step field (Suc n) s' xs) (\<lambda>(ds', s''). Inr (ds @ ds', s'')))"

definition each :: "(pystr \<Rightarrow> json \<Rightarrow> defect list) \<Rightarrow> pystr \<Rightarrow> json list \<Rightarrow> defect list" where
  "each report field xs = concat (map (\<lambda>(n, x). report (at field n) x) (List.enumerate 0 xs))"

text \<open>\<open>if not isinstance(xs, list) or not xs: ...; xs = []\<close>.\<close>

definition nonempty_list :: "json \<Rightarrow> bool" where
  "nonempty_list v \<longleftrightarrow> is_list v \<and> the_list v \<noteq> []"

section \<open>The evidence bundle\<close>

definition EVIDENCE_AUTHORITY :: "pystr list" where
  "EVIDENCE_AUTHORITY = [''bundle_is_evidence_only'', ''evidence_does_not_authorize_execution'', ''hashes_do_not_prove_truth'',
     ''human_review_required'']"

definition contract_defects :: "jdict \<Rightarrow> defect list" where
  "contract_defects contract =
     (if is_dict (dget contract ''authority'')
      then flag_defects REQUIRED_AUTHORITY ''contract_authority_flag_missing'' ''contract_reference.authority.'' (the_obj (dget contract ''authority''))
      else [(''contract_authority_invalid'', ''contract_reference'')]) @
     defect_if (dget contract ''teachback_required'' \<noteq> JBool True) ''contract_teachback_not_required'' ''contract_reference'' @
     defect_if (\<not> is_dict (dget contract ''review'') \<or> dget (the_obj (dget contract ''review'')) ''required'' \<noteq> JBool True)
       ''contract_review_not_required'' ''contract_reference''"

definition bundle_identity_defects :: "jdict \<Rightarrow> jdict \<Rightarrow> jdict \<Rightarrow> defect list" where
  "bundle_identity_defects contract evidence contract_ref =
     (let here = ''evidence_bundle_reference''; r = the_obj (dget evidence ''contract_reference'') in
      (if is_dict (dget evidence ''authority'')
       then flag_defects EVIDENCE_AUTHORITY ''evidence_authority_flag_missing'' ''evidence_bundle_reference.authority.''
         (the_obj (dget evidence ''authority''))
       else [(''evidence_authority_invalid'', here)]) @
      defect_if (\<not> py_eq (dget evidence ''contract_id'') (dget contract ''contract_id'')) ''evidence_contract_id_mismatch'' here @
      defect_if (\<not> py_eq (dget evidence ''mission_id'') (dget contract ''mission_id'')) ''evidence_mission_id_mismatch'' here @
      (if is_dict (dget evidence ''contract_reference'')
       then defect_if (\<not> py_eq (dget r ''path'') (dget contract_ref ''path'')) ''evidence_contract_path_mismatch'' here @
            defect_if (\<not> py_eq (dget r ''sha256'') (dget contract_ref ''sha256'')) ''evidence_contract_hash_mismatch'' here
       else [(''evidence_contract_reference_invalid'', here)]))"

text \<open>An identifier among those seen: its defects, and whether it is new.\<close>

definition identifier_defects :: "pystr \<Rightarrow> pystr \<Rightarrow> pystr list \<Rightarrow> json \<Rightarrow> defect list" where
  "identifier_defects name field seen v =
     (if \<not> safe_id v then [(name @ ''_invalid'', field)]
      else if the_str v \<in> set seen then [(name @ ''_duplicate'', field)] else [])"

definition source_step :: "(pystr \<Rightarrow> repo_file) \<Rightarrow> pystr \<Rightarrow> pystr list \<Rightarrow> json \<Rightarrow> (defect list \<times> pystr list) py" where
  "source_step repo field seen source =
     (if \<not> is_dict source then Inr ([(''evidence_source_invalid'', field)], seen)
      else
        (let d = the_obj source; source_id = dget d ''source_id'';
             found = identifier_defects ''evidence_source_id'' (field @ ''.source_id'') seen source_id;
             seen' = (if found = [] then the_str source_id # seen else seen)
         in py_bind (resolve_repo_file repo (dget d ''path'')) (\<lambda>resolution. case resolution of
              Unresolved _ \<Rightarrow> Inr (found @ [(''evidence_source_path_invalid'', field @ ''.path'')], seen')
            | Resolved relative digest _ \<Rightarrow>
                if \<not> sha256_text (dget d ''sha256'') then Inr (found @ [(''evidence_source_sha256_invalid'', field @ ''.sha256'')], seen')
                else py_bind (sha256_file digest) (\<lambda>actual.
                  Inr (found @ defect_if (JStr actual \<noteq> dget d ''sha256'') ''evidence_source_sha256_mismatch'' (field @ ''.sha256''), seen')))))"

record bundle_seen =
  seen_items :: "jdict pydict"
  seen_requirements :: "int list"
  seen_sources :: "pystr list"

definition requirement_defects :: "pystr list \<Rightarrow> pystr \<Rightarrow> int list \<Rightarrow> jdict \<Rightarrow> defect list" where
  "requirement_defects requirements field seen d =
     (let v = dget d ''requirement_index'' in
      if \<not> index_below (length requirements) v then [(''evidence_requirement_index_invalid'', field @ ''.requirement_index'')]
      else
        defect_if (the_int v \<in> set seen) ''evidence_requirement_duplicate'' (field @ ''.requirement_index'') @
        defect_if (dget d ''requirement_text'' \<noteq> JStr (requirements ! nat (the_int v))) ''evidence_requirement_text_mismatch''
          (field @ ''.requirement_text''))"

definition evidence_item_step ::
  "(pystr \<Rightarrow> repo_file) \<Rightarrow> pystr list \<Rightarrow> pystr \<Rightarrow> bundle_seen \<Rightarrow> json \<Rightarrow> (defect list \<times> bundle_seen) py" where
  "evidence_item_step repo requirements field seen item =
     (if \<not> is_dict item then Inr ([(''evidence_item_invalid'', field)], seen)
      else
        (let d = the_obj item; evidence_id = dget d ''evidence_id''; v = dget d ''requirement_index'';
             found = identifier_defects ''evidence_id'' (field @ ''.evidence_id'') (map fst (seen_items seen)) evidence_id;
             items = (if found = [] then dict_set (seen_items seen) (the_str evidence_id) d else seen_items seen);
             covered = (if index_below (length requirements) v then the_int v # seen_requirements seen else seen_requirements seen);
             sources = dget d ''source_refs''
         in py_bind (numbered_steps (source_step repo) (field @ ''.source_refs'') 0 (seen_sources seen) (list_value sources)) (\<lambda>(source_defects, sources').
            Inr (found @ requirement_defects requirements field (seen_requirements seen) d @
                 defect_if (dget d ''status'' \<noteq> JStr ''satisfied'') ''evidence_not_satisfied'' (field @ ''.status'') @
                 defect_if (\<not> nonempty_list sources) ''evidence_sources_missing'' (field @ ''.source_refs'') @ source_defects,
                 \<lparr>seen_items = items, seen_requirements = covered, seen_sources = sources'\<rparr>))))"

definition bundle_list_defects :: "jdict \<Rightarrow> defect list" where
  "bundle_list_defects evidence =
     (let here = ''evidence_bundle_reference''; unresolved = dget evidence ''unresolved'';
          claims = dget evidence ''claims''; findings = dget evidence ''findings'' in
      (if \<not> is_list unresolved then [(''evidence_unresolved_invalid'', here)]
       else defect_if (the_list unresolved \<noteq> []) ''evidence_has_unresolved_items'' here) @
      (if \<not> is_list claims then [(''evidence_claims_invalid'', here)]
       else each (\<lambda>field claim. defect_if (\<not> is_dict claim \<or> dget (the_obj claim) ''status'' \<noteq> JStr ''supported'')
         ''evidence_claim_not_supported'' field) ''evidence_bundle.claims'' (the_list claims)) @
      (if \<not> is_list findings then [(''evidence_findings_invalid'', here)]
       else each (\<lambda>field finding. defect_if (is_dict finding \<and> dget (the_obj finding) ''level'' = JStr ''error'')
         ''evidence_error_finding'' field) ''evidence_bundle.findings'' (the_list findings)))"

definition validate_evidence_bundle ::
  "(pystr \<Rightarrow> repo_file) \<Rightarrow> jdict \<Rightarrow> jdict \<Rightarrow> jdict \<Rightarrow> (defect list \<times> jdict pydict) py" where
  "validate_evidence_bundle repo contract evidence contract_ref =
     (let requirements = text_items (dget contract ''evidence_requirements''); items = dget evidence ''evidence_items'' in
      py_bind (numbered_steps (evidence_item_step repo requirements) ''evidence_bundle.evidence_items'' 0
        \<lparr>seen_items = [], seen_requirements = [], seen_sources = []\<rparr> (list_value items)) (\<lambda>(item_defects, seen).
      Inr (contract_defects contract @ bundle_identity_defects contract evidence contract_ref @
           defect_if (\<not> nonempty_list items) ''evidence_items_invalid'' ''evidence_bundle_reference'' @ item_defects @
           map (\<lambda>_. (''evidence_requirement_missing'', ''evidence_bundle_reference''))
             (filter (\<lambda>i. i \<notin> set (seen_requirements seen)) (map int [0..<length requirements])) @
           bundle_list_defects evidence,
           seen_items seen)))"

end
