(* ===== verification/Task_Evidence.thy ===== *)
theory Task_Evidence
  imports Proposal_Evidence
begin

text \<open>
  The validator of supervised task evidence, \<open>tools/task_evidence/validate_supervised_task_evidence.py\<close>:
  a bundle of evidence items, claims, findings and unresolved points against the contract it names, the
  state of the evidence, and whether the bundle is ready for human review. As for proposals, a defect is
  its code and its field. The two validators share no code; what they have word for word in common
  (digests of files, lists of texts, the flags of an authority object) is used from the other theory.
\<close>

section \<open>Constants\<close>

definition EVIDENCE_STATUSES :: "pystr list" where
  "EVIDENCE_STATUSES = [''satisfied'', ''missing'', ''contradicted'', ''unresolved'']"

definition SOURCE_TYPES :: "pystr list" where
  "SOURCE_TYPES = [''file'', ''report'', ''command_result'', ''observation'']"

definition CLAIM_STATUSES :: "pystr list" where
  "CLAIM_STATUSES = [''supported'', ''unsupported'', ''contradicted'']"

definition FINDING_LEVELS :: "pystr list" where
  "FINDING_LEVELS = [''info'', ''warning'', ''error'']"

definition BUNDLE_FIELDS :: "pystr list" where
  "BUNDLE_FIELDS = [''schema_version'', ''report_type'', ''bundle_id'', ''contract_reference'', ''contract_id'', ''mission_id'',
     ''evidence_items'', ''claims'', ''findings'', ''unresolved'', ''authority'']"

section \<open>Paths\<close>

definition normalize_evidence_path :: "json \<Rightarrow> pystr option" where
  "normalize_evidence_path raw = (case raw of
     JStr s \<Rightarrow>
       (let value = forward_slashes (py_strip s) in
        if value = [] \<or> py_startswith value ''/'' \<or> drive_letter value then None
        else
          (let relative = drop_dot_slash value in
           if list_ex (\<lambda>p. p \<in> {[], ''.'', ''..''}) (py_split (CHR ''/'') relative) then None else Some relative))
   | _ \<Rightarrow> None)"

definition evidence_path_is_private :: "pystr \<Rightarrow> bool" where
  "evidence_path_is_private path =
     (let lowered = py_lower path in
      list_ex (\<lambda>p. lowered = py_lower p \<or> py_startswith lowered (py_lower p @ ''/'')) PRIVATE_PREFIXES)"

text \<open>\<open>resolve_repo_path\<close>, whose callers all leave \<open>allow_missing\<close> false.\<close>

definition resolve_repo_path :: "(pystr \<Rightarrow> repo_file) \<Rightarrow> json \<Rightarrow> resolution py" where
  "resolve_repo_path repo raw = (case normalize_evidence_path raw of
     None \<Rightarrow> Inr (Unresolved None)
   | Some relative \<Rightarrow>
       if evidence_path_is_private relative then Inr (Unresolved (Some relative))
       else case repo relative of
              EscapesRoot \<Rightarrow> Inr (Unresolved (Some relative))
            | NoFile \<Rightarrow> Inr (Unresolved (Some relative))
            | ResolveRaises e \<Rightarrow> Inl e
            | RepoFile digest contents \<Rightarrow> Inr (Resolved relative digest contents))"

section \<open>Identifiers and links\<close>

definition new_id_defects :: "pystr \<Rightarrow> pystr \<Rightarrow> pystr list \<Rightarrow> json \<Rightarrow> defect list" where
  "new_id_defects code field seen v =
     (if \<not> safe_id v then [(''safe_id_invalid'', field)] else defect_if (the_str v \<in> set seen) code field)"

definition with_id :: "json \<Rightarrow> pystr list \<Rightarrow> pystr list" where
  "with_id v seen = (if safe_id v then the_str v # seen else seen)"

text \<open>\<open>evidence_id not in evidence_by_id\<close> for an identifier of a claim or finding; the statuses found.\<close>

definition evidence_link_step :: "jdict pydict \<Rightarrow> pystr \<Rightarrow> pystr \<Rightarrow> pystr list \<Rightarrow> json \<Rightarrow> (defect list \<times> pystr list) py" where
  "evidence_link_step evidence code field statuses v =
     (if \<not> hashable v then Inl TypeError
      else case (if is_str v then dict_get evidence (the_str v) else None) of
             None \<Rightarrow> Inr ([(code, field)], statuses)
           | Some d \<Rightarrow> Inr ([], statuses @ [py_str (dget d ''status'')]))"

section \<open>The contract reference\<close>

definition validate_contract_reference :: "(pystr \<Rightarrow> repo_file) \<Rightarrow> jdict \<Rightarrow> (defect list \<times> reference) py" where
  "validate_contract_reference repo bundle =
     (let v = dget bundle ''contract_reference''; d = the_obj v; expected = dget d ''sha256'';
          here = ''contract_reference.path''; hash = ''contract_reference.sha256'' in
      if \<not> is_dict v then Inr ([(''contract_reference_invalid'', ''contract_reference'')], \<lparr>ref_payload = None, ref_path = None, ref_sha = None\<rparr>)
      else
        py_bind (resolve_repo_path repo (dget d ''path'')) (\<lambda>resolution. case resolution of
          Unresolved relative \<Rightarrow> Inr ([(''contract_path_invalid'', here)], \<lparr>ref_payload = None, ref_path = relative, ref_sha = None\<rparr>)
        | Resolved relative digest contents \<Rightarrow>
            if \<not> sha256_text expected then Inr ([(''contract_sha256_invalid'', hash)], \<lparr>ref_payload = None, ref_path = Some relative, ref_sha = None\<rparr>)
            else
              py_bind (sha256_file digest) (\<lambda>actual.
              py_bind (read_reference contents) (\<lambda>payload.
              Inr (defect_if (JStr actual \<noteq> expected) ''contract_sha256_mismatch'' hash @
                   (case payload of
                      None \<Rightarrow> [(''contract_unreadable'', here)]
                    | Some p \<Rightarrow> defect_if (dget p ''report_type'' \<noteq> JStr ''supervised_task_contract'') ''contract_report_type_invalid'' here @
                        defect_if (dget p ''schema_version'' \<noteq> JStr ''1.0.0'') ''contract_schema_version_invalid'' here),
                   \<lparr>ref_payload = payload, ref_path = Some relative, ref_sha = Some actual\<rparr>)))))"

section \<open>Evidence items\<close>

definition declared_operations :: "jdict \<Rightarrow> pystr list" where
  "declared_operations contract =
     (if is_dict (dget contract ''operations'')
      then (let d = the_obj (dget contract ''operations'') in text_items (dget d ''allowed'') @ text_items (dget d ''blocked'')) else [])"

definition mapping_defects :: "pystr list \<Rightarrow> pystr \<Rightarrow> int list \<Rightarrow> jdict \<Rightarrow> defect list" where
  "mapping_defects requirements field mapped d =
     (let v = dget d ''requirement_index''; here = field @ ''.requirement_index'' in
      if \<not> is_strict_int v then [(''requirement_index_invalid'', here)]
      else if \<not> index_below (length requirements) v then [(''requirement_index_out_of_range'', here)]
      else defect_if (the_int v \<in> set mapped) ''requirement_index_duplicate'' here @
           defect_if (dget d ''requirement_text'' \<noteq> JStr (requirements ! nat (the_int v))) ''requirement_text_mismatch''
             (field @ ''.requirement_text''))"

definition criterion_step :: "nat \<Rightarrow> pystr \<Rightarrow> int list \<Rightarrow> json \<Rightarrow> (defect list \<times> int list) py" where
  "criterion_step count field seen v =
     Inr (if \<not> is_strict_int v then ([(''acceptance_index_invalid'', field)], seen)
          else if \<not> index_below count v then ([(''acceptance_index_out_of_range'', field)], seen)
          else (defect_if (the_int v \<in> set seen) ''acceptance_index_duplicate'' field, the_int v # seen))"

definition related_operation_step :: "pystr list \<Rightarrow> pystr \<Rightarrow> pystr list \<Rightarrow> json \<Rightarrow> (defect list \<times> pystr list) py" where
  "related_operation_step declared field seen v =
     Inr (if \<not> nonempty_str v then ([(''related_operation_invalid'', field)], seen)
          else (defect_if (the_str v \<notin> set declared) ''related_operation_not_in_contract'' field @
                defect_if (the_str v \<in> set seen) ''related_operation_duplicate'' field, the_str v # seen))"

definition bundle_source_step :: "(pystr \<Rightarrow> repo_file) \<Rightarrow> pystr \<Rightarrow> pystr list \<Rightarrow> json \<Rightarrow> (defect list \<times> pystr list) py" where
  "bundle_source_step repo field seen source =
     (if \<not> is_dict source then Inr ([(''source_ref_not_object'', field)], seen)
      else
        (let d = the_obj source; seen' = with_id (dget d ''source_id'') seen; hash = field @ ''.sha256'' in
         py_bind (in_str_set (dget d ''source_type'') SOURCE_TYPES) (\<lambda>known.
         let found = new_id_defects ''source_id_duplicate'' (field @ ''.source_id'') seen (dget d ''source_id'') @
               defect_if (\<not> known) ''source_type_invalid'' (field @ ''.source_type'') in
         py_bind (resolve_repo_path repo (dget d ''path'')) (\<lambda>resolution. case resolution of
           Unresolved _ \<Rightarrow> Inr (found @ [(''source_path_invalid'', field @ ''.path'')], seen')
         | Resolved relative digest _ \<Rightarrow>
             if \<not> sha256_text (dget d ''sha256'') then Inr (found @ [(''source_sha256_invalid'', hash)], seen')
             else py_bind (sha256_file digest) (\<lambda>actual.
               Inr (found @ defect_if (JStr actual \<noteq> dget d ''sha256'') ''source_sha256_mismatch'' hash, seen'))))))"

record item_state =
  by_id :: "jdict pydict"
  by_requirement :: "(int \<times> jdict) list"
  source_ids :: "pystr list"
  item_warnings :: "defect list"

definition item_text_defects :: "pystr \<Rightarrow> bool \<Rightarrow> jdict \<Rightarrow> defect list" where
  "item_text_defects field known d =
     defect_if (\<not> known) ''evidence_status_invalid'' (field @ ''.status'') @
     defect_if (\<not> nonblank_str (dget d ''summary'')) ''evidence_summary_missing'' (field @ ''.summary'')"

definition source_list_defects :: "pystr \<Rightarrow> json \<Rightarrow> json \<Rightarrow> defect list" where
  "source_list_defects field status sources =
     defect_if (\<not> is_list sources) ''source_refs_invalid'' (field @ ''.source_refs'') @
     defect_if (status \<in> {JStr ''satisfied'', JStr ''contradicted''} \<and> list_value sources = []) ''evidence_source_required'' (field @ ''.source_refs'') @
     defect_if (status = JStr ''missing'' \<and> list_value sources \<noteq> []) ''missing_evidence_has_sources'' (field @ ''.source_refs'')"

definition record_item :: "nat \<Rightarrow> pystr \<Rightarrow> item_state \<Rightarrow> jdict \<Rightarrow> pystr list \<Rightarrow> item_state" where
  "record_item count field s d sources =
     (let evidence_id = dget d ''evidence_id''; v = dget d ''requirement_index'' in
      \<lparr>by_id = (if safe_id evidence_id \<and> dict_get (by_id s) (the_str evidence_id) = None then dict_set (by_id s) (the_str evidence_id) d else by_id s),
       by_requirement = (if is_strict_int v \<and> index_below count v \<and> the_int v \<notin> fst ` set (by_requirement s)
         then (the_int v, d) # by_requirement s else by_requirement s),
       source_ids = sources,
       item_warnings = item_warnings s @ defect_if (dget d ''status'' = JStr ''satisfied'' \<and>
         list_value (dget d ''related_acceptance_criteria'') = [] \<and> list_value (dget d ''related_operations'') = [])
         ''satisfied_evidence_without_links'' field\<rparr>)"

definition bundle_item_step :: "(pystr \<Rightarrow> repo_file) \<Rightarrow> jdict \<Rightarrow> pystr \<Rightarrow> item_state \<Rightarrow> json \<Rightarrow> (defect list \<times> item_state) py" where
  "bundle_item_step repo contract field s item =
     (if \<not> is_dict item then Inr ([(''evidence_item_not_object'', field)], s)
      else
        (let d = the_obj item; requirements = text_items (dget contract ''evidence_requirements'');
             criteria = dget d ''related_acceptance_criteria''; operations = dget d ''related_operations''; sources = dget d ''source_refs'' in
         py_bind (in_str_set (dget d ''status'') EVIDENCE_STATUSES) (\<lambda>known.
         py_bind (numbered_steps (criterion_step (length (text_items (dget contract ''acceptance_criteria''))))
           (field @ ''.related_acceptance_criteria'') 0 [] (list_value criteria)) (\<lambda>(criterion_defects, _).
         py_bind (numbered_steps (related_operation_step (declared_operations contract)) (field @ ''.related_operations'') 0 []
           (list_value operations)) (\<lambda>(operation_defects, _).
         py_bind (numbered_steps (bundle_source_step repo) (field @ ''.source_refs'') 0 (source_ids s) (list_value sources)) (\<lambda>(source_defects, sources').
         Inr (new_id_defects ''evidence_id_duplicate'' (field @ ''.evidence_id'') (map fst (by_id s)) (dget d ''evidence_id'') @
              mapping_defects requirements field (map fst (by_requirement s)) d @ item_text_defects field known d @
              defect_if (\<not> is_list criteria) ''related_acceptance_criteria_invalid'' (field @ ''.related_acceptance_criteria'') @ criterion_defects @
              defect_if (\<not> is_list operations) ''related_operations_invalid'' (field @ ''.related_operations'') @ operation_defects @
              source_list_defects field (dget d ''status'') sources @ source_defects,
              record_item (length requirements) field s d sources')))))))"

definition validate_evidence_items :: "(pystr \<Rightarrow> repo_file) \<Rightarrow> jdict \<Rightarrow> jdict \<Rightarrow> (defect list \<times> item_state) py" where
  "validate_evidence_items repo bundle contract =
     (let items = dget bundle ''evidence_items''; indices = map int [0..<length (text_items (dget contract ''evidence_requirements''))] in
      py_bind (numbered_steps (bundle_item_step repo contract) ''evidence_items'' 0
        \<lparr>by_id = [], by_requirement = [], source_ids = [], item_warnings = []\<rparr> (list_value items)) (\<lambda>(found, s).
      Inr (defect_if (\<not> nonempty_list items) ''evidence_items_invalid'' ''evidence_items'' @ found @
           map (\<lambda>_. (''requirement_evidence_missing'', ''evidence_items'')) (filter (\<lambda>i. i \<notin> fst ` set (by_requirement s)) indices) @
           map (\<lambda>_. (''requirement_evidence_extra'', ''evidence_items'')) (filter (\<lambda>i. i \<notin> set indices) (map fst (by_requirement s))), s)))"

section \<open>Claims, findings, unresolved points\<close>

definition claim_status_defects :: "pystr \<Rightarrow> json \<Rightarrow> json list \<Rightarrow> pystr list \<Rightarrow> defect list" where
  "claim_status_defects field status ids statuses =
     (if status = JStr ''supported'' then
        (if ids = [] then [(''supported_claim_without_evidence'', field @ ''.evidence_ids'')]
         else defect_if (list_ex (\<lambda>x. x \<noteq> ''satisfied'') statuses) ''supported_claim_uses_non_satisfied_evidence'' (field @ ''.evidence_ids''))
      else []) @
     defect_if (status = JStr ''contradicted'' \<and> ''contradicted'' \<notin> set statuses) ''contradicted_claim_without_contradiction''
       (field @ ''.evidence_ids'')"

definition claim_step :: "jdict pydict \<Rightarrow> pystr \<Rightarrow> pystr list \<Rightarrow> json \<Rightarrow> (defect list \<times> pystr list) py" where
  "claim_step evidence field seen claim =
     (if \<not> is_dict claim then Inr ([(''claim_not_object'', field)], seen)
      else
        (let d = the_obj claim; status = dget d ''status''; ids = dget d ''evidence_ids'' in
         py_bind (in_str_set status CLAIM_STATUSES) (\<lambda>known.
         py_bind (numbered_steps (evidence_link_step evidence ''claim_evidence_unknown'') (field @ ''.evidence_ids'') 0 [] (list_value ids))
           (\<lambda>(found, statuses).
         Inr (new_id_defects ''claim_id_duplicate'' (field @ ''.claim_id'') seen (dget d ''claim_id'') @
              defect_if (\<not> nonblank_str (dget d ''statement'')) ''claim_statement_missing'' (field @ ''.statement'') @
              defect_if (\<not> known) ''claim_status_invalid'' (field @ ''.status'') @
              defect_if (\<not> is_list ids) ''claim_evidence_ids_invalid'' (field @ ''.evidence_ids'') @ found @
              claim_status_defects field status (list_value ids) statuses,
              with_id (dget d ''claim_id'') seen)))))"

definition validate_claims :: "json \<Rightarrow> jdict pydict \<Rightarrow> defect list py" where
  "validate_claims claims evidence =
     (if \<not> is_list claims then Inr [(''claims_invalid'', ''claims'')]
      else py_bind (numbered_steps (claim_step evidence) ''claims'' 0 [] (the_list claims)) (\<lambda>(found, _). Inr found))"

definition finding_step :: "jdict pydict \<Rightarrow> pystr \<Rightarrow> pystr list \<Rightarrow> json \<Rightarrow> (defect list \<times> pystr list) py" where
  "finding_step evidence field seen finding =
     (if \<not> is_dict finding then Inr ([(''finding_not_object'', field)], seen)
      else
        (let d = the_obj finding; ids = dget d ''evidence_ids'' in
         py_bind (in_str_set (dget d ''level'') FINDING_LEVELS) (\<lambda>known.
         py_bind (numbered_steps (evidence_link_step evidence ''finding_evidence_unknown'') (field @ ''.evidence_ids'') 0 [] (list_value ids))
           (\<lambda>(found, _).
         Inr (new_id_defects ''finding_id_duplicate'' (field @ ''.finding_id'') seen (dget d ''finding_id'') @
              defect_if (\<not> known) ''finding_level_invalid'' (field @ ''.level'') @
              defect_if (\<not> nonblank_str (dget d ''statement'')) ''finding_statement_missing'' (field @ ''.statement'') @
              defect_if (\<not> nonempty_list ids) ''finding_evidence_ids_invalid'' (field @ ''.evidence_ids'') @ found,
              with_id (dget d ''finding_id'') seen)))))"

definition validate_findings :: "json \<Rightarrow> jdict pydict \<Rightarrow> defect list py" where
  "validate_findings findings evidence =
     (if \<not> is_list findings then Inr [(''findings_invalid'', ''findings'')]
      else py_bind (numbered_steps (finding_step evidence) ''findings'' 0 [] (the_list findings)) (\<lambda>(found, _). Inr found))"

definition unresolved_index_defects :: "nat \<Rightarrow> pystr \<Rightarrow> json \<Rightarrow> defect list" where
  "unresolved_index_defects count field v =
     (if \<not> is_strict_int v then [(''unresolved_requirement_index_invalid'', field)]
      else defect_if (\<not> index_below count v) ''unresolved_requirement_index_out_of_range'' field)"

definition unresolved_step :: "nat \<Rightarrow> pystr \<Rightarrow> pystr list \<Rightarrow> json \<Rightarrow> (defect list \<times> pystr list) py" where
  "unresolved_step count field seen item =
     Inr (if \<not> is_dict item then ([(''unresolved_item_not_object'', field)], seen)
          else
            (let d = the_obj item; indices = dget d ''requirement_indices'' in
             (new_id_defects ''unresolved_id_duplicate'' (field @ ''.unresolved_id'') seen (dget d ''unresolved_id'') @
              concat (map (\<lambda>k. defect_if (\<not> nonblank_str (dget d k)) ''unresolved_text_missing'' (field @ ''.'' @ k)) [''statement'', ''reason'']) @
              defect_if (\<not> nonempty_list indices) ''unresolved_requirement_indices_invalid'' (field @ ''.requirement_indices'') @
              each (unresolved_index_defects count) (field @ ''.requirement_indices'') (list_value indices),
              with_id (dget d ''unresolved_id'') seen)))"

definition validate_unresolved :: "json \<Rightarrow> nat \<Rightarrow> pystr \<Rightarrow> defect list py" where
  "validate_unresolved unresolved count state =
     (if \<not> is_list unresolved then Inr [(''unresolved_invalid'', ''unresolved'')]
      else
        py_bind (numbered_steps (unresolved_step count) ''unresolved'' 0 [] (the_list unresolved)) (\<lambda>(found, _).
        Inr (defect_if (state = ''complete'' \<and> the_list unresolved \<noteq> []) ''complete_bundle_has_unresolved_items'' ''unresolved'' @
             defect_if (state = ''incomplete'' \<and> the_list unresolved = []) ''incomplete_bundle_missing_unresolved_items'' ''unresolved'' @ found)))"

section \<open>The bundle\<close>

definition determine_evidence_state :: "(int \<times> jdict) list \<Rightarrow> nat \<Rightarrow> pystr" where
  "determine_evidence_state mapped count =
     (let statuses = List.map_filter (\<lambda>i. map_option (\<lambda>d. dget d ''status'') (map_of mapped (int i))) [0..<count] in
      if JStr ''contradicted'' \<in> set statuses then ''contradicted''
      else if length statuses \<noteq> count then ''incomplete''
      else if list_ex (\<lambda>s. s \<in> {JStr ''missing'', JStr ''unresolved''}) statuses then ''incomplete''
      else if statuses \<noteq> [] \<and> list_all (\<lambda>s. s = JStr ''satisfied'') statuses then ''complete''
      else ''incomplete'')"

definition bundle_field_defects :: "jdict \<Rightarrow> defect list" where
  "bundle_field_defects b =
     map (\<lambda>f. (''required_field_missing'', f)) (filter (\<lambda>f. dict_get b f = None) (sort BUNDLE_FIELDS)) @
     defect_if (dget b ''schema_version'' \<noteq> JStr ''1.0.0'') ''schema_version_invalid'' ''schema_version'' @
     defect_if (dget b ''report_type'' \<noteq> JStr ''supervised_task_evidence_bundle'') ''report_type_invalid'' ''report_type'' @
     concat (map (\<lambda>f. defect_if (\<not> safe_id (dget b f)) ''safe_id_invalid'' f) [''bundle_id'', ''contract_id'', ''mission_id'']) @
     (if is_dict (dget b ''authority'')
      then flag_defects EVIDENCE_AUTHORITY ''authority_flag_missing'' ''authority.'' (the_obj (dget b ''authority''))
      else [(''authority_invalid'', ''authority'')])"

definition bundle_match_defects :: "jdict \<Rightarrow> jdict \<Rightarrow> defect list" where
  "bundle_match_defects b contract =
     defect_if (\<not> py_eq (dget b ''contract_id'') (dget contract ''contract_id'')) ''contract_id_mismatch'' ''contract_id'' @
     defect_if (\<not> py_eq (dget b ''mission_id'') (dget contract ''mission_id'')) ''mission_id_mismatch'' ''mission_id''"

record bundle_report =
  br_state :: pystr
  br_blockers :: "defect list"
  br_warnings :: "defect list"
  br_contract :: reference

definition validate_bundle :: "(pystr \<Rightarrow> repo_file) \<Rightarrow> jdict \<Rightarrow> bundle_report py" where
  "validate_bundle repo b =
     py_bind (validate_contract_reference repo b) (\<lambda>(reference_defects, ref).
     py_bind (case ref_payload ref of
         None \<Rightarrow> Inr ([], \<lparr>by_id = [], by_requirement = [], source_ids = [],
           item_warnings = defect_if (dget b ''evidence_items'' \<notin> {JNull, JList []}) ''evidence_items_not_fully_validated'' ''evidence_items''\<rparr>)
       | Some contract \<Rightarrow> py_bind (validate_evidence_items repo b contract) (\<lambda>(found, s). Inr (bundle_match_defects b contract @ found, s)))
       (\<lambda>(item_defects, s).
     let count = (case ref_payload ref of None \<Rightarrow> 0 | Some contract \<Rightarrow> length (text_items (dget contract ''evidence_requirements'')));
         state = determine_evidence_state (by_requirement s) count in
     py_bind (validate_claims (dget b ''claims'') (by_id s)) (\<lambda>claim_defects.
     py_bind (validate_findings (dget b ''findings'') (by_id s)) (\<lambda>finding_defects.
     py_bind (validate_unresolved (dget b ''unresolved'') count state) (\<lambda>unresolved_defects.
     Inr \<lparr>br_state = state,
          br_blockers = bundle_field_defects b @ reference_defects @ item_defects @ claim_defects @ finding_defects @ unresolved_defects,
          br_warnings = item_warnings s, br_contract = ref\<rparr>)))))"

text \<open>\<open>readiness == "ready_for_human_review"\<close>.\<close>

definition ready_for_human_review :: "bundle_report \<Rightarrow> bool" where
  "ready_for_human_review r \<longleftrightarrow> br_blockers r = [] \<and> br_state r = ''complete''"

end
