(* ===== verification/Action_Proposal.thy ===== *)
theory Action_Proposal
  imports Proposal_Evidence
begin

text \<open>
  The second half of the validator of supervised action proposals,
  \<open>tools/action_proposal/validate_supervised_action_proposal.py\<close>: the proposed actions against the scope,
  the operations and the approvals of the contract, the links, the review, the rollback plan and the
  authority of a proposal, and the report. \<open>OPERATIONS\<close> and \<open>SENSITIVE_OPERATIONS\<close> of the file are the
  operations of the contract validator, \<open>SAFE_ID_RE\<close> and \<open>APPROVAL_TOKEN_RE\<close> its identifiers and tokens.
\<close>

section \<open>Constants\<close>

definition STATE_CHANGING_OPERATIONS :: "pystr list" where
  "STATE_CHANGING_OPERATIONS = [''execute_command'', ''apply_patch'', ''git_stage'', ''git_commit'', ''git_push'',
     ''write_private_memory'', ''close_mission'']"

definition COMMAND_OPERATIONS :: "pystr list" where
  "COMMAND_OPERATIONS = [''run_deterministic_checks'', ''invoke_local_model'', ''execute_command'', ''apply_patch'',
     ''git_stage'', ''git_commit'', ''git_push'']"

definition SHELL_META_TOKENS :: "pystr list" where
  "SHELL_META_TOKENS = [''|'', ''||'', ''&&'', '';'', ''>'', ''>>'', ''<'', ''<<'', [CHR 0x60]]"

definition ROLLBACK_MODES :: "pystr list" where
  "ROLLBACK_MODES = [''not_required'', ''manual'', ''command_proposal'', ''irreversible'']"

definition REQUIRED_FIELDS :: "pystr list" where
  "REQUIRED_FIELDS = [''schema_version'', ''report_type'', ''proposal_id'', ''contract_reference'', ''evidence_bundle_reference'',
     ''contract_id'', ''bundle_id'', ''mission_id'', ''title'', ''rationale'', ''risk_level'', ''affected_paths'', ''proposed_actions'',
     ''approval_requirements'', ''rollback_plan'', ''acceptance_criteria_links'', ''stop_trigger_links'', ''review'', ''authority'']"

definition PROPOSAL_AUTHORITY :: "pystr list" where
  "PROPOSAL_AUTHORITY = [''proposal_is_not_permission'', ''commands_are_data_only'', ''approvals_are_not_consumed'',
     ''evidence_does_not_authorize_action'', ''human_review_required'', ''mission_state_does_not_authorize_execution'']"

definition ROLLBACK_AUTHORITY :: "pystr list" where
  "ROLLBACK_AUTHORITY = [''rollback_is_not_authorized'', ''rollback_commands_are_data_only'']"

text \<open>\<open>RISK_ORDER\<close> and \<open>REVIEW_ORDER\<close>: the place of a level.\<close>

definition order_of :: "pystr list \<Rightarrow> json \<Rightarrow> nat" where
  "order_of levels v = length (takeWhile (\<lambda>l. JStr l \<noteq> v) levels)"

section \<open>What the contract declares\<close>

definition contract_operations :: "jdict \<Rightarrow> pystr \<Rightarrow> pystr list" where
  "contract_operations contract k =
     (if is_dict (dget contract ''operations'') then text_items (dget (the_obj (dget contract ''operations'')) k) else [])"

text \<open>\<open>approval_map\<close>: the last well-formed approval of every known operation.\<close>

fun approvals_of :: "jdict pydict \<Rightarrow> json list \<Rightarrow> jdict pydict py" where
  "approvals_of result [] = Inr result"
| "approvals_of result (item # rest) =
     (if \<not> is_dict item then approvals_of result rest
      else
        (let d = the_obj item; operation = dget d ''operation'' in
         py_bind (in_str_set operation KNOWN_OPERATIONS) (\<lambda>known.
         approvals_of (if known \<and> approval_token (dget d ''approval_token'') then dict_set result (the_str operation) d else result) rest)))"

definition contract_approvals :: "jdict \<Rightarrow> jdict pydict py" where
  "contract_approvals contract = approvals_of [] (list_value (dget contract ''approval_requirements''))"

definition operation_set_defects :: "jdict \<Rightarrow> defect list" where
  "operation_set_defects contract =
     (let allowed = contract_operations contract ''allowed''; blocked = contract_operations contract ''blocked'';
          here = ''contract_reference.operations'' in
      defect_if (list_ex (\<lambda>x. x \<in> set blocked) allowed) ''contract_operation_overlap'' here @
      defect_if (list_ex (\<lambda>x. x \<notin> set allowed \<and> x \<notin> set blocked) KNOWN_OPERATIONS) ''contract_operation_coverage_incomplete'' here)"

section \<open>The parts of an action\<close>

definition token_defects :: "pystr \<Rightarrow> json \<Rightarrow> defect list" where
  "token_defects field v =
     (if \<not> is_str v \<or> the_str v = [] then [(''command_token_invalid'', field)]
      else
        (let token = the_str v in
         defect_if (token \<in> set SHELL_META_TOKENS \<or> py_contains ''$('' token \<or> py_contains [CHR 0x60] token) ''shell_composition_blocked'' field @
         defect_if (py_contains [CHR 0x0A] token \<or> py_contains [CHR 0x0D] token \<or> py_contains [CHR 0x00] token)
           ''command_control_character_blocked'' field))"

definition argv_defects :: "bool \<Rightarrow> pystr \<Rightarrow> json \<Rightarrow> defect list" where
  "argv_defects needed field argv =
     (if argv = JNull then defect_if needed ''command_argv_required'' field
      else if \<not> nonempty_list argv then [(''command_argv_invalid'', field)]
      else each token_defects field (the_list argv))"

text \<open>The loop over affected paths, with the normal forms seen so far; \<open>kind\<close> is \<open>action\<close> or \<open>proposal\<close>.\<close>

definition path_step :: "pystr \<Rightarrow> jdict \<Rightarrow> pystr \<Rightarrow> pystr list \<Rightarrow> json \<Rightarrow> (defect list \<times> pystr list) py" where
  "path_step kind contract field seen raw =
     Inr (case normalize_relative_path raw of
       None \<Rightarrow> ([(kind @ ''_path_invalid'', field)], seen)
     | Some path \<Rightarrow>
         if path = ''.'' then ([(kind @ ''_path_invalid'', field)], seen)
         else
           (defect_if (path \<in> set seen) (kind @ ''_path_duplicate'') field @
              (case path_allowed_by_contract contract path of
                 Allowed \<Rightarrow> []
               | PrivatePath \<Rightarrow> [(kind @ ''_private_path_blocked'', field)]
               | _ \<Rightarrow> [(kind @ ''_path_outside_contract'', field)]),
            path # seen))"

definition path_list :: "pystr \<Rightarrow> jdict \<Rightarrow> pystr \<Rightarrow> json \<Rightarrow> (defect list \<times> pystr list) py" where
  "path_list kind contract field paths =
     py_bind (numbered_steps (path_step kind contract) field 0 [] (list_value paths)) (\<lambda>(found, seen).
     Inr (defect_if (\<not> nonempty_list paths) (kind @ ''_paths_invalid'') field @ found, seen))"

definition evidence_link_defects :: "jdict pydict \<Rightarrow> pystr \<Rightarrow> json \<Rightarrow> defect list" where
  "evidence_link_defects evidence field v = (case dict_get evidence (py_str v) of
     None \<Rightarrow> [(''action_evidence_unknown'', field)]
   | Some item \<Rightarrow> defect_if (dget item ''status'' \<noteq> JStr ''satisfied'') ''action_evidence_not_satisfied'' field)"

definition link_defects :: "jdict \<Rightarrow> jdict pydict \<Rightarrow> pystr \<Rightarrow> jdict \<Rightarrow> defect list" where
  "link_defects contract evidence field a =
     (let ids = dget a ''evidence_ids''; criteria = dget a ''acceptance_criteria'';
          count = length (text_items (dget contract ''acceptance_criteria'')) in
      defect_if (\<not> nonempty_list ids) ''action_evidence_ids_invalid'' (field @ ''.evidence_ids'') @
      each (evidence_link_defects evidence) (field @ ''.evidence_ids'') (list_value ids) @
      defect_if (\<not> nonempty_list criteria) ''action_acceptance_links_invalid'' (field @ ''.acceptance_criteria'') @
      each (\<lambda>f v. defect_if (\<not> index_below count v) ''action_acceptance_index_invalid'' f) (field @ ''.acceptance_criteria'') (list_value criteria))"

definition action_operation_defects :: "jdict \<Rightarrow> pystr \<Rightarrow> pystr \<Rightarrow> defect list" where
  "action_operation_defects contract field operation =
     defect_if (operation \<notin> set (contract_operations contract ''allowed'')) ''action_operation_not_allowed'' (field @ ''.operation'') @
     defect_if (operation \<in> set (contract_operations contract ''blocked'')) ''action_operation_blocked'' (field @ ''.operation'') @
     defect_if (operation = ''git_push'' \<and> dget contract ''network_policy'' \<noteq> JStr ''explicit_approval_required'')
       ''git_push_network_policy_invalid'' (field @ ''.operation'') @
     defect_if (operation = ''write_private_memory'' \<and> dget contract ''private_context_policy'' \<noteq> JStr ''explicit_approval_required'')
       ''private_memory_policy_invalid'' (field @ ''.operation'')"

definition action_text_defects :: "pystr \<Rightarrow> jdict \<Rightarrow> defect list" where
  "action_text_defects field a =
     concat (map (\<lambda>k. defect_if (\<not> nonblank_str (dget a k)) ''action_text_missing'' (field @ ''.'' @ k)) [''purpose'', ''expected_effect'']) @
     defect_if (dget a ''execution_status'' \<noteq> JStr ''proposed_only'') ''action_execution_status_invalid'' (field @ ''.execution_status'')"

definition action_risk_defects :: "json \<Rightarrow> bool \<Rightarrow> pystr \<Rightarrow> jdict \<Rightarrow> defect list" where
  "action_risk_defects proposal_risk known field a =
     (let risk = dget a ''risk_level'' in
      (if \<not> known then [(''action_risk_invalid'', field @ ''.risk_level'')]
       else defect_if (order_of RISK_LEVELS risk > order_of RISK_LEVELS proposal_risk) ''action_risk_exceeds_proposal'' (field @ ''.risk_level'')) @
      defect_if (dget a ''irreversible'' = JBool True) ''irreversible_action_blocked'' (field @ ''.irreversible'') @
      defect_if (\<not> is_bool (dget a ''destructive'')) ''action_destructive_invalid'' (field @ ''.destructive''))"

definition workdir_defects :: "jdict \<Rightarrow> pystr \<Rightarrow> json \<Rightarrow> defect list" where
  "workdir_defects contract field raw = (case normalize_relative_path raw of
     None \<Rightarrow> [(''working_directory_invalid'', field)]
   | Some path \<Rightarrow>
       if path = ''.'' then []
       else if path_is_private path then [(''working_directory_private'', field)]
       else defect_if (path_allowed_by_contract contract path \<noteq> Allowed) ''working_directory_outside_contract'' field)"

definition operation_in :: "pystr list \<Rightarrow> json \<Rightarrow> bool" where
  "operation_in ops v \<longleftrightarrow> is_str v \<and> the_str v \<in> set ops"

text \<open>\<open>operation in SENSITIVE_OPERATIONS or operation in contract_approvals\<close>.\<close>

definition needs_approval :: "jdict pydict \<Rightarrow> json \<Rightarrow> bool" where
  "needs_approval approvals v \<longleftrightarrow> operation_in SENSITIVE_OPERATIONS v \<or> operation_in (map fst approvals) v"

definition command_defects :: "jdict \<Rightarrow> jdict pydict \<Rightarrow> pystr \<Rightarrow> jdict \<Rightarrow> defect list" where
  "command_defects contract approvals field a =
     (let operation = dget a ''operation''; argv = dget a ''command_argv''; command = operation_in COMMAND_OPERATIONS operation;
          flag = dget a ''requires_approval'' in
      defect_if (argv \<noteq> JNull \<and> \<not> command) ''command_argv_not_allowed_for_operation'' (field @ ''.command_argv'') @
      argv_defects command (field @ ''.command_argv'') argv @
      workdir_defects contract (field @ ''.working_directory'') (dget a ''working_directory'') @
      (if \<not> is_bool flag then [(''requires_approval_invalid'', field @ ''.requires_approval'')]
       else defect_if (needs_approval approvals operation \<and> flag \<noteq> JBool True) ''action_approval_flag_missing'' (field @ ''.requires_approval'')))"

section \<open>The actions\<close>

record action_state =
  act_ids :: "pystr list"
  act_operations :: "pystr list"
  act_paths :: "pystr list"
  act_changing :: bool
  act_warnings :: "defect list"

definition action_id_defects :: "pystr \<Rightarrow> pystr list \<Rightarrow> json \<Rightarrow> defect list" where
  "action_id_defects field seen v =
     (if \<not> safe_id v then [(''safe_id_invalid'', field @ ''.action_id'')]
      else defect_if (the_str v \<in> set seen) ''action_id_duplicate'' (field @ ''.action_id''))"

definition action_step ::
  "jdict \<Rightarrow> jdict pydict \<Rightarrow> jdict pydict \<Rightarrow> json \<Rightarrow> pystr \<Rightarrow> action_state \<Rightarrow> json \<Rightarrow> (defect list \<times> action_state) py" where
  "action_step contract approvals evidence proposal_risk field s action =
     (if \<not> is_dict action then Inr ([(''proposed_action_invalid'', field)], s)
      else
        (let a = the_obj action; operation = dget a ''operation''; action_id = dget a ''action_id'' in
         py_bind (in_str_set operation KNOWN_OPERATIONS) (\<lambda>known.
         py_bind (in_str_set (dget a ''risk_level'') RISK_LEVELS) (\<lambda>risk_known.
         py_bind (path_list ''action'' contract (field @ ''.affected_paths'') (dget a ''affected_paths'')) (\<lambda>(path_defects, paths).
         Inr (action_id_defects field (act_ids s) action_id @
              (if known then action_operation_defects contract field (the_str operation)
               else [(''action_operation_invalid'', field @ ''.operation'')]) @
              action_text_defects field a @ action_risk_defects proposal_risk risk_known field a @ path_defects @
              link_defects contract evidence field a @ command_defects contract approvals field a,
              \<lparr>act_ids = (if safe_id action_id then the_str action_id # act_ids s else act_ids s),
               act_operations = (if known then the_str operation # act_operations s else act_operations s),
               act_paths = paths @ act_paths s,
               act_changing = (act_changing s \<or> operation_in STATE_CHANGING_OPERATIONS operation \<or> dget a ''destructive'' = JBool True),
               act_warnings = act_warnings s @
                 defect_if (\<not> needs_approval approvals operation \<and> dget a ''requires_approval'' = JBool True)
                   ''non_sensitive_action_requires_approval'' (field @ ''.requires_approval'')\<rparr>))))))"

definition no_actions :: action_state where
  "no_actions = \<lparr>act_ids = [], act_operations = [], act_paths = [], act_changing = False, act_warnings = []\<rparr>"

definition validate_proposed_actions :: "jdict \<Rightarrow> jdict \<Rightarrow> jdict pydict \<Rightarrow> (defect list \<times> action_state) py" where
  "validate_proposed_actions proposal contract evidence =
     (let risk = dget proposal ''risk_level''; actions = dget proposal ''proposed_actions'' in
      py_bind (in_str_set risk RISK_LEVELS) (\<lambda>risk_known.
      py_bind (contract_approvals contract) (\<lambda>approvals.
      py_bind (numbered_steps (action_step contract approvals evidence (if risk_known then risk else JStr ''low'')) ''proposed_actions'' 0
        no_actions (list_value actions)) (\<lambda>(found, s).
      Inr (operation_set_defects contract @ defect_if (\<not> risk_known) ''proposal_risk_invalid'' ''risk_level'' @
           defect_if (\<not> nonempty_list actions) ''proposed_actions_invalid'' ''proposed_actions'' @ found, s)))))"

section \<open>Approvals\<close>

definition declared_defects :: "jdict pydict \<Rightarrow> pystr \<Rightarrow> pystr \<Rightarrow> jdict \<Rightarrow> defect list" where
  "declared_defects approvals field operation d =
     defect_if (\<not> approval_token (dget d ''approval_token'')) ''proposal_approval_token_invalid'' (field @ ''.approval_token'') @
     defect_if (\<not> nonblank_str (dget d ''reason'')) ''proposal_approval_reason_missing'' (field @ ''.reason'') @
     (case dict_get approvals operation of
        None \<Rightarrow> [(''approval_not_declared_by_contract'', field)]
      | Some c \<Rightarrow> defect_if (dget d ''approval_token'' \<noteq> dget c ''approval_token'') ''approval_token_mismatch'' (field @ ''.approval_token''))"

text \<open>The loop, with the approvals of the proposal accepted so far.\<close>

definition approval_step ::
  "jdict pydict \<Rightarrow> pystr list \<Rightarrow> pystr \<Rightarrow> jdict pydict \<Rightarrow> json \<Rightarrow> (defect list \<times> jdict pydict) py" where
  "approval_step approvals operations field declared item =
     (if \<not> is_dict item then Inr ([(''proposal_approval_invalid'', field)], declared)
      else
        (let d = the_obj item; operation = dget d ''operation'' in
         py_bind (in_str_set operation operations) (\<lambda>proposed.
         if \<not> proposed then Inr ([(''approval_operation_not_proposed'', field @ ''.operation'')], declared)
         else if dict_get declared (the_str operation) \<noteq> None then
           Inr ([(''proposal_approval_duplicate'', field @ ''.operation'')], declared)
         else Inr (declared_defects approvals field (the_str operation) d, dict_set declared (the_str operation) d))))"

definition validate_approval_requirements :: "jdict \<Rightarrow> jdict \<Rightarrow> pystr list \<Rightarrow> (defect list \<times> jdict pydict) py" where
  "validate_approval_requirements proposal contract operations =
     (let items = dget proposal ''approval_requirements'' in
      py_bind (contract_approvals contract) (\<lambda>approvals.
      py_bind (numbered_steps (approval_step approvals operations) ''approval_requirements'' 0 [] (list_value items)) (\<lambda>(found, declared).
      Inr (defect_if (\<not> is_list items) ''proposal_approvals_invalid'' ''approval_requirements'' @ found @
           map (\<lambda>_. (''sensitive_operation_not_approved_by_contract'', ''approval_requirements''))
             (filter (\<lambda>operation. dict_get approvals operation = None)
               (sorted_set (filter (\<lambda>operation. operation \<in> set SENSITIVE_OPERATIONS) operations))) @
           map (\<lambda>_. (''operation_without_declared_approval'', ''approval_requirements''))
             (filter (\<lambda>operation. dict_get declared operation = None)
               (sorted_set (filter (\<lambda>operation. operation \<in> set SENSITIVE_OPERATIONS \<or> dict_get approvals operation \<noteq> None) operations))),
           declared))))"

section \<open>Paths, links, review, rollback, authority\<close>

text \<open>An ill-formed list of paths is reported once; the loop over a list that is empty or none reports nothing.\<close>

definition validate_global_paths :: "jdict \<Rightarrow> jdict \<Rightarrow> (defect list \<times> pystr list) py" where
  "validate_global_paths proposal contract = path_list ''proposal'' contract ''affected_paths'' (dget proposal ''affected_paths'')"

definition index_step :: "pystr \<Rightarrow> nat \<Rightarrow> pystr \<Rightarrow> int list \<Rightarrow> json \<Rightarrow> (defect list \<times> int list) py" where
  "index_step name count field seen v =
     Inr (if \<not> index_below count v then ([(''proposal_link_index_invalid'', field)], seen)
          else (defect_if (the_int v \<in> set seen) ''proposal_link_duplicate'' field, the_int v # seen))"

definition index_links :: "jdict \<Rightarrow> jdict \<Rightarrow> pystr \<Rightarrow> pystr \<Rightarrow> defect list py" where
  "index_links proposal contract name contract_field =
     (let links = dget proposal name in
      if \<not> nonempty_list links then Inr [(''proposal_links_invalid'', name)]
      else py_bind (numbered_steps (index_step name (length (text_items (dget contract contract_field)))) name 0 [] (the_list links))
        (\<lambda>(found, _). Inr found))"

definition validate_index_links :: "jdict \<Rightarrow> jdict \<Rightarrow> defect list py" where
  "validate_index_links proposal contract =
     py_bind (index_links proposal contract ''acceptance_criteria_links'' ''acceptance_criteria'') (\<lambda>acceptance.
     py_bind (index_links proposal contract ''stop_trigger_links'' ''stop_triggers'') (\<lambda>triggers. Inr (acceptance @ triggers)))"

definition validate_review :: "jdict \<Rightarrow> jdict \<Rightarrow> defect list py" where
  "validate_review proposal contract =
     (let review = dget proposal ''review''; r = the_obj review; level = dget r ''level''; risk = dget proposal ''risk_level'';
          contract_review = dget contract ''review''; contract_level = dget (the_obj contract_review) ''level'';
          order = order_of REVIEW_LEVELS in
      if \<not> is_dict review then Inr [(''proposal_review_invalid'', ''review'')]
      else
        py_bind (in_str_set level REVIEW_LEVELS) (\<lambda>known.
        py_bind (if known \<and> is_dict contract_review then in_str_set contract_level REVIEW_LEVELS else Inr False) (\<lambda>comparable.
        Inr (defect_if (dget r ''required'' \<noteq> JBool True) ''proposal_review_not_required'' ''review.required'' @
             defect_if (\<not> known) ''proposal_review_level_invalid'' ''review.level'' @
             (if known \<and> is_dict contract_review
              then defect_if (comparable \<and> order level < order contract_level) ''proposal_review_below_contract'' ''review.level'' @
                   defect_if (risk = JStr ''high'' \<and> order level < order (JStr ''strict'')) ''high_risk_review_too_low'' ''review.level'' @
                   defect_if (risk = JStr ''critical'' \<and> level \<noteq> JStr ''critical'') ''critical_risk_review_too_low'' ''review.level''
              else []) @
             defect_if (\<not> nonempty_list (dget r ''reviewers'')) ''proposal_reviewers_invalid'' ''review.reviewers''))))"

definition rollback_list_defects :: "jdict \<Rightarrow> pystr \<Rightarrow> defect list" where
  "rollback_list_defects r k =
     (if \<not> is_list (dget r k) then [(''rollback_list_invalid'', ''rollback_plan.'' @ k)]
      else defect_if (k \<noteq> ''irreversible_actions'' \<and> the_list (dget r k) = []) ''rollback_list_empty'' (''rollback_plan.'' @ k))"

definition rollback_command_defects :: "jdict \<Rightarrow> json \<Rightarrow> defect list" where
  "rollback_command_defects r mode =
     (let v = dget r ''rollback_commands''; commands = list_value v; here = ''rollback_plan.rollback_commands'' in
      defect_if (\<not> is_list v) ''rollback_commands_invalid'' here @
      each (argv_defects True) here commands @
      defect_if (mode = JStr ''not_required'' \<and> commands \<noteq> []) ''rollback_commands_unexpected'' here @
      defect_if (mode = JStr ''command_proposal'' \<and> commands = []) ''rollback_commands_required'' here)"

definition validate_rollback :: "jdict \<Rightarrow> bool \<Rightarrow> defect list py" where
  "validate_rollback proposal state_changing =
     (let plan = dget proposal ''rollback_plan''; r = the_obj plan; mode = dget r ''mode''; authority = dget r ''authority'' in
      if \<not> is_dict plan then Inr [(''rollback_plan_invalid'', ''rollback_plan'')]
      else
        py_bind (in_str_set mode ROLLBACK_MODES) (\<lambda>known.
        if \<not> known then Inr [(''rollback_mode_invalid'', ''rollback_plan.mode'')]
        else Inr (
          defect_if (state_changing \<and> mode = JStr ''not_required'') ''rollback_required_for_state_change'' ''rollback_plan.mode'' @
          defect_if (mode = JStr ''irreversible'') ''irreversible_rollback_mode_blocked'' ''rollback_plan.mode'' @
          concat (map (rollback_list_defects r) [''affected_state'', ''pre_action_evidence'', ''success_checks'', ''failure_signals'',
            ''recovery_steps'', ''irreversible_actions'']) @
          defect_if (\<not> nonblank_str (dget r ''residual_risk'')) ''rollback_residual_risk_missing'' ''rollback_plan.residual_risk'' @
          defect_if (\<not> nonblank_str (dget r ''approval_owner'')) ''rollback_approval_owner_missing'' ''rollback_plan.approval_owner'' @
          rollback_command_defects r mode @
          (if is_dict authority
           then flag_defects ROLLBACK_AUTHORITY ''rollback_authority_flag_missing'' ''rollback_plan.authority.'' (the_obj authority)
           else [(''rollback_authority_invalid'', ''rollback_plan.authority'')]))))"

definition validate_authority :: "jdict \<Rightarrow> defect list" where
  "validate_authority proposal =
     (let authority = dget proposal ''authority'' in
      if is_dict authority then flag_defects PROPOSAL_AUTHORITY ''proposal_authority_flag_missing'' ''authority.'' (the_obj authority)
      else [(''proposal_authority_invalid'', ''authority'')])"

section \<open>The proposal\<close>

definition proposal_identity_defects :: "jdict \<Rightarrow> defect list" where
  "proposal_identity_defects p =
     map (\<lambda>f. (''required_field_missing'', f)) (filter (\<lambda>f. dict_get p f = None) (sort REQUIRED_FIELDS)) @
     defect_if (dget p ''schema_version'' \<noteq> JStr ''1.0.0'') ''schema_version_invalid'' ''schema_version'' @
     defect_if (dget p ''report_type'' \<noteq> JStr ''supervised_action_proposal'') ''report_type_invalid'' ''report_type'' @
     concat (map (\<lambda>f. defect_if (\<not> safe_id (dget p f)) ''safe_id_invalid'' f) [''proposal_id'', ''contract_id'', ''bundle_id'', ''mission_id'']) @
     concat (map (\<lambda>f. defect_if (\<not> nonblank_str (dget p f)) ''proposal_text_missing'' f) [''title'', ''rationale''])"

definition proposal_match_defects :: "jdict \<Rightarrow> jdict option \<Rightarrow> jdict option \<Rightarrow> defect list" where
  "proposal_match_defects p contract evidence =
     (case contract of None \<Rightarrow> [] | Some c \<Rightarrow>
        defect_if (\<not> py_eq (dget p ''contract_id'') (dget c ''contract_id'')) ''proposal_contract_id_mismatch'' ''contract_id'' @
        defect_if (\<not> py_eq (dget p ''mission_id'') (dget c ''mission_id'')) ''proposal_mission_id_mismatch'' ''mission_id'') @
     (case evidence of None \<Rightarrow> [] | Some e \<Rightarrow>
        defect_if (\<not> py_eq (dget p ''bundle_id'') (dget e ''bundle_id'')) ''proposal_bundle_id_mismatch'' ''bundle_id'')"

text \<open>The set of the normal affected paths, in the order of the proposal.\<close>

definition proposal_paths :: "jdict \<Rightarrow> pystr list" where
  "proposal_paths p = filter (\<lambda>path. path \<noteq> ''.'') (List.map_filter normalize_relative_path (list_value (dget p ''affected_paths'')))"

definition composed_defects :: "(pystr \<Rightarrow> repo_file) \<Rightarrow> jdict \<Rightarrow> jdict \<Rightarrow> jdict \<Rightarrow> (defect list \<times> action_state) py" where
  "composed_defects repo p contract evidence =
     py_bind (validate_evidence_bundle repo contract evidence (the_obj (dget p ''contract_reference''))) (\<lambda>(bundle_defects, evidence_by_id).
     py_bind (validate_global_paths p contract) (\<lambda>(path_defects, _).
     py_bind (validate_index_links p contract) (\<lambda>index_defects.
     py_bind (validate_review p contract) (\<lambda>review_defects.
     py_bind (validate_proposed_actions p contract evidence_by_id) (\<lambda>(action_defects, s).
     py_bind (validate_approval_requirements p contract (act_operations s)) (\<lambda>(approval_defects, _).
     Inr (bundle_defects @ path_defects @ index_defects @ review_defects @ action_defects @
          defect_if (set (proposal_paths p) \<noteq> set (act_paths s)) ''affected_path_union_mismatch'' ''affected_paths'' @ approval_defects,
          s)))))))"

record proposal_report =
  pr_blockers :: "defect list"
  pr_warnings :: "defect list"
  pr_contract :: reference
  pr_evidence :: reference
  pr_changing :: bool

definition validate_proposal :: "(pystr \<Rightarrow> repo_file) \<Rightarrow> jdict \<Rightarrow> proposal_report py" where
  "validate_proposal repo p =
     py_bind (validate_reference repo (dget p ''contract_reference'') ''contract_reference'' ''supervised_task_contract'') (\<lambda>(contract_defects, contract).
     py_bind (validate_reference repo (dget p ''evidence_bundle_reference'') ''evidence_bundle_reference'' ''supervised_task_evidence_bundle'')
       (\<lambda>(evidence_defects, evidence).
     py_bind (case (ref_payload contract, ref_payload evidence) of
         (Some c, Some e) \<Rightarrow> composed_defects repo p c e
       | _ \<Rightarrow> Inr ([], no_actions)) (\<lambda>(found, s).
     py_bind (validate_rollback p (act_changing s)) (\<lambda>rollback_defects.
     Inr \<lparr>pr_blockers = proposal_identity_defects p @ contract_defects @ evidence_defects @
              proposal_match_defects p (ref_payload contract) (ref_payload evidence) @ found @ rollback_defects @ validate_authority p,
          pr_warnings = act_warnings s, pr_contract = contract, pr_evidence = evidence, pr_changing = act_changing s\<rparr>))))"

definition proposal_state :: "proposal_report \<Rightarrow> pystr" where
  "proposal_state r = (if pr_blockers r = [] then ''proposed'' else ''blocked'')"

end
