(* ===== verification/Proposal_Safety.thy ===== *)
theory Proposal_Safety
  imports Action_Proposal
begin

text \<open>
  What a proposal without blockers has been checked for: its actions stay within the scope, the
  operations and the approvals of the contract, both references are bound to the files read, and the
  evidence covers the requirements of the contract.
\<close>

section \<open>Loops without defects\<close>

lemma defect_if_Nil [simp]: "defect_if b code field = [] \<longleftrightarrow> \<not> b"
  by (simp add: defect_if_def)

lemma flag_defects_Nil [simp]: "flag_defects ks code before d = [] \<longleftrightarrow> (\<forall>k \<in> set ks. dget d k = JBool True)"
  by (auto simp: flag_defects_def)

lemma each_Nil: "each report field xs = [] \<Longrightarrow> x \<in> set xs \<Longrightarrow> \<exists>f. report f x = []"
proof -
  assume e: "each report field xs = []" and "x \<in> set xs"
  then obtain n where "n < length xs" "xs ! n = x" by (auto simp: in_set_conv_nth)
  then have "(n, x) \<in> set (List.enumerate 0 xs)" by (simp add: in_set_enumerate_eq)
  with e show "\<exists>f. report f x = []" unfolding each_def by force
qed

text \<open>A loop that found nothing: every step found nothing, and what its steps keep holds at the end.\<close>

lemma numbered_steps_Cons_clean:
  "numbered_steps step field n s (x # xs) = Inr ([], s') \<longleftrightarrow>
     (\<exists>t. step (at field n) s x = Inr ([], t) \<and> numbered_steps step field (Suc n) t xs = Inr ([], s'))"
  by (simp add: case_prod_unfold)

lemma numbered_steps_clean:
  "numbered_steps step field n s xs = Inr ([], s') \<Longrightarrow> x \<in> set xs \<Longrightarrow> \<exists>f t t'. step f t x = Inr ([], t')"
proof (induction xs arbitrary: n s)
  case (Cons y ys)
  then show ?case unfolding numbered_steps_Cons_clean by auto
qed simp

lemma numbered_steps_keeps:
  assumes "numbered_steps step field n s xs = Inr ([], s')" and "P s"
    and "\<And>f t t' x. x \<in> set xs \<Longrightarrow> P t \<Longrightarrow> step f t x = Inr ([], t') \<Longrightarrow> P t'"
  shows "P s'"
  using assms
proof (induction xs arbitrary: n s)
  case (Cons y ys)
  from Cons.prems(1) obtain t where t: "step (at field n) s y = Inr ([], t)" "numbered_steps step field (Suc n) t ys = Inr ([], s')"
    unfolding numbered_steps_Cons_clean by blast
  show ?case
  proof (rule Cons.IH [OF t(2)])
    show "P t" using Cons.prems(3) [OF _ Cons.prems(2) t(1)] by simp
    show "\<And>f t t' x. x \<in> set ys \<Longrightarrow> P t \<Longrightarrow> step f t x = Inr ([], t') \<Longrightarrow> P t'" using Cons.prems(3) by (meson list.set_intros(2))
  qed
qed simp

lemma numbered_steps_reaches:
  assumes "numbered_steps step field n s xs = Inr ([], s')" and "x \<in> set xs"
    and "\<And>f t t'. step f t x = Inr ([], t') \<Longrightarrow> P t'"
    and "\<And>f t t' y. P t \<Longrightarrow> step f t y = Inr ([], t') \<Longrightarrow> P t'"
  shows "P s'"
  using assms(1,2)
proof (induction xs arbitrary: n s)
  case (Cons y ys)
  then obtain t where t: "step (at field n) s y = Inr ([], t)" "numbered_steps step field (Suc n) t ys = Inr ([], s')"
    unfolding numbered_steps_Cons_clean by blast
  show ?case
  proof (cases "x \<in> set ys")
    case True
    then show ?thesis using Cons.IH t(2) by blast
  next
    case False
    then have "P t" using Cons.prems(2) t(1) assms(3) by auto
    then show ?thesis using numbered_steps_keeps [OF t(2)] assms(4) by blast
  qed
qed simp

section \<open>Paths\<close>

definition scope_patterns :: "jdict \<Rightarrow> pystr \<Rightarrow> pystr list" where
  "scope_patterns contract k = text_items (dget (the_obj (dget contract ''scope'')) k)"

text \<open>A path is normal, public, and matches an allowed pattern of the contract and no blocked one.\<close>

definition path_within :: "jdict \<Rightarrow> json \<Rightarrow> bool" where
  "path_within contract raw \<longleftrightarrow>
     (\<exists>path. normalize_relative_path raw = Some path \<and> path \<noteq> ''.'' \<and> \<not> path_is_private path \<and>
        (\<exists>pattern \<in> set (scope_patterns contract ''allowed_paths''). path_matches_pattern pattern path) \<and>
        \<not> (\<exists>pattern \<in> set (scope_patterns contract ''blocked_paths''). path_matches_pattern pattern path))"

lemma path_allowed_within:
  "normalize_relative_path raw = Some path \<Longrightarrow> path \<noteq> ''.'' \<Longrightarrow> path_allowed_by_contract contract path = Allowed \<Longrightarrow> path_within contract raw"
  by (auto simp: path_allowed_by_contract_def path_within_def scope_patterns_def list_ex_iff Let_def split: if_splits)

lemma path_step_clean:
  "path_step kind contract field seen raw = Inr ([], seen') \<Longrightarrow>
     path_within contract raw \<and> normalize_relative_path raw \<in> Some ` set seen' \<and> set seen \<subseteq> set seen'"
  by (auto simp: path_step_def path_allowed_within split: option.splits if_splits scope_verdict.splits)

lemma path_list_clean:
  assumes "path_list kind contract field paths = Inr ([], seen)" and "raw \<in> set (list_value paths)"
  shows "path_within contract raw" "normalize_relative_path raw \<in> Some ` set seen"
proof -
  have n: "numbered_steps (path_step kind contract) field 0 [] (list_value paths) = Inr ([], seen)"
    using assms(1) by (auto simp: path_list_def)
  show "path_within contract raw" using numbered_steps_clean [OF n assms(2)] path_step_clean by blast
  show "normalize_relative_path raw \<in> Some ` set seen"
    by (rule numbered_steps_reaches [OF n assms(2)]) (use path_step_clean in blast)+
qed

section \<open>Approvals\<close>

lemma approvals_of_get:
  assumes "approvals_of m items = Inr m'" and "dict_get m' operation = Some c"
  shows "dict_get m operation = Some c \<or>
    JObj c \<in> set items \<and> dget c ''operation'' = JStr operation \<and> approval_token (dget c ''approval_token'')"
  using assms
proof (induction items arbitrary: m)
  case (Cons item items)
  show ?case
  proof (cases "is_dict item")
    case False
    then show ?thesis using Cons by auto
  next
    case True
    then obtain d where d: "item = JObj d" by (cases item) auto
    obtain known where k: "in_str_set (dget d ''operation'') KNOWN_OPERATIONS = Inr known" using Cons.prems d by (auto simp: Let_def)
    let ?m = "if known \<and> approval_token (dget d ''approval_token'') then dict_set m (the_str (dget d ''operation'')) d else m"
    have "approvals_of ?m items = Inr m'" using Cons.prems d k by (simp add: Let_def)
    from Cons.IH [OF this Cons.prems(2)] show ?thesis
      using k d by (cases "dget d ''operation''") (auto simp: in_str_set_def split: if_splits)
  qed
qed simp

lemma contract_approvals_get:
  "contract_approvals contract = Inr m \<Longrightarrow> dict_get m operation = Some c \<Longrightarrow>
     JObj c \<in> set (list_value (dget contract ''approval_requirements'')) \<and> dget c ''operation'' = JStr operation \<and>
     approval_token (dget c ''approval_token'')"
  unfolding contract_approvals_def using approvals_of_get [of "[]"] by fastforce

text \<open>The contract and the proposal declare an approval of the operation with the same token.\<close>

definition approval_declared :: "jdict \<Rightarrow> jdict \<Rightarrow> pystr \<Rightarrow> bool" where
  "approval_declared contract p operation \<longleftrightarrow>
     (\<exists>c d. JObj c \<in> set (list_value (dget contract ''approval_requirements'')) \<and> dget c ''operation'' = JStr operation \<and>
        approval_token (dget c ''approval_token'') \<and>
        JObj d \<in> set (list_value (dget p ''approval_requirements'')) \<and> dget d ''operation'' = JStr operation \<and>
        nonblank_str (dget d ''reason'') \<and> dget d ''approval_token'' = dget c ''approval_token'')"

definition declared_from :: "jdict pydict \<Rightarrow> json list \<Rightarrow> jdict pydict \<Rightarrow> bool" where
  "declared_from approvals items declared \<longleftrightarrow>
     (\<forall>operation d. dict_get declared operation = Some d \<longrightarrow>
        JObj d \<in> set items \<and> dget d ''operation'' = JStr operation \<and> (\<exists>f. declared_defects approvals f operation d = []))"

lemma approval_step_keeps:
  assumes "approval_step approvals operations field declared item = Inr ([], declared')"
    and "declared_from approvals items declared" and "item \<in> set items"
  shows "declared_from approvals items declared'"
proof -
  obtain d where d: "item = JObj d" using assms(1) by (cases item) (auto simp: approval_step_def)
  have o: "in_str_set (dget d ''operation'') operations = Inr True"
    using assms(1) d by (auto simp: approval_step_def Let_def split: if_splits)
  then obtain operation where s: "dget d ''operation'' = JStr operation"
    by (cases "dget d ''operation''") (auto simp: in_str_set_def split: if_splits)
  have "declared_defects approvals field operation d = []" "declared' = dict_set declared operation d"
    using assms(1) d o s by (auto simp: approval_step_def Let_def split: if_splits)
  with assms(2,3) d s show ?thesis unfolding declared_from_def by (auto split: if_splits)
qed

lemma approvals_clean:
  assumes v: "validate_approval_requirements p contract operations = Inr ([], declared)"
    and c: "contract_approvals contract = Inr approvals"
    and "operation \<in> set operations" and "operation \<in> set SENSITIVE_OPERATIONS \<or> dict_get approvals operation \<noteq> None"
  shows "approval_declared contract p operation"
proof -
  let ?items = "list_value (dget p ''approval_requirements'')"
  from v c have n: "numbered_steps (approval_step approvals operations) ''approval_requirements'' 0 [] ?items = Inr ([], declared)"
    and f: "\<forall>x \<in> set operations. x \<in> set SENSITIVE_OPERATIONS \<or> dict_get approvals x \<noteq> None \<longrightarrow> dict_get declared x \<noteq> None"
    unfolding validate_approval_requirements_def by (auto simp: Let_def sorted_set_def filter_empty_conv simp del: not_None_eq)
  have all: "declared_from approvals ?items declared"
    by (rule numbered_steps_keeps [OF n]) (auto intro: approval_step_keeps simp: declared_from_def [of _ _ "[]"])
  from f assms(3,4) obtain d where "dict_get declared operation = Some d" by auto
  with all obtain g where d: "JObj d \<in> set ?items" "dget d ''operation'' = JStr operation" "declared_defects approvals g operation d = []"
    unfolding declared_from_def by blast
  then obtain a where "dict_get approvals operation = Some a" "dget d ''approval_token'' = dget a ''approval_token''" "nonblank_str (dget d ''reason'')"
    by (auto simp: declared_defects_def split: option.splits)
  with d(1,2) contract_approvals_get [OF c] show ?thesis unfolding approval_declared_def by blast
qed

section \<open>Actions\<close>

text \<open>
  A word of a command that is not itself a shell operator and contains no substitution or control
  character. Words are looked at one by one: an operator inside a longer word (as in the third word of
  \<open>bash -c\<close> followed by a script) is not found, in the code as in the model.
\<close>

definition operator_free :: "json \<Rightarrow> bool" where
  "operator_free v \<longleftrightarrow> (\<exists>s. v = JStr s \<and> s \<noteq> [] \<and> s \<notin> set SHELL_META_TOKENS \<and>
     \<not> (\<exists>part \<in> {''$('', [CHR 0x60], [CHR 0x0A], [CHR 0x0D], [CHR 0x00]}. py_contains part s))"

definition action_within :: "jdict \<Rightarrow> jdict \<Rightarrow> json \<Rightarrow> bool" where
  "action_within contract p action \<longleftrightarrow>
     (\<exists>a operation. action = JObj a \<and> dget a ''operation'' = JStr operation \<and>
        operation \<in> set KNOWN_OPERATIONS \<and> operation \<in> set (contract_operations contract ''allowed'') \<and>
        operation \<notin> set (contract_operations contract ''blocked'') \<and>
        (operation \<in> set SENSITIVE_OPERATIONS \<longrightarrow> dget a ''requires_approval'' = JBool True \<and> approval_declared contract p operation) \<and>
        order_of RISK_LEVELS (dget a ''risk_level'') \<le> order_of RISK_LEVELS (dget p ''risk_level'') \<and>
        dget a ''irreversible'' \<noteq> JBool True \<and> dget a ''execution_status'' = JStr ''proposed_only'' \<and>
        (\<forall>raw \<in> set (list_value (dget a ''affected_paths'')). path_within contract raw \<and> normalize_relative_path raw \<in> Some ` set (proposal_paths p)) \<and>
        (normalize_relative_path (dget a ''working_directory'') = Some ''.'' \<or> path_within contract (dget a ''working_directory'')) \<and>
        (\<forall>token \<in> set (list_value (dget a ''command_argv'')). operator_free token))"

lemma token_defects_Nil: "token_defects field v = [] \<Longrightarrow> operator_free v"
  by (cases v) (auto simp: token_defects_def operator_free_def Let_def split: if_splits)

lemma argv_defects_Nil: "argv_defects needed field argv = [] \<Longrightarrow> v \<in> set (list_value argv) \<Longrightarrow> operator_free v"
  using token_defects_Nil each_Nil
  by (fastforce simp: argv_defects_def list_value_def nonempty_list_def split: if_splits)

lemma workdir_defects_Nil:
  "workdir_defects contract field raw = [] \<Longrightarrow> normalize_relative_path raw = Some ''.'' \<or> path_within contract raw"
  by (auto simp: workdir_defects_def path_allowed_within split: option.splits if_splits)

lemma action_step_clean:
  assumes "action_step contract approvals evidence risk field s action = Inr ([], s')"
  obtains a operation paths where
    "action = JObj a" "dget a ''operation'' = JStr operation" "operation \<in> set KNOWN_OPERATIONS"
    "act_operations s' = operation # act_operations s" "act_paths s' = paths @ act_paths s"
    "action_operation_defects contract field operation = []" "action_text_defects field a = []"
    "action_risk_defects risk True field a = []" "link_defects contract evidence field a = []" "command_defects contract approvals field a = []"
    "path_list ''action'' contract (field @ ''.affected_paths'') (dget a ''affected_paths'') = Inr ([], paths)"
proof -
  obtain a where a: "action = JObj a" using assms by (cases action) (auto simp: action_step_def)
  obtain known risk_known found paths where
    k: "in_str_set (dget a ''operation'') KNOWN_OPERATIONS = Inr known"
    and r: "in_str_set (dget a ''risk_level'') RISK_LEVELS = Inr risk_known"
    and p: "path_list ''action'' contract (field @ ''.affected_paths'') (dget a ''affected_paths'') = Inr (found, paths)"
    using assms a by (fastforce simp: action_step_def Let_def)
  note step = assms [unfolded a action_step_def, simplified, unfolded Let_def k r p, simplified]
  from step have "known" "found = []" by (auto split: if_splits)
  moreover from this k obtain operation where o: "dget a ''operation'' = JStr operation" "operation \<in> set KNOWN_OPERATIONS"
    by (cases "dget a ''operation''") (auto simp: in_str_set_def split: if_splits)
  moreover from step have "risk_known" by (auto simp: action_risk_defects_def Let_def split: if_splits)
  ultimately show thesis using that [OF a o] step p by auto
qed

lemma action_step_within:
  assumes "action_step contract approvals evidence (dget p ''risk_level'') field s action = Inr ([], s')"
    and "validate_approval_requirements p contract operations = Inr ([], declared)"
    and "contract_approvals contract = Inr approvals"
    and "set (act_operations s') \<subseteq> set operations" and "set (act_paths s') \<subseteq> set (proposal_paths p)"
  shows "action_within contract p action"
proof -
  obtain a operation paths where a: "action = JObj a" "dget a ''operation'' = JStr operation" "operation \<in> set KNOWN_OPERATIONS"
    and s: "act_operations s' = operation # act_operations s" "act_paths s' = paths @ act_paths s"
    and o: "action_operation_defects contract field operation = []" and t: "action_text_defects field a = []"
    and r: "action_risk_defects (dget p ''risk_level'') True field a = []" and c: "command_defects contract approvals field a = []"
    and l: "path_list ''action'' contract (field @ ''.affected_paths'') (dget a ''affected_paths'') = Inr ([], paths)"
    by (rule action_step_clean [OF assms(1)])
  have allowed: "operation \<in> set (contract_operations contract ''allowed'')" "operation \<notin> set (contract_operations contract ''blocked'')"
    using o by (auto simp: action_operation_defects_def)
  have risk: "order_of RISK_LEVELS (dget a ''risk_level'') \<le> order_of RISK_LEVELS (dget p ''risk_level'')" "dget a ''irreversible'' \<noteq> JBool True"
    using r by (auto simp: action_risk_defects_def Let_def)
  have status: "dget a ''execution_status'' = JStr ''proposed_only''" using t by (simp add: action_text_defects_def)
  have argv: "\<forall>token \<in> set (list_value (dget a ''command_argv'')). operator_free token"
    using c argv_defects_Nil by (auto simp: command_defects_def Let_def)
  have workdir: "normalize_relative_path (dget a ''working_directory'') = Some ''.'' \<or> path_within contract (dget a ''working_directory'')"
    using c workdir_defects_Nil by (auto simp: command_defects_def Let_def)
  have within: "\<forall>raw \<in> set (list_value (dget a ''affected_paths'')). path_within contract raw \<and> normalize_relative_path raw \<in> Some ` set (proposal_paths p)"
    using path_list_clean [OF l] s(2) assms(5) by fastforce
  have "operation \<in> set SENSITIVE_OPERATIONS \<longrightarrow> dget a ''requires_approval'' = JBool True"
    using c a(2) by (auto simp: command_defects_def Let_def needs_approval_def operation_in_def split: if_splits)
  moreover have "operation \<in> set SENSITIVE_OPERATIONS \<longrightarrow> approval_declared contract p operation"
    using approvals_clean [OF assms(2,3)] s(1) assms(4) by auto
  ultimately show ?thesis
    unfolding action_within_def using a allowed risk status argv workdir within by blast
qed

lemma validate_proposed_actions_clean:
  assumes "validate_proposed_actions p contract evidence = Inr ([], s)" and "action \<in> set (list_value (dget p ''proposed_actions''))"
  obtains approvals f t t' where "contract_approvals contract = Inr approvals"
    "action_step contract approvals evidence (dget p ''risk_level'') f t action = Inr ([], t')"
    "set (act_operations t') \<subseteq> set (act_operations s)" "set (act_paths t') \<subseteq> set (act_paths s)"
proof -
  let ?step = "\<lambda>approvals. action_step contract approvals evidence (dget p ''risk_level'')"
  obtain approvals where c: "contract_approvals contract = Inr approvals"
    and n: "numbered_steps (?step approvals) ''proposed_actions'' 0 no_actions (list_value (dget p ''proposed_actions'')) = Inr ([], s)"
    using assms(1) by (auto simp: validate_proposed_actions_def Let_def split: if_splits)
  have "\<exists>f t t'. ?step approvals f t action = Inr ([], t') \<and> set (act_operations t') \<subseteq> set (act_operations s) \<and>
      set (act_paths t') \<subseteq> set (act_paths s)"
  proof (rule numbered_steps_reaches [OF n assms(2)])
    fix f t t' y
    assume "\<exists>f' u u'. ?step approvals f' u action = Inr ([], u') \<and> set (act_operations u') \<subseteq> set (act_operations t) \<and>
        set (act_paths u') \<subseteq> set (act_paths t)"
      and y: "?step approvals f t y = Inr ([], t')"
    then obtain f' u u' where "?step approvals f' u action = Inr ([], u')" "set (act_operations u') \<subseteq> set (act_operations t)"
      "set (act_paths u') \<subseteq> set (act_paths t)" by blast
    moreover from y have "set (act_operations t) \<subseteq> set (act_operations t')" "set (act_paths t) \<subseteq> set (act_paths t')"
      by (auto elim!: action_step_clean)
    ultimately show "\<exists>f' u u'. ?step approvals f' u action = Inr ([], u') \<and> set (act_operations u') \<subseteq> set (act_operations t') \<and>
        set (act_paths u') \<subseteq> set (act_paths t')" by blast
  qed blast
  with c show thesis using that by blast
qed

section \<open>References and evidence\<close>

text \<open>A reference is bound to the file read: public, and with the digest the reference declares.\<close>

definition bound_to :: "(pystr \<Rightarrow> repo_file) \<Rightarrow> json \<Rightarrow> stored \<Rightarrow> bool" where
  "bound_to repo v contents \<longleftrightarrow>
     (\<exists>d path digest. v = JObj d \<and> normalize_relative_path (dget d ''path'') = Some path \<and> path \<noteq> ''.'' \<and> \<not> path_is_private path \<and>
        repo path = RepoFile (Some digest) contents \<and> dget d ''sha256'' = JStr digest)"

lemma resolve_repo_file_Resolved:
  "resolve_repo_file repo raw = Inr (Resolved path digest contents) \<longleftrightarrow>
     normalize_relative_path raw = Some path \<and> path \<noteq> ''.'' \<and> \<not> path_is_private path \<and> repo path = RepoFile digest contents"
  by (auto simp: resolve_repo_file_def split: option.splits repo_file.splits if_splits)

lemma sha256_file_Inr [simp]: "sha256_file digest = Inr s \<longleftrightarrow> digest = Some s"
  by (auto simp: sha256_file_def split: option.splits)

lemma read_reference_Some: "read_reference contents = Inr (Some payload) \<Longrightarrow> contents = Holds (JObj payload)"
proof (cases contents)
  case (Holds v)
  then show "read_reference contents = Inr (Some payload) \<Longrightarrow> contents = Holds (JObj payload)"
    by (cases v) (simp_all add: read_reference_def)
qed (simp_all add: read_reference_def)

lemma validate_reference_clean:
  assumes "validate_reference repo v field kind = Inr ([], ref)"
  obtains payload where "ref_payload ref = Some payload" "bound_to repo v (Holds (JObj payload))" "dget payload ''report_type'' = JStr kind"
proof -
  obtain d where d: "v = JObj d" using assms by (cases v) (auto simp: validate_reference_def)
  note step = assms [unfolded d validate_reference_def, simplified, unfolded Let_def]
  obtain resolution where r: "resolve_repo_file repo (dget d ''path'') = Inr resolution" using step by auto
  obtain path digest contents where res: "resolution = Resolved path digest contents" using step r by (cases resolution) auto
  obtain actual payload where "digest = Some actual" "read_reference contents = Inr (Some payload)" "dget d ''sha256'' = JStr actual"
    "ref_payload ref = Some payload" "dget payload ''report_type'' = JStr kind"
    using step r res by (auto split: option.splits if_splits)
  with r res d read_reference_Some show thesis
    by (intro that) (auto simp: bound_to_def resolve_repo_file_Resolved)
qed

lemma source_step_clean: "source_step repo field seen source = Inr ([], seen') \<Longrightarrow> \<exists>contents. bound_to repo source contents"
proof -
  assume s: "source_step repo field seen source = Inr ([], seen')"
  obtain d where d: "source = JObj d" using s by (cases source) (auto simp: source_step_def)
  note step = s [unfolded d source_step_def, simplified, unfolded Let_def]
  obtain resolution where r: "resolve_repo_file repo (dget d ''path'') = Inr resolution" using step by auto
  obtain path digest contents where res: "resolution = Resolved path digest contents" using step r by (cases resolution) auto
  obtain actual where "digest = Some actual" "dget d ''sha256'' = JStr actual" using step r res by (auto split: if_splits)
  with r res d show "\<exists>contents. bound_to repo source contents" by (auto simp: bound_to_def resolve_repo_file_Resolved)
qed

text \<open>An item of the bundle that satisfies a requirement, with sources that are bound to their files.\<close>

definition satisfies :: "(pystr \<Rightarrow> repo_file) \<Rightarrow> pystr list \<Rightarrow> int \<Rightarrow> json \<Rightarrow> bool" where
  "satisfies repo requirements i item \<longleftrightarrow>
     (\<exists>d. item = JObj d \<and> dget d ''requirement_index'' = JInt i \<and> 0 \<le> i \<and> i < int (length requirements) \<and>
        dget d ''requirement_text'' = JStr (requirements ! nat i) \<and> dget d ''status'' = JStr ''satisfied'' \<and>
        nonempty_list (dget d ''source_refs'') \<and>
        (\<forall>source \<in> set (list_value (dget d ''source_refs'')). \<exists>contents. bound_to repo source contents))"

lemma evidence_item_step_clean:
  assumes "evidence_item_step repo requirements field seen item = Inr ([], seen')"
  obtains i where "satisfies repo requirements i item" "set (seen_requirements seen') = insert i (set (seen_requirements seen))"
proof -
  obtain d where d: "item = JObj d" using assms by (cases item) (auto simp: evidence_item_step_def)
  note step = assms [unfolded d evidence_item_step_def, simplified, unfolded Let_def]
  obtain sources where n: "numbered_steps (source_step repo) (field @ ''.source_refs'') 0 (seen_sources seen) (list_value (dget d ''source_refs'')) = Inr ([], sources)"
    using step by auto
  have r: "requirement_defects requirements field (seen_requirements seen) d = []" and st: "dget d ''status'' = JStr ''satisfied''"
    and ne: "nonempty_list (dget d ''source_refs'')"
    using step by auto
  from r have ib: "index_below (length requirements) (dget d ''requirement_index'')" by (auto simp: requirement_defects_def Let_def split: if_splits)
  then obtain i where i: "dget d ''requirement_index'' = JInt i" "0 \<le> i" "i < int (length requirements)"
    by (cases "dget d ''requirement_index''") (auto simp: index_below_def)
  from r ib i have "dget d ''requirement_text'' = JStr (requirements ! nat i)" by (simp add: requirement_defects_def Let_def)
  moreover have "\<forall>source \<in> set (list_value (dget d ''source_refs'')). \<exists>contents. bound_to repo source contents"
    using numbered_steps_clean [OF n] source_step_clean by blast
  ultimately have "satisfies repo requirements i item" unfolding satisfies_def using d i st ne by blast
  moreover have "set (seen_requirements seen') = insert i (set (seen_requirements seen))" using step ib i by auto
  ultimately show thesis by (rule that)
qed

lemma validate_evidence_bundle_clean:
  assumes "validate_evidence_bundle repo contract evidence ref = Inr ([], by_id)"
    and "i < length (text_items (dget contract ''evidence_requirements''))"
  shows "\<exists>item \<in> set (list_value (dget evidence ''evidence_items'')). satisfies repo (text_items (dget contract ''evidence_requirements'')) (int i) item"
proof -
  let ?reqs = "text_items (dget contract ''evidence_requirements'')" and ?items = "list_value (dget evidence ''evidence_items'')"
  let ?start = "\<lparr>seen_items = [], seen_requirements = [], seen_sources = []\<rparr>"
  obtain seen where n: "numbered_steps (evidence_item_step repo ?reqs) ''evidence_bundle.evidence_items'' 0 ?start ?items = Inr ([], seen)"
    and all: "\<forall>j \<in> set (map int [0..<length ?reqs]). j \<in> set (seen_requirements seen)"
    using assms(1) unfolding validate_evidence_bundle_def Let_def by (auto simp: filter_empty_conv)
  have "\<forall>j \<in> set (seen_requirements seen). \<exists>item \<in> set ?items. satisfies repo ?reqs j item"
  proof (rule numbered_steps_keeps [OF n])
    fix f t t' item
    assume "item \<in> set ?items" "\<forall>j \<in> set (seen_requirements t). \<exists>item \<in> set ?items. satisfies repo ?reqs j item"
      and "evidence_item_step repo ?reqs f t item = Inr ([], t')"
    then show "\<forall>j \<in> set (seen_requirements t'). \<exists>item \<in> set ?items. satisfies repo ?reqs j item"
      by (auto elim!: evidence_item_step_clean)
  qed simp
  with all assms(2) show ?thesis by auto
qed

section \<open>Proposals without blockers\<close>

lemma py_bind_pair: "py_bind m (\<lambda>(x, y). f x y) = Inr z \<longleftrightarrow> (\<exists>x y. m = Inr (x, y) \<and> f x y = Inr z)"
  by (cases m) (auto simp: case_prod_unfold)

lemma validate_proposal_clean:
  assumes "validate_proposal repo p = Inr r" and "proposal_state r = ''proposed''"
  obtains contract evidence s where
    "bound_to repo (dget p ''contract_reference'') (Holds (JObj contract))"
    "bound_to repo (dget p ''evidence_bundle_reference'') (Holds (JObj evidence))"
    "composed_defects repo p contract evidence = Inr ([], s)"
proof -
  have none: "pr_blockers r = []" using assms(2) by (cases "pr_blockers r") (simp_all add: proposal_state_def)
  obtain contract_defects contract evidence_defects evidence found s rollback_defects where
    c: "validate_reference repo (dget p ''contract_reference'') ''contract_reference'' ''supervised_task_contract'' = Inr (contract_defects, contract)"
    and e: "validate_reference repo (dget p ''evidence_bundle_reference'') ''evidence_bundle_reference'' ''supervised_task_evidence_bundle'' =
      Inr (evidence_defects, evidence)"
    and f: "(case (ref_payload contract, ref_payload evidence) of (Some c, Some e) \<Rightarrow> composed_defects repo p c e | _ \<Rightarrow> Inr ([], no_actions)) =
      Inr (found, s)"
    and r: "r = \<lparr>pr_blockers = proposal_identity_defects p @ contract_defects @ evidence_defects @
              proposal_match_defects p (ref_payload contract) (ref_payload evidence) @ found @ rollback_defects @ validate_authority p,
          pr_warnings = act_warnings s, pr_contract = contract, pr_evidence = evidence, pr_changing = act_changing s\<rparr>"
    using assms(1) unfolding validate_proposal_def unfolding py_bind_pair unfolding py_bind_eq_Inr sum.inject by iprover
  have clean: "contract_defects = []" "evidence_defects = []" "found = []" using none r by simp_all
  obtain cp where cp: "ref_payload contract = Some cp" "bound_to repo (dget p ''contract_reference'') (Holds (JObj cp))"
    using c unfolding clean by (rule validate_reference_clean)
  obtain ep where ep: "ref_payload evidence = Some ep" "bound_to repo (dget p ''evidence_bundle_reference'') (Holds (JObj ep))"
    using e unfolding clean by (rule validate_reference_clean)
  have "composed_defects repo p cp ep = Inr ([], s)" using f unfolding cp(1) ep(1) clean by simp
  with cp(2) ep(2) show thesis by (rule that)
qed

lemma composed_clean:
  assumes "composed_defects repo p contract evidence = Inr ([], s)"
  obtains by_id declared where "validate_evidence_bundle repo contract evidence (the_obj (dget p ''contract_reference'')) = Inr ([], by_id)"
    "validate_proposed_actions p contract by_id = Inr ([], s)" "set (proposal_paths p) = set (act_paths s)"
    "validate_approval_requirements p contract (act_operations s) = Inr ([], declared)"
  proof -
  obtain b_defects by_id p_defects x i_defects r_defects a_defects s' d_defects declared where
    "validate_evidence_bundle repo contract evidence (the_obj (dget p ''contract_reference'')) = Inr (b_defects, by_id)"
    "validate_proposed_actions p contract by_id = Inr (a_defects, s')"
    "validate_approval_requirements p contract (act_operations s') = Inr (d_defects, declared)"
    and e: "(b_defects @ p_defects @ i_defects @ r_defects @ a_defects @
      defect_if (set (proposal_paths p) \<noteq> set (act_paths s')) ''affected_path_union_mismatch'' ''affected_paths'' @ d_defects, s') = ([], s)"
    using assms unfolding composed_defects_def unfolding py_bind_pair unfolding py_bind_eq_Inr unfolding split_paired_Ex prod.case py_bind_pair sum.inject by iprover
  moreover from e have "b_defects = []" "a_defects = []" "d_defects = []" "s' = s" "set (proposal_paths p) = set (act_paths s')" by simp_all
  ultimately show thesis using that by simp
qed

text \<open>
  C15: when a proposal is reported as \<open>proposed\<close>, its contract was read from a public file with the digest
  the proposal declares, there is at least one action, and every action stays within that contract: its
  operation is allowed and not blocked; a sensitive operation is flagged and has an approval that the
  contract and the proposal declare with the same token; every path it affects is among those of the
  proposal, is not private and matches an allowed pattern and no blocked one, and its working directory
  is the root or such a path. Its risk is bounded by the risk the proposal declares for itself (the risk
  of the contract is not read), and no word of its command, taken by itself, is a shell operator or holds
  a substitution or a control character (a script handed to a shell as one word is not looked into).
\<close>

theorem proposed_actions_within_contract:
  assumes "validate_proposal repo p = Inr r" and "proposal_state r = ''proposed''"
  shows "\<exists>contract. bound_to repo (dget p ''contract_reference'') (Holds (JObj contract)) \<and>
    nonempty_list (dget p ''proposed_actions'') \<and> (\<forall>action \<in> set (list_value (dget p ''proposed_actions'')). action_within contract p action)"
proof -
  obtain contract evidence s where b: "bound_to repo (dget p ''contract_reference'') (Holds (JObj contract))"
    and c: "composed_defects repo p contract evidence = Inr ([], s)"
    by (rule validate_proposal_clean [OF assms])
  obtain by_id declared where a: "validate_proposed_actions p contract by_id = Inr ([], s)" and paths: "set (proposal_paths p) = set (act_paths s)"
    and d: "validate_approval_requirements p contract (act_operations s) = Inr ([], declared)"
    by (rule composed_clean [OF c])
  have "action_within contract p action" if member: "action \<in> set (list_value (dget p ''proposed_actions''))" for action
  proof -
    obtain approvals f t t' where "contract_approvals contract = Inr approvals"
      "action_step contract approvals by_id (dget p ''risk_level'') f t action = Inr ([], t')"
      "set (act_operations t') \<subseteq> set (act_operations s)" "set (act_paths t') \<subseteq> set (act_paths s)"
      by (rule validate_proposed_actions_clean [OF a member])
    then show ?thesis using action_step_within d paths by blast
  qed
  moreover have "nonempty_list (dget p ''proposed_actions'')" using a by (auto simp: validate_proposed_actions_def Let_def)
  ultimately show ?thesis using b by blast
qed

text \<open>
  C19: the evidence of a proposal that is reported as \<open>proposed\<close> is complete: the contract and the bundle
  were read from public files with the declared digests, and every requirement of the contract has an item
  of the bundle that names it by index and by text, is satisfied, and has at least one source, all of whose
  sources are public files with the digests the item declares.
\<close>

theorem proposed_evidence_covers_requirements:
  assumes "validate_proposal repo p = Inr r" and "proposal_state r = ''proposed''"
  shows "\<exists>contract evidence. bound_to repo (dget p ''contract_reference'') (Holds (JObj contract)) \<and>
    bound_to repo (dget p ''evidence_bundle_reference'') (Holds (JObj evidence)) \<and>
    (\<forall>i < length (text_items (dget contract ''evidence_requirements'')).
       \<exists>item \<in> set (list_value (dget evidence ''evidence_items'')). satisfies repo (text_items (dget contract ''evidence_requirements'')) (int i) item)"
proof -
  obtain contract evidence s where "bound_to repo (dget p ''contract_reference'') (Holds (JObj contract))"
      "bound_to repo (dget p ''evidence_bundle_reference'') (Holds (JObj evidence))"
    and c: "composed_defects repo p contract evidence = Inr ([], s)"
    by (rule validate_proposal_clean [OF assms])
  moreover obtain by_id where "validate_evidence_bundle repo contract evidence (the_obj (dget p ''contract_reference'')) = Inr ([], by_id)"
    by (rule composed_clean [OF c])
  ultimately show ?thesis using validate_evidence_bundle_clean by blast
qed

section \<open>Patterns that block nothing\<close>

lemma drop_dot_slash_not: "drop_dot_slash s \<noteq> CHR ''.'' # CHR ''/'' # t"
  by (induction s rule: drop_dot_slash.induct) auto

lemma set_drop_dot_slash: "set (drop_dot_slash s) \<subseteq> set s"
  by (induction s rule: drop_dot_slash.induct) auto

lemma forward_slashes_id: "backslash \<notin> set s \<Longrightarrow> forward_slashes s = s"
  unfolding forward_slashes_def by (rule map_idI) auto

lemma forward_slashes_none: "backslash \<notin> set (forward_slashes s)"
  by (auto simp: forward_slashes_def backslash_def)

lemma normalize_relative_path_form:
  assumes "normalize_relative_path raw = Some path"
  shows "forward_slashes path = path" "path \<noteq> CHR ''.'' # CHR ''/'' # t"
proof -
  obtain s where s: "path = drop_dot_slash (forward_slashes s)"
    using assms by (auto simp: normalize_relative_path_def Let_def split: json.splits if_splits)
  then have "backslash \<notin> set path" using set_drop_dot_slash forward_slashes_none by blast
  then show "forward_slashes path = path" by (rule forward_slashes_id)
  show "path \<noteq> CHR ''.'' # CHR ''/'' # t" using s drop_dot_slash_not by simp
qed

lemma glob_match_Exactly: "glob_match (Exactly c # gs) s \<longleftrightarrow> (\<exists>t. s = c # t \<and> glob_match gs t)"
  by (cases s) (auto simp: accepts_def)

lemma dot_slash_no_match:
  assumes "normalize_relative_path raw = Some path" shows "\<not> path_matches_pattern (''./'' @ pattern) path"
proof -
  have "forward_slashes (''./'' @ pattern) = CHR ''.'' # CHR ''/'' # forward_slashes pattern"
    by (simp add: forward_slashes_def backslash_def)
  then show ?thesis
    using normalize_relative_path_form [OF assms]
    unfolding path_matches_pattern_def by (auto simp: glob_match_Exactly)
qed

definition with_blocked_paths :: "jdict \<Rightarrow> pystr list \<Rightarrow> jdict" where
  "with_blocked_paths contract patterns =
     dict_set contract ''scope'' (JObj (dict_set (the_obj (dget contract ''scope'')) ''blocked_paths'' (jstrs patterns)))"

lemma text_items_jstrs: "text_items (jstrs xs) = xs"
  by (induction xs) (simp_all add: text_items_def list_value_def jstrs_def)

text \<open>
  C39: a blocked path that is written from the current directory blocks nothing. The contract validator
  accepts and normalises such a spelling, but the proposal validator compares the pattern as it is written
  with normal paths: the verdict on every affected path is the one of a contract without these patterns.
\<close>

theorem dot_slash_blocks_nothing:
  assumes "normalize_relative_path raw = Some path"
  shows "path_allowed_by_contract (with_blocked_paths contract (map (\<lambda>pattern. ''./'' @ pattern) patterns @ others)) path =
    path_allowed_by_contract (with_blocked_paths contract others) path"
proof -
  have "list_ex (\<lambda>pattern. path_matches_pattern pattern path) (map (\<lambda>pattern. ''./'' @ pattern) patterns @ others) =
      list_ex (\<lambda>pattern. path_matches_pattern pattern path) others"
    using dot_slash_no_match [OF assms] by (auto simp: list_ex_iff simp del: append.simps)
  then show ?thesis
    unfolding path_allowed_by_contract_def with_blocked_paths_def Let_def
    by (simp add: text_items_jstrs dget_def del: append.simps)
qed

section \<open>Witnesses\<close>

definition demo_digest :: pystr where
  "demo_digest = replicate 64 (CHR ''a'')"

definition demo_scope_contract :: jdict where
  "demo_scope_contract =
     dict_set (dict_set demo_task_contract ''scope'' (JObj [(''allowed_paths'', jstrs [''docs/*'']), (''blocked_paths'', jstrs [''./docs/secret''])]))
       ''operations'' (JObj [(''allowed'', jstrs [''read_public_files'', ''git_push'']),
         (''blocked'', jstrs (filter (\<lambda>x. x \<notin> {''read_public_files'', ''git_push''}) KNOWN_OPERATIONS))])"

definition demo_reference :: "pystr \<Rightarrow> json" where
  "demo_reference path = JObj [(''path'', JStr path), (''sha256'', JStr demo_digest)]"

definition demo_bundle :: jdict where
  "demo_bundle = [
     (''schema_version'', JStr ''1.0.0''), (''report_type'', JStr ''supervised_task_evidence_bundle''), (''bundle_id'', JStr ''bundle-1''),
     (''contract_id'', JStr ''contract-1''), (''mission_id'', JStr ''mission.1''), (''contract_reference'', demo_reference ''contract.json''),
     (''evidence_items'', JList [JObj [(''evidence_id'', JStr ''item-1''), (''requirement_index'', JInt 0), (''requirement_text'', JStr ''log''),
        (''status'', JStr ''satisfied''),
        (''source_refs'', JList [JObj [(''source_id'', JStr ''log-1''), (''path'', JStr ''log.txt''), (''sha256'', JStr demo_digest)]])]]),
     (''unresolved'', JList []), (''claims'', JList []), (''findings'', JList []),
     (''authority'', JObj (map (\<lambda>k. (k, JBool True)) EVIDENCE_AUTHORITY))]"

definition demo_repository :: "pystr \<Rightarrow> repo_file" where
  "demo_repository path =
     (if path = ''contract.json'' then RepoFile (Some demo_digest) (Holds (JObj demo_scope_contract))
      else if path = ''evidence.json'' then RepoFile (Some demo_digest) (Holds (JObj demo_bundle))
      else if path = ''log.txt'' then RepoFile (Some demo_digest) NotJsonText else NoFile)"

definition demo_proposed_action :: json where
  "demo_proposed_action = JObj [
     (''action_id'', JStr ''push-1''), (''operation'', JStr ''git_push''), (''purpose'', JStr ''publish''), (''expected_effect'', JStr ''docs online''),
     (''execution_status'', JStr ''proposed_only''), (''risk_level'', JStr ''medium''), (''destructive'', JBool False),
     (''affected_paths'', jstrs [''docs/guide.md'']), (''evidence_ids'', jstrs [''item-1'']), (''acceptance_criteria'', JList [JInt 0]),
     (''command_argv'', jstrs [''git'', ''push'']), (''working_directory'', JStr ''.''), (''requires_approval'', JBool True)]"

definition demo_rollback :: json where
  "demo_rollback = JObj [
     (''mode'', JStr ''manual''), (''affected_state'', jstrs [''remote'']), (''pre_action_evidence'', jstrs [''log'']),
     (''success_checks'', jstrs [''online'']), (''failure_signals'', jstrs [''offline'']), (''recovery_steps'', jstrs [''revert'']),
     (''irreversible_actions'', JList []), (''residual_risk'', JStr ''cached pages''), (''approval_owner'', JStr ''ana''),
     (''rollback_commands'', JList []), (''authority'', JObj (map (\<lambda>k. (k, JBool True)) ROLLBACK_AUTHORITY))]"

definition demo_action_proposal :: jdict where
  "demo_action_proposal = [
     (''schema_version'', JStr ''1.0.0''), (''report_type'', JStr ''supervised_action_proposal''), (''proposal_id'', JStr ''proposal-1''),
     (''contract_reference'', demo_reference ''contract.json''), (''evidence_bundle_reference'', demo_reference ''evidence.json''),
     (''contract_id'', JStr ''contract-1''), (''bundle_id'', JStr ''bundle-1''), (''mission_id'', JStr ''mission.1''),
     (''title'', JStr ''Push''), (''rationale'', JStr ''docs are ready''), (''risk_level'', JStr ''high''),
     (''affected_paths'', jstrs [''docs/guide.md'']), (''proposed_actions'', JList [demo_proposed_action]),
     (''approval_requirements'', JList [JObj [(''operation'', JStr ''git_push''), (''approval_token'', JStr ''PUSH_DOCS''), (''reason'', JStr ''leaves'')]]),
     (''rollback_plan'', demo_rollback), (''acceptance_criteria_links'', JList [JInt 0]), (''stop_trigger_links'', JList [JInt 0]),
     (''review'', JObj [(''required'', JBool True), (''level'', JStr ''strict''), (''reviewers'', jstrs [''ana''])]),
     (''authority'', JObj (map (\<lambda>k. (k, JBool True)) PROPOSAL_AUTHORITY))]"

lemma demo_proposal_clean:
  "case validate_proposal demo_repository demo_action_proposal of Inl _ \<Rightarrow> False | Inr r \<Rightarrow> pr_blockers r = []"
  by code_simp

lemma demo_proposal_ready: "\<exists>r. validate_proposal demo_repository demo_action_proposal = Inr r \<and> proposal_state r = ''proposed''"
  using demo_proposal_clean by (auto simp: proposal_state_def split: sum.splits)

theorem proposed_actions_within_contract_witness:
  "\<exists>contract. bound_to demo_repository (dget demo_action_proposal ''contract_reference'') (Holds (JObj contract)) \<and>
    (\<forall>action \<in> set (list_value (dget demo_action_proposal ''proposed_actions'')). action_within contract demo_action_proposal action)"
  using demo_proposal_ready proposed_actions_within_contract [of demo_repository demo_action_proposal] by blast

theorem proposed_evidence_covers_requirements_witness:
  "\<exists>contract evidence. bound_to demo_repository (dget demo_action_proposal ''contract_reference'') (Holds (JObj contract)) \<and>
    bound_to demo_repository (dget demo_action_proposal ''evidence_bundle_reference'') (Holds (JObj evidence))"
  using demo_proposal_ready proposed_evidence_covers_requirements [of demo_repository demo_action_proposal] by blast

lemma demo_scope_contract_valid: "case validate_contract demo_scope_contract of Inl _ \<Rightarrow> False | Inr (blockers, _, _) \<Rightarrow> blockers = []"
  by code_simp

theorem dot_slash_blocks_nothing_witness:
  "(case validate_contract demo_scope_contract of Inl _ \<Rightarrow> False | Inr (blockers, _, _) \<Rightarrow> blockers = []) \<and>
   text_field (dget demo_scope_contract ''scope'') ''blocked_paths'' = [''./docs/secret''] \<and>
   path_allowed_by_contract (with_blocked_paths demo_scope_contract [''./docs/secret'']) ''docs/secret'' = Allowed"
proof (intro conjI)
  have n: "normalize_relative_path (JStr ''docs/secret'') = Some ''docs/secret''" by code_simp
  have "path_allowed_by_contract (with_blocked_paths demo_scope_contract []) ''docs/secret'' = Allowed" by code_simp
  then show "path_allowed_by_contract (with_blocked_paths demo_scope_contract [''./docs/secret'']) ''docs/secret'' = Allowed"
    using dot_slash_blocks_nothing [OF n, of demo_scope_contract "[''docs/secret'']" "[]"] by simp
  show "text_field (dget demo_scope_contract ''scope'') ''blocked_paths'' = [''./docs/secret'']" by code_simp
qed (rule demo_scope_contract_valid)

end
