(* ===== verification/Evidence_Handover.thy ===== *)
theory Evidence_Handover
  imports Task_Evidence Proposal_Safety
begin

text \<open>
  How the validators of contracts, of evidence and of proposals fit together: what a bundle that is
  ready for human review still needs before a proposal may rest on it, and where the two validators
  disagree on which paths are private.
\<close>

section \<open>Two loops over one list\<close>

text \<open>A loop that found nothing, and a second loop whose every step finds nothing where the first found nothing.\<close>

lemma numbered_steps_simulated:
  assumes "numbered_steps step f n s xs = Inr ([], s')" and "R s u"
    and "\<And>f g t t' u x. x \<in> set xs \<Longrightarrow> R t u \<Longrightarrow> step f t x = Inr ([], t') \<Longrightarrow> \<exists>u'. step' g u x = Inr ([], u') \<and> R t' u'"
  shows "\<exists>u'. numbered_steps step' g m u xs = Inr ([], u') \<and> R s' u'"
  using assms
proof (induction xs arbitrary: n m s u)
  case (Cons x xs)
  from Cons.prems(1) obtain t where t: "step (at f n) s x = Inr ([], t)" "numbered_steps step f (Suc n) t xs = Inr ([], s')"
    unfolding numbered_steps_Cons_clean by blast
  obtain u' where u': "step' (at g m) u x = Inr ([], u')" "R t u'"
    using Cons.prems(3) [OF _ Cons.prems(2) t(1)] by (meson list.set_intros(1))
  have "\<exists>v. numbered_steps step' g (Suc m) u' xs = Inr ([], v) \<and> R s' v"
  proof (rule Cons.IH [OF t(2) u'(2)])
    show "\<And>f g t t' u y. y \<in> set xs \<Longrightarrow> R t u \<Longrightarrow> step f t y = Inr ([], t') \<Longrightarrow> \<exists>u'. step' g u y = Inr ([], u') \<and> R t' u'"
      using Cons.prems(3) by (meson list.set_intros(2))
  qed
  with u'(1) show ?case unfolding numbered_steps_Cons_clean by blast
qed simp

lemma each_NilI: "(\<And>f x. x \<in> set xs \<Longrightarrow> report f x = []) \<Longrightarrow> each report field xs = []"
  unfolding each_def by (auto simp: in_set_enumerate_eq)

lemma each_defect_if_Nil: "each (\<lambda>field x. defect_if (P x) code field) field xs = [] \<longleftrightarrow> (\<forall>x \<in> set xs. \<not> P x)"
proof
  assume e: "each (\<lambda>field x. defect_if (P x) code field) field xs = []"
  show "\<forall>x \<in> set xs. \<not> P x" using each_Nil [OF e] by simp
qed (simp add: each_NilI)

section \<open>Evidence without defects\<close>

lemma new_id_defects_Nil:
  "new_id_defects code field seen v = [] \<longleftrightarrow> safe_id v \<and> the_str v \<notin> set seen"
  by (auto simp: new_id_defects_def)

lemma normalize_evidence_path_relative:
  "normalize_evidence_path raw = Some path \<Longrightarrow> normalize_relative_path raw = Some path \<and> path \<noteq> ''.''"
  by (auto simp: normalize_evidence_path_def normalize_relative_path_def Let_def split: json.splits if_splits)

lemma resolve_repo_path_Resolved:
  "resolve_repo_path repo raw = Inr (Resolved path digest contents) \<longleftrightarrow>
     normalize_evidence_path raw = Some path \<and> \<not> evidence_path_is_private path \<and> repo path = RepoFile digest contents"
  by (auto simp: resolve_repo_path_def split: option.splits repo_file.splits if_splits)

lemma bundle_source_step_clean:
  assumes "bundle_source_step repo field seen source = Inr ([], seen')"
  obtains d path digest contents where "source = JObj d" "safe_id (dget d ''source_id'')" "the_str (dget d ''source_id'') \<notin> set seen"
    "normalize_evidence_path (dget d ''path'') = Some path" "\<not> evidence_path_is_private path" "repo path = RepoFile (Some digest) contents"
    "dget d ''sha256'' = JStr digest" "sha256_text (JStr digest)" "seen' = the_str (dget d ''source_id'') # seen"
proof -
  obtain d where d: "source = JObj d" using assms by (cases source) (auto simp: bundle_source_step_def)
  note step = assms [unfolded d bundle_source_step_def, simplified, unfolded Let_def]
  obtain known resolution where r: "in_str_set (dget d ''source_type'') SOURCE_TYPES = Inr known" "resolve_repo_path repo (dget d ''path'') = Inr resolution"
    using step by auto
  obtain path digest contents where res: "resolution = Resolved path digest contents" using step r by (cases resolution) auto
  note step' = step [unfolded r res, simplified]
  obtain actual where a: "digest = Some actual" "dget d ''sha256'' = JStr actual" "sha256_text (JStr actual)"
      "new_id_defects ''source_id_duplicate'' (field @ ''.source_id'') seen (dget d ''source_id'') = []" "seen' = with_id (dget d ''source_id'') seen"
    using step' by (auto split: if_splits)
  with d r(2) res show thesis
    by (intro that) (auto simp: resolve_repo_path_Resolved new_id_defects_Nil with_id_def)
qed

lemma source_step_agrees:
  assumes "bundle_source_step repo f seen source = Inr ([], seen')"
    and "\<And>path. normalize_evidence_path (dget (the_obj source) ''path'') = Some path \<Longrightarrow> \<not> path_is_private path"
  shows "source_step repo g seen source = Inr ([], seen')"
proof -
  obtain d path digest contents where d: "source = JObj d" and i: "safe_id (dget d ''source_id'')" "the_str (dget d ''source_id'') \<notin> set seen"
    and p: "normalize_evidence_path (dget d ''path'') = Some path" and r: "repo path = RepoFile (Some digest) contents"
    and h: "dget d ''sha256'' = JStr digest" "sha256_text (JStr digest)" and s: "seen' = the_str (dget d ''source_id'') # seen"
    by (rule bundle_source_step_clean [OF assms(1)])
  have "resolve_repo_file repo (dget d ''path'') = Inr (Resolved path (Some digest) contents)"
    using assms(2) p r d normalize_evidence_path_relative [OF p] by (simp add: resolve_repo_file_Resolved)
  then show ?thesis using d i h s by (simp add: source_step_def Let_def identifier_defects_def sha256_file_def defect_if_def)
qed

lemma bundle_item_step_clean:
  assumes "bundle_item_step repo contract field s item = Inr ([], s')"
  obtains d sources where "item = JObj d"
    "new_id_defects ''evidence_id_duplicate'' (field @ ''.evidence_id'') (map fst (by_id s)) (dget d ''evidence_id'') = []"
    "mapping_defects (text_items (dget contract ''evidence_requirements'')) field (map fst (by_requirement s)) d = []"
    "source_list_defects field (dget d ''status'') (dget d ''source_refs'') = []"
    "numbered_steps (bundle_source_step repo) (field @ ''.source_refs'') 0 (source_ids s) (list_value (dget d ''source_refs'')) = Inr ([], sources)"
    "s' = record_item (length (text_items (dget contract ''evidence_requirements''))) field s d sources"
proof -
  obtain d where d: "item = JObj d" using assms by (cases item) (auto simp: bundle_item_step_def)
  note step = assms [unfolded d bundle_item_step_def, simplified, unfolded Let_def]
  from step show thesis using that [OF d] by auto
qed

lemma mapping_defects_Nil:
  assumes "mapping_defects requirements field mapped d = []"
  obtains i where "dget d ''requirement_index'' = JInt i" "0 \<le> i" "i < int (length requirements)" "i \<notin> set mapped"
    "dget d ''requirement_text'' = JStr (requirements ! nat i)"
proof -
  have "is_strict_int (dget d ''requirement_index'')" "index_below (length requirements) (dget d ''requirement_index'')"
    using assms by (auto simp: mapping_defects_def Let_def split: if_splits)
  then obtain i where "dget d ''requirement_index'' = JInt i" "0 \<le> i" "i < int (length requirements)"
    by (cases "dget d ''requirement_index''") (auto simp: index_below_def)
  then show thesis using assms that by (auto simp: mapping_defects_def index_below_def Let_def split: if_splits)
qed

lemma record_item_mapped:
  assumes "dget d ''requirement_index'' = JInt i" "0 \<le> i" "i < int count" "i \<notin> fst ` set (by_requirement s)"
  shows "by_requirement (record_item count field s d sources) = (i, d) # by_requirement s"
  using assms by (simp add: record_item_def Let_def index_below_def)

text \<open>In a run without defects, every item is the one mapped to its requirement.\<close>

definition mapped_item :: "nat \<Rightarrow> json \<Rightarrow> item_state \<Rightarrow> bool" where
  "mapped_item count item s \<longleftrightarrow> (\<exists>d i. item = JObj d \<and> i < count \<and> map_of (by_requirement s) (int i) = Some d)"

lemma bundle_item_step_maps:
  assumes "bundle_item_step repo contract field s item = Inr ([], s')"
  obtains i d where "item = JObj d" "i < length (text_items (dget contract ''evidence_requirements''))"
    "int i \<notin> fst ` set (by_requirement s)" "by_requirement s' = (int i, d) # by_requirement s"
proof -
  obtain d sources where d: "item = JObj d" and m: "mapping_defects (text_items (dget contract ''evidence_requirements'')) field (map fst (by_requirement s)) d = []"
    and s': "s' = record_item (length (text_items (dget contract ''evidence_requirements''))) field s d sources"
    by (rule bundle_item_step_clean [OF assms])
  obtain i where i: "dget d ''requirement_index'' = JInt i" "0 \<le> i" "i < int (length (text_items (dget contract ''evidence_requirements'')))"
    "i \<notin> set (map fst (by_requirement s))"
    by (rule mapping_defects_Nil [OF m])
  then have "by_requirement s' = (i, d) # by_requirement s" using s' record_item_mapped by simp
  with d i show thesis by (intro that [of d "nat i"]) auto
qed

lemma items_all_mapped:
  assumes "numbered_steps (bundle_item_step repo contract) f n s items = Inr ([], s')" and "item \<in> set items"
  shows "mapped_item (length (text_items (dget contract ''evidence_requirements''))) item s'"
proof (rule numbered_steps_reaches [OF assms])
  fix f t t' assume "bundle_item_step repo contract f t item = Inr ([], t')"
  then show "mapped_item (length (text_items (dget contract ''evidence_requirements''))) item t'"
    by (rule bundle_item_step_maps) (auto simp: mapped_item_def)
next
  fix f t t' y
  assume m: "mapped_item (length (text_items (dget contract ''evidence_requirements''))) item t"
    and y: "bundle_item_step repo contract f t y = Inr ([], t')"
  from y obtain j e where e: "int j \<notin> fst ` set (by_requirement t)" "by_requirement t' = (int j, e) # by_requirement t"
    by (rule bundle_item_step_maps)
  from m obtain d i where i: "item = JObj d" "i < length (text_items (dget contract ''evidence_requirements''))" "map_of (by_requirement t) (int i) = Some d"
    unfolding mapped_item_def by blast
  from i(3) e(1) have "i \<noteq> j" by (force dest: map_of_SomeD)
  with i e(2) show "mapped_item (length (text_items (dget contract ''evidence_requirements''))) item t'"
    unfolding mapped_item_def by auto
qed

lemma complete_is_satisfied:
  assumes "determine_evidence_state mapped count = ''complete''" and "i < count" and "map_of mapped (int i) = Some d"
  shows "dget d ''status'' = JStr ''satisfied''"
proof -
  let ?statuses = "List.map_filter (\<lambda>i. map_option (\<lambda>d. dget d ''status'') (map_of mapped (int i))) [0..<count]"
  have "list_all (\<lambda>s. s = JStr ''satisfied'') ?statuses"
    using assms(1) by (auto simp: determine_evidence_state_def Let_def split: if_splits)
  moreover have "dget d ''status'' \<in> set ?statuses"
    using assms(2,3) by (force simp: List.map_filter_def)
  ultimately show ?thesis by (simp add: list_all_iff)
qed

section \<open>Items under both validators\<close>

definition same_items :: "item_state \<Rightarrow> bundle_seen \<Rightarrow> bool" where
  "same_items s u \<longleftrightarrow> seen_items u = by_id s \<and> seen_requirements u = map fst (by_requirement s) \<and> seen_sources u = source_ids s"

definition public_sources :: "json \<Rightarrow> bool" where
  "public_sources item \<longleftrightarrow>
     (\<forall>source \<in> set (list_value (dget (the_obj item) ''source_refs'')). \<forall>path.
        normalize_relative_path (dget (the_obj source) ''path'') = Some path \<longrightarrow> \<not> path_is_private path)"

lemma sources_agree:
  assumes "numbered_steps (bundle_source_step repo) f n seen (list_value (dget d ''source_refs'')) = Inr ([], seen')"
    and "public_sources (JObj d)"
  shows "numbered_steps (source_step repo) g m seen (list_value (dget d ''source_refs'')) = Inr ([], seen')"
proof -
  have "\<exists>u. numbered_steps (source_step repo) g m seen (list_value (dget d ''source_refs'')) = Inr ([], u) \<and> seen' = u"
  proof (rule numbered_steps_simulated [OF assms(1)])
    fix f g t t' u x
    assume x: "x \<in> set (list_value (dget d ''source_refs''))" and "t = u" and s: "bundle_source_step repo f t x = Inr ([], t')"
    have "source_step repo g t x = Inr ([], t')"
    proof (rule source_step_agrees [OF s])
      fix path assume "normalize_evidence_path (dget (the_obj x) ''path'') = Some path"
      then have "normalize_relative_path (dget (the_obj x) ''path'') = Some path" using normalize_evidence_path_relative by blast
      with assms(2) x show "\<not> path_is_private path" unfolding public_sources_def by simp
    qed
    with \<open>t = u\<close> show "\<exists>u'. source_step repo g u x = Inr ([], u') \<and> t' = u'" by simp
  qed simp
  then show ?thesis by blast
qed

lemma dict_get_None_keys: "k \<notin> set (map fst d) \<Longrightarrow> dict_get d k = None"
  using dict_get_Some_in_keys [of d k] by (cases "dict_get d k") auto

lemma item_step_agrees:
  assumes "bundle_item_step repo contract f t item = Inr ([], t')" and "same_items t u"
    and "dget (the_obj item) ''status'' = JStr ''satisfied''" and "public_sources item"
  shows "\<exists>u'. evidence_item_step repo (text_items (dget contract ''evidence_requirements'')) g u item = Inr ([], u') \<and> same_items t' u'"
proof -
  let ?reqs = "text_items (dget contract ''evidence_requirements'')"
  obtain d sources where d: "item = JObj d"
    and i: "new_id_defects ''evidence_id_duplicate'' (f @ ''.evidence_id'') (map fst (by_id t)) (dget d ''evidence_id'') = []"
    and m: "mapping_defects ?reqs f (map fst (by_requirement t)) d = []"
    and l: "source_list_defects f (dget d ''status'') (dget d ''source_refs'') = []"
    and n: "numbered_steps (bundle_source_step repo) (f @ ''.source_refs'') 0 (source_ids t) (list_value (dget d ''source_refs'')) = Inr ([], sources)"
    and t': "t' = record_item (length ?reqs) f t d sources"
    by (rule bundle_item_step_clean [OF assms(1)])
  obtain k where k: "dget d ''requirement_index'' = JInt k" "0 \<le> k" "k < int (length ?reqs)" "k \<notin> set (map fst (by_requirement t))"
    "dget d ''requirement_text'' = JStr (?reqs ! nat k)"
    by (rule mapping_defects_Nil [OF m])
  have st: "dget d ''status'' = JStr ''satisfied''" using assms(3) d by simp
  with l have ne: "nonempty_list (dget d ''source_refs'')"
    by (cases "dget d ''source_refs''") (auto simp: source_list_defects_def nonempty_list_def list_value_def)
  have id: "safe_id (dget d ''evidence_id'')" "the_str (dget d ''evidence_id'') \<notin> set (map fst (by_id t))"
    using i by (simp_all add: new_id_defects_Nil)
  have s: "numbered_steps (source_step repo) (g @ ''.source_refs'') 0 (seen_sources u) (list_value (dget d ''source_refs'')) = Inr ([], sources)"
    using sources_agree [OF n] assms(2,4) d by (simp add: same_items_def)
  have ib: "index_below (length ?reqs) (dget d ''requirement_index'')" using k by (simp add: index_below_def)
  have found: "identifier_defects ''evidence_id'' (g @ ''.evidence_id'') (map fst (seen_items u)) (dget d ''evidence_id'') = []"
    using id assms(2) by (simp add: identifier_defects_def same_items_def)
  have reqs: "requirement_defects ?reqs g (seen_requirements u) d = []"
    using k ib assms(2) by (simp add: requirement_defects_def same_items_def Let_def)
  have "evidence_item_step repo ?reqs g u item = Inr ([],
      \<lparr>seen_items = dict_set (seen_items u) (the_str (dget d ''evidence_id'')) d, seen_requirements = k # seen_requirements u, seen_sources = sources\<rparr>)"
    using d s found reqs st ne ib k(1) by (simp add: evidence_item_step_def Let_def defect_if_def)
  moreover have "same_items t' \<lparr>seen_items = dict_set (seen_items u) (the_str (dget d ''evidence_id'')) d,
      seen_requirements = k # seen_requirements u, seen_sources = sources\<rparr>"
    using t' assms(2) id dict_get_None_keys [OF id(2)] record_item_mapped [of d k "length ?reqs" t f sources] k
    by (simp add: same_items_def) (simp add: record_item_def Let_def)
  ultimately show ?thesis by blast
qed

section \<open>The handover\<close>

definition handover_ready :: "jdict \<Rightarrow> bool" where
  "handover_ready b \<longleftrightarrow>
     (\<forall>claim \<in> set (list_value (dget b ''claims'')). dget (the_obj claim) ''status'' = JStr ''supported'') \<and>
     (\<forall>finding \<in> set (list_value (dget b ''findings'')). dget (the_obj finding) ''level'' \<noteq> JStr ''error'') \<and>
     (\<forall>item \<in> set (list_value (dget b ''evidence_items'')). public_sources item)"

lemma lawful_contract_defects: "lawful_contract contract \<Longrightarrow> contract_defects contract = []"
  unfolding lawful_contract_def lawful_review_def by (elim conjE exE) (simp add: contract_defects_def)

lemma validate_bundle_clean:
  assumes "validate_bundle repo b = Inr r" and "ready_for_human_review r" and "ref_payload (br_contract r) = Some contract"
  obtains s where "validate_evidence_items repo b contract = Inr ([], s)"
    "determine_evidence_state (by_requirement s) (length (text_items (dget contract ''evidence_requirements''))) = ''complete''"
    "bundle_field_defects b = []" "bundle_match_defects b contract = []"
    "validate_claims (dget b ''claims'') (by_id s) = Inr []" "validate_findings (dget b ''findings'') (by_id s) = Inr []"
    "validate_unresolved (dget b ''unresolved'') (length (text_items (dget contract ''evidence_requirements''))) ''complete'' = Inr []"
    "is_dict (dget b ''contract_reference'')"
proof -
  let ?n = "length (text_items (dget contract ''evidence_requirements''))"
  have ready: "br_blockers r = []" "br_state r = ''complete''" using assms(2) by (simp_all add: ready_for_human_review_def)
  obtain rd ref where v: "validate_contract_reference repo b = Inr (rd, ref)"
    using assms(1) unfolding validate_bundle_def py_bind_pair by blast
  note step = assms(1) [unfolded validate_bundle_def v, simplified]
  have ref: "br_contract r = ref" using step by (auto simp: Let_def)
  then have p: "ref_payload ref = Some contract" using assms(3) by simp
  note step' = step [unfolded p, simplified]
  from step' obtain found s cd fd ud where items: "validate_evidence_items repo b contract = Inr (found, s)"
    and parts: "validate_claims (dget b ''claims'') (by_id s) = Inr cd" "validate_findings (dget b ''findings'') (by_id s) = Inr fd"
      "validate_unresolved (dget b ''unresolved'') ?n (determine_evidence_state (by_requirement s) ?n) = Inr ud"
    and r: "br_state r = determine_evidence_state (by_requirement s) ?n"
      "br_blockers r = bundle_field_defects b @ rd @ (bundle_match_defects b contract @ found) @ cd @ fd @ ud"
    by (auto simp: Let_def)
  have none: "found = []" "cd = []" "fd = []" "ud = []" "rd = []" "bundle_field_defects b = []" "bundle_match_defects b contract = []"
    using r(2) ready(1) by simp_all
  have "is_dict (dget b ''contract_reference'')" using v none(5) by (auto simp: validate_contract_reference_def Let_def split: if_splits)
  then show thesis using that items parts r(1) ready(2) none by simp
qed

lemma claims_are_objects:
  assumes "validate_claims claims evidence = Inr []" shows "is_list claims" "claim \<in> set (the_list claims) \<Longrightarrow> is_dict claim"
proof -
  show l: "is_list claims" using assms by (auto simp: validate_claims_def split: if_splits)
  then obtain seen where n: "numbered_steps (claim_step evidence) ''claims'' 0 [] (the_list claims) = Inr ([], seen)"
    using assms by (auto simp: validate_claims_def)
  assume "claim \<in> set (the_list claims)"
  from numbered_steps_clean [OF n this] show "is_dict claim" by (cases "is_dict claim") (simp_all add: claim_step_def)
qed

lemma findings_are_objects:
  assumes "validate_findings findings evidence = Inr []" shows "is_list findings" "finding \<in> set (the_list findings) \<Longrightarrow> is_dict finding"
proof -
  show l: "is_list findings" using assms by (auto simp: validate_findings_def split: if_splits)
  then obtain seen where n: "numbered_steps (finding_step evidence) ''findings'' 0 [] (the_list findings) = Inr ([], seen)"
    using assms by (auto simp: validate_findings_def)
  assume "finding \<in> set (the_list findings)"
  from numbered_steps_clean [OF n this] show "is_dict finding" by (cases "is_dict finding") (simp_all add: finding_step_def)
qed

lemma bundle_lists_agree:
  assumes "validate_claims (dget b ''claims'') evidence = Inr []" and "validate_findings (dget b ''findings'') evidence' = Inr []"
    and "validate_unresolved (dget b ''unresolved'') n ''complete'' = Inr []"
  shows "bundle_list_defects b = [] \<longleftrightarrow>
    (\<forall>claim \<in> set (list_value (dget b ''claims'')). dget (the_obj claim) ''status'' = JStr ''supported'') \<and>
    (\<forall>finding \<in> set (list_value (dget b ''findings'')). dget (the_obj finding) ''level'' \<noteq> JStr ''error'')"
proof -
  have u: "is_list (dget b ''unresolved'')" "the_list (dget b ''unresolved'') = []"
    using assms(3) by (auto simp: validate_unresolved_def split: if_splits)
  note c = claims_are_objects [OF assms(1)] and f = findings_are_objects [OF assms(2)]
  have "(\<forall>claim \<in> set (the_list (dget b ''claims'')). \<not> (\<not> is_dict claim \<or> dget (the_obj claim) ''status'' \<noteq> JStr ''supported'')) \<longleftrightarrow>
      (\<forall>claim \<in> set (the_list (dget b ''claims'')). dget (the_obj claim) ''status'' = JStr ''supported'')"
    using c(2) by blast
  moreover have "(\<forall>finding \<in> set (the_list (dget b ''findings'')). \<not> (is_dict finding \<and> dget (the_obj finding) ''level'' = JStr ''error'')) \<longleftrightarrow>
      (\<forall>finding \<in> set (the_list (dget b ''findings'')). dget (the_obj finding) ''level'' \<noteq> JStr ''error'')"
    using f(2) by blast
  ultimately show ?thesis
    using u c(1) f(1) unfolding bundle_list_defects_def Let_def list_value_def by (simp only: each_defect_if_Nil simp_thms if_True append_is_Nil_conv if_False defect_if_Nil)
qed

lemma identities_agree:
  assumes "bundle_field_defects b = []" and "bundle_match_defects b contract = []" and "is_dict (dget b ''contract_reference'')"
    and "py_eq (dget (the_obj (dget b ''contract_reference'')) ''path'') (dget ref ''path'')"
    and "py_eq (dget (the_obj (dget b ''contract_reference'')) ''sha256'') (dget ref ''sha256'')"
  shows "bundle_identity_defects contract b ref = []"
proof -
  have "is_dict (dget b ''authority'')" "\<forall>k \<in> set EVIDENCE_AUTHORITY. dget (the_obj (dget b ''authority'')) k = JBool True"
    using assms(1) by (auto simp: bundle_field_defects_def split: if_splits)
  with assms(2-) show ?thesis by (simp add: bundle_identity_defects_def bundle_match_defects_def Let_def)
qed

lemma satisfies_public: "satisfies repo requirements i item \<Longrightarrow> public_sources item"
  by (fastforce simp: satisfies_def public_sources_def bound_to_def)

lemma validate_evidence_items_clean:
  assumes "validate_evidence_items repo b contract = Inr ([], s)"
  shows "numbered_steps (bundle_item_step repo contract) ''evidence_items'' 0
      \<lparr>by_id = [], by_requirement = [], source_ids = [], item_warnings = []\<rparr> (list_value (dget b ''evidence_items'')) = Inr ([], s)"
    and "nonempty_list (dget b ''evidence_items'')"
    and "\<forall>i \<in> set (map int [0..<length (text_items (dget contract ''evidence_requirements''))]). i \<in> fst ` set (by_requirement s)"
  using assms unfolding validate_evidence_items_def Let_def by (auto simp: filter_empty_conv)

text \<open>
  C20: what a bundle still needs. Let a bundle be ready for human review against a lawful contract, and let
  a proposal refer to the same contract file. Then the proposal validator accepts the bundle exactly when,
  moreover, every claim is supported, no finding is an error, and every source is public under the rules of
  that validator, which hold more paths private than those the bundle was checked with.
\<close>

theorem ready_bundle_supports_proposal_iff:
  assumes "validate_bundle repo b = Inr r" and "ready_for_human_review r"
    and "ref_payload (br_contract r) = Some contract" and "lawful_contract contract"
    and "py_eq (dget (the_obj (dget b ''contract_reference'')) ''path'') (dget ref ''path'')"
    and "py_eq (dget (the_obj (dget b ''contract_reference'')) ''sha256'') (dget ref ''sha256'')"
  shows "(\<exists>items. validate_evidence_bundle repo contract b ref = Inr ([], items)) \<longleftrightarrow> handover_ready b"
proof -
  let ?reqs = "text_items (dget contract ''evidence_requirements'')" and ?items = "list_value (dget b ''evidence_items'')"
  let ?start = "\<lparr>seen_items = [], seen_requirements = [], seen_sources = []\<rparr>"
  obtain s where i: "validate_evidence_items repo b contract = Inr ([], s)"
    and complete: "determine_evidence_state (by_requirement s) (length ?reqs) = ''complete''"
    and f: "bundle_field_defects b = []" "bundle_match_defects b contract = []"
    and p: "validate_claims (dget b ''claims'') (by_id s) = Inr []" "validate_findings (dget b ''findings'') (by_id s) = Inr []"
      "validate_unresolved (dget b ''unresolved'') (length ?reqs) ''complete'' = Inr []"
    and d: "is_dict (dget b ''contract_reference'')"
    by (rule validate_bundle_clean [OF assms(1-3)])
  note items = validate_evidence_items_clean [OF i] and lists = bundle_lists_agree [OF p]
  note identity = identities_agree [OF f d assms(5,6)] and lawful = lawful_contract_defects [OF assms(4)]
  show ?thesis
  proof
    assume "\<exists>seen. validate_evidence_bundle repo contract b ref = Inr ([], seen)"
    then obtain seen where n: "numbered_steps (evidence_item_step repo ?reqs) ''evidence_bundle.evidence_items'' 0 ?start ?items = Inr ([], seen)"
      and l: "bundle_list_defects b = []"
      unfolding validate_evidence_bundle_def Let_def by auto
    have "public_sources item" if member: "item \<in> set ?items" for item
      using numbered_steps_clean [OF n member] by (auto elim!: evidence_item_step_clean intro: satisfies_public)
    with l lists show "handover_ready b" unfolding handover_ready_def by blast
  next
    assume ready: "handover_ready b"
    have "\<exists>u. numbered_steps (evidence_item_step repo ?reqs) ''evidence_bundle.evidence_items'' 0 ?start ?items = Inr ([], u) \<and> same_items s u"
    proof (rule numbered_steps_simulated [OF items(1)])
      fix f g t t' u x
      assume x: "x \<in> set ?items" and same: "same_items t u" and step: "bundle_item_step repo contract f t x = Inr ([], t')"
      obtain e k where "x = JObj e" "k < length ?reqs" "map_of (by_requirement s) (int k) = Some e"
        using items_all_mapped [OF items(1) x] unfolding mapped_item_def by blast
      then have "dget (the_obj x) ''status'' = JStr ''satisfied''" using complete_is_satisfied [OF complete] by simp
      moreover have "public_sources x" using ready x unfolding handover_ready_def by blast
      ultimately show "\<exists>u'. evidence_item_step repo ?reqs g u x = Inr ([], u') \<and> same_items t' u'"
        by (rule item_step_agrees [OF step same])
    qed (simp add: same_items_def)
    then obtain u where u: "numbered_steps (evidence_item_step repo ?reqs) ''evidence_bundle.evidence_items'' 0 ?start ?items = Inr ([], u)"
      "same_items s u" by blast
    have "filter (\<lambda>i. i \<notin> set (seen_requirements u)) (map int [0..<length ?reqs]) = []"
      using items(3) u(2) by (simp add: filter_empty_conv same_items_def)
    moreover have "bundle_list_defects b = []" using lists ready unfolding handover_ready_def by blast
    ultimately show "\<exists>seen. validate_evidence_bundle repo contract b ref = Inr ([], seen)"
      unfolding validate_evidence_bundle_def Let_def u(1) lawful identity using items(2) by (simp add: defect_if_def)
  qed
qed

section \<open>Witnesses\<close>

definition demo_ready_bundle :: "pystr \<Rightarrow> jdict" where
  "demo_ready_bundle path = [
     (''schema_version'', JStr ''1.0.0''), (''report_type'', JStr ''supervised_task_evidence_bundle''), (''bundle_id'', JStr ''bundle-1''),
     (''contract_id'', JStr ''contract-1''), (''mission_id'', JStr ''mission.1''), (''contract_reference'', demo_reference ''contract.json''),
     (''evidence_items'', JList [JObj [(''evidence_id'', JStr ''item-1''), (''requirement_index'', JInt 0), (''requirement_text'', JStr ''log''),
        (''status'', JStr ''satisfied''), (''summary'', JStr ''the log''), (''related_acceptance_criteria'', JList [JInt 0]),
        (''related_operations'', jstrs [''git_push'']),
        (''source_refs'', JList [JObj [(''source_id'', JStr ''log-1''), (''source_type'', JStr ''file''), (''path'', JStr path), (''sha256'', JStr demo_digest)]])]]),
     (''claims'', JList [JObj [(''claim_id'', JStr ''claim-1''), (''statement'', JStr ''the build passed''), (''status'', JStr ''supported''),
        (''evidence_ids'', jstrs [''item-1''])]]),
     (''findings'', JList []), (''unresolved'', JList []), (''authority'', JObj (map (\<lambda>k. (k, JBool True)) EVIDENCE_AUTHORITY))]"

definition demo_secrets :: "pystr \<Rightarrow> repo_file" where
  "demo_secrets path = (if path = ''.env.local'' then RepoFile (Some demo_digest) NotJsonText else demo_repository path)"

lemma demo_ready_bundle_clean:
  "case validate_bundle demo_secrets (demo_ready_bundle ''log.txt'') of Inl _ \<Rightarrow> False
   | Inr r \<Rightarrow> ready_for_human_review r \<and> ref_payload (br_contract r) = Some demo_scope_contract"
  "case validate_bundle demo_secrets (demo_ready_bundle ''.env.local'') of Inl _ \<Rightarrow> False
   | Inr r \<Rightarrow> ready_for_human_review r \<and> ref_payload (br_contract r) = Some demo_scope_contract"
  by code_simp+

lemma demo_scope_contract_lawful: "lawful_contract demo_scope_contract"
  using demo_scope_contract_valid validate_contract_accepts [of demo_scope_contract] by (auto split: sum.splits prod.splits)

text \<open>A bundle that rests on a log passes; one that rests on an environment file is ready for review and is refused.\<close>

theorem ready_bundle_supports_proposal_iff_witness:
  "(\<exists>items. validate_evidence_bundle demo_secrets demo_scope_contract (demo_ready_bundle ''log.txt'') (the_obj (demo_reference ''contract.json'')) = Inr ([], items)) \<and>
   \<not> (\<exists>items. validate_evidence_bundle demo_secrets demo_scope_contract (demo_ready_bundle ''.env.local'') (the_obj (demo_reference ''contract.json'')) = Inr ([], items))"
proof -
  have e: "py_eq (dget (the_obj (dget (demo_ready_bundle path) ''contract_reference'')) k) (dget (the_obj (demo_reference ''contract.json'')) k)"
    if "k \<in> {''path'', ''sha256''}" for path k
    using that by (auto simp: demo_ready_bundle_def demo_reference_def)
  have iff: "(\<exists>items. validate_evidence_bundle demo_secrets demo_scope_contract (demo_ready_bundle path) (the_obj (demo_reference ''contract.json'')) = Inr ([], items)) \<longleftrightarrow>
      handover_ready (demo_ready_bundle path)"
    if "case validate_bundle demo_secrets (demo_ready_bundle path) of Inl _ \<Rightarrow> False
       | Inr r \<Rightarrow> ready_for_human_review r \<and> ref_payload (br_contract r) = Some demo_scope_contract" for path
    using that ready_bundle_supports_proposal_iff [OF _ _ _ demo_scope_contract_lawful e e] by (auto split: sum.splits)
  have "handover_ready (demo_ready_bundle ''log.txt'')"
  proof -
    have "normalize_relative_path (JStr ''log.txt'') = Some ''log.txt''" "\<not> path_is_private ''log.txt''" by code_simp+
    then show ?thesis by (simp add: handover_ready_def demo_ready_bundle_def public_sources_def list_value_def)
  qed
  moreover have "\<not> handover_ready (demo_ready_bundle ''.env.local'')"
  proof -
    have "normalize_relative_path (JStr ''.env.local'') = Some ''.env.local''" "path_is_private ''.env.local''" by code_simp+
    then show ?thesis by (simp add: handover_ready_def demo_ready_bundle_def public_sources_def list_value_def)
  qed
  ultimately show ?thesis using iff [OF demo_ready_bundle_clean(1)] iff [OF demo_ready_bundle_clean(2)] by blast
qed

end
