(* ===== verification/Spec2Isabelle.thy ===== *)
theory Spec2Isabelle
  imports Hokage Mission_History Continuity Execute_Plan Planner Followups Lifecycle_History Evidence_Handover
begin

text \<open>
  A verification library for Konoha, a supervised agent runtime written in Python
  (\<^verbatim>\<open>src/tools\<close>). A human states a task; the program plans it as assignments to external
  agents, validates the plan, asks for approval, runs the assignments one at a time behind gates,
  and keeps everything it decides in JSON files, so that a mission can be stopped, resumed and
  audited. Two runtimes share this design: \<^verbatim>\<open>konoha_v4\<close> (plans of assignments) and
  \<^verbatim>\<open>hokage_orchestrator\<close> (charters and queues of actions). Their correctness is about files and
  approvals: what is on disk, who approved what, and what may run after a crash or a rewrite.

  \<^bold>\<open>Conventions.\<close> A Python \<open>str\<close> is a \<open>string\<close> over U+0000 to U+00FF; a \<open>dict\<close> is an association
  list in insertion order with distinct keys; decoded JSON is the datatype \<open>json\<close>. A function that
  may raise returns a sum whose left side is the exception; diagnostics that a caller inspects are
  values, free text of messages is left out. What the world decides (the clock, the file system, Git,
  subprocesses, whether a write fails, what other processes do in between) is an argument of the
  definitions or a choice of a step relation, so a theorem holds for every behaviour of it. A file
  is the value that reading and decoding it yields, with separate cases for a missing file, an
  unreadable one and a text that is no JSON; the texts themselves are covered by round trips.

  \<^bold>\<open>Theories, in the order they build on each other.\<close>

  \<^item> \<open>Konoha_Prelude\<close>: exceptions, strings, dictionaries, and the locale \<open>kept\<close>, the interface by
    which every step relation below carries an invariant to its histories.
  \<^item> \<open>Sha256\<close>: \<^verbatim>\<open>hashlib.sha256\<close> on 32-bit words, with the origin of its constants and the format of
    its digests. \<open>Json\<close>, \<open>Json_Text\<close>: \<^verbatim>\<open>json.dumps\<close> and \<^verbatim>\<open>json.loads\<close>; the parser reads back
    what the printers write. \<open>Canonical_Json\<close>: key-sorted texts and digests.
  \<^item> \<open>Models\<close> (\<^verbatim>\<open>konoha_v4/models.py\<close>, \<^verbatim>\<open>registry.py\<close>), \<open>Demo\<close> (example plans).
  \<^item> \<open>Hokage\<close> (\<^verbatim>\<open>konoha_v4/hokage.py\<close>): plan validation, equivalent to a declarative notion of a
    lawful plan, including the structural constraints the human stated.
  \<^item> \<open>Assignment_Result\<close> (\<^verbatim>\<open>konoha_v4/executor.py\<close>): how the text a provider returns becomes
    evidence.
  \<^item> \<open>Execution_State\<close>, \<open>Executor\<close>, \<open>Mission_History\<close> (\<^verbatim>\<open>konoha_v4/executor.py\<close>): the persisted
    execution state, one resumable call under the execution lock with every effect it has on disk,
    and all histories of such calls, with crashes between any two effects. The theorems: providers
    run for a prefix of the plan, each task at most once; the state on disk is always valid; a gate
    needs a fresh approval; a stopped mission never runs again.
  \<^item> \<open>Required_Sources\<close> (\<^verbatim>\<open>required_sources.py\<close>): resolution of the sources an agent family
    requires, and the gate before each task. \<open>Execute_Plan\<close>: the all-or-nothing executor and the
    prompt of a task. \<open>Context_Acquisition\<close> (\<^verbatim>\<open>context_acquisition.py\<close>): which files planning may
    read. \<open>Planner\<close> (\<^verbatim>\<open>planner.py\<close>). \<open>Continuity\<close> (\<^verbatim>\<open>continuity.py\<close>): the append-only mission
    memory.
  \<^item> \<open>Skills\<close> (\<^verbatim>\<open>hokage_orchestrator/skill_runtime.py\<close>): the closed skill registry. \<open>Authority\<close>
    (\<^verbatim>\<open>hokage_orchestrator/authority.py\<close>): charter, decision and receipt, and the checkpoint every
    action passes. The theorems: an action that passes is within the charter and the human
    constraints; a later rewrite of any of the files is detected; approval establishes authority
    once.
  \<^item> \<open>Action_Queue\<close>, \<open>Queue_History\<close>, \<open>Queue_Runs\<close> (\<^verbatim>\<open>skill_runtime.py\<close>, class \<^verbatim>\<open>ActionQueue\<close>): the
    operations under the queue lock, all histories of concurrent and crashing processes, and their
    guarantees: the queue refines an abstract list of actions with fixed status edges, an action is
    dispatched at most once and only with approval and authority, and the outcome of a dispatch can
    always be recorded.
  \<^item> \<open>Mission_Intent\<close> (\<^verbatim>\<open>intent.py\<close>), \<open>Mission_Decision\<close> (\<^verbatim>\<open>mission_decision.py\<close>), \<open>Charter\<close>
    (\<^verbatim>\<open>charter.py\<close>), \<open>Mission_Proposal\<close> and \<open>Followups\<close> (\<^verbatim>\<open>run_conversational_hokage.py\<close>): from the
    words of a request to the decision, the charter, its approval and the queue, and the actions
    appended later. The theorems: which requests become missions, which provider they use, and that
    an approved proposal starts.
  \<^item> \<open>Lifecycle\<close>, \<open>Lifecycle_History\<close> (\<^verbatim>\<open>lifecycle.py\<close> and its callers): review, teachback and
    closure, and all dialogues over them, with writes that fail or are torn. The theorems: a mission
    is closed only after the whole sequence, and a mission in order can be closed.
  \<^item> \<open>Task_Contract\<close> (\<^verbatim>\<open>task_contract/validate_supervised_task_contract.py\<close>): the stand-alone validator of
    task contracts, equivalent to a declarative notion of a lawful contract, with its report and
    exit code.
  \<^item> \<open>Proposal_Evidence\<close>, \<open>Action_Proposal\<close>, \<open>Proposal_Safety\<close>
    (\<^verbatim>\<open>action_proposal/validate_supervised_action_proposal.py\<close>): the validator that holds a proposal of
    actions against its contract and its evidence bundle. The theorems: the actions of a proposal
    without blockers stay within the paths, the operations and the approvals of the contract, and below
    the risk the proposal declares for itself (the validator does not read the risk of the contract);
    its evidence covers the requirements of the contract by files with the declared digests; and which
    spelling of a blocked path is void.
  \<^item> \<open>Task_Evidence\<close> (\<^verbatim>\<open>task_evidence/validate_supervised_task_evidence.py\<close>): the validator of evidence
    bundles. \<open>Evidence_Handover\<close>: how the three validators fit together, namely what a bundle that is
    ready for human review still needs before a proposal may rest on it.

  \<^bold>\<open>Bounds and fuel.\<close> The JSON parser recurses on fuel, twice the length of the text plus two, of which
  every two calls consume a character; the round trips show that it suffices. Its nesting limit is
  a parameter, the interpreter's recursion limit, beyond which \<open>RecursionError\<close> is raised; an
  integer of more than 4300 digits raises \<open>ValueError\<close>, and any other fault \<open>JSONDecodeError\<close>. The
  acquisition loop and the search of producers terminate by measures. The queue lock's retry loop
  returns once its deadline has passed. The patterns of a contract's scope are split into stars,
  characters and classes by a recursion on the length of the text.

  \<^bold>\<open>Not modelled.\<close> Terminal dialogue and printing (\<^verbatim>\<open>konoha_v4/cli.py\<close>, the shells, the
  conversation loops, \<^verbatim>\<open>approval_summary\<close>, the interactive part of
  \<^verbatim>\<open>run_conversational_hokage.py\<close>): input and output around the operations modelled here. Subprocess
  calls of providers and of the beta runtime (\<^verbatim>\<open>provider_adapters.py\<close>, \<^verbatim>\<open>RuntimeBridge\<close>, the audit
  flow): their results are inputs. The private continuity record of \<^verbatim>\<open>hokage_orchestrator\<close>. The
  command lines of the proposal and evidence validators, which read a file, print the report and may
  write it. The other stand-alone tools under \<^verbatim>\<open>src/tools\<close> (release workflow, repository evidence,
  beta runtime, consoles and dashboards): separate programs, most of them wrappers of subprocesses and
  of file copies, that neither the two runtimes nor the validators modelled here import. Characters
  beyond U+00FF.
\<close>

end
